(* ===== verification/Prelude.thy ===== *)
theory Prelude
  imports Complex_Main "HOL-Library.List_Lexorder" "HOL-Library.Char_ord"
    "HOL-Library.Product_Lexorder" "HOL-Library.Option_ord" "HOL-Library.Sublist"
begin

text \<open>
  What every component shares: the exceptions of the program as values, sequencing of
  fallible steps, loops that stop at the first exception, the relational idioms of the
  coordinator's SQL (select, order by, limit, next row id) on lists of rows, and the
  preorder \<open>rows_evolve\<close> by which a table may change (rows keep their place, each one
  moves by a given relation, new rows go to the end).
\<close>

section \<open>Exceptions and fallible steps\<close>

text \<open>
  The Python exception classes the modelled code raises. \<open>IntegrityError\<close> is
  \<open>sqlite3.IntegrityError\<close> (the argument names the table whose constraint failed);
  \<open>LeaseConflictError\<close> is a subclass of \<open>CoordinatorError\<close> in the source.
\<close>

datatype error =
    ValueError string
  | KeyError string
  | TypeError string
  | CoordinatorError string
  | LeaseConflictError string
  | IntegrityError string
  | ElfInspectionError string
  | ZeroDivisionError string
  | RemoteApiError nat string string
  | RemoteWorkerError string
  | RuntimeError string
  | QueueCliError string
  | CellRunnerError string
  | CellResolutionError string
  | PathologicalCellError string
  | OSError string
  | RetentionError string
  | AssertionError string
  | AttributeError string

type_synonym 'a result = "error + 'a"

definition and_then :: "'a result \<Rightarrow> ('a \<Rightarrow> 'b result) \<Rightarrow> 'b result" where
  "and_then m f = (case m of Inl e \<Rightarrow> Inl e | Inr x \<Rightarrow> f x)"

definition require :: "bool \<Rightarrow> error \<Rightarrow> unit result" where
  "require b e = (if b then Inr () else Inl e)"

named_theorems results \<open>how a fallible step can have succeeded or failed\<close>

text \<open>In evaluation a step that has failed is not followed by the next one.\<close>

lemma and_then_case [code_unfold]: "and_then m f = (case m of Inl e \<Rightarrow> Inl e | Inr x \<Rightarrow> f x)"
  by (simp add: and_then_def)

lemma and_then_Inl [simp]: "and_then (Inl e) f = Inl e"
  by (simp add: and_then_def)

lemma and_then_Inr [simp]: "and_then (Inr x) f = f x"
  by (simp add: and_then_def)

lemma and_then_eq_Inr [results]:
  "and_then m f = Inr y \<longleftrightarrow> (\<exists>x. m = Inr x \<and> f x = Inr y)"
  by (cases m) auto

lemma and_then_eq_Inl:
  "and_then m f = Inl e \<longleftrightarrow> m = Inl e \<or> (\<exists>x. m = Inr x \<and> f x = Inl e)"
  by (cases m) auto

lemma require_eq_Inr [results]: "require b e = Inr u \<longleftrightarrow> b"
  by (simp add: require_def)

lemma require_eq_Inl: "require b e = Inl e' \<longleftrightarrow> \<not> b \<and> e' = e"
  by (auto simp: require_def)

lemma require_True [simp]: "require True e = Inr ()"
  by (simp add: require_def)

lemma require_False [simp]: "require False e = Inl e"
  by (simp add: require_def)

lemma and_then_cong [fundef_cong]:
  "m = m' \<Longrightarrow> (\<And>x. m' = Inr x \<Longrightarrow> f x = g x) \<Longrightarrow> and_then m f = and_then m' g"
  by (cases m') auto

text \<open>Taking a successful run apart, statement by statement.\<close>

lemma run_require: "and_then (require b e) (\<lambda>_. k) = Inr z \<Longrightarrow> (b \<Longrightarrow> k = Inr z \<Longrightarrow> P) \<Longrightarrow> P"
  by (cases b) simp_all

lemma run_pair:
  "and_then m (\<lambda>(x, y). f x y) = Inr z \<Longrightarrow> (\<And>x y. m = Inr (x, y) \<Longrightarrow> f x y = Inr z \<Longrightarrow> P) \<Longrightarrow> P"
  by (cases m) auto

lemma run_triple:
  "and_then m (\<lambda>((x, y), w). f x y w) = Inr z \<Longrightarrow>
   (\<And>x y w. m = Inr ((x, y), w) \<Longrightarrow> f x y w = Inr z \<Longrightarrow> P) \<Longrightarrow> P"
  by (cases m) auto

lemma run_step: "and_then m f = Inr z \<Longrightarrow> (\<And>x. m = Inr x \<Longrightarrow> f x = Inr z \<Longrightarrow> P) \<Longrightarrow> P"
  by (cases m) auto

lemma run_return: "Inr (x, y) = (Inr (v, w) :: error + _) \<Longrightarrow> (x = v \<Longrightarrow> y = w \<Longrightarrow> P) \<Longrightarrow> P"
  by simp

lemmas run_elims = run_require run_triple run_pair run_step run_return

text \<open>Decimal and lower-case hexadecimal text, as in an f-string.\<close>

fun digits :: "nat \<Rightarrow> nat \<Rightarrow> string" where
  "digits b n =
     (let d = n mod b; c = char_of (if d < 10 then 48 + d else 87 + d)
      in if n < b \<or> b < 2 then [c] else digits b (n div b) @ [c])"

declare digits.simps [simp del]

definition decimal :: "nat \<Rightarrow> string" where
  "decimal n = digits 10 n"

definition hex :: "nat \<Rightarrow> string" where
  "hex n = ''0x'' @ digits 16 n"

text \<open>A \<open>for\<close> loop over a state that stops at the first exception, and the list of results.\<close>

fun fold_result :: "('a \<Rightarrow> 's \<Rightarrow> 's result) \<Rightarrow> 'a list \<Rightarrow> 's \<Rightarrow> 's result" where
  "fold_result f [] s = Inr s"
| "fold_result f (x # xs) s = and_then (f x s) (fold_result f xs)"

fun map_result :: "('a \<Rightarrow> 'b result) \<Rightarrow> 'a list \<Rightarrow> 'b list result" where
  "map_result f [] = Inr []"
| "map_result f (x # xs) =
     and_then (f x) (\<lambda>y. and_then (map_result f xs) (\<lambda>ys. Inr (y # ys)))"

lemma fold_result_invariant:
  assumes "fold_result f xs s = Inr s'" and "P s"
    and "\<And>x s s'. x \<in> set xs \<Longrightarrow> P s \<Longrightarrow> f x s = Inr s' \<Longrightarrow> P s'"
  shows "P s'"
  using assms
proof (induction xs arbitrary: s)
  case Nil
  then show ?case by simp
next
  case (Cons x xs)
  from Cons.prems(1) obtain t where t: "f x s = Inr t" "fold_result f xs t = Inr s'"
    by (auto simp: results)
  have "P t" using Cons.prems(2) t(1) Cons.prems(3) [of x s t] by simp
  then show ?case using Cons.IH [OF t(2)] Cons.prems(3) by (meson list.set_intros(2))
qed

lemma fold_result_rel:
  assumes "fold_result f xs s = Inr s'" and "R s s" and "\<And>a b c. R a b \<Longrightarrow> R b c \<Longrightarrow> R a c"
    and "\<And>x s s'. x \<in> set xs \<Longrightarrow> f x s = Inr s' \<Longrightarrow> R s s'"
  shows "R s s'"
  using fold_result_invariant [OF assms(1), of "R s"] assms(2-4) by blast

text \<open>What each iteration establishes and no iteration undoes holds of all at the end.\<close>

lemma fold_result_each:
  assumes "fold_result f xs s = Inr s'"
    and est: "\<And>x s s'. x \<in> set xs \<Longrightarrow> f x s = Inr s' \<Longrightarrow> Q x s'"
    and keep: "\<And>x y s s'. x \<in> set xs \<Longrightarrow> y \<in> set xs \<Longrightarrow> Q y s \<Longrightarrow> f x s = Inr s' \<Longrightarrow> Q y s'"
  shows "\<forall>x\<in>set xs. Q x s'"
  using assms
proof (induction xs arbitrary: s)
  case Nil
  then show ?case by simp
next
  case (Cons x xs)
  from Cons.prems(1) obtain t where t: "f x s = Inr t" "fold_result f xs t = Inr s'"
    by (auto simp: results)
  have "Q x t" using Cons.prems(2) t(1) by simp
  with t(2) have "Q x s'"
  proof (rule fold_result_invariant)
    show "Q x v" if "y \<in> set xs" "Q x u" "f y u = Inr v" for y u v
      using Cons.prems(3) [of y x u v] that by simp
  qed
  moreover have "\<forall>y\<in>set xs. Q y s'"
  proof (rule Cons.IH [OF t(2)])
    show "Q y v" if "y \<in> set xs" "f y u = Inr v" for y u v
      using Cons.prems(2) [of y u v] that by simp
    show "Q z v" if "y \<in> set xs" "z \<in> set xs" "Q z u" "f y u = Inr v" for y z u v
      using Cons.prems(3) [of y z u v] that by simp
  qed
  ultimately show ?case by simp
qed

lemma map_result_length: "map_result f xs = Inr ys \<Longrightarrow> length ys = length xs"
  by (induction xs arbitrary: ys) (auto simp: results)

lemma map_result_nth:
  "map_result f xs = Inr ys \<Longrightarrow> i < length xs \<Longrightarrow> f (xs ! i) = Inr (ys ! i)"
proof (induction xs arbitrary: ys i)
  case Nil
  then show ?case by simp
next
  case (Cons x xs)
  then show ?case by (cases i) (auto simp: results)
qed

lemma map_result_all_Inr:
  "\<forall>x\<in>set xs. f x = Inr (g x) \<Longrightarrow> map_result f xs = Inr (map g xs)"
  by (induction xs) simp_all

lemma map_result_set: "map_result f xs = Inr ys \<Longrightarrow> y \<in> set ys \<longleftrightarrow> (\<exists>x\<in>set xs. f x = Inr y)"
  by (induction xs arbitrary: ys) (auto simp: results)

lemma map_result_eq:
  "(\<exists>ys. map_result f xs = Inr ys) \<longleftrightarrow> (\<forall>x\<in>set xs. \<exists>y. f x = Inr y)"
  by (induction xs) (auto simp: results)

lemma map_result_filter:
  assumes "map_result f xs = Inr ys" and "\<forall>x\<in>set xs. \<forall>y. f x = Inr y \<longrightarrow> P y = Q x"
  shows "length (filter P ys) = length (filter Q xs)"
  using assms by (induction xs arbitrary: ys) (auto simp: results)

section \<open>Queries on rows\<close>

definition order_by :: "('r \<Rightarrow> 'k :: linorder) \<Rightarrow> 'r list \<Rightarrow> 'r list" where
  "order_by key rows = sort_key key rows"

text \<open>\<open>AUTOINCREMENT\<close>: no table with such a key ever loses a row, so the next id is one
  more than the largest one present.\<close>

definition next_rowid :: "('r \<Rightarrow> int) \<Rightarrow> 'r list \<Rightarrow> int" where
  "next_rowid key rows = foldr (\<lambda>r m. max (key r) m) rows 0 + 1"

text \<open>\<open>COALESCE(MAX(x), 0)\<close>.\<close>

definition coalesce_max :: "int list \<Rightarrow> int" where
  "coalesce_max xs = (case xs of [] \<Rightarrow> 0 | x # ys \<Rightarrow> fold max ys x)"

lemma coalesce_max_ge: "x \<in> set xs \<Longrightarrow> x \<le> coalesce_max xs"
proof -
  have "x \<in> set ys \<or> x \<le> y \<Longrightarrow> x \<le> fold max ys y" for y ys
    by (induction ys arbitrary: y) (auto simp: le_max_iff_disj)
  then show "x \<in> set xs \<Longrightarrow> x \<le> coalesce_max xs"
    by (cases xs) (auto simp: coalesce_max_def)
qed

lemma set_order_by [simp]: "set (order_by key rows) = set rows"
  by (simp add: order_by_def)

lemma length_order_by [simp]: "length (order_by key rows) = length rows"
  by (simp add: order_by_def)

lemma sorted_order_by: "sorted (map key (order_by key rows))"
  by (simp add: order_by_def)

lemma order_by_eq_Nil [simp]: "order_by key rows = [] \<longleftrightarrow> rows = []"
  by (metis length_0_conv length_order_by)

lemma distinct_order_by [simp]: "distinct (map f (order_by key rows)) = distinct (map f rows)"
  by (simp add: order_by_def distinct_map)

lemma next_rowid_greater: "r \<in> set rows \<Longrightarrow> key r < next_rowid key rows"
proof -
  have "r \<in> set rows \<Longrightarrow> key r \<le> foldr (\<lambda>r m. max (key r) m) rows 0"
    by (induction rows) auto
  then show "r \<in> set rows \<Longrightarrow> key r < next_rowid key rows"
    by (simp add: next_rowid_def)
qed

lemma next_rowid_fresh: "next_rowid key rows \<notin> key ` set rows"
  by (auto dest: next_rowid_greater [of _ rows key])

lemma next_rowid_pos: "0 < next_rowid key rows"
proof -
  have "0 \<le> foldr (\<lambda>r m. max (key r) m) rows 0"
    by (induction rows) auto
  then show ?thesis by (simp add: next_rowid_def)
qed

text \<open>The first row of an ordered query is a least one.\<close>

lemma hd_order_by_least:
  assumes "rows \<noteq> []" and "r \<in> set rows"
  shows "key (hd (order_by key rows)) \<le> key r"
proof -
  let ?s = "order_by key rows"
  have "?s \<noteq> []" using assms(1) by simp
  moreover have "r \<in> set ?s" using assms(2) by simp
  moreover have "sorted (map key ?s)" by (rule sorted_order_by)
  ultimately show ?thesis by (cases ?s) auto
qed

lemma find_order_by_least:
  assumes f: "find P (order_by key rows) = Some r" and x: "x \<in> set rows" "P x"
  shows "key r \<le> key x"
proof -
  from f obtain i where i: "i < length (order_by key rows)" "order_by key rows ! i = r"
    "\<forall>j<i. \<not> P (order_by key rows ! j)"
    by (auto simp: find_Some_iff)
  from x(1) have "x \<in> set (order_by key rows)" by simp
  then obtain k where k: "k < length (order_by key rows)" "order_by key rows ! k = x"
    by (metis in_set_conv_nth)
  have "i \<le> k" using i(3) k(2) x(2) by (meson not_le)
  with k(1) have "map key (order_by key rows) ! i \<le> map key (order_by key rows) ! k"
    using sorted_order_by [of key rows] by (intro sorted_nth_mono) auto
  with i(1,2) k show ?thesis by simp
qed

lemma find_SomeD: "find P xs = Some x \<Longrightarrow> x \<in> set xs \<and> P x"
  by (auto simp: find_Some_iff)

lemma find_key_unique:
  "distinct (map key xs) \<Longrightarrow> x \<in> set xs \<Longrightarrow> find (\<lambda>y. key y = key x) xs = Some x"
  by (induction xs) (auto simp: image_iff)

lemma filter_key_unique:
  "distinct (map key xs) \<Longrightarrow> x \<in> set xs \<Longrightarrow> filter (\<lambda>y. key y = key x) xs = [x]"
proof (induction xs)
  case (Cons y ys)
  show ?case
  proof (cases "key y = key x")
    case True
    with Cons.prems have "y = x" "filter (\<lambda>y. key y = key x) ys = []"
      by (auto simp: filter_empty_conv) (metis image_eqI)+
    then show ?thesis by simp
  next
    case False
    with Cons show ?thesis by auto
  qed
qed simp

lemma distinct_map_inj: "distinct (map f xs) \<Longrightarrow> x \<in> set xs \<Longrightarrow> y \<in> set xs \<Longrightarrow> f x = f y \<Longrightarrow> x = y"
  by (auto simp: distinct_map inj_on_def)

text \<open>
  A loop over a snapshot \<open>rs\<close> of rows of a table \<open>T s\<close>, each iteration rewriting the row
  with its key: together the iterations rewrite exactly the rows of the snapshot.
\<close>

lemma fold_result_rows:
  assumes "fold_result f rs s = Inr s'"
    and "I s" and "set rs \<subseteq> set (T s)" and "distinct (map key rs)"
    and "\<And>r s s'. f r s = Inr s' \<Longrightarrow> I s \<Longrightarrow> r \<in> set (T s) \<Longrightarrow> r \<in> set rs \<Longrightarrow>
           I s' \<and> T s' = map (\<lambda>y. if key y = key r then g y else y) (T s)"
    and "\<And>y. key (g y) = key y"
  shows "I s' \<and> T s' = map (\<lambda>y. if key y \<in> key ` set rs then g y else y) (T s)"
  using assms(1-5)
proof (induction rs arbitrary: s)
  case Nil
  then show ?case by simp
next
  case (Cons r rs)
  from Cons.prems(1) obtain t where t: "f r s = Inr t" "fold_result f rs t = Inr s'"
    by (auto simp: results)
  have step: "I t" "T t = map (\<lambda>y. if key y = key r then g y else y) (T s)"
    using Cons.prems(5) [OF t(1) Cons.prems(2)] Cons.prems(3) by auto
  have sub: "set rs \<subseteq> set (T t)"
  proof
    fix x assume x: "x \<in> set rs"
    then have "key x \<in> key ` set rs" by (rule imageI)
    moreover have "key r \<notin> key ` set rs" using Cons.prems(4) by auto
    ultimately have "key x \<noteq> key r" by metis
    moreover have "x \<in> set (T s)" using x Cons.prems(3) by auto
    ultimately show "x \<in> set (T t)" unfolding step(2) by force
  qed
  have "I s' \<and> T s' = map (\<lambda>y. if key y \<in> key ` set rs then g y else y) (T t)"
    by (rule Cons.IH [OF t(2) step(1) sub]) (use Cons.prems(4,5) in auto)
  moreover have "key r \<notin> key ` set rs" using Cons.prems(4) by auto
  ultimately show ?case
    by (auto simp: step(2) assms(6))
qed

section \<open>How a table may change\<close>

text \<open>
  \<open>rows_evolve R xs ys\<close>: every row of \<open>xs\<close> is still at its place in \<open>ys\<close>, moved by
  \<open>R\<close>, and the other rows of \<open>ys\<close> were added at the end.
\<close>

definition rows_evolve :: "('r \<Rightarrow> 'r \<Rightarrow> bool) \<Rightarrow> 'r list \<Rightarrow> 'r list \<Rightarrow> bool" where
  "rows_evolve R xs ys \<longleftrightarrow> (\<exists>us vs. ys = us @ vs \<and> list_all2 R xs us)"

lemma rows_evolve_refl [simp]: "(\<And>x. R x x) \<Longrightarrow> rows_evolve R xs xs"
  unfolding rows_evolve_def by (intro exI [of _ xs] exI [of _ "[]"]) (auto intro: list.rel_refl)

lemma rows_evolve_trans:
  assumes "\<And>a b c. R a b \<Longrightarrow> R b c \<Longrightarrow> R a c"
    and "rows_evolve R xs ys" and "rows_evolve R ys zs"
  shows "rows_evolve R xs zs"
proof -
  from assms(2) obtain us vs where 1: "ys = us @ vs" "list_all2 R xs us"
    by (auto simp: rows_evolve_def)
  with assms(3) obtain us' ws where 2: "zs = us' @ ws" "list_all2 R (us @ vs) us'"
    by (auto simp: rows_evolve_def)
  then obtain a b where 3: "us' = a @ b" "list_all2 R us a"
    by (auto simp: list_all2_append1)
  have "list_all2 R xs a" using list_all2_trans [OF assms(1) 1(2) 3(2)] .
  then show ?thesis
    unfolding rows_evolve_def using 2(1) 3(1) by (intro exI [of _ a] exI [of _ "b @ ws"]) simp
qed

lemma rows_evolve_append [simp]: "(\<And>x. R x x) \<Longrightarrow> rows_evolve R xs (xs @ ys)"
  unfolding rows_evolve_def by (auto intro: list.rel_refl)

lemma rows_evolve_map:
  "(\<And>x. x \<in> set xs \<Longrightarrow> R x (f x)) \<Longrightarrow> rows_evolve R xs (map f xs)"
  unfolding rows_evolve_def
  by (intro exI [of _ "map f xs"] exI [of _ "[]"]) (auto simp: list_all2_conv_all_nth)

lemma rows_evolve_in:
  "rows_evolve R xs ys \<Longrightarrow> x \<in> set xs \<Longrightarrow> \<exists>y \<in> set ys. R x y"
  unfolding rows_evolve_def by (fastforce simp: list_all2_conv_all_nth in_set_conv_nth)

lemma rows_evolve_eq_prefix: "rows_evolve (=) xs ys \<longleftrightarrow> prefix xs ys"
  by (auto simp: rows_evolve_def prefix_def list.rel_eq)

lemma rows_evolve_length: "rows_evolve R xs ys \<Longrightarrow> length xs \<le> length ys"
  by (auto simp: rows_evolve_def dest: list_all2_lengthD)

lemma rows_evolve_mono:
  "rows_evolve R xs ys \<Longrightarrow> (\<And>x y. R x y \<Longrightarrow> S x y) \<Longrightarrow> rows_evolve S xs ys"
  unfolding rows_evolve_def by (metis list_all2_mono)

end
