(* ===== verification/Json_Values.thy ===== *)
theory Json_Values
  imports Prelude
begin

text \<open>
  The Python values that cross the program's JSON and TOML boundaries, and
  \<open>_canonical_json\<close> of src/fidb_poc/coordinator.py.  A stored JSON text is represented by
  the document it denotes with its keys sorted: \<open>json.dumps(sort_keys=True)\<close> is injective on
  those and \<open>json.loads\<close> gives the document back, so two texts are equal iff the
  normalised documents are.  \<open>JOpaque\<close> stands for a value \<open>json.dumps\<close> refuses (a
  non-finite float under \<open>allow_nan=False\<close>, or an object that is no JSON value).
\<close>

datatype json =
    JNull
  | JBool bool
  | JInt int
  | JFloat rat
  | JStr string
  | JArr "json list"
  | JObj "(string \<times> json) list"
  | JOpaque

text \<open>\<open>dict.get\<close>: \<open>None\<close> where the value is no dict or has no such key.\<close>

fun jget :: "json \<Rightarrow> string \<Rightarrow> json option" where
  "jget (JObj kvs) k = map_of kvs k"
| "jget _ k = None"

definition is_object :: "json \<Rightarrow> bool" where
  "is_object v = (case v of JObj _ \<Rightarrow> True | _ \<Rightarrow> False)"

definition opt_str :: "string option \<Rightarrow> json" where
  "opt_str s = (case s of None \<Rightarrow> JNull | Some t \<Rightarrow> JStr t)"

definition opt_float :: "rat option \<Rightarrow> json" where
  "opt_float s = (case s of None \<Rightarrow> JNull | Some t \<Rightarrow> JFloat t)"

definition opt_int :: "int option \<Rightarrow> json" where
  "opt_int s = (case s of None \<Rightarrow> JNull | Some t \<Rightarrow> JInt t)"

definition opt_json :: "json option \<Rightarrow> json" where
  "opt_json s = (case s of None \<Rightarrow> JNull | Some t \<Rightarrow> t)"

text \<open>Python's \<open>str\<close> of a column that may be NULL.\<close>

definition str_of :: "string option \<Rightarrow> string" where
  "str_of s = (case s of None \<Rightarrow> ''None'' | Some t \<Rightarrow> t)"

lemma str_of_Some [simp]: "str_of (Some t) = t"
  by (simp add: str_of_def)

text \<open>Which values \<open>json.dumps\<close> accepts, and the normal form with sorted keys.\<close>

primrec serializable :: "json \<Rightarrow> bool" where
  "serializable JNull = True"
| "serializable (JBool b) = True"
| "serializable (JInt n) = True"
| "serializable (JFloat x) = True"
| "serializable (JStr s) = True"
| "serializable (JArr xs) = list_all id (map serializable xs)"
| "serializable (JObj kvs) = list_all snd (map (map_prod id serializable) kvs)"
| "serializable JOpaque = False"

primrec sort_keys :: "json \<Rightarrow> json" where
  "sort_keys JNull = JNull"
| "sort_keys (JBool b) = JBool b"
| "sort_keys (JInt n) = JInt n"
| "sort_keys (JFloat x) = JFloat x"
| "sort_keys (JStr s) = JStr s"
| "sort_keys (JArr xs) = JArr (map sort_keys xs)"
| "sort_keys (JObj kvs) = JObj (sort_key fst (map (map_prod id sort_keys) kvs))"
| "sort_keys JOpaque = JOpaque"

definition canonical_json :: "json \<Rightarrow> json result" where
  "canonical_json v =
     (if serializable v then Inr (sort_keys v)
      else Inl (ValueError ''coordinator metadata must be JSON serializable''))"

lemma canonical_json_Inr [results]:
  "canonical_json v = Inr w \<longleftrightarrow> serializable v \<and> w = sort_keys v"
  by (auto simp: canonical_json_def)

lemma serializable_JArr [simp]: "serializable (JArr xs) \<longleftrightarrow> (\<forall>x\<in>set xs. serializable x)"
  by (simp add: list_all_iff)

lemma serializable_JObj [simp]: "serializable (JObj kvs) \<longleftrightarrow> (\<forall>kv\<in>set kvs. serializable (snd kv))"
  by (simp add: list_all_iff)

declare serializable.simps(6,7) [simp del]

lemma map_of_sort_key:
  "distinct (map fst kvs) \<Longrightarrow> map_of (sort_key fst kvs) = map_of kvs"
  by (rule map_of_inject_set [THEN iffD2]) (auto simp: distinct_map)

text \<open>Canonicalising a document does not change what a key holds, up to canonical form.\<close>

lemma jget_sort_keys:
  "distinct (map fst kvs) \<Longrightarrow>
   jget (sort_keys (JObj kvs)) k = map_option sort_keys (jget (JObj kvs) k)"
proof -
  assume d: "distinct (map fst kvs)"
  then have "distinct (map fst (map (map_prod id sort_keys) kvs))"
    by (simp add: comp_def)
  then have "jget (sort_keys (JObj kvs)) k = map_of (map (map_prod id sort_keys) kvs) k"
    by (simp add: map_of_sort_key)
  also have "\<dots> = map_option sort_keys (map_of kvs k)"
    by (induction kvs) auto
  finally show ?thesis by simp
qed

text \<open>Re-serialising a stored document gives the stored text again.\<close>

lemma sort_keys_idem [simp]: "sort_keys (sort_keys v) = sort_keys v"
proof (induction v)
  case (JObj kvs)
  let ?g = "map_prod id sort_keys :: string \<times> json \<Rightarrow> string \<times> json"
  let ?s = "sort_key fst (map ?g kvs)"
  have "?g y = y" if "y \<in> set ?s" for y
  proof -
    from that obtain k v where kv: "(k, v) \<in> set kvs" "y = (k, sort_keys v)"
      by auto
    then have "sort_keys (sort_keys v) = sort_keys v"
      using JObj.IH [of "(k, v)" v] by (simp add: snds.simps)
    with kv(2) show ?thesis by simp
  qed
  then have "map ?g ?s = ?s"
    by (intro map_idI) blast
  moreover have "sort_key fst ?s = ?s"
    by (simp add: sort_key_id_if_sorted)
  ultimately have "sort_keys (JObj ?s) = JObj ?s"
    by (simp only: sort_keys.simps)
  then show ?case by simp
qed auto

lemma serializable_sort_keys [simp]: "serializable (sort_keys v) = serializable v"
proof (induction v)
  case (JObj kvs)
  have "serializable (sort_keys (snd kv)) = serializable (snd kv)" if "kv \<in> set kvs" for kv
    using JObj.IH [of kv "snd kv"] that by (cases kv) (auto simp: snds.simps)
  then show ?case by auto
qed auto

lemma canonical_json_idem: "canonical_json v = Inr w \<Longrightarrow> canonical_json w = Inr w"
  by (simp add: results)

end
