(* ===== verification/Validators.thy ===== *)
theory Validators
  imports Json_Values
begin

text \<open>
  The field validators of src/fidb_poc/coordinator_config.py (\<open>_text\<close>, \<open>_identifier\<close>,
  \<open>_identifiers\<close>, \<open>_sha256_text\<close>, \<open>_positive_integer\<close>, \<open>_nonnegative_integer\<close>,
  \<open>_only_keys\<close>) with which the queue configuration and every coordinator operation check
  their arguments.  A \<open>string\<close> is a Python \<open>str\<close> of code points below 256.
\<close>

text \<open>\<open>str.strip()\<close>: the white space of the code points below 256.\<close>

definition is_space :: "char \<Rightarrow> bool" where
  "is_space c = (let n = of_char c :: nat in
     (9 \<le> n \<and> n \<le> 13) \<or> (28 \<le> n \<and> n \<le> 32) \<or> n = 133 \<or> n = 160)"

definition strip :: "string \<Rightarrow> string" where
  "strip s = rev (dropWhile is_space (rev (dropWhile is_space s)))"

definition is_digit :: "char \<Rightarrow> bool" where
  "is_digit c = (let n = of_char c :: nat in 48 \<le> n \<and> n \<le> 57)"

definition is_alnum :: "char \<Rightarrow> bool" where
  "is_alnum c = (let n = of_char c :: nat in
     (48 \<le> n \<and> n \<le> 57) \<or> (65 \<le> n \<and> n \<le> 90) \<or> (97 \<le> n \<and> n \<le> 122))"

text \<open>The characters \<open>.\<close>, \<open>_\<close> and \<open>-\<close> besides letters and digits.\<close>

definition is_ident_char :: "char \<Rightarrow> bool" where
  "is_ident_char c = (is_alnum c \<or> c = CHR ''.'' \<or> c = CHR ''_'' \<or> c = CHR ''-'')"

text \<open>\<open>_IDENTIFIER.fullmatch\<close>, the regular expression
  \<^verbatim>\<open>[A-Za-z0-9][A-Za-z0-9._-]*\Z\<close>.\<close>

definition identifier_match :: "string \<Rightarrow> bool" where
  "identifier_match s = (case s of [] \<Rightarrow> False | c # cs \<Rightarrow> is_alnum c \<and> list_all is_ident_char cs)"

definition text_field :: "json \<Rightarrow> string \<Rightarrow> string result" where
  "text_field v context =
     (case v of
        JStr s \<Rightarrow>
          if s = [] \<or> s \<noteq> strip s
          then Inl (ValueError (context @ '' must be a non-empty string without outer whitespace''))
          else Inr s
      | _ \<Rightarrow> Inl (ValueError (context @ '' must be a non-empty string without outer whitespace'')))"

definition identifier_field :: "json \<Rightarrow> string \<Rightarrow> string result" where
  "identifier_field v context = and_then (text_field v context) (\<lambda>r.
     if \<not> identifier_match r
     then Inl (ValueError (context @ '' must contain only letters, digits, '.', '_' or '-'' @ [CHR 0x27]))
     else Inr r)"

definition identifiers_field :: "json \<Rightarrow> string \<Rightarrow> string list result" where
  "identifiers_field v context =
     (case v of
        JArr items \<Rightarrow>
          if items = [] then Inl (ValueError (context @ '' must be a non-empty array''))
          else and_then (map_result (\<lambda>item. identifier_field item context) items) (\<lambda>r.
            if \<not> distinct r then Inl (ValueError (context @ '' contains duplicates'')) else Inr r)
      | _ \<Rightarrow> Inl (ValueError (context @ '' must be a non-empty array'')))"

definition sha256_text :: "json \<Rightarrow> string \<Rightarrow> string result" where
  "sha256_text v context = and_then (text_field v context) (\<lambda>r.
     if length r \<noteq> 64 \<or> (\<exists>c\<in>set r. c \<notin> set ''0123456789abcdef'')
     then Inl (ValueError (context @ '' must be a lowercase SHA-256''))
     else Inr r)"

text \<open>A Python \<open>bool\<close> is an \<open>int\<close>; the code excludes it, here it is another constructor.\<close>

definition positive_integer :: "json \<Rightarrow> string \<Rightarrow> int result" where
  "positive_integer v context =
     (case v of
        JInt n \<Rightarrow> if n < 1 then Inl (ValueError (context @ '' must be a positive integer'')) else Inr n
      | _ \<Rightarrow> Inl (ValueError (context @ '' must be a positive integer'')))"

definition nonnegative_integer :: "json \<Rightarrow> string \<Rightarrow> int result" where
  "nonnegative_integer v context =
     (case v of
        JInt n \<Rightarrow>
          if n < 0 then Inl (ValueError (context @ '' must be a non-negative integer'')) else Inr n
      | _ \<Rightarrow> Inl (ValueError (context @ '' must be a non-negative integer'')))"

text \<open>\<open>_only_keys\<close>; its message also lists the unknown fields.\<close>

definition only_keys :: "(string \<times> json) list \<Rightarrow> string list \<Rightarrow> string \<Rightarrow> unit result" where
  "only_keys row allowed context =
     (let unknown = filter (\<lambda>k. k \<notin> set allowed) (map fst row)
      in require (unknown = [])
           (ValueError (context @ '' contains unsupported fields: '' @ concat (sort unknown))))"

subsection \<open>What an accepted value satisfies\<close>

lemma text_field_Inr [results]:
  "text_field v ctx = Inr s \<longleftrightarrow> v = JStr s \<and> s \<noteq> [] \<and> strip s = s"
  by (auto simp: text_field_def split: json.splits)

lemma identifier_field_Inr [results]:
  "identifier_field v ctx = Inr s \<longleftrightarrow> v = JStr s \<and> s \<noteq> [] \<and> strip s = s \<and> identifier_match s"
  by (auto simp: identifier_field_def results split: if_splits)

lemma positive_integer_Inr [results]:
  "positive_integer v ctx = Inr n \<longleftrightarrow> v = JInt n \<and> 1 \<le> n"
  by (auto simp: positive_integer_def split: json.splits)

lemma nonnegative_integer_Inr [results]:
  "nonnegative_integer v ctx = Inr n \<longleftrightarrow> v = JInt n \<and> 0 \<le> n"
  by (auto simp: nonnegative_integer_def split: json.splits)

lemma sha256_text_Inr [results]:
  "sha256_text v ctx = Inr s \<longleftrightarrow>
     v = JStr s \<and> s \<noteq> [] \<and> strip s = s \<and> length s = 64 \<and> set s \<subseteq> set ''0123456789abcdef''"
  unfolding sha256_text_def by (auto simp only: results split: if_splits)

lemma only_keys_Inr [results]:
  "only_keys row allowed ctx = Inr u \<longleftrightarrow> fst ` set row \<subseteq> set allowed"
  by (auto simp: only_keys_def Let_def results filter_empty_conv)

lemma identifiers_distinct:
  "identifiers_field v ctx = Inr xs \<Longrightarrow> distinct xs \<and> xs \<noteq> []"
  by (auto simp: identifiers_field_def results split: json.splits if_splits dest: map_result_length)

lemma identifiers_match:
  assumes "identifiers_field v ctx = Inr xs" and "x \<in> set xs"
  shows "identifier_match x"
proof -
  from assms(1) obtain items where items: "map_result (\<lambda>i. identifier_field i ctx) items = Inr xs"
    by (auto simp: identifiers_field_def results split: json.splits if_splits)
  from assms(2) obtain i where i: "i < length xs" "xs ! i = x"
    by (metis in_set_conv_nth)
  then have "identifier_field (items ! i) ctx = Inr x"
    using map_result_nth [OF items] map_result_length [OF items] by auto
  then show ?thesis by (simp add: results)
qed

text \<open>The identifier alphabet excludes white space, so \<open>_text\<close>'s own test never refuses
  what the regular expression accepts.\<close>

lemma alnum_not_space: "is_alnum c \<Longrightarrow> \<not> is_space c"
  by (auto simp: is_alnum_def is_space_def Let_def)

lemma ident_char_not_space: "is_ident_char c \<Longrightarrow> \<not> is_space c"
  by (auto simp: is_ident_char_def alnum_not_space) (simp_all add: is_space_def)

lemma strip_no_space: "(\<forall>c\<in>set s. \<not> is_space c) \<Longrightarrow> strip s = s"
  by (simp add: strip_def dropWhile_eq_self_iff) (metis dropWhile_eq_self_iff hd_in_set rev_rev_ident set_rev)

lemma identifier_accepts: "identifier_field (JStr s) ctx = Inr s \<longleftrightarrow> identifier_match s"
proof
  assume m: "identifier_match s"
  then have "\<forall>c\<in>set s. \<not> is_space c"
    by (auto simp: identifier_match_def list_all_iff alnum_not_space ident_char_not_space split: list.splits)
  then show "identifier_field (JStr s) ctx = Inr s"
    using m by (auto simp: results strip_no_space identifier_match_def)
qed (simp add: results)

end
