(* ===== verification/Clock.thy ===== *)
theory Clock
  imports Validators
begin

text \<open>
  Time in src/fidb_poc/coordinator.py.  An instant is a Unix time in seconds (a Python float,
  here an exact rational: rounding of float addition is not modelled).  A stored UTC
  timestamp, the text \<open>datetime.isoformat()\<close> gives, is represented by the microsecond it
  denotes; \<open>isoformat\<close> writes it out where the text itself is stored in an event.  The
  order of such texts is the order of the microseconds.
\<close>

type_synonym stamp = int

text \<open>\<open>datetime.fromtimestamp\<close> rounds to the nearest microsecond, ties to even.\<close>

definition round_half_even :: "rat \<Rightarrow> int" where
  "round_half_even x =
     (let f = \<lfloor>x\<rfloor>; d = x - of_int f
      in if d < 1 / 2 then f else if 1 / 2 < d then f + 1 else if even f then f else f + 1)"

definition timestamp :: "rat \<Rightarrow> stamp" where
  "timestamp now = round_half_even (now * 1000000)"

text \<open>\<open>_now\<close>: the injected clock, a number, or a timezone-aware datetime.\<close>

datatype now_argument =
    NowDefault
  | NowBool bool
  | NowNumber rat
  | NowDatetime "int option" stamp
  | NowOther

definition resolve_now :: "rat \<Rightarrow> now_argument \<Rightarrow> rat result" where
  "resolve_now clock v =
     (case v of
        NowDefault \<Rightarrow> Inr clock
      | NowBool _ \<Rightarrow> Inl (ValueError ''now must be a Unix timestamp or datetime'')
      | NowNumber x \<Rightarrow> Inr x
      | NowDatetime tz t \<Rightarrow>
          if tz = None then Inl (ValueError ''now datetime must include a timezone'')
          else Inr (of_int t / 1000000)
      | NowOther \<Rightarrow> Inl (ValueError ''now must be a Unix timestamp or datetime''))"

subsection \<open>The calendar text of a timestamp\<close>

text \<open>\<open>datetime.isoformat()\<close>: the proleptic Gregorian date of a day number (days since
  1970-01-01), and the text with microseconds only where they are not zero.\<close>

definition civil_from_days :: "int \<Rightarrow> int \<times> int \<times> int" where
  "civil_from_days days =
     (let z = days + 719468;
          era = z div 146097;
          doe = z - era * 146097;
          yoe = (doe - doe div 1460 + doe div 36524 - doe div 146096) div 365;
          doy = doe - (365 * yoe + yoe div 4 - yoe div 100);
          mp = (5 * doy + 2) div 153;
          d = doy - (153 * mp + 2) div 5 + 1;
          m = (if mp < 10 then mp + 3 else mp - 9);
          y = yoe + era * 400 + (if m \<le> 2 then 1 else 0)
      in (y, m, d))"

fun pad_digits :: "nat \<Rightarrow> int \<Rightarrow> string" where
  "pad_digits 0 n = []"
| "pad_digits (Suc w) n = pad_digits w (n div 10) @ [char_of (48 + nat (n mod 10))]"

definition isoformat :: "stamp \<Rightarrow> string" where
  "isoformat t =
     (let days = t div 86400000000; micro_of_day = t mod 86400000000;
          secs = micro_of_day div 1000000; micro = micro_of_day mod 1000000;
          (y, m, d) = civil_from_days days
      in pad_digits 4 y @ ''-'' @ pad_digits 2 m @ ''-'' @ pad_digits 2 d @ ''T'' @
         pad_digits 2 (secs div 3600) @ '':'' @ pad_digits 2 (secs div 60 mod 60) @ '':'' @
         pad_digits 2 (secs mod 60) @
         (if micro = 0 then [] else ''.'' @ pad_digits 6 micro) @ ''+00:00'')"

text \<open>
  \<open>_utc_timestamp\<close>.  \<open>datetime.fromisoformat\<close>, which reads many notations, is the argument
  \<open>parse\<close>: \<open>None\<close> where it raises, otherwise the wall-clock microsecond and the UTC offset
  if the text has one.  Nothing is assumed of it.
\<close>

type_synonym iso_parser = "string \<Rightarrow> (int \<times> int option) option"

definition ends_with :: "string \<Rightarrow> string \<Rightarrow> bool" where
  "ends_with s t = (length t \<le> length s \<and> drop (length s - length t) s = t)"

definition utc_timestamp :: "iso_parser \<Rightarrow> json \<Rightarrow> string \<Rightarrow> stamp result" where
  "utc_timestamp parse v context =
     (case v of
        JStr s \<Rightarrow>
          if s = [] then Inl (ValueError (context @ '' must be a non-empty UTC timestamp''))
          else
            let candidate = (if ends_with s ''Z'' then butlast s @ ''+00:00'' else s)
            in (case parse candidate of
                  None \<Rightarrow> Inl (ValueError (context @ '' must be a valid UTC timestamp''))
                | Some (wall, offset) \<Rightarrow>
                    if offset = None \<or> offset \<noteq> Some 0
                    then Inl (ValueError (context @ '' must use UTC''))
                    else Inr wall)
      | _ \<Rightarrow> Inl (ValueError (context @ '' must be a non-empty UTC timestamp'')))"

subsection \<open>Durations\<close>

abbreviation MAX_DURATION_NS :: int where
  "MAX_DURATION_NS \<equiv> 9223372036854775807"

text \<open>\<open>_elapsed_ns\<close>, over the fields of Python's normalised \<open>timedelta\<close>.\<close>

definition elapsed_ns :: "stamp \<Rightarrow> stamp \<Rightarrow> int" where
  "elapsed_ns started_at ended_at =
     (let delta = ended_at - started_at;
          delta_days = delta div 86400000000;
          delta_seconds = (delta mod 86400000000) div 1000000;
          delta_microseconds = delta mod 1000000
      in min MAX_DURATION_NS
           (max 0 (delta_days * 86400000000000 + delta_seconds * 1000000000
                   + delta_microseconds * 1000)))"

definition stage_duration_ns :: "json option \<Rightarrow> string \<Rightarrow> int option result" where
  "stage_duration_ns v status =
     (if status = ''started'' then
        (if v \<noteq> None then Inl (ValueError ''duration_ns must be omitted for a started stage'')
         else Inr None)
      else
        (case v of
           Some (JInt n) \<Rightarrow>
             if n < 0 \<or> n > MAX_DURATION_NS
             then Inl (ValueError ''duration_ns must be a non-negative signed 64-bit integer for a terminal stage'')
             else if status = ''skipped'' \<and> n \<noteq> 0
             then Inl (ValueError ''duration_ns must be zero for a skipped stage'')
             else Inr (Some n)
         | _ \<Rightarrow> Inl (ValueError ''duration_ns must be a non-negative signed 64-bit integer for a terminal stage'')))"

text \<open>\<open>_percentiles\<close>: the summary of a bounded sample of durations.\<close>

record percentile_summary =
  p_min :: int
  p_50 :: int
  p_90 :: int
  p_95 :: int
  p_max :: int
  p_mean :: int

definition percentile :: "int list \<Rightarrow> nat \<Rightarrow> int" where
  "percentile ordered percent =
     (if length ordered = 1 then ordered ! 0
      else
        let numerator = (length ordered - 1) * percent;
            lower = numerator div 100; remainder = numerator mod 100;
            upper = min (lower + 1) (length ordered - 1)
        in (ordered ! lower * (100 - int remainder) + ordered ! upper * int remainder + 50) div 100)"

definition percentiles :: "int list \<Rightarrow> percentile_summary option" where
  "percentiles vals =
     (if vals = [] then None
      else
        let ordered = sort vals
        in Some \<lparr>p_min = ordered ! 0, p_50 = percentile ordered 50, p_90 = percentile ordered 90,
                 p_95 = percentile ordered 95, p_max = last ordered,
                 p_mean = (sum_list ordered + int (length ordered div 2)) div int (length ordered)\<rparr>)"

subsection \<open>Facts about durations and their summaries\<close>

lemma timedelta_ns:
  fixes d :: int
  shows "d div 86400000000 * 86400000000000 + d mod 86400000000 div 1000000 * 1000000000
           + d mod 1000000 * 1000 = 1000 * d"
proof -
  define a where "a = d div 86400000000"
  define q where "q = d mod 86400000000"
  define b where "b = q div 1000000"
  define c where "c = q mod 1000000"
  have "(1000000::int) dvd 86400000000"
    by (rule dvdI [of _ _ 86400]) simp
  then have "d mod 1000000 = c"
    unfolding q_def c_def by (rule mod_mod_cancel [symmetric])
  moreover have "d = a * 86400000000 + q" and "q = b * 1000000 + c"
    unfolding a_def b_def c_def q_def by (rule div_mult_mod_eq [symmetric])+
  ultimately show ?thesis
    unfolding q_def [symmetric] a_def [symmetric] b_def [symmetric] by simp
qed

lemma elapsed_ns_eq: "elapsed_ns s e = min MAX_DURATION_NS (max 0 (1000 * (e - s)))"
  unfolding elapsed_ns_def Let_def timedelta_ns by (rule refl)

lemma elapsed_ns_bounds: "0 \<le> elapsed_ns s e \<and> elapsed_ns s e \<le> MAX_DURATION_NS"
  by (simp add: elapsed_ns_eq)

lemma stage_duration_ns_Inr [results]:
  "stage_duration_ns v st = Inr d \<longleftrightarrow>
     (st = ''started'' \<and> v = None \<and> d = None) \<or>
     (st \<noteq> ''started'' \<and> (\<exists>n. v = Some (JInt n) \<and> d = Some n \<and> 0 \<le> n \<and> n \<le> MAX_DURATION_NS
        \<and> (st = ''skipped'' \<longrightarrow> n = 0)))"
  by (auto simp: stage_duration_ns_def split: option.splits json.splits)

text \<open>Linear interpolation at \<open>N / 100\<close> of a sorted list, scaled by 100.\<close>

definition interpolate :: "int list \<Rightarrow> nat \<Rightarrow> int" where
  "interpolate xs N =
     xs ! (N div 100) * (100 - int (N mod 100))
     + xs ! (min (N div 100 + 1) (length xs - 1)) * int (N mod 100)"

lemma percentile_interpolate:
  "length xs \<noteq> 1 \<Longrightarrow> percentile xs p = (interpolate xs ((length xs - 1) * p) + 50) div 100"
  by (simp add: percentile_def interpolate_def Let_def)

lemma weighted_bounds:
  fixes a b :: int
  assumes "a \<le> b" and "0 \<le> r" and "r \<le> 100"
  shows "100 * a \<le> a * (100 - r) + b * r" and "a * (100 - r) + b * r \<le> 100 * b"
proof -
  have "a * r \<le> b * r" using assms by (intro mult_right_mono) auto
  then show "100 * a \<le> a * (100 - r) + b * r" by (simp add: algebra_simps)
  have "a * (100 - r) \<le> b * (100 - r)" using assms by (intro mult_right_mono) auto
  then show "a * (100 - r) + b * r \<le> 100 * b" by (simp add: algebra_simps)
qed

lemma interpolate_between:
  assumes s: "sorted xs" and N: "N \<le> (length xs - 1) * 100" and ne: "xs \<noteq> []"
  shows "100 * (xs ! (N div 100)) \<le> interpolate xs N"
    and "interpolate xs N \<le> 100 * (xs ! (min (N div 100 + 1) (length xs - 1)))"
proof -
  have l: "N div 100 \<le> length xs - 1" using N by (simp add: div_le_mono [of N _ 100, simplified])
  have "xs ! (N div 100) \<le> xs ! (min (N div 100 + 1) (length xs - 1))"
    using s l ne by (intro sorted_nth_mono) (auto simp: min_less_iff_disj)
  moreover have "int (N mod 100) \<le> 100"
    by (simp add: less_imp_le)
  ultimately show "100 * (xs ! (N div 100)) \<le> interpolate xs N"
    and "interpolate xs N \<le> 100 * (xs ! (min (N div 100 + 1) (length xs - 1)))"
    using weighted_bounds [of "xs ! (N div 100)"] by (auto simp: interpolate_def)
qed

lemma interpolate_mono:
  assumes s: "sorted xs" and N: "N \<le> M" "M \<le> (length xs - 1) * 100" and ne: "xs \<noteq> []"
  shows "interpolate xs N \<le> interpolate xs M"
proof (cases "N div 100 = M div 100")
  case True
  let ?a = "xs ! (M div 100)" and ?b = "xs ! (min (M div 100 + 1) (length xs - 1))"
  have l: "M div 100 \<le> length xs - 1" using N(2) by (simp add: div_le_mono [of M _ 100, simplified])
  have ab: "?a \<le> ?b"
    using s l ne by (intro sorted_nth_mono) (auto simp: min_less_iff_disj)
  have "N mod 100 \<le> M mod 100" using True N(1) by (metis div_mult_mod_eq nat_add_left_cancel_le)
  then have "(?b - ?a) * int (N mod 100) \<le> (?b - ?a) * int (M mod 100)"
    using ab by (intro mult_left_mono) auto
  then show ?thesis
    by (simp add: interpolate_def True algebra_simps)
next
  case False
  then have lt: "N div 100 < M div 100" using N(1) by (simp add: div_le_mono le_neq_implies_less)
  have l: "M div 100 \<le> length xs - 1" using N(2) by (simp add: div_le_mono [of M _ 100, simplified])
  have "interpolate xs N \<le> 100 * (xs ! (min (N div 100 + 1) (length xs - 1)))"
    by (rule interpolate_between(2) [OF s _ ne]) (use N in simp)
  also have "\<dots> \<le> 100 * (xs ! (M div 100))"
    using s lt l ne by (intro mult_left_mono sorted_nth_mono) (auto simp: Suc_le_eq le_less_trans)
  also have "\<dots> \<le> interpolate xs M"
    by (rule interpolate_between(1) [OF s N(2) ne])
  finally show ?thesis .
qed

lemma percentile_mono:
  assumes "sorted xs" and "xs \<noteq> []" and "p \<le> q" and "q \<le> 100"
  shows "percentile xs p \<le> percentile xs q"
proof (cases "length xs = 1")
  case True
  then show ?thesis by (simp add: percentile_def)
next
  case False
  have "interpolate xs ((length xs - 1) * p) \<le> interpolate xs ((length xs - 1) * q)"
    by (rule interpolate_mono) (use assms in auto)
  with False show ?thesis by (simp add: percentile_interpolate zdiv_mono1)
qed

lemma percentile_0: "xs \<noteq> [] \<Longrightarrow> percentile xs 0 = xs ! 0"
  by (simp add: percentile_def Let_def)

lemma percentile_100:
  assumes "xs \<noteq> []"
  shows "percentile xs 100 = last xs"
proof -
  have "last xs = xs ! (length xs - 1)" using assms by (rule last_conv_nth)
  with assms show ?thesis
    by (cases "length xs = 1") (auto simp: percentile_def Let_def)
qed

lemma sum_list_bounds:
  fixes xs :: "int list"
  assumes "\<forall>x\<in>set xs. a \<le> x \<and> x \<le> b"
  shows "int (length xs) * a \<le> sum_list xs" and "sum_list xs \<le> int (length xs) * b"
  using assms by (induction xs) (auto simp: algebra_simps)

lemma rounded_mean_between:
  fixes xs :: "int list"
  assumes ne: "xs \<noteq> []" and b: "\<forall>x\<in>set xs. a \<le> x \<and> x \<le> b"
  shows "a \<le> (sum_list xs + int (length xs div 2)) div int (length xs)"
    and "(sum_list xs + int (length xs div 2)) div int (length xs) \<le> b"
proof -
  let ?n = "int (length xs)"
  have n: "0 < ?n" using ne by simp
  have "?n * a \<le> sum_list xs + int (length xs div 2)"
    using sum_list_bounds(1) [OF b] by linarith
  then have "(?n * a) div ?n \<le> (sum_list xs + int (length xs div 2)) div ?n"
    using n by (intro zdiv_mono1)
  then show "a \<le> (sum_list xs + int (length xs div 2)) div ?n" using n by simp
  have "int (length xs div 2) < ?n" using ne by (simp add: div_less_dividend)
  then have "sum_list xs + int (length xs div 2) < (b + 1) * ?n"
    using sum_list_bounds(2) [OF b] by (simp add: algebra_simps)
  moreover have "(sum_list xs + int (length xs div 2)) div ?n * ?n \<le> sum_list xs + int (length xs div 2)"
    using pos_mod_sign [OF n] div_mult_mod_eq [of "sum_list xs + int (length xs div 2)" ?n]
    by (smt (verit))
  ultimately have "(sum_list xs + int (length xs div 2)) div ?n * ?n < (b + 1) * ?n" by linarith
  then show "(sum_list xs + int (length xs div 2)) div ?n \<le> b"
    using n by (simp add: mult_less_cancel_right)
qed

text \<open>The summary of a sample is ordered and lies within the sample.\<close>

lemma percentiles_facts:
  assumes "percentiles xs = Some s"
  shows "p_min s = Min (set xs) \<and> p_min s \<le> p_50 s \<and> p_50 s \<le> p_90 s \<and> p_90 s \<le> p_95 s \<and> p_95 s \<le> p_max s
    \<and> p_max s = Max (set xs) \<and> p_min s \<le> p_mean s \<and> p_mean s \<le> p_max s"
proof -
  let ?o = "sort xs"
  from assms have ne: "xs \<noteq> []" by (auto simp: percentiles_def)
  have s: "s = \<lparr>p_min = ?o ! 0, p_50 = percentile ?o 50, p_90 = percentile ?o 90,
                p_95 = percentile ?o 95, p_max = last ?o,
                p_mean = (sum_list ?o + int (length ?o div 2)) div int (length ?o)\<rparr>"
    using assms ne by (simp add: percentiles_def Let_def)
  have srt: "sorted ?o" and ne': "?o \<noteq> []" using ne by (simp, metis length_0_conv length_sort)
  have "Min (set ?o) = ?o ! 0"
  proof (rule Min_eqI)
    fix y assume "y \<in> set ?o"
    then obtain i where "i < length ?o" "y = ?o ! i" by (metis in_set_conv_nth)
    then show "?o ! 0 \<le> y" using srt by (metis le0 sorted_nth_mono)
  qed (use nth_mem [of 0 ?o] ne in simp_all)
  moreover have "Max (set ?o) = last ?o"
  proof (rule Max_eqI)
    fix y assume "y \<in> set ?o"
    then obtain i where i: "i < length ?o" "y = ?o ! i" by (metis in_set_conv_nth)
    then have "?o ! i \<le> ?o ! (length ?o - 1)" by (intro sorted_nth_mono [OF srt]) simp_all
    then show "y \<le> last ?o" using i(2) last_conv_nth [OF ne'] by simp
  qed (use ne' in \<open>simp_all only: last_in_set List.finite_set not_False_eq_True\<close>)
  ultimately have ends: "?o ! 0 = Min (set xs)" "last ?o = Max (set xs)" by simp_all
  have mean: "\<forall>x\<in>set ?o. Min (set xs) \<le> x \<and> x \<le> Max (set xs)" by simp
  note m = percentile_mono [OF srt ne']
  have "percentile ?o 0 \<le> percentile ?o 50" "percentile ?o 50 \<le> percentile ?o 90"
    "percentile ?o 90 \<le> percentile ?o 95" "percentile ?o 95 \<le> percentile ?o 100" by (rule m; simp)+
  note order = this [unfolded percentile_0 [OF ne'] percentile_100 [OF ne'] ends]
  show ?thesis
    unfolding s percentile_summary.select_convs ends
    by (intro conjI refl order rounded_mean_between [OF ne' mean])
qed

end
