(* ===== verification/Routing.thy ===== *)
theory Routing
  imports Json_Values
begin

text \<open>
  \<open>worker_pool_accepts_cell\<close> of src/fidb_poc/coordinator.py: the fail-closed predicate that
  decides which resolved cells the workers of a named pool may take.
\<close>

definition WORKER_POOLS :: "string list" where
  "WORKER_POOLS = [''library-local'', ''macos-native'']"

definition worker_pool_accepts_cell :: "string \<Rightarrow> json \<Rightarrow> bool" where
  "worker_pool_accepts_cell pool cell =
     (if \<not> is_object cell then False
      else case jget cell ''routing'' of
        Some (JObj routing) \<Rightarrow>
          (let kind = jget cell ''kind''; executor = map_of routing ''executor'';
               is_kind = (\<lambda>k. kind = Some (JStr k)); by_executor = (\<lambda>e. executor = Some (JStr e))
           in if pool = ''library-local'' then
                (is_kind ''native'' \<and> by_executor ''native-local''
                   \<and> (case map_of routing ''worker_pool'' of None \<Rightarrow> True | Some v \<Rightarrow> v = JStr ''library-local''))
                \<or> (is_kind ''source-library'' \<and> by_executor ''local'')
                \<or> (is_kind ''archive-library'' \<and> by_executor ''archive-local'')
                \<or> (is_kind ''runtime-library'' \<and> by_executor ''runtime-archive-local'')
              else if pool = ''macos-native'' then
                is_kind ''native'' \<and> by_executor ''native-local''
                \<and> map_of routing ''worker_pool'' = Some (JStr ''macos-native'')
              else False)
      | _ \<Rightarrow> False)"

lemma accepts_only_known_pools: "worker_pool_accepts_cell pool cell \<Longrightarrow> pool \<in> set WORKER_POOLS"
  by (auto simp: worker_pool_accepts_cell_def WORKER_POOLS_def Let_def
      split: if_splits option.splits json.splits)

lemma accepts_needs_routing:
  "worker_pool_accepts_cell pool cell \<Longrightarrow> \<exists>r. jget cell ''routing'' = Some (JObj r)"
  by (auto simp: worker_pool_accepts_cell_def split: if_splits option.splits json.splits)

text \<open>No cell is routed to both pools: their workers never compete for a job.\<close>

lemma pools_exclusive:
  "worker_pool_accepts_cell ''library-local'' cell \<Longrightarrow> \<not> worker_pool_accepts_cell ''macos-native'' cell"
  by (auto simp: worker_pool_accepts_cell_def Let_def split: if_splits option.splits json.splits)

end
