(* ===== verification/Ledger_Schema.thy ===== *)
theory Ledger_Schema
  imports Clock Routing
begin

text \<open>
  The coordinator's SQLite ledger (\<open>Coordinator._create_schema\<close> of
  src/fidb_poc/coordinator.py): one record per table, the tables as lists of rows in
  row-id order, and the declared constraints (primary keys, UNIQUE, CHECK, foreign keys) as
  executable predicates.  A statement that would break a constraint of the table it writes
  raises \<open>IntegrityError\<close>.  The triggers that make events, plans and resolved cells
  append-only are the absence of any update of those tables.
\<close>

section \<open>Rows\<close>

record coordinator_state =
  config_name :: "string option"
  config_path :: "string option"
  armed :: bool
  paused :: bool
  max_workers :: int
  performance_json :: "json option"
  poll_seconds :: int
  lease_seconds :: int
  max_attempts :: int
  retry_backoff_seconds :: int
  retry_backoff_max_seconds :: int
  authority_failure_threshold :: int
  operations_json :: json
  active_batch_id :: "string option"
  active_admission_id :: "string option"
  lookahead_batch_id :: "string option"
  lookahead_admission_id :: "string option"
  last_schedule_admission_id :: "string option"
  sync_generation :: int
  synced_at :: "stamp option"

record plan_row =
  plan_digest :: string
  plan_schema_version :: string
  plan_name :: string
  plan_json :: json
  plan_created_at :: stamp

record batch_row =
  batch_id :: string
  batch_name :: string
  batch_plan :: string
  batch_plan_path :: string
  matrices_json :: "json option"
  batch_position :: int
  batch_active :: bool
  batch_generation :: int
  batch_created_at :: stamp
  batch_updated_at :: stamp

record cell_row =
  cell_plan :: string
  cell_id :: string
  cell_matrix :: string
  cell_state :: string
  cell_json :: json

datatype job_state = Queued | Blocked | Leased | Running | Complete | Failed

record job_row =
  job_id :: string
  job_batch :: string
  job_plan :: string
  job_cell :: string
  job_position :: int
  job_state :: job_state
  blockers_json :: json
  factor_variants_json :: json
  queue_row_json :: json
  attempt_count :: int
  eligible_at :: rat
  lease_token :: "string option"
  lease_generation :: int
  leased_by :: "string option"
  lease_expires_at :: "rat option"
  current_stage :: "string option"
  result_json :: "json option"
  job_error :: "string option"
  failure_class :: "string option"
  job_active :: bool
  job_generation :: int
  job_created_at :: stamp
  job_updated_at :: stamp

datatype quarantine_state = QActive | QReleased

record quarantine_row =
  quarantine_id :: int
  q_job :: string
  q_batch :: string
  q_state :: quarantine_state
  q_reason :: string
  q_failure_class :: string
  q_attempt_count :: int
  q_created_at :: stamp
  q_released_at :: "stamp option"
  q_release_reason :: "string option"

datatype attempt_state = ALeased | ARunning | AComplete | AFailed | AExpired

record attempt_row =
  attempt_id :: int
  attempt_job :: string
  attempt_number :: int
  attempt_token :: string
  attempt_generation :: int
  attempt_worker :: string
  attempt_state :: attempt_state
  attempt_started_at :: stamp
  attempt_expires_at :: rat
  attempt_ended_at :: "stamp option"
  attempt_error :: "string option"

record worker_row =
  worker_id :: string
  worker_transport :: string
  pools_json :: json
  worker_online :: bool
  worker_metadata :: json
  registered_at :: stamp
  last_seen_at :: stamp

datatype span_state = Started | Completed | SFailed | Skipped | Interrupted

datatype duration_source = WorkerMonotonic | CoordinatorWallClock

record span_row =
  span_id :: int
  span_attempt :: int
  span_job :: string
  span_attempt_number :: int
  span_generation :: int
  span_worker :: string
  span_sequence :: int
  span_stage :: string
  span_stage_attempt :: int
  span_state :: span_state
  span_started_at :: stamp
  span_ended_at :: "stamp option"
  span_duration_ns :: "int option"
  span_duration_source :: "duration_source option"
  wall_clock_regressed :: bool
  span_details :: json
  span_metrics :: json
  span_error :: "string option"

record event_row =
  event_id :: int
  occurred_at :: stamp
  event_type :: string
  event_actor :: string
  event_batch :: "string option"
  event_job :: "string option"
  event_plan :: "string option"
  event_payload :: json

record ledger =
  cstate :: coordinator_state
  plans :: "plan_row list"
  batches :: "batch_row list"
  cells :: "cell_row list"
  jobs :: "job_row list"
  quarantines :: "quarantine_row list"
  attempts :: "attempt_row list"
  workers :: "worker_row list"
  spans :: "span_row list"
  events :: "event_row list"

section \<open>States by name, in the order of their names\<close>

text \<open>\<open>_JOB_STATES\<close>, \<open>_LEASED_STATES\<close> and the texts the columns hold.  The source reports
  counts over \<open>sorted(_JOB_STATES)\<close>: the order of the names.\<close>

fun job_state_name :: "job_state \<Rightarrow> string" where
  "job_state_name Queued = ''queued''"
| "job_state_name Blocked = ''blocked''"
| "job_state_name Leased = ''leased''"
| "job_state_name Running = ''running''"
| "job_state_name Complete = ''complete''"
| "job_state_name Failed = ''failed''"

lemma job_state_name_inject [simp]: "job_state_name a = job_state_name b \<longleftrightarrow> a = b"
  by (cases a; cases b) simp_all

instantiation job_state :: linorder
begin

definition less_eq_job_state :: "job_state \<Rightarrow> job_state \<Rightarrow> bool" where
  "less_eq_job_state a b = (job_state_name a \<le> job_state_name b)"

definition less_job_state :: "job_state \<Rightarrow> job_state \<Rightarrow> bool" where
  "less_job_state a b = (job_state_name a < job_state_name b)"

instance
proof
  fix x y z :: job_state
  show "x < y \<longleftrightarrow> x \<le> y \<and> \<not> y \<le> x"
    by (simp add: less_eq_job_state_def less_job_state_def less_le_not_le)
  show "x \<le> x" by (simp add: less_eq_job_state_def)
  show "x \<le> y \<Longrightarrow> y \<le> z \<Longrightarrow> x \<le> z" unfolding less_eq_job_state_def by (rule order_trans)
  show "x \<le> y \<Longrightarrow> y \<le> x \<Longrightarrow> x = y" by (simp add: less_eq_job_state_def)
  show "x \<le> y \<or> y \<le> x" unfolding less_eq_job_state_def by (rule linear)
qed

end

definition JOB_STATES :: "job_state list" where
  "JOB_STATES = [Queued, Blocked, Leased, Running, Complete, Failed]"

lemma set_JOB_STATES: "s \<in> set JOB_STATES"
  by (cases s) (simp_all add: JOB_STATES_def)

lemma distinct_JOB_STATES: "distinct JOB_STATES"
  by (simp add: JOB_STATES_def)

fun span_state_name :: "span_state \<Rightarrow> string" where
  "span_state_name Started = ''started''"
| "span_state_name Completed = ''completed''"
| "span_state_name SFailed = ''failed''"
| "span_state_name Skipped = ''skipped''"
| "span_state_name Interrupted = ''interrupted''"

fun attempt_state_name :: "attempt_state \<Rightarrow> string" where
  "attempt_state_name ALeased = ''leased''"
| "attempt_state_name ARunning = ''running''"
| "attempt_state_name AComplete = ''complete''"
| "attempt_state_name AFailed = ''failed''"
| "attempt_state_name AExpired = ''expired''"

fun duration_source_name :: "duration_source \<Rightarrow> string" where
  "duration_source_name WorkerMonotonic = ''worker-monotonic''"
| "duration_source_name CoordinatorWallClock = ''coordinator-wall-clock''"

definition job_live :: "job_row \<Rightarrow> bool" where
  "job_live j = (job_state j = Leased \<or> job_state j = Running)"

definition attempt_live :: "attempt_row \<Rightarrow> bool" where
  "attempt_live a = (attempt_state a = ALeased \<or> attempt_state a = ARunning)"

section \<open>Constraints\<close>

definition state_check :: "coordinator_state \<Rightarrow> bool" where
  "state_check s =
     (0 < max_workers s \<and> 0 < poll_seconds s \<and> 0 < lease_seconds s \<and> 0 < max_attempts s
      \<and> 0 \<le> retry_backoff_seconds s \<and> retry_backoff_seconds s \<le> retry_backoff_max_seconds s
      \<and> 0 \<le> authority_failure_threshold s \<and> 0 \<le> sync_generation s)"

definition job_check :: "job_row \<Rightarrow> bool" where
  "job_check j =
     (0 < job_position j \<and> 0 \<le> attempt_count j \<and> 0 \<le> lease_generation j
      \<and> (if job_live j
         then lease_token j \<noteq> None \<and> leased_by j \<noteq> None \<and> lease_expires_at j \<noteq> None
         else lease_token j = None \<and> leased_by j = None \<and> lease_expires_at j = None))"

definition quarantine_check :: "quarantine_row \<Rightarrow> bool" where
  "quarantine_check q =
     (0 \<le> q_attempt_count q
      \<and> (if q_state q = QActive then q_released_at q = None \<and> q_release_reason q = None
         else q_released_at q \<noteq> None \<and> q_release_reason q \<noteq> None))"

definition attempt_check :: "attempt_row \<Rightarrow> bool" where
  "attempt_check a = (0 < attempt_number a \<and> 0 < attempt_generation a)"

definition span_check :: "span_row \<Rightarrow> bool" where
  "span_check s =
     (0 < span_attempt_number s \<and> 0 < span_generation s \<and> 0 < span_sequence s
      \<and> 0 < span_stage_attempt s
      \<and> (case span_duration_ns s of None \<Rightarrow> True | Some d \<Rightarrow> 0 \<le> d)
      \<and> (if span_state s = Started
         then span_ended_at s = None \<and> span_duration_ns s = None \<and> span_duration_source s = None
         else span_ended_at s \<noteq> None \<and> span_duration_ns s \<noteq> None \<and> span_duration_source s \<noteq> None))"

abbreviation cell_key :: "cell_row \<Rightarrow> string \<times> string" where
  "cell_key c \<equiv> (cell_plan c, cell_id c)"

definition plans_ok :: "plan_row list \<Rightarrow> bool" where
  "plans_ok rows = distinct (map plan_digest rows)"

definition batches_ok :: "ledger \<Rightarrow> batch_row list \<Rightarrow> bool" where
  "batches_ok L rows =
     (distinct (map batch_id rows)
      \<and> (\<forall>b\<in>set rows. 0 < batch_position b \<and> batch_plan b \<in> plan_digest ` set (plans L)))"

definition cells_ok :: "ledger \<Rightarrow> cell_row list \<Rightarrow> bool" where
  "cells_ok L rows =
     (distinct (map cell_key rows)
      \<and> (\<forall>c\<in>set rows. (cell_state c = ''planned'' \<or> cell_state c = ''blocked'')
            \<and> cell_plan c \<in> plan_digest ` set (plans L)))"

definition jobs_ok :: "ledger \<Rightarrow> job_row list \<Rightarrow> bool" where
  "jobs_ok L rows =
     (distinct (map job_id rows)
      \<and> (\<forall>j\<in>set rows. job_check j \<and> job_batch j \<in> batch_id ` set (batches L)
            \<and> (job_plan j, job_cell j) \<in> cell_key ` set (cells L)))"

text \<open>The partial unique index \<open>one_active_pathological_quarantine\<close> is over the active rows.\<close>

definition quarantines_ok :: "ledger \<Rightarrow> quarantine_row list \<Rightarrow> bool" where
  "quarantines_ok L rows =
     (distinct (map quarantine_id rows)
      \<and> distinct (map q_job (filter (\<lambda>q. q_state q = QActive) rows))
      \<and> (\<forall>q\<in>set rows. quarantine_check q \<and> q_job q \<in> job_id ` set (jobs L)
            \<and> q_batch q \<in> batch_id ` set (batches L)))"

definition attempts_ok :: "ledger \<Rightarrow> attempt_row list \<Rightarrow> bool" where
  "attempts_ok L rows =
     (distinct (map attempt_id rows) \<and> distinct (map attempt_token rows)
      \<and> distinct (map (\<lambda>a. (attempt_job a, attempt_number a)) rows)
      \<and> distinct (map (\<lambda>a. (attempt_job a, attempt_generation a)) rows)
      \<and> (\<forall>a\<in>set rows. attempt_check a \<and> attempt_job a \<in> job_id ` set (jobs L)))"

definition workers_ok :: "worker_row list \<Rightarrow> bool" where
  "workers_ok rows =
     (distinct (map worker_id rows)
      \<and> (\<forall>w\<in>set rows. worker_transport w = ''local'' \<or> worker_transport w = ''remote-http''))"

text \<open>The partial unique index \<open>stage_attempts_one_open_per_attempt\<close> is over the open spans.\<close>

definition spans_ok :: "ledger \<Rightarrow> span_row list \<Rightarrow> bool" where
  "spans_ok L rows =
     (distinct (map span_id rows)
      \<and> distinct (map (\<lambda>s. (span_attempt s, span_sequence s)) rows)
      \<and> distinct (map (\<lambda>s. (span_attempt s, span_stage s, span_stage_attempt s)) rows)
      \<and> distinct (map span_attempt (filter (\<lambda>s. span_state s = Started) rows))
      \<and> (\<forall>s\<in>set rows. span_check s \<and> span_attempt s \<in> attempt_id ` set (attempts L)
            \<and> span_job s \<in> job_id ` set (jobs L)))"

definition events_ok :: "event_row list \<Rightarrow> bool" where
  "events_ok rows = distinct (map event_id rows)"

definition schema_ok :: "ledger \<Rightarrow> bool" where
  "schema_ok L =
     (state_check (cstate L) \<and> plans_ok (plans L) \<and> batches_ok L (batches L)
      \<and> cells_ok L (cells L) \<and> jobs_ok L (jobs L) \<and> quarantines_ok L (quarantines L)
      \<and> attempts_ok L (attempts L) \<and> workers_ok (workers L) \<and> spans_ok L (spans L)
      \<and> events_ok (events L))"

text \<open>The ledger a fresh database holds: the default row of \<open>coordinator_state\<close>.\<close>

definition init_state :: coordinator_state where
  "init_state = \<lparr>config_name = None, config_path = None, armed = False, paused = False,
     max_workers = 4, performance_json = None, poll_seconds = 5, lease_seconds = 3600,
     max_attempts = 3, retry_backoff_seconds = 0, retry_backoff_max_seconds = 0,
     authority_failure_threshold = 0, operations_json = JObj [], active_batch_id = None,
     active_admission_id = None, lookahead_batch_id = None, lookahead_admission_id = None,
     last_schedule_admission_id = None, sync_generation = 0, synced_at = None\<rparr>"

definition init_ledger :: ledger where
  "init_ledger = \<lparr>cstate = init_state, plans = [], batches = [], cells = [], jobs = [],
     quarantines = [], attempts = [], workers = [], spans = [], events = []\<rparr>"

lemma schema_ok_init: "schema_ok init_ledger"
  by (simp add: schema_ok_def init_ledger_def init_state_def state_check_def plans_ok_def
      batches_ok_def cells_ok_def jobs_ok_def quarantines_ok_def attempts_ok_def workers_ok_def
      spans_ok_def events_ok_def)

section \<open>Statements\<close>

definition put_state :: "coordinator_state \<Rightarrow> ledger \<Rightarrow> ledger result" where
  "put_state s L =
     (if state_check s then Inr (L\<lparr>cstate := s\<rparr>) else Inl (IntegrityError ''coordinator_state''))"

definition put_plans :: "plan_row list \<Rightarrow> ledger \<Rightarrow> ledger result" where
  "put_plans rows L =
     (if plans_ok rows then Inr (L\<lparr>plans := rows\<rparr>) else Inl (IntegrityError ''plans''))"

definition put_batches :: "batch_row list \<Rightarrow> ledger \<Rightarrow> ledger result" where
  "put_batches rows L =
     (if batches_ok L rows then Inr (L\<lparr>batches := rows\<rparr>) else Inl (IntegrityError ''batches''))"

definition put_cells :: "cell_row list \<Rightarrow> ledger \<Rightarrow> ledger result" where
  "put_cells rows L =
     (if cells_ok L rows then Inr (L\<lparr>cells := rows\<rparr>) else Inl (IntegrityError ''resolved_cells''))"

definition put_jobs :: "job_row list \<Rightarrow> ledger \<Rightarrow> ledger result" where
  "put_jobs rows L =
     (if jobs_ok L rows then Inr (L\<lparr>jobs := rows\<rparr>) else Inl (IntegrityError ''jobs''))"

definition put_quarantines :: "quarantine_row list \<Rightarrow> ledger \<Rightarrow> ledger result" where
  "put_quarantines rows L =
     (if quarantines_ok L rows then Inr (L\<lparr>quarantines := rows\<rparr>)
      else Inl (IntegrityError ''pathological_cell_quarantines''))"

definition put_attempts :: "attempt_row list \<Rightarrow> ledger \<Rightarrow> ledger result" where
  "put_attempts rows L =
     (if attempts_ok L rows then Inr (L\<lparr>attempts := rows\<rparr>) else Inl (IntegrityError ''attempts''))"

definition put_workers :: "worker_row list \<Rightarrow> ledger \<Rightarrow> ledger result" where
  "put_workers rows L =
     (if workers_ok rows then Inr (L\<lparr>workers := rows\<rparr>) else Inl (IntegrityError ''workers''))"

definition put_spans :: "span_row list \<Rightarrow> ledger \<Rightarrow> ledger result" where
  "put_spans rows L =
     (if spans_ok L rows then Inr (L\<lparr>spans := rows\<rparr>) else Inl (IntegrityError ''stage_attempts''))"

definition put_events :: "event_row list \<Rightarrow> ledger \<Rightarrow> ledger result" where
  "put_events rows L =
     (if events_ok rows then Inr (L\<lparr>events := rows\<rparr>) else Inl (IntegrityError ''events''))"

lemmas put_defs = put_state_def put_plans_def put_batches_def put_cells_def put_jobs_def
  put_quarantines_def put_attempts_def put_workers_def put_spans_def put_events_def

text \<open>\<open>UPDATE t SET .. WHERE P\<close> keeps every row at its place; the other rows are as before.\<close>

definition update_where :: "('r \<Rightarrow> bool) \<Rightarrow> ('r \<Rightarrow> 'r) \<Rightarrow> 'r list \<Rightarrow> 'r list" where
  "update_where P f rows = map (\<lambda>r. if P r then f r else r) rows"

definition update_state :: "(coordinator_state \<Rightarrow> coordinator_state) \<Rightarrow> ledger \<Rightarrow> ledger result" where
  "update_state f L = put_state (f (cstate L)) L"

definition update_batches :: "(batch_row \<Rightarrow> bool) \<Rightarrow> (batch_row \<Rightarrow> batch_row) \<Rightarrow> ledger \<Rightarrow> ledger result" where
  "update_batches P f L = put_batches (update_where P f (batches L)) L"

definition update_jobs :: "(job_row \<Rightarrow> bool) \<Rightarrow> (job_row \<Rightarrow> job_row) \<Rightarrow> ledger \<Rightarrow> ledger result" where
  "update_jobs P f L = put_jobs (update_where P f (jobs L)) L"

definition update_quarantines :: "(quarantine_row \<Rightarrow> bool) \<Rightarrow> (quarantine_row \<Rightarrow> quarantine_row) \<Rightarrow> ledger \<Rightarrow> ledger result" where
  "update_quarantines P f L = put_quarantines (update_where P f (quarantines L)) L"

definition update_attempts :: "(attempt_row \<Rightarrow> bool) \<Rightarrow> (attempt_row \<Rightarrow> attempt_row) \<Rightarrow> ledger \<Rightarrow> ledger result" where
  "update_attempts P f L = put_attempts (update_where P f (attempts L)) L"

definition update_workers :: "(worker_row \<Rightarrow> bool) \<Rightarrow> (worker_row \<Rightarrow> worker_row) \<Rightarrow> ledger \<Rightarrow> ledger result" where
  "update_workers P f L = put_workers (update_where P f (workers L)) L"

definition update_spans :: "(span_row \<Rightarrow> bool) \<Rightarrow> (span_row \<Rightarrow> span_row) \<Rightarrow> ledger \<Rightarrow> ledger result" where
  "update_spans P f L = put_spans (update_where P f (spans L)) L"

text \<open>\<open>_transaction\<close>: \<open>BEGIN IMMEDIATE\<close>, then commit, or roll back on any exception.\<close>

definition transaction :: "(ledger \<Rightarrow> ('a \<times> ledger) result) \<Rightarrow> ledger \<Rightarrow> 'a result \<times> ledger" where
  "transaction body L =
     (case body L of Inl e \<Rightarrow> (Inl e, L) | Inr (x, L') \<Rightarrow> (Inr x, L'))"

text \<open>\<open>_event_locked\<close>: one append-only event.\<close>

definition event_locked ::
  "string \<Rightarrow> rat \<Rightarrow> string \<Rightarrow> string option \<Rightarrow> string option \<Rightarrow> string option \<Rightarrow> json
   \<Rightarrow> ledger \<Rightarrow> (int \<times> ledger) result" where
  "event_locked etype now actor batch job plan payload L =
     and_then (text_field (JStr actor) ''event actor'') (\<lambda>actor_text.
     and_then (canonical_json payload) (\<lambda>payload_json.
       let eid = next_rowid event_id (events L);
           row = \<lparr>event_id = eid, occurred_at = timestamp now, event_type = etype,
                  event_actor = actor_text, event_batch = batch, event_job = job,
                  event_plan = plan, event_payload = payload_json\<rparr>
       in and_then (put_events (events L @ [row]) L) (\<lambda>L'. Inr (eid, L'))))"

text \<open>An event whose id the caller does not use.\<close>

definition log_event ::
  "string \<Rightarrow> rat \<Rightarrow> string \<Rightarrow> string option \<Rightarrow> string option \<Rightarrow> string option \<Rightarrow> json
   \<Rightarrow> ledger \<Rightarrow> ledger result" where
  "log_event etype now actor batch job plan payload L =
     and_then (event_locked etype now actor batch job plan payload L) (\<lambda>(eid, L'). Inr L')"

end
