(* ===== verification/Ledger_Evolution.thy ===== *)
theory Ledger_Evolution
  imports Ledger_Schema
begin

text \<open>
  What any sequence of statements the coordinator issues may do to the ledger: \<open>evolves\<close>, a
  preorder under which rows are never lost or reordered, events, plans and resolved cells
  never change, a finished attempt, a closed span and a released quarantine never change,
  the fence of a job (its lease generation) only grows and a lost lease never returns.
  The locale \<open>keyed_table\<close> is the interface of a table; every table of the ledger is an
  instance of it.
\<close>

locale keyed_table =
  fixes key :: "'r \<Rightarrow> 'k" and step :: "'r \<Rightarrow> 'r \<Rightarrow> bool"
  assumes step_refl: "step r r"
    and step_trans: "step r s \<Longrightarrow> step s t \<Longrightarrow> step r t"
    and step_key: "step r s \<Longrightarrow> key s = key r"
begin

lemma evolve_refl: "rows_evolve step xs xs"
  by (rule rows_evolve_refl) (rule step_refl)

lemma evolve_trans: "rows_evolve step xs ys \<Longrightarrow> rows_evolve step ys zs \<Longrightarrow> rows_evolve step xs zs"
  by (rule rows_evolve_trans) (auto intro: step_trans)

lemma evolve_insert: "rows_evolve step xs (xs @ ys)"
  by (rule rows_evolve_append) (rule step_refl)

lemma evolve_update:
  "(\<And>r. r \<in> set xs \<Longrightarrow> P r \<Longrightarrow> step r (f r)) \<Longrightarrow> rows_evolve step xs (update_where P f xs)"
  unfolding update_where_def by (rule rows_evolve_map) (auto intro: step_refl)

lemma row_after: "rows_evolve step xs ys \<Longrightarrow> r \<in> set xs \<Longrightarrow> \<exists>s\<in>set ys. step r s \<and> key s = key r"
  using rows_evolve_in step_key by fast

lemma keys_kept: "rows_evolve step xs ys \<Longrightarrow> key ` set xs \<subseteq> key ` set ys"
proof
  fix k assume e: "rows_evolve step xs ys" and "k \<in> key ` set xs"
  then obtain r where "r \<in> set xs" "k = key r" by blast
  from row_after [OF e this(1)] obtain s where "s \<in> set ys" "key s = key r" by blast
  with \<open>k = key r\<close> show "k \<in> key ` set ys" by (metis imageI)
qed

text \<open>With unique keys the later row of a key is the evolved one.\<close>

lemma keyed_row_after:
  assumes "rows_evolve step xs ys" and "distinct (map key ys)"
    and "r \<in> set xs" and "s \<in> set ys" and "key s = key r"
  shows "step r s"
proof -
  from row_after [OF assms(1,3)] obtain t where t: "t \<in> set ys" "step r t" "key t = key r"
    by blast
  then have "t = s" using distinct_map_inj [OF assms(2)] assms(4,5) by metis
  with t(2) show ?thesis by simp
qed

end

section \<open>How each row may change\<close>

text \<open>
  A job keeps its identity; its attempt count and lease generation only grow; at an
  unchanged generation a live lease is the lease it was; a complete or a blocked job stays
  as it is.
\<close>

definition job_step :: "job_row \<Rightarrow> job_row \<Rightarrow> bool" where
  "job_step j j' \<longleftrightarrow>
     job_id j' = job_id j \<and> job_batch j' = job_batch j \<and> job_plan j' = job_plan j
     \<and> job_cell j' = job_cell j \<and> blockers_json j' = blockers_json j
     \<and> factor_variants_json j' = factor_variants_json j \<and> queue_row_json j' = queue_row_json j
     \<and> job_created_at j' = job_created_at j
     \<and> attempt_count j \<le> attempt_count j' \<and> lease_generation j \<le> lease_generation j'
     \<and> (lease_generation j' = lease_generation j \<longrightarrow> attempt_count j' = attempt_count j)
     \<and> (lease_generation j' = lease_generation j \<longrightarrow> job_live j' \<longrightarrow>
          job_live j \<and> lease_token j' = lease_token j \<and> leased_by j' = leased_by j)
     \<and> (job_state j = Complete \<longrightarrow> job_state j' = Complete \<and> result_json j' = result_json j)
     \<and> (job_state j = Blocked \<longrightarrow> job_state j' = Blocked)"

text \<open>Only a live attempt changes, and only in its state, expiry, end and error.\<close>

definition attempt_step :: "attempt_row \<Rightarrow> attempt_row \<Rightarrow> bool" where
  "attempt_step a a' \<longleftrightarrow>
     a' = a \<or>
     (attempt_live a \<and> attempt_id a' = attempt_id a \<and> attempt_job a' = attempt_job a
      \<and> attempt_number a' = attempt_number a \<and> attempt_token a' = attempt_token a
      \<and> attempt_generation a' = attempt_generation a \<and> attempt_worker a' = attempt_worker a
      \<and> attempt_started_at a' = attempt_started_at a)"

text \<open>Only an open span changes, and it keeps its place in the history of its attempt.\<close>

definition span_step :: "span_row \<Rightarrow> span_row \<Rightarrow> bool" where
  "span_step s s' \<longleftrightarrow>
     s' = s \<or>
     (span_state s = Started \<and> span_id s' = span_id s \<and> span_attempt s' = span_attempt s
      \<and> span_job s' = span_job s \<and> span_generation s' = span_generation s
      \<and> span_sequence s' = span_sequence s \<and> span_stage s' = span_stage s
      \<and> span_stage_attempt s' = span_stage_attempt s \<and> span_worker s' = span_worker s
      \<and> span_started_at s' = span_started_at s)"

definition quarantine_step :: "quarantine_row \<Rightarrow> quarantine_row \<Rightarrow> bool" where
  "quarantine_step q q' \<longleftrightarrow>
     q' = q \<or>
     (q_state q = QActive \<and> quarantine_id q' = quarantine_id q \<and> q_job q' = q_job q
      \<and> q_batch q' = q_batch q \<and> q_reason q' = q_reason q
      \<and> q_failure_class q' = q_failure_class q \<and> q_attempt_count q' = q_attempt_count q
      \<and> q_created_at q' = q_created_at q)"

definition batch_step :: "batch_row \<Rightarrow> batch_row \<Rightarrow> bool" where
  "batch_step b b' \<longleftrightarrow> batch_id b' = batch_id b \<and> batch_created_at b' = batch_created_at b"

definition worker_step :: "worker_row \<Rightarrow> worker_row \<Rightarrow> bool" where
  "worker_step w w' \<longleftrightarrow> worker_id w' = worker_id w \<and> registered_at w' = registered_at w"

lemmas row_step_defs = job_step_def attempt_step_def span_step_def quarantine_step_def
  batch_step_def worker_step_def

interpretation plans_table: keyed_table plan_digest "(=)"
  by unfold_locales auto

interpretation cells_table: keyed_table cell_key "(=)"
  by unfold_locales auto

interpretation events_table: keyed_table event_id "(=)"
  by unfold_locales auto

interpretation batches_table: keyed_table batch_id batch_step
  by unfold_locales (auto simp: batch_step_def)

interpretation workers_table: keyed_table worker_id worker_step
  by unfold_locales (auto simp: worker_step_def)

interpretation quarantines_table: keyed_table quarantine_id quarantine_step
  by unfold_locales (auto simp: quarantine_step_def)

interpretation attempts_table: keyed_table attempt_id attempt_step
  by unfold_locales (auto simp: attempt_step_def)

interpretation spans_table: keyed_table span_id span_step
  by unfold_locales (auto simp: span_step_def)

lemma job_step_refl: "job_step j j"
  by (simp add: job_step_def)

lemma job_step_trans: "job_step a b \<Longrightarrow> job_step b c \<Longrightarrow> job_step a c"
  unfolding job_step_def by (elim conjE, intro conjI) (auto dest: antisym)

interpretation jobs_table: keyed_table job_id job_step
  by unfold_locales (auto intro: job_step_refl job_step_trans simp: job_step_def [of _ _])

section \<open>How the ledger may change\<close>

definition evolves :: "ledger \<Rightarrow> ledger \<Rightarrow> bool" where
  "evolves L L' \<longleftrightarrow>
     rows_evolve (=) (plans L) (plans L') \<and> rows_evolve batch_step (batches L) (batches L')
     \<and> rows_evolve (=) (cells L) (cells L') \<and> rows_evolve job_step (jobs L) (jobs L')
     \<and> rows_evolve quarantine_step (quarantines L) (quarantines L')
     \<and> rows_evolve attempt_step (attempts L) (attempts L')
     \<and> rows_evolve worker_step (workers L) (workers L')
     \<and> rows_evolve span_step (spans L) (spans L') \<and> rows_evolve (=) (events L) (events L')
     \<and> (schema_ok L \<longrightarrow> schema_ok L')"

lemmas table_refl = plans_table.evolve_refl cells_table.evolve_refl events_table.evolve_refl
  batches_table.evolve_refl workers_table.evolve_refl quarantines_table.evolve_refl
  attempts_table.evolve_refl spans_table.evolve_refl jobs_table.evolve_refl

lemma evolves_refl [simp]: "evolves L L"
  by (simp add: evolves_def table_refl)

lemma evolves_trans:
  assumes "evolves L M" and "evolves M N"
  shows "evolves L N"
  using assms unfolding evolves_def
  by (elim conjE, intro conjI)
    (blast intro: plans_table.evolve_trans cells_table.evolve_trans events_table.evolve_trans
      batches_table.evolve_trans workers_table.evolve_trans quarantines_table.evolve_trans
      attempts_table.evolve_trans spans_table.evolve_trans jobs_table.evolve_trans)+

lemma evolves_schema: "evolves L L' \<Longrightarrow> schema_ok L \<Longrightarrow> schema_ok L'"
  by (simp add: evolves_def)

lemma evolves_events: "evolves L L' \<Longrightarrow> prefix (events L) (events L')"
  by (simp add: evolves_def rows_evolve_eq_prefix)

subsection \<open>Constraints depend on the keys of the referenced tables only\<close>

lemma batches_ok_mono:
  "batches_ok L rows \<Longrightarrow> plan_digest ` set (plans L) \<subseteq> plan_digest ` set (plans L') \<Longrightarrow> batches_ok L' rows"
  unfolding batches_ok_def by blast

lemma cells_ok_mono:
  "cells_ok L rows \<Longrightarrow> plan_digest ` set (plans L) \<subseteq> plan_digest ` set (plans L') \<Longrightarrow> cells_ok L' rows"
  unfolding cells_ok_def by blast

lemma jobs_ok_mono:
  "jobs_ok L rows \<Longrightarrow> batch_id ` set (batches L) \<subseteq> batch_id ` set (batches L') \<Longrightarrow>
   cell_key ` set (cells L) \<subseteq> cell_key ` set (cells L') \<Longrightarrow> jobs_ok L' rows"
  unfolding jobs_ok_def by blast

lemma quarantines_ok_mono:
  "quarantines_ok L rows \<Longrightarrow> job_id ` set (jobs L) \<subseteq> job_id ` set (jobs L') \<Longrightarrow>
   batch_id ` set (batches L) \<subseteq> batch_id ` set (batches L') \<Longrightarrow> quarantines_ok L' rows"
  unfolding quarantines_ok_def by blast

lemma attempts_ok_mono:
  "attempts_ok L rows \<Longrightarrow> job_id ` set (jobs L) \<subseteq> job_id ` set (jobs L') \<Longrightarrow> attempts_ok L' rows"
  unfolding attempts_ok_def by blast

lemma spans_ok_mono:
  "spans_ok L rows \<Longrightarrow> attempt_id ` set (attempts L) \<subseteq> attempt_id ` set (attempts L') \<Longrightarrow>
   job_id ` set (jobs L) \<subseteq> job_id ` set (jobs L') \<Longrightarrow> spans_ok L' rows"
  unfolding spans_ok_def by blast

lemmas ok_mono = batches_ok_mono cells_ok_mono jobs_ok_mono quarantines_ok_mono
  attempts_ok_mono spans_ok_mono

subsection \<open>Each statement evolves the ledger\<close>

named_theorems evolving \<open>statements and steps under which the ledger evolves\<close>

lemma put_state_evolves [evolving]: "put_state s L = Inr L' \<Longrightarrow> evolves L L'"
  unfolding put_state_def evolves_def schema_ok_def
  by (auto simp: table_refl split: if_splits intro: ok_mono)

lemma update_state_evolves [evolving]: "update_state f L = Inr L' \<Longrightarrow> evolves L L'"
  unfolding update_state_def by (rule put_state_evolves)

lemma insert_plan_evolves [evolving]: "put_plans (plans L @ [p]) L = Inr L' \<Longrightarrow> evolves L L'"
  unfolding put_plans_def evolves_def schema_ok_def
  by (auto simp: table_refl split: if_splits intro: plans_table.evolve_insert ok_mono)

lemma insert_cell_evolves [evolving]: "put_cells (cells L @ [c]) L = Inr L' \<Longrightarrow> evolves L L'"
  unfolding put_cells_def evolves_def schema_ok_def
  by (auto simp: table_refl split: if_splits intro: cells_table.evolve_insert ok_mono)

lemma put_batches_evolves:
  "put_batches rows L = Inr L' \<Longrightarrow> rows_evolve batch_step (batches L) rows \<Longrightarrow> evolves L L'"
  unfolding put_batches_def evolves_def schema_ok_def
  using batches_table.keys_kept [of "batches L" rows]
    jobs_ok_mono [of L "jobs L" "L\<lparr>batches := rows\<rparr>"]
    quarantines_ok_mono [of L "quarantines L" "L\<lparr>batches := rows\<rparr>"]
    batches_ok_mono [of L rows "L\<lparr>batches := rows\<rparr>"] cells_ok_mono [of L "cells L" "L\<lparr>batches := rows\<rparr>"]
    attempts_ok_mono [of L "attempts L" "L\<lparr>batches := rows\<rparr>"] spans_ok_mono [of L "spans L" "L\<lparr>batches := rows\<rparr>"]
  by (auto simp: table_refl split: if_splits)

lemma put_jobs_evolves:
  "put_jobs rows L = Inr L' \<Longrightarrow> rows_evolve job_step (jobs L) rows \<Longrightarrow> evolves L L'"
  unfolding put_jobs_def evolves_def schema_ok_def
  using jobs_table.keys_kept [of "jobs L" rows]
    jobs_ok_mono [of L rows "L\<lparr>jobs := rows\<rparr>"]
    quarantines_ok_mono [of L "quarantines L" "L\<lparr>jobs := rows\<rparr>"]
    batches_ok_mono [of L "batches L" "L\<lparr>jobs := rows\<rparr>"] cells_ok_mono [of L "cells L" "L\<lparr>jobs := rows\<rparr>"]
    attempts_ok_mono [of L "attempts L" "L\<lparr>jobs := rows\<rparr>"] spans_ok_mono [of L "spans L" "L\<lparr>jobs := rows\<rparr>"]
  by (auto simp: table_refl split: if_splits)

lemma put_quarantines_evolves:
  "put_quarantines rows L = Inr L' \<Longrightarrow> rows_evolve quarantine_step (quarantines L) rows \<Longrightarrow> evolves L L'"
  unfolding put_quarantines_def evolves_def schema_ok_def
  by (auto simp: table_refl split: if_splits intro: ok_mono)

lemma put_attempts_evolves:
  "put_attempts rows L = Inr L' \<Longrightarrow> rows_evolve attempt_step (attempts L) rows \<Longrightarrow> evolves L L'"
  unfolding put_attempts_def evolves_def schema_ok_def
  using attempts_table.keys_kept [of "attempts L" rows]
    jobs_ok_mono [of L "jobs L" "L\<lparr>attempts := rows\<rparr>"]
    quarantines_ok_mono [of L "quarantines L" "L\<lparr>attempts := rows\<rparr>"]
    batches_ok_mono [of L "batches L" "L\<lparr>attempts := rows\<rparr>"] cells_ok_mono [of L "cells L" "L\<lparr>attempts := rows\<rparr>"]
    attempts_ok_mono [of L rows "L\<lparr>attempts := rows\<rparr>"] spans_ok_mono [of L "spans L" "L\<lparr>attempts := rows\<rparr>"]
  by (auto simp: table_refl split: if_splits)

lemma put_workers_evolves:
  "put_workers rows L = Inr L' \<Longrightarrow> rows_evolve worker_step (workers L) rows \<Longrightarrow> evolves L L'"
  unfolding put_workers_def evolves_def schema_ok_def
  by (auto simp: table_refl split: if_splits intro: ok_mono)

lemma put_spans_evolves:
  "put_spans rows L = Inr L' \<Longrightarrow> rows_evolve span_step (spans L) rows \<Longrightarrow> evolves L L'"
  unfolding put_spans_def evolves_def schema_ok_def
  by (auto simp: table_refl split: if_splits intro: ok_mono)

lemma put_events_evolves: "put_events (events L @ [e]) L = Inr L' \<Longrightarrow> evolves L L'"
  unfolding put_events_def evolves_def schema_ok_def
  by (auto simp: table_refl split: if_splits intro: events_table.evolve_insert ok_mono)

lemma update_batches_evolves:
  "update_batches P f L = Inr L' \<Longrightarrow> (\<And>b. b \<in> set (batches L) \<Longrightarrow> P b \<Longrightarrow> batch_step b (f b)) \<Longrightarrow> evolves L L'"
  unfolding update_batches_def by (erule put_batches_evolves) (rule batches_table.evolve_update)

lemma update_jobs_evolves:
  "update_jobs P f L = Inr L' \<Longrightarrow> (\<And>j. j \<in> set (jobs L) \<Longrightarrow> P j \<Longrightarrow> job_step j (f j)) \<Longrightarrow> evolves L L'"
  unfolding update_jobs_def by (erule put_jobs_evolves) (rule jobs_table.evolve_update)

lemma update_quarantines_evolves:
  "update_quarantines P f L = Inr L' \<Longrightarrow>
   (\<And>q. q \<in> set (quarantines L) \<Longrightarrow> P q \<Longrightarrow> quarantine_step q (f q)) \<Longrightarrow> evolves L L'"
  unfolding update_quarantines_def
  by (erule put_quarantines_evolves) (rule quarantines_table.evolve_update)

lemma update_attempts_evolves:
  "update_attempts P f L = Inr L' \<Longrightarrow>
   (\<And>a. a \<in> set (attempts L) \<Longrightarrow> P a \<Longrightarrow> attempt_step a (f a)) \<Longrightarrow> evolves L L'"
  unfolding update_attempts_def by (erule put_attempts_evolves) (rule attempts_table.evolve_update)

lemma update_workers_evolves:
  "update_workers P f L = Inr L' \<Longrightarrow>
   (\<And>w. w \<in> set (workers L) \<Longrightarrow> P w \<Longrightarrow> worker_step w (f w)) \<Longrightarrow> evolves L L'"
  unfolding update_workers_def by (erule put_workers_evolves) (rule workers_table.evolve_update)

lemma update_spans_evolves:
  "update_spans P f L = Inr L' \<Longrightarrow>
   (\<And>s. s \<in> set (spans L) \<Longrightarrow> P s \<Longrightarrow> span_step s (f s)) \<Longrightarrow> evolves L L'"
  unfolding update_spans_def by (erule put_spans_evolves) (rule spans_table.evolve_update)

lemma insert_job_evolves [evolving]: "put_jobs (jobs L @ [j]) L = Inr L' \<Longrightarrow> evolves L L'"
  by (erule put_jobs_evolves) (rule jobs_table.evolve_insert)

lemma insert_batch_evolves [evolving]: "put_batches (batches L @ [b]) L = Inr L' \<Longrightarrow> evolves L L'"
  by (erule put_batches_evolves) (rule batches_table.evolve_insert)

lemma insert_quarantine_evolves [evolving]:
  "put_quarantines (quarantines L @ [q]) L = Inr L' \<Longrightarrow> evolves L L'"
  by (erule put_quarantines_evolves) (rule quarantines_table.evolve_insert)

lemma insert_attempt_evolves [evolving]: "put_attempts (attempts L @ [a]) L = Inr L' \<Longrightarrow> evolves L L'"
  by (erule put_attempts_evolves) (rule attempts_table.evolve_insert)

lemma insert_worker_evolves [evolving]: "put_workers (workers L @ [w]) L = Inr L' \<Longrightarrow> evolves L L'"
  by (erule put_workers_evolves) (rule workers_table.evolve_insert)

lemma insert_span_evolves [evolving]: "put_spans (spans L @ [s]) L = Inr L' \<Longrightarrow> evolves L L'"
  by (erule put_spans_evolves) (rule spans_table.evolve_insert)

lemma event_locked_evolves [evolving]:
  "event_locked ty now ac b j p v L = Inr (eid, L') \<Longrightarrow> evolves L L'"
  by (auto simp: event_locked_def Let_def results dest: put_events_evolves)

lemma log_event_evolves [evolving]: "log_event ty now ac b j p v L = Inr L' \<Longrightarrow> evolves L L'"
  by (auto simp: log_event_def results dest: event_locked_evolves)

subsection \<open>Events touch the event table only, and are accepted\<close>

lemma event_locked_Inr:
  "event_locked ty now ac b j p v L = Inr (eid, L') \<Longrightarrow>
   \<exists>row. L' = L\<lparr>events := events L @ [row]\<rparr> \<and> event_id row = eid \<and> event_type row = ty
      \<and> eid = next_rowid event_id (events L) \<and> event_actor row = ac \<and> event_job row = j
      \<and> event_batch row = b \<and> event_plan row = p \<and> occurred_at row = timestamp now
      \<and> event_payload row = sort_keys v"
  by (auto simp: event_locked_def Let_def results put_events_def split: if_splits)

lemma log_event_Inr:
  "log_event ty now ac b j p v L = Inr L' \<Longrightarrow>
   \<exists>row. L' = L\<lparr>events := events L @ [row]\<rparr> \<and> event_type row = ty \<and> event_actor row = ac
      \<and> event_job row = j \<and> event_batch row = b \<and> event_plan row = p
      \<and> event_payload row = sort_keys v"
  by (auto simp: log_event_def results dest!: event_locked_Inr)

lemma log_event_frame:
  assumes "log_event ty now ac b j p v L = Inr L'"
  shows "cstate L' = cstate L" "plans L' = plans L" "batches L' = batches L" "cells L' = cells L"
    "jobs L' = jobs L" "quarantines L' = quarantines L" "attempts L' = attempts L"
    "workers L' = workers L" "spans L' = spans L"
  using log_event_Inr [OF assms] by auto

text \<open>\<open>logged L L'\<close>: one event was appended and nothing else happened.\<close>

definition logged :: "ledger \<Rightarrow> ledger \<Rightarrow> bool" where
  "logged L L' \<longleftrightarrow> (\<exists>row. L' = L\<lparr>events := events L @ [row]\<rparr>) \<and> evolves L L'"

lemma loggedI: "log_event ty now ac b j p v L = Inr L' \<Longrightarrow> logged L L'"
  using log_event_Inr log_event_evolves unfolding logged_def by blast

lemma run_log:
  "and_then (log_event ty now ac b j p v L) f = Inr z \<Longrightarrow> (\<And>L'. logged L L' \<Longrightarrow> f L' = Inr z \<Longrightarrow> P) \<Longrightarrow> P"
  by (auto simp: results intro: loggedI)

lemma run_log_return:
  "and_then (log_event ty now ac b j p v L) (\<lambda>L. Inr (x, L)) = Inr (y, z) \<Longrightarrow>
   (logged L z \<Longrightarrow> x = y \<Longrightarrow> P) \<Longrightarrow> P"
  by (auto simp: results intro: loggedI)

text \<open>Statement by statement, with every event reduced to the fact that it was appended.\<close>

lemmas ledger_run = run_require run_log_return run_log run_triple run_pair run_step run_return

lemma logged_evolves: "logged L L' \<Longrightarrow> evolves L L'"
  by (simp add: logged_def)

lemma logged_frame:
  assumes "logged L L'"
  shows "cstate L' = cstate L" "plans L' = plans L" "batches L' = batches L" "cells L' = cells L"
    "jobs L' = jobs L" "quarantines L' = quarantines L" "attempts L' = attempts L"
    "workers L' = workers L" "spans L' = spans L"
  using assms by (auto simp: logged_def)

lemma event_locked_frame:
  assumes "event_locked ty now ac b j p v L = Inr (eid, L')"
  shows "cstate L' = cstate L" "plans L' = plans L" "batches L' = batches L" "cells L' = cells L"
    "jobs L' = jobs L" "quarantines L' = quarantines L" "attempts L' = attempts L"
    "workers L' = workers L" "spans L' = spans L"
  using event_locked_Inr [OF assms] by auto

lemma events_ok_next:
  "events_ok (events L) \<Longrightarrow> event_id row = next_rowid event_id (events L) \<Longrightarrow> events_ok (events L @ [row])"
  using next_rowid_fresh [of event_id "events L"] by (auto simp: events_ok_def)

lemma event_locked_total:
  assumes ok: "events_ok (events L)" and t: "text_field (JStr ac) ''event actor'' = Inr t"
    and v: "serializable v"
  shows "\<exists>row. event_locked ty now ac b j p v L = Inr (event_id row, L\<lparr>events := events L @ [row]\<rparr>)"
proof -
  let ?row = "\<lparr>event_id = next_rowid event_id (events L), occurred_at = timestamp now,
    event_type = ty, event_actor = t, event_batch = b, event_job = j, event_plan = p,
    event_payload = sort_keys v\<rparr>"
  have "events_ok (events L @ [?row])" by (rule events_ok_next [OF ok]) simp
  then have "event_locked ty now ac b j p v L = Inr (event_id ?row, L\<lparr>events := events L @ [?row]\<rparr>)"
    by (simp add: event_locked_def t v canonical_json_def put_events_def Let_def)
  then show ?thesis by (rule exI)
qed

lemma log_event_total:
  assumes "events_ok (events L)" and "text_field (JStr ac) ''event actor'' = Inr t" and "serializable v"
  shows "\<exists>row. log_event ty now ac b j p v L = Inr (L\<lparr>events := events L @ [row]\<rparr>)"
proof -
  from event_locked_total [OF assms, of ty now b j p] obtain row
    where "event_locked ty now ac b j p v L = Inr (event_id row, L\<lparr>events := events L @ [row]\<rparr>)"
    by (elim exE)
  then have "log_event ty now ac b j p v L = Inr (L\<lparr>events := events L @ [row]\<rparr>)"
    by (simp add: log_event_def)
  then show ?thesis by (rule exI)
qed

subsection \<open>Transactions\<close>

lemma transaction_Inr:
  "transaction body L = (Inr x, L') \<longleftrightarrow> body L = Inr (x, L')"
  by (auto simp: transaction_def split: sum.splits)

lemma transaction_Inl:
  "transaction body L = (Inl e, L') \<longleftrightarrow> body L = Inl e \<and> L' = L"
  by (auto simp: transaction_def split: sum.splits)

lemma transaction_evolves:
  assumes "\<And>x L'. body L = Inr (x, L') \<Longrightarrow> evolves L L'"
  shows "evolves L (snd (transaction body L))"
  using assms by (auto simp: transaction_def split: sum.splits)

end
