(* ===== verification/Leases.thy ===== *)
theory Leases
  imports Ledger_Evolution
begin

text \<open>
  The lease protocol of src/fidb_poc/coordinator.py: expiry recovery, claim, the fence every
  worker call must pass (\<open>_require_lease_locked\<close>), renewal, completion and failure with the
  retry ceiling, pathological quarantine and the circuit breaker.  Each operation is the
  body of its \<open>with self._transaction()\<close> block, and the operation itself runs that body in
  a transaction.
\<close>

section \<open>Interrupting open spans\<close>

text \<open>One iteration of \<open>_close_open_stage_attempts_locked\<close>.\<close>

definition interrupt_span ::
  "job_row \<Rightarrow> rat \<Rightarrow> string \<Rightarrow> string \<Rightarrow> span_row \<Rightarrow> ledger \<Rightarrow> ledger result" where
  "interrupt_span row now reason actor opened L =
     (let ended_at = timestamp now;
          details = JObj [(''started'', span_details opened),
            (''interruption'', JObj [(''reason'', JStr reason),
               (''measurement'', JStr ''coordinator-wall-clock'')])];
          duration_ns = elapsed_ns (span_started_at opened) ended_at;
          regressed = (ended_at < span_started_at opened)
      in and_then (canonical_json details) (\<lambda>details_json.
         and_then (update_spans (\<lambda>s. span_id s = span_id opened \<and> span_state s = Started)
           (\<lambda>s. s\<lparr>span_state := Interrupted, span_ended_at := Some ended_at,
                  span_duration_ns := Some duration_ns,
                  span_duration_source := Some CoordinatorWallClock,
                  wall_clock_regressed := regressed, span_details := details_json,
                  span_error := Some reason\<rparr>) L) (\<lambda>L.
         log_event ''stage.interrupted'' now actor (Some (job_batch row)) (Some (job_id row))
           (Some (job_plan row))
           (JObj [(''stage'', JStr (span_stage opened)), (''stage_attempt_id'', JInt (span_id opened)),
                  (''stage_attempt'', JInt (span_stage_attempt opened)),
                  (''lease_generation'', JInt (lease_generation row)),
                  (''duration_ns'', JInt duration_ns),
                  (''duration_source'', JStr ''coordinator-wall-clock''),
                  (''wall_clock_regressed'', JBool regressed), (''reason'', JStr reason)]) L)))"

definition open_spans_of :: "string \<Rightarrow> int \<Rightarrow> ledger \<Rightarrow> span_row list" where
  "open_spans_of jid generation L =
     filter (\<lambda>s. span_job s = jid \<and> span_generation s = generation \<and> span_state s = Started) (spans L)"

definition close_open_stage_attempts_locked ::
  "job_row \<Rightarrow> rat \<Rightarrow> string \<Rightarrow> string \<Rightarrow> ledger \<Rightarrow> ledger result" where
  "close_open_stage_attempts_locked row now reason actor L =
     fold_result (interrupt_span row now reason actor)
       (order_by span_sequence (open_spans_of (job_id row) (lease_generation row) L)) L"

section \<open>Recovery of expired leases\<close>

definition retry_delay :: "coordinator_state \<Rightarrow> int \<Rightarrow> int" where
  "retry_delay st attempts_made =
     (let base = retry_backoff_seconds st; maximum = retry_backoff_max_seconds st
      in if base = 0 \<or> maximum = 0 then 0
         else min maximum (base * 2 ^ nat (max 0 (attempts_made - 1))))"

definition expired_rows :: "rat \<Rightarrow> ledger \<Rightarrow> job_row list" where
  "expired_rows now L =
     order_by (\<lambda>j. (lease_expires_at j, job_id j))
       (filter (\<lambda>j. job_live j \<and> (case lease_expires_at j of None \<Rightarrow> False | Some t \<Rightarrow> t \<le> now)) (jobs L))"

text \<open>One iteration of \<open>_recover_expired_locked\<close>, for the row as selected before the loop.\<close>

definition recover_row ::
  "coordinator_state \<Rightarrow> rat \<Rightarrow> string \<Rightarrow> job_row \<Rightarrow> ledger \<Rightarrow> ledger result" where
  "recover_row st now actor row L =
     (let retry = attempt_count row < max_attempts st;
          next_state = (if retry then Queued else Failed);
          delay = (if retry then retry_delay st (attempt_count row) else 0);
          eligible = (if retry then now + of_int delay else 0);
          err = ''lease expired'';
          span_end = min now (case lease_expires_at row of None \<Rightarrow> now | Some t \<Rightarrow> t)
      in and_then (close_open_stage_attempts_locked row span_end err actor L) (\<lambda>L.
         and_then (update_attempts
           (\<lambda>a. attempt_job a = job_id row \<and> attempt_generation a = lease_generation row \<and> attempt_live a)
           (\<lambda>a. a\<lparr>attempt_state := AExpired, attempt_ended_at := Some (timestamp span_end),
                  attempt_error := Some err\<rparr>) L) (\<lambda>L.
         and_then (update_jobs
           (\<lambda>j. job_id j = job_id row \<and> lease_generation j = lease_generation row)
           (\<lambda>j. j\<lparr>job_state := next_state, lease_token := None, leased_by := None,
                  lease_expires_at := None, current_stage := None, job_error := Some err,
                  eligible_at := eligible, job_updated_at := timestamp now\<rparr>) L) (\<lambda>L.
         log_event (if retry then ''job.requeued'' else ''job.failed'') now actor
           (Some (job_batch row)) (Some (job_id row)) (Some (job_plan row))
           (JObj [(''reason'', JStr err), (''expired_generation'', JInt (lease_generation row)),
                  (''attempt_count'', JInt (attempt_count row)),
                  (''retry_cap_reached'', JBool (\<not> retry)),
                  (''retry_delay_seconds'', JInt delay),
                  (''eligible_at'', if retry then JFloat eligible else JNull)]) L))))"

definition recover_expired_locked :: "rat \<Rightarrow> string \<Rightarrow> ledger \<Rightarrow> (int \<times> ledger) result" where
  "recover_expired_locked now actor L =
     (let rows = expired_rows now L
      in and_then (fold_result (recover_row (cstate L) now actor) rows L)
           (\<lambda>L. Inr (int (length rows), L)))"

definition recover_expired :: "rat \<Rightarrow> string \<Rightarrow> ledger \<Rightarrow> int result \<times> ledger" where
  "recover_expired now actor = transaction (recover_expired_locked now actor)"

section \<open>Claim\<close>

record lease_payload =
  lp_job_id :: string
  lp_batch_id :: string
  lp_batch_position :: int
  lp_job_position :: int
  lp_plan_digest :: string
  lp_base_cell :: string
  lp_factor_variants :: json
  lp_attempt_number :: int
  lp_lease_token :: string
  lp_lease_generation :: int
  lp_leased_by :: string
  lp_lease_expires_at :: rat
  lp_queue_row :: json
  lp_cell :: json

text \<open>\<open>_lease_payload\<close> of the row \<open>SELECT jobs.*, batches.position ..\<close> of a job, which every
  caller fetches first; a missing row is Python's subscript of \<open>None\<close>.\<close>

definition lease_payload_of :: "string \<Rightarrow> ledger \<Rightarrow> lease_payload result" where
  "lease_payload_of jid L =
     (case find (\<lambda>(j, b). job_id j = jid \<and> batch_id b = job_batch j)
             (List.product (jobs L) (batches L)) of
        None \<Rightarrow> Inl (TypeError ''NoneType object is not subscriptable'')
      | Some (j, b) \<Rightarrow>
          (case find (\<lambda>c. cell_plan c = job_plan j \<and> cell_id c = job_cell j) (cells L) of
             None \<Rightarrow> Inl (TypeError ''NoneType object is not subscriptable'')
           | Some c \<Rightarrow>
               (case lease_expires_at j of
                  None \<Rightarrow> Inl (TypeError ''float() argument must be a string or a real number'')
                | Some expires \<Rightarrow>
                    Inr \<lparr>lp_job_id = job_id j, lp_batch_id = job_batch j,
                         lp_batch_position = batch_position b, lp_job_position = job_position j,
                         lp_plan_digest = job_plan j, lp_base_cell = job_cell j,
                         lp_factor_variants = factor_variants_json j,
                         lp_attempt_number = attempt_count j,
                         lp_lease_token = str_of (lease_token j),
                         lp_lease_generation = lease_generation j,
                         lp_leased_by = str_of (leased_by j), lp_lease_expires_at = expires,
                         lp_queue_row = queue_row_json j, lp_cell = cell_json c\<rparr>)))"

text \<open>The join of jobs with their batch and resolved cell.\<close>

definition joined :: "ledger \<Rightarrow> (job_row \<times> batch_row \<times> cell_row) list" where
  "joined L =
     concat (map (\<lambda>j. concat (map (\<lambda>b. if batch_id b = job_batch j
         then map (\<lambda>c. (j, b, c)) (filter (\<lambda>c. cell_plan c = job_plan j \<and> cell_id c = job_cell j) (cells L))
         else []) (batches L))) (jobs L))"

text \<open>The eligible jobs of a claim, in batch and job order; \<open>selection\<close> is the optional
  batch filter.\<close>

definition claim_candidates ::
  "rat \<Rightarrow> string list option \<Rightarrow> ledger \<Rightarrow> (job_row \<times> batch_row \<times> cell_row) list" where
  "claim_candidates now selection L =
     order_by (\<lambda>(j, b, c). (batch_position b, job_position j, job_id j))
       (filter (\<lambda>(j, b, c). job_active j \<and> batch_active b \<and> job_state j = Queued
                  \<and> eligible_at j \<le> now
                  \<and> (case selection of None \<Rightarrow> True | Some bs \<Rightarrow> job_batch j \<in> set bs))
          (joined L))"

definition claim_choice ::
  "string option \<Rightarrow> (job_row \<times> batch_row \<times> cell_row) list \<Rightarrow> job_row option" where
  "claim_choice pool candidates =
     map_option fst
       (find (\<lambda>(j, b, c). case pool of None \<Rightarrow> True | Some p \<Rightarrow> worker_pool_accepts_cell p (cell_json c))
          (if pool = None then take 1 candidates else candidates))"

text \<open>Live jobs of active batches: what the worker cap counts.\<close>

definition active_worker_count :: "ledger \<Rightarrow> int" where
  "active_worker_count L =
     int (length (filter (\<lambda>(j, b, c). job_active j \<and> batch_active b \<and> job_live j)
        (concat (map (\<lambda>j. map (\<lambda>b. (j, b, ())) (filter (\<lambda>b. batch_id b = job_batch j) (batches L)))
           (jobs L)))))"

text \<open>The writes of a claim, for the chosen row and the fresh token.\<close>

definition grant_lease ::
  "coordinator_state \<Rightarrow> string \<Rightarrow> string \<Rightarrow> rat \<Rightarrow> string option \<Rightarrow> job_row \<Rightarrow> ledger \<Rightarrow> ledger result" where
  "grant_lease st token worker now pool row L =
     (let generation = lease_generation row + 1; attempt = attempt_count row + 1;
          expires_at = now + of_int (lease_seconds st);
          chosen = (\<lambda>j. job_id j = job_id row \<and> job_state j = Queued \<and> job_active j)
      in and_then (update_jobs chosen
           (\<lambda>j. j\<lparr>job_state := Leased, attempt_count := attempt, lease_token := Some token,
                  lease_generation := generation, leased_by := Some worker,
                  lease_expires_at := Some expires_at, current_stage := None, job_error := None,
                  failure_class := None, eligible_at := 0, job_updated_at := timestamp now\<rparr>) L) (\<lambda>L'.
         and_then (require (length (filter chosen (jobs L)) = 1)
           (CoordinatorError ''eligible job changed during atomic claim'')) (\<lambda>_.
         and_then (put_attempts (attempts L' @
             [\<lparr>attempt_id = next_rowid attempt_id (attempts L'), attempt_job = job_id row,
               attempt_number = attempt, attempt_token = token, attempt_generation = generation,
               attempt_worker = worker, attempt_state = ALeased,
               attempt_started_at = timestamp now, attempt_expires_at = expires_at,
               attempt_ended_at = None, attempt_error = None\<rparr>]) L') (\<lambda>L''.
         log_event ''job.claimed'' now worker (Some (job_batch row)) (Some (job_id row))
           (Some (job_plan row))
           (JObj ([(''attempt'', JInt attempt), (''lease_generation'', JInt generation),
                   (''lease_expires_at'', JFloat expires_at)]
                  @ (case pool of None \<Rightarrow> [] | Some p \<Rightarrow> [(''worker_pool'', JStr p)]))) L''))))"

definition claim_body ::
  "string \<Rightarrow> string \<Rightarrow> rat \<Rightarrow> string option \<Rightarrow> string list option \<Rightarrow> ledger
   \<Rightarrow> (lease_payload option \<times> ledger) result" where
  "claim_body token worker now pool selection L =
     and_then (recover_expired_locked now ''coordinator'' L) (\<lambda>(recovered, L).
       if \<not> armed (cstate L) \<or> paused (cstate L) then Inr (None, L)
       else if active_worker_count L \<ge> max_workers (cstate L) then Inr (None, L)
       else case claim_choice pool (claim_candidates now selection L) of
              None \<Rightarrow> Inr (None, L)
            | Some row \<Rightarrow>
                and_then (grant_lease (cstate L) token worker now pool row L) (\<lambda>L.
                and_then (lease_payload_of (job_id row) L) (\<lambda>payload. Inr (Some payload, L))))"

text \<open>The argument checks of \<open>claim\<close>; the selection is the one batch or the batches given.\<close>

definition claim_selection ::
  "string option \<Rightarrow> string list option \<Rightarrow> string list option result" where
  "claim_selection one many =
     (if one \<noteq> None \<and> many \<noteq> None
      then Inl (ValueError ''claim accepts either batch_id or batch_ids'')
      else case one of
        Some b \<Rightarrow> and_then (identifier_field (JStr b) ''claim batch id'') (\<lambda>b. Inr (Some [b]))
      | None \<Rightarrow>
          (case many of
             None \<Rightarrow> Inr None
           | Some bs \<Rightarrow>
               and_then (map_result (\<lambda>b. identifier_field (JStr b) ''claim batch id'') bs) (\<lambda>bs.
                 if bs = [] \<or> \<not> distinct bs
                 then Inl (ValueError ''claim batch_ids must be non-empty and unique'')
                 else Inr (Some bs))))"

definition claim ::
  "string \<Rightarrow> string \<Rightarrow> rat \<Rightarrow> string option \<Rightarrow> string option \<Rightarrow> string list option \<Rightarrow> ledger
   \<Rightarrow> lease_payload option result \<times> ledger" where
  "claim token worker_name now pool one many L =
     (case text_field (JStr worker_name) ''worker id'' of
        Inl e \<Rightarrow> (Inl e, L)
      | Inr worker \<Rightarrow>
          if (case pool of None \<Rightarrow> False | Some p \<Rightarrow> p \<notin> set WORKER_POOLS)
          then (Inl (ValueError (''unsupported worker pool: '' @ str_of pool)), L)
          else case claim_selection one many of
                 Inl e \<Rightarrow> (Inl e, L)
               | Inr selection \<Rightarrow> transaction (claim_body token worker now pool selection) L)"

section \<open>The fence\<close>

text \<open>\<open>_require_lease_locked\<close>: recovery first, then the job, its state, token, generation
  and expiry.\<close>

definition require_lease_locked ::
  "string \<Rightarrow> string \<Rightarrow> int \<Rightarrow> rat \<Rightarrow> ledger \<Rightarrow> (job_row \<times> ledger) result" where
  "require_lease_locked jid token generation now L =
     and_then (recover_expired_locked now ''coordinator'' L) (\<lambda>(recovered, L).
       case find (\<lambda>j. job_id j = jid) (jobs L) of
         None \<Rightarrow> Inl (LeaseConflictError (''unknown job: '' @ jid))
       | Some row \<Rightarrow>
           if \<not> job_live row \<or> lease_token row \<noteq> Some token \<or> lease_generation row \<noteq> generation
              \<or> (case lease_expires_at row of None \<Rightarrow> True | Some t \<Rightarrow> t \<le> now)
           then Inl (LeaseConflictError (''stale or inactive lease for job '' @ jid))
           else Inr (row, L))"

section \<open>Renewal and completion\<close>

definition renew_body ::
  "string \<Rightarrow> string \<Rightarrow> int \<Rightarrow> rat \<Rightarrow> int option \<Rightarrow> ledger \<Rightarrow> (lease_payload \<times> ledger) result" where
  "renew_body jid token generation now seconds L =
     and_then (require_lease_locked jid token generation now L) (\<lambda>(row, L).
     let duration = (case seconds of None \<Rightarrow> lease_seconds (cstate L) | Some s \<Rightarrow> s);
         expires_at = now + of_int duration
     in and_then (update_jobs
          (\<lambda>j. job_id j = jid \<and> lease_token j = Some token \<and> lease_generation j = generation)
          (\<lambda>j. j\<lparr>lease_expires_at := Some expires_at, job_updated_at := timestamp now\<rparr>) L) (\<lambda>L.
        and_then (update_attempts
          (\<lambda>a. attempt_job a = jid \<and> attempt_generation a = generation \<and> attempt_live a)
          (\<lambda>a. a\<lparr>attempt_expires_at := expires_at\<rparr>) L) (\<lambda>L.
        and_then (log_event ''lease.renewed'' now (str_of (leased_by row)) (Some (job_batch row))
          (Some jid) (Some (job_plan row))
          (JObj [(''lease_generation'', JInt generation), (''lease_expires_at'', JFloat expires_at)]) L) (\<lambda>L.
        and_then (lease_payload_of jid L) (\<lambda>payload. Inr (payload, L))))))"

definition renew ::
  "string \<Rightarrow> string \<Rightarrow> int \<Rightarrow> rat \<Rightarrow> int option \<Rightarrow> ledger \<Rightarrow> lease_payload result \<times> ledger" where
  "renew jid token generation now seconds L =
     (case (case seconds of None \<Rightarrow> Inr None
            | Some s \<Rightarrow> and_then (positive_integer (JInt s) ''lease_seconds'') (\<lambda>s. Inr (Some s))) of
        Inl e \<Rightarrow> (Inl e, L)
      | Inr checked \<Rightarrow> transaction (renew_body jid token generation now checked) L)"

definition complete_body ::
  "string \<Rightarrow> string \<Rightarrow> int \<Rightarrow> json \<Rightarrow> json \<Rightarrow> rat \<Rightarrow> ledger \<Rightarrow> (unit \<times> ledger) result" where
  "complete_body jid token generation outcome outcome_json now L =
     and_then (require_lease_locked jid token generation now L) (\<lambda>(row, L).
     and_then (require (open_spans_of jid generation L = [])
       (CoordinatorError ''cannot complete job while a stage is still running'')) (\<lambda>_.
     and_then (update_jobs
       (\<lambda>j. job_id j = jid \<and> lease_token j = Some token \<and> lease_generation j = generation)
       (\<lambda>j. j\<lparr>job_state := Complete, lease_token := None, leased_by := None,
              lease_expires_at := None, result_json := Some outcome_json, job_error := None,
              current_stage := None, job_updated_at := timestamp now\<rparr>) L) (\<lambda>L.
     and_then (update_attempts
       (\<lambda>a. attempt_job a = jid \<and> attempt_generation a = generation \<and> attempt_live a)
       (\<lambda>a. a\<lparr>attempt_state := AComplete, attempt_ended_at := Some (timestamp now)\<rparr>) L) (\<lambda>L.
     and_then (log_event ''job.completed'' now (str_of (leased_by row)) (Some (job_batch row))
       (Some jid) (Some (job_plan row))
       (JObj [(''lease_generation'', JInt generation), (''result'', outcome)]) L) (\<lambda>L.
     Inr ((), L))))))"

text \<open>\<open>_job_payload\<close> is the row itself: the columns, decoded.  \<open>get_job\<close> reads one row.\<close>

definition get_job :: "string \<Rightarrow> ledger \<Rightarrow> job_row result" where
  "get_job jid L =
     (case find (\<lambda>j. job_id j = jid) (jobs L) of None \<Rightarrow> Inl (KeyError jid) | Some j \<Rightarrow> Inr j)"

text \<open>\<open>return self.get_job(job_id)\<close> after the transaction has committed.\<close>

definition then_get_job :: "string \<Rightarrow> unit result \<times> ledger \<Rightarrow> job_row result \<times> ledger" where
  "then_get_job jid p = (case p of (Inl e, L) \<Rightarrow> (Inl e, L) | (Inr _, L) \<Rightarrow> (get_job jid L, L))"

definition complete ::
  "string \<Rightarrow> string \<Rightarrow> int \<Rightarrow> json option \<Rightarrow> rat \<Rightarrow> ledger \<Rightarrow> job_row result \<times> ledger" where
  "complete jid token generation outcome now L =
     (let value = (case outcome of None \<Rightarrow> JObj [] | Some v \<Rightarrow> v)
      in case canonical_json value of
           Inl e \<Rightarrow> (Inl e, L)
         | Inr outcome_json \<Rightarrow>
             then_get_job jid (transaction (complete_body jid token generation value outcome_json now) L))"

section \<open>Failure\<close>

definition starts_with :: "string \<Rightarrow> string \<Rightarrow> bool" where
  "starts_with s p = (take (length p) s = p)"

text \<open>The quarantine of a pathological failure.\<close>

definition quarantine_failed_job ::
  "string \<Rightarrow> string option \<Rightarrow> rat \<Rightarrow> job_row \<Rightarrow> ledger \<Rightarrow> ledger result" where
  "quarantine_failed_job failure classified now row L =
     (let pathology_class = (case classified of None \<Rightarrow> ''pathological:analysis-timeout'' | Some c \<Rightarrow> c)
      in and_then (put_quarantines (quarantines L @
           [\<lparr>quarantine_id = next_rowid quarantine_id (quarantines L), q_job = job_id row,
             q_batch = job_batch row, q_state = QActive, q_reason = failure,
             q_failure_class = pathology_class, q_attempt_count = attempt_count row,
             q_created_at = timestamp now, q_released_at = None, q_release_reason = None\<rparr>]) L) (\<lambda>L.
         log_event ''job.pathological-quarantined'' now (str_of (leased_by row))
           (Some (job_batch row)) (Some (job_id row)) (Some (job_plan row))
           (JObj [(''reason'', JStr failure), (''failure_class'', JStr pathology_class),
                  (''attempt_count'', JInt (attempt_count row)),
                  (''attempt_evidence_preserved'', JBool True)]) L))"

text \<open>The circuit breaker: pause the queue once a batch has failed often enough for one
  authority-resolution class.  \<open>st\<close> is the state row read before the writes.\<close>

definition class_failure_count :: "string \<Rightarrow> string \<Rightarrow> ledger \<Rightarrow> int" where
  "class_failure_count batch cls L =
     int (length (filter (\<lambda>(j, b). batch_id b = job_batch j \<and> job_active j \<and> batch_active b
        \<and> job_batch j = batch \<and> job_state j = Failed \<and> failure_class j = Some cls)
        (List.product (jobs L) (batches L))))"

definition open_circuit ::
  "coordinator_state \<Rightarrow> string \<Rightarrow> rat \<Rightarrow> job_row \<Rightarrow> ledger \<Rightarrow> ledger result" where
  "open_circuit st cls now row L =
     (let failure_count = class_failure_count (job_batch row) cls L;
          threshold = authority_failure_threshold st
      in if failure_count \<ge> threshold \<and> \<not> paused st
         then and_then (update_state (\<lambda>s. s\<lparr>paused := True\<rparr>) L) (\<lambda>L.
              log_event ''queue.circuit-opened'' now ''coordinator'' (Some (job_batch row)) None
                (Some (job_plan row))
                (JObj [(''reason'', JStr ''repeated authority-resolution failure''),
                       (''failure_class'', JStr cls), (''failure_count'', JInt failure_count),
                       (''threshold'', JInt threshold)]) L)
         else Inr L)"

definition fail_body ::
  "string \<Rightarrow> string \<Rightarrow> int \<Rightarrow> string \<Rightarrow> bool \<Rightarrow> string option \<Rightarrow> bool \<Rightarrow> rat \<Rightarrow> ledger
   \<Rightarrow> (unit \<times> ledger) result" where
  "fail_body jid token generation failure retryable classified pathological now L =
     and_then (require_lease_locked jid token generation now L) (\<lambda>(row, L).
     let st = cstate L;
         should_retry = (\<not> pathological \<and> retryable \<and> attempt_count row < max_attempts st);
         next_state = (if should_retry then Queued else Failed);
         delay = (if should_retry then retry_delay st (attempt_count row) else 0);
         eligible = (if should_retry then now + of_int delay else 0)
     in and_then (close_open_stage_attempts_locked row now failure (str_of (leased_by row)) L) (\<lambda>L.
        and_then (update_jobs
          (\<lambda>j. job_id j = jid \<and> lease_token j = Some token \<and> lease_generation j = generation)
          (\<lambda>j. j\<lparr>job_state := next_state, lease_token := None, leased_by := None,
                 lease_expires_at := None, current_stage := None, job_error := Some failure,
                 failure_class := classified, eligible_at := eligible,
                 job_updated_at := timestamp now\<rparr>) L) (\<lambda>L.
        and_then (update_attempts
          (\<lambda>a. attempt_job a = jid \<and> attempt_generation a = generation \<and> attempt_live a)
          (\<lambda>a. a\<lparr>attempt_state := AFailed, attempt_ended_at := Some (timestamp now),
                 attempt_error := Some failure\<rparr>) L) (\<lambda>L.
        and_then (log_event (if should_retry then ''job.requeued'' else ''job.failed'') now
          (str_of (leased_by row)) (Some (job_batch row)) (Some jid) (Some (job_plan row))
          (JObj [(''reason'', JStr failure), (''lease_generation'', JInt generation),
                 (''attempt_count'', JInt (attempt_count row)), (''retryable'', JBool retryable),
                 (''failure_class'', opt_str classified),
                 (''retry_cap_reached'', JBool (retryable \<and> \<not> pathological \<and> \<not> should_retry)),
                 (''pathological'', JBool pathological), (''retry_delay_seconds'', JInt delay),
                 (''eligible_at'', if should_retry then JFloat eligible else JNull)]) L) (\<lambda>L.
        and_then (if pathological then quarantine_failed_job failure classified now row L else Inr L) (\<lambda>L.
        and_then (case classified of
                    Some cls \<Rightarrow>
                      if next_state = Failed \<and> starts_with cls ''authority-resolution:''
                         \<and> authority_failure_threshold st > 0
                      then open_circuit st cls now row L else Inr L
                  | None \<Rightarrow> Inr L) (\<lambda>L.
        Inr ((), L))))))))"

definition fail ::
  "string \<Rightarrow> string \<Rightarrow> int \<Rightarrow> string \<Rightarrow> bool \<Rightarrow> string option \<Rightarrow> bool \<Rightarrow> rat \<Rightarrow> ledger
   \<Rightarrow> job_row result \<times> ledger" where
  "fail jid token generation err retryable cls pathological now L =
     (case text_field (JStr err) ''failure error'' of
        Inl e \<Rightarrow> (Inl e, L)
      | Inr failure \<Rightarrow>
          (case (case cls of None \<Rightarrow> Inr None
                 | Some c \<Rightarrow> and_then (text_field (JStr c) ''failure class'') (\<lambda>c. Inr (Some c))) of
             Inl e \<Rightarrow> (Inl e, L)
           | Inr classified \<Rightarrow>
               then_get_job jid
                 (transaction (fail_body jid token generation failure retryable classified pathological now) L)))"

end
