(* ===== verification/Lease_Laws.thy ===== *)
theory Lease_Laws
  imports Leases
begin

text \<open>
  What the lease operations do to the ledger.  \<open>lease_coherent\<close> ties the three tables of the
  protocol together (jobs, attempts, stage spans); expiry recovery is shown to rewrite exactly
  the expired jobs, and every operation of the protocol evolves the ledger and keeps the
  tables coherent.
\<close>

section \<open>Coherence of jobs, attempts and spans\<close>

text \<open>The attempt that records a job's current lease.\<close>

definition lease_of :: "job_row \<Rightarrow> attempt_row \<Rightarrow> bool" where
  "lease_of j a \<longleftrightarrow>
     attempt_job a = job_id j \<and> attempt_generation a = lease_generation j \<and> attempt_live a
     \<and> lease_token j = Some (attempt_token a) \<and> leased_by j = Some (attempt_worker a)
     \<and> lease_expires_at j = Some (attempt_expires_at a) \<and> attempt_number a = attempt_count j
     \<and> (attempt_state a = ARunning \<longleftrightarrow> job_state j = Running)"

text \<open>An attempt belongs to a job that has leased at least that often; a live one is the
  job's current lease.\<close>

definition attempt_of :: "attempt_row \<Rightarrow> job_row \<Rightarrow> bool" where
  "attempt_of a j \<longleftrightarrow>
     job_id j = attempt_job a \<and> attempt_generation a \<le> lease_generation j
     \<and> attempt_number a \<le> attempt_count j
     \<and> (attempt_live a \<longrightarrow> job_live j \<and> attempt_generation a = lease_generation j)"

definition span_of :: "span_row \<Rightarrow> attempt_row \<Rightarrow> bool" where
  "span_of s a \<longleftrightarrow>
     attempt_id a = span_attempt s \<and> attempt_job a = span_job s
     \<and> attempt_generation a = span_generation s \<and> (span_state s = Started \<longrightarrow> attempt_live a)"

definition lease_coherent :: "ledger \<Rightarrow> bool" where
  "lease_coherent L \<longleftrightarrow>
     (\<forall>j\<in>set (jobs L). job_live j \<longrightarrow> (\<exists>a\<in>set (attempts L). lease_of j a))
     \<and> (\<forall>a\<in>set (attempts L). \<exists>j\<in>set (jobs L). attempt_of a j)
     \<and> (\<forall>s\<in>set (spans L). \<exists>a\<in>set (attempts L). span_of s a)
     \<and> (\<forall>a\<in>set (attempts L). attempt_live a \<longleftrightarrow> attempt_ended_at a = None)"

lemma lease_coherent_init: "lease_coherent init_ledger"
  by (simp add: lease_coherent_def init_ledger_def)

lemma coherent_cong:
  "jobs L' = jobs L \<Longrightarrow> attempts L' = attempts L \<Longrightarrow> spans L' = spans L \<Longrightarrow>
   lease_coherent L' = lease_coherent L"
  by (simp add: lease_coherent_def)

lemma schema_jobs_distinct: "schema_ok L \<Longrightarrow> distinct (map job_id (jobs L))"
  by (simp add: schema_ok_def jobs_ok_def)

lemma schema_spans_distinct: "schema_ok L \<Longrightarrow> distinct (map span_id (spans L))"
  by (simp add: schema_ok_def spans_ok_def)

lemma schema_attempts_distinct: "schema_ok L \<Longrightarrow> distinct (map attempt_id (attempts L))"
  by (simp add: schema_ok_def attempts_ok_def)

lemma same_job:
  "schema_ok L \<Longrightarrow> i \<in> set (jobs L) \<Longrightarrow> j \<in> set (jobs L) \<Longrightarrow> job_id i = job_id j \<Longrightarrow> i = j"
  using distinct_map_inj [OF schema_jobs_distinct] by blast

text \<open>An update keyed by job id and generation reaches exactly one row.\<close>

lemma update_one_job:
  assumes "schema_ok L" and "row \<in> set (jobs L)"
    and "\<And>j. P j \<Longrightarrow> job_id j = job_id row" and "P row"
  shows "update_where P f (jobs L) = map (\<lambda>j. if job_id j = job_id row then f j else j) (jobs L)"
  unfolding update_where_def
proof (rule map_cong [OF refl])
  fix j assume "j \<in> set (jobs L)"
  then have "P j \<longleftrightarrow> job_id j = job_id row"
    using assms(3,4) same_job [OF assms(1) \<open>j \<in> set (jobs L)\<close> assms(2)] by metis
  then show "(if P j then f j else j) = (if job_id j = job_id row then f j else j)" by simp
qed

text \<open>The live attempts of a job are its current lease.\<close>

lemma live_attempt_generation:
  assumes "schema_ok L" and "lease_coherent L" and "row \<in> set (jobs L)"
    and "a \<in> set (attempts L)" and "attempt_live a" and "attempt_job a = job_id row"
  shows "attempt_generation a = lease_generation row \<and> job_live row"
proof -
  from assms(2,4) obtain j where "j \<in> set (jobs L)" "attempt_of a j"
    by (auto simp: lease_coherent_def)
  with assms same_job [OF assms(1)] show ?thesis
    by (metis attempt_of_def)
qed

text \<open>Ending a lease in all three tables keeps them coherent.\<close>

lemma coherent_close_lease:
  assumes ok: "schema_ok L" "lease_coherent L" and row: "row \<in> set (jobs L)" "job_live row"
    and closed: "open_spans_of (job_id row) (lease_generation row) L = []"
    and jobs': "jobs L' = map (\<lambda>j. if job_id j = job_id row then f j else j) (jobs L)"
    and attempts': "attempts L' = update_where
      (\<lambda>a. attempt_job a = job_id row \<and> attempt_generation a = lease_generation row \<and> attempt_live a)
      g (attempts L)"
    and spans': "spans L' = spans L"
    and f: "\<And>j. job_id (f j) = job_id j" "\<And>j. lease_generation (f j) = lease_generation j"
      "\<And>j. attempt_count (f j) = attempt_count j" "\<And>j. \<not> job_live (f j)"
    and g: "\<And>a. attempt_id (g a) = attempt_id a" "\<And>a. attempt_job (g a) = attempt_job a"
      "\<And>a. attempt_generation (g a) = attempt_generation a"
      "\<And>a. attempt_number (g a) = attempt_number a" "\<And>a. \<not> attempt_live (g a)"
      "\<And>a. attempt_ended_at (g a) \<noteq> None"
  shows "lease_coherent L'"
proof -
  let ?hit = "\<lambda>a. attempt_job a = job_id row \<and> attempt_generation a = lease_generation row \<and> attempt_live a"
  have live: "?hit a \<longleftrightarrow> attempt_job a = job_id row \<and> attempt_live a" if "a \<in> set (attempts L)" for a
    using live_attempt_generation [OF ok row(1) that] by blast
  have A: "\<exists>a\<in>set (attempts L'). lease_of j a" if j: "j \<in> set (jobs L')" "job_live j" for j
  proof -
    from j f(4) have "j \<in> set (jobs L)" "job_id j \<noteq> job_id row"
      by (auto simp: jobs' split: if_splits)
    with j(2) ok(2) obtain a where a: "a \<in> set (attempts L)" "lease_of j a"
      by (auto simp: lease_coherent_def)
    with \<open>job_id j \<noteq> job_id row\<close> have "a \<in> set (attempts L')"
      unfolding attempts' update_where_def by (force simp: lease_of_def)
    with a(2) show ?thesis by blast
  qed
  have B: "\<exists>j\<in>set (jobs L'). attempt_of a j" if a: "a \<in> set (attempts L')" for a
  proof -
    from a obtain b where b: "b \<in> set (attempts L)" "a = (if ?hit b then g b else b)"
      by (auto simp: attempts' update_where_def)
    with ok(2) obtain j where j: "j \<in> set (jobs L)" "attempt_of b j"
      by (auto simp: lease_coherent_def)
    have "(if job_id j = job_id row then f j else j) \<in> set (jobs L')"
      using j(1) by (auto simp: jobs')
    moreover have "attempt_of a (if job_id j = job_id row then f j else j)"
      using j(2) b live [OF b(1)] by (auto simp: attempt_of_def f g)
    ultimately show ?thesis by blast
  qed
  have C: "\<exists>a\<in>set (attempts L'). span_of s a" if s: "s \<in> set (spans L')" for s
  proof -
    from s ok(2) obtain b where b: "b \<in> set (attempts L)" "span_of s b"
      by (auto simp: lease_coherent_def spans')
    have "(if ?hit b then g b else b) \<in> set (attempts L')"
      using b(1) by (auto simp: attempts' update_where_def)
    moreover have "span_state s \<noteq> Started" if "?hit b"
      using closed s b(2) that by (auto simp: open_spans_of_def filter_empty_conv spans' span_of_def)
    then have "span_of s (if ?hit b then g b else b)"
      using b(2) by (auto simp: span_of_def g)
    ultimately show ?thesis by blast
  qed
  have D: "attempt_live a \<longleftrightarrow> attempt_ended_at a = None" if a: "a \<in> set (attempts L')" for a
  proof -
    from a obtain b where b: "b \<in> set (attempts L)" "a = (if ?hit b then g b else b)"
      by (auto simp: attempts' update_where_def)
    then show ?thesis using ok(2) by (auto simp: lease_coherent_def g)
  qed
  show ?thesis unfolding lease_coherent_def using A B C D by blast
qed

text \<open>Updating a live lease in place (a new expiry, or the first stage) keeps them coherent.\<close>

lemma coherent_keep_lease:
  assumes ok: "schema_ok L" "lease_coherent L" and row: "row \<in> set (jobs L)" "job_live row"
    and jobs': "jobs L' = map (\<lambda>j. if job_id j = job_id row then f j else j) (jobs L)"
    and attempts': "attempts L' = update_where
      (\<lambda>a. attempt_job a = job_id row \<and> attempt_generation a = lease_generation row \<and> attempt_live a)
      g (attempts L)"
    and spans': "\<And>s. s \<in> set (spans L') \<Longrightarrow>
        s \<in> set (spans L) \<or> span_of s a0 \<or> (\<exists>s0\<in>set (spans L). span_step s0 s \<and> span_state s \<noteq> Started)"
    and a0: "a0 \<in> set (attempts L)"
    and f: "\<And>j. job_id (f j) = job_id j" "\<And>j. lease_generation (f j) = lease_generation j"
      "\<And>j. attempt_count (f j) = attempt_count j" "\<And>j. job_live j \<Longrightarrow> job_live (f j)"
    and g: "\<And>a. attempt_id (g a) = attempt_id a" "\<And>a. attempt_job (g a) = attempt_job a"
      "\<And>a. attempt_generation (g a) = attempt_generation a"
      "\<And>a. attempt_number (g a) = attempt_number a" "\<And>a. attempt_live a \<Longrightarrow> attempt_live (g a)"
      "\<And>a. attempt_ended_at (g a) = attempt_ended_at a"
    and fg: "\<And>a. lease_of row a \<Longrightarrow> lease_of (f row) (g a)"
  shows "lease_coherent L'"
proof -
  let ?hit = "\<lambda>a. attempt_job a = job_id row \<and> attempt_generation a = lease_generation row \<and> attempt_live a"
  let ?g = "\<lambda>a. if ?hit a then g a else a"
  have in': "?g a \<in> set (attempts L')" if "a \<in> set (attempts L)" for a
    using that by (auto simp: attempts' update_where_def)
  have A: "\<exists>a\<in>set (attempts L'). lease_of j a" if j: "j \<in> set (jobs L')" "job_live j" for j
  proof (cases "job_id j = job_id row")
    case True
    with j(1) obtain i where "i \<in> set (jobs L)" "job_id i = job_id row" "j = f i"
      by (auto simp: jobs' f split: if_splits)
    then have "j = f row" using same_job [OF ok(1)] row(1) by blast
    from row ok(2) obtain a where a: "a \<in> set (attempts L)" "lease_of row a"
      by (auto simp: lease_coherent_def)
    then have "?hit a" by (simp add: lease_of_def)
    with in' [OF a(1)] fg [OF a(2)] \<open>j = f row\<close> show ?thesis by auto
  next
    case False
    with j(1) have "j \<in> set (jobs L)" by (auto simp: jobs' f split: if_splits)
    with j(2) ok(2) obtain a where a: "a \<in> set (attempts L)" "lease_of j a"
      by (auto simp: lease_coherent_def)
    then have "\<not> ?hit a" using False by (simp add: lease_of_def)
    with in' [OF a(1)] a(2) show ?thesis by auto
  qed
  have B: "\<exists>j\<in>set (jobs L'). attempt_of a j" if a: "a \<in> set (attempts L')" for a
  proof -
    from a obtain b where b: "b \<in> set (attempts L)" "a = ?g b"
      by (auto simp: attempts' update_where_def)
    with ok(2) obtain j where j: "j \<in> set (jobs L)" "attempt_of b j"
      by (auto simp: lease_coherent_def)
    have "(if job_id j = job_id row then f j else j) \<in> set (jobs L')"
      using j(1) by (auto simp: jobs')
    moreover have "attempt_of a (if job_id j = job_id row then f j else j)"
      using j(2) b by (auto simp: attempt_of_def f g)
    ultimately show ?thesis by blast
  qed
  have keep: "span_of s (?g b)" if "span_of s b" for s b
    using that by (auto simp: span_of_def g)
  have C: "\<exists>a\<in>set (attempts L'). span_of s a" if s: "s \<in> set (spans L')" for s
    using spans' [OF s]
  proof (elim disjE bexE conjE)
    assume "s \<in> set (spans L)"
    with ok(2) obtain b where "b \<in> set (attempts L)" "span_of s b" by (auto simp: lease_coherent_def)
    then show ?thesis using in' keep by blast
  next
    assume "span_of s a0"
    then show ?thesis using in' [OF a0] keep by blast
  next
    fix s0 assume s0: "s0 \<in> set (spans L)" "span_step s0 s" "span_state s \<noteq> Started"
    with ok(2) obtain b where b: "b \<in> set (attempts L)" "span_of s0 b" by (auto simp: lease_coherent_def)
    then have "span_of s b" using s0(2,3) by (auto simp: span_of_def span_step_def)
    then show ?thesis using in' [OF b(1)] keep by blast
  qed
  have D: "attempt_live a \<longleftrightarrow> attempt_ended_at a = None" if a: "a \<in> set (attempts L')" for a
  proof -
    from a obtain b where b: "b \<in> set (attempts L)" "a = ?g b"
      by (auto simp: attempts' update_where_def)
    then show ?thesis using ok(2) by (auto simp: lease_coherent_def g)
  qed
  show ?thesis unfolding lease_coherent_def using A B C D by blast
qed

section \<open>Interrupting spans\<close>

definition interrupted :: "rat \<Rightarrow> string \<Rightarrow> span_row \<Rightarrow> span_row" where
  "interrupted now reason s =
     s\<lparr>span_state := Interrupted, span_ended_at := Some (timestamp now),
       span_duration_ns := Some (elapsed_ns (span_started_at s) (timestamp now)),
       span_duration_source := Some CoordinatorWallClock,
       wall_clock_regressed := (timestamp now < span_started_at s),
       span_details := sort_keys (JObj [(''started'', span_details s),
         (''interruption'', JObj [(''reason'', JStr reason),
            (''measurement'', JStr ''coordinator-wall-clock'')])]),
       span_error := Some reason\<rparr>"

lemma interrupt_span_Inr:
  assumes "interrupt_span row now reason actor opened L = Inr L'"
    and ok: "schema_ok L" and s: "opened \<in> set (spans L)" "span_state opened = Started"
  shows "evolves L L'" "cstate L' = cstate L" "jobs L' = jobs L" "attempts L' = attempts L"
    "batches L' = batches L" "cells L' = cells L" "quarantines L' = quarantines L"
    "spans L' = map (\<lambda>s. if span_id s = span_id opened then interrupted now reason s else s) (spans L)"
proof -
  from assms(1) obtain M where M: "update_spans (\<lambda>s. span_id s = span_id opened \<and> span_state s = Started)
      (\<lambda>s. s\<lparr>span_state := Interrupted, span_ended_at := Some (timestamp now),
         span_duration_ns := Some (elapsed_ns (span_started_at opened) (timestamp now)),
         span_duration_source := Some CoordinatorWallClock,
         wall_clock_regressed := (timestamp now < span_started_at opened),
         span_details := sort_keys (JObj [(''started'', span_details opened),
           (''interruption'', JObj [(''reason'', JStr reason),
             (''measurement'', JStr ''coordinator-wall-clock'')])]),
         span_error := Some reason\<rparr>) L = Inr M" (is "update_spans ?P ?f L = _")
    and ev: "\<exists>ty b j p v. log_event ty now actor b j p v M = Inr L'"
    by (auto simp: interrupt_span_def Let_def results) blast
  from ev have "evolves M L'" by (auto intro: evolving)
  moreover have "evolves L M"
    using M by (rule update_spans_evolves) (auto simp: span_step_def)
  ultimately show "evolves L L'" by (rule evolves_trans [rotated])
  have M': "M = L\<lparr>spans := update_where ?P ?f (spans L)\<rparr>"
    using M by (auto simp: update_spans_def put_spans_def split: if_splits)
  have same: "?P s \<longleftrightarrow> span_id s = span_id opened" "?P s \<Longrightarrow> s = opened" if "s \<in> set (spans L)" for s
    using distinct_map_inj [OF schema_spans_distinct [OF ok] that s(1)] s(2) by metis+
  from ev obtain ty b j p v where ev': "log_event ty now actor b j p v M = Inr L'" by blast
  note fr = log_event_frame [OF ev']
  show "cstate L' = cstate L" "jobs L' = jobs L" "attempts L' = attempts L"
    "batches L' = batches L" "cells L' = cells L" "quarantines L' = quarantines L"
    by (simp_all add: fr M')
  have "spans L' = update_where ?P ?f (spans L)"
    by (simp add: fr M')
  also have "\<dots> = map (\<lambda>s. if span_id s = span_id opened then interrupted now reason s else s) (spans L)"
    unfolding update_where_def
  proof (rule map_cong [OF refl])
    fix s assume s': "s \<in> set (spans L)"
    show "(if ?P s then ?f s else s) =
      (if span_id s = span_id opened then interrupted now reason s else s)"
    proof (cases "?P s")
      case True
      then have "s = opened" by (rule same(2) [OF s'])
      then show ?thesis using True by (simp add: interrupted_def)
    qed (use same(1) [OF s'] in simp)
  qed
  finally show "spans L' = map (\<lambda>s. if span_id s = span_id opened then interrupted now reason s else s) (spans L)" .
qed

text \<open>Two ledgers that agree on everything but spans, workers, plans and events.\<close>

definition same_work :: "ledger \<Rightarrow> ledger \<Rightarrow> bool" where
  "same_work L L' \<longleftrightarrow>
     cstate L' = cstate L \<and> jobs L' = jobs L \<and> attempts L' = attempts L \<and> batches L' = batches L
     \<and> cells L' = cells L \<and> quarantines L' = quarantines L"

lemma same_workD:
  assumes "same_work L L'"
  shows "cstate L' = cstate L" "jobs L' = jobs L" "attempts L' = attempts L"
    "batches L' = batches L" "cells L' = cells L" "quarantines L' = quarantines L"
  using assms by (simp_all add: same_work_def)

text \<open>\<open>_close_open_stage_attempts_locked\<close> interrupts exactly the open spans of the lease.\<close>

lemma close_open_Inr:
  assumes run: "close_open_stage_attempts_locked row now reason actor L = Inr L'"
    and ok: "schema_ok L"
  shows "evolves L L'" "same_work L L'"
    and "spans L' = map (\<lambda>s. if s \<in> set (open_spans_of (job_id row) (lease_generation row) L)
                              then interrupted now reason s else s) (spans L)"
proof -
  let ?rs = "order_by span_sequence (open_spans_of (job_id row) (lease_generation row) L)"
  let ?open = "set (open_spans_of (job_id row) (lease_generation row) L)"
  let ?I = "\<lambda>M. schema_ok M \<and> evolves L M \<and> same_work L M"
  let ?g = "interrupted now reason"
  note run' = run [unfolded close_open_stage_attempts_locked_def]
  have dist: "distinct (map span_id ?rs)"
    using schema_spans_distinct [OF ok]
    by (simp add: open_spans_of_def distinct_map_filter)
  have "?I L' \<and> spans L' = map (\<lambda>y. if span_id y \<in> span_id ` set ?rs then ?g y else y) (spans L)"
  proof (rule fold_result_rows [OF run', where I = ?I and T = spans and key = span_id])
    show "?I L" using ok by (simp add: same_work_def)
    show "set ?rs \<subseteq> set (spans L)" by (auto simp: open_spans_of_def)
    show "distinct (map span_id ?rs)" by (rule dist)
    fix r M M' assume step: "interrupt_span row now reason actor r M = Inr M'" and I: "?I M"
      and r: "r \<in> set (spans M)" "r \<in> set ?rs"
    have "span_state r = Started" using r(2) by (simp add: open_spans_of_def)
    note s = interrupt_span_Inr [OF step conjunct1 [OF I] r(1) this]
    show "?I M' \<and> spans M' = map (\<lambda>y. if span_id y = span_id r then ?g y else y) (spans M)"
      using I s evolves_schema [OF s(1)] evolves_trans [of L M M'] by (simp add: same_work_def)
  qed (simp_all add: interrupted_def)
  moreover have "span_id y \<in> span_id ` set ?rs \<longleftrightarrow> y \<in> ?open" if "y \<in> set (spans L)" for y
    using distinct_map_inj [OF schema_spans_distinct [OF ok] that]
    by (auto simp: open_spans_of_def)
  ultimately show "evolves L L'" "same_work L L'"
    "spans L' = map (\<lambda>s. if s \<in> ?open then interrupted now reason s else s) (spans L)"
    by (auto cong: map_cong)
qed

lemma close_open_closes:
  assumes run: "close_open_stage_attempts_locked row now reason actor L = Inr L'"
    and ok: "schema_ok L"
  shows "open_spans_of (job_id row) (lease_generation row) L' = []"
  unfolding open_spans_of_def close_open_Inr(3) [OF assms]
  by (auto simp: filter_empty_conv interrupted_def open_spans_of_def)

lemma close_open_coherent:
  assumes run: "close_open_stage_attempts_locked row now reason actor L = Inr L'"
    and ok: "schema_ok L" and coh: "lease_coherent L"
  shows "lease_coherent L'"
proof -
  note c = close_open_Inr [OF run ok]
  have "\<exists>a\<in>set (attempts L). span_of s a" if s: "s \<in> set (spans L')" for s
  proof -
    from s obtain s0 where s0: "s0 \<in> set (spans L)" "s = s0 \<or> s = interrupted now reason s0"
      unfolding c(3) by (auto split: if_splits)
    with coh obtain a where "a \<in> set (attempts L)" "span_of s0 a"
      by (auto simp: lease_coherent_def)
    then show ?thesis using s0(2) by (auto simp: span_of_def interrupted_def)
  qed
  then show ?thesis
    using coh same_workD [OF c(2)] by (simp add: lease_coherent_def)
qed

section \<open>Recovery\<close>

text \<open>What recovery makes of one expired job.\<close>

definition recovered_job :: "coordinator_state \<Rightarrow> rat \<Rightarrow> job_row \<Rightarrow> job_row" where
  "recovered_job st now j =
     j\<lparr>job_state := (if attempt_count j < max_attempts st then Queued else Failed),
       lease_token := None, leased_by := None, lease_expires_at := None, current_stage := None,
       job_error := Some ''lease expired'',
       eligible_at := (if attempt_count j < max_attempts st
                       then now + of_int (retry_delay st (attempt_count j)) else 0),
       job_updated_at := timestamp now\<rparr>"

definition expired :: "rat \<Rightarrow> job_row \<Rightarrow> bool" where
  "expired now j =
     (job_live j \<and> (case lease_expires_at j of None \<Rightarrow> False | Some t \<Rightarrow> t \<le> now))"

lemma recovered_job_fields [simp]:
  "job_id (recovered_job st now j) = job_id j"
  "lease_generation (recovered_job st now j) = lease_generation j"
  "attempt_count (recovered_job st now j) = attempt_count j"
  "job_active (recovered_job st now j) = job_active j"
  "job_batch (recovered_job st now j) = job_batch j"
  "\<not> job_live (recovered_job st now j)"
  by (simp_all add: recovered_job_def job_live_def)

lemma recovered_job_step: "job_live j \<Longrightarrow> job_step j (recovered_job st now j)"
  by (auto simp: recovered_job_def job_step_def job_live_def)

text \<open>Tables that recovery leaves alone.\<close>

definition same_policy :: "ledger \<Rightarrow> ledger \<Rightarrow> bool" where
  "same_policy L L' \<longleftrightarrow>
     cstate L' = cstate L \<and> batches L' = batches L \<and> cells L' = cells L
     \<and> quarantines L' = quarantines L"

lemma same_policyD:
  assumes "same_policy L L'"
  shows "cstate L' = cstate L" "batches L' = batches L" "cells L' = cells L"
    "quarantines L' = quarantines L"
  using assms by (simp_all add: same_policy_def)

lemma recover_row_Inr:
  assumes run: "recover_row st now actor row L = Inr L'"
    and ok: "schema_ok L" "lease_coherent L" and row: "row \<in> set (jobs L)" "job_live row"
  shows "evolves L L'" "lease_coherent L'" "same_policy L L'"
    "jobs L' = map (\<lambda>j. if job_id j = job_id row then recovered_job st now j else j) (jobs L)"
proof -
  let ?hit = "\<lambda>a. attempt_job a = job_id row \<and> attempt_generation a = lease_generation row \<and> attempt_live a"
  let ?stop = "min now (case lease_expires_at row of None \<Rightarrow> now | Some t \<Rightarrow> t)"
  let ?ended = "\<lambda>a. a\<lparr>attempt_state := AExpired, attempt_ended_at := Some (timestamp ?stop),
                  attempt_error := Some ''lease expired''\<rparr>"
  let ?P = "\<lambda>j. job_id j = job_id row \<and> lease_generation j = lease_generation row"
  let ?f = "\<lambda>j. j\<lparr>job_state := (if attempt_count row < max_attempts st then Queued else Failed),
       lease_token := None, leased_by := None, lease_expires_at := None, current_stage := None,
       job_error := Some ''lease expired'',
       eligible_at := (if attempt_count row < max_attempts st
                       then now + of_int (retry_delay st (attempt_count row)) else 0),
       job_updated_at := timestamp now\<rparr>"
  from run obtain A B C where
    A: "close_open_stage_attempts_locked row ?stop ''lease expired'' actor L = Inr A"
    and B: "update_attempts ?hit ?ended A = Inr B" and C: "update_jobs ?P ?f B = Inr C"
    and ev: "\<exists>ty b j p v. log_event ty now actor b j p v C = Inr L'"
    unfolding recover_row_def Let_def by (auto simp: results split del: if_split cong: if_cong) blast
  note a = close_open_Inr [OF A ok(1)] and aw = same_workD [OF close_open_Inr(2) [OF A ok(1)]]
  have B': "B = A\<lparr>attempts := update_where ?hit ?ended (attempts L)\<rparr>"
    using B by (auto simp: update_attempts_def put_attempts_def aw split: if_splits)
  have C': "C = B\<lparr>jobs := update_where ?P ?f (jobs L)\<rparr>"
    using C by (auto simp: update_jobs_def put_jobs_def B' aw split: if_splits)
  from ev obtain ty b j p v where ev': "log_event ty now actor b j p v C = Inr L'" by blast
  note fr = log_event_frame [OF ev']
  have one: "?P j \<Longrightarrow> j = row" if "j \<in> set (jobs L)" for j
    using same_job [OF ok(1) that row(1)] by simp
  have "update_where ?P ?f (jobs L) = map (\<lambda>j. if job_id j = job_id row then ?f j else j) (jobs L)"
    by (rule update_one_job [OF ok(1) row(1)]) auto
  also have "\<dots> = map (\<lambda>j. if job_id j = job_id row then recovered_job st now j else j) (jobs L)"
  proof (rule map_cong [OF refl])
    fix j assume "j \<in> set (jobs L)"
    then show "(if job_id j = job_id row then ?f j else j) =
      (if job_id j = job_id row then recovered_job st now j else j)"
      using same_job [OF ok(1) _ row(1)] by (auto simp: recovered_job_def)
  qed
  finally have upd: "update_where ?P ?f (jobs L) =
    map (\<lambda>j. if job_id j = job_id row then recovered_job st now j else j) (jobs L)" .
  have "evolves A B" using B by (rule update_attempts_evolves) (auto simp: attempt_step_def)
  moreover have "evolves B C"
    using C
  proof (rule update_jobs_evolves)
    fix j assume j: "j \<in> set (jobs B)" "?P j"
    then have "j = row" using one by (simp add: B' aw)
    then show "job_step j (?f j)"
      using recovered_job_step [OF row(2), of st now] by (simp add: recovered_job_def)
  qed
  moreover have "evolves C L'" using ev by (auto intro: evolving)
  ultimately show "evolves L L'" using a(1) by (blast intro: evolves_trans)
  show "jobs L' = map (\<lambda>j. if job_id j = job_id row then recovered_job st now j else j) (jobs L)"
    by (simp add: fr C' upd)
  show "same_policy L L'"
    by (simp add: same_policy_def fr C' B' aw)
  show "lease_coherent L'"
  proof (rule coherent_close_lease [where L = A and row = row and f = "recovered_job st now" and g = ?ended])
    show "schema_ok A" using evolves_schema [OF a(1) ok(1)] .
    show "lease_coherent A" by (rule close_open_coherent [OF A ok])
    show "open_spans_of (job_id row) (lease_generation row) A = []" by (rule close_open_closes [OF A ok(1)])
    show "jobs L' = map (\<lambda>j. if job_id j = job_id row then recovered_job st now j else j) (jobs A)"
      by (simp add: fr C' upd aw)
    show "attempts L' = update_where ?hit ?ended (attempts A)" by (simp add: fr C' B' aw)
    show "spans L' = spans A" by (simp add: fr C' B')
  qed (use row in \<open>simp_all add: aw attempt_live_def\<close>)
qed

text \<open>Recovery rewrites exactly the expired jobs, all at once.\<close>

lemma recover_expired_Inr:
  assumes run: "recover_expired_locked now actor L = Inr (n, L')"
    and ok: "schema_ok L" "lease_coherent L"
  shows "evolves L L'" "lease_coherent L'" "same_policy L L'"
    "jobs L' = map (\<lambda>j. if expired now j then recovered_job (cstate L) now j else j) (jobs L)"
    "n = int (length (filter (expired now) (jobs L)))"
proof -
  let ?rs = "expired_rows now L"
  let ?I = "\<lambda>M. schema_ok M \<and> lease_coherent M \<and> evolves L M \<and> same_policy L M"
  let ?g = "recovered_job (cstate L) now"
  from run have fold: "fold_result (recover_row (cstate L) now actor) ?rs L = Inr L'"
    and n: "n = int (length ?rs)"
    by (auto simp: recover_expired_locked_def Let_def results)
  have rs: "set ?rs = {j \<in> set (jobs L). expired now j}"
    by (auto simp: expired_rows_def expired_def)
  have dist: "distinct (map job_id ?rs)"
    using schema_jobs_distinct [OF ok(1)] by (simp add: expired_rows_def distinct_map_filter)
  have "?I L' \<and> jobs L' = map (\<lambda>j. if job_id j \<in> job_id ` set ?rs then ?g j else j) (jobs L)"
  proof (rule fold_result_rows [OF fold, where I = ?I and T = jobs and key = job_id])
    show "?I L" using ok by (simp add: same_policy_def)
    show "set ?rs \<subseteq> set (jobs L)" using rs by blast
    show "distinct (map job_id ?rs)" by (rule dist)
    fix r M M' assume step: "recover_row (cstate L) now actor r M = Inr M'" and I: "?I M"
      and r: "r \<in> set (jobs M)" "r \<in> set ?rs"
    have "job_live r" using r(2) rs by (simp add: expired_def)
    note s = recover_row_Inr [OF step _ _ r(1) this]
    show "?I M' \<and> jobs M' = map (\<lambda>j. if job_id j = job_id r then ?g j else j) (jobs M)"
      using I s evolves_schema [of M M'] evolves_trans [of L M M'] by (simp add: same_policy_def)
  qed simp_all
  moreover have "job_id j \<in> job_id ` set ?rs \<longleftrightarrow> expired now j" if "j \<in> set (jobs L)" for j
    using same_job [OF ok(1) that] that unfolding rs by blast
  ultimately show "evolves L L'" "lease_coherent L'" "same_policy L L'"
    "jobs L' = map (\<lambda>j. if expired now j then recovered_job (cstate L) now j else j) (jobs L)"
    by (auto cong: map_cong)
  show "n = int (length (filter (expired now) (jobs L)))"
    unfolding n expired_rows_def length_order_by expired_def ..
qed

text \<open>After recovery no live lease has run out.\<close>

lemma recovered_none_expired:
  assumes "recover_expired_locked now actor L = Inr (n, L')" and "schema_ok L" "lease_coherent L"
    and "j \<in> set (jobs L')"
  shows "\<not> expired now j"
  using assms(4) unfolding recover_expired_Inr(4) [OF assms(1-3)]
  by (auto simp: expired_def split: if_splits)

end
