(* ===== verification/Lease_Operations.thy ===== *)
theory Lease_Operations
  imports Lease_Laws
begin

text \<open>
  The contract of the coordinator's operations and the proof that the lease operations keep
  it.  \<open>ledger_operation\<close> is the interface between an operation and the rest of the system:
  from a ledger that satisfies its schema and is coherent, a body that commits has only
  evolved the ledger and left it coherent, and an exception leaves it as it was.
  \<open>fenced_operation\<close> adds that a call with a stale lease is refused.
\<close>

definition ledger_inv :: "ledger \<Rightarrow> bool" where
  "ledger_inv L \<longleftrightarrow> schema_ok L \<and> lease_coherent L"

lemma ledger_invD: "ledger_inv L \<Longrightarrow> schema_ok L" "ledger_inv L \<Longrightarrow> lease_coherent L"
  by (simp_all add: ledger_inv_def)

lemma ledger_inv_init: "ledger_inv init_ledger"
  by (simp add: ledger_inv_def schema_ok_init lease_coherent_init)

locale ledger_operation =
  fixes body :: "ledger \<Rightarrow> ('a \<times> ledger) result"
  assumes body_evolves: "ledger_inv L \<Longrightarrow> body L = Inr (x, L') \<Longrightarrow> evolves L L'"
    and body_coherent: "ledger_inv L \<Longrightarrow> body L = Inr (x, L') \<Longrightarrow> lease_coherent L'"
begin

lemma run_evolves: "ledger_inv L \<Longrightarrow> evolves L (snd (transaction body L))"
  by (rule transaction_evolves) (rule body_evolves)

lemma run_inv: "ledger_inv L \<Longrightarrow> ledger_inv (snd (transaction body L))"
  using evolves_schema [OF run_evolves] body_coherent
  by (auto simp: ledger_inv_def transaction_def split: sum.splits)

lemma run_rolls_back: "fst (transaction body L) = Inl e \<Longrightarrow> snd (transaction body L) = L"
  by (auto simp: transaction_def split: sum.splits)

lemma run_keeps_history: "ledger_inv L \<Longrightarrow> prefix (events L) (events (snd (transaction body L)))"
  by (rule evolves_events) (rule run_evolves)

end

text \<open>Operations that log and touch neither jobs, attempts nor spans are coherent for free.\<close>

lemma coherent_same_work: "same_work L L' \<Longrightarrow> spans L' = spans L \<Longrightarrow> lease_coherent L \<Longrightarrow> lease_coherent L'"
  by (simp add: lease_coherent_def same_work_def)

section \<open>The fence\<close>

lemma require_lease_Inr:
  assumes run: "require_lease_locked jid token generation now L = Inr (row, L')" and inv: "ledger_inv L"
  shows "evolves L L'" "ledger_inv L'" "same_policy L L'"
    "jobs L' = map (\<lambda>j. if expired now j then recovered_job (cstate L) now j else j) (jobs L)"
    "row \<in> set (jobs L')" "row \<in> set (jobs L)" "job_id row = jid" "job_live row"
    "lease_token row = Some token" "lease_generation row = generation" "\<not> expired now row"
proof -
  from run obtain n M where rec0: "recover_expired_locked now ''coordinator'' L = Inr (n, M)"
    and sel: "(case find (\<lambda>j. job_id j = jid) (jobs M) of
         None \<Rightarrow> Inl (LeaseConflictError (''unknown job: '' @ jid))
       | Some row \<Rightarrow>
           if \<not> job_live row \<or> lease_token row \<noteq> Some token \<or> lease_generation row \<noteq> generation
              \<or> (case lease_expires_at row of None \<Rightarrow> True | Some t \<Rightarrow> t \<le> now)
           then Inl (LeaseConflictError (''stale or inactive lease for job '' @ jid))
           else Inr (row, M)) = Inr (row, L')"
    unfolding require_lease_locked_def and_then_eq_Inr by auto
  from sel have M: "M = L'" and row: "find (\<lambda>j. job_id j = jid) (jobs L') = Some row" "job_live row"
      "lease_token row = Some token" "lease_generation row = generation"
      "\<exists>t. lease_expires_at row = Some t \<and> now < t"
    by (auto split: option.split_asm if_split_asm)
  note rec = rec0 [unfolded M]
  note r = recover_expired_Inr [OF rec ledger_invD [OF inv]]
  show "evolves L L'" "same_policy L L'"
    "jobs L' = map (\<lambda>j. if expired now j then recovered_job (cstate L) now j else j) (jobs L)"
    by (fact r)+
  show "ledger_inv L'"
    using evolves_schema [OF r(1) ledger_invD(1) [OF inv]] r(2) by (simp add: ledger_inv_def)
  show "row \<in> set (jobs L')" "job_id row = jid" using find_SomeD [OF row(1)] by auto
  then show "row \<in> set (jobs L)"
    using row(2) unfolding r(4) by (auto split: if_splits)
  show "job_live row" "lease_token row = Some token" "lease_generation row = generation"
    by (fact row)+
  show "\<not> expired now row" using row(5) by (auto simp: expired_def)
qed

text \<open>When the fence holds, and that it refuses with \<open>LeaseConflictError\<close> otherwise.\<close>

lemma require_lease_refuses:
  assumes rec: "recover_expired_locked now ''coordinator'' L = Inr (n, L')" and ok: "schema_ok L'"
    and stale: "\<not> (\<exists>j\<in>set (jobs L'). job_id j = jid \<and> job_live j \<and> lease_token j = Some token
                     \<and> lease_generation j = generation)"
  shows "\<exists>m. require_lease_locked jid token generation now L = Inl (LeaseConflictError m)"
proof (cases "find (\<lambda>j. job_id j = jid) (jobs L')")
  case None
  then show ?thesis by (simp add: require_lease_locked_def rec)
next
  case (Some row)
  with stale find_SomeD [OF Some] show ?thesis
    by (auto simp: require_lease_locked_def rec)
qed

section \<open>Ending a lease\<close>

text \<open>An update that ends a lease: of the job, and of the attempt that records it.\<close>

definition ends_job :: "(job_row \<Rightarrow> job_row) \<Rightarrow> bool" where
  "ends_job f \<longleftrightarrow> (\<forall>j. job_id (f j) = job_id j \<and> lease_generation (f j) = lease_generation j
     \<and> attempt_count (f j) = attempt_count j \<and> \<not> job_live (f j))"

definition ends_attempt :: "(attempt_row \<Rightarrow> attempt_row) \<Rightarrow> bool" where
  "ends_attempt g \<longleftrightarrow> (\<forall>a. attempt_id (g a) = attempt_id a \<and> attempt_job (g a) = attempt_job a
     \<and> attempt_generation (g a) = attempt_generation a \<and> attempt_number (g a) = attempt_number a
     \<and> \<not> attempt_live (g a) \<and> attempt_ended_at (g a) \<noteq> None
     \<and> (attempt_live a \<longrightarrow> attempt_step a (g a)))"

lemma finish_lease:
  assumes inv: "ledger_inv L" and row: "row \<in> set (jobs L)" "job_live row"
    and token: "lease_token row = Some token" "lease_generation row = generation" "job_id row = jid"
    and closed: "open_spans_of jid generation L = []"
    and M: "update_jobs (\<lambda>j. job_id j = jid \<and> lease_token j = Some token \<and> lease_generation j = generation) f L = Inr M"
    and N: "update_attempts (\<lambda>a. attempt_job a = jid \<and> attempt_generation a = generation \<and> attempt_live a) g M = Inr N"
    and f: "ends_job f" "job_step row (f row)" and g: "ends_attempt g"
  shows "evolves L N" "lease_coherent N" "same_policy L N"
    "jobs N = map (\<lambda>j. if job_id j = jid then f j else j) (jobs L)" "spans N = spans L"
proof -
  let ?P = "\<lambda>j. job_id j = jid \<and> lease_token j = Some token \<and> lease_generation j = generation"
  note ok = ledger_invD [OF inv]
  have M': "M = L\<lparr>jobs := update_where ?P f (jobs L)\<rparr>"
    using M by (auto simp: update_jobs_def put_jobs_def split: if_splits)
  have N': "N = M\<lparr>attempts := update_where (\<lambda>a. attempt_job a = jid \<and> attempt_generation a = generation
      \<and> attempt_live a) g (attempts L)\<rparr>"
    using N by (auto simp: update_attempts_def put_attempts_def M' split: if_splits)
  have upd: "update_where ?P f (jobs L) = map (\<lambda>j. if job_id j = job_id row then f j else j) (jobs L)"
    by (rule update_one_job [OF ok(1) row(1)]) (auto simp: token)
  have "evolves L M"
    using M
  proof (rule update_jobs_evolves)
    fix j assume "j \<in> set (jobs L)" "?P j"
    then have "j = row" using same_job [OF ok(1) _ row(1)] token by simp
    then show "job_step j (f j)" using f(2) by simp
  qed
  moreover have "evolves M N" using N by (rule update_attempts_evolves) (use g in \<open>simp add: ends_attempt_def\<close>)
  ultimately show "evolves L N" by (rule evolves_trans)
  show "same_policy L N" by (simp add: same_policy_def N' M')
  show J: "jobs N = map (\<lambda>j. if job_id j = jid then f j else j) (jobs L)"
    by (simp add: N' M' upd token)
  show "spans N = spans L" by (simp add: N' M')
  show "lease_coherent N"
    by (rule coherent_close_lease [OF ok row, where f = f and g = g])
      (use closed f(1) g in \<open>simp_all add: token J ends_job_def ends_attempt_def\<close>, simp_all add: N' M')
qed

section \<open>Renewal\<close>

lemma renew_body_Inr:
  assumes run: "renew_body jid token generation now seconds L = Inr (payload, L')" and inv: "ledger_inv L"
  shows "evolves L L'" "lease_coherent L'" "same_policy L L'"
    "jobs L' = map (\<lambda>j. if job_id j = jid
        then j\<lparr>lease_expires_at := Some (now + of_int (case seconds of None \<Rightarrow> lease_seconds (cstate L) | Some s \<Rightarrow> s)),
               job_updated_at := timestamp now\<rparr>
        else if expired now j then recovered_job (cstate L) now j else j) (jobs L)"
proof -
  let ?e = "now + of_int (case seconds of None \<Rightarrow> lease_seconds (cstate L) | Some s \<Rightarrow> s)"
  let ?P = "\<lambda>j. job_id j = jid \<and> lease_token j = Some token \<and> lease_generation j = generation"
  let ?Q = "\<lambda>a. attempt_job a = jid \<and> attempt_generation a = generation \<and> attempt_live a"
  let ?f = "\<lambda>j. j\<lparr>lease_expires_at := Some ?e, job_updated_at := timestamp now\<rparr>"
  let ?g = "\<lambda>a. a\<lparr>attempt_expires_at := ?e\<rparr>"
  from run obtain row A where A: "require_lease_locked jid token generation now L = Inr (row, A)"
    by (auto simp: renew_body_def results)
  note r = require_lease_Inr [OF A inv]
  have st: "cstate A = cstate L" using same_policyD [OF r(3)] by simp
  from run A obtain B C where B: "update_jobs ?P ?f A = Inr B" and C: "update_attempts ?Q ?g B = Inr C"
    and ev: "logged C L'"
    by (auto simp: renew_body_def results Let_def st intro: loggedI cong: option.case_cong)
  note ok = ledger_invD [OF r(2)]
  note fr = logged_frame [OF ev]
  have B': "B = A\<lparr>jobs := update_where ?P ?f (jobs A)\<rparr>"
    using B by (auto simp: update_jobs_def put_jobs_def split: if_splits)
  have C': "C = B\<lparr>attempts := update_where ?Q ?g (attempts A)\<rparr>"
    using C by (auto simp: update_attempts_def put_attempts_def B' split: if_splits)
  have upd: "update_where ?P ?f (jobs A) = map (\<lambda>j. if job_id j = job_id row then ?f j else j) (jobs A)"
    by (rule update_one_job [OF ok(1) r(5)]) (auto simp: r)
  have "evolves A B"
    using B by (rule update_jobs_evolves) (auto simp: job_step_def job_live_def)
  moreover have "evolves B C" using C by (rule update_attempts_evolves) (auto simp: attempt_step_def)
  moreover have "evolves C L'" using ev by (rule logged_evolves)
  ultimately show "evolves L L'" using r(1) by (blast intro: evolves_trans)
  show "same_policy L L'" using r(3) by (simp add: same_policy_def fr C' B')
  have J: "jobs L' = map (\<lambda>j. if job_id j = job_id row then ?f j else j) (jobs A)"
    by (simp add: fr C' B' upd)
  have nonexp: "\<not> expired now j" if "j \<in> set (jobs L)" "job_id j = jid" for j
    using same_job [OF ledger_invD(1) [OF inv] that(1) r(6)] that(2) r(7,11) by simp
  show "jobs L' = map (\<lambda>j. if job_id j = jid then ?f j
        else if expired now j then recovered_job (cstate L) now j else j) (jobs L)"
    unfolding J r(4) using nonexp by (auto simp: r(7))
  from ok(2) r(5,8) obtain a0 where a0: "a0 \<in> set (attempts A)"
    by (auto simp: lease_coherent_def)
  show "lease_coherent L'"
    by (rule coherent_keep_lease [OF ok r(5,8) J, where g = ?g])
      (use a0 in \<open>auto simp: fr C' B' r(7,10) job_live_def attempt_live_def lease_of_def\<close>)
qed

section \<open>Completion\<close>

definition completed_job :: "json \<Rightarrow> rat \<Rightarrow> job_row \<Rightarrow> job_row" where
  "completed_job outcome now j =
     j\<lparr>job_state := Complete, lease_token := None, leased_by := None, lease_expires_at := None,
       result_json := Some outcome, job_error := None, current_stage := None,
       job_updated_at := timestamp now\<rparr>"

lemma live_not_final: "job_live j \<Longrightarrow> job_state j \<noteq> Complete \<and> job_state j \<noteq> Blocked"
  by (auto simp: job_live_def)

lemma completed_job_fields [simp]:
  "job_id (completed_job v now j) = job_id j"
  "lease_generation (completed_job v now j) = lease_generation j"
  "attempt_count (completed_job v now j) = attempt_count j"
  "\<not> job_live (completed_job v now j)"
  by (simp_all add: completed_job_def job_live_def)

lemma ends_completed: "ends_job (completed_job v now)"
  by (simp add: ends_job_def)

lemma ends_attempt_complete:
  "ends_attempt (\<lambda>a. a\<lparr>attempt_state := AComplete, attempt_ended_at := Some t\<rparr>)"
  by (simp add: ends_attempt_def attempt_live_def attempt_step_def)

lemma completed_job_step: "job_live j \<Longrightarrow> job_step j (completed_job v now j)"
  using live_not_final [of j] by (simp add: completed_job_def job_step_def job_live_def)

lemma complete_body_Inr:
  assumes run: "complete_body jid token generation outcome outcome_json now L = Inr (u, L')"
    and inv: "ledger_inv L"
  shows "evolves L L'" "lease_coherent L'" "same_policy L L'"
    "jobs L' = map (\<lambda>j. if job_id j = jid then completed_job outcome_json now j
        else if expired now j then recovered_job (cstate L) now j else j) (jobs L)"
    "\<exists>row\<in>set (jobs L). job_id row = jid \<and> job_live row \<and> lease_token row = Some token
        \<and> lease_generation row = generation"
proof -
  let ?g = "\<lambda>a. a\<lparr>attempt_state := AComplete, attempt_ended_at := Some (timestamp now)\<rparr>"
  obtain row A B C where A: "require_lease_locked jid token generation now L = Inr (row, A)"
    and closed: "open_spans_of jid generation A = []"
    and B: "update_jobs (\<lambda>j. job_id j = jid \<and> lease_token j = Some token \<and> lease_generation j = generation)
       (completed_job outcome_json now) A = Inr B"
    and C: "update_attempts (\<lambda>a. attempt_job a = jid \<and> attempt_generation a = generation \<and> attempt_live a) ?g B = Inr C"
    and ev: "logged C L'"
    by (insert run [unfolded complete_body_def], elim ledger_run,
        rule that [unfolded completed_job_def [abs_def]])
  note r = require_lease_Inr [OF A inv]
  note fin = finish_lease [OF r(2,5,8,9,10,7) closed B C ends_completed
      completed_job_step [OF r(8)] ends_attempt_complete]
  note fr = logged_frame [OF ev]
  have "evolves C L'" using ev by (rule logged_evolves)
  then show "evolves L L'" using fin(1) r(1) by (blast intro: evolves_trans)
  show "lease_coherent L'" using fin(2) unfolding coherent_cong [OF fr(5,7,9)] .
  show "same_policy L L'" using fin(3) r(3) by (simp add: same_policy_def fr)
  have nonexp: "\<not> expired now j" if "j \<in> set (jobs L)" "job_id j = jid" for j
    using same_job [OF ledger_invD(1) [OF inv] that(1) r(6)] that(2) r(7,11) by simp
  show "jobs L' = map (\<lambda>j. if job_id j = jid then completed_job outcome_json now j
        else if expired now j then recovered_job (cstate L) now j else j) (jobs L)"
    unfolding fr fin(4) r(4) using nonexp by auto
  show "\<exists>row\<in>set (jobs L). job_id row = jid \<and> job_live row \<and> lease_token row = Some token
        \<and> lease_generation row = generation"
    using r(6-10) by (intro bexI [of _ row]) simp_all
qed

section \<open>Failure\<close>

text \<open>Whether a failure leaves a retry, and what it makes of the job.\<close>

definition will_retry :: "coordinator_state \<Rightarrow> bool \<Rightarrow> bool \<Rightarrow> job_row \<Rightarrow> bool" where
  "will_retry st retryable pathological j =
     (\<not> pathological \<and> retryable \<and> attempt_count j < max_attempts st)"

definition ended_job ::
  "job_state \<Rightarrow> string \<Rightarrow> string option \<Rightarrow> rat \<Rightarrow> rat \<Rightarrow> job_row \<Rightarrow> job_row" where
  "ended_job next_state failure classified eligible now j =
     j\<lparr>job_state := next_state, lease_token := None, leased_by := None, lease_expires_at := None,
       current_stage := None, job_error := Some failure, failure_class := classified,
       eligible_at := eligible, job_updated_at := timestamp now\<rparr>"

definition failed_job ::
  "coordinator_state \<Rightarrow> string \<Rightarrow> bool \<Rightarrow> string option \<Rightarrow> bool \<Rightarrow> rat \<Rightarrow> job_row \<Rightarrow> job_row" where
  "failed_job st failure retryable classified pathological now j =
     (let retry = will_retry st retryable pathological j
      in ended_job (if retry then Queued else Failed) failure classified
           (if retry then now + of_int (retry_delay st (attempt_count j)) else 0) now j)"

lemma ends_ended: "s = Queued \<or> s = Failed \<Longrightarrow> ends_job (ended_job s failure classified e now)"
  by (auto simp: ends_job_def ended_job_def job_live_def)

lemma ended_job_step:
  "job_live j \<Longrightarrow> s = Queued \<or> s = Failed \<Longrightarrow> job_step j (ended_job s failure classified e now j)"
  using live_not_final [of j] by (auto simp: ended_job_def job_step_def job_live_def)

lemma ends_attempt_failed:
  "ends_attempt (\<lambda>a. a\<lparr>attempt_state := AFailed, attempt_ended_at := Some t, attempt_error := Some e\<rparr>)"
  by (simp add: ends_attempt_def attempt_live_def attempt_step_def)

text \<open>The quarantine and the circuit breaker leave the tables of the protocol alone.\<close>

definition same_leases :: "ledger \<Rightarrow> ledger \<Rightarrow> bool" where
  "same_leases L L' \<longleftrightarrow>
     jobs L' = jobs L \<and> attempts L' = attempts L \<and> spans L' = spans L
     \<and> batches L' = batches L \<and> cells L' = cells L"

lemma same_leasesD:
  assumes "same_leases L L'"
  shows "jobs L' = jobs L" "attempts L' = attempts L" "spans L' = spans L"
    "batches L' = batches L" "cells L' = cells L"
  using assms by (simp_all add: same_leases_def)

lemma same_leases_trans: "same_leases L M \<Longrightarrow> same_leases M N \<Longrightarrow> same_leases L N"
  by (simp add: same_leases_def)

lemma same_leases_logged: "logged L L' \<Longrightarrow> same_leases L L'"
  by (auto simp: logged_def same_leases_def)

lemma same_leases_state: "update_state f L = Inr L' \<Longrightarrow> same_leases L L' \<and> cstate L' = f (cstate L)"
  by (auto simp: update_state_def put_state_def same_leases_def split: if_splits)

lemma same_leases_quarantines: "put_quarantines rows L = Inr L' \<Longrightarrow> same_leases L L' \<and> cstate L' = cstate L"
  by (auto simp: put_quarantines_def same_leases_def split: if_splits)

lemma quarantine_failed_Inr:
  assumes "quarantine_failed_job failure classified now row L = Inr L'"
  shows "evolves L L' \<and> same_leases L L'"
proof -
  from assms obtain q M where M: "put_quarantines (quarantines L @ [q]) L = Inr M" and l: "logged M L'"
    by (auto simp: quarantine_failed_job_def Let_def results intro: loggedI)
  then show ?thesis
    using insert_quarantine_evolves [OF M] logged_evolves [OF l] same_leases_quarantines [OF M]
      same_leases_logged [OF l] by (blast intro: evolves_trans same_leases_trans)
qed

lemma open_circuit_Inr:
  assumes "open_circuit st cls now row L = Inr L'"
  shows "evolves L L' \<and> same_leases L L'"
proof (cases "L' = L")
  case False
  with assms obtain f M where M: "update_state f L = Inr M" and l: "logged M L'"
    by (auto simp: open_circuit_def Let_def results split: if_splits intro: loggedI)
  then show ?thesis
    using update_state_evolves [OF M] logged_evolves [OF l] same_leases_state [OF M]
      same_leases_logged [OF l] by (blast intro: evolves_trans same_leases_trans)
qed (simp add: same_leases_def)

lemma fail_body_Inr:
  assumes run: "fail_body jid token generation failure retryable classified pathological now L = Inr (u, L')"
    and inv: "ledger_inv L"
  shows "evolves L L'" "lease_coherent L'" "batches L' = batches L" "cells L' = cells L"
    "jobs L' = map (\<lambda>j. if job_id j = jid
        then failed_job (cstate L) failure retryable classified pathological now j
        else if expired now j then recovered_job (cstate L) now j else j) (jobs L)"
    "\<exists>row\<in>set (jobs L). job_id row = jid \<and> job_live row \<and> lease_token row = Some token
        \<and> lease_generation row = generation"
proof -
  let ?retry = "will_retry (cstate L) retryable pathological"
  let ?f = "\<lambda>row. ended_job (if ?retry row then Queued else Failed) failure classified
      (if ?retry row then now + of_int (retry_delay (cstate L) (attempt_count row)) else 0) now"
  from run obtain row A where A: "require_lease_locked jid token generation now L = Inr (row, A)"
    by (auto simp: fail_body_def results)
  note r = require_lease_Inr [OF A inv]
  have st: "cstate A = cstate L" using same_policyD [OF r(3)] by simp
  obtain B C D E F where
    B: "close_open_stage_attempts_locked row now failure (str_of (leased_by row)) A = Inr B"
    and C: "update_jobs (\<lambda>j. job_id j = jid \<and> lease_token j = Some token \<and> lease_generation j = generation)
       (?f row) B = Inr C"
    and D: "update_attempts (\<lambda>a. attempt_job a = jid \<and> attempt_generation a = generation \<and> attempt_live a)
       (\<lambda>a. a\<lparr>attempt_state := AFailed, attempt_ended_at := Some (timestamp now),
              attempt_error := Some failure\<rparr>) C = Inr D"
    and E: "logged D E"
    and F: "(if pathological then quarantine_failed_job failure classified now row E else Inr E) = Inr F"
    and G: "L' = F \<or> (\<exists>cls. open_circuit (cstate L) cls now row F = Inr L')"
    by (insert run [unfolded fail_body_def Let_def A and_then_Inr prod.case st, folded will_retry_def],
        elim ledger_run, clarify, rule that [unfolded ended_job_def [abs_def]], assumption+,
        auto split: option.splits if_splits)
  note b = close_open_Inr [OF B ledger_invD(1) [OF r(2)]] and bw = same_workD [OF close_open_Inr(2) [OF B ledger_invD(1) [OF r(2)]]]
  have invB: "ledger_inv B"
    using evolves_schema [OF b(1)] ledger_invD [OF r(2)] close_open_coherent [OF B]
    by (simp add: ledger_inv_def)
  have closed: "open_spans_of jid generation B = []"
    using close_open_closes [OF B ledger_invD(1) [OF r(2)]] by (simp add: r(7,10))
  have after: "(if ?retry row then Queued else Failed) = Queued \<or> (if ?retry row then Queued else Failed) = Failed"
    by simp
  note fin = finish_lease [OF invB r(5) [folded bw(2)] r(8,9,10,7) closed C D ends_ended [OF after]
      ended_job_step [OF r(8) after] ends_attempt_failed]
  have F': "evolves E F \<and> same_leases E F"
    using F quarantine_failed_Inr [of failure classified now row E F]
    by (auto simp: same_leases_def split: if_splits)
  have G': "evolves F L' \<and> same_leases F L'"
    using G open_circuit_Inr [of "cstate L" _ now row F L'] by (auto simp: same_leases_def)
  have D': "evolves D L'" "same_leases D L'"
    using F' G' logged_evolves [OF E] same_leases_logged [OF E]
    by (blast intro: evolves_trans same_leases_trans)+
  note d = same_leasesD [OF D'(2)]
  show "evolves L L'" using r(1) b(1) fin(1) D'(1) by (blast intro: evolves_trans)
  show "lease_coherent L'" using fin(2) unfolding coherent_cong [OF d(1-3)] .
  show "batches L' = batches L" "cells L' = cells L"
    using same_policyD [OF fin(3)] same_policyD [OF r(3)] by (simp_all add: d bw)
  have nonexp: "\<not> expired now j \<and> ?f row j = failed_job (cstate L) failure retryable classified pathological now j"
    if "j \<in> set (jobs L)" "job_id j = jid" for j
    using same_job [OF ledger_invD(1) [OF inv] that(1) r(6)] that(2) r(7,11)
    by (simp add: failed_job_def Let_def)
  show "jobs L' = map (\<lambda>j. if job_id j = jid
        then failed_job (cstate L) failure retryable classified pathological now j
        else if expired now j then recovered_job (cstate L) now j else j) (jobs L)"
    unfolding d fin(4) bw r(4) using nonexp by auto
  show "\<exists>row\<in>set (jobs L). job_id row = jid \<and> job_live row \<and> lease_token row = Some token
        \<and> lease_generation row = generation"
    using r(6-10) by (intro bexI [of _ row]) simp_all
qed

section \<open>Claim\<close>

definition granted_job :: "coordinator_state \<Rightarrow> string \<Rightarrow> string \<Rightarrow> rat \<Rightarrow> job_row \<Rightarrow> job_row" where
  "granted_job st token worker now j =
     j\<lparr>job_state := Leased, attempt_count := attempt_count j + 1, lease_token := Some token,
       lease_generation := lease_generation j + 1, leased_by := Some worker,
       lease_expires_at := Some (now + of_int (lease_seconds st)), current_stage := None,
       job_error := None, failure_class := None, eligible_at := 0, job_updated_at := timestamp now\<rparr>"

definition granted_attempt ::
  "coordinator_state \<Rightarrow> string \<Rightarrow> string \<Rightarrow> rat \<Rightarrow> int \<Rightarrow> job_row \<Rightarrow> attempt_row" where
  "granted_attempt st token worker now aid j =
     \<lparr>attempt_id = aid, attempt_job = job_id j, attempt_number = attempt_count j + 1,
      attempt_token = token, attempt_generation = lease_generation j + 1, attempt_worker = worker,
      attempt_state = ALeased, attempt_started_at = timestamp now,
      attempt_expires_at = now + of_int (lease_seconds st), attempt_ended_at = None,
      attempt_error = None\<rparr>"

lemma granted_job_fields [simp]:
  "job_id (granted_job st token worker now j) = job_id j"
  "lease_generation (granted_job st token worker now j) = lease_generation j + 1"
  "attempt_count (granted_job st token worker now j) = attempt_count j + 1"
  "job_active (granted_job st token worker now j) = job_active j"
  "job_batch (granted_job st token worker now j) = job_batch j"
  "job_state (granted_job st token worker now j) = Leased"
  "job_live (granted_job st token worker now j)"
  by (simp_all add: granted_job_def job_live_def)

lemma granted_job_step: "job_state j = Queued \<Longrightarrow> job_step j (granted_job st token worker now j)"
  by (simp add: granted_job_def job_step_def job_live_def)

text \<open>Adding the attempt of a fresh lease keeps the tables coherent.\<close>

lemma coherent_grant:
  assumes ok: "schema_ok L" "lease_coherent L" and row: "row \<in> set (jobs L)" "\<not> job_live row"
    and jobs': "jobs L' = map (\<lambda>j. if job_id j = job_id row then granted_job st token worker now j else j) (jobs L)"
    and attempts': "attempts L' = attempts L @ [granted_attempt st token worker now aid row]"
    and spans': "spans L' = spans L"
  shows "lease_coherent L'"
proof -
  let ?a = "granted_attempt st token worker now aid row"
  have dead: "\<not> attempt_live a" if "a \<in> set (attempts L)" "attempt_job a = job_id row" for a
    using live_attempt_generation [OF ok row(1) that(1) _ that(2)] row(2) by blast
  have A: "\<exists>a\<in>set (attempts L'). lease_of j a" if j: "j \<in> set (jobs L')" "job_live j" for j
  proof (cases "job_id j = job_id row")
    case True
    with j(1) obtain i where "i \<in> set (jobs L)" "job_id i = job_id row" "j = granted_job st token worker now i"
      by (auto simp: jobs' split: if_splits)
    then have "j = granted_job st token worker now row" using same_job [OF ok(1)] row(1) by blast
    then have "lease_of j ?a"
      by (simp add: lease_of_def granted_job_def granted_attempt_def attempt_live_def)
    then show ?thesis by (auto simp: attempts')
  next
    case False
    with j(1) have "j \<in> set (jobs L)" by (auto simp: jobs' split: if_splits)
    with j(2) ok(2) show ?thesis by (auto simp: lease_coherent_def attempts')
  qed
  have B: "\<exists>j\<in>set (jobs L'). attempt_of a j" if a: "a \<in> set (attempts L')" for a
  proof (cases "a = ?a")
    case True
    have "attempt_of ?a (granted_job st token worker now row)"
      by (simp add: attempt_of_def granted_attempt_def)
    moreover have "granted_job st token worker now row \<in> set (jobs L')"
      using row(1) by (force simp: jobs')
    ultimately show ?thesis using True by blast
  next
    case False
    with a have a': "a \<in> set (attempts L)" by (simp add: attempts')
    with ok(2) obtain j where j: "j \<in> set (jobs L)" "attempt_of a j"
      by (auto simp: lease_coherent_def)
    have "attempt_of a (if job_id j = job_id row then granted_job st token worker now j else j)"
      using j(2) dead [OF a'] by (auto simp: attempt_of_def)
    moreover have "(if job_id j = job_id row then granted_job st token worker now j else j) \<in> set (jobs L')"
      using j(1) by (auto simp: jobs')
    ultimately show ?thesis by blast
  qed
  have C: "\<exists>a\<in>set (attempts L'). span_of s a" if "s \<in> set (spans L')" for s
    using that ok(2) by (auto simp: lease_coherent_def spans' attempts')
  have D: "attempt_live a \<longleftrightarrow> attempt_ended_at a = None" if "a \<in> set (attempts L')" for a
    using that ok(2) by (auto simp: lease_coherent_def attempts' granted_attempt_def attempt_live_def)
  show ?thesis unfolding lease_coherent_def using A B C D by blast
qed

lemma grant_lease_Inr:
  assumes run: "grant_lease st token worker now pool row L = Inr L'" and inv: "ledger_inv L"
    and row: "row \<in> set (jobs L)" "job_state row = Queued" "job_active row"
  shows "evolves L L'" "lease_coherent L'" "same_policy L L'"
    "jobs L' = map (\<lambda>j. if job_id j = job_id row then granted_job st token worker now j else j) (jobs L)"
    "attempts L' = attempts L @ [granted_attempt st token worker now (next_rowid attempt_id (attempts L)) row]"
    "spans L' = spans L"
proof -
  let ?P = "\<lambda>j. job_id j = job_id row \<and> job_state j = Queued \<and> job_active j"
  let ?f = "\<lambda>j. j\<lparr>job_state := Leased, attempt_count := attempt_count row + 1, lease_token := Some token,
       lease_generation := lease_generation row + 1, leased_by := Some worker,
       lease_expires_at := Some (now + of_int (lease_seconds st)), current_stage := None,
       job_error := None, failure_class := None, eligible_at := 0, job_updated_at := timestamp now\<rparr>"
  note ok = ledger_invD [OF inv]
  obtain M N where M: "update_jobs ?P ?f L = Inr M"
    and N: "put_attempts (attempts M @ [granted_attempt st token worker now (next_rowid attempt_id (attempts M)) row]) M = Inr N"
    and ev: "logged N L'"
    by (insert run [unfolded grant_lease_def Let_def, folded granted_attempt_def], elim ledger_run,
        erule that, assumption, erule loggedI)
  have M': "M = L\<lparr>jobs := update_where ?P ?f (jobs L)\<rparr>"
    using M by (auto simp: update_jobs_def put_jobs_def split: if_splits)
  have N': "N = M\<lparr>attempts := attempts L @ [granted_attempt st token worker now (next_rowid attempt_id (attempts L)) row]\<rparr>"
    using N by (auto simp: put_attempts_def M' split: if_splits)
  note fr = logged_frame [OF ev]
  have same: "j = row" if "j \<in> set (jobs L)" "job_id j = job_id row" for j
    using same_job [OF ok(1) that(1) row(1) that(2)] .
  have "update_where ?P ?f (jobs L) = map (\<lambda>j. if job_id j = job_id row then ?f j else j) (jobs L)"
    by (rule update_one_job [OF ok(1) row(1)]) (auto simp: row)
  also have "\<dots> = map (\<lambda>j. if job_id j = job_id row then granted_job st token worker now j else j) (jobs L)"
    using same by (auto simp: granted_job_def)
  finally have J: "update_where ?P ?f (jobs L) =
    map (\<lambda>j. if job_id j = job_id row then granted_job st token worker now j else j) (jobs L)" .
  show J': "jobs L' = map (\<lambda>j. if job_id j = job_id row then granted_job st token worker now j else j) (jobs L)"
    by (simp add: fr N' M' J)
  show A': "attempts L' = attempts L @ [granted_attempt st token worker now (next_rowid attempt_id (attempts L)) row]"
    by (simp add: fr N')
  show S': "spans L' = spans L" by (simp add: fr N' M')
  show "same_policy L L'" by (simp add: same_policy_def fr N' M')
  have "evolves L M"
    using M
  proof (rule update_jobs_evolves)
    fix j assume "j \<in> set (jobs L)" "?P j"
    then have "j = row" using same by blast
    then show "job_step j (?f j)"
      using granted_job_step [OF row(2), of st token worker now] by (simp add: granted_job_def)
  qed
  moreover have "evolves M N" using N by (rule insert_attempt_evolves)
  ultimately show "evolves L L'" using logged_evolves [OF ev] by (blast intro: evolves_trans)
  show "lease_coherent L'"
    by (rule coherent_grant [OF ok row(1) _ J' A' S']) (simp add: row(2) job_live_def)
qed

text \<open>The row a claim chooses is an eligible one.\<close>

lemma joined_iff:
  "(j, b, c) \<in> set (joined L) \<longleftrightarrow>
     j \<in> set (jobs L) \<and> b \<in> set (batches L) \<and> c \<in> set (cells L) \<and> batch_id b = job_batch j
     \<and> cell_plan c = job_plan j \<and> cell_id c = job_cell j"
  by (auto simp: joined_def split: if_splits)

definition claimable ::
  "rat \<Rightarrow> string option \<Rightarrow> string list option \<Rightarrow> ledger \<Rightarrow> job_row \<times> batch_row \<times> cell_row \<Rightarrow> bool" where
  "claimable now pool selection L = (\<lambda>(j, b, c).
     (j, b, c) \<in> set (joined L) \<and> job_active j \<and> batch_active b \<and> job_state j = Queued
     \<and> eligible_at j \<le> now \<and> (case selection of None \<Rightarrow> True | Some bs \<Rightarrow> job_batch j \<in> set bs)
     \<and> (case pool of None \<Rightarrow> True | Some p \<Rightarrow> worker_pool_accepts_cell p (cell_json c)))"

lemma claim_choice_Some:
  assumes "claim_choice pool (claim_candidates now selection L) = Some row"
  shows "\<exists>b c. claimable now pool selection L (row, b, c)
     \<and> (\<forall>j b' c'. claimable now pool selection L (j, b', c') \<longrightarrow>
           (batch_position b, job_position row, job_id row) \<le> (batch_position b', job_position j, job_id j))"
proof -
  let ?key = "\<lambda>(j, b, c). (batch_position b, job_position j, job_id j)"
  let ?rows = "filter (\<lambda>(j, b, c). job_active j \<and> batch_active b \<and> job_state j = Queued
      \<and> eligible_at j \<le> now \<and> (case selection of None \<Rightarrow> True | Some bs \<Rightarrow> job_batch j \<in> set bs)) (joined L)"
  let ?acc = "\<lambda>(j, b, c). case pool of None \<Rightarrow> True | Some p \<Rightarrow> worker_pool_accepts_cell p (cell_json c)"
  have one: "find ?acc (if pool = None then take 1 xs else xs) = find ?acc xs"
    for xs :: "(job_row \<times> batch_row \<times> cell_row) list"
    by (cases pool; cases xs) auto
  from assms obtain x where x: "find ?acc (order_by ?key ?rows) = Some x" "fst x = row"
    by (auto simp: claim_choice_def claim_candidates_def one simp del: find.simps)
  obtain b c where bc: "x = (row, b, c)" using x(2) by (cases x) auto
  have "claimable now pool selection L (row, b, c)"
    using find_SomeD [OF x(1)] by (auto simp: bc claimable_def)
  moreover have "?key (row, b, c) \<le> ?key (j, b', c')" if "claimable now pool selection L (j, b', c')" for j b' c'
    by (rule find_order_by_least [OF x(1) [unfolded bc]]) (use that in \<open>auto simp: claimable_def\<close>)
  ultimately show ?thesis by fastforce
qed

lemma claimable_row:
  "claimable now pool selection L (row, b, c) \<Longrightarrow>
   row \<in> set (jobs L) \<and> job_state row = Queued \<and> job_active row"
  by (auto simp: claimable_def joined_iff)

lemma claim_body_Inr:
  assumes run: "claim_body token worker now pool selection L = Inr (payload, L')" and inv: "ledger_inv L"
  shows "evolves L L'" "lease_coherent L'" "same_policy L L'"
proof -
  from run obtain n M where M: "recover_expired_locked now ''coordinator'' L = Inr (n, M)"
    by (auto simp: claim_body_def results)
  note r = recover_expired_Inr [OF M ledger_invD [OF inv]]
  have invM: "ledger_inv M" using evolves_schema [OF r(1)] ledger_invD [OF inv] r(2) by (simp add: ledger_inv_def)
  have "evolves M L' \<and> lease_coherent L' \<and> same_policy M L'"
  proof (cases "L' = M")
    case True
    then show ?thesis using r(2) by (simp add: same_policy_def)
  next
    case False
    with run M obtain row where row: "claim_choice pool (claim_candidates now selection M) = Some row"
      and g: "grant_lease (cstate M) token worker now pool row M = Inr L'"
      by (auto simp: claim_body_def results split: if_splits option.splits)
    from claim_choice_Some [OF row] claimable_row
    have "row \<in> set (jobs M) \<and> job_state row = Queued \<and> job_active row" by blast
    with grant_lease_Inr [OF g invM] show ?thesis by blast
  qed
  then show "evolves L L'" "lease_coherent L'" "same_policy L L'"
    using r(1,3) by (auto intro: evolves_trans simp: same_policy_def)
qed

section \<open>The contract, met\<close>

interpretation recover_op: ledger_operation "recover_expired_locked now actor" for now actor
  by unfold_locales (use recover_expired_Inr(1,2) in \<open>auto simp: ledger_inv_def\<close>)

interpretation claim_op: ledger_operation "claim_body token worker now pool selection"
  for token worker now pool selection
  by unfold_locales (rule claim_body_Inr(1,2), assumption+)+

text \<open>Calls made under a lease: they succeed for its holder only.\<close>

definition holds_lease :: "string \<Rightarrow> string \<Rightarrow> int \<Rightarrow> ledger \<Rightarrow> bool" where
  "holds_lease jid token generation L =
     list_ex (\<lambda>j. job_id j = jid \<and> job_live j \<and> lease_token j = Some token
                  \<and> lease_generation j = generation) (jobs L)"

lemma holds_lease_iff:
  "holds_lease jid token generation L \<longleftrightarrow>
     (\<exists>j\<in>set (jobs L). job_id j = jid \<and> job_live j \<and> lease_token j = Some token
        \<and> lease_generation j = generation)"
  by (simp add: holds_lease_def list_ex_iff)

locale fenced_operation = ledger_operation body for body :: "ledger \<Rightarrow> ('a \<times> ledger) result" +
  fixes jid token :: string and generation :: int
  assumes fenced: "ledger_inv L \<Longrightarrow> body L = Inr (x, L') \<Longrightarrow> holds_lease jid token generation L"
begin

lemma stale_refused:
  "ledger_inv L \<Longrightarrow> \<not> holds_lease jid token generation L \<Longrightarrow>
   (\<exists>e. transaction body L = (Inl e, L))"
  using fenced by (fastforce simp: transaction_def split: sum.splits)

end

interpretation renew_op: fenced_operation "renew_body jid token generation now seconds" jid token generation
  for jid token generation now seconds
proof
  fix L L' x assume inv: "ledger_inv L" and run: "renew_body jid token generation now seconds L = Inr (x, L')"
  show "evolves L L'" "lease_coherent L'" using renew_body_Inr [OF run inv] by blast+
  from run obtain row A where A: "require_lease_locked jid token generation now L = Inr (row, A)"
    by (auto simp: renew_body_def results)
  show "holds_lease jid token generation L"
    using require_lease_Inr [OF A inv] by (auto simp: holds_lease_iff)
qed

interpretation complete_op: fenced_operation
  "complete_body jid token generation outcome outcome_json now" jid token generation
  for jid token generation outcome outcome_json now
  by unfold_locales (use complete_body_Inr in \<open>fastforce simp: holds_lease_iff\<close>)+

interpretation fail_op: fenced_operation
  "fail_body jid token generation failure retryable classified pathological now" jid token generation
  for jid token generation failure retryable classified pathological now
  by unfold_locales (use fail_body_Inr in \<open>fastforce simp: holds_lease_iff\<close>)+

text \<open>Once lost, a lease never comes back: whatever happens to the ledger later.\<close>

lemma lost_lease_stays_lost:
  assumes ev: "evolves L L'" and ok: "schema_ok L"
    and issued: "j \<in> set (jobs L)" "job_id j = jid" "generation \<le> lease_generation j"
    and lost: "\<not> holds_lease jid token generation L"
  shows "\<not> holds_lease jid token generation L'"
proof
  assume "holds_lease jid token generation L'"
  then obtain j' where j': "j' \<in> set (jobs L')" "job_id j' = jid" "job_live j'"
      "lease_token j' = Some token" "lease_generation j' = generation"
    by (auto simp: holds_lease_iff)
  have "rows_evolve job_step (jobs L) (jobs L')" using ev by (simp add: evolves_def)
  from jobs_table.keyed_row_after [OF this schema_jobs_distinct [OF evolves_schema [OF ev ok]] issued(1) j'(1)]
  have "job_step j j'" using j'(2) issued(2) by simp
  with j' issued lost show False by (auto simp: job_step_def holds_lease_iff)
qed

end
