(* ===== verification/Stages.thy ===== *)
theory Stages
  imports Lease_Operations
begin

text \<open>
  \<open>record_stage\<close> of src/fidb_poc/coordinator.py: the fenced, typed transitions of a job's
  stage spans.  The checks of the arguments come first (\<open>check_stage\<close>), then the body of the
  transaction: open a span, record a skipped one, or close the open one.
\<close>

section \<open>The arguments\<close>

definition STAGE_STATUSES :: "string list" where
  "STAGE_STATUSES = [''started'', ''completed'', ''failed'', ''skipped'']"

fun stage_state_of :: "string \<Rightarrow> span_state" where
  "stage_state_of s =
     (if s = ''started'' then Started else if s = ''completed'' then Completed
      else if s = ''failed'' then SFailed else Skipped)"

text \<open>\<open>mapping.get(key)\<close>, where the value \<open>None\<close> is as good as no key.\<close>

definition get_some :: "json \<Rightarrow> string \<Rightarrow> json option" where
  "get_some v k = (case jget v k of None \<Rightarrow> None | Some JNull \<Rightarrow> None | Some w \<Rightarrow> Some w)"

text \<open>What the checks leave for the transaction.\<close>

record stage_call =
  sc_stage :: string
  sc_status :: string
  sc_duration :: "int option"
  sc_details :: json
  sc_details_json :: json
  sc_metrics_json :: json
  sc_supplied_start :: bool
  sc_started_at :: stamp
  sc_ended_at :: "stamp option"

definition stage_details_of :: "json option \<Rightarrow> json result" where
  "stage_details_of details =
     (case details of
        None \<Rightarrow> Inr (JObj [])
      | Some JNull \<Rightarrow> Inr (JObj [])
      | Some (JObj kvs) \<Rightarrow> Inr (JObj kvs)
      | Some _ \<Rightarrow> Inl (ValueError ''stage details must be a JSON object''))"

definition stage_times ::
  "iso_parser \<Rightarrow> string \<Rightarrow> json \<Rightarrow> stamp \<Rightarrow> (stamp \<times> stamp option) result" where
  "stage_times parse status details recorded_at =
     and_then (case get_some details ''started_at'' of
                 Some v \<Rightarrow> utc_timestamp parse v ''stage started_at''
               | None \<Rightarrow> Inr recorded_at) (\<lambda>started_at.
     if status = ''started'' then
       (if get_some details ''finished_at'' \<noteq> None
        then Inl (ValueError ''a started stage cannot have finished_at'')
        else Inr (started_at, None))
     else
       and_then (case get_some details ''finished_at'' of
                   Some v \<Rightarrow> utc_timestamp parse v ''stage finished_at''
                 | None \<Rightarrow> Inr recorded_at) (\<lambda>ended_at.
       if status = ''skipped'' \<and> started_at \<noteq> ended_at
       then Inl (ValueError ''a skipped stage must have identical start and finish timestamps'')
       else Inr (started_at, Some ended_at)))"

definition check_stage ::
  "iso_parser \<Rightarrow> string \<Rightarrow> string \<Rightarrow> json option \<Rightarrow> json option \<Rightarrow> rat \<Rightarrow> stage_call result" where
  "check_stage parse stage status duration details now =
     and_then (identifier_field (JStr stage) ''stage'') (\<lambda>stage_name.
     and_then (identifier_field (JStr status) ''stage status'') (\<lambda>stage_status.
     if stage_status \<notin> set STAGE_STATUSES
     then Inl (ValueError ''stage status must be one of: started, completed, failed, skipped'')
     else
     and_then (stage_duration_ns duration stage_status) (\<lambda>measured_duration.
     and_then (stage_details_of details) (\<lambda>stage_details.
     and_then (canonical_json stage_details) (\<lambda>details_json.
     let raw_metrics = (case jget stage_details ''metrics'' of None \<Rightarrow> JObj [] | Some v \<Rightarrow> v)
     in if \<not> is_object raw_metrics
        then Inl (ValueError ''stage details metrics must be a JSON object'')
        else
     and_then (canonical_json raw_metrics) (\<lambda>metrics_json.
     and_then (stage_times parse stage_status stage_details (timestamp now)) (\<lambda>(started_at, ended_at).
     Inr \<lparr>sc_stage = stage_name, sc_status = stage_status, sc_duration = measured_duration,
          sc_details = stage_details, sc_details_json = details_json, sc_metrics_json = metrics_json,
          sc_supplied_start = (get_some stage_details ''started_at'' \<noteq> None),
          sc_started_at = started_at, sc_ended_at = ended_at\<rparr>)))))))"

section \<open>The transaction\<close>

definition live_attempt_of :: "string \<Rightarrow> int \<Rightarrow> ledger \<Rightarrow> attempt_row option" where
  "live_attempt_of jid generation L =
     find (\<lambda>a. attempt_job a = jid \<and> attempt_generation a = generation \<and> attempt_live a) (attempts L)"

definition open_span_of :: "attempt_row \<Rightarrow> ledger \<Rightarrow> span_row option" where
  "open_span_of a L =
     (case order_by (\<lambda>s. - span_sequence s)
         (filter (\<lambda>s. span_attempt s = attempt_id a \<and> span_state s = Started) (spans L)) of
        [] \<Rightarrow> None | s # _ \<Rightarrow> Some s)"

text \<open>Whether the wall clock of a terminal transition went backwards.\<close>

definition regressed :: "stamp option \<Rightarrow> stamp \<Rightarrow> bool" where
  "regressed ended_at started_at = (case ended_at of None \<Rightarrow> False | Some e \<Rightarrow> e < started_at)"

text \<open>The row of a started or a skipped span: its sequence in the attempt and the attempt at
  the stage are one more than the largest so far.\<close>

definition new_span :: "stage_call \<Rightarrow> attempt_row \<Rightarrow> string \<Rightarrow> int \<Rightarrow> ledger \<Rightarrow> span_row" where
  "new_span call a jid generation L =
     (let mine = filter (\<lambda>s. span_attempt s = attempt_id a) (spans L);
          started = (sc_status call = ''started'')
      in \<lparr>span_id = next_rowid span_id (spans L), span_attempt = attempt_id a, span_job = jid,
          span_attempt_number = attempt_number a, span_generation = generation,
          span_worker = attempt_worker a,
          span_sequence = coalesce_max (map span_sequence mine) + 1,
          span_stage = sc_stage call,
          span_stage_attempt = coalesce_max (map span_stage_attempt
            (filter (\<lambda>s. span_stage s = sc_stage call) mine)) + 1,
          span_state = (if started then Started else Skipped),
          span_started_at = sc_started_at call,
          span_ended_at = (if started then None else sc_ended_at call),
          span_duration_ns = (if started then None else sc_duration call),
          span_duration_source = (if started then None else Some WorkerMonotonic),
          wall_clock_regressed = (\<not> started \<and> regressed (sc_ended_at call) (sc_started_at call)),
          span_details = sc_details_json call, span_metrics = sc_metrics_json call,
          span_error = None\<rparr>)"

text \<open>Opening or skipping: no span of the attempt may be open.\<close>

definition begin_span ::
  "stage_call \<Rightarrow> attempt_row \<Rightarrow> string \<Rightarrow> int \<Rightarrow> ledger \<Rightarrow> ((span_row \<times> stamp) \<times> ledger) result" where
  "begin_span call a jid generation L =
     (case open_span_of a L of
        Some s \<Rightarrow>
          Inl (CoordinatorError
            (if sc_status call = ''started''
             then ''stage '' @ span_stage s @ '' is already running for this attempt''
             else ''cannot skip '' @ sc_stage call @ '' while stage '' @ span_stage s @ '' is running''))
      | None \<Rightarrow>
          (let row = new_span call a jid generation L
           in and_then (put_spans (spans L @ [row]) L) (\<lambda>L'. Inr ((row, sc_started_at call), L'))))"

text \<open>Closing: the named stage must be the open one, started when the caller says it was.\<close>

definition finish_span ::
  "stage_call \<Rightarrow> attempt_row \<Rightarrow> ledger \<Rightarrow> ((span_row \<times> stamp) \<times> ledger) result" where
  "finish_span call a L =
     (let opened = open_span_of a L;
          running = (case opened of None \<Rightarrow> ''None'' | Some s \<Rightarrow> [CHR 0x27] @ span_stage s @ [CHR 0x27]);
          refused = CoordinatorError (''cannot mark stage '' @ sc_stage call @ '' '' @ sc_status call
            @ ''; running stage is '' @ running)
      in case opened of
           None \<Rightarrow> Inl refused
         | Some s \<Rightarrow>
             if span_stage s \<noteq> sc_stage call then Inl refused
             else if sc_supplied_start call \<and> sc_started_at call \<noteq> span_started_at s
             then Inl (CoordinatorError ''terminal stage started_at does not match its open span'')
             else
               let err = (if sc_status call = ''failed''
                          then Some (case jget (sc_details call) ''message'' of
                                       Some (JStr m) \<Rightarrow> if m \<noteq> [] then m else ''stage failed''
                                     | _ \<Rightarrow> ''stage failed'')
                          else None)
               in and_then (update_spans (\<lambda>r. span_id r = span_id s \<and> span_state r = Started)
                    (\<lambda>r. r\<lparr>span_state := stage_state_of (sc_status call),
                           span_ended_at := sc_ended_at call, span_duration_ns := sc_duration call,
                           span_duration_source := Some WorkerMonotonic,
                           span_details := sc_details_json call, span_metrics := sc_metrics_json call,
                           wall_clock_regressed := regressed (sc_ended_at call) (span_started_at s),
                           span_error := err\<rparr>) L)
                    (\<lambda>L'. Inr ((s, span_started_at s), L')))"

definition record_stage_body ::
  "string \<Rightarrow> string \<Rightarrow> int \<Rightarrow> stage_call \<Rightarrow> rat \<Rightarrow> ledger \<Rightarrow> (int \<times> ledger) result" where
  "record_stage_body jid token generation call now L =
     and_then (require_lease_locked jid token generation now L) (\<lambda>(row, L).
     case live_attempt_of jid generation L of
       None \<Rightarrow> Inl (CoordinatorError ''live lease has no active attempt'')
     | Some a \<Rightarrow>
       and_then (if sc_status call = ''started'' \<or> sc_status call = ''skipped''
                 then begin_span call a jid generation L else finish_span call a L)
         (\<lambda>((touched, started_at), L).
       and_then (update_jobs
         (\<lambda>j. job_id j = jid \<and> lease_token j = Some token \<and> lease_generation j = generation)
         (\<lambda>j. j\<lparr>job_state := Running,
                current_stage := (if sc_status call = ''started'' then Some (sc_stage call) else None),
                job_updated_at := timestamp now\<rparr>) L) (\<lambda>L.
       and_then (update_attempts
         (\<lambda>a. attempt_job a = jid \<and> attempt_generation a = generation \<and> attempt_live a)
         (\<lambda>a. a\<lparr>attempt_state := ARunning\<rparr>) L) (\<lambda>L.
       event_locked (''stage.'' @ sc_status call) now (str_of (leased_by row)) (Some (job_batch row))
         (Some jid) (Some (job_plan row))
         (JObj [(''stage'', JStr (sc_stage call)), (''stage_attempt_id'', JInt (span_id touched)),
                (''stage_attempt'', JInt (span_stage_attempt touched)),
                (''lease_generation'', JInt generation), (''duration_ns'', opt_int (sc_duration call)),
                (''duration_source'', if sc_status call = ''started'' then JNull
                                      else JStr ''worker-monotonic''),
                (''wall_clock_regressed'', JBool (sc_status call \<noteq> ''started''
                   \<and> regressed (sc_ended_at call) started_at)),
                (''started_at'', JStr (isoformat started_at)),
                (''ended_at'', opt_str (map_option isoformat (sc_ended_at call))),
                (''details'', sc_details call)]) L))))"

definition record_stage ::
  "iso_parser \<Rightarrow> string \<Rightarrow> string \<Rightarrow> int \<Rightarrow> string \<Rightarrow> string \<Rightarrow> json option \<Rightarrow> json option \<Rightarrow> rat
   \<Rightarrow> ledger \<Rightarrow> int result \<times> ledger" where
  "record_stage parse jid token generation stage status duration details now L =
     (case check_stage parse stage status duration details now of
        Inl e \<Rightarrow> (Inl e, L)
      | Inr call \<Rightarrow> transaction (record_stage_body jid token generation call now) L)"

section \<open>What a transition does to the ledger\<close>

lemma live_attempt_Some:
  assumes "live_attempt_of jid generation L = Some a"
  shows "a \<in> set (attempts L)" "attempt_job a = jid" "attempt_generation a = generation" "attempt_live a"
  using find_SomeD [OF assms [unfolded live_attempt_of_def]] by simp_all

lemma open_span_Some:
  assumes "open_span_of a L = Some s"
  shows "s \<in> set (spans L)" "span_attempt s = attempt_id a" "span_state s = Started"
proof -
  let ?rows = "filter (\<lambda>s. span_attempt s = attempt_id a \<and> span_state s = Started) (spans L)"
  from assms obtain ss where "order_by (\<lambda>s. - span_sequence s) ?rows = s # ss"
    by (auto simp: open_span_of_def split: list.splits)
  then have "s \<in> set (order_by (\<lambda>s. - span_sequence s) ?rows)" by simp
  then show "s \<in> set (spans L)" "span_attempt s = attempt_id a" "span_state s = Started"
    by simp_all
qed

lemma open_span_None:
  "open_span_of a L = None \<longleftrightarrow>
     (\<forall>s\<in>set (spans L). span_attempt s = attempt_id a \<longrightarrow> span_state s \<noteq> Started)"
proof -
  have "open_span_of a L = None \<longleftrightarrow>
    filter (\<lambda>s. span_attempt s = attempt_id a \<and> span_state s = Started) (spans L) = []"
    by (simp add: open_span_of_def split: list.splits) (metis list.distinct(1) order_by_eq_Nil)
  then show ?thesis by (simp add: filter_empty_conv)
qed

text \<open>Only one span of an attempt is ever open, so the open one is found.\<close>

lemma open_span_unique:
  assumes ok: "schema_ok L" and s: "s \<in> set (spans L)" "span_attempt s = attempt_id a" "span_state s = Started"
  shows "open_span_of a L = Some s"
proof (cases "open_span_of a L")
  case None
  then show ?thesis using s by (simp add: open_span_None)
next
  case (Some r)
  have "distinct (map span_attempt (filter (\<lambda>s. span_state s = Started) (spans L)))"
    using ok by (simp add: schema_ok_def spans_ok_def)
  from distinct_map_inj [OF this, of r s] open_span_Some [OF Some] s have "r = s" by simp
  with Some show ?thesis by simp
qed

definition only_spans :: "ledger \<Rightarrow> ledger \<Rightarrow> bool" where
  "only_spans L L' \<longleftrightarrow> (\<exists>rows. L' = L\<lparr>spans := rows\<rparr>)"

lemma begin_span_Inr:
  assumes "begin_span call a jid generation L = Inr ((s, t), L')"
  shows "evolves L L'" "open_span_of a L = None" "s = new_span call a jid generation L"
    "t = sc_started_at call" "L' = L\<lparr>spans := spans L @ [s]\<rparr>"
proof -
  have p: "put_spans (spans L @ [s]) L = Inr L'" and n: "open_span_of a L = None"
    and s: "s = new_span call a jid generation L" and t: "t = sc_started_at call"
    using assms by (auto simp: begin_span_def Let_def results split: option.splits)
  show "evolves L L'" using p by (rule insert_span_evolves)
  show "open_span_of a L = None" by (rule n)
  show "s = new_span call a jid generation L" by (rule s)
  show "t = sc_started_at call" by (rule t)
  show "L' = L\<lparr>spans := spans L @ [s]\<rparr>" using p by (auto simp: put_spans_def split: if_splits)
qed

definition finished_span :: "stage_call \<Rightarrow> span_row \<Rightarrow> span_row" where
  "finished_span call s =
     s\<lparr>span_state := stage_state_of (sc_status call), span_ended_at := sc_ended_at call,
       span_duration_ns := sc_duration call, span_duration_source := Some WorkerMonotonic,
       span_details := sc_details_json call, span_metrics := sc_metrics_json call,
       wall_clock_regressed := regressed (sc_ended_at call) (span_started_at s),
       span_error := (if sc_status call = ''failed''
         then Some (case jget (sc_details call) ''message'' of
                      Some (JStr m) \<Rightarrow> if m \<noteq> [] then m else ''stage failed''
                    | _ \<Rightarrow> ''stage failed'')
         else None)\<rparr>"

lemma finish_span_Inr:
  assumes run: "finish_span call a L = Inr ((s, t), L')" and ok: "schema_ok L"
  shows "evolves L L'" "open_span_of a L = Some s" "span_stage s = sc_stage call"
    "t = span_started_at s"
    "L' = L\<lparr>spans := map (\<lambda>r. if span_id r = span_id s then finished_span call r else r) (spans L)\<rparr>"
proof -
  let ?P = "\<lambda>r. span_id r = span_id s \<and> span_state r = Started"
  let ?f = "\<lambda>r. r\<lparr>span_state := stage_state_of (sc_status call), span_ended_at := sc_ended_at call,
       span_duration_ns := sc_duration call, span_duration_source := Some WorkerMonotonic,
       span_details := sc_details_json call, span_metrics := sc_metrics_json call,
       wall_clock_regressed := regressed (sc_ended_at call) (span_started_at s),
       span_error := (if sc_status call = ''failed''
         then Some (case jget (sc_details call) ''message'' of
                      Some (JStr m) \<Rightarrow> if m \<noteq> [] then m else ''stage failed''
                    | _ \<Rightarrow> ''stage failed'')
         else None)\<rparr>"
  have u: "update_spans ?P ?f L = Inr L'" and o: "open_span_of a L = Some s"
    and n: "span_stage s = sc_stage call" and t: "t = span_started_at s"
    using run unfolding finish_span_def Let_def
    by (auto simp: results simp del: stage_state_of.simps split del: if_split split: option.split_asm
        elim!: run_step) (auto simp: results simp del: stage_state_of.simps split: if_split_asm)
  show "evolves L L'" using u by (rule update_spans_evolves) (auto simp: span_step_def)
  show "open_span_of a L = Some s" "span_stage s = sc_stage call" "t = span_started_at s"
    by (fact o n t)+
  have "update_where ?P ?f (spans L) =
    map (\<lambda>r. if span_id r = span_id s then finished_span call r else r) (spans L)"
    unfolding update_where_def
  proof (rule map_cong [OF refl])
    fix r assume r: "r \<in> set (spans L)"
    show "(if ?P r then ?f r else r) = (if span_id r = span_id s then finished_span call r else r)"
    proof (cases "span_id r = span_id s")
      case True
      then have "r = s"
        using distinct_map_inj [OF schema_spans_distinct [OF ok] r open_span_Some(1) [OF o]] by blast
      then show ?thesis
        using open_span_Some(3) [OF o] by (simp add: finished_span_def del: stage_state_of.simps)
    qed simp
  qed
  then show "L' = L\<lparr>spans := map (\<lambda>r. if span_id r = span_id s then finished_span call r else r) (spans L)\<rparr>"
    using u by (auto simp: update_spans_def put_spans_def split: if_split_asm)
qed

definition staged_job :: "stage_call \<Rightarrow> rat \<Rightarrow> job_row \<Rightarrow> job_row" where
  "staged_job call now j =
     j\<lparr>job_state := Running,
       current_stage := (if sc_status call = ''started'' then Some (sc_stage call) else None),
       job_updated_at := timestamp now\<rparr>"

lemma stage_transition_Inr:
  assumes B: "(if sc_status call = ''started'' \<or> sc_status call = ''skipped''
          then begin_span call a jid generation A else finish_span call a A) = Inr ((s, t), B)"
    and ok: "schema_ok A"
    and at: "a \<in> set (attempts A)" "attempt_job a = jid" "attempt_generation a = generation" "attempt_live a"
  shows "evolves A B" "only_spans A B"
    "x \<in> set (spans B) \<Longrightarrow> x \<in> set (spans A) \<or> span_of x a
       \<or> (\<exists>x0\<in>set (spans A). span_step x0 x \<and> span_state x \<noteq> Started)"
proof -
  have "evolves A B \<and> only_spans A B \<and> (x \<in> set (spans B) \<longrightarrow> x \<in> set (spans A) \<or> span_of x a
       \<or> (\<exists>x0\<in>set (spans A). span_step x0 x \<and> span_state x \<noteq> Started))"
  proof (cases "sc_status call = ''started'' \<or> sc_status call = ''skipped''")
    case True
    with B have B': "begin_span call a jid generation A = Inr ((s, t), B)" by simp
    note b = begin_span_Inr [OF B']
    have "span_of s a"
      using at by (simp add: b(3) span_of_def new_span_def Let_def)
    then show ?thesis using b(1,5) by (auto simp: only_spans_def)
  next
    case False
    with B have B': "finish_span call a A = Inr ((s, t), B)" by (simp split: if_splits)
    note b = finish_span_Inr [OF B' ok(1)]
    note o = open_span_Some [OF b(2)]
    have "span_step r (finished_span call r) \<and> span_state (finished_span call r) \<noteq> Started"
      if "r \<in> set (spans A)" "span_id r = span_id s" for r
    proof -
      have "r = s" using distinct_map_inj [OF schema_spans_distinct [OF ok] that(1) o(1) that(2)] .
      then show ?thesis using o(3) False by (auto simp: span_step_def finished_span_def)
    qed
    then show ?thesis using b(1,5) by (auto simp: only_spans_def split: if_splits)
  qed
  then show "evolves A B" "only_spans A B"
    "x \<in> set (spans B) \<Longrightarrow> x \<in> set (spans A) \<or> span_of x a
       \<or> (\<exists>x0\<in>set (spans A). span_step x0 x \<and> span_state x \<noteq> Started)" by blast+
qed

lemma record_stage_body_Inr:
  assumes run: "record_stage_body jid token generation call now L = Inr (eid, L')" and inv: "ledger_inv L"
  shows "evolves L L'" "lease_coherent L'" "same_policy L L'" "holds_lease jid token generation L"
    "jobs L' = map (\<lambda>j. if job_id j = jid then staged_job call now j
        else if expired now j then recovered_job (cstate L) now j else j) (jobs L)"
    "\<exists>row A a s t B. require_lease_locked jid token generation now L = Inr (row, A)
       \<and> live_attempt_of jid generation A = Some a
       \<and> (if sc_status call = ''started'' \<or> sc_status call = ''skipped''
          then begin_span call a jid generation A else finish_span call a A) = Inr ((s, t), B)
       \<and> spans L' = spans B"
proof -
  from run obtain row A a where A: "require_lease_locked jid token generation now L = Inr (row, A)"
    and a: "live_attempt_of jid generation A = Some a"
    by (auto simp: record_stage_body_def results split: option.splits)
  note r = require_lease_Inr [OF A inv]
  note ok = ledger_invD [OF r(2)]
  obtain s t B C D where
    B: "(if sc_status call = ''started'' \<or> sc_status call = ''skipped''
          then begin_span call a jid generation A else finish_span call a A) = Inr ((s, t), B)"
    and C: "update_jobs (\<lambda>j. job_id j = jid \<and> lease_token j = Some token \<and> lease_generation j = generation)
       (staged_job call now) B = Inr C"
    and D: "update_attempts (\<lambda>a. attempt_job a = jid \<and> attempt_generation a = generation \<and> attempt_live a)
       (\<lambda>a. a\<lparr>attempt_state := ARunning\<rparr>) C = Inr D"
    and E: "\<exists>ty ac b j p v. event_locked ty now ac b j p v D = Inr (eid, L')"
    by (insert run [unfolded record_stage_body_def A and_then_Inr prod.case a option.case],
        elim ledger_run,
        rule that [unfolded staged_job_def [abs_def]], assumption+, intro exI, assumption)
  from E obtain ty ac b j p v where E': "event_locked ty now ac b j p v D = Inr (eid, L')" by blast
  note fr = event_locked_frame [OF E']
  note at = live_attempt_Some [OF a]
  have spansB: "evolves A B" "only_spans A B"
    and new: "\<And>x. x \<in> set (spans B) \<Longrightarrow> x \<in> set (spans A) \<or> span_of x a
      \<or> (\<exists>x0\<in>set (spans A). span_step x0 x \<and> span_state x \<noteq> Started)"
    using stage_transition_Inr [OF B ok(1) at] by blast+
  then obtain rows where B': "B = A\<lparr>spans := rows\<rparr>" by (auto simp: only_spans_def)
  have C': "C = B\<lparr>jobs := update_where (\<lambda>j. job_id j = jid \<and> lease_token j = Some token
      \<and> lease_generation j = generation) (staged_job call now) (jobs A)\<rparr>"
    using C by (auto simp: update_jobs_def put_jobs_def B' split: if_split_asm)
  have D': "D = C\<lparr>attempts := update_where (\<lambda>a. attempt_job a = jid \<and> attempt_generation a = generation
      \<and> attempt_live a) (\<lambda>a. a\<lparr>attempt_state := ARunning\<rparr>) (attempts A)\<rparr>"
    using D by (auto simp: update_attempts_def put_attempts_def B' C' split: if_split_asm)
  have J: "jobs L' = map (\<lambda>j. if job_id j = job_id row then staged_job call now j else j) (jobs A)"
    unfolding fr D' C' by (simp, rule update_one_job [OF ok(1) r(5)]) (auto simp: r)
  have "evolves B C"
    using C
  proof (rule update_jobs_evolves)
    fix j assume "j \<in> set (jobs B)"
      "job_id j = jid \<and> lease_token j = Some token \<and> lease_generation j = generation"
    then have "j = row" using same_job [OF ok(1) _ r(5)] r(7) by (simp add: B')
    then show "job_step j (staged_job call now j)"
      using r(8) live_not_final [OF r(8)] by (simp add: job_step_def staged_job_def job_live_def)
  qed
  moreover have "evolves C D" using D
    by (rule update_attempts_evolves) (auto simp: attempt_step_def)
  moreover have "evolves D L'" by (rule event_locked_evolves [OF E'])
  ultimately show "evolves L L'" using r(1) spansB by (blast intro: evolves_trans)
  show "same_policy L L'" using r(3) by (simp add: same_policy_def fr D' C' B')
  show "holds_lease jid token generation L" using r(6-10) by (auto simp: holds_lease_iff)
  have nonexp: "\<not> expired now j" if "j \<in> set (jobs L)" "job_id j = jid" for j
    using same_job [OF ledger_invD(1) [OF inv] that(1) r(6)] that(2) r(7,11) by simp
  show "jobs L' = map (\<lambda>j. if job_id j = jid then staged_job call now j
        else if expired now j then recovered_job (cstate L) now j else j) (jobs L)"
    unfolding J r(4) using nonexp by (auto simp: r(7))
  show "lease_coherent L'"
  proof (rule coherent_keep_lease [OF ok r(5,8) J, where ?a0.0 = a and g = "\<lambda>a. a\<lparr>attempt_state := ARunning\<rparr>"])
    show "attempts L' = update_where (\<lambda>a. attempt_job a = job_id row \<and>
        attempt_generation a = lease_generation row \<and> attempt_live a)
      (\<lambda>a. a\<lparr>attempt_state := ARunning\<rparr>) (attempts A)"
      by (simp add: fr D' r(7,10))
    show "s \<in> set (spans A) \<or> span_of s a \<or>
        (\<exists>s0\<in>set (spans A). span_step s0 s \<and> span_state s \<noteq> Started)" if "s \<in> set (spans L')" for s
      using that new by (simp add: fr D' C')
    show "a \<in> set (attempts A)" by (rule at(1))
  qed (auto simp: staged_job_def job_live_def attempt_live_def lease_of_def)
  show "\<exists>row A a s t B. require_lease_locked jid token generation now L = Inr (row, A)
       \<and> live_attempt_of jid generation A = Some a
       \<and> (if sc_status call = ''started'' \<or> sc_status call = ''skipped''
          then begin_span call a jid generation A else finish_span call a A) = Inr ((s, t), B)
       \<and> spans L' = spans B"
    by (rule exI [of _ row], rule exI [of _ A], rule exI [of _ a], rule exI [of _ s], rule exI [of _ t],
        rule exI [of _ B]) (simp add: A a B fr D' C' del: if_split)
qed

interpretation stage_op: fenced_operation "record_stage_body jid token generation call now" jid token generation
  for jid token generation call now
  by unfold_locales (rule record_stage_body_Inr, assumption+)+

section \<open>The abstract stage machine\<close>

text \<open>Of an attempt only the running stage matters: at most one, begun before it is ended.\<close>

fun stage_machine :: "string \<Rightarrow> string \<Rightarrow> string option \<Rightarrow> string option option" where
  "stage_machine status stage None =
     (if status = ''started'' then Some (Some stage) else if status = ''skipped'' then Some None else None)"
| "stage_machine status stage (Some running) =
     (if status \<noteq> ''started'' \<and> status \<noteq> ''skipped'' \<and> running = stage then Some None else None)"

definition running_stage :: "attempt_row \<Rightarrow> ledger \<Rightarrow> string option" where
  "running_stage a L = map_option span_stage (open_span_of a L)"

lemma running_stage_cong: "spans L' = spans L \<Longrightarrow> running_stage a L' = running_stage a L"
  by (simp add: running_stage_def open_span_of_def)

abbreviation stage_transition ::
  "stage_call \<Rightarrow> attempt_row \<Rightarrow> string \<Rightarrow> int \<Rightarrow> ledger \<Rightarrow> ((span_row \<times> stamp) \<times> ledger) result" where
  "stage_transition call a jid generation L \<equiv>
     (if sc_status call = ''started'' \<or> sc_status call = ''skipped''
      then begin_span call a jid generation L else finish_span call a L)"

lemma begin_span_refines:
  assumes run: "begin_span call a jid generation A = Inr ((s, t), B)" and ok: "schema_ok A"
    and status: "sc_status call = ''started'' \<or> sc_status call = ''skipped''"
  shows "stage_machine (sc_status call) (sc_stage call) (running_stage a A) = Some (running_stage a B)"
proof -
  note b = begin_span_Inr [OF run]
  have fields: "span_attempt s = attempt_id a" "span_stage s = sc_stage call"
    "span_state s = (if sc_status call = ''started'' then Started else Skipped)"
    unfolding b(3) by (simp_all add: new_span_def Let_def)
  have A: "running_stage a A = None" using b(2) by (simp add: running_stage_def)
  show ?thesis
  proof (cases "sc_status call = ''started''")
    case True
    have "open_span_of a B = Some s"
      by (rule open_span_unique [OF evolves_schema [OF b(1) ok]]) (use fields True b(5) in auto)
    then show ?thesis using True fields A by (simp add: running_stage_def)
  next
    case False
    have "open_span_of a B = None"
      using b(2,5) fields False by (auto simp: open_span_None)
    then show ?thesis using status False A by (simp add: running_stage_def)
  qed
qed

lemma finish_span_refines:
  assumes run: "finish_span call a A = Inr ((s, t), B)" and ok: "schema_ok A"
    and status: "sc_status call \<noteq> ''started''" "sc_status call \<noteq> ''skipped''"
  shows "stage_machine (sc_status call) (sc_stage call) (running_stage a A) = Some (running_stage a B)"
proof -
  note b = finish_span_Inr [OF run ok]
  have "open_span_of a B = None"
    unfolding open_span_None
  proof (intro ballI impI)
    fix x assume x: "x \<in> set (spans B)" "span_attempt x = attempt_id a"
    then obtain r where r: "r \<in> set (spans A)"
        "x = (if span_id r = span_id s then finished_span call r else r)"
      by (auto simp: b(5))
    show "span_state x \<noteq> Started"
    proof (cases "span_id r = span_id s")
      case True
      then show ?thesis using r(2) status(1) by (auto simp: finished_span_def)
    next
      case False
      then show ?thesis using r x(2) open_span_unique [OF ok r(1)] b(2) by auto
    qed
  qed
  then show ?thesis using b(2,3) status by (simp add: running_stage_def)
qed

lemma stage_transition_refines:
  assumes "stage_transition call a jid generation A = Inr (p, B)" and "schema_ok A"
  shows "stage_machine (sc_status call) (sc_stage call) (running_stage a A) = Some (running_stage a B)"
  using assms begin_span_refines [of call a jid generation A "fst p" "snd p" B]
    finish_span_refines [of call a A "fst p" "snd p" B]
  by (cases "sc_status call = ''started'' \<or> sc_status call = ''skipped''") auto

text \<open>What the machine refuses is refused with \<open>CoordinatorError\<close>.\<close>

lemma stage_transition_refuses:
  assumes "stage_machine (sc_status call) (sc_stage call) (running_stage a A) = None"
  shows "\<exists>m. stage_transition call a jid generation A = Inl (CoordinatorError m)"
  using assms
  by (cases "open_span_of a A")
    (auto simp: running_stage_def begin_span_def finish_span_def Let_def split: if_splits)

end
