(* ===== verification/Demo_Ledgers.thy ===== *)
theory Demo_Ledgers
  imports Stages
begin

text \<open>
  Concrete ledgers on which the theorems of the development are applied: an armed queue with
  one plan, two batches and three queued jobs.
\<close>

definition demo_cell :: "string \<Rightarrow> cell_row" where
  "demo_cell c = \<lparr>cell_plan = ''p'', cell_id = c, cell_matrix = ''m'', cell_state = ''planned'',
     cell_json = JObj [(''kind'', JStr ''native''),
       (''routing'', JObj [(''executor'', JStr ''native-local'')])]\<rparr>"

definition demo_batch :: "string \<Rightarrow> int \<Rightarrow> batch_row" where
  "demo_batch b pos = \<lparr>batch_id = b, batch_name = b, batch_plan = ''p'', batch_plan_path = ''p.toml'',
     matrices_json = None, batch_position = pos, batch_active = True, batch_generation = 1,
     batch_created_at = 0, batch_updated_at = 0\<rparr>"

definition demo_job :: "string \<Rightarrow> string \<Rightarrow> string \<Rightarrow> int \<Rightarrow> job_row" where
  "demo_job j b c pos = \<lparr>job_id = j, job_batch = b, job_plan = ''p'', job_cell = c, job_position = pos,
     job_state = Queued, blockers_json = JArr [], factor_variants_json = JArr [],
     queue_row_json = JObj [], attempt_count = 0, eligible_at = 0, lease_token = None,
     lease_generation = 0, leased_by = None, lease_expires_at = None, current_stage = None,
     result_json = None, job_error = None, failure_class = None, job_active = True,
     job_generation = 1, job_created_at = 0, job_updated_at = 0\<rparr>"

definition demo_ledger :: ledger where
  "demo_ledger = init_ledger\<lparr>cstate := init_state\<lparr>armed := True, max_workers := 2, max_attempts := 2\<rparr>,
     plans := [\<lparr>plan_digest = ''p'', plan_schema_version = ''v1'', plan_name = ''plan'',
                plan_json = JObj [], plan_created_at = 0\<rparr>],
     cells := [demo_cell ''c1'', demo_cell ''c2''],
     batches := [demo_batch ''b1'' 1, demo_batch ''b2'' 2],
     jobs := [demo_job ''j2'' ''b1'' ''c2'' 2, demo_job ''j1'' ''b1'' ''c1'' 1, demo_job ''j3'' ''b2'' ''c1'' 1]\<rparr>"

text \<open>One job leased, its first stage started.\<close>

definition demo_claimed :: ledger where
  "demo_claimed = snd (claim ''t1'' ''w1'' 10 None None None demo_ledger)"

lemma ledger_inv_demo: "ledger_inv demo_ledger"
  by code_simp

lemma holds_lease_demo: "holds_lease ''j1'' ''t1'' 1 demo_claimed"
  by code_simp

end
