(* ===== verification/Admission.thy ===== *)
theory Admission
  imports Stages
begin

text \<open>
  Block admission in src/fidb_poc/coordinator.py (\<open>start_next_block\<close>,
  \<open>admit_lookahead_block\<close>, \<open>finish_active_block_if_drained\<close>, \<open>execution_block\<close>): at most one
  primary batch and one look-ahead batch are open for workers at a time, in queue order.
\<close>

section \<open>Counting active jobs\<close>

text \<open>\<open>jobs JOIN batches\<close>, and the jobs both of whose rows are active.\<close>

definition jobs_with_batch :: "ledger \<Rightarrow> (job_row \<times> batch_row) list" where
  "jobs_with_batch L =
     concat (map (\<lambda>j. map (\<lambda>b. (j, b)) (filter (\<lambda>b. batch_id b = job_batch j) (batches L))) (jobs L))"

definition active_jobs :: "ledger \<Rightarrow> job_row list" where
  "active_jobs L = map fst (filter (\<lambda>(j, b). job_active j \<and> batch_active b) (jobs_with_batch L))"

text \<open>The counts the code keeps in a dict over \<open>sorted(_JOB_STATES)\<close>.\<close>

type_synonym state_counts = "(job_state \<times> int) list"

definition count_state :: "job_row list \<Rightarrow> job_state \<Rightarrow> int" where
  "count_state rows s = int (length (filter (\<lambda>j. job_state j = s) rows))"

definition counts_of :: "job_row list \<Rightarrow> state_counts" where
  "counts_of rows = map (\<lambda>s. (s, count_state rows s)) (sort JOB_STATES)"

definition count_in :: "state_counts \<Rightarrow> job_state \<Rightarrow> int" where
  "count_in counts s = (case map_of counts s of None \<Rightarrow> 0 | Some n \<Rightarrow> n)"

definition remaining_in :: "state_counts \<Rightarrow> int" where
  "remaining_in counts = count_in counts Queued + count_in counts Leased + count_in counts Running"

text \<open>Work a batch still has: queued or live.\<close>

definition pending :: "job_row \<Rightarrow> bool" where
  "pending j = (job_state j = Queued \<or> job_live j)"

section \<open>The block document\<close>

datatype block_document =
    NoBlock
  | Block (block_batch: string) (block_admission: string) (block_counts: state_counts) (block_remaining: int)

definition block_document :: "ledger \<Rightarrow> string option \<Rightarrow> string option \<Rightarrow> block_document" where
  "block_document L batch admission =
     (case batch of
        None \<Rightarrow> NoBlock
      | Some b \<Rightarrow>
          let counts = counts_of (filter (\<lambda>j. job_batch j = b) (active_jobs L))
          in Block b (str_of admission) counts (remaining_in counts))"

record execution_block =
  eb_primary :: block_document
  eb_last_schedule_admission_id :: "string option"
  eb_lookahead :: block_document

definition execution_block :: "ledger \<Rightarrow> execution_block" where
  "execution_block L =
     (let st = cstate L
      in \<lparr>eb_primary = block_document L (active_batch_id st) (active_admission_id st),
          eb_last_schedule_admission_id = last_schedule_admission_id st,
          eb_lookahead = block_document L (lookahead_batch_id st) (lookahead_admission_id st)\<rparr>)"

section \<open>Admission\<close>

text \<open>The first active batch, by position and id, that satisfies \<open>P\<close> and has active pending work.\<close>

definition has_pending :: "ledger \<Rightarrow> batch_row \<Rightarrow> bool" where
  "has_pending L b = list_ex (\<lambda>j. job_batch j = batch_id b \<and> job_active j \<and> pending j) (jobs L)"

definition first_pending_batch :: "(batch_row \<Rightarrow> bool) \<Rightarrow> ledger \<Rightarrow> batch_row option" where
  "first_pending_batch P L =
     (case order_by (\<lambda>b. (batch_position b, batch_id b))
         (filter (\<lambda>b. batch_active b \<and> P b \<and> has_pending L b) (batches L)) of
        [] \<Rightarrow> None | b # _ \<Rightarrow> Some b)"

definition start_next_body ::
  "string \<Rightarrow> bool \<Rightarrow> bool \<Rightarrow> rat \<Rightarrow> string \<Rightarrow> ledger \<Rightarrow> (execution_block option \<times> ledger) result" where
  "start_next_body admission scheduled reentry now actor L =
     (let st = cstate L
      in if \<not> armed st \<or> paused st then Inr (None, L)
         else if active_batch_id st \<noteq> None then Inr (Some (execution_block L), L)
         else if lookahead_batch_id st \<noteq> None
         then Inl (CoordinatorError ''look-ahead admission exists without a primary block'')
         else if scheduled \<and> \<not> reentry \<and> last_schedule_admission_id st = Some admission
         then Inr (None, L)
         else
           case first_pending_batch (\<lambda>b. True) L of
             None \<Rightarrow> Inr (None, L)
           | Some b \<Rightarrow>
               and_then (update_state (\<lambda>s. s\<lparr>active_batch_id := Some (batch_id b),
                   active_admission_id := Some admission,
                   last_schedule_admission_id :=
                     (if scheduled then Some admission else last_schedule_admission_id s)\<rparr>) L) (\<lambda>L.
               and_then (log_event ''batch.admitted'' now actor (Some (batch_id b)) None
                 (Some (batch_plan b))
                 (JObj [(''admission_id'', JStr admission), (''scheduled'', JBool scheduled)]) L) (\<lambda>L.
               Inr (Some (execution_block L), L))))"

definition start_next_block ::
  "string \<Rightarrow> bool \<Rightarrow> bool \<Rightarrow> rat \<Rightarrow> string \<Rightarrow> ledger \<Rightarrow> execution_block option result \<times> ledger" where
  "start_next_block admission_id scheduled reentry now actor L =
     (case text_field (JStr admission_id) ''block admission id'' of
        Inl e \<Rightarrow> (Inl e, L)
      | Inr admission \<Rightarrow> transaction (start_next_body admission scheduled reentry now actor) L)"

definition live_active_count :: "ledger \<Rightarrow> int" where
  "live_active_count L = int (length (filter (\<lambda>j. job_active j \<and> job_live j) (jobs L)))"

definition admit_lookahead_body ::
  "string \<Rightarrow> int \<Rightarrow> string \<Rightarrow> rat \<Rightarrow> ledger \<Rightarrow> (execution_block option \<times> ledger) result" where
  "admit_lookahead_body admission idle_threshold actor now L =
     (let st = cstate L
      in if \<not> armed st \<or> paused st then Inr (None, L)
         else case active_batch_id st of
           None \<Rightarrow> Inr (None, L)
         | Some primary_id \<Rightarrow>
             if lookahead_batch_id st \<noteq> None then Inr (Some (execution_block L), L)
             else if list_ex (\<lambda>j. job_batch j = primary_id \<and> job_active j \<and> job_state j = Queued) (jobs L)
             then Inr (None, L)
             else
               let idle_slots = max_workers st - live_active_count L
               in if idle_slots < idle_threshold then Inr (None, L)
                  else case find (\<lambda>b. batch_id b = primary_id \<and> batch_active b) (batches L) of
                    None \<Rightarrow> Inl (CoordinatorError ''primary admission is not an active batch'')
                  | Some primary \<Rightarrow>
                      (case first_pending_batch (\<lambda>b. batch_position b > batch_position primary) L of
                         None \<Rightarrow> Inr (None, L)
                       | Some successor \<Rightarrow>
                           and_then (update_state (\<lambda>s. s\<lparr>lookahead_batch_id := Some (batch_id successor),
                             lookahead_admission_id := Some admission\<rparr>) L) (\<lambda>L.
                           and_then (log_event ''batch.lookahead-admitted'' now actor
                             (Some (batch_id successor)) None (Some (batch_plan successor))
                             (JObj [(''admission_id'', JStr admission),
                                    (''primary_batch_id'', JStr primary_id),
                                    (''idle_slots'', JInt idle_slots),
                                    (''minimum_idle_slots'', JInt idle_threshold)]) L) (\<lambda>L.
                           Inr (Some (execution_block L), L)))))"

definition admit_lookahead_block ::
  "string \<Rightarrow> int \<Rightarrow> string \<Rightarrow> rat \<Rightarrow> ledger \<Rightarrow> execution_block option result \<times> ledger" where
  "admit_lookahead_block admission_id minimum_idle_slots actor now L =
     (case and_then (text_field (JStr admission_id) ''look-ahead admission id'') (\<lambda>admission.
             and_then (positive_integer (JInt minimum_idle_slots) ''minimum idle slots'') (\<lambda>idle.
             Inr (admission, idle))) of
        Inl e \<Rightarrow> (Inl e, L)
      | Inr (admission, idle) \<Rightarrow> transaction (admit_lookahead_body admission idle actor now) L)"

section \<open>Closing the primary block\<close>

definition plan_of_batch :: "ledger \<Rightarrow> string \<Rightarrow> string option" where
  "plan_of_batch L b = map_option batch_plan (find (\<lambda>r. batch_id r = b) (batches L))"

definition finish_block_body :: "rat \<Rightarrow> string \<Rightarrow> ledger \<Rightarrow> (bool \<times> ledger) result" where
  "finish_block_body now actor L =
     (let st = cstate L
      in case active_batch_id st of
           None \<Rightarrow> Inr (False, L)
         | Some b \<Rightarrow>
             if list_ex (\<lambda>j. job_batch j = b \<and> pending j) (active_jobs L) then Inr (False, L)
             else
               and_then (update_state (\<lambda>s. s\<lparr>active_batch_id := lookahead_batch_id s,
                   active_admission_id := lookahead_admission_id s,
                   lookahead_batch_id := None, lookahead_admission_id := None\<rparr>) L) (\<lambda>L.
               and_then (log_event ''batch.drained'' now actor (Some b) None (plan_of_batch L b)
                 (JObj [(''admission_id'', JStr (str_of (active_admission_id st)))]) L) (\<lambda>L.
               and_then (case lookahead_batch_id st of
                   None \<Rightarrow> Inr L
                 | Some lookahead \<Rightarrow>
                     (case plan_of_batch L lookahead of
                        None \<Rightarrow> Inl (TypeError ''NoneType object is not subscriptable'')
                      | Some promoted \<Rightarrow>
                          log_event ''batch.lookahead-promoted'' now actor (Some lookahead) None
                            (Some promoted)
                            (JObj [(''admission_id'', JStr (str_of (lookahead_admission_id st))),
                                   (''drained_primary_batch_id'', JStr b)]) L)) (\<lambda>L.
               Inr (True, L)))))"

definition finish_active_block_if_drained ::
  "rat \<Rightarrow> string \<Rightarrow> ledger \<Rightarrow> bool result \<times> ledger" where
  "finish_active_block_if_drained now actor = transaction (finish_block_body now actor)"

section \<open>Laws\<close>

text \<open>What the admissions held by the ledger satisfy: an id with each admission, a look-ahead
  only beside a primary block and for another batch.\<close>

definition admission_ok :: "ledger \<Rightarrow> bool" where
  "admission_ok L =
     (let st = cstate L
      in (active_batch_id st = None \<longleftrightarrow> active_admission_id st = None)
         \<and> (lookahead_batch_id st = None \<longleftrightarrow> lookahead_admission_id st = None)
         \<and> (lookahead_batch_id st \<noteq> None \<longrightarrow>
              active_batch_id st \<noteq> None \<and> lookahead_batch_id st \<noteq> active_batch_id st))"

text \<open>Only the state row and the events change.\<close>

definition only_state :: "ledger \<Rightarrow> ledger \<Rightarrow> bool" where
  "only_state L L' \<longleftrightarrow>
     plans L' = plans L \<and> batches L' = batches L \<and> cells L' = cells L \<and> jobs L' = jobs L
     \<and> quarantines L' = quarantines L \<and> attempts L' = attempts L \<and> workers L' = workers L
     \<and> spans L' = spans L"

lemma only_state_refl [simp]: "only_state L L"
  by (simp add: only_state_def)

lemma only_state_trans: "only_state L M \<Longrightarrow> only_state M N \<Longrightarrow> only_state L N"
  by (simp add: only_state_def)

lemma only_state_update: "update_state f L = Inr L' \<Longrightarrow> only_state L L' \<and> cstate L' = f (cstate L)"
  by (auto simp: only_state_def update_state_def put_state_def split: if_splits)

lemma only_state_logged: "logged L L' \<Longrightarrow> only_state L L' \<and> cstate L' = cstate L"
  by (auto simp: only_state_def logged_def)

lemma only_stateD:
  assumes "only_state L L'"
  shows "plans L' = plans L" "batches L' = batches L" "cells L' = cells L" "jobs L' = jobs L"
    "quarantines L' = quarantines L" "attempts L' = attempts L" "workers L' = workers L"
    "spans L' = spans L"
  using assms by (simp_all add: only_state_def)

lemma only_state_coherent: "only_state L L' \<Longrightarrow> lease_coherent L' = lease_coherent L"
  by (rule coherent_cong) (auto dest: only_stateD)

text \<open>An admission step: the state row updated, then events.\<close>

definition state_step :: "(coordinator_state \<Rightarrow> coordinator_state) \<Rightarrow> ledger \<Rightarrow> ledger \<Rightarrow> bool" where
  "state_step f L L' \<longleftrightarrow> evolves L L' \<and> only_state L L' \<and> cstate L' = f (cstate L)"

lemma state_step_update: "update_state f L = Inr L' \<Longrightarrow> state_step f L L'"
  using only_state_update update_state_evolves by (simp add: state_step_def)

lemma state_step_logged: "state_step f L M \<Longrightarrow> logged M N \<Longrightarrow> state_step f L N"
  using only_state_logged [of M N] logged_evolves [of M N]
  by (auto simp: state_step_def intro: evolves_trans only_state_trans)

lemma state_step_coherent: "state_step f L L' \<Longrightarrow> lease_coherent L \<Longrightarrow> lease_coherent L'"
  using only_state_coherent [of L L'] by (simp add: state_step_def)

lemma active_jobs_cong:
  "jobs L' = jobs L \<Longrightarrow> batches L' = batches L \<Longrightarrow> active_jobs L' = active_jobs L"
  by (simp add: active_jobs_def jobs_with_batch_def)

lemma set_active_jobs:
  "j \<in> set (active_jobs L) \<longleftrightarrow>
     j \<in> set (jobs L) \<and> job_active j \<and> (\<exists>b\<in>set (batches L). batch_active b \<and> batch_id b = job_batch j)"
  by (force simp: active_jobs_def jobs_with_batch_def)

lemma first_pending_Some:
  assumes "first_pending_batch P L = Some b"
  shows "b \<in> set (batches L)" "batch_active b" "P b" "has_pending L b"
    "\<And>c. c \<in> set (batches L) \<Longrightarrow> batch_active c \<Longrightarrow> P c \<Longrightarrow> has_pending L c \<Longrightarrow>
       (batch_position b, batch_id b) \<le> (batch_position c, batch_id c)"
proof -
  let ?key = "\<lambda>b. (batch_position b, batch_id b)"
  let ?rows = "filter (\<lambda>b. batch_active b \<and> P b \<and> has_pending L b) (batches L)"
  from assms have hd: "?rows \<noteq> []" "b = hd (order_by ?key ?rows)"
    by (auto simp: first_pending_batch_def order_by_def split: list.splits)
  then have "b \<in> set (order_by ?key ?rows)" by (metis hd_in_set order_by_eq_Nil)
  then show "b \<in> set (batches L)" "batch_active b" "P b" "has_pending L b" by simp_all
  fix c assume "c \<in> set (batches L)" "batch_active c" "P c" "has_pending L c"
  then show "?key b \<le> ?key c" using hd_order_by_least [OF hd(1), of c ?key] hd(2) by simp
qed

lemma start_next_body_Inr:
  assumes run: "start_next_body admission scheduled reentry now actor L = Inr (r, L')"
  shows "L' = L \<or>
    (\<exists>b. armed (cstate L) \<and> \<not> paused (cstate L) \<and> active_batch_id (cstate L) = None
       \<and> lookahead_batch_id (cstate L) = None \<and> first_pending_batch (\<lambda>b. True) L = Some b
       \<and> state_step (\<lambda>s. s\<lparr>active_batch_id := Some (batch_id b), active_admission_id := Some admission,
            last_schedule_admission_id :=
              (if scheduled then Some admission else last_schedule_admission_id s)\<rparr>) L L'
       \<and> r = Some (execution_block L'))"
  using run unfolding start_next_body_def Let_def
  by (auto simp: results split: if_split_asm option.split_asm
      dest!: state_step_update loggedI intro: state_step_logged)

lemma admit_lookahead_body_Inr:
  assumes run: "admit_lookahead_body admission idle actor now L = Inr (r, L')"
  shows "L' = L \<or>
    (\<exists>primary b. armed (cstate L) \<and> \<not> paused (cstate L)
       \<and> active_batch_id (cstate L) = Some (batch_id primary) \<and> lookahead_batch_id (cstate L) = None
       \<and> primary \<in> set (batches L)
       \<and> (\<forall>j\<in>set (jobs L). job_batch j = batch_id primary \<longrightarrow> job_active j \<longrightarrow> job_state j \<noteq> Queued)
       \<and> idle \<le> max_workers (cstate L) - live_active_count L
       \<and> first_pending_batch (\<lambda>b. batch_position b > batch_position primary) L = Some b
       \<and> state_step (\<lambda>s. s\<lparr>lookahead_batch_id := Some (batch_id b),
            lookahead_admission_id := Some admission\<rparr>) L L'
       \<and> r = Some (execution_block L'))"
proof (cases "L' = L")
  case False
  with run obtain primary b M where
    p: "armed (cstate L)" "\<not> paused (cstate L)" "active_batch_id (cstate L) = Some (batch_id primary)"
      "lookahead_batch_id (cstate L) = None" "primary \<in> set (batches L)"
    and q: "\<not> list_ex (\<lambda>j. job_batch j = batch_id primary \<and> job_active j \<and> job_state j = Queued) (jobs L)"
      "idle \<le> max_workers (cstate L) - live_active_count L"
      "first_pending_batch (\<lambda>b. batch_position b > batch_position primary) L = Some b"
    and u: "update_state (\<lambda>s. s\<lparr>lookahead_batch_id := Some (batch_id b),
            lookahead_admission_id := Some admission\<rparr>) L = Inr M" and l: "logged M L'"
    and r: "r = Some (execution_block L')"
    unfolding admit_lookahead_body_def Let_def
    by (auto simp: results split: if_split_asm option.split_asm dest!: find_SomeD intro: loggedI)
  show ?thesis
    using p q r state_step_logged [OF state_step_update [OF u] l] by (auto simp: list_ex_iff)
qed simp

lemma finish_block_body_Inr:
  assumes run: "finish_block_body now actor L = Inr (r, L')"
  shows "(\<not> r \<and> L' = L) \<or>
    (r \<and> (\<exists>b. active_batch_id (cstate L) = Some b
            \<and> (\<forall>j\<in>set (active_jobs L). job_batch j = b \<longrightarrow> \<not> pending j))
       \<and> state_step (\<lambda>s. s\<lparr>active_batch_id := lookahead_batch_id s,
            active_admission_id := lookahead_admission_id s,
            lookahead_batch_id := None, lookahead_admission_id := None\<rparr>) L L')"
proof (cases r)
  case True
  with run obtain b where b: "active_batch_id (cstate L) = Some b"
      "\<not> list_ex (\<lambda>j. job_batch j = b \<and> pending j) (active_jobs L)"
    by (auto simp: finish_block_body_def Let_def split: if_split_asm option.split_asm)
  obtain M N where u: "update_state (\<lambda>s. s\<lparr>active_batch_id := lookahead_batch_id s,
            active_admission_id := lookahead_admission_id s,
            lookahead_batch_id := None, lookahead_admission_id := None\<rparr>) L = Inr M"
    and l1: "logged M N"
    and k: "(case lookahead_batch_id (cstate L) of None \<Rightarrow> Inr N
                 | Some lookahead \<Rightarrow>
                     (case plan_of_batch N lookahead of
                        None \<Rightarrow> Inl (TypeError ''NoneType object is not subscriptable'')
                      | Some promoted \<Rightarrow>
                          log_event ''batch.lookahead-promoted'' now actor (Some lookahead) None
                            (Some promoted)
                            (JObj [(''admission_id'', JStr (str_of (lookahead_admission_id (cstate L)))),
                                   (''drained_primary_batch_id'', JStr b)]) N)) = Inr L'"
    by (insert run [unfolded finish_block_body_def Let_def b option.case if_not_P [OF b(2)]],
        elim ledger_run, clarify, rule that, assumption+)
  have l2: "L' = N \<or> logged N L'" using k by (auto split: option.split_asm intro: loggedI)
  from state_step_logged [OF state_step_update [OF u] l1] l2
  have "state_step (\<lambda>s. s\<lparr>active_batch_id := lookahead_batch_id s,
            active_admission_id := lookahead_admission_id s,
            lookahead_batch_id := None, lookahead_admission_id := None\<rparr>) L L'"
    by (auto intro: state_step_logged)
  then show ?thesis using True b by (auto simp: list_ex_iff)
next
  case False
  then show ?thesis using run
    by (auto simp: finish_block_body_def Let_def results split: if_split_asm option.split_asm)
qed

text \<open>The three operations keep the ledger's invariant and the shape of its admissions.\<close>

lemma state_step_contract:
  "state_step f L L' \<Longrightarrow> lease_coherent L \<Longrightarrow> evolves L L' \<and> lease_coherent L'"
  using state_step_coherent by (auto simp: state_step_def)

interpretation start_op: ledger_operation "start_next_body admission scheduled reentry now actor"
  for admission scheduled reentry now actor
  by unfold_locales (use start_next_body_Inr state_step_contract ledger_invD evolves_refl in blast)+

interpretation lookahead_op: ledger_operation "admit_lookahead_body admission idle actor now"
  for admission idle actor now
  by unfold_locales (use admit_lookahead_body_Inr state_step_contract ledger_invD evolves_refl in blast)+

interpretation finish_op: ledger_operation "finish_block_body now actor" for now actor
  by unfold_locales (use finish_block_body_Inr state_step_contract ledger_invD evolves_refl in blast)+

lemma start_next_admission:
  assumes "start_next_body admission scheduled reentry now actor L = Inr (r, L')" and "admission_ok L"
  shows "admission_ok L'"
  using start_next_body_Inr [OF assms(1)] assms(2)
  by (auto simp: admission_ok_def state_step_def Let_def)

lemma admit_lookahead_admission:
  assumes run: "admit_lookahead_body admission idle actor now L = Inr (r, L')"
    and adm: "admission_ok L" and ok: "schema_ok L"
  shows "admission_ok L'"
proof (cases "L' = L")
  case False
  with admit_lookahead_body_Inr [OF run] obtain primary b where
    p: "active_batch_id (cstate L) = Some (batch_id primary)" "primary \<in> set (batches L)"
    and b: "first_pending_batch (\<lambda>b. batch_position b > batch_position primary) L = Some b"
    and s: "state_step (\<lambda>s. s\<lparr>lookahead_batch_id := Some (batch_id b),
            lookahead_admission_id := Some admission\<rparr>) L L'"
    by blast
  have "distinct (map batch_id (batches L))" using ok by (simp add: schema_ok_def batches_ok_def)
  from distinct_map_inj [OF this first_pending_Some(1) [OF b] p(2)] first_pending_Some(3) [OF b]
  have "batch_id b \<noteq> batch_id primary" by auto
  then show ?thesis using adm p s by (auto simp: admission_ok_def state_step_def Let_def)
qed (use adm in simp)

lemma finish_block_admission:
  assumes "finish_block_body now actor L = Inr (r, L')" and "admission_ok L"
  shows "admission_ok L'"
  using finish_block_body_Inr [OF assms(1)] assms(2)
  by (auto simp: admission_ok_def state_step_def Let_def)

text \<open>What blocks admission for good: a look-ahead without a primary.\<close>

lemma orphan_lookahead_stuck:
  assumes "armed (cstate L)" "\<not> paused (cstate L)" "active_batch_id (cstate L) = None"
    "lookahead_batch_id (cstate L) \<noteq> None"
  shows "transaction (start_next_body admission scheduled reentry now actor) L =
      (Inl (CoordinatorError ''look-ahead admission exists without a primary block''), L)"
    and "admit_lookahead_body admission idle actor now L = Inr (None, L)"
    and "finish_block_body now actor L = Inr (False, L)"
  using assms
  by (simp_all add: transaction_def start_next_body_def admit_lookahead_body_def finish_block_body_def Let_def)

end
