(* ===== verification/Recovery.thy ===== *)
theory Recovery
  imports Admission
begin

text \<open>
  The operator's recovery transitions in src/fidb_poc/coordinator.py: quarantining an exact
  set of pathological jobs and releasing it, requeueing the failed jobs of a batch, fencing
  and requeueing the jobs of stopped workers, pausing and resuming.  All but the last two
  require a paused, disarmed queue and an exact expected count.  The SHA-256 over the job ids
  (each followed by a newline) is the argument \<open>ids_sha256\<close>; nothing is assumed of it.
\<close>

section \<open>Shared guards\<close>

text \<open>\<open>job_id.encode("ascii")\<close>.\<close>

definition ascii_id :: "string \<Rightarrow> unit result" where
  "ascii_id jid = require (list_all (\<lambda>c. (of_char c :: nat) < 128) jid)
     (ValueError ''ascii codec: ordinal not in range(128)'')"

definition live_jobs :: "ledger \<Rightarrow> job_row list" where
  "live_jobs L = filter job_live (jobs L)"

definition other_admission :: "ledger \<Rightarrow> string \<Rightarrow> bool" where
  "other_admission L batch =
     (case active_batch_id (cstate L) of None \<Rightarrow> False | Some b \<Rightarrow> b \<noteq> batch)"

definition active_batch_row :: "string \<Rightarrow> ledger \<Rightarrow> batch_row result" where
  "active_batch_row batch L =
     (case find (\<lambda>b. batch_id b = batch \<and> batch_active b) (batches L) of
        None \<Rightarrow> Inl (CoordinatorError (''unknown active batch: '' @ batch))
      | Some b \<Rightarrow> Inr b)"

definition job_order :: "job_row \<Rightarrow> int \<times> string" where
  "job_order j = (job_position j, job_id j)"

section \<open>Quarantine\<close>

definition OPERATOR_QUARANTINE :: string where
  "OPERATOR_QUARANTINE = ''pathological:operator-quarantine''"

definition actively_quarantined :: "string \<Rightarrow> ledger \<Rightarrow> bool" where
  "actively_quarantined jid L = list_ex (\<lambda>q. q_job q = jid \<and> q_state q = QActive) (quarantines L)"

text \<open>One iteration of the loop over the selected rows.\<close>

definition quarantine_selected ::
  "string \<Rightarrow> string \<Rightarrow> string \<Rightarrow> rat \<Rightarrow> job_row \<Rightarrow> ledger \<Rightarrow> ledger result" where
  "quarantine_selected batch reason actor now row L =
     and_then (require (\<not> actively_quarantined (job_id row) L)
       (CoordinatorError (''job is already quarantined: '' @ job_id row))) (\<lambda>_.
     and_then (ascii_id (job_id row)) (\<lambda>_.
     and_then (if job_state row = Queued
               then update_jobs (\<lambda>j. job_id j = job_id row \<and> job_state j = Queued)
                 (\<lambda>j. j\<lparr>job_state := Failed, job_error := Some reason,
                        failure_class := Some OPERATOR_QUARANTINE, job_updated_at := timestamp now\<rparr>) L
               else Inr L) (\<lambda>L.
     and_then (put_quarantines (quarantines L @
       [\<lparr>quarantine_id = next_rowid quarantine_id (quarantines L), q_job = job_id row, q_batch = batch,
         q_state = QActive, q_reason = reason, q_failure_class = OPERATOR_QUARANTINE,
         q_attempt_count = attempt_count row, q_created_at = timestamp now, q_released_at = None,
         q_release_reason = None\<rparr>]) L) (\<lambda>L.
     log_event ''job.pathological-quarantined'' now actor (Some batch) (Some (job_id row))
       (Some (job_plan row))
       (JObj [(''reason'', JStr reason), (''previous_state'', JStr (job_state_name (job_state row))),
              (''previous_error'', opt_str (job_error row)),
              (''attempt_evidence_preserved'', JBool True)]) L))))"

definition quarantine_selection :: "string \<Rightarrow> string list \<Rightarrow> ledger \<Rightarrow> job_row list" where
  "quarantine_selection batch ids L =
     order_by job_order (filter (\<lambda>j. job_batch j = batch \<and> job_active j \<and> job_id j \<in> set ids) (jobs L))"

definition quarantine_body ::
  "(string list \<Rightarrow> string) \<Rightarrow> string \<Rightarrow> string list \<Rightarrow> int \<Rightarrow> string \<Rightarrow> string \<Rightarrow> rat \<Rightarrow> ledger
   \<Rightarrow> (json \<times> ledger) result" where
  "quarantine_body ids_sha256 batch ids count reason actor now L =
     and_then (require (\<not> armed (cstate L) \<and> paused (cstate L))
       (CoordinatorError ''pathological quarantine requires a paused, disarmed queue'')) (\<lambda>_.
     and_then (require (\<not> other_admission L batch)
       (CoordinatorError ''pathological quarantine cannot cross an active admission'')) (\<lambda>_.
     and_then (require (live_jobs L = [])
       (CoordinatorError ''pathological quarantine requires no live leases'')) (\<lambda>_.
     let rows = quarantine_selection batch ids L
     in and_then (require (int (length rows) = count
            \<and> list_all (\<lambda>j. job_state j = Queued \<or> job_state j = Failed) rows)
          (CoordinatorError ''quarantine selection changed or contains a live/complete job'')) (\<lambda>_.
        and_then (fold_result (quarantine_selected batch reason actor now) rows L) (\<lambda>L.
        let summary = JObj [(''batch_id'', JStr batch), (''quarantined'', JInt count),
              (''job_ids_sha256'', JStr (ids_sha256 (map job_id rows))), (''reason'', JStr reason),
              (''attempt_evidence_preserved'', JBool True)]
        in and_then (log_event ''batch.pathological-jobs-quarantined'' now actor (Some batch) None
             (Some (job_plan (hd rows))) summary L) (\<lambda>L.
           Inr (summary, L)))))))"

definition quarantine_pathological_jobs ::
  "(string list \<Rightarrow> string) \<Rightarrow> string \<Rightarrow> string list \<Rightarrow> int \<Rightarrow> string \<Rightarrow> string \<Rightarrow> rat \<Rightarrow> ledger
   \<Rightarrow> json result \<times> ledger" where
  "quarantine_pathological_jobs ids_sha256 batch_arg job_ids expected_count reason_arg actor now L =
     (case and_then (identifier_field (JStr batch_arg) ''quarantine batch id'') (\<lambda>batch.
           and_then (positive_integer (JInt expected_count) ''quarantine expected count'') (\<lambda>count.
           and_then (text_field (JStr reason_arg) ''quarantine reason'') (\<lambda>reason.
           and_then (map_result (\<lambda>v. identifier_field (JStr v) ''quarantine job id'') job_ids) (\<lambda>ids.
           and_then (require (int (length ids) = count \<and> distinct ids)
             (CoordinatorError ''quarantine job ids must be unique and match expected count'')) (\<lambda>_.
           Inr (batch, ids, count, reason)))))) of
        Inl e \<Rightarrow> (Inl e, L)
      | Inr (batch, ids, count, reason) \<Rightarrow>
          transaction (quarantine_body ids_sha256 batch ids count reason actor now) L)"

section \<open>Release\<close>

text \<open>\<open>quarantines JOIN jobs\<close>: the active quarantines of the batch, each with its job's plan.\<close>

definition active_quarantines_of :: "string \<Rightarrow> ledger \<Rightarrow> (quarantine_row \<times> string) list" where
  "active_quarantines_of batch L =
     order_by (\<lambda>(q, p). quarantine_id q)
       (concat (map (\<lambda>q. map (\<lambda>j. (q, job_plan j)) (filter (\<lambda>j. job_id j = q_job q) (jobs L)))
          (filter (\<lambda>q. q_batch q = batch \<and> q_state q = QActive) (quarantines L))))"

definition release_one ::
  "string \<Rightarrow> string \<Rightarrow> string \<Rightarrow> rat \<Rightarrow> quarantine_row \<times> string \<Rightarrow> ledger \<Rightarrow> ledger result" where
  "release_one batch reason actor now = (\<lambda>(q, plan) L.
     and_then (ascii_id (q_job q)) (\<lambda>_.
     and_then (update_quarantines (\<lambda>r. quarantine_id r = quarantine_id q \<and> q_state r = QActive)
       (\<lambda>r. r\<lparr>q_state := QReleased, q_released_at := Some (timestamp now),
              q_release_reason := Some reason\<rparr>) L) (\<lambda>L.
     and_then (update_jobs (\<lambda>j. job_id j = q_job q \<and> job_state j = Failed)
       (\<lambda>j. j\<lparr>job_state := Queued, eligible_at := 0, job_error := None, failure_class := None,
              job_updated_at := timestamp now\<rparr>) L) (\<lambda>L.
     log_event ''job.pathological-quarantine-released'' now actor (Some batch) (Some (q_job q))
       (Some plan)
       (JObj [(''reason'', JStr reason), (''attempt_evidence_preserved'', JBool True)]) L))))"

definition release_body ::
  "(string list \<Rightarrow> string) \<Rightarrow> string \<Rightarrow> int \<Rightarrow> string \<Rightarrow> string \<Rightarrow> rat \<Rightarrow> ledger \<Rightarrow> (json \<times> ledger) result" where
  "release_body ids_sha256 batch count reason actor now L =
     and_then (require (\<not> armed (cstate L) \<and> paused (cstate L))
       (CoordinatorError ''quarantine release requires a paused, disarmed queue'')) (\<lambda>_.
     and_then (require (live_jobs L = [])
       (CoordinatorError ''quarantine release requires no live leases'')) (\<lambda>_.
     let rows = active_quarantines_of batch L
     in and_then (require (int (length rows) = count)
          (CoordinatorError ''quarantine release count mismatch'')) (\<lambda>_.
        and_then (fold_result (release_one batch reason actor now) rows L) (\<lambda>L.
        Inr (JObj [(''batch_id'', JStr batch), (''released'', JInt count),
               (''job_ids_sha256'', JStr (ids_sha256 (map (\<lambda>(q, p). q_job q) rows))),
               (''reason'', JStr reason), (''attempt_evidence_preserved'', JBool True)], L)))))"

definition release_pathological_quarantine ::
  "(string list \<Rightarrow> string) \<Rightarrow> string \<Rightarrow> int \<Rightarrow> string \<Rightarrow> string \<Rightarrow> rat \<Rightarrow> ledger \<Rightarrow> json result \<times> ledger" where
  "release_pathological_quarantine ids_sha256 batch_arg expected_count reason_arg actor now L =
     (case and_then (identifier_field (JStr batch_arg) ''quarantine batch id'') (\<lambda>batch.
           and_then (positive_integer (JInt expected_count) ''quarantine expected count'') (\<lambda>count.
           and_then (text_field (JStr reason_arg) ''quarantine release reason'') (\<lambda>reason.
           Inr (batch, count, reason)))) of
        Inl e \<Rightarrow> (Inl e, L)
      | Inr (batch, count, reason) \<Rightarrow> transaction (release_body ids_sha256 batch count reason actor now) L)"

section \<open>Requeueing failed jobs\<close>

definition requeue_failed_one ::
  "string \<Rightarrow> string \<Rightarrow> string \<Rightarrow> rat \<Rightarrow> job_row \<Rightarrow> ledger \<Rightarrow> ledger result" where
  "requeue_failed_one batch reason actor now row L =
     and_then (ascii_id (job_id row)) (\<lambda>_.
     and_then (update_jobs (\<lambda>j. job_id j = job_id row \<and> job_state j = Failed \<and> job_active j)
       (\<lambda>j. j\<lparr>job_state := Queued, eligible_at := 0, job_error := None, failure_class := None,
              job_updated_at := timestamp now\<rparr>) L) (\<lambda>L.
     log_event ''job.operator-requeued'' now actor (Some batch) (Some (job_id row))
       (Some (job_plan row))
       (JObj [(''reason'', JStr reason), (''attempt_count'', JInt (attempt_count row)),
              (''previous_error'', opt_str (job_error row)),
              (''previous_failure_class'', opt_str (failure_class row))]) L))"

definition requeue_failed_body ::
  "(string list \<Rightarrow> string) \<Rightarrow> string \<Rightarrow> int \<Rightarrow> string \<Rightarrow> string \<Rightarrow> rat \<Rightarrow> ledger \<Rightarrow> (json \<times> ledger) result" where
  "requeue_failed_body ids_sha256 batch count reason actor now L =
     and_then (require (\<not> armed (cstate L))
       (CoordinatorError ''failed-job recovery requires a disarmed queue'')) (\<lambda>_.
     and_then (require (paused (cstate L))
       (CoordinatorError ''failed-job recovery requires a paused queue'')) (\<lambda>_.
     and_then (require (\<not> other_admission L batch)
       (CoordinatorError ''failed-job recovery cannot cross an active batch admission'')) (\<lambda>_.
     and_then (require (live_jobs L = [])
       (CoordinatorError ''failed-job recovery requires all leases to be terminal'')) (\<lambda>_.
     and_then (active_batch_row batch L) (\<lambda>b.
     let rows = order_by job_order
           (filter (\<lambda>j. job_batch j = batch \<and> job_active j \<and> job_state j = Failed) (jobs L))
     in and_then (require (int (length rows) = count)
          (CoordinatorError (''failed-job recovery count mismatch for '' @ batch))) (\<lambda>_.
        and_then (fold_result (requeue_failed_one batch reason actor now) rows L) (\<lambda>L.
        let summary = JObj [(''batch_id'', JStr batch), (''requeued'', JInt (int (length rows))),
              (''job_ids_sha256'', JStr (ids_sha256 (map job_id rows))), (''reason'', JStr reason),
              (''attempt_evidence_preserved'', JBool True)]
        in and_then (log_event ''batch.failed-jobs-requeued'' now actor (Some batch) None
             (Some (batch_plan b)) summary L) (\<lambda>L.
           Inr (summary, L)))))))))"

definition requeue_failed_batch ::
  "(string list \<Rightarrow> string) \<Rightarrow> string \<Rightarrow> int \<Rightarrow> string \<Rightarrow> string \<Rightarrow> rat \<Rightarrow> ledger \<Rightarrow> json result \<times> ledger" where
  "requeue_failed_batch ids_sha256 batch_arg expected_count reason_arg actor now L =
     (case and_then (identifier_field (JStr batch_arg) ''requeue batch id'') (\<lambda>batch.
           and_then (positive_integer (JInt expected_count) ''requeue expected count'') (\<lambda>count.
           and_then (text_field (JStr reason_arg) ''requeue reason'') (\<lambda>reason.
           Inr (batch, count, reason)))) of
        Inl e \<Rightarrow> (Inl e, L)
      | Inr (batch, count, reason) \<Rightarrow>
          transaction (requeue_failed_body ids_sha256 batch count reason actor now) L)"

section \<open>Requeueing the jobs of stopped workers\<close>

definition requeue_interrupted_one ::
  "string \<Rightarrow> string \<Rightarrow> string \<Rightarrow> rat \<Rightarrow> job_row \<Rightarrow> ledger \<Rightarrow> ledger result" where
  "requeue_interrupted_one batch reason actor now row L =
     (let interruption = ''operator interrupted: '' @ reason
      in and_then (ascii_id (job_id row)) (\<lambda>_.
         and_then (close_open_stage_attempts_locked row now interruption actor L) (\<lambda>L.
         and_then (update_attempts
           (\<lambda>a. attempt_job a = job_id row \<and> attempt_generation a = lease_generation row \<and> attempt_live a)
           (\<lambda>a. a\<lparr>attempt_state := AFailed, attempt_ended_at := Some (timestamp now),
                  attempt_error := Some interruption\<rparr>) L) (\<lambda>L.
         and_then (update_jobs
           (\<lambda>j. job_id j = job_id row \<and> lease_generation j = lease_generation row \<and> job_live j)
           (\<lambda>j. j\<lparr>job_state := Queued, lease_token := None, leased_by := None,
                  lease_expires_at := None, current_stage := None, job_error := None,
                  failure_class := None, eligible_at := 0, job_updated_at := timestamp now\<rparr>) L) (\<lambda>L.
         log_event ''job.operator-interrupted-requeued'' now actor (Some batch) (Some (job_id row))
           (Some (job_plan row))
           (JObj [(''reason'', JStr reason), (''attempt_count'', JInt (attempt_count row)),
                  (''interrupted_generation'', JInt (lease_generation row)),
                  (''interrupted_worker'', JStr (str_of (leased_by row)))]) L)))))"

definition requeue_interrupted_body ::
  "(string list \<Rightarrow> string) \<Rightarrow> string \<Rightarrow> int \<Rightarrow> string \<Rightarrow> string \<Rightarrow> rat \<Rightarrow> ledger \<Rightarrow> (json \<times> ledger) result" where
  "requeue_interrupted_body ids_sha256 batch count reason actor now L =
     and_then (require (\<not> armed (cstate L))
       (CoordinatorError ''interrupted-job recovery requires a disarmed queue'')) (\<lambda>_.
     and_then (require (paused (cstate L))
       (CoordinatorError ''interrupted-job recovery requires a paused queue'')) (\<lambda>_.
     and_then (require (\<not> other_admission L batch)
       (CoordinatorError ''interrupted-job recovery cannot cross an active batch admission'')) (\<lambda>_.
     let all_live = order_by (\<lambda>j. (job_batch j, job_position j, job_id j)) (live_jobs L);
         rows = filter (\<lambda>j. job_batch j = batch) all_live
     in and_then (require (int (length rows) = count \<and> int (length all_live) = count)
          (CoordinatorError (''interrupted-job recovery count mismatch for '' @ batch))) (\<lambda>_.
        and_then (active_batch_row batch L) (\<lambda>b.
        and_then (fold_result (requeue_interrupted_one batch reason actor now) rows L) (\<lambda>L.
        let summary = JObj [(''batch_id'', JStr batch), (''requeued'', JInt (int (length rows))),
              (''job_ids_sha256'', JStr (ids_sha256 (map job_id rows))), (''reason'', JStr reason),
              (''attempt_evidence_preserved'', JBool True), (''stale_workers_fenced'', JBool True)]
        in and_then (log_event ''batch.interrupted-jobs-requeued'' now actor (Some batch) None
             (Some (batch_plan b)) summary L) (\<lambda>L.
           Inr (summary, L))))))))"

definition requeue_interrupted_batch ::
  "(string list \<Rightarrow> string) \<Rightarrow> string \<Rightarrow> int \<Rightarrow> string \<Rightarrow> string \<Rightarrow> rat \<Rightarrow> ledger \<Rightarrow> json result \<times> ledger" where
  "requeue_interrupted_batch ids_sha256 batch_arg expected_count reason_arg actor now L =
     (case and_then (identifier_field (JStr batch_arg) ''interrupted batch id'') (\<lambda>batch.
           and_then (positive_integer (JInt expected_count) ''interrupted expected count'') (\<lambda>count.
           and_then (text_field (JStr reason_arg) ''interrupted reason'') (\<lambda>reason.
           Inr (batch, count, reason)))) of
        Inl e \<Rightarrow> (Inl e, L)
      | Inr (batch, count, reason) \<Rightarrow>
          transaction (requeue_interrupted_body ids_sha256 batch count reason actor now) L)"

section \<open>Pause and resume\<close>

definition pause_body :: "string \<Rightarrow> string \<Rightarrow> rat \<Rightarrow> ledger \<Rightarrow> (unit \<times> ledger) result" where
  "pause_body reason actor now L =
     (if \<not> paused (cstate L)
      then and_then (update_state (\<lambda>s. s\<lparr>paused := True\<rparr>) L) (\<lambda>L.
           and_then (log_event ''queue.paused'' now actor None None None
             (JObj [(''reason'', JStr reason)]) L) (\<lambda>L. Inr ((), L)))
      else Inr ((), L))"

definition pause :: "string \<Rightarrow> string \<Rightarrow> rat \<Rightarrow> ledger \<Rightarrow> unit result \<times> ledger" where
  "pause reason_arg actor now L =
     (case text_field (JStr reason_arg) ''pause reason'' of
        Inl e \<Rightarrow> (Inl e, L)
      | Inr reason \<Rightarrow> transaction (pause_body reason actor now) L)"

definition resume_body :: "string \<Rightarrow> rat \<Rightarrow> ledger \<Rightarrow> (unit \<times> ledger) result" where
  "resume_body actor now L =
     (if paused (cstate L)
      then and_then (update_state (\<lambda>s. s\<lparr>paused := False\<rparr>) L) (\<lambda>L.
           and_then (log_event ''queue.resumed'' now actor None None None (JObj []) L) (\<lambda>L. Inr ((), L)))
      else Inr ((), L))"

definition resume :: "string \<Rightarrow> rat \<Rightarrow> ledger \<Rightarrow> unit result \<times> ledger" where
  "resume actor now = transaction (resume_body actor now)"

section \<open>Laws\<close>

text \<open>A change of a job row that leaves its lease as it was.\<close>

definition keeps_lease :: "job_row \<Rightarrow> job_row \<Rightarrow> bool" where
  "keeps_lease j j' \<longleftrightarrow>
     job_id j' = job_id j \<and> lease_generation j' = lease_generation j
     \<and> attempt_count j' = attempt_count j \<and> job_live j' = job_live j
     \<and> (job_live j \<longrightarrow> job_state j' = job_state j \<and> lease_token j' = lease_token j
          \<and> leased_by j' = leased_by j \<and> lease_expires_at j' = lease_expires_at j)"

lemma keeps_lease_refl [simp]: "keeps_lease j j"
  by (simp add: keeps_lease_def)

lemma keeps_lease_of: "keeps_lease j j' \<Longrightarrow> job_live j \<Longrightarrow> lease_of j a \<Longrightarrow> lease_of j' a"
  by (simp add: keeps_lease_def lease_of_def)

lemma keeps_attempt_of: "keeps_lease j j' \<Longrightarrow> attempt_of a j \<Longrightarrow> attempt_of a j'"
  by (auto simp: keeps_lease_def attempt_of_def)

text \<open>Such changes, and new jobs without a lease, keep the tables coherent.\<close>

lemma coherent_rows:
  assumes coh: "lease_coherent L"
    and old: "\<And>j. j \<in> set (jobs L) \<Longrightarrow> \<exists>j'\<in>set (jobs L'). keeps_lease j j'"
    and new: "\<And>j'. j' \<in> set (jobs L') \<Longrightarrow> job_live j' \<Longrightarrow> \<exists>j\<in>set (jobs L). keeps_lease j j'"
    and same: "attempts L' = attempts L" "spans L' = spans L"
  shows "lease_coherent L'"
proof -
  have A: "\<exists>a\<in>set (attempts L'). lease_of j a" if j: "j \<in> set (jobs L')" "job_live j" for j
  proof -
    from new [OF j] obtain i where i: "i \<in> set (jobs L)" "keeps_lease i j" by blast
    then have "job_live i" using j(2) by (simp add: keeps_lease_def)
    with coh i(1) obtain a where "a \<in> set (attempts L)" "lease_of i a"
      by (auto simp: lease_coherent_def)
    then show ?thesis using keeps_lease_of [OF i(2) \<open>job_live i\<close>] by (auto simp: same)
  qed
  have B: "\<exists>j\<in>set (jobs L'). attempt_of a j" if "a \<in> set (attempts L')" for a
  proof -
    from that coh obtain j where "j \<in> set (jobs L)" "attempt_of a j"
      by (auto simp: lease_coherent_def same)
    then show ?thesis using old keeps_attempt_of by blast
  qed
  show ?thesis using coh A B unfolding lease_coherent_def same by blast
qed

lemma coherent_update_jobs:
  assumes run: "update_jobs P f L = Inr L'" and coh: "lease_coherent L"
    and f: "\<And>j. j \<in> set (jobs L) \<Longrightarrow> P j \<Longrightarrow> keeps_lease j (f j)"
  shows "lease_coherent L'"
proof (rule coherent_rows [OF coh])
  have J: "jobs L' = map (\<lambda>j. if P j then f j else j) (jobs L)"
    and same: "attempts L' = attempts L" "spans L' = spans L"
    using run by (auto simp: update_jobs_def put_jobs_def update_where_def split: if_split_asm)
  show "\<exists>j'\<in>set (jobs L'). keeps_lease j j'" if "j \<in> set (jobs L)" for j
    using f [OF that] that by (intro bexI [of _ "if P j then f j else j"]) (auto simp: J)
  show "\<exists>j\<in>set (jobs L). keeps_lease j j'" if "j' \<in> set (jobs L')" for j'
  proof -
    from that obtain j where "j \<in> set (jobs L)" "j' = (if P j then f j else j)" by (auto simp: J)
    then show ?thesis using f [of j] by (intro bexI [of _ j]) auto
  qed
  show "attempts L' = attempts L" "spans L' = spans L" by (fact same)+
qed

lemma update_jobs_frame:
  assumes "update_jobs P f L = Inr L'"
  shows "cstate L' = cstate L" "batches L' = batches L" "cells L' = cells L"
    "quarantines L' = quarantines L" "attempts L' = attempts L" "spans L' = spans L"
    "jobs L' = update_where P f (jobs L)"
  using assms by (auto simp: update_jobs_def put_jobs_def split: if_split_asm)

lemma update_quarantines_frame:
  assumes "update_quarantines P f L = Inr L'"
  shows "cstate L' = cstate L" "jobs L' = jobs L" "attempts L' = attempts L" "spans L' = spans L"
    "quarantines L' = update_where P f (quarantines L)"
  using assms by (auto simp: update_quarantines_def put_quarantines_def split: if_split_asm)

lemma put_quarantines_frame:
  assumes "put_quarantines rows L = Inr L'"
  shows "cstate L' = cstate L" "jobs L' = jobs L" "attempts L' = attempts L" "spans L' = spans L"
    "quarantines L' = rows"
  using assms by (auto simp: put_quarantines_def split: if_split_asm)

text \<open>The contract of one iteration: the ledger evolves, stays coherent, and its attempts,
  spans and admissions are untouched.\<close>

definition recovers :: "ledger \<Rightarrow> ledger \<Rightarrow> bool" where
  "recovers L L' \<longleftrightarrow> evolves L L' \<and> (ledger_inv L \<longrightarrow> ledger_inv L') \<and> cstate L' = cstate L
     \<and> map job_id (jobs L') = map job_id (jobs L) \<and> map attempt_id (attempts L') = map attempt_id (attempts L)"

lemma recovers_refl: "recovers L L"
  by (simp add: recovers_def)

lemma recovers_trans: "recovers L M \<Longrightarrow> recovers M N \<Longrightarrow> recovers L N"
  by (auto simp: recovers_def intro: evolves_trans)

lemma recoversI:
  assumes "evolves L L'" and "lease_coherent L \<Longrightarrow> schema_ok L \<Longrightarrow> lease_coherent L'" and "cstate L' = cstate L"
    and "map job_id (jobs L') = map job_id (jobs L)" and "map attempt_id (attempts L') = map attempt_id (attempts L)"
  shows "recovers L L'"
  using assms evolves_schema [OF assms(1)] by (simp add: recovers_def ledger_inv_def)

lemma recovers_logged: "logged L L' \<Longrightarrow> recovers L L'"
  by (rule recoversI) (auto simp: logged_evolves logged_frame coherent_cong [of L' L])

lemma recovers_put_quarantines:
  assumes "put_quarantines (quarantines L @ [q]) L = Inr L'"
  shows "recovers L L'"
  using insert_quarantine_evolves [OF assms] put_quarantines_frame [OF assms]
  by (intro recoversI) (auto simp: coherent_cong [of L' L])

lemma recovers_update_quarantines:
  assumes "update_quarantines P f L = Inr L'"
    and "\<And>q. q \<in> set (quarantines L) \<Longrightarrow> P q \<Longrightarrow> quarantine_step q (f q)"
  shows "recovers L L'"
  using update_quarantines_evolves [OF assms] update_quarantines_frame [OF assms(1)]
  by (intro recoversI) (auto simp: coherent_cong [of L' L])

lemma recovers_update_jobs:
  assumes "update_jobs P f L = Inr L'"
    and "\<And>j. j \<in> set (jobs L) \<Longrightarrow> P j \<Longrightarrow> job_step j (f j) \<and> keeps_lease j (f j)"
  shows "recovers L L'"
proof (rule recoversI)
  show "evolves L L'" using update_jobs_evolves [OF assms(1)] assms(2) by blast
  show "lease_coherent L'" if "lease_coherent L"
    using coherent_update_jobs [OF assms(1) that] assms(2) by blast
  show "map job_id (jobs L') = map job_id (jobs L)"
    using assms(2) by (auto simp: update_jobs_frame [OF assms(1)] update_where_def keeps_lease_def)
qed (simp_all add: update_jobs_frame [OF assms(1)])

lemma quarantine_selected_recovers:
  assumes "quarantine_selected batch reason actor now row L = Inr L'"
  shows "recovers L L'"
proof -
  let ?P = "\<lambda>j. job_id j = job_id row \<and> job_state j = Queued"
  let ?f = "\<lambda>j. j\<lparr>job_state := Failed, job_error := Some reason,
       failure_class := Some OPERATOR_QUARANTINE, job_updated_at := timestamp now\<rparr>"
  obtain A B q where A: "(if job_state row = Queued then update_jobs ?P ?f L else Inr L) = Inr A"
    and B: "put_quarantines (quarantines A @ [q]) A = Inr B" and l: "logged B L'"
    by (insert assms [unfolded quarantine_selected_def], elim ledger_run, erule that, assumption, erule loggedI)
  have "recovers L A"
  proof (cases "job_state row = Queued")
    case True
    with A have "update_jobs ?P ?f L = Inr A" by simp
    then show ?thesis
      by (rule recovers_update_jobs) (auto simp: job_step_def keeps_lease_def job_live_def)
  qed (use A in \<open>simp add: recovers_refl\<close>)
  then show ?thesis using recovers_put_quarantines [OF B] recovers_logged [OF l] recovers_trans by blast
qed

lemma release_one_recovers:
  assumes "release_one batch reason actor now x L = Inr L'"
  shows "recovers L L'"
proof -
  obtain q p where x: "x = (q, p)" by fastforce
  obtain A B where A: "update_quarantines (\<lambda>r. quarantine_id r = quarantine_id q \<and> q_state r = QActive)
       (\<lambda>r. r\<lparr>q_state := QReleased, q_released_at := Some (timestamp now),
              q_release_reason := Some reason\<rparr>) L = Inr A"
    and B: "update_jobs (\<lambda>j. job_id j = q_job q \<and> job_state j = Failed)
       (\<lambda>j. j\<lparr>job_state := Queued, eligible_at := 0, job_error := None, failure_class := None,
              job_updated_at := timestamp now\<rparr>) A = Inr B" and l: "logged B L'"
    by (insert assms [unfolded release_one_def x prod.case], elim ledger_run, erule that, assumption, erule loggedI)
  have "recovers L A"
    using A by (rule recovers_update_quarantines) (auto simp: quarantine_step_def)
  moreover have "recovers A B"
    using B by (rule recovers_update_jobs) (auto simp: job_step_def keeps_lease_def job_live_def)
  ultimately show ?thesis using recovers_logged [OF l] recovers_trans by blast
qed

lemma requeue_failed_one_recovers:
  assumes "requeue_failed_one batch reason actor now row L = Inr L'"
  shows "recovers L L'"
proof -
  obtain A where A: "update_jobs (\<lambda>j. job_id j = job_id row \<and> job_state j = Failed \<and> job_active j)
       (\<lambda>j. j\<lparr>job_state := Queued, eligible_at := 0, job_error := None, failure_class := None,
              job_updated_at := timestamp now\<rparr>) L = Inr A" and l: "logged A L'"
    by (insert assms [unfolded requeue_failed_one_def], elim ledger_run, erule that, erule loggedI)
  have "recovers L A"
    using A by (rule recovers_update_jobs) (auto simp: job_step_def keeps_lease_def job_live_def)
  then show ?thesis using recovers_logged [OF l] recovers_trans by blast
qed

section \<open>Exactly which jobs each recovery moves\<close>

definition requeued_job :: "rat \<Rightarrow> job_row \<Rightarrow> job_row" where
  "requeued_job now j =
     j\<lparr>job_state := Queued, eligible_at := 0, job_error := None, failure_class := None,
       job_updated_at := timestamp now\<rparr>"

definition fenced_job :: "rat \<Rightarrow> job_row \<Rightarrow> job_row" where
  "fenced_job now j =
     j\<lparr>job_state := Queued, lease_token := None, leased_by := None, lease_expires_at := None,
       current_stage := None, job_error := None, failure_class := None, eligible_at := 0,
       job_updated_at := timestamp now\<rparr>"

lemma fenced_job_fields [simp]:
  "job_id (fenced_job now j) = job_id j" "lease_generation (fenced_job now j) = lease_generation j"
  "attempt_count (fenced_job now j) = attempt_count j" "\<not> job_live (fenced_job now j)"
  "job_id (requeued_job now j) = job_id j"
  by (simp_all add: fenced_job_def requeued_job_def job_live_def)

lemma fenced_job_step: "job_live j \<Longrightarrow> job_step j (fenced_job now j)"
  using live_not_final [of j] by (simp add: job_step_def fenced_job_def job_live_def)

lemma update_jobs_one:
  assumes "update_jobs P f L = Inr L'" and "schema_ok L" and "row \<in> set (jobs L)"
    and "\<And>j. P j \<Longrightarrow> job_id j = job_id row" and "P row"
  shows "jobs L' = map (\<lambda>j. if job_id j = job_id row then f j else j) (jobs L)"
  unfolding update_jobs_frame [OF assms(1)] by (rule update_one_job [OF assms(2,3)]; (rule assms(5) | erule assms(4)))

lemma requeue_failed_one_jobs:
  assumes run: "requeue_failed_one batch reason actor now row L = Inr L'" and inv: "ledger_inv L"
    and row: "row \<in> set (jobs L)" "job_state row = Failed" "job_active row"
  shows "jobs L' = map (\<lambda>j. if job_id j = job_id row then requeued_job now j else j) (jobs L)"
    "attempts L' = attempts L" "spans L' = spans L" "quarantines L' = quarantines L"
proof -
  obtain A where A: "update_jobs (\<lambda>j. job_id j = job_id row \<and> job_state j = Failed \<and> job_active j)
       (requeued_job now) L = Inr A" and l: "logged A L'"
    by (insert run [unfolded requeue_failed_one_def], elim ledger_run,
        erule that [unfolded requeued_job_def [abs_def]], erule loggedI)
  note fr = logged_frame [OF l] update_jobs_frame [OF A]
  show "attempts L' = attempts L" "spans L' = spans L" "quarantines L' = quarantines L"
    by (simp_all add: fr)
  show "jobs L' = map (\<lambda>j. if job_id j = job_id row then requeued_job now j else j) (jobs L)"
    unfolding logged_frame [OF l]
    by (rule update_jobs_one [OF A ledger_invD(1) [OF inv] row(1)]) (use row in auto)
qed

lemma recovers_inv: "recovers L L' \<Longrightarrow> ledger_inv L \<Longrightarrow> ledger_inv L'"
  by (simp add: recovers_def)

text \<open>The rows a loop works on are those of a filter, each of them once.\<close>

lemma selected_rows:
  assumes "schema_ok L"
  shows "distinct (map job_id (order_by key (filter P (jobs L))))"
    and "set (order_by key (filter P (jobs L))) = {j \<in> set (jobs L). P j}"
    and "j \<in> set (jobs L) \<Longrightarrow> job_id j \<in> job_id ` set (order_by key (filter P (jobs L))) \<longleftrightarrow> P j"
proof -
  show "distinct (map job_id (order_by key (filter P (jobs L))))"
    using schema_jobs_distinct [OF assms] by (simp add: distinct_map_filter)
  show set: "set (order_by key (filter P (jobs L))) = {j \<in> set (jobs L). P j}" by auto
  show "job_id j \<in> job_id ` set (order_by key (filter P (jobs L))) \<longleftrightarrow> P j" if "j \<in> set (jobs L)"
    using same_job [OF assms that] that unfolding set by blast
qed

lemma requeue_failed_body_Inr:
  assumes run: "requeue_failed_body ids_sha256 batch count reason actor now L = Inr (r, L')"
    and inv: "ledger_inv L"
  shows "recovers L L'" "attempts L' = attempts L" "spans L' = spans L" "quarantines L' = quarantines L"
    "jobs L' = map (\<lambda>j. if job_batch j = batch \<and> job_active j \<and> job_state j = Failed
                         then requeued_job now j else j) (jobs L)"
    "count = int (length (filter (\<lambda>j. job_batch j = batch \<and> job_active j \<and> job_state j = Failed) (jobs L)))"
    "\<not> armed (cstate L)" "paused (cstate L)"
proof -
  let ?P = "\<lambda>j. job_batch j = batch \<and> job_active j \<and> job_state j = Failed"
  let ?rs = "order_by job_order (filter ?P (jobs L))"
  let ?I = "\<lambda>M. recovers L M \<and> attempts M = attempts L \<and> spans M = spans L \<and> quarantines M = quarantines L"
  obtain A where n: "int (length ?rs) = count" and st: "\<not> armed (cstate L)" "paused (cstate L)"
    and A: "fold_result (requeue_failed_one batch reason actor now) ?rs L = Inr A" and l: "logged A L'"
    by (insert run [unfolded requeue_failed_body_def Let_def], elim ledger_run, rule that, assumption+)
  note sel = selected_rows [OF ledger_invD(1) [OF inv], where key = job_order and P = ?P]
  have "?I A \<and> jobs A = map (\<lambda>y. if job_id y \<in> job_id ` set ?rs then requeued_job now y else y) (jobs L)"
  proof (rule fold_result_rows [OF A, where I = ?I and T = jobs and key = job_id])
    show "?I L" by (simp add: recovers_refl)
    fix q M M' assume step: "requeue_failed_one batch reason actor now q M = Inr M'" and I: "?I M"
      and q: "q \<in> set (jobs M)" "q \<in> set ?rs"
    have "ledger_inv M" using I recovers_inv inv by blast
    with requeue_failed_one_jobs [OF step this q(1)] requeue_failed_one_recovers [OF step] I q(2)
    show "?I M' \<and> jobs M' = map (\<lambda>y. if job_id y = job_id q then requeued_job now y else y) (jobs M)"
      by (auto intro: recovers_trans)
  qed (use sel(1) in auto)
  then have IA: "?I A" and J: "jobs A = map (\<lambda>y. if ?P y then requeued_job now y else y) (jobs L)"
    using sel(3) by (auto cong: map_cong)
  note fr = logged_frame [OF l]
  show "recovers L L'" using IA recovers_logged [OF l] recovers_trans by blast
  show "attempts L' = attempts L" "spans L' = spans L" "quarantines L' = quarantines L"
    using IA by (simp_all add: fr)
  show "jobs L' = map (\<lambda>j. if ?P j then requeued_job now j else j) (jobs L)" by (simp add: fr J)
  show "count = int (length (filter ?P (jobs L)))" using n by simp
  show "\<not> armed (cstate L)" "paused (cstate L)" by (fact st)+
qed

lemma requeue_interrupted_one_Inr:
  assumes run: "requeue_interrupted_one batch reason actor now row L = Inr L'" and inv: "ledger_inv L"
    and row: "row \<in> set (jobs L)" "job_live row"
  shows "recovers L L'" "same_policy L L'"
    "jobs L' = map (\<lambda>j. if job_id j = job_id row then fenced_job now j else j) (jobs L)"
proof -
  let ?why = "''operator interrupted: '' @ reason"
  let ?P = "\<lambda>j. job_id j = job_id row \<and> lease_generation j = lease_generation row \<and> job_live j"
  let ?Q = "\<lambda>a. attempt_job a = job_id row \<and> attempt_generation a = lease_generation row \<and> attempt_live a"
  let ?g = "\<lambda>a. a\<lparr>attempt_state := AFailed, attempt_ended_at := Some (timestamp now), attempt_error := Some ?why\<rparr>"
  obtain A B C where A: "close_open_stage_attempts_locked row now ?why actor L = Inr A"
    and B: "update_attempts ?Q ?g A = Inr B" and C: "update_jobs ?P (fenced_job now) B = Inr C"
    and l: "logged C L'"
    by (insert run [unfolded requeue_interrupted_one_def Let_def], elim ledger_run,
        erule that [unfolded fenced_job_def [abs_def]], assumption, assumption, erule loggedI)
  note ok = ledger_invD [OF inv]
  note a = close_open_Inr [OF A ok(1)] and aw = same_workD [OF close_open_Inr(2) [OF A ok(1)]]
  have okA: "schema_ok A" "lease_coherent A"
    using evolves_schema [OF a(1) ok(1)] close_open_coherent [OF A ok] by blast+
  have B': "B = A\<lparr>attempts := update_where ?Q ?g (attempts A)\<rparr>"
    using B by (auto simp: update_attempts_def put_attempts_def split: if_split_asm)
  have AB: "evolves A B" using B by (rule update_attempts_evolves) (auto simp: attempt_step_def)
  have okB: "schema_ok B" using evolves_schema [OF AB okA(1)] .
  have rowB: "row \<in> set (jobs B)" using row(1) by (simp add: B' aw)
  have JC: "jobs C = map (\<lambda>j. if job_id j = job_id row then fenced_job now j else j) (jobs A)"
    using update_jobs_one [OF C okB rowB] row(2) by (auto simp: B')
  have "evolves B C"
    using C by (rule update_jobs_evolves) (auto intro: fenced_job_step)
  then have ev: "evolves L L'"
    using a(1) AB logged_evolves [OF l] by (blast intro: evolves_trans)
  note fr = logged_frame [OF l] update_jobs_frame(1-6) [OF C]
  have coh: "lease_coherent L'"
  proof (rule coherent_close_lease [OF okA, where row = row and f = "fenced_job now" and g = ?g])
    show "open_spans_of (job_id row) (lease_generation row) A = []" by (rule close_open_closes [OF A ok(1)])
    show "jobs L' = map (\<lambda>j. if job_id j = job_id row then fenced_job now j else j) (jobs A)"
      by (simp add: fr JC)
    show "attempts L' = update_where ?Q ?g (attempts A)" by (simp add: fr B')
    show "spans L' = spans A" by (simp add: fr B')
  qed (use row in \<open>simp_all add: aw attempt_live_def\<close>)
  show "jobs L' = map (\<lambda>j. if job_id j = job_id row then fenced_job now j else j) (jobs L)"
    by (simp add: fr JC aw)
  show "same_policy L L'" by (simp add: same_policy_def fr B' aw)
  show "recovers L L'"
    by (rule recoversI [OF ev]) (use coh in \<open>auto simp: fr JC B' aw update_where_def\<close>)
qed

lemma requeue_interrupted_body_Inr:
  assumes run: "requeue_interrupted_body ids_sha256 batch count reason actor now L = Inr (r, L')"
    and inv: "ledger_inv L"
  shows "recovers L L'" "jobs L' = map (\<lambda>j. if job_live j then fenced_job now j else j) (jobs L)"
    "\<forall>j\<in>set (jobs L). job_live j \<longrightarrow> job_batch j = batch" "count = int (length (live_jobs L))"
    "\<not> armed (cstate L)" "paused (cstate L)"
proof -
  let ?key = "\<lambda>j. (job_batch j, job_position j, job_id j)"
  let ?all = "order_by ?key (filter job_live (jobs L))"
  let ?rs = "filter (\<lambda>j. job_batch j = batch) ?all"
  obtain A where n: "int (length ?rs) = count \<and> int (length ?all) = count"
    and st: "\<not> armed (cstate L)" "paused (cstate L)"
    and A: "fold_result (requeue_interrupted_one batch reason actor now) ?rs L = Inr A" and l: "logged A L'"
    by (insert run [unfolded requeue_interrupted_body_def Let_def live_jobs_def], elim ledger_run,
        rule that, assumption+)
  note sel = selected_rows [OF ledger_invD(1) [OF inv], where key = ?key and P = job_live]
  have all: "?rs = ?all"
    using n by (intro filter_id_conv [THEN iffD2] ballI)
      (metis (mono_tags, lifting) length_filter_less order_less_irrefl of_nat_eq_iff)
  let ?I = "\<lambda>M. recovers L M"
  have "recovers L A \<and>
      jobs A = map (\<lambda>y. if job_id y \<in> job_id ` set ?all then fenced_job now y else y) (jobs L)"
  proof (rule fold_result_rows [OF A [unfolded all], where I = ?I and T = jobs and key = job_id])
    show "recovers L L" by (rule recovers_refl)
    fix q M M' assume step: "requeue_interrupted_one batch reason actor now q M = Inr M'"
      and I: "recovers L M" and q: "q \<in> set (jobs M)" "q \<in> set ?all"
    have "ledger_inv M" "job_live q" using I recovers_inv inv q(2) by auto
    note s = requeue_interrupted_one_Inr [OF step this(1) q(1) this(2)]
    show "recovers L M' \<and> jobs M' = map (\<lambda>y. if job_id y = job_id q then fenced_job now y else y) (jobs M)"
      using I s(1,3) recovers_trans by blast
  qed (use sel(1) in auto)
  then have RA: "recovers L A" and J: "jobs A = map (\<lambda>y. if job_live y then fenced_job now y else y) (jobs L)"
    using sel(3) by (auto cong: map_cong)
  show "recovers L L'" using RA recovers_logged [OF l] recovers_trans by blast
  show "jobs L' = map (\<lambda>j. if job_live j then fenced_job now j else j) (jobs L)"
    by (simp add: logged_frame [OF l] J)
  show "\<forall>j\<in>set (jobs L). job_live j \<longrightarrow> job_batch j = batch"
    using all by (simp add: filter_id_conv)
  show "count = int (length (live_jobs L))" using n by (simp add: live_jobs_def)
  show "\<not> armed (cstate L)" "paused (cstate L)" by (fact st)+
qed

text \<open>Every lease is gone afterwards: no worker of the stopped set can report again.\<close>

lemma requeue_interrupted_fences:
  assumes "requeue_interrupted_body ids_sha256 batch count reason actor now L = Inr (r, L')"
    and "ledger_inv L"
  shows "live_jobs L' = []" "\<not> holds_lease jid token generation L'"
  using requeue_interrupted_body_Inr(2) [OF assms]
  by (auto simp: live_jobs_def holds_lease_iff filter_empty_conv split: if_splits)

lemma active_quarantines_rows:
  "(q, p) \<in> set (active_quarantines_of batch L) \<longleftrightarrow>
     q \<in> set (quarantines L) \<and> q_batch q = batch \<and> q_state q = QActive
     \<and> (\<exists>j\<in>set (jobs L). job_id j = q_job q \<and> p = job_plan j)"
  by (auto simp: active_quarantines_of_def)

lemma quarantine_body_Inr:
  assumes run: "quarantine_body ids_sha256 batch ids count reason actor now L = Inr (r, L')"
  shows "recovers L L'" "live_jobs L = []" "\<not> armed (cstate L)" "paused (cstate L)"
    "\<forall>j\<in>set (quarantine_selection batch ids L). actively_quarantined (job_id j) L'"
    "count = int (length (quarantine_selection batch ids L))"
proof -
  let ?rs = "quarantine_selection batch ids L"
  obtain A where st: "\<not> armed (cstate L) \<and> paused (cstate L)" "live_jobs L = []"
      "int (length ?rs) = count \<and> list_all (\<lambda>j. job_state j = Queued \<or> job_state j = Failed) ?rs"
    and A: "fold_result (quarantine_selected batch reason actor now) ?rs L = Inr A" and l: "logged A L'"
    by (insert run [unfolded quarantine_body_def Let_def], elim ledger_run, rule that, assumption+)
  have "recovers L A"
    by (rule fold_result_rel [OF A]) (blast intro: recovers_refl recovers_trans quarantine_selected_recovers)+
  then show "recovers L L'" using recovers_logged [OF l] recovers_trans by blast
  show "live_jobs L = []" "\<not> armed (cstate L)" "paused (cstate L)" "count = int (length ?rs)"
    using st by auto
  have grows: "\<exists>q. quarantines M' = quarantines M @ [q] \<and> q_job q = job_id x \<and> q_state q = QActive"
    if step: "quarantine_selected batch reason actor now x M = Inr M'" for x M M'
  proof -
    obtain B C q where B: "(if job_state x = Queued then update_jobs (\<lambda>j. job_id j = job_id x \<and> job_state j = Queued)
          (\<lambda>j. j\<lparr>job_state := Failed, job_error := Some reason,
              failure_class := Some OPERATOR_QUARANTINE, job_updated_at := timestamp now\<rparr>) M else Inr M) = Inr B"
      and C: "put_quarantines (quarantines B @
       [\<lparr>quarantine_id = next_rowid quarantine_id (quarantines B), q_job = job_id x, q_batch = batch,
         q_state = QActive, q_reason = reason, q_failure_class = OPERATOR_QUARANTINE,
         q_attempt_count = attempt_count x, q_created_at = timestamp now, q_released_at = None,
         q_release_reason = None\<rparr>]) B = Inr C" and lc: "logged C M'"
      by (insert step [unfolded quarantine_selected_def], elim ledger_run, erule that, assumption, erule loggedI)
    have "quarantines B = quarantines M"
      using B by (cases "job_state x = Queued") (auto dest: update_jobs_frame(4))
    then show ?thesis using put_quarantines_frame(5) [OF C] by (simp add: logged_frame [OF lc])
  qed
  have "\<forall>j\<in>set ?rs. actively_quarantined (job_id j) A"
    by (rule fold_result_each [OF A]) (auto simp: actively_quarantined_def dest!: grows)
  then show "\<forall>j\<in>set ?rs. actively_quarantined (job_id j) L'"
    by (simp add: actively_quarantined_def logged_frame [OF l])
qed

lemma release_one_effect:
  assumes run: "release_one batch reason actor now x M = Inr M'"
  shows "quarantines M' = update_where (\<lambda>r. quarantine_id r = quarantine_id (fst x) \<and> q_state r = QActive)
       (\<lambda>r. r\<lparr>q_state := QReleased, q_released_at := Some (timestamp now),
              q_release_reason := Some reason\<rparr>) (quarantines M)"
    "jobs M' = update_where (\<lambda>j. job_id j = q_job (fst x) \<and> job_state j = Failed) (requeued_job now) (jobs M)"
    "attempts M' = attempts M" "spans M' = spans M"
proof -
  obtain q p where x: "x = (q, p)" by fastforce
  obtain A B where A: "update_quarantines (\<lambda>r. quarantine_id r = quarantine_id q \<and> q_state r = QActive)
       (\<lambda>r. r\<lparr>q_state := QReleased, q_released_at := Some (timestamp now),
              q_release_reason := Some reason\<rparr>) M = Inr A"
    and B: "update_jobs (\<lambda>j. job_id j = q_job q \<and> job_state j = Failed) (requeued_job now) A = Inr B"
    and l: "logged B M'"
    by (insert run [unfolded release_one_def x prod.case], elim ledger_run,
        erule that [unfolded requeued_job_def [abs_def]], assumption, erule loggedI)
  note fr = logged_frame [OF l] update_jobs_frame [OF B] update_quarantines_frame [OF A]
  show "quarantines M' = update_where (\<lambda>r. quarantine_id r = quarantine_id (fst x) \<and> q_state r = QActive)
       (\<lambda>r. r\<lparr>q_state := QReleased, q_released_at := Some (timestamp now),
              q_release_reason := Some reason\<rparr>) (quarantines M)"
    "jobs M' = update_where (\<lambda>j. job_id j = q_job (fst x) \<and> job_state j = Failed) (requeued_job now) (jobs M)"
    "attempts M' = attempts M" "spans M' = spans M"
    by (simp_all add: fr x)
qed

lemma release_body_Inr:
  assumes run: "release_body ids_sha256 batch count reason actor now L = Inr (r, L')" and ok: "schema_ok L"
  shows "recovers L L'" "attempts L' = attempts L" "spans L' = spans L"
    "\<forall>q\<in>set (quarantines L'). q_batch q = batch \<longrightarrow> q_state q = QReleased"
    "\<forall>x\<in>set (active_quarantines_of batch L). \<forall>j\<in>set (jobs L'). job_id j = q_job (fst x) \<longrightarrow> job_state j \<noteq> Failed"
    "live_jobs L = []" "count = int (length (active_quarantines_of batch L))"
proof -
  let ?rs = "active_quarantines_of batch L"
  let ?act = "\<lambda>M. \<forall>q\<in>set (quarantines M). q_state q = QActive \<longrightarrow> q \<in> set (quarantines L)"
  let ?I = "\<lambda>M. recovers L M \<and> attempts M = attempts L \<and> spans M = spans L \<and> ?act M"
  have st: "live_jobs L = []" "int (length ?rs) = count"
    and A: "fold_result (release_one batch reason actor now) ?rs L = Inr L'"
    using run by (auto simp: release_body_def Let_def results)
  have I: "?I L'"
    by (rule fold_result_invariant [OF A])
      (auto simp: recovers_refl release_one_effect update_where_def split: if_splits
        dest: recovers_trans [OF _ release_one_recovers])
  then show "recovers L L'" "attempts L' = attempts L" "spans L' = spans L" by blast+
  show "live_jobs L = []" "count = int (length ?rs)" using st by simp_all
  have rel: "\<forall>x\<in>set ?rs. \<forall>q\<in>set (quarantines L'). quarantine_id q = quarantine_id (fst x) \<longrightarrow> q_state q \<noteq> QActive"
    by (rule fold_result_each [OF A]) (auto simp: release_one_effect update_where_def split: if_splits)
  show "\<forall>x\<in>set ?rs. \<forall>j\<in>set (jobs L'). job_id j = q_job (fst x) \<longrightarrow> job_state j \<noteq> Failed"
    by (rule fold_result_each [OF A])
      (auto simp: release_one_effect update_where_def requeued_job_def split: if_splits)
  show "\<forall>q\<in>set (quarantines L'). q_batch q = batch \<longrightarrow> q_state q = QReleased"
  proof (intro ballI impI)
    fix q assume q: "q \<in> set (quarantines L')" "q_batch q = batch"
    show "q_state q = QReleased"
    proof (cases "q_state q")
      case QActive
      with I q(1) have "q \<in> set (quarantines L)" by blast
      moreover from this ok obtain j where "j \<in> set (jobs L)" "job_id j = q_job q"
        by (auto simp: schema_ok_def quarantines_ok_def)
      ultimately have "(q, job_plan j) \<in> set ?rs"
        using q(2) QActive by (auto simp: active_quarantines_rows)
      then show ?thesis using rel q(1) QActive by fastforce
    qed
  qed
qed

section \<open>The contract, met\<close>

lemma recovers_contract:
  "recovers L L' \<Longrightarrow> ledger_inv L \<Longrightarrow> evolves L L' \<and> lease_coherent L'"
  by (simp add: recovers_def ledger_inv_def)

interpretation quarantine_op: ledger_operation "quarantine_body ids_sha256 batch ids count reason actor now"
  for ids_sha256 batch ids count reason actor now
  by unfold_locales (use quarantine_body_Inr(1) recovers_contract in blast)+

interpretation release_op: ledger_operation "release_body ids_sha256 batch count reason actor now"
  for ids_sha256 batch count reason actor now
  by unfold_locales (use release_body_Inr(1) recovers_contract ledger_invD(1) in blast)+

interpretation requeue_failed_op: ledger_operation "requeue_failed_body ids_sha256 batch count reason actor now"
  for ids_sha256 batch count reason actor now
  by unfold_locales (use requeue_failed_body_Inr(1) recovers_contract in blast)+

interpretation requeue_interrupted_op: ledger_operation
  "requeue_interrupted_body ids_sha256 batch count reason actor now"
  for ids_sha256 batch count reason actor now
  by unfold_locales (use requeue_interrupted_body_Inr(1) recovers_contract in blast)+

lemma pause_body_Inr:
  "pause_body reason actor now L = Inr (u, L') \<Longrightarrow> state_step (\<lambda>s. s\<lparr>paused := True\<rparr>) L L' \<or> (L' = L \<and> paused (cstate L))"
  by (auto simp: pause_body_def results split: if_splits intro: state_step_logged state_step_update loggedI)

lemma resume_body_Inr:
  "resume_body actor now L = Inr (u, L') \<Longrightarrow> state_step (\<lambda>s. s\<lparr>paused := False\<rparr>) L L' \<or> (L' = L \<and> \<not> paused (cstate L))"
  by (auto simp: resume_body_def results split: if_splits intro: state_step_logged state_step_update loggedI)

interpretation pause_op: ledger_operation "pause_body reason actor now" for reason actor now
  by unfold_locales (use pause_body_Inr state_step_contract ledger_invD evolves_refl in blast)+

interpretation resume_op: ledger_operation "resume_body actor now" for actor now
  by unfold_locales (use resume_body_Inr state_step_contract ledger_invD evolves_refl in blast)+

end
