(* ===== verification/Queue_Config.thy ===== *)
theory Queue_Config
  imports Validators
begin

text \<open>
  \<open>QueueConfig.load\<close> of src/fidb_poc/coordinator_config.py: the fail-closed validation of a
  queue document.  The document is the parsed TOML; the file system and the loaders of other
  modules are the arguments in \<open>queue_env\<close>, of which nothing is assumed.
\<close>

section \<open>The validated configuration\<close>

record batch_config =
  bc_id :: string
  bc_name :: string
  bc_plan_path :: string
  bc_matrices :: "string list option"
  bc_plan_sha256 :: "string option"
  bc_queue_digest :: "string option"
  bc_executions :: "int option"

text \<open>What the configuration uses of a performance profile.\<close>

record performance_profile =
  pp_worker_mode :: string
  pp_workers :: "int option"
  pp_document :: json

record queue_config =
  qc_name :: string
  qc_batch_order :: "string list"
  qc_armed :: bool
  qc_max_workers :: int
  qc_performance :: "performance_profile option"
  qc_poll_seconds :: int
  qc_lease_seconds :: int
  qc_max_attempts :: int
  qc_retry_backoff_seconds :: int
  qc_retry_backoff_max_seconds :: int
  qc_authority_failure_threshold :: int
  qc_operations :: json
  qc_batches :: "batch_config list"
  qc_source_path :: string

text \<open>Where a batch's plan is: \<open>(root / fragment).resolve()\<close>, with the in-project path and the
  SHA-256 of the file's bytes.\<close>

datatype plan_location =
    PlanAbsolute
  | PlanOutside
  | PlanMissing
  | PlanFile string string

record queue_env =
  env_plan :: "string \<Rightarrow> plan_location"
  env_profile :: "string \<Rightarrow> performance_profile result"
  env_automatic :: "performance_profile \<Rightarrow> performance_profile result"
  env_operations :: "json \<Rightarrow> json result"

definition QUEUE_SCHEMA :: string where
  "QUEUE_SCHEMA = ''fidb-queue/v1''"

section \<open>The queue table\<close>

definition field :: "(string \<times> json) list \<Rightarrow> string \<Rightarrow> json" where
  "field row k = (case map_of row k of None \<Rightarrow> JNull | Some v \<Rightarrow> v)"

definition REQUIRED_QUEUE_FIELDS :: "string list" where
  "REQUIRED_QUEUE_FIELDS =
     [''batch_order'', ''armed'', ''max_workers'', ''poll_seconds'', ''lease_seconds'', ''max_attempts'']"

definition queue_table :: "(string \<times> json) list \<Rightarrow> (string \<times> json) list result" where
  "queue_table document =
     and_then (only_keys document
       [''schema_version'', ''name'', ''queue'', ''batch'', ''schedule'', ''resources'', ''notifications'']
       ''queue document'') (\<lambda>_.
     and_then (require (map_of document ''schema_version'' = Some (JStr QUEUE_SCHEMA))
       (ValueError ''unsupported or missing queue schema_version'')) (\<lambda>_.
     and_then (text_field (field document ''name'') ''queue name'') (\<lambda>_.
     case map_of document ''queue'' of
       Some (JObj queue) \<Rightarrow>
         and_then (only_keys queue (REQUIRED_QUEUE_FIELDS @ [''performance_profile'',
           ''retry_backoff_seconds'', ''retry_backoff_max_seconds'', ''authority_failure_threshold''])
           ''queue table'') (\<lambda>_.
         and_then (require (list_all (\<lambda>k. k \<in> set (map fst queue)) REQUIRED_QUEUE_FIELDS)
           (ValueError ''queue table is missing required fields'')) (\<lambda>_.
         Inr queue))
     | _ \<Rightarrow> Inl (ValueError ''queue document must contain a [queue] table''))))"

definition queue_profile ::
  "queue_env \<Rightarrow> (string \<times> json) list \<Rightarrow> int \<Rightarrow> performance_profile option result" where
  "queue_profile env queue workers =
     (case map_of queue ''performance_profile'' of
        None \<Rightarrow> Inr None
      | Some v \<Rightarrow>
          and_then (identifier_field v ''queue performance_profile'') (\<lambda>profile_id.
          and_then (env_profile env profile_id) (\<lambda>selected.
          and_then (if pp_worker_mode selected = ''automatic'' then env_automatic env selected
                    else Inr selected) (\<lambda>profile.
          case pp_workers profile of
            None \<Rightarrow> Inl (ValueError ''queue performance_profile must select a fixed worker count'')
          | Some profile_workers \<Rightarrow>
              if pp_worker_mode profile \<noteq> ''fixed''
              then Inl (ValueError ''queue performance_profile must select a fixed worker count'')
              else if workers \<noteq> profile_workers
              then Inl (ValueError ''queue max_workers does not match performance profile'')
              else Inr (Some profile)))))"

definition retry_limits :: "(string \<times> json) list \<Rightarrow> (int \<times> int) result" where
  "retry_limits queue =
     and_then (nonnegative_integer (case map_of queue ''retry_backoff_seconds'' of None \<Rightarrow> JInt 0 | Some v \<Rightarrow> v)
       ''queue retry_backoff_seconds'') (\<lambda>base.
     and_then (nonnegative_integer (case map_of queue ''retry_backoff_max_seconds'' of None \<Rightarrow> JInt base | Some v \<Rightarrow> v)
       ''queue retry_backoff_max_seconds'') (\<lambda>maximum.
     if maximum < base
     then Inl (ValueError ''queue retry_backoff_max_seconds must be at least retry_backoff_seconds'')
     else Inr (base, maximum)))"

section \<open>Batches\<close>

definition batch_plan_file :: "queue_env \<Rightarrow> string \<Rightarrow> string \<Rightarrow> (string \<times> string) result" where
  "batch_plan_file env bid relative_plan =
     (case env_plan env relative_plan of
        PlanAbsolute \<Rightarrow> Inl (ValueError (''batch '' @ bid @ '' plan must be a relative path''))
      | PlanOutside \<Rightarrow>
          Inl (ValueError (''batch '' @ bid @ '' plan is outside project root: '' @ relative_plan))
      | PlanMissing \<Rightarrow>
          Inl (ValueError (''batch '' @ bid @ '' plan is not an in-project file: '' @ relative_plan))
      | PlanFile normalized sha \<Rightarrow> Inr (normalized, sha))"

text \<open>An optional field: absent, or what its validator makes of it.\<close>

definition optional_field ::
  "(string \<times> json) list \<Rightarrow> string \<Rightarrow> (json \<Rightarrow> 'a result) \<Rightarrow> 'a option result" where
  "optional_field row k check =
     (case map_of row k of None \<Rightarrow> Inr None | Some v \<Rightarrow> and_then (check v) (\<lambda>x. Inr (Some x)))"

definition load_batch :: "queue_env \<Rightarrow> string list \<Rightarrow> json \<Rightarrow> batch_config result" where
  "load_batch env seen v =
     (case v of
        JObj row \<Rightarrow>
          and_then (only_keys row [''id'', ''name'', ''plan'', ''matrices'', ''plan_sha256'',
            ''queue_digest'', ''executions''] ''batch'') (\<lambda>_.
          and_then (identifier_field (field row ''id'') ''batch id'') (\<lambda>bid.
          and_then (require (bid \<notin> set seen) (ValueError (''duplicate batch id: '' @ bid))) (\<lambda>_.
          and_then (text_field (field row ''name'') ''batch name'') (\<lambda>bname.
          and_then (text_field (field row ''plan'') ''batch plan'') (\<lambda>relative_plan.
          and_then (batch_plan_file env bid relative_plan) (\<lambda>(normalized, sha).
          and_then (optional_field row ''matrices'' (\<lambda>x. identifiers_field x ''batch matrices'')) (\<lambda>matrices.
          and_then (optional_field row ''plan_sha256'' (\<lambda>x.
              and_then (sha256_text x ''batch plan_sha256'') (\<lambda>expected.
              if sha \<noteq> expected then Inl (ValueError (''batch '' @ bid @ '' plan_sha256 mismatch''))
              else Inr expected))) (\<lambda>plan_sha.
          and_then (optional_field row ''queue_digest'' (\<lambda>x. sha256_text x ''batch queue_digest'')) (\<lambda>queue_digest.
          and_then (optional_field row ''executions'' (\<lambda>x. positive_integer x ''batch executions'')) (\<lambda>executions.
          Inr \<lparr>bc_id = bid, bc_name = bname, bc_plan_path = normalized, bc_matrices = matrices,
               bc_plan_sha256 = plan_sha, bc_queue_digest = queue_digest,
               bc_executions = executions\<rparr>))))))))))
      | _ \<Rightarrow> Inl (ValueError ''batch must be a table''))"

fun load_batches :: "queue_env \<Rightarrow> string list \<Rightarrow> json list \<Rightarrow> batch_config list result" where
  "load_batches env seen [] = Inr []"
| "load_batches env seen (v # vs) =
     and_then (load_batch env seen v) (\<lambda>b.
     and_then (load_batches env (bc_id b # seen) vs) (\<lambda>bs. Inr (b # bs)))"

definition order_batches :: "string list \<Rightarrow> batch_config list \<Rightarrow> batch_config list result" where
  "order_batches order bs =
     (if set order \<noteq> set (map bc_id bs) \<or> length order \<noteq> length bs
      then Inl (ValueError ''queue batch_order must contain each batch id exactly once'')
      else Inr (map (\<lambda>i. the (find (\<lambda>b. bc_id b = i) bs)) order))"

section \<open>Loading\<close>

definition load_queue :: "queue_env \<Rightarrow> string \<Rightarrow> json \<Rightarrow> queue_config result" where
  "load_queue env source_path v =
     (case v of
        JObj document \<Rightarrow>
          and_then (queue_table document) (\<lambda>queue.
          and_then (text_field (field document ''name'') ''queue name'') (\<lambda>qname.
          and_then (identifiers_field (field queue ''batch_order'') ''queue batch_order'') (\<lambda>order.
          and_then (case field queue ''armed'' of JBool b \<Rightarrow> Inr b
                    | _ \<Rightarrow> Inl (ValueError ''queue armed must be a boolean'')) (\<lambda>is_armed.
          and_then (positive_integer (field queue ''max_workers'') ''queue max_workers'') (\<lambda>workers.
          and_then (queue_profile env queue workers) (\<lambda>profile.
          and_then (positive_integer (field queue ''poll_seconds'') ''queue poll_seconds'') (\<lambda>poll.
          and_then (positive_integer (field queue ''lease_seconds'') ''queue lease_seconds'') (\<lambda>lease.
          and_then (positive_integer (field queue ''max_attempts'') ''queue max_attempts'') (\<lambda>attempts.
          and_then (retry_limits queue) (\<lambda>(base, maximum).
          and_then (nonnegative_integer
            (case map_of queue ''authority_failure_threshold'' of None \<Rightarrow> JInt 0 | Some v \<Rightarrow> v)
            ''queue authority_failure_threshold'') (\<lambda>threshold.
          and_then (env_operations env v) (\<lambda>operations.
          and_then (case map_of document ''batch'' of
              Some (JArr (x # xs)) \<Rightarrow> load_batches env [] (x # xs)
            | _ \<Rightarrow> Inl (ValueError ''queue document must contain at least one [[batch]] table'')) (\<lambda>bs.
          and_then (order_batches order bs) (\<lambda>ordered.
          Inr \<lparr>qc_name = qname, qc_batch_order = order, qc_armed = is_armed, qc_max_workers = workers,
               qc_performance = profile, qc_poll_seconds = poll, qc_lease_seconds = lease,
               qc_max_attempts = attempts, qc_retry_backoff_seconds = base,
               qc_retry_backoff_max_seconds = maximum, qc_authority_failure_threshold = threshold,
               qc_operations = operations, qc_batches = ordered, qc_source_path = source_path\<rparr>))))))))))))))
      | _ \<Rightarrow> Inl (ValueError ''queue document must be a table''))"

section \<open>What an accepted configuration satisfies\<close>

definition config_ok :: "queue_config \<Rightarrow> bool" where
  "config_ok c \<longleftrightarrow>
     0 < qc_max_workers c \<and> 0 < qc_poll_seconds c \<and> 0 < qc_lease_seconds c \<and> 0 < qc_max_attempts c
     \<and> 0 \<le> qc_retry_backoff_seconds c
     \<and> qc_retry_backoff_seconds c \<le> qc_retry_backoff_max_seconds c
     \<and> 0 \<le> qc_authority_failure_threshold c
     \<and> distinct (qc_batch_order c) \<and> qc_batches c \<noteq> []
     \<and> map bc_id (qc_batches c) = qc_batch_order c
     \<and> (\<forall>p. qc_performance c = Some p \<longrightarrow> pp_worker_mode p = ''fixed'' \<and> pp_workers p = Some (qc_max_workers c))
     \<and> (\<forall>b\<in>set (qc_batches c). identifier_match (bc_id b) \<and> (\<forall>n. bc_executions b = Some n \<longrightarrow> 0 < n))"

lemma optional_field_Inr [results]:
  "optional_field row k check = Inr r \<longleftrightarrow>
     (case map_of row k of None \<Rightarrow> r = None | Some v \<Rightarrow> \<exists>x. check v = Inr x \<and> r = Some x)"
  by (auto simp: optional_field_def results split: option.splits)

lemma load_batch_Inr:
  assumes "load_batch env seen v = Inr b"
  shows "bc_id b \<notin> set seen" "identifier_match (bc_id b)" "\<And>n. bc_executions b = Some n \<Longrightarrow> 0 < n"
    "\<exists>rel sha. env_plan env rel = PlanFile (bc_plan_path b) sha \<and> (bc_plan_sha256 b = None \<or> bc_plan_sha256 b = Some sha)"
proof -
  obtain row where v: "v = JObj row" using assms by (auto simp: load_batch_def split: json.splits)
  obtain bid bname rel normalized sha matrices plan_sha queue_digest executions where
    bid: "identifier_field (field row ''id'') ''batch id'' = Inr bid" "bid \<notin> set seen"
    and plan: "batch_plan_file env bid rel = Inr (normalized, sha)"
    and psha: "optional_field row ''plan_sha256'' (\<lambda>x.
              and_then (sha256_text x ''batch plan_sha256'') (\<lambda>expected.
              if sha \<noteq> expected then Inl (ValueError (''batch '' @ bid @ '' plan_sha256 mismatch''))
              else Inr expected)) = Inr plan_sha"
    and ex: "optional_field row ''executions'' (\<lambda>x. positive_integer x ''batch executions'') = Inr executions"
    and b: "Inr \<lparr>bc_id = bid, bc_name = bname, bc_plan_path = normalized, bc_matrices = matrices,
               bc_plan_sha256 = plan_sha, bc_queue_digest = queue_digest,
               bc_executions = executions\<rparr> = (Inr b :: batch_config result)"
    by (insert assms [unfolded load_batch_def v json.case], elim run_elims, erule that, assumption+)
  show "bc_id b \<notin> set seen" "identifier_match (bc_id b)" using bid b by (auto simp: results)
  show "\<And>n. bc_executions b = Some n \<Longrightarrow> 0 < n"
    using ex b by (auto simp: results split: option.split_asm)
  have "env_plan env rel = PlanFile normalized sha"
    using plan by (auto simp: batch_plan_file_def split: plan_location.split_asm)
  moreover have "plan_sha = None \<or> plan_sha = Some sha"
    using psha by (auto simp: results split: option.split_asm if_split_asm)
  ultimately show "\<exists>rel sha. env_plan env rel = PlanFile (bc_plan_path b) sha
      \<and> (bc_plan_sha256 b = None \<or> bc_plan_sha256 b = Some sha)"
    using b by (intro exI [of _ rel] exI [of _ sha]) auto
qed

lemma load_batches_Inr:
  "load_batches env seen vs = Inr bs \<Longrightarrow>
   distinct (map bc_id bs) \<and> set (map bc_id bs) \<inter> set seen = {} \<and> length bs = length vs
   \<and> (\<forall>b\<in>set bs. identifier_match (bc_id b) \<and> (\<forall>n. bc_executions b = Some n \<longrightarrow> 0 < n))"
proof (induction vs arbitrary: seen bs)
  case (Cons v vs)
  from Cons.prems obtain b bs' where b: "load_batch env seen v = Inr b"
    and bs': "load_batches env (bc_id b # seen) vs = Inr bs'" and bs: "bs = b # bs'"
    by (auto simp: results)
  from Cons.IH [OF bs'] load_batch_Inr [OF b] show ?case by (auto simp: bs)
qed simp

lemma order_batches_Inr:
  assumes run: "order_batches order bs = Inr ordered" and d: "distinct (map bc_id bs)"
  shows "map bc_id ordered = order" "distinct order" "set ordered \<subseteq> set bs"
proof -
  from run have s: "set order = set (map bc_id bs)" "length order = length bs"
    and o: "ordered = map (\<lambda>i. the (find (\<lambda>b. bc_id b = i) bs)) order"
    by (auto simp: order_batches_def split: if_split_asm)
  have found: "bc_id (the (find (\<lambda>b. bc_id b = i) bs)) = i \<and> the (find (\<lambda>b. bc_id b = i) bs) \<in> set bs"
    if "i \<in> set order" for i
  proof -
    from that s(1) obtain b where "b \<in> set bs" "bc_id b = i" by auto
    with find_key_unique [OF d, of b] show ?thesis by simp
  qed
  then show "map bc_id ordered = order" "set ordered \<subseteq> set bs"
    by (auto simp: o intro: map_idI)
  show "distinct order"
    using s d by (metis card_distinct distinct_card length_map)
qed

lemma retry_limits_Inr: "retry_limits queue = Inr (base, maximum) \<Longrightarrow> 0 \<le> base \<and> base \<le> maximum"
  by (auto simp: retry_limits_def results split: if_split_asm option.split_asm)

lemma queue_profile_Inr:
  "queue_profile env queue workers = Inr (Some p) \<Longrightarrow> pp_worker_mode p = ''fixed'' \<and> pp_workers p = Some workers"
  by (auto simp: queue_profile_def results split: if_split_asm option.split_asm)

lemma load_queue_ok:
  assumes "load_queue env source_path v = Inr c"
  shows "config_ok c"
proof -
  obtain document where v: "v = JObj document" using assms by (auto simp: load_queue_def split: json.splits)
  obtain queue qname order is_armed workers profile poll lease attempts base maximum threshold operations bs ordered where
    order: "identifiers_field (field queue ''batch_order'') ''queue batch_order'' = Inr order"
    and w: "positive_integer (field queue ''max_workers'') ''queue max_workers'' = Inr workers"
    and p: "queue_profile env queue workers = Inr profile"
    and n: "positive_integer (field queue ''poll_seconds'') ''queue poll_seconds'' = Inr poll"
      "positive_integer (field queue ''lease_seconds'') ''queue lease_seconds'' = Inr lease"
      "positive_integer (field queue ''max_attempts'') ''queue max_attempts'' = Inr attempts"
    and r: "retry_limits queue = Inr (base, maximum)"
    and t: "nonnegative_integer
            (case map_of queue ''authority_failure_threshold'' of None \<Rightarrow> JInt 0 | Some v \<Rightarrow> v)
            ''queue authority_failure_threshold'' = Inr threshold"
    and bs: "(case map_of document ''batch'' of
              Some (JArr (x # xs)) \<Rightarrow> load_batches env [] (x # xs)
            | _ \<Rightarrow> Inl (ValueError ''queue document must contain at least one [[batch]] table'')) = Inr bs"
    and ob: "order_batches order bs = Inr ordered"
    and c: "Inr \<lparr>qc_name = qname, qc_batch_order = order, qc_armed = is_armed, qc_max_workers = workers,
               qc_performance = profile, qc_poll_seconds = poll, qc_lease_seconds = lease,
               qc_max_attempts = attempts, qc_retry_backoff_seconds = base,
               qc_retry_backoff_max_seconds = maximum, qc_authority_failure_threshold = threshold,
               qc_operations = operations, qc_batches = ordered, qc_source_path = source_path\<rparr> = (Inr c :: queue_config result)"
    by (insert assms [unfolded load_queue_def v json.case], elim run_elims, erule that, assumption+)
  from bs obtain x xs where bs': "load_batches env [] (x # xs) = Inr bs"
    by (auto split: option.split_asm json.split_asm list.split_asm)
  note l = load_batches_Inr [OF bs']
  note o = order_batches_Inr [OF ob conjunct1 [OF l]]
  have "ordered \<noteq> []" using o(1) identifiers_distinct [OF order] by auto
  then show ?thesis
    using w n r t p o l retry_limits_Inr [OF r] queue_profile_Inr [of env queue workers] c
    by (auto simp: config_ok_def results)
qed

end
