(* ===== verification/Sync.thy ===== *)
theory Sync
  imports Recovery Queue_Config
begin

text \<open>
  \<open>sync_queue\<close> of src/fidb_poc/coordinator.py: every batch is resolved and checked first, then
  one transaction deactivates the old queue, records the new policy, plans, batches and
  cells, and activates, carries forward or creates one job per selected queue row.

  \<open>resolve_plan\<close> (src/fidb_poc/plan_request.py) is the argument \<open>resolver\<close>; a resolved plan is
  read through the typed record \<open>resolved_plan\<close> (its object-valued list entries, with the
  fields the code reads and each entry's whole document).  The SHA-256 of a canonical JSON
  text is the argument \<open>sha256_json\<close>; nothing is assumed of it.
\<close>

section \<open>Resolved plans\<close>

record resolved_cell =
  rc_id :: string
  rc_matrix :: string
  rc_status :: string
  rc_json :: json

record resolved_row =
  rr_base_cell :: string
  rr_state :: string
  rr_position :: int
  rr_factor_variants :: json
  rr_blockers :: json
  rr_json :: json

record resolved_plan =
  rp_schema_version :: string
  rp_digest :: string
  rp_name :: string
  rp_document :: json
  rp_matrices :: "string list"
  rp_cells :: "resolved_cell list"
  rp_queue_preview :: "resolved_row list"

type_synonym resolved_batch = "batch_config \<times> resolved_plan \<times> resolved_cell list \<times> resolved_row list"

definition RESOLVED_SCHEMA :: string where
  "RESOLVED_SCHEMA = ''fidb-resolved-plan/v1''"

text \<open>\<open>queue_identity_digest\<close> of plan_request.py.\<close>

definition queue_identity :: "resolved_row list \<Rightarrow> json" where
  "queue_identity rows =
     JArr (map (\<lambda>row. JObj [(''position'', JInt (rr_position row)),
       (''base_cell'', JStr (rr_base_cell row)), (''factor_variants'', rr_factor_variants row),
       (''state'', JStr (rr_state row))]) rows)"

definition queue_identity_digest :: "(json \<Rightarrow> string) \<Rightarrow> resolved_row list \<Rightarrow> string result" where
  "queue_identity_digest sha256_json rows =
     and_then (canonical_json (queue_identity rows)) (\<lambda>identity. Inr (sha256_json identity))"

definition selected_matrices :: "batch_config \<Rightarrow> resolved_plan \<Rightarrow> string list result" where
  "selected_matrices batch plan =
     (case bc_matrices batch of
        None \<Rightarrow> Inr (rp_matrices plan)
      | Some wanted \<Rightarrow>
          if \<not> set wanted \<subseteq> set (rp_matrices plan)
          then Inl (ValueError (''batch '' @ bc_id batch @ '' selects unknown matrices''))
          else Inr wanted)"

text \<open>One batch of the loop before the transaction.\<close>

definition select_batch ::
  "(batch_config \<Rightarrow> resolved_plan result) \<Rightarrow> (json \<Rightarrow> string) \<Rightarrow> batch_config \<Rightarrow> resolved_batch result" where
  "select_batch resolver sha256_json batch =
     and_then (resolver batch) (\<lambda>plan.
     and_then (require (rp_schema_version plan = RESOLVED_SCHEMA)
       (ValueError (''batch '' @ bc_id batch @ '' did not resolve a supported plan''))) (\<lambda>_.
     and_then (selected_matrices batch plan) (\<lambda>matrices.
     let chosen_cells = filter (\<lambda>c. rc_matrix c \<in> set matrices) (rp_cells plan);
         rows = filter (\<lambda>r. rr_base_cell r \<in> rc_id ` set chosen_cells) (rp_queue_preview plan)
     in and_then (require (distinct (map rc_id chosen_cells))
          (ValueError (''batch '' @ bc_id batch @ '' resolved duplicate cell ids''))) (\<lambda>_.
        and_then (require (list_all (\<lambda>r. rr_state r = ''planned'' \<or> rr_state r = ''blocked'') rows)
          (ValueError (''batch '' @ bc_id batch @ '' has unsupported queue row state''))) (\<lambda>_.
        and_then (require (case bc_executions batch of None \<Rightarrow> True | Some n \<Rightarrow> int (length rows) = n)
          (ValueError (''batch '' @ bc_id batch @ '' resolved an unexpected number of queue rows''))) (\<lambda>_.
        and_then (case bc_queue_digest batch of
            None \<Rightarrow> Inr ()
          | Some expected \<Rightarrow>
              and_then (queue_identity_digest sha256_json rows) (\<lambda>actual.
              require (actual = expected)
                (ValueError (''batch '' @ bc_id batch @ '' queue_digest mismatch'')))) (\<lambda>_.
        Inr (batch, plan, chosen_cells, rows))))))))"

section \<open>The state row\<close>

definition sync_state :: "queue_config \<Rightarrow> int \<Rightarrow> rat \<Rightarrow> ledger \<Rightarrow> ledger result" where
  "sync_state c generation now L =
     and_then (update_batches (\<lambda>b. True) (\<lambda>b. b\<lparr>batch_active := False\<rparr>) L) (\<lambda>L.
     and_then (update_jobs (\<lambda>j. True) (\<lambda>j. j\<lparr>job_active := False\<rparr>) L) (\<lambda>L.
     and_then (case qc_performance c of None \<Rightarrow> Inr None
               | Some p \<Rightarrow> and_then (canonical_json (pp_document p)) (\<lambda>d. Inr (Some d))) (\<lambda>performance.
     and_then (canonical_json (qc_operations c)) (\<lambda>operations.
     update_state (\<lambda>s. s\<lparr>config_name := Some (qc_name c), config_path := Some (qc_source_path c),
       armed := qc_armed c, max_workers := qc_max_workers c, performance_json := performance,
       poll_seconds := qc_poll_seconds c, lease_seconds := qc_lease_seconds c,
       max_attempts := qc_max_attempts c, retry_backoff_seconds := qc_retry_backoff_seconds c,
       retry_backoff_max_seconds := qc_retry_backoff_max_seconds c,
       authority_failure_threshold := qc_authority_failure_threshold c,
       operations_json := operations, sync_generation := generation,
       synced_at := Some (timestamp now)\<rparr>) L))))"

section \<open>Plans, batches and cells\<close>

definition sync_plan :: "batch_config \<Rightarrow> resolved_plan \<Rightarrow> string \<Rightarrow> rat \<Rightarrow> ledger \<Rightarrow> ledger result" where
  "sync_plan batch plan actor now L =
     and_then (canonical_json (rp_document plan)) (\<lambda>document.
     case find (\<lambda>p. plan_digest p = rp_digest plan) (plans L) of
       None \<Rightarrow>
         and_then (put_plans (plans L @
           [\<lparr>plan_digest = rp_digest plan, plan_schema_version = rp_schema_version plan,
             plan_name = rp_name plan, plan_json = document, plan_created_at = timestamp now\<rparr>]) L) (\<lambda>L.
         log_event ''plan.resolved'' now actor (Some (bc_id batch)) None (Some (rp_digest plan))
           (JObj [(''plan'', JStr (bc_plan_path batch))]) L)
     | Some existing \<Rightarrow>
         if plan_json existing \<noteq> document
         then Inl (CoordinatorError (''immutable plan digest collision: '' @ rp_digest plan))
         else Inr L)"

definition sync_batch ::
  "batch_config \<Rightarrow> resolved_plan \<Rightarrow> int \<Rightarrow> int \<Rightarrow> rat \<Rightarrow> ledger \<Rightarrow> ledger result" where
  "sync_batch batch plan position generation now L =
     and_then (case bc_matrices batch of None \<Rightarrow> Inr None
               | Some ms \<Rightarrow> and_then (canonical_json (JArr (map JStr ms))) (\<lambda>d. Inr (Some d))) (\<lambda>matrices.
     if list_ex (\<lambda>b. batch_id b = bc_id batch) (batches L)
     then update_batches (\<lambda>b. batch_id b = bc_id batch)
       (\<lambda>b. b\<lparr>batch_name := bc_name batch, batch_plan := rp_digest plan,
              batch_plan_path := bc_plan_path batch, matrices_json := matrices,
              batch_position := position, batch_active := True, batch_generation := generation,
              batch_updated_at := timestamp now\<rparr>) L
     else put_batches (batches L @
       [\<lparr>batch_id = bc_id batch, batch_name = bc_name batch, batch_plan = rp_digest plan,
         batch_plan_path = bc_plan_path batch, matrices_json = matrices, batch_position = position,
         batch_active = True, batch_generation = generation, batch_created_at = timestamp now,
         batch_updated_at = timestamp now\<rparr>]) L)"

definition sync_cell :: "resolved_plan \<Rightarrow> resolved_cell \<Rightarrow> ledger \<Rightarrow> ledger result" where
  "sync_cell plan cell L =
     and_then (canonical_json (rc_json cell)) (\<lambda>document.
     case find (\<lambda>c. cell_plan c = rp_digest plan \<and> cell_id c = rc_id cell) (cells L) of
       None \<Rightarrow>
         put_cells (cells L @
           [\<lparr>cell_plan = rp_digest plan, cell_id = rc_id cell, cell_matrix = rc_matrix cell,
             cell_state = rc_status cell, cell_json = document\<rparr>]) L
     | Some existing \<Rightarrow>
         if cell_json existing \<noteq> document
         then Inl (CoordinatorError
           (''immutable resolved cell collision: '' @ rp_digest plan @ '':'' @ rc_id cell))
         else Inr L)"

section \<open>Jobs\<close>

text \<open>\<open>_stable_job_id\<close>.\<close>

definition JOB_SCHEMA :: string where
  "JOB_SCHEMA = ''fidb-job/v1''"

definition job_identity :: "string \<Rightarrow> string \<Rightarrow> string \<Rightarrow> json \<Rightarrow> json" where
  "job_identity batch digest base_cell factor_variants =
     JObj [(''schema_version'', JStr JOB_SCHEMA), (''batch_id'', JStr batch),
       (''plan_digest'', JStr digest), (''base_cell'', JStr base_cell),
       (''factor_variants'', factor_variants)]"

definition stable_job_id ::
  "(json \<Rightarrow> string) \<Rightarrow> string \<Rightarrow> string \<Rightarrow> string \<Rightarrow> json \<Rightarrow> string result" where
  "stable_job_id sha256_json batch digest base_cell factor_variants =
     and_then (canonical_json (job_identity batch digest base_cell factor_variants)) (\<lambda>identity.
     Inr (''job-'' @ sha256_json identity))"

text \<open>The row as the statements see it, with its canonical texts.\<close>

record row_call =
  rw_job :: string
  rw_batch :: string
  rw_plan :: string
  rw_cell :: string
  rw_position :: int
  rw_state :: job_state
  rw_blockers :: json
  rw_blockers_json :: json
  rw_factors_json :: json
  rw_row_json :: json

definition check_row ::
  "(json \<Rightarrow> string) \<Rightarrow> batch_config \<Rightarrow> resolved_plan \<Rightarrow> resolved_row \<Rightarrow> row_call result" where
  "check_row sha256_json batch plan row =
     and_then (require (case rr_factor_variants row of JArr _ \<Rightarrow> True | _ \<Rightarrow> False)
       (ValueError (''queue row '' @ rr_base_cell row @ '' factor_variants must be an array''))) (\<lambda>_.
     and_then (stable_job_id sha256_json (bc_id batch) (rp_digest plan) (rr_base_cell row)
       (rr_factor_variants row)) (\<lambda>jid.
     and_then (canonical_json (rr_json row)) (\<lambda>row_json.
     and_then (canonical_json (rr_blockers row)) (\<lambda>blockers_text.
     and_then (canonical_json (rr_factor_variants row)) (\<lambda>factors.
     Inr \<lparr>rw_job = jid, rw_batch = bc_id batch, rw_plan = rp_digest plan, rw_cell = rr_base_cell row,
          rw_position = rr_position row,
          rw_state = (if rr_state row = ''planned'' then Queued else Blocked),
          rw_blockers = rr_blockers row, rw_blockers_json = blockers_text,
          rw_factors_json = factors, rw_row_json = row_json\<rparr>)))))"

text \<open>Whether two rows of resolved cells hold the same document.\<close>

definition same_cell :: "ledger \<Rightarrow> string \<times> string \<Rightarrow> string \<times> string \<Rightarrow> bool" where
  "same_cell L k k' =
     list_ex (\<lambda>c. (cell_plan c, cell_id c) = k
        \<and> list_ex (\<lambda>d. (cell_plan d, cell_id d) = k' \<and> cell_json c = cell_json d) (cells L)) (cells L)"

definition carry_candidates :: "row_call \<Rightarrow> ledger \<Rightarrow> job_row list" where
  "carry_candidates w L =
     take 2 (order_by (\<lambda>j. (- job_updated_at j, job_id j))
       (filter (\<lambda>j. \<not> job_active j \<and> job_id j \<noteq> rw_job w \<and> job_batch j = rw_batch w
           \<and> job_cell j = rw_cell w \<and> factor_variants_json j = rw_factors_json w
           \<and> queue_row_json j = rw_row_json w
           \<and> same_cell L (job_plan j, job_cell j) (rw_plan w, rw_cell w)
           \<and> ((job_state j = Complete
                \<and> list_ex (\<lambda>a. attempt_job a = job_id j \<and> attempt_state a = AComplete) (attempts L))
              \<or> (job_state j = Failed \<and> actively_quarantined (job_id j) L)))
         (jobs L)))"

text \<open>\<open>UPDATE jobs SET position, active = 1, sync_generation, updated_at\<close>.\<close>

definition activate_job :: "string \<Rightarrow> int \<Rightarrow> int \<Rightarrow> rat \<Rightarrow> ledger \<Rightarrow> ledger result" where
  "activate_job jid position generation now L =
     update_jobs (\<lambda>j. job_id j = jid)
       (\<lambda>j. j\<lparr>job_position := position, job_active := True, job_generation := generation,
              job_updated_at := timestamp now\<rparr>) L"

definition fresh_job :: "row_call \<Rightarrow> int \<Rightarrow> rat \<Rightarrow> job_row" where
  "fresh_job w generation now =
     \<lparr>job_id = rw_job w, job_batch = rw_batch w, job_plan = rw_plan w, job_cell = rw_cell w,
      job_position = rw_position w, job_state = rw_state w, blockers_json = rw_blockers_json w,
      factor_variants_json = rw_factors_json w, queue_row_json = rw_row_json w, attempt_count = 0,
      eligible_at = 0, lease_token = None, lease_generation = 0, leased_by = None,
      lease_expires_at = None, current_stage = None, result_json = None, job_error = None,
      failure_class = None, job_active = True, job_generation = generation,
      job_created_at = timestamp now, job_updated_at = timestamp now\<rparr>"

datatype row_outcome = Carried | Created | Kept

definition sync_job ::
  "row_call \<Rightarrow> int \<Rightarrow> string \<Rightarrow> rat \<Rightarrow> ledger \<Rightarrow> (row_outcome \<times> ledger) result" where
  "sync_job w generation actor now L =
     (let existing = find (\<lambda>j. job_id j = rw_job w) (jobs L);
          carry = (case existing of
                     None \<Rightarrow> carry_candidates w L
                   | Some j \<Rightarrow> if job_state j = Queued \<or> job_state j = Blocked
                              then carry_candidates w L else [])
      in if length carry > 1
         then Inl (CoordinatorError
           (''ambiguous terminal job carry-forward for '' @ rw_batch w @ '':'' @ rw_cell w))
         else case carry of
           carried # _ \<Rightarrow>
             and_then (activate_job (job_id carried) (rw_position w) generation now L) (\<lambda>L.
             and_then (log_event ''job.execution-carried-forward'' now actor (Some (rw_batch w))
               (Some (job_id carried)) (Some (job_plan carried))
               (JObj [(''base_cell'', JStr (rw_cell w)),
                      (''state'', JStr (job_state_name (job_state carried))),
                      (''current_plan_digest'', JStr (rw_plan w)),
                      (''reason'', JStr ''identical resolved execution authority'')]) L) (\<lambda>L.
             Inr (Carried, L)))
         | [] \<Rightarrow>
             (case existing of
                None \<Rightarrow>
                  and_then (put_jobs (jobs L @ [fresh_job w generation now]) L) (\<lambda>L.
                  and_then (log_event (if rw_state w = Queued then ''job.queued'' else ''job.blocked'')
                    now actor (Some (rw_batch w)) (Some (rw_job w)) (Some (rw_plan w))
                    (JObj [(''position'', JInt (rw_position w)), (''base_cell'', JStr (rw_cell w)),
                           (''blockers'', rw_blockers w)]) L) (\<lambda>L.
                  Inr (Created, L)))
              | Some j \<Rightarrow>
                  if (job_batch j, job_plan j, job_cell j, factor_variants_json j, queue_row_json j)
                     \<noteq> (rw_batch w, rw_plan w, rw_cell w, rw_factors_json w, rw_row_json w)
                  then Inl (CoordinatorError (''stable job id collision: '' @ rw_job w))
                  else and_then (activate_job (rw_job w) (rw_position w) generation now L) (\<lambda>L.
                       Inr (Kept, L))))"

record sync_counts =
  sync_submitted :: int
  sync_blocked :: int
  sync_created :: int
  sync_carried :: int

definition sync_row ::
  "(json \<Rightarrow> string) \<Rightarrow> batch_config \<Rightarrow> resolved_plan \<Rightarrow> int \<Rightarrow> string \<Rightarrow> rat \<Rightarrow> resolved_row
   \<Rightarrow> sync_counts \<times> ledger \<Rightarrow> (sync_counts \<times> ledger) result" where
  "sync_row sha256_json batch plan generation actor now row = (\<lambda>(n, L).
     and_then (check_row sha256_json batch plan row) (\<lambda>w.
     and_then (sync_job w generation actor now L) (\<lambda>(outcome, L).
     Inr (\<lparr>sync_submitted = sync_submitted n + (if rw_state w = Blocked then 0 else 1),
           sync_blocked = sync_blocked n + (if rw_state w = Blocked then 1 else 0),
           sync_created = sync_created n + (if outcome = Created then 1 else 0),
           sync_carried = sync_carried n + (if outcome = Carried then 1 else 0)\<rparr>, L))))"

section \<open>The transaction\<close>

definition sync_one_batch ::
  "(json \<Rightarrow> string) \<Rightarrow> int \<Rightarrow> string \<Rightarrow> rat \<Rightarrow> int \<times> resolved_batch
   \<Rightarrow> sync_counts \<times> ledger \<Rightarrow> (sync_counts \<times> ledger) result" where
  "sync_one_batch sha256_json generation actor now = (\<lambda>(position, batch, plan, cs, rows) (n, L).
     and_then (sync_plan batch plan actor now L) (\<lambda>L.
     and_then (sync_batch batch plan position generation now L) (\<lambda>L.
     and_then (fold_result (sync_cell plan) cs L) (\<lambda>L.
     fold_result (sync_row sha256_json batch plan generation actor now) rows (n, L)))))"

text \<open>An admission whose batch is no longer active is cleared, each of the two by itself.\<close>

definition batch_still_active :: "string \<Rightarrow> ledger \<Rightarrow> bool" where
  "batch_still_active b L = list_ex (\<lambda>r. batch_id r = b \<and> batch_active r) (batches L)"

definition clear_admissions :: "ledger \<Rightarrow> ledger result" where
  "clear_admissions L =
     (let st = cstate L;
          stale = (\<lambda>b. case b of None \<Rightarrow> False | Some b \<Rightarrow> \<not> batch_still_active b L)
      in and_then (if stale (active_batch_id st)
                   then update_state (\<lambda>s. s\<lparr>active_batch_id := None, active_admission_id := None\<rparr>) L
                   else Inr L) (\<lambda>L.
         if stale (lookahead_batch_id st)
         then update_state (\<lambda>s. s\<lparr>lookahead_batch_id := None, lookahead_admission_id := None\<rparr>) L
         else Inr L))"

definition sync_body ::
  "(json \<Rightarrow> string) \<Rightarrow> queue_config \<Rightarrow> resolved_batch list \<Rightarrow> rat \<Rightarrow> string \<Rightarrow> ledger
   \<Rightarrow> (sync_counts \<times> ledger) result" where
  "sync_body sha256_json c resolved now actor L =
     (let generation = sync_generation (cstate L) + 1;
          zero = \<lparr>sync_submitted = 0, sync_blocked = 0, sync_created = 0, sync_carried = 0\<rparr>
      in and_then (sync_state c generation now L) (\<lambda>L.
         and_then (fold_result (sync_one_batch sha256_json generation actor now)
             (zip (map int [1..<length resolved + 1]) resolved) (zero, L)) (\<lambda>(n, L).
         and_then (clear_admissions L) (\<lambda>L.
         and_then (log_event ''queue.synced'' now actor None None None
           (JObj [(''config'', JStr (qc_name c)), (''generation'', JInt generation),
                  (''batches'', JInt (int (length resolved))),
                  (''submitted'', JInt (sync_submitted n)), (''blocked'', JInt (sync_blocked n)),
                  (''created_jobs'', JInt (sync_created n)),
                  (''carried_forward_jobs'', JInt (sync_carried n)),
                  (''armed'', JBool (qc_armed c))]) L) (\<lambda>L.
         Inr (n, L))))))"

definition sync_queue ::
  "(batch_config \<Rightarrow> resolved_plan result) \<Rightarrow> (json \<Rightarrow> string) \<Rightarrow> queue_config \<Rightarrow> rat \<Rightarrow> string \<Rightarrow> ledger
   \<Rightarrow> sync_counts result \<times> ledger" where
  "sync_queue resolver sha256_json c now actor L =
     (case map_result (select_batch resolver sha256_json) (qc_batches c) of
        Inl e \<Rightarrow> (Inl e, L)
      | Inr resolved \<Rightarrow> transaction (sync_body sha256_json c resolved now actor) L)"

section \<open>What synchronising does to the ledger\<close>

text \<open>An old job keeps everything but its place in the queue; a new one has never run.\<close>

definition synced :: "job_row \<Rightarrow> job_row \<Rightarrow> bool" where
  "synced j j' \<longleftrightarrow>
     (\<exists>p a g u. j' = j\<lparr>job_position := p, job_active := a, job_generation := g, job_updated_at := u\<rparr>)"

definition never_run :: "job_row \<Rightarrow> bool" where
  "never_run j \<longleftrightarrow>
     (job_state j = Queued \<or> job_state j = Blocked) \<and> attempt_count j = 0 \<and> lease_generation j = 0"

definition syncs :: "ledger \<Rightarrow> ledger \<Rightarrow> bool" where
  "syncs L L' \<longleftrightarrow>
     evolves L L'
     \<and> (\<exists>us vs. jobs L' = us @ vs \<and> list_all2 synced (jobs L) us \<and> (\<forall>v\<in>set vs. never_run v))
     \<and> attempts L' = attempts L \<and> spans L' = spans L \<and> quarantines L' = quarantines L
     \<and> workers L' = workers L"

lemma synced_refl [simp]: "synced j j"
  unfolding synced_def
  by (rule exI [of _ "job_position j"], rule exI [of _ "job_active j"], rule exI [of _ "job_generation j"],
      rule exI [of _ "job_updated_at j"]) simp

lemma synced_deactivate: "synced j (j\<lparr>job_active := a\<rparr>)"
  unfolding synced_def
  by (rule exI [of _ "job_position j"], rule exI [of _ a], rule exI [of _ "job_generation j"],
      rule exI [of _ "job_updated_at j"]) simp

lemma synced_activate:
  "synced j (j\<lparr>job_position := p, job_active := a, job_generation := g, job_updated_at := u\<rparr>)"
  unfolding synced_def by (rule exI [of _ p], rule exI [of _ a], rule exI [of _ g], rule exI [of _ u]) simp

lemma synced_fields:
  assumes "synced j j'"
  shows "job_id j' = job_id j" "job_state j' = job_state j" "attempt_count j' = attempt_count j"
    "lease_generation j' = lease_generation j" "lease_token j' = lease_token j"
    "leased_by j' = leased_by j" "lease_expires_at j' = lease_expires_at j" "job_batch j' = job_batch j"
    "job_plan j' = job_plan j" "job_cell j' = job_cell j" "result_json j' = result_json j"
    "factor_variants_json j' = factor_variants_json j" "queue_row_json j' = queue_row_json j"
  using assms by (auto simp: synced_def)

lemma synced_trans: "synced a b \<Longrightarrow> synced b c \<Longrightarrow> synced a c"
  unfolding synced_def by (elim exE, hypsubst, rule exI, rule exI, rule exI, rule exI, simp)

lemma synced_step: "synced j j' \<Longrightarrow> job_step j j' \<and> keeps_lease j j'"
  by (auto simp: synced_def job_step_def keeps_lease_def job_live_def)

lemma never_run_synced: "synced j j' \<Longrightarrow> never_run j \<Longrightarrow> never_run j'"
  by (simp add: never_run_def synced_fields)

lemma never_run_idle: "never_run j \<Longrightarrow> \<not> job_live j"
  by (auto simp: never_run_def job_live_def)

lemma list_all2_synced_refl [simp]: "list_all2 synced xs xs"
  by (rule list.rel_refl) simp

lemma syncs_refl: "syncs L L"
  unfolding syncs_def by (intro conjI exI [of _ "jobs L"] exI [of _ "[]"]) auto

lemma syncs_trans:
  assumes "syncs L M" and "syncs M N"
  shows "syncs L N"
proof -
  from assms(1) obtain us vs where 1: "jobs M = us @ vs" "list_all2 synced (jobs L) us" "\<forall>v\<in>set vs. never_run v"
    by (auto simp: syncs_def)
  from assms(2) obtain us' ws where 2: "jobs N = us' @ ws" "list_all2 synced (us @ vs) us'" "\<forall>v\<in>set ws. never_run v"
    by (auto simp: syncs_def 1(1))
  from 2(2) obtain a b where 3: "us' = a @ b" "list_all2 synced us a" "list_all2 synced vs b"
    by (auto simp: list_all2_append1)
  have "list_all2 synced (jobs L) a"
    using list_all2_trans [OF _ 1(2) 3(2), of synced] synced_trans by blast
  moreover have "\<forall>v\<in>set (b @ ws). never_run v"
    using 3(3) 1(3) 2(3) never_run_synced
    by (auto simp: list_all2_conv_all_nth in_set_conv_nth) (metis nth_mem)
  moreover have "jobs N = a @ (b @ ws)" using 2(1) 3(1) by simp
  ultimately have "\<exists>us vs. jobs N = us @ vs \<and> list_all2 synced (jobs L) us \<and> (\<forall>v\<in>set vs. never_run v)"
    by blast
  with assms show ?thesis by (auto simp: syncs_def intro: evolves_trans)
qed

lemma syncs_evolves: "syncs L L' \<Longrightarrow> evolves L L'"
  by (simp add: syncs_def)

lemma syncs_same_jobs:
  "evolves L L' \<Longrightarrow> jobs L' = jobs L \<Longrightarrow> attempts L' = attempts L \<Longrightarrow> spans L' = spans L \<Longrightarrow>
   quarantines L' = quarantines L \<Longrightarrow> workers L' = workers L \<Longrightarrow> syncs L L'"
  unfolding syncs_def by (intro conjI exI [of _ "jobs L"] exI [of _ "[]"]) auto

lemma syncs_logged: "logged L L' \<Longrightarrow> syncs L L'"
  by (rule syncs_same_jobs) (simp_all add: logged_evolves logged_frame)

lemma syncs_update_state: "update_state f L = Inr L' \<Longrightarrow> syncs L L'"
  using update_state_evolves [of f L L'] only_stateD [of L L'] only_state_update [of f L L']
  by (auto intro: syncs_same_jobs)

lemma syncs_update_batches:
  assumes "update_batches P f L = Inr L'" and "\<And>b. batch_step b (f b)"
  shows "syncs L L'"
  by (rule syncs_same_jobs [OF update_batches_evolves [OF assms(1)]])
    (use assms in \<open>auto simp: update_batches_def put_batches_def split: if_split_asm\<close>)

lemma syncs_update_jobs:
  assumes "update_jobs P f L = Inr L'" and "\<And>j. synced j (f j)"
  shows "syncs L L'"
proof -
  have "evolves L L'"
    using update_jobs_evolves [OF assms(1)] synced_step [OF assms(2)] by blast
  moreover have "list_all2 synced (jobs L) (jobs L')"
    using assms(2) unfolding update_jobs_frame(7) [OF assms(1)] update_where_def
    by (simp add: list_all2_conv_all_nth)
  ultimately show ?thesis
    unfolding syncs_def using assms(1)
    by (intro conjI exI [of _ "jobs L'"] exI [of _ "[]"])
      (auto simp: update_jobs_def put_jobs_def split: if_split_asm)
qed

lemma syncs_insert_job:
  assumes "put_jobs (jobs L @ [j]) L = Inr L'" and "never_run j"
  shows "syncs L L'"
  unfolding syncs_def using insert_job_evolves [OF assms(1)] assms
  by (intro conjI exI [of _ "jobs L"] exI [of _ "[j]"]) (auto simp: put_jobs_def split: if_split_asm)

lemma syncs_insert:
  "put_plans (plans L @ [p]) L = Inr L' \<Longrightarrow> syncs L L'"
  "put_batches (batches L @ [b]) L = Inr L' \<Longrightarrow> syncs L L'"
  "put_cells (cells L @ [c]) L = Inr L' \<Longrightarrow> syncs L L'"
  by (rule syncs_same_jobs,
      (erule insert_plan_evolves insert_batch_evolves insert_cell_evolves)?,
      (auto simp: put_defs split: if_split_asm)[5])+

lemma syncs_log: "log_event ty now ac b j p v L = Inr L' \<Longrightarrow> syncs L L'"
  by (intro syncs_logged loggedI)

lemma activate_job_syncs: "activate_job jid position generation now L = Inr L' \<Longrightarrow> syncs L L'"
  unfolding activate_job_def by (erule syncs_update_jobs) (auto simp: synced_def)

lemma sync_state_syncs:
  assumes "sync_state c generation now L = Inr L'"
  shows "syncs L L'"
proof -
  obtain A B f where A: "update_batches (\<lambda>b. True) (\<lambda>b. b\<lparr>batch_active := False\<rparr>) L = Inr A"
    and B: "update_jobs (\<lambda>j. True) (\<lambda>j. j\<lparr>job_active := False\<rparr>) A = Inr B"
    and f: "update_state f B = Inr L'"
    by (insert assms [unfolded sync_state_def], elim ledger_run, erule that, assumption+)
  have "syncs L A" using A by (rule syncs_update_batches) (simp add: batch_step_def)
  moreover have "syncs A B"
    using B by (rule syncs_update_jobs) (rule synced_deactivate)
  ultimately show ?thesis using syncs_update_state [OF f] syncs_trans by blast
qed

lemma sync_plan_syncs: "sync_plan batch plan actor now L = Inr L' \<Longrightarrow> syncs L L'"
  by (auto simp: sync_plan_def results split: option.split_asm if_split_asm
      intro: syncs_refl syncs_trans [OF syncs_insert(1) syncs_log])

lemma sync_batch_syncs: "sync_batch batch plan position generation now L = Inr L' \<Longrightarrow> syncs L L'"
  by (auto simp: sync_batch_def results batch_step_def split: if_split_asm
      intro: syncs_insert(2) syncs_update_batches)

lemma sync_cell_syncs: "sync_cell plan cell L = Inr L' \<Longrightarrow> syncs L L'"
  by (auto simp: sync_cell_def results split: option.split_asm if_split_asm
      intro: syncs_refl syncs_insert(3))

lemma fresh_never_run: "rw_state w = Queued \<or> rw_state w = Blocked \<Longrightarrow> never_run (fresh_job w generation now)"
  by (auto simp: never_run_def fresh_job_def)

lemma check_row_state: "check_row sha256_json batch plan row = Inr w \<Longrightarrow> rw_state w = Queued \<or> rw_state w = Blocked"
  by (auto simp: check_row_def results split: if_splits)

lemma sync_job_syncs:
  assumes "sync_job w generation actor now L = Inr (r, L')" and "rw_state w = Queued \<or> rw_state w = Blocked"
  shows "syncs L L'"
  using assms(1) unfolding sync_job_def Let_def
  by (auto simp: results simp del: fold_result.simps
      split: option.split_asm if_split_asm list.split_asm
      intro: activate_job_syncs syncs_trans [OF activate_job_syncs syncs_log]
        syncs_trans [OF syncs_insert_job [OF _ fresh_never_run [OF assms(2)]] syncs_log])

lemma sync_row_syncs:
  assumes "sync_row sha256_json batch plan generation actor now row (n, L) = Inr (n', L')"
  shows "syncs L L'"
  using assms sync_job_syncs check_row_state by (fastforce simp: sync_row_def results)

text \<open>A loop that carries the counts beside the ledger.\<close>

lemma fold_syncs:
  assumes "fold_result f xs (n, L) = Inr (n', L')"
    and "\<And>x n L n' L'. f x (n, L) = Inr (n', L') \<Longrightarrow> syncs L L'"
  shows "syncs L L'"
proof -
  have "syncs L (snd (n', L'))"
    by (rule fold_result_invariant [OF assms(1), where P = "\<lambda>s. syncs L (snd s)"])
      (auto simp: syncs_refl dest!: assms(2) intro: syncs_trans)
  then show ?thesis by simp
qed

lemma sync_one_batch_syncs:
  assumes "sync_one_batch sha256_json generation actor now (position, batch, plan, cs, rows) (n, L) = Inr (n', L')"
  shows "syncs L L'"
proof -
  obtain A B C where A: "sync_plan batch plan actor now L = Inr A"
    and B: "sync_batch batch plan position generation now A = Inr B"
    and C: "fold_result (sync_cell plan) cs B = Inr C"
    and D: "fold_result (sync_row sha256_json batch plan generation actor now) rows (n, C) = Inr (n', L')"
    using assms by (auto simp: sync_one_batch_def results)
  have "syncs B C"
    by (rule fold_result_rel [OF C]) (blast intro: syncs_refl syncs_trans sync_cell_syncs)+
  moreover have "syncs C L'" by (rule fold_syncs [OF D]) (rule sync_row_syncs)
  ultimately show ?thesis using sync_plan_syncs [OF A] sync_batch_syncs [OF B] syncs_trans by blast
qed

lemma clear_admissions_syncs: "clear_admissions L = Inr L' \<Longrightarrow> syncs L L'"
  by (auto simp: clear_admissions_def Let_def results split: if_split_asm
      intro: syncs_refl syncs_update_state syncs_trans)

lemma sync_body_syncs:
  assumes "sync_body sha256_json c resolved now actor L = Inr (n, L')"
  shows "syncs L L'"
proof -
  obtain A B C m where A: "sync_state c (sync_generation (cstate L) + 1) now L = Inr A"
    and B: "fold_result (sync_one_batch sha256_json (sync_generation (cstate L) + 1) actor now)
             (zip (map int [1..<length resolved + 1]) resolved)
             (\<lparr>sync_submitted = 0, sync_blocked = 0, sync_created = 0, sync_carried = 0\<rparr>, A) = Inr (m, B)"
    and C: "clear_admissions B = Inr C" and l: "logged C L'"
    by (insert assms [unfolded sync_body_def Let_def], elim ledger_run, rule that, assumption+)
  have "syncs A B"
    by (rule fold_syncs [OF B]) (auto intro: sync_one_batch_syncs simp: split_paired_all)
  then show ?thesis
    using sync_state_syncs [OF A] clear_admissions_syncs [OF C] syncs_logged [OF l] syncs_trans by blast
qed

text \<open>Synchronising keeps the protocol's tables coherent: no lease is touched.\<close>

lemma syncs_coherent:
  assumes "syncs L L'" and "lease_coherent L"
  shows "lease_coherent L'"
proof (rule coherent_rows [OF assms(2)])
  from assms(1) obtain us vs where J: "jobs L' = us @ vs" "list_all2 synced (jobs L) us" "\<forall>v\<in>set vs. never_run v"
    and same: "attempts L' = attempts L" "spans L' = spans L"
    by (auto simp: syncs_def)
  show "\<exists>j'\<in>set (jobs L'). keeps_lease j j'" if "j \<in> set (jobs L)" for j
  proof -
    from that obtain i where i: "i < length (jobs L)" "jobs L ! i = j" by (auto simp: in_set_conv_nth)
    then have "synced j (us ! i)" "us ! i \<in> set us" using J(2) by (auto simp: list_all2_conv_all_nth)
    then show ?thesis using synced_step by (auto simp: J(1))
  qed
  show "\<exists>j\<in>set (jobs L). keeps_lease j j'" if j': "j' \<in> set (jobs L')" "job_live j'" for j'
  proof -
    have "j' \<in> set us" using j' J never_run_idle by auto
    then obtain i where i: "i < length us" "us ! i = j'" by (auto simp: in_set_conv_nth)
    then have "synced (jobs L ! i) j'" "jobs L ! i \<in> set (jobs L)" using J(2) by (auto simp: list_all2_conv_all_nth)
    then show ?thesis using synced_step by blast
  qed
  show "attempts L' = attempts L" "spans L' = spans L" by (fact same)+
qed

interpretation sync_op: ledger_operation "sync_body sha256_json c resolved now actor"
  for sha256_json c resolved now actor
  by unfold_locales (use sync_body_syncs syncs_coherent syncs_evolves ledger_invD(2) in blast)+

section \<open>Every selected row is served\<close>

definition serves :: "row_call \<Rightarrow> ledger \<Rightarrow> bool" where
  "serves w L \<longleftrightarrow>
     (\<exists>j\<in>set (jobs L). job_active j \<and> job_batch j = rw_batch w \<and> job_cell j = rw_cell w
        \<and> factor_variants_json j = rw_factors_json w \<and> queue_row_json j = rw_row_json w)"

text \<open>Once the old queue is off, active jobs stay active.\<close>

definition keeps_active :: "ledger \<Rightarrow> ledger \<Rightarrow> bool" where
  "keeps_active L L' \<longleftrightarrow>
     (\<forall>j\<in>set (jobs L). job_active j \<longrightarrow> (\<exists>j'\<in>set (jobs L'). job_active j' \<and> synced j j'))"

lemma keeps_active_same: "jobs L' = jobs L \<Longrightarrow> keeps_active L L'"
  using synced_refl by (auto simp: keeps_active_def)

lemma keeps_active_trans: "keeps_active L M \<Longrightarrow> keeps_active M N \<Longrightarrow> keeps_active L N"
  unfolding keeps_active_def by (meson synced_trans)

lemma serves_kept:
  assumes "serves w L" and "keeps_active L L'"
  shows "serves w L'"
proof -
  from assms(1) obtain j where j: "j \<in> set (jobs L)" "job_active j" "job_batch j = rw_batch w"
      "job_cell j = rw_cell w" "factor_variants_json j = rw_factors_json w" "queue_row_json j = rw_row_json w"
    by (auto simp: serves_def)
  with assms(2) obtain j' where "j' \<in> set (jobs L')" "job_active j'" "synced j j'"
    by (auto simp: keeps_active_def)
  then show ?thesis using j synced_fields [of j j'] unfolding serves_def by (intro bexI [of _ j']) simp_all
qed

lemma activate_job_jobs:
  "activate_job jid position generation now L = Inr L' \<Longrightarrow>
   jobs L' = update_where (\<lambda>j. job_id j = jid)
       (\<lambda>j. j\<lparr>job_position := position, job_active := True, job_generation := generation,
              job_updated_at := timestamp now\<rparr>) (jobs L)"
  by (simp add: activate_job_def update_jobs_frame)

lemma activate_job_active:
  assumes run: "activate_job jid position generation now L = Inr L'"
  shows "keeps_active L L'"
  unfolding keeps_active_def
proof (intro ballI impI)
  fix j assume j: "j \<in> set (jobs L)" "job_active j"
  let ?f = "\<lambda>j::job_row. j\<lparr>job_position := position, job_active := True, job_generation := generation,
              job_updated_at := timestamp now\<rparr>"
  have mem: "(if job_id j = jid then ?f j else j) \<in> set (jobs L')"
    unfolding activate_job_jobs [OF run] update_where_def set_map using j(1) by (rule imageI)
  show "\<exists>j'\<in>set (jobs L'). job_active j' \<and> synced j j'"
  proof (cases "job_id j = jid")
    case True
    show ?thesis
    proof (rule bexI)
      show "?f j \<in> set (jobs L')" using mem unfolding if_P [OF True] .
      show "job_active (?f j) \<and> synced j (?f j)" by (rule conjI, simp, rule synced_activate)
    qed
  next
    case False
    show ?thesis
    proof (rule bexI)
      show "j \<in> set (jobs L')" using mem unfolding if_not_P [OF False] .
      show "job_active j \<and> synced j j" using j(2) by simp
    qed
  qed
qed

lemma logged_active: "logged L L' \<Longrightarrow> keeps_active L L'"
  by (simp add: keeps_active_same logged_frame)

lemma insert_job_active: "put_jobs (jobs L @ [j]) L = Inr L' \<Longrightarrow> keeps_active L L'"
  using synced_refl by (fastforce simp: keeps_active_def put_jobs_def split: if_split_asm)

lemma sync_job_cases:
  assumes run: "sync_job w generation actor now L = Inr (r, L')"
  shows "(r = Carried \<and> (\<exists>c M. c \<in> set (carry_candidates w L)
            \<and> activate_job (job_id c) (rw_position w) generation now L = Inr M \<and> logged M L'))
    \<or> (r = Created \<and> (\<exists>M. put_jobs (jobs L @ [fresh_job w generation now]) L = Inr M \<and> logged M L'))
    \<or> (r = Kept \<and> (\<exists>j\<in>set (jobs L). job_id j = rw_job w \<and> job_batch j = rw_batch w
            \<and> job_plan j = rw_plan w \<and> job_cell j = rw_cell w
            \<and> factor_variants_json j = rw_factors_json w \<and> queue_row_json j = rw_row_json w
            \<and> activate_job (job_id j) (rw_position w) generation now L = Inr L'))"
proof -
  define existing where "existing = find (\<lambda>j. job_id j = rw_job w) (jobs L)"
  define carry where "carry = (case existing of None \<Rightarrow> carry_candidates w L
      | Some j \<Rightarrow> if job_state j = Queued \<or> job_state j = Blocked then carry_candidates w L else [])"
  note run' = run [unfolded sync_job_def Let_def, folded existing_def, folded carry_def]
  have sub: "set carry \<subseteq> set (carry_candidates w L)"
    by (auto simp: carry_def split: option.splits if_splits)
  show ?thesis
  proof (cases carry)
    case (Cons c cs)
    with run' have "and_then (activate_job (job_id c) (rw_position w) generation now L) (\<lambda>L.
             and_then (log_event ''job.execution-carried-forward'' now actor (Some (rw_batch w))
               (Some (job_id c)) (Some (job_plan c))
               (JObj [(''base_cell'', JStr (rw_cell w)),
                      (''state'', JStr (job_state_name (job_state c))),
                      (''current_plan_digest'', JStr (rw_plan w)),
                      (''reason'', JStr ''identical resolved execution authority'')]) L) (\<lambda>L.
             Inr (Carried, L))) = Inr (r, L')"
      by (simp split: if_split_asm)
    then obtain M where "activate_job (job_id c) (rw_position w) generation now L = Inr M" "logged M L'" "r = Carried"
      by (auto simp: results intro: loggedI)
    then show ?thesis using sub Cons by auto
  next
    case Nil
    show ?thesis
    proof (cases existing)
      case None
      with run' Nil obtain M where "put_jobs (jobs L @ [fresh_job w generation now]) L = Inr M" "logged M L'" "r = Created"
        by (auto simp: results intro: loggedI)
      then show ?thesis by auto
    next
      case (Some j)
      with run' Nil have "activate_job (rw_job w) (rw_position w) generation now L = Inr L'" "r = Kept"
        and eq: "(job_batch j, job_plan j, job_cell j, factor_variants_json j, queue_row_json j)
          = (rw_batch w, rw_plan w, rw_cell w, rw_factors_json w, rw_row_json w)"
        by (auto simp: results split: if_split_asm)
      then show ?thesis using find_SomeD [OF Some [unfolded existing_def]] by auto
    qed
  qed
qed

lemma sync_job_effect:
  assumes run: "sync_job w generation actor now L = Inr (r, L')"
  shows "keeps_active L L' \<and> serves w L'"
proof -
  have act: "keeps_active L M \<and> serves w M" if "activate_job (job_id j) (rw_position w) generation now L = Inr M"
      "j \<in> set (jobs L)" "job_batch j = rw_batch w" "job_cell j = rw_cell w"
      "factor_variants_json j = rw_factors_json w" "queue_row_json j = rw_row_json w" for j M
  proof -
    let ?j = "j\<lparr>job_position := rw_position w, job_active := True, job_generation := generation,
              job_updated_at := timestamp now\<rparr>"
    have "?j \<in> set (jobs M)"
      unfolding activate_job_jobs [OF that(1)] update_where_def using that(2)
      by (auto intro!: image_eqI [where x = j])
    then have "serves w M" unfolding serves_def using that(3-) by (intro bexI [of _ ?j]) simp_all
    with activate_job_active [OF that(1)] show ?thesis by blast
  qed
  have cand: "c \<in> set (jobs L) \<and> job_batch c = rw_batch w \<and> job_cell c = rw_cell w
      \<and> factor_variants_json c = rw_factors_json w \<and> queue_row_json c = rw_row_json w"
    if "c \<in> set (carry_candidates w L)" for c
    using that by (auto simp: carry_candidates_def dest!: in_set_takeD)
  have log: "keeps_active L L' \<and> serves w L'" if "keeps_active L M \<and> serves w M" "logged M L'" for M
    using that logged_active keeps_active_trans serves_kept by blast
  have new: "keeps_active L M \<and> serves w M" if "put_jobs (jobs L @ [fresh_job w generation now]) L = Inr M" for M
    using insert_job_active [OF that] that
    by (auto simp: serves_def fresh_job_def put_jobs_def split: if_split_asm)
  show ?thesis using sync_job_cases [OF run] act cand log new by blast
qed

lemma sync_row_effect:
  assumes "sync_row sha256_json batch plan generation actor now row (n, L) = Inr (n', L')"
  shows "keeps_active L L' \<and> (\<exists>w. check_row sha256_json batch plan row = Inr w \<and> serves w L')"
  using assms sync_job_effect by (fastforce simp: sync_row_def results)

lemma fold_active:
  assumes "fold_result f xs (n, L) = Inr (n', L')"
    and "\<And>x n L n' L'. f x (n, L) = Inr (n', L') \<Longrightarrow> keeps_active L L'"
  shows "keeps_active L L'"
proof -
  have "keeps_active L (snd (n', L'))"
    by (rule fold_result_invariant [OF assms(1), where P = "\<lambda>s. keeps_active L (snd s)"])
      (auto simp: keeps_active_same dest!: assms(2) intro: keeps_active_trans)
  then show ?thesis by simp
qed

definition row_served :: "(json \<Rightarrow> string) \<Rightarrow> batch_config \<Rightarrow> resolved_plan \<Rightarrow> resolved_row \<Rightarrow> ledger \<Rightarrow> bool" where
  "row_served sha256_json batch plan row L \<longleftrightarrow>
     (\<exists>w. check_row sha256_json batch plan row = Inr w \<and> serves w L)"

lemma row_served_kept: "row_served h batch plan row L \<Longrightarrow> keeps_active L L' \<Longrightarrow> row_served h batch plan row L'"
  using serves_kept by (auto simp: row_served_def)

lemma sync_one_batch_effect:
  assumes run: "sync_one_batch h generation actor now (position, batch, plan, cs, rows) (n, L) = Inr (n', L')"
  shows "keeps_active L L' \<and> (\<forall>row\<in>set rows. row_served h batch plan row L')"
proof -
  obtain A B C where A: "sync_plan batch plan actor now L = Inr A"
    and B: "sync_batch batch plan position generation now A = Inr B"
    and C: "fold_result (sync_cell plan) cs B = Inr C"
    and D: "fold_result (sync_row h batch plan generation actor now) rows (n, C) = Inr (n', L')"
    using run by (auto simp: sync_one_batch_def results)
  have "jobs A = jobs L"
    using A by (auto simp: sync_plan_def results put_plans_def log_event_frame
        split: option.split_asm if_split_asm)
  moreover have "jobs B = jobs A"
    using B by (auto simp: sync_batch_def results update_batches_def put_batches_def split: if_split_asm)
  moreover have "jobs C = jobs B"
    by (rule fold_result_rel [OF C, where R = "\<lambda>x y. jobs y = jobs x"])
      (auto simp: sync_cell_def results put_cells_def split: option.split_asm if_split_asm)
  ultimately have LC: "keeps_active L C" by (simp add: keeps_active_same)
  have "\<forall>row\<in>set rows. row_served h batch plan row (snd (n', L'))"
    by (rule fold_result_each [OF D])
      (auto simp: row_served_def dest!: sync_row_effect intro: serves_kept)
  then show ?thesis
    using LC keeps_active_trans [OF LC] fold_active [OF D] sync_row_effect by auto
qed

lemma sync_body_serves:
  assumes run: "sync_body h c resolved now actor L = Inr (n, L')"
    and batch: "(batch, plan, cs, rows) \<in> set resolved" and row: "row \<in> set rows"
  shows "row_served h batch plan row L'"
proof -
  let ?g = "sync_generation (cstate L) + 1"
  let ?xs = "zip (map int [1..<length resolved + 1]) resolved"
  obtain A B C m where
    B: "fold_result (sync_one_batch h ?g actor now) ?xs
             (\<lparr>sync_submitted = 0, sync_blocked = 0, sync_created = 0, sync_carried = 0\<rparr>, A) = Inr (m, B)"
    and C: "clear_admissions B = Inr C" and l: "logged C L'"
    by (insert run [unfolded sync_body_def Let_def], elim ledger_run, rule that, assumption+)
  have "\<forall>(p, b, pl, cells, rs)\<in>set ?xs. \<forall>r\<in>set rs. row_served h b pl r (snd (m, B))"
    by (rule fold_result_each [OF B])
      (auto dest!: sync_one_batch_effect intro: row_served_kept simp: split_paired_all)
  moreover have "(batch, plan, cs, rows) \<in> snd ` set ?xs"
    using batch length_pos_if_in_set [OF batch] by (simp add: set_map [symmetric] map_snd_zip Suc_le_eq del: set_map)
  ultimately have "row_served h batch plan row B" using row by fastforce
  moreover have "jobs L' = jobs B"
    using C by (auto simp: logged_frame [OF l] clear_admissions_def Let_def results
        update_state_def put_state_def split: if_split_asm)
  ultimately show ?thesis using keeps_active_same row_served_kept by blast
qed

end
