(* ===== verification/Runtime.thy ===== *)
theory Runtime
  imports Sync
begin

text \<open>
  The two guarded edits of the runtime policy in src/fidb_poc/coordinator.py
  (\<open>reconfigure_runtime\<close>, \<open>disarm_for_recovery\<close>): of a paused queue whose generation, name,
  path, population and ordered batch references are the expected ones, only the policy
  columns of the state row are rewritten.  \<open>Path.resolve\<close> is the argument \<open>resolve_path\<close>.
\<close>

section \<open>Shared guards\<close>

type_synonym batch_reference = "string \<times> string \<times> json option \<times> int"

definition durable_batches :: "ledger \<Rightarrow> batch_reference list" where
  "durable_batches L =
     map (\<lambda>b. (batch_id b, batch_plan_path b, matrices_json b, batch_position b))
       (order_by (\<lambda>b. (batch_position b, batch_id b)) (filter batch_active (batches L)))"

definition configured_batches :: "queue_config \<Rightarrow> batch_reference list result" where
  "configured_batches c =
     map_result (\<lambda>(position, b).
         and_then (case bc_matrices b of None \<Rightarrow> Inr None
                   | Some ms \<Rightarrow> and_then (canonical_json (JArr (map JStr ms))) (\<lambda>d. Inr (Some d))) (\<lambda>matrices.
         Inr (bc_id b, bc_plan_path b, matrices, position)))
       (zip (map int [1..<length (qc_batches c) + 1]) (qc_batches c))"

definition configured_jobs :: "queue_config \<Rightarrow> int" where
  "configured_jobs c =
     sum_list (map (\<lambda>b. case bc_executions b of None \<Rightarrow> 0 | Some n \<Rightarrow> n) (qc_batches c))"

definition active_job_count :: "ledger \<Rightarrow> int" where
  "active_job_count L = int (length (filter job_active (jobs L)))"

text \<open>The paused queue the operator reviewed: its generation, name and path.\<close>

definition reviewed_queue ::
  "string \<Rightarrow> (string \<Rightarrow> string) \<Rightarrow> queue_config \<Rightarrow> int \<Rightarrow> ledger \<Rightarrow> unit result" where
  "reviewed_queue what resolve_path c generation L =
     (let st = cstate L
      in and_then (require (paused st) (CoordinatorError (what @ '' requires a paused queue''))) (\<lambda>_.
         and_then (require (sync_generation st = generation)
           (CoordinatorError (what @ '' sync generation changed''))) (\<lambda>_.
         and_then (require (str_of (config_name st) = qc_name c)
           (CoordinatorError (what @ '' queue name changed''))) (\<lambda>_.
         require (resolve_path (str_of (config_path st)) = qc_source_path c)
           (CoordinatorError (what @ '' queue path changed''))))))"

text \<open>The configuration describes the same jobs and the same ordered batches.\<close>

definition same_references :: "string \<Rightarrow> queue_config \<Rightarrow> int \<Rightarrow> ledger \<Rightarrow> unit result" where
  "same_references what c expected_jobs L =
     and_then (require (list_all (\<lambda>b. bc_executions b \<noteq> None) (qc_batches c))
       (CoordinatorError (what @ '' requires executions on every batch''))) (\<lambda>_.
     and_then (require (configured_jobs c = expected_jobs)
       (CoordinatorError (what @ '' queue job count changed''))) (\<lambda>_.
     and_then (configured_batches c) (\<lambda>configured.
     require (durable_batches L = configured)
       (CoordinatorError (what @ '' cannot change ordered batch references'')))))"

section \<open>Reconfiguration\<close>

definition optional_document :: "performance_profile option \<Rightarrow> json" where
  "optional_document p = (case p of None \<Rightarrow> JNull | Some q \<Rightarrow> pp_document q)"

definition reconfigure_body ::
  "(string \<Rightarrow> string) \<Rightarrow> queue_config \<Rightarrow> int \<Rightarrow> int \<Rightarrow> string \<Rightarrow> string \<Rightarrow> rat \<Rightarrow> ledger
   \<Rightarrow> (unit \<times> ledger) result" where
  "reconfigure_body resolve_path c generation expected_jobs reason actor now L =
     (let st = cstate L; what = ''runtime reconfiguration''
      in and_then (reviewed_queue what resolve_path c generation L) (\<lambda>_.
         and_then (require (live_active_count L = 0)
           (CoordinatorError ''runtime reconfiguration requires zero live active jobs'')) (\<lambda>_.
         and_then (require (active_job_count L = expected_jobs)
           (CoordinatorError ''runtime reconfiguration active-job count changed'')) (\<lambda>_.
         and_then (same_references what c expected_jobs L) (\<lambda>_.
         and_then (case qc_performance c of None \<Rightarrow> Inr None
                   | Some p \<Rightarrow> and_then (canonical_json (pp_document p)) (\<lambda>d. Inr (Some d))) (\<lambda>performance.
         and_then (canonical_json (qc_operations c)) (\<lambda>operations.
         and_then (update_state (\<lambda>s. s\<lparr>armed := qc_armed c, max_workers := qc_max_workers c,
           performance_json := performance, poll_seconds := qc_poll_seconds c,
           lease_seconds := qc_lease_seconds c, max_attempts := qc_max_attempts c,
           retry_backoff_seconds := qc_retry_backoff_seconds c,
           retry_backoff_max_seconds := qc_retry_backoff_max_seconds c,
           authority_failure_threshold := qc_authority_failure_threshold c,
           operations_json := operations\<rparr>) L) (\<lambda>L.
         and_then (log_event ''queue.runtime-reconfigured'' now actor None None None
           (JObj [(''reason'', JStr reason), (''sync_generation'', JInt generation),
                  (''active_jobs'', JInt expected_jobs),
                  (''previous'', JObj [(''armed'', JBool (armed st)),
                     (''max_workers'', JInt (max_workers st)),
                     (''performance_profile'', opt_json (performance_json st))]),
                  (''current'', JObj [(''armed'', JBool (qc_armed c)),
                     (''max_workers'', JInt (qc_max_workers c)),
                     (''performance_profile'', optional_document (qc_performance c))]),
                  (''execution_generation_preserved'', JBool True)]) L) (\<lambda>L.
         Inr ((), L))))))))))"

definition reconfigure_runtime ::
  "(string \<Rightarrow> string) \<Rightarrow> queue_config \<Rightarrow> int \<Rightarrow> int \<Rightarrow> string \<Rightarrow> string \<Rightarrow> rat \<Rightarrow> ledger
   \<Rightarrow> unit result \<times> ledger" where
  "reconfigure_runtime resolve_path c expected_sync_generation expected_active_jobs reason_arg actor now L =
     (case and_then (positive_integer (JInt expected_sync_generation) ''expected sync generation'') (\<lambda>generation.
           and_then (positive_integer (JInt expected_active_jobs) ''expected active jobs'') (\<lambda>expected_jobs.
           and_then (text_field (JStr reason_arg) ''runtime reconfiguration reason'') (\<lambda>reason.
           Inr (generation, expected_jobs, reason)))) of
        Inl e \<Rightarrow> (Inl e, L)
      | Inr (generation, expected_jobs, reason) \<Rightarrow>
          transaction (reconfigure_body resolve_path c generation expected_jobs reason actor now) L)"

section \<open>Disarming for recovery\<close>

definition disarm_body ::
  "(string \<Rightarrow> string) \<Rightarrow> queue_config \<Rightarrow> int \<Rightarrow> int \<Rightarrow> int \<Rightarrow> string \<Rightarrow> string \<Rightarrow> rat \<Rightarrow> ledger
   \<Rightarrow> (unit \<times> ledger) result" where
  "disarm_body resolve_path c generation expected_jobs expected_live reason actor now L =
     (let what = ''recovery disarm''
      in and_then (reviewed_queue what resolve_path c generation L) (\<lambda>_.
         and_then (require (active_job_count L = expected_jobs)
           (CoordinatorError ''recovery disarm active-job count changed'')) (\<lambda>_.
         and_then (require (live_active_count L = expected_live)
           (CoordinatorError ''recovery disarm live-job count changed'')) (\<lambda>_.
         and_then (same_references what c expected_jobs L) (\<lambda>_.
         and_then (update_state (\<lambda>s. s\<lparr>armed := False\<rparr>) L) (\<lambda>L.
         and_then (log_event ''queue.recovery-disarmed'' now actor None None None
           (JObj [(''reason'', JStr reason), (''sync_generation'', JInt generation),
                  (''active_jobs'', JInt expected_jobs), (''live_jobs'', JInt expected_live),
                  (''live_evidence_preserved'', JBool True)]) L) (\<lambda>L.
         Inr ((), L))))))))"

definition disarm_for_recovery ::
  "(string \<Rightarrow> string) \<Rightarrow> queue_config \<Rightarrow> int \<Rightarrow> int \<Rightarrow> int \<Rightarrow> string \<Rightarrow> string \<Rightarrow> rat \<Rightarrow> ledger
   \<Rightarrow> unit result \<times> ledger" where
  "disarm_for_recovery resolve_path c expected_sync_generation expected_active_jobs expected_live_jobs
     reason_arg actor now L =
     (case and_then (positive_integer (JInt expected_sync_generation) ''expected sync generation'') (\<lambda>generation.
           and_then (positive_integer (JInt expected_active_jobs) ''expected active jobs'') (\<lambda>expected_jobs.
           and_then (positive_integer (JInt expected_live_jobs) ''expected live jobs'') (\<lambda>expected_live.
           and_then (text_field (JStr reason_arg) ''recovery disarm reason'') (\<lambda>reason.
           and_then (require (\<not> qc_armed c)
             (CoordinatorError ''recovery disarm requires disarmed queue TOML'')) (\<lambda>_.
           Inr (generation, expected_jobs, expected_live, reason)))))) of
        Inl e \<Rightarrow> (Inl e, L)
      | Inr (generation, expected_jobs, expected_live, reason) \<Rightarrow>
          transaction (disarm_body resolve_path c generation expected_jobs expected_live reason actor now) L)"

section \<open>Laws\<close>

text \<open>The policy columns, and everything else of the state row.\<close>

definition same_execution :: "coordinator_state \<Rightarrow> coordinator_state \<Rightarrow> bool" where
  "same_execution s s' \<longleftrightarrow>
     config_name s' = config_name s \<and> config_path s' = config_path s \<and> paused s' = paused s
     \<and> active_batch_id s' = active_batch_id s \<and> active_admission_id s' = active_admission_id s
     \<and> lookahead_batch_id s' = lookahead_batch_id s \<and> lookahead_admission_id s' = lookahead_admission_id s
     \<and> last_schedule_admission_id s' = last_schedule_admission_id s
     \<and> sync_generation s' = sync_generation s \<and> synced_at s' = synced_at s"

lemma reviewed_queue_Inr:
  "reviewed_queue what resolve_path c generation L = Inr u \<Longrightarrow>
   paused (cstate L) \<and> sync_generation (cstate L) = generation"
  by (auto simp: reviewed_queue_def Let_def results)

lemma reconfigure_body_Inr:
  assumes run: "reconfigure_body resolve_path c generation expected_jobs reason actor now L = Inr (u, L')"
  shows "\<exists>f. state_step f L L' \<and> (\<forall>s. same_execution s (f s)) \<and> armed (cstate L') = qc_armed c
      \<and> max_workers (cstate L') = qc_max_workers c"
    and "live_active_count L = 0" "active_job_count L = expected_jobs" "paused (cstate L)"
proof -
  obtain performance operations A v where r: "reviewed_queue ''runtime reconfiguration'' resolve_path c generation L = Inr v"
    and n: "live_active_count L = 0" "active_job_count L = expected_jobs"
    and A: "update_state (\<lambda>s. s\<lparr>armed := qc_armed c, max_workers := qc_max_workers c,
           performance_json := performance, poll_seconds := qc_poll_seconds c,
           lease_seconds := qc_lease_seconds c, max_attempts := qc_max_attempts c,
           retry_backoff_seconds := qc_retry_backoff_seconds c,
           retry_backoff_max_seconds := qc_retry_backoff_max_seconds c,
           authority_failure_threshold := qc_authority_failure_threshold c,
           operations_json := operations\<rparr>) L = Inr A" (is "update_state ?f L = _")
    and l: "logged A L'"
    by (insert run [unfolded reconfigure_body_def Let_def], elim ledger_run, erule that, assumption+)
  have s: "state_step ?f L L'" by (rule state_step_logged [OF state_step_update [OF A] l])
  then show "\<exists>f. state_step f L L' \<and> (\<forall>s. same_execution s (f s)) \<and> armed (cstate L') = qc_armed c
      \<and> max_workers (cstate L') = qc_max_workers c"
    by (intro exI [of _ ?f]) (simp add: same_execution_def state_step_def)
  show "live_active_count L = 0" "active_job_count L = expected_jobs" by (fact n)+
  show "paused (cstate L)" using reviewed_queue_Inr [OF r] by simp
qed

lemma disarm_body_Inr:
  assumes run: "disarm_body resolve_path c generation expected_jobs expected_live reason actor now L = Inr (u, L')"
  shows "state_step (\<lambda>s. s\<lparr>armed := False\<rparr>) L L'"
    and "live_active_count L = expected_live" "active_job_count L = expected_jobs" "paused (cstate L)"
proof -
  obtain A v where r: "reviewed_queue ''recovery disarm'' resolve_path c generation L = Inr v"
    and n: "active_job_count L = expected_jobs" "live_active_count L = expected_live"
    and A: "update_state (\<lambda>s. s\<lparr>armed := False\<rparr>) L = Inr A" and l: "logged A L'"
    by (insert run [unfolded disarm_body_def Let_def], elim ledger_run, erule that, assumption+)
  show "state_step (\<lambda>s. s\<lparr>armed := False\<rparr>) L L'" by (rule state_step_logged [OF state_step_update [OF A] l])
  show "live_active_count L = expected_live" "active_job_count L = expected_jobs" by (fact n)+
  show "paused (cstate L)" using reviewed_queue_Inr [OF r] by simp
qed

interpretation reconfigure_op: ledger_operation
  "reconfigure_body resolve_path c generation expected_jobs reason actor now"
  for resolve_path c generation expected_jobs reason actor now
  by unfold_locales (use reconfigure_body_Inr(1) state_step_contract ledger_invD in blast)+

interpretation disarm_op: ledger_operation
  "disarm_body resolve_path c generation expected_jobs expected_live reason actor now"
  for resolve_path c generation expected_jobs expected_live reason actor now
  by unfold_locales (use disarm_body_Inr(1) state_step_contract ledger_invD in blast)+

end
