(* ===== verification/Queries.thy ===== *)
theory Queries
  imports Runtime
begin

text \<open>
  The worker heartbeat and the read-only reports of src/fidb_poc/coordinator.py:
  \<open>touch_worker\<close>, \<open>status\<close>, \<open>pool_status\<close>, \<open>events\<close>, \<open>resolution_inputs\<close>, the public
  payloads of jobs, attempts, spans and workers, \<open>timings\<close> and \<open>snapshot\<close>.  Constant fields
  of the documents (schema versions, labels of sources and policies) are left out.
\<close>

section \<open>Heartbeats\<close>

text \<open>\<open>dict.update\<close>.\<close>

definition dict_update :: "(string \<times> json) list \<Rightarrow> (string \<times> json) list \<Rightarrow> (string \<times> json) list" where
  "dict_update d new =
     foldl (\<lambda>d (k, v). if k \<in> fst ` set d then map (\<lambda>(k', v'). (k', if k' = k then v else v')) d
                       else d @ [(k, v)]) d new"

definition touch_body ::
  "string \<Rightarrow> string \<Rightarrow> string list \<Rightarrow> (string \<times> json) list \<Rightarrow> rat \<Rightarrow> ledger \<Rightarrow> (unit \<times> ledger) result" where
  "touch_body worker transport pools metadata now L =
     (let existing = find (\<lambda>w. worker_id w = worker) (workers L)
      in and_then (case existing of
                     None \<Rightarrow> Inr []
                   | Some w \<Rightarrow> (case worker_metadata w of JObj kvs \<Rightarrow> Inr kvs
                                | _ \<Rightarrow> Inl (TypeError ''worker metadata is not a dict''))) (\<lambda>old.
         and_then (canonical_json (JObj (dict_update old metadata))) (\<lambda>document.
         and_then (if existing = None
             then put_workers (workers L @
               [\<lparr>worker_id = worker, worker_transport = transport,
                 pools_json = JArr (map JStr pools), worker_online = True,
                 worker_metadata = document, registered_at = timestamp now,
                 last_seen_at = timestamp now\<rparr>]) L
             else update_workers (\<lambda>w. worker_id w = worker)
               (\<lambda>w. w\<lparr>worker_transport := transport, pools_json := JArr (map JStr pools),
                      worker_online := True, worker_metadata := document,
                      last_seen_at := timestamp now\<rparr>) L) (\<lambda>L.
         and_then (if existing = None
             then log_event ''worker.registered'' now worker None None None
               (JObj [(''transport'', JStr transport), (''pools'', JArr (map JStr pools))]) L
             else Inr L) (\<lambda>L.
         Inr ((), L))))))"

record worker_payload =
  wp_worker_id :: string
  wp_transport :: string
  wp_pools :: json
  wp_state :: string
  wp_metadata :: json
  wp_registered_at :: stamp
  wp_last_seen_at :: stamp

text \<open>\<open>_worker_payload\<close>, at the wall-clock instant \<open>clock\<close>: online for 180 seconds.\<close>

definition worker_payload :: "stamp \<Rightarrow> worker_row \<Rightarrow> worker_payload" where
  "worker_payload clock w =
     \<lparr>wp_worker_id = worker_id w, wp_transport = worker_transport w, wp_pools = pools_json w,
      wp_state = (if clock - last_seen_at w \<le> 180 * 1000000 then ''online'' else ''offline''),
      wp_metadata = worker_metadata w, wp_registered_at = registered_at w,
      wp_last_seen_at = last_seen_at w\<rparr>"

definition touch_worker ::
  "stamp \<Rightarrow> string \<Rightarrow> string \<Rightarrow> string list \<Rightarrow> (string \<times> json) list option \<Rightarrow> rat \<Rightarrow> ledger
   \<Rightarrow> worker_payload result \<times> ledger" where
  "touch_worker clock worker_arg transport pools metadata now L =
     (case and_then (text_field (JStr worker_arg) ''worker id'') (\<lambda>worker.
           and_then (require (transport = ''local'' \<or> transport = ''remote-http'')
             (ValueError (''unsupported worker transport: '' @ transport))) (\<lambda>_.
           and_then (require (pools \<noteq> [] \<and> set pools \<subseteq> set WORKER_POOLS)
             (ValueError ''worker pools contain an unsupported pool'')) (\<lambda>_.
           and_then (require (distinct pools) (ValueError ''worker pools contain duplicates'')) (\<lambda>_.
           Inr worker)))) of
        Inl e \<Rightarrow> (Inl e, L)
      | Inr worker \<Rightarrow>
          (case transaction (touch_body worker transport pools
              (case metadata of None \<Rightarrow> [] | Some m \<Rightarrow> m) now) L of
             (Inl e, L) \<Rightarrow> (Inl e, L)
           | (Inr _, L) \<Rightarrow>
               (case find (\<lambda>w. worker_id w = worker) (workers L) of
                  None \<Rightarrow> (Inl (TypeError ''NoneType object is not subscriptable''), L)
                | Some w \<Rightarrow> (Inr (worker_payload clock w), L))))"

section \<open>Status\<close>

record status_document =
  sd_status :: string
  sd_armed :: bool
  sd_paused :: bool
  sd_max_workers :: int
  sd_performance_profile :: "json option"
  sd_active_workers :: int
  sd_available_worker_slots :: int
  sd_execution_block :: execution_block
  sd_sync_generation :: int
  sd_counts :: state_counts
  sd_claimable :: int
  sd_retry_wait :: int
  sd_pathological_quarantines :: int
  sd_last_event_id :: int

definition eligible_count :: "rat \<Rightarrow> job_row list \<Rightarrow> int" where
  "eligible_count now rows = int (length (filter (\<lambda>j. job_state j = Queued \<and> eligible_at j \<le> now) rows))"

definition runtime_status :: "bool \<Rightarrow> bool \<Rightarrow> state_counts \<Rightarrow> string" where
  "runtime_status is_armed is_paused counts =
     (if \<not> is_armed then ''disarmed'' else if is_paused then ''paused''
      else if count_in counts Queued \<noteq> 0 then ''ready''
      else if count_in counts Leased \<noteq> 0 \<or> count_in counts Running \<noteq> 0 then ''active''
      else ''idle'')"

definition status :: "rat \<Rightarrow> ledger \<Rightarrow> status_document" where
  "status now L =
     (let st = cstate L;
          counts = counts_of (active_jobs L);
          claimable_jobs = eligible_count now (active_jobs L);
          active_workers = count_in counts Leased + count_in counts Running
      in \<lparr>sd_status = runtime_status (armed st) (paused st) counts, sd_armed = armed st,
          sd_paused = paused st, sd_max_workers = max_workers st,
          sd_performance_profile = performance_json st, sd_active_workers = active_workers,
          sd_available_worker_slots = max 0 (max_workers st - active_workers),
          sd_execution_block = execution_block L, sd_sync_generation = sync_generation st,
          sd_counts = counts,
          sd_claimable = (if armed st \<and> \<not> paused st then claimable_jobs else 0),
          sd_retry_wait = count_in counts Queued - claimable_jobs,
          sd_pathological_quarantines =
            int (length (filter (\<lambda>q. q_state q = QActive) (quarantines L))),
          sd_last_event_id = coalesce_max (map event_id (events L))\<rparr>)"

record pool_document =
  pd_pool :: string
  pd_armed :: bool
  pd_paused :: bool
  pd_counts :: state_counts
  pd_eligible :: int
  pd_remaining :: int
  pd_drained :: bool

definition pool_status :: "string \<Rightarrow> rat \<Rightarrow> ledger \<Rightarrow> pool_document result" where
  "pool_status pool now L =
     (if pool \<notin> set WORKER_POOLS then Inl (ValueError (''unsupported worker pool: '' @ pool))
      else
        let accepted = map fst (filter (\<lambda>(j, b, c). job_active j \<and> batch_active b
              \<and> worker_pool_accepts_cell pool (cell_json c)) (joined L));
            counts = counts_of accepted;
            remaining = remaining_in counts
        in Inr \<lparr>pd_pool = pool, pd_armed = armed (cstate L), pd_paused = paused (cstate L),
                pd_counts = counts, pd_eligible = eligible_count now accepted,
                pd_remaining = remaining, pd_drained = (remaining = 0)\<rparr>)"

definition events_after :: "int \<Rightarrow> ledger \<Rightarrow> event_row list" where
  "events_after cursor L = order_by event_id (filter (\<lambda>e. event_id e > cursor) (events L))"

section \<open>Payloads\<close>

record resolution_input =
  ri_job_id :: string
  ri_batch_id :: string
  ri_state :: string
  ri_batch_position :: int
  ri_job_position :: int
  ri_factor_variants :: json
  ri_cell :: json

definition resolution_inputs :: "string list option \<Rightarrow> ledger \<Rightarrow> resolution_input list result" where
  "resolution_inputs batch_ids L =
     and_then (case batch_ids of
         None \<Rightarrow> Inr None
       | Some ids \<Rightarrow>
           and_then (map_result (\<lambda>v. identifier_field (JStr v) ''preflight batch id'') ids) (\<lambda>ids.
           if ids = [] then Inl (ValueError ''preflight batch selection cannot be empty'')
           else Inr (Some ids))) (\<lambda>selection.
     Inr (map (\<lambda>(j, b, c). \<lparr>ri_job_id = job_id j, ri_batch_id = job_batch j,
            ri_state = job_state_name (job_state j), ri_batch_position = batch_position b,
            ri_job_position = job_position j, ri_factor_variants = factor_variants_json j,
            ri_cell = cell_json c\<rparr>)
       (order_by (\<lambda>(j, b, c). (batch_position b, job_position j, job_id j))
         (filter (\<lambda>(j, b, c). job_active j \<and> batch_active b
             \<and> (case selection of None \<Rightarrow> True | Some ids \<Rightarrow> job_batch j \<in> set ids)) (joined L)))))"

record attempt_payload =
  ap_attempt_id :: int
  ap_job_id :: string
  ap_attempt_number :: int
  ap_lease_generation :: int
  ap_worker_id :: string
  ap_state :: string
  ap_started_at :: stamp
  ap_lease_expires_at :: rat
  ap_ended_at :: "stamp option"
  ap_duration_ns :: "int option"
  ap_queue_wait_duration_ns :: int
  ap_error :: "string option"

text \<open>The attempt before an attempt of the same job, for the time it waited in the queue.\<close>

definition previous_ended_at :: "attempt_row \<Rightarrow> ledger \<Rightarrow> stamp option" where
  "previous_ended_at a L =
     (case find (\<lambda>p. attempt_job p = attempt_job a \<and> attempt_number p = attempt_number a - 1) (attempts L) of
        None \<Rightarrow> None | Some p \<Rightarrow> attempt_ended_at p)"

definition attempt_payload :: "ledger \<Rightarrow> attempt_row \<Rightarrow> job_row \<Rightarrow> attempt_payload" where
  "attempt_payload L a j =
     (let wait_from = (case previous_ended_at a L of Some t \<Rightarrow> t | None \<Rightarrow> job_created_at j)
      in \<lparr>ap_attempt_id = attempt_id a, ap_job_id = attempt_job a, ap_attempt_number = attempt_number a,
          ap_lease_generation = attempt_generation a, ap_worker_id = attempt_worker a,
          ap_state = attempt_state_name (attempt_state a), ap_started_at = attempt_started_at a,
          ap_lease_expires_at = attempt_expires_at a, ap_ended_at = attempt_ended_at a,
          ap_duration_ns = map_option (elapsed_ns (attempt_started_at a)) (attempt_ended_at a),
          ap_queue_wait_duration_ns = elapsed_ns wait_from (attempt_started_at a),
          ap_error = attempt_error a\<rparr>)"

section \<open>Timings\<close>

abbreviation MAX_TIMING_LIMIT :: int where
  "MAX_TIMING_LIMIT \<equiv> 500"

abbreviation MAX_TIMING_SAMPLES :: nat where
  "MAX_TIMING_SAMPLES \<equiv> 10000"

definition timing_limit :: "json \<Rightarrow> string \<Rightarrow> int result" where
  "timing_limit v what =
     (case v of
        JInt n \<Rightarrow> if n < 1 \<or> n > MAX_TIMING_LIMIT then Inl (ValueError (what @ '' must be 1-500'')) else Inr n
      | _ \<Rightarrow> Inl (ValueError (what @ '' must be 1-500'')))"

definition newest_first :: "('r \<Rightarrow> int) \<Rightarrow> 'r list \<Rightarrow> 'r list" where
  "newest_first key rows = order_by (\<lambda>r. - key r) rows"

text \<open>A terminal span has a duration (\<open>span_check\<close>).\<close>

definition span_duration :: "span_row \<Rightarrow> int" where
  "span_duration s = (case span_duration_ns s of None \<Rightarrow> 0 | Some d \<Rightarrow> d)"

definition measured_span :: "span_row \<Rightarrow> bool" where
  "measured_span s = (span_state s = Completed \<and> span_duration_source s = Some WorkerMonotonic)"

text \<open>The most recent measured spans, one more than the window to detect truncation.\<close>

definition stage_samples :: "ledger \<Rightarrow> span_row list" where
  "stage_samples L = take (MAX_TIMING_SAMPLES + 1) (newest_first span_id (filter measured_span (spans L)))"

definition stage_durations :: "ledger \<Rightarrow> string \<Rightarrow> int list" where
  "stage_durations L stage =
     map span_duration (filter (\<lambda>s. span_stage s = stage) (take MAX_TIMING_SAMPLES (stage_samples L)))"

record stage_timing =
  tm_stage :: string
  tm_sample_count :: int
  tm_state_counts :: "(span_state \<times> int) list"
  tm_duration_ns :: "percentile_summary option"

definition stage_timings :: "ledger \<Rightarrow> stage_timing list" where
  "stage_timings L =
     map (\<lambda>stage. \<lparr>tm_stage = stage, tm_sample_count = int (length (stage_durations L stage)),
         tm_state_counts = map (\<lambda>s. (s, int (length (filter (\<lambda>r. span_stage r = stage \<and> span_state r = s)
           (spans L))))) [Started, Completed, SFailed, Skipped, Interrupted],
         tm_duration_ns = percentiles (stage_durations L stage)\<rparr>)
       (sort (remdups (map span_stage (spans L))))"

text \<open>\<open>attempts JOIN jobs JOIN resolved_cells\<close>.\<close>

definition attempt_workflows :: "ledger \<Rightarrow> (attempt_row \<times> job_row \<times> cell_row) list" where
  "attempt_workflows L =
     concat (map (\<lambda>a. concat (map (\<lambda>j. map (\<lambda>c. (a, j, c))
         (filter (\<lambda>c. cell_plan c = job_plan j \<and> cell_id c = job_cell j) (cells L)))
       (filter (\<lambda>j. job_id j = attempt_job a) (jobs L)))) (attempts L))"

definition workflow_samples :: "ledger \<Rightarrow> (attempt_row \<times> job_row \<times> cell_row) list" where
  "workflow_samples L =
     take (MAX_TIMING_SAMPLES + 1) (newest_first (\<lambda>(a, j, c). attempt_id a)
       (filter (\<lambda>(a, j, c). attempt_state a = AComplete \<and> attempt_ended_at a \<noteq> None) (attempt_workflows L)))"

definition completed_durations :: "ledger \<Rightarrow> (string \<times> int) list" where
  "completed_durations L =
     List.map_filter (\<lambda>(a, j, c). map_option (\<lambda>d. (cell_matrix c, d)) (ap_duration_ns (attempt_payload L a j)))
       (take MAX_TIMING_SAMPLES (workflow_samples L))"

definition workflow_waits :: "ledger \<Rightarrow> string \<Rightarrow> int list" where
  "workflow_waits L workflow =
     map (\<lambda>(a, j, c). ap_queue_wait_duration_ns (attempt_payload L a j))
       (filter (\<lambda>(a, j, c). cell_matrix c = workflow) (take MAX_TIMING_SAMPLES (workflow_samples L)))"

record workflow_timing =
  wt_workflow :: string
  wt_sample_count :: int
  wt_state_counts :: "(attempt_state \<times> int) list"
  wt_duration_ns :: "percentile_summary option"
  wt_queue_wait_duration_ns :: "percentile_summary option"

definition workflow_timings :: "ledger \<Rightarrow> workflow_timing list" where
  "workflow_timings L =
     map (\<lambda>w.
         let durations = map snd (filter (\<lambda>(v, d). v = w) (completed_durations L))
         in \<lparr>wt_workflow = w, wt_sample_count = int (length durations),
             wt_state_counts = map (\<lambda>s. (s, int (length (filter (\<lambda>(a, j, c). cell_matrix c = w
                \<and> attempt_state a = s) (attempt_workflows L))))) [ALeased, ARunning, AComplete, AFailed, AExpired],
             wt_duration_ns = percentiles durations,
             wt_queue_wait_duration_ns = percentiles (workflow_waits L w)\<rparr>)
       (sort (remdups (map (\<lambda>(a, j, c). cell_matrix c) (attempt_workflows L))))"

text \<open>\<open>service_jobs_per_hour\<close> over the positive durations.\<close>

definition throughput :: "int list \<Rightarrow> (int \<times> rat) option" where
  "throughput durations =
     (let positive = filter (\<lambda>d. d > 0) durations
      in if positive = [] then None
         else Some (int (length positive),
                3600000000000 / (of_int (sum_list positive) / of_int (int (length positive)))))"

record timings_document =
  td_limit :: int
  td_aggregates_truncated :: bool
  td_stage_spans :: int
  td_completed_stage_spans :: int
  td_completed_workflows :: int
  td_throughput :: "(int \<times> rat) option"
  td_stages :: "stage_timing list"
  td_workflows :: "workflow_timing list"
  td_recent :: "span_row list"

definition timings :: "json \<Rightarrow> ledger \<Rightarrow> timings_document result" where
  "timings limit_arg L =
     and_then (timing_limit limit_arg ''timing limit'') (\<lambda>limit.
     Inr \<lparr>td_limit = limit,
          td_aggregates_truncated = (length (stage_samples L) > MAX_TIMING_SAMPLES
             \<or> length (workflow_samples L) > MAX_TIMING_SAMPLES),
          td_stage_spans = int (length (spans L)),
          td_completed_stage_spans = int (length (filter measured_span (spans L))),
          td_completed_workflows = int (length (filter (\<lambda>a. attempt_state a = AComplete
             \<and> attempt_ended_at a \<noteq> None) (attempts L))),
          td_throughput = throughput (map snd (completed_durations L)),
          td_stages = stage_timings L, td_workflows = workflow_timings L,
          td_recent = take (nat limit) (newest_first span_id (spans L))\<rparr>)"

section \<open>Snapshot\<close>

record snapshot_document =
  sn_status :: status_document
  sn_batches :: "batch_row list"
  sn_jobs :: "(job_row \<times> int) list"
  sn_attempts :: "attempt_payload list"
  sn_attempts_total :: int
  sn_attempts_truncated :: bool
  sn_workers :: "worker_payload list"
  sn_stage_attempts :: "span_row list"
  sn_stage_attempts_total :: int
  sn_stage_attempts_truncated :: bool
  sn_events :: "event_row list option"

definition last_rows :: "json option \<Rightarrow> 'r list \<Rightarrow> 'r list" where
  "last_rows limit newest =
     rev (case limit of Some (JInt n) \<Rightarrow> take (nat n) newest | _ \<Rightarrow> newest)"

definition check_limit :: "json option \<Rightarrow> string \<Rightarrow> unit result" where
  "check_limit limit what =
     (case limit of None \<Rightarrow> Inr () | Some v \<Rightarrow> and_then (timing_limit v what) (\<lambda>_. Inr ()))"

definition snapshot ::
  "bool \<Rightarrow> bool \<Rightarrow> json option \<Rightarrow> json option \<Rightarrow> stamp \<Rightarrow> rat \<Rightarrow> ledger \<Rightarrow> snapshot_document result" where
  "snapshot include_inactive include_events attempt_limit stage_limit clock now L =
     and_then (check_limit attempt_limit ''attempt_limit'') (\<lambda>_.
     and_then (check_limit stage_limit ''stage_attempt_limit'') (\<lambda>_.
     let shown = (\<lambda>jid. list_ex (\<lambda>j. job_id j = jid \<and> (include_inactive \<or> job_active j)) (jobs L));
         attempt_rows = concat (map (\<lambda>a. map (\<lambda>j. (a, j)) (filter (\<lambda>j. job_id j = attempt_job a
            \<and> (include_inactive \<or> job_active j)) (jobs L))) (attempts L));
         picked_attempts = last_rows attempt_limit (newest_first (\<lambda>(a, j). attempt_id a) attempt_rows);
         span_rows = filter (\<lambda>s. shown (span_job s)) (spans L);
         picked_spans = last_rows stage_limit (newest_first span_id span_rows)
     in Inr \<lparr>sn_status = status now L,
            sn_batches = order_by (\<lambda>b. (\<not> batch_active b, batch_position b, batch_id b))
              (filter (\<lambda>b. include_inactive \<or> batch_active b) (batches L)),
            sn_jobs = map (\<lambda>(j, b). (j, batch_position b))
              (order_by (\<lambda>(j, b). (\<not> batch_active b, batch_position b, job_position j, job_id j))
                (filter (\<lambda>(j, b). include_inactive \<or> (job_active j \<and> batch_active b)) (jobs_with_batch L))),
            sn_attempts = map (\<lambda>(a, j). attempt_payload L a j) picked_attempts,
            sn_attempts_total = int (length attempt_rows),
            sn_attempts_truncated = (length attempt_rows > length picked_attempts),
            sn_workers = map (worker_payload clock) (order_by worker_id (workers L)),
            sn_stage_attempts = picked_spans,
            sn_stage_attempts_total = int (length span_rows),
            sn_stage_attempts_truncated = (length span_rows > length picked_spans),
            sn_events = (if include_events then Some (events_after 0 L) else None)\<rparr>))"

section \<open>Laws\<close>

lemma count_in_counts_of [simp]: "count_in (counts_of rows) s = count_state rows s"
proof -
  have "map_of (map (\<lambda>s. (s, f s)) xs) s = Some (f s)" if "s \<in> set xs" for xs and f :: "job_state \<Rightarrow> int"
    using that by (induction xs) auto
  then show ?thesis using set_JOB_STATES by (simp add: count_in_def counts_of_def)
qed

text \<open>The six states partition the rows.\<close>

lemma counts_of_total: "sum_list (map snd (counts_of rows)) = int (length rows)"
proof -
  have "sum_list (map snd (counts_of rows)) = sum_list (map (count_state rows) JOB_STATES)"
    by (simp add: counts_of_def comp_def sum_list_distinct_conv_sum_set distinct_JOB_STATES)
  also have "\<dots> = int (length rows)"
  proof (induction rows)
    case (Cons j rows)
    then show ?case by (cases "job_state j") (simp_all add: count_state_def JOB_STATES_def)
  qed (simp add: count_state_def JOB_STATES_def)
  finally show ?thesis .
qed

lemma pending_remaining:
  "remaining_in (counts_of rows) = int (length (filter pending rows))"
  by (induction rows) (auto simp: remaining_in_def count_state_def pending_def job_live_def)

lemma remaining_zero: "remaining_in (counts_of rows) = 0 \<longleftrightarrow> (\<forall>j\<in>set rows. \<not> pending j)"
  by (simp add: pending_remaining filter_empty_conv)

lemma eligible_le_queued: "eligible_count now rows \<le> count_state rows Queued"
  unfolding eligible_count_def count_state_def
  by (induction rows) auto

lemma touch_body_Inr:
  assumes run: "touch_body worker transport pools metadata now L = Inr (u, L')"
  shows "evolves L L'" "jobs L' = jobs L" "attempts L' = attempts L" "spans L' = spans L"
    "\<exists>w\<in>set (workers L'). worker_id w = worker \<and> last_seen_at w = timestamp now"
proof -
  let ?P = "\<lambda>w. worker_id w = worker"
  obtain old document A B where
    A: "(if find ?P (workers L) = None
             then put_workers (workers L @
               [\<lparr>worker_id = worker, worker_transport = transport,
                 pools_json = JArr (map JStr pools), worker_online = True,
                 worker_metadata = document, registered_at = timestamp now,
                 last_seen_at = timestamp now\<rparr>]) L
             else update_workers ?P
               (\<lambda>w. w\<lparr>worker_transport := transport, pools_json := JArr (map JStr pools),
                      worker_online := True, worker_metadata := document,
                      last_seen_at := timestamp now\<rparr>) L) = Inr A"
    and B: "(if find ?P (workers L) = None
             then log_event ''worker.registered'' now worker None None None
               (JObj [(''transport'', JStr transport), (''pools'', JArr (map JStr pools))]) A
             else Inr A) = Inr B" and L': "B = L'"
    by (insert run [unfolded touch_body_def Let_def], elim run_elims, erule that, assumption+)
  have "evolves L A \<and> jobs A = jobs L \<and> attempts A = attempts L \<and> spans A = spans L
      \<and> (\<exists>w\<in>set (workers A). worker_id w = worker \<and> last_seen_at w = timestamp now)"
  proof (cases "find ?P (workers L)")
    case None
    with A have p: "put_workers (workers L @
               [\<lparr>worker_id = worker, worker_transport = transport,
                 pools_json = JArr (map JStr pools), worker_online = True,
                 worker_metadata = document, registered_at = timestamp now,
                 last_seen_at = timestamp now\<rparr>]) L = Inr A" by simp
    then show ?thesis
      using insert_worker_evolves [OF p] by (auto simp: put_workers_def split: if_split_asm)
  next
    case (Some w)
    with A have u: "update_workers ?P
               (\<lambda>w. w\<lparr>worker_transport := transport, pools_json := JArr (map JStr pools),
                      worker_online := True, worker_metadata := document,
                      last_seen_at := timestamp now\<rparr>) L = Inr A" by simp
    have "evolves L A" using u by (rule update_workers_evolves) (simp add: worker_step_def)
    moreover have "w \<in> set (workers L)" "worker_id w = worker" using find_SomeD [OF Some] by auto
    moreover have W: "workers A = map (\<lambda>w. if worker_id w = worker then
        w\<lparr>worker_transport := transport, pools_json := JArr (map JStr pools), worker_online := True,
          worker_metadata := document, last_seen_at := timestamp now\<rparr> else w) (workers L)"
      and same: "jobs A = jobs L" "attempts A = attempts L" "spans A = spans L"
      using u by (auto simp: update_workers_def put_workers_def update_where_def split: if_split_asm)
    moreover have "\<exists>w\<in>set (workers A). worker_id w = worker \<and> last_seen_at w = timestamp now"
      unfolding W set_map by (rule bexI [OF _ imageI [OF \<open>w \<in> set (workers L)\<close>]]) (simp add: \<open>worker_id w = worker\<close>)
    ultimately show ?thesis using same by blast
  qed
  moreover have "A = L' \<or> logged A L'" using B L' by (auto intro: loggedI split: if_split_asm)
  ultimately show "evolves L L'" "jobs L' = jobs L" "attempts L' = attempts L" "spans L' = spans L"
    "\<exists>w\<in>set (workers L'). worker_id w = worker \<and> last_seen_at w = timestamp now"
    by (auto simp: logged_frame intro: evolves_trans logged_evolves)
qed

interpretation touch_op: ledger_operation "touch_body worker transport pools metadata now"
  for worker transport pools metadata now
proof
  fix L L' x assume inv: "ledger_inv L" and run: "touch_body worker transport pools metadata now L = Inr (x, L')"
  note t = touch_body_Inr [OF run]
  show "evolves L L'" by (rule t(1))
  show "lease_coherent L'" using ledger_invD(2) [OF inv] unfolding coherent_cong [OF t(2-4)] .
qed

section \<open>What a report promises about a claim\<close>

lemma schema_cell:
  "schema_ok L \<Longrightarrow> j \<in> set (jobs L) \<Longrightarrow> \<exists>c\<in>set (cells L). cell_plan c = job_plan j \<and> cell_id c = job_cell j"
  by (force simp: schema_ok_def jobs_ok_def)

lemma claimable_active:
  assumes "schema_ok L"
  shows "(\<exists>x. claimable now None None L x) \<longleftrightarrow>
    (\<exists>j\<in>set (active_jobs L). job_state j = Queued \<and> eligible_at j \<le> now)"
proof
  assume "\<exists>x. claimable now None None L x"
  then show "\<exists>j\<in>set (active_jobs L). job_state j = Queued \<and> eligible_at j \<le> now"
    by (auto simp: claimable_def joined_iff set_active_jobs intro!: bexI)
next
  assume "\<exists>j\<in>set (active_jobs L). job_state j = Queued \<and> eligible_at j \<le> now"
  then obtain j b where j: "j \<in> set (jobs L)" "job_active j" "b \<in> set (batches L)" "batch_active b"
      "batch_id b = job_batch j" "job_state j = Queued" "eligible_at j \<le> now"
    by (auto simp: set_active_jobs)
  with schema_cell [OF assms j(1)] obtain c where "c \<in> set (cells L)" "cell_plan c = job_plan j" "cell_id c = job_cell j"
    by blast
  with j have "claimable now None None L (j, b, c)" by (simp add: claimable_def joined_iff)
  then show "\<exists>x. claimable now None None L x" by blast
qed

lemma eligible_count_pos:
  "0 < eligible_count now rows \<longleftrightarrow> (\<exists>j\<in>set rows. job_state j = Queued \<and> eligible_at j \<le> now)"
  by (auto simp: eligible_count_def filter_empty_conv)

text \<open>Stage percentiles depend on measured spans only.\<close>

lemma stage_durations_measured:
  assumes "filter measured_span (spans L') = filter measured_span (spans L)"
  shows "stage_durations L' stage = stage_durations L stage"
  using assms by (simp add: stage_durations_def stage_samples_def)

end
