(* ===== verification/Claim_Progress.thy ===== *)
theory Claim_Progress
  imports Queries
begin

text \<open>
  Progress of the queue: where a job is eligible and a worker slot is free, a claim with a
  fresh token succeeds; none of the constraints of the schema can refuse it, and it gives
  the first eligible job.
\<close>

section \<open>Statements that cannot fail\<close>

lemma recover_nothing:
  assumes "\<forall>j\<in>set (jobs L). \<not> expired now j"
  shows "recover_expired_locked now actor L = Inr (0, L)"
proof -
  have "expired_rows now L = []"
    using assms by (simp add: expired_rows_def expired_def order_by_def filter_empty_conv)
  then show ?thesis by (simp add: recover_expired_locked_def)
qed

lemma granted_jobs_ok:
  assumes ok: "schema_ok L" and row: "row \<in> set (jobs L)"
  shows "jobs_ok L (map (\<lambda>j. if job_id j = job_id row then granted_job st token worker now j else j) (jobs L))"
proof -
  have "job_check (granted_job st token worker now j)" if "job_check j" for j
    using that by (simp add: job_check_def granted_job_def job_live_def)
  moreover have "jobs_ok L (jobs L)" using ok by (simp add: schema_ok_def)
  ultimately show ?thesis
    unfolding jobs_ok_def by (auto simp: comp_def if_distrib [of job_id] cong: if_cong)
      (auto simp: granted_job_def)
qed

lemma granted_attempts_ok:
  assumes inv: "ledger_inv L" and row: "row \<in> set (jobs L)"
    and fresh: "token \<notin> attempt_token ` set (attempts L)"
    and M: "attempts M = attempts L" "job_id ` set (jobs M) = job_id ` set (jobs L)"
  shows "attempts_ok M (attempts M @ [granted_attempt st token worker now (next_rowid attempt_id (attempts M)) row])"
proof -
  let ?a = "granted_attempt st token worker now (next_rowid attempt_id (attempts L)) row"
  note ok = ledger_invD [OF inv]
  have old: "attempts_ok L (attempts L)" using ok(1) by (simp add: schema_ok_def)
  have row_check: "job_check row" using ok(1) row by (simp add: schema_ok_def jobs_ok_def)
  have le: "attempt_number a \<le> attempt_count row \<and> attempt_generation a \<le> lease_generation row"
    if a: "a \<in> set (attempts L)" "attempt_job a = job_id row" for a
  proof -
    from ok(2) a(1) obtain j where "j \<in> set (jobs L)" "attempt_of a j" by (auto simp: lease_coherent_def)
    with same_job [OF ok(1) _ row] a(2) show ?thesis by (auto simp: attempt_of_def)
  qed
  have number: "(attempt_job ?a, attempt_number ?a) \<notin> (\<lambda>a. (attempt_job a, attempt_number a)) ` set (attempts L)"
    and generation: "(attempt_job ?a, attempt_generation ?a) \<notin> (\<lambda>a. (attempt_job a, attempt_generation a)) ` set (attempts L)"
    using le by (fastforce simp: granted_attempt_def)+
  have "attempt_id ?a \<notin> attempt_id ` set (attempts L)"
    using next_rowid_fresh [of attempt_id "attempts L"] by (simp add: granted_attempt_def)
  moreover have "attempt_token ?a \<notin> attempt_token ` set (attempts L)"
    using fresh by (simp add: granted_attempt_def)
  moreover have "attempt_check ?a \<and> attempt_job ?a \<in> job_id ` set (jobs L)"
    using row_check row by (simp add: attempt_check_def granted_attempt_def job_check_def)
  ultimately show ?thesis
    using old number generation unfolding attempts_ok_def M by simp
qed

text \<open>The writes of a claim succeed for an eligible row and a fresh token.\<close>

lemma grant_lease_total:
  assumes inv: "ledger_inv L" and row: "row \<in> set (jobs L)" "job_state row = Queued" "job_active row"
    and fresh: "token \<notin> attempt_token ` set (attempts L)"
    and worker: "text_field (JStr worker) ''worker id'' = Inr worker"
  shows "\<exists>L'. grant_lease st token worker now pool row L = Inr L'"
proof -
  note ok = ledger_invD [OF inv]
  let ?P = "\<lambda>j. job_id j = job_id row \<and> job_state j = Queued \<and> job_active j"
  let ?f = "\<lambda>j. j\<lparr>job_state := Leased, attempt_count := attempt_count row + 1, lease_token := Some token,
       lease_generation := lease_generation row + 1, leased_by := Some worker,
       lease_expires_at := Some (now + of_int (lease_seconds st)), current_stage := None,
       job_error := None, failure_class := None, eligible_at := 0, job_updated_at := timestamp now\<rparr>"
  let ?rows = "map (\<lambda>j. if job_id j = job_id row then granted_job st token worker now j else j) (jobs L)"
  have "update_where ?P ?f (jobs L) = map (\<lambda>j. if job_id j = job_id row then ?f j else j) (jobs L)"
    by (rule update_one_job [OF ok(1) row(1)]) (auto simp: row)
  also have "\<dots> = ?rows" using same_job [OF ok(1) _ row(1)] by (auto simp: granted_job_def)
  finally have U: "update_jobs ?P ?f L = Inr (L\<lparr>jobs := ?rows\<rparr>)"
    using granted_jobs_ok [OF ok(1) row(1), of st token worker now] by (simp add: update_jobs_def put_jobs_def)
  have "filter ?P (jobs L) = filter (\<lambda>j. job_id j = job_id row) (jobs L)"
    using same_job [OF ok(1) _ row(1)] row by (intro filter_cong) auto
  then have one: "length (filter ?P (jobs L)) = 1"
    using filter_key_unique [OF schema_jobs_distinct [OF ok(1)] row(1)] by simp
  let ?M = "L\<lparr>jobs := ?rows\<rparr>"
  let ?a = "granted_attempt st token worker now (next_rowid attempt_id (attempts ?M)) row"
  have "map job_id ?rows = map job_id (jobs L)" by simp
  then have "job_id ` set ?rows = job_id ` set (jobs L)" by (metis image_set)
  then have A: "put_attempts (attempts ?M @ [?a]) ?M = Inr (?M\<lparr>attempts := attempts ?M @ [?a]\<rparr>)"
    using granted_attempts_ok [OF inv row(1) fresh, of ?M st worker now] by (simp add: put_attempts_def)
  have "\<exists>e. log_event ''job.claimed'' now worker (Some (job_batch row)) (Some (job_id row)) (Some (job_plan row))
      (JObj ([(''attempt'', JInt (attempt_count row + 1)), (''lease_generation'', JInt (lease_generation row + 1)),
              (''lease_expires_at'', JFloat (now + of_int (lease_seconds st)))]
             @ (case pool of None \<Rightarrow> [] | Some p \<Rightarrow> [(''worker_pool'', JStr p)])))
      (?M\<lparr>attempts := attempts ?M @ [?a]\<rparr>) = Inr e"
  proof -
    have "events_ok (events (?M\<lparr>attempts := attempts ?M @ [?a]\<rparr>))"
      using ok(1) by (simp add: schema_ok_def)
    moreover have "text_field (JStr worker) ''event actor'' = Inr worker" using worker by (simp add: results)
    moreover have "serializable (JObj ([(''attempt'', JInt (attempt_count row + 1)),
              (''lease_generation'', JInt (lease_generation row + 1)),
              (''lease_expires_at'', JFloat (now + of_int (lease_seconds st)))]
             @ (case pool of None \<Rightarrow> [] | Some p \<Rightarrow> [(''worker_pool'', JStr p)])))"
      by (auto split: option.splits)
    ultimately show ?thesis using log_event_total by blast
  qed
  then obtain e where e: "log_event ''job.claimed'' now worker (Some (job_batch row)) (Some (job_id row)) (Some (job_plan row))
      (JObj ([(''attempt'', JInt (attempt_count row + 1)), (''lease_generation'', JInt (lease_generation row + 1)),
              (''lease_expires_at'', JFloat (now + of_int (lease_seconds st)))]
             @ (case pool of None \<Rightarrow> [] | Some p \<Rightarrow> [(''worker_pool'', JStr p)])))
      (?M\<lparr>attempts := attempts ?M @ [?a]\<rparr>) = Inr e" by blast
  have "grant_lease st token worker now pool row L = Inr e"
    using U A e unfolding grant_lease_def Let_def granted_attempt_def one by simp
  then show ?thesis by blast
qed

text \<open>The payload of a live job is always readable.\<close>

lemma lease_payload_total:
  assumes ok: "schema_ok L" and j: "j \<in> set (jobs L)" "job_live j"
  shows "\<exists>p. lease_payload_of (job_id j) L = Inr p \<and> lp_job_id p = job_id j
    \<and> lp_lease_token p = str_of (lease_token j) \<and> lp_lease_generation p = lease_generation j"
proof -
  from ok j(1) obtain b where b: "b \<in> set (batches L)" "batch_id b = job_batch j"
    by (force simp: schema_ok_def jobs_ok_def)
  let ?P = "\<lambda>(i, b). job_id i = job_id j \<and> batch_id b = job_batch i"
  have "\<exists>x\<in>set (List.product (jobs L) (batches L)). ?P x"
    using j(1) b by (intro bexI [of _ "(j, b)"]) auto
  then obtain i b' where f: "find ?P (List.product (jobs L) (batches L)) = Some (i, b')"
    by (cases "find ?P (List.product (jobs L) (batches L))") (auto simp: find_None_iff)
  have i: "i = j" using find_SomeD [OF f] same_job [OF ok _ j(1)] by auto
  have "\<exists>c\<in>set (cells L). cell_plan c = job_plan j \<and> cell_id c = job_cell j"
    by (rule schema_cell [OF ok j(1)])
  then obtain c where c: "find (\<lambda>c. cell_plan c = job_plan j \<and> cell_id c = job_cell j) (cells L) = Some c"
    by (cases "find (\<lambda>c. cell_plan c = job_plan j \<and> cell_id c = job_cell j) (cells L)") (auto simp: find_None_iff)
  have "job_check j" using ok j(1) by (simp add: schema_ok_def jobs_ok_def)
  then obtain t where t: "lease_expires_at j = Some t" using j(2) by (auto simp: job_check_def)
  show ?thesis using f c t by (simp add: lease_payload_of_def i)
qed

lemma claim_body_total:
  assumes inv: "ledger_inv L" and idle: "\<forall>j\<in>set (jobs L). \<not> expired now j"
    and open': "armed (cstate L)" "\<not> paused (cstate L)" "active_worker_count L < max_workers (cstate L)"
    and some: "claimable now pool selection L x"
    and fresh: "token \<notin> attempt_token ` set (attempts L)"
    and worker: "text_field (JStr worker) ''worker id'' = Inr worker"
  shows "\<exists>row b c p L'. claimable now pool selection L (row, b, c)
    \<and> (\<forall>j b' c'. claimable now pool selection L (j, b', c') \<longrightarrow>
           (batch_position b, job_position row, job_id row) \<le> (batch_position b', job_position j, job_id j))
    \<and> claim_body token worker now pool selection L = Inr (Some p, L')
    \<and> lp_job_id p = job_id row \<and> lp_lease_token p = token \<and> lp_lease_generation p = lease_generation row + 1
    \<and> holds_lease (job_id row) token (lease_generation row + 1) L'"
proof -
  have "claim_choice pool (claim_candidates now selection L) \<noteq> None"
  proof
    obtain j b c where x: "x = (j, b, c)" by (cases x)
    assume "claim_choice pool (claim_candidates now selection L) = None"
    then have "\<not> (\<exists>y\<in>set (claim_candidates now selection L). case y of (j, b, c) \<Rightarrow>
        (case pool of None \<Rightarrow> True | Some p \<Rightarrow> worker_pool_accepts_cell p (cell_json c)))"
      by (cases "claim_candidates now selection L")
        (auto simp: claim_choice_def find_None_iff split: if_splits option.splits)
    moreover have "x \<in> set (claim_candidates now selection L)"
      using some by (auto simp: x claimable_def claim_candidates_def)
    ultimately show False using some by (auto simp: x claimable_def)
  qed
  then obtain row where row: "claim_choice pool (claim_candidates now selection L) = Some row" by blast
  from claim_choice_Some [OF row] obtain b c where best: "claimable now pool selection L (row, b, c)"
    "\<forall>j b' c'. claimable now pool selection L (j, b', c') \<longrightarrow>
       (batch_position b, job_position row, job_id row) \<le> (batch_position b', job_position j, job_id j)" by blast
  from claimable_row [OF best(1)] have r: "row \<in> set (jobs L)" "job_state row = Queued" "job_active row" by auto
  from grant_lease_total [OF inv r fresh worker] obtain L' where
    g: "grant_lease (cstate L) token worker now pool row L = Inr L'" by blast
  note gr = grant_lease_Inr [OF g inv r]
  let ?j = "granted_job (cstate L) token worker now row"
  have j: "?j \<in> set (jobs L')" using r(1) by (force simp: gr(4))
  have ok': "schema_ok L'" using evolves_schema [OF gr(1)] ledger_invD(1) [OF inv] .
  have lease_token_granted: "lease_token ?j = Some token" by (simp add: granted_job_def)
  from lease_payload_total [OF ok' j] obtain p where p: "lease_payload_of (job_id row) L' = Inr p"
    "lp_job_id p = job_id row" "lp_lease_token p = token" "lp_lease_generation p = lease_generation row + 1"
    using lease_token_granted by auto
  have "holds_lease (job_id row) token (lease_generation row + 1) L'"
    unfolding holds_lease_iff by (intro bexI [OF _ j]) (simp add: granted_job_def job_live_def)
  moreover have "claim_body token worker now pool selection L = Inr (Some p, L')"
    using open' row g p(1) by (simp add: claim_body_def recover_nothing [OF idle])
  ultimately show ?thesis using best p(2-4) by blast
qed

end
