(* ===== verification/Coordinator_System.thy ===== *)
theory Coordinator_System
  imports Claim_Progress
begin

text \<open>
  The coordinator as one system: the public operations of the \<open>Coordinator\<close> class of
  src/fidb_poc/coordinator.py as the calls of a transition system over the ledger.  Every
  operation is one \<open>BEGIN IMMEDIATE\<close> transaction, so the calls of concurrent processes are a
  sequence of calls; the relation below is over all such sequences.
\<close>

section \<open>Calls\<close>

text \<open>The functions of other modules that the calls rely on.  Nothing is assumed of them.\<close>

record environment =
  env_resolver :: "batch_config \<Rightarrow> resolved_plan result"
  env_sha256_json :: "json \<Rightarrow> string"
  env_sha256_ids :: "string list \<Rightarrow> string"
  env_resolve_path :: "string \<Rightarrow> string"
  env_iso :: iso_parser
  env_clock :: stamp

datatype coordinator_call =
    SyncQueue queue_config rat string
  | ReconfigureRuntime queue_config int int string string rat
  | DisarmForRecovery queue_config int int int string string rat
  | StartNextBlock string bool bool rat string
  | AdmitLookaheadBlock string int string rat
  | FinishActiveBlock rat string
  | RecoverExpired rat string
  | Claim string string rat "string option" "string option" "string list option"
  | Renew string string int rat "int option"
  | RecordStage string string int string string "json option" "json option" rat
  | CompleteJob string string int "json option" rat
  | Fail string string int string bool "string option" bool rat
  | QuarantinePathologicalJobs string "string list" int string string rat
  | ReleasePathologicalQuarantine string int string string rat
  | RequeueFailedBatch string int string string rat
  | RequeueInterruptedBatch string int string string rat
  | Pause string string rat
  | Resume string rat
  | TouchWorker string string "string list" "(string \<times> json) list option" rat

text \<open>A call returns or raises, and leaves a ledger; the returned document is dropped here.\<close>

definition outcome :: "'a result \<times> ledger \<Rightarrow> unit result \<times> ledger" where
  "outcome p = (case fst p of Inl e \<Rightarrow> Inl e | Inr _ \<Rightarrow> Inr (), snd p)"

primrec perform :: "environment \<Rightarrow> coordinator_call \<Rightarrow> ledger \<Rightarrow> unit result \<times> ledger" where
  "perform env (SyncQueue c now actor) L =
     outcome (sync_queue (env_resolver env) (env_sha256_json env) c now actor L)"
| "perform env (ReconfigureRuntime c generation expected reason actor now) L =
     outcome (reconfigure_runtime (env_resolve_path env) c generation expected reason actor now L)"
| "perform env (DisarmForRecovery c generation expected live reason actor now) L =
     outcome (disarm_for_recovery (env_resolve_path env) c generation expected live reason actor now L)"
| "perform env (StartNextBlock admission scheduled reentry now actor) L =
     outcome (start_next_block admission scheduled reentry now actor L)"
| "perform env (AdmitLookaheadBlock admission idle actor now) L =
     outcome (admit_lookahead_block admission idle actor now L)"
| "perform env (FinishActiveBlock now actor) L = outcome (finish_active_block_if_drained now actor L)"
| "perform env (RecoverExpired now actor) L = outcome (recover_expired now actor L)"
| "perform env (Claim token worker now pool one many) L = outcome (claim token worker now pool one many L)"
| "perform env (Renew jid token generation now seconds) L =
     outcome (renew jid token generation now seconds L)"
| "perform env (RecordStage jid token generation stage state duration details now) L =
     outcome (record_stage (env_iso env) jid token generation stage state duration details now L)"
| "perform env (CompleteJob jid token generation result now) L =
     outcome (complete jid token generation result now L)"
| "perform env (Fail jid token generation err retryable cls pathological now) L =
     outcome (fail jid token generation err retryable cls pathological now L)"
| "perform env (QuarantinePathologicalJobs batch ids count reason actor now) L =
     outcome (quarantine_pathological_jobs (env_sha256_ids env) batch ids count reason actor now L)"
| "perform env (ReleasePathologicalQuarantine batch count reason actor now) L =
     outcome (release_pathological_quarantine (env_sha256_ids env) batch count reason actor now L)"
| "perform env (RequeueFailedBatch batch count reason actor now) L =
     outcome (requeue_failed_batch (env_sha256_ids env) batch count reason actor now L)"
| "perform env (RequeueInterruptedBatch batch count reason actor now) L =
     outcome (requeue_interrupted_batch (env_sha256_ids env) batch count reason actor now L)"
| "perform env (Pause reason actor now) L = outcome (pause reason actor now L)"
| "perform env (Resume actor now) L = outcome (resume actor now L)"
| "perform env (TouchWorker worker transport pools metadata now) L =
     outcome (touch_worker (env_clock env) worker transport pools metadata now L)"

section \<open>Every call is safe\<close>

text \<open>What every call keeps: the ledger evolves, the invariant holds again, and a call that raises
  has changed nothing.\<close>

definition safe_outcome :: "ledger \<Rightarrow> 'a result \<times> ledger \<Rightarrow> bool" where
  "safe_outcome L p \<longleftrightarrow> evolves L (snd p) \<and> ledger_inv (snd p) \<and> (\<forall>e. fst p = Inl e \<longrightarrow> snd p = L)"

lemma safe_refused [simp]: "ledger_inv L \<Longrightarrow> safe_outcome L (Inl e, L)"
  by (simp add: safe_outcome_def)

lemma safe_outcome_outcome [simp]: "safe_outcome L (outcome p) = safe_outcome L p"
  by (auto simp: safe_outcome_def outcome_def split: sum.splits)

context ledger_operation
begin

lemma run_safe: "ledger_inv L \<Longrightarrow> safe_outcome L (transaction body L)"
  using run_evolves run_inv run_rolls_back by (fastforce simp: safe_outcome_def)

end

lemmas operations_safe = sync_op.run_safe reconfigure_op.run_safe disarm_op.run_safe start_op.run_safe
  lookahead_op.run_safe finish_op.run_safe recover_op.run_safe claim_op.run_safe renew_op.run_safe
  stage_op.run_safe quarantine_op.run_safe release_op.run_safe requeue_failed_op.run_safe
  requeue_interrupted_op.run_safe pause_op.run_safe resume_op.run_safe

text \<open>\<open>complete\<close> and \<open>fail\<close> read the job back after the commit; it is there.\<close>

lemma then_get_job_safe:
  assumes safe: "safe_outcome L (transaction body L)"
    and held: "\<And>x M. body L = Inr (x, M) \<Longrightarrow> holds_lease jid token generation L"
  shows "safe_outcome L (then_get_job jid (transaction body L))"
proof (cases "body L")
  case (Inr p)
  then obtain x M where p: "body L = Inr (x, M)" by (cases p) auto
  with safe have ev: "evolves L M" "ledger_inv M" by (auto simp: safe_outcome_def transaction_def)
  from held [OF p] obtain j where "j \<in> set (jobs L)" "job_id j = jid" by (auto simp: holds_lease_iff)
  moreover have "rows_evolve job_step (jobs L) (jobs M)" using ev by (simp add: evolves_def)
  ultimately obtain j' where "j' \<in> set (jobs M)" "job_id j' = jid"
    using jobs_table.row_after by metis
  then obtain r where "find (\<lambda>j. job_id j = jid) (jobs M) = Some r"
    by (cases "find (\<lambda>j. job_id j = jid) (jobs M)") (auto simp: find_None_iff)
  then show ?thesis using ev p by (simp add: safe_outcome_def transaction_def then_get_job_def get_job_def)
qed (use safe in \<open>auto simp: safe_outcome_def transaction_def then_get_job_def\<close>)

lemma touch_worker_safe: "ledger_inv L \<Longrightarrow> safe_outcome L (touch_worker clock worker transport pools metadata now L)"
proof -
  assume inv: "ledger_inv L"
  have run: "safe_outcome L
      (case transaction (touch_body w transport pools m now) L of
             (Inl e, L) \<Rightarrow> (Inl e, L)
           | (Inr _, L) \<Rightarrow>
               (case find (\<lambda>v. worker_id v = w) (workers L) of
                  None \<Rightarrow> (Inl (TypeError ''NoneType object is not subscriptable''), L)
                | Some v \<Rightarrow> (Inr (worker_payload clock v), L)))" for w m
  proof (cases "touch_body w transport pools m now L")
    case (Inr p)
    then obtain x M where p: "touch_body w transport pools m now L = Inr (x, M)" by (cases p) auto
    from touch_body_Inr(5) [OF p] obtain r where "find (\<lambda>v. worker_id v = w) (workers M) = Some r"
      by (cases "find (\<lambda>v. worker_id v = w) (workers M)") (auto simp: find_None_iff)
    then show ?thesis using touch_op.run_safe [OF inv, of w transport pools m now] p
      by (simp add: safe_outcome_def transaction_def)
  qed (simp add: transaction_def inv)
  then show ?thesis using inv by (simp add: touch_worker_def split: sum.split)
qed

lemma complete_safe: "ledger_inv L \<Longrightarrow> safe_outcome L (complete jid token generation value now L)"
  by (simp add: complete_def Let_def split: sum.split option.split)
    (auto intro!: then_get_job_safe complete_op.run_safe intro: complete_op.fenced)

lemma fail_safe: "ledger_inv L \<Longrightarrow> safe_outcome L (fail jid token generation err retryable cls pathological now L)"
  by (simp add: fail_def split: sum.split)
    (auto intro!: then_get_job_safe fail_op.run_safe intro: fail_op.fenced)

lemma perform_safe: "ledger_inv L \<Longrightarrow> safe_outcome L (perform env c L)"
  by (cases c)
    (auto simp: sync_queue_def reconfigure_runtime_def disarm_for_recovery_def start_next_block_def
       admit_lookahead_block_def finish_active_block_if_drained_def recover_expired_def claim_def renew_def
       record_stage_def quarantine_pathological_jobs_def release_pathological_quarantine_def
       requeue_failed_batch_def requeue_interrupted_batch_def pause_def resume_def
       touch_worker_safe complete_safe fail_safe operations_safe split: sum.split)

section \<open>The transition system\<close>

inductive coordinator_step :: "environment \<Rightarrow> ledger \<Rightarrow> coordinator_call \<Rightarrow> unit result \<Rightarrow> ledger \<Rightarrow> bool"
  for env :: environment where
  call: "perform env c L = (r, L') \<Longrightarrow> coordinator_step env L c r L'"

inductive_cases coordinator_stepE: "coordinator_step env L c r L'"

text \<open>A history of calls, each with its own environment: the files behind the resolvers may change.\<close>

inductive coordinator_run :: "ledger \<Rightarrow> (environment \<times> coordinator_call) list \<Rightarrow> ledger \<Rightarrow> bool" where
  run_Nil: "coordinator_run L [] L"
| run_Cons: "coordinator_step env L c r M \<Longrightarrow> coordinator_run M cs N \<Longrightarrow> coordinator_run L ((env, c) # cs) N"

inductive_simps run_Nil_simp [simp]: "coordinator_run L [] N"
inductive_cases run_ConsE: "coordinator_run L (ec # cs) N"

definition reachable :: "ledger \<Rightarrow> bool" where
  "reachable L \<longleftrightarrow> (\<exists>calls. coordinator_run init_ledger calls L)"

text \<open>The same history as a function.\<close>

definition perform_all :: "(environment \<times> coordinator_call) list \<Rightarrow> ledger \<Rightarrow> ledger" where
  "perform_all calls L = fold (\<lambda>(env, c) L. snd (perform env c L)) calls L"

lemma run_iff_perform_all: "coordinator_run L calls N \<longleftrightarrow> N = perform_all calls L"
proof
  assume "coordinator_run L calls N"
  then show "N = perform_all calls L"
    by (induction rule: coordinator_run.induct) (auto simp: perform_all_def elim!: coordinator_stepE)
next
  have "coordinator_run L calls (perform_all calls L)"
  proof (induction calls arbitrary: L)
    case (Cons ec calls)
    obtain env c where ec: "ec = (env, c)" by (cases ec)
    have "coordinator_step env L c (fst (perform env c L)) (snd (perform env c L))" by (rule call) simp
    from run_Cons [OF this Cons] show ?case by (simp add: ec perform_all_def)
  qed (simp add: perform_all_def)
  then show "N = perform_all calls L \<Longrightarrow> coordinator_run L calls N" by simp
qed

lemma step_safe:
  assumes "coordinator_step env L c r L'" and "ledger_inv L"
  shows "evolves L L'" "ledger_inv L'" "r = Inl e \<Longrightarrow> L' = L"
  using assms(1) perform_safe [OF assms(2), of env c]
  by (auto elim!: coordinator_stepE simp: safe_outcome_def)

lemma history_safe: "coordinator_run L calls N \<Longrightarrow> ledger_inv L \<Longrightarrow> evolves L N \<and> ledger_inv N"
  by (induction rule: coordinator_run.induct) (auto dest: step_safe intro: evolves_trans)

lemma reachable_inv: "reachable L \<Longrightarrow> ledger_inv L"
  using history_safe ledger_inv_init by (auto simp: reachable_def)

lemma reachable_init: "reachable init_ledger"
  unfolding reachable_def by (rule exI [of _ "[]"]) simp

lemma reachable_perform_all: "reachable (perform_all calls init_ledger)"
  by (auto simp: reachable_def run_iff_perform_all)

end
