(* ===== verification/Guarantees.thy ===== *)
theory Guarantees
  imports Coordinator_System
begin

text \<open>
  Guarantees of the coordinator as a whole, over the public calls: the fence, who holds a lease,
  what a claim grants and when it succeeds, and the calls of recovery.
\<close>

section \<open>The fence over public calls\<close>

text \<open>The lease a call acts under, if it is one of the calls a worker makes for its job.\<close>

fun acts_under :: "coordinator_call \<Rightarrow> (string \<times> string \<times> int) option" where
  "acts_under (Renew jid token generation now seconds) = Some (jid, token, generation)"
| "acts_under (RecordStage jid token generation stage state duration details now) = Some (jid, token, generation)"
| "acts_under (CompleteJob jid token generation result now) = Some (jid, token, generation)"
| "acts_under (Fail jid token generation err retryable cls pathological now) = Some (jid, token, generation)"
| "acts_under _ = None"

definition refused :: "ledger \<Rightarrow> 'a result \<times> ledger \<Rightarrow> bool" where
  "refused L p \<longleftrightarrow> (\<exists>e. p = (Inl e, L))"

lemma refused_simps [simp]:
  "refused L (Inl e, L)" "refused L (outcome p) \<longleftrightarrow> refused L p"
  "refused L q \<Longrightarrow> refused L (then_get_job jid q)"
  by (cases p; auto simp: refused_def outcome_def then_get_job_def split: sum.splits)+

context fenced_operation
begin

lemma stale_outcome:
  "ledger_inv L \<Longrightarrow> \<not> holds_lease jid token generation L \<Longrightarrow> refused L (transaction body L)"
  using stale_refused by (simp add: refused_def)

end

lemma stale_call_refused:
  assumes inv: "ledger_inv L" and call: "acts_under c = Some (jid, token, generation)"
    and stale: "\<not> holds_lease jid token generation L"
  shows "\<exists>e. perform env c L = (Inl e, L)"
proof -
  note stale_outcomes = renew_op.stale_outcome [OF inv stale] stage_op.stale_outcome [OF inv stale]
    complete_op.stale_outcome [OF inv stale] fail_op.stale_outcome [OF inv stale]
  have "refused L (perform env c L)"
    using call by (cases c)
      (simp_all add: stale_outcomes renew_def record_stage_def complete_def fail_def Let_def
         split: sum.split option.split)
  then show ?thesis by (simp add: refused_def)
qed

section \<open>Who holds a lease\<close>

lemma holds_lease_attempt:
  assumes inv: "ledger_inv L"
  shows "holds_lease jid token generation L \<longleftrightarrow>
    (\<exists>a\<in>set (attempts L). attempt_live a \<and> attempt_job a = jid \<and> attempt_token a = token
       \<and> attempt_generation a = generation)"
proof
  assume "holds_lease jid token generation L"
  then obtain j where "j \<in> set (jobs L)" "job_id j = jid" "job_live j" "lease_token j = Some token"
    "lease_generation j = generation" by (auto simp: holds_lease_iff)
  with ledger_invD(2) [OF inv] show "\<exists>a\<in>set (attempts L). attempt_live a \<and> attempt_job a = jid
      \<and> attempt_token a = token \<and> attempt_generation a = generation"
    by (fastforce simp: lease_coherent_def lease_of_def)
next
  assume "\<exists>a\<in>set (attempts L). attempt_live a \<and> attempt_job a = jid \<and> attempt_token a = token
       \<and> attempt_generation a = generation"
  then obtain a where a: "a \<in> set (attempts L)" "attempt_live a" "attempt_job a = jid"
    "attempt_token a = token" "attempt_generation a = generation" by blast
  with ledger_invD(2) [OF inv] obtain j where j: "j \<in> set (jobs L)" "job_id j = jid" "job_live j"
      "lease_generation j = generation"
    by (fastforce simp: lease_coherent_def attempt_of_def)
  with ledger_invD(2) [OF inv] obtain a' where a': "a' \<in> set (attempts L)" "lease_of j a'"
    by (auto simp: lease_coherent_def)
  have "distinct (map (\<lambda>a. (attempt_job a, attempt_generation a)) (attempts L))"
    using inv by (simp add: ledger_inv_def schema_ok_def attempts_ok_def)
  from distinct_map_inj [OF this a'(1) a(1)] have "a' = a"
    using a a'(2) j by (simp add: lease_of_def)
  then show "holds_lease jid token generation L"
    using a'(2) a j by (auto simp: holds_lease_iff lease_of_def)
qed

lemma one_holder:
  assumes "ledger_inv L" "holds_lease jid token generation L" "holds_lease jid token' generation' L"
  shows "token' = token \<and> generation' = generation"
  using assms same_job [OF ledger_invD(1) [OF assms(1)]] by (fastforce simp: holds_lease_iff)

section \<open>Counting workers\<close>

lemma length_filter_keyed:
  "distinct (map key xs) \<Longrightarrow>
   length (filter (\<lambda>x. P x \<and> key x = k) xs) = (if \<exists>x\<in>set xs. P x \<and> key x = k then 1 else 0)"
  by (induction xs) (auto simp: filter_empty_conv image_iff)

lemma length_filter_cover:
  "(\<And>x. Q x \<Longrightarrow> P x \<or> K x) \<Longrightarrow> length (filter Q xs) \<le> length (filter P xs) + length (filter K xs)"
  by (induction xs) (auto dest: le_SucI)

abbreviation counted :: "ledger \<Rightarrow> job_row \<Rightarrow> bool" where
  "counted L j \<equiv> job_active j \<and> job_live j \<and> (\<exists>b\<in>set (batches L). batch_active b \<and> batch_id b = job_batch j)"

lemma active_worker_count_eq:
  assumes "schema_ok L"
  shows "active_worker_count L = int (length (filter (counted L) (jobs L)))"
proof -
  have d: "distinct (map batch_id (batches L))" using assms by (simp add: schema_ok_def batches_ok_def)
  have "length (filter (\<lambda>(j, b, c). job_active j \<and> batch_active b \<and> job_live j)
        (concat (map (\<lambda>j. map (\<lambda>b. (j, b, ())) (filter (\<lambda>b. batch_id b = job_batch j) (batches L))) js)))
      = length (filter (counted L) js)" for js
  proof (induction js)
    case (Cons j js)
    have "length (filter (\<lambda>(j, b, c). job_active j \<and> batch_active b \<and> job_live j)
        (map (\<lambda>b. (j, b, ())) (filter (\<lambda>b. batch_id b = job_batch j) (batches L))))
      = (if counted L j then 1 else 0)"
      using length_filter_keyed [OF d, of batch_active "job_batch j"]
      by (auto simp: filter_map comp_def conj_commute filter_empty_conv)
    then show ?case using Cons by auto
  qed simp
  then show ?thesis by (simp add: active_worker_count_def)
qed
section \<open>What a claim grants\<close>

lemma claim_lease_payload:
  assumes "lease_payload_of jid L = Inr p" and "schema_ok L"
  shows "\<exists>j\<in>set (jobs L). job_id j = jid \<and> lp_job_id p = jid \<and> lp_lease_token p = str_of (lease_token j)
    \<and> lp_lease_generation p = lease_generation j"
  using assms(1) by (auto simp: lease_payload_of_def split: option.splits prod.splits dest!: find_SomeD)

lemma claim_granted:
  assumes run: "claim token worker now pool one many L = (Inr (Some p), L')" and inv: "ledger_inv L"
  shows "\<exists>selection n M row b c. claim_selection one many = Inr selection
    \<and> recover_expired_locked now ''coordinator'' L = Inr (n, M) \<and> armed (cstate L) \<and> \<not> paused (cstate L)
    \<and> active_worker_count M < max_workers (cstate L) \<and> claimable now pool selection M (row, b, c)
    \<and> (\<forall>j b' c'. claimable now pool selection M (j, b', c') \<longrightarrow>
           (batch_position b, job_position row, job_id row) \<le> (batch_position b', job_position j, job_id j))
    \<and> grant_lease (cstate L) token worker now pool row M = Inr L' \<and> ledger_inv M
    \<and> lease_payload_of (job_id row) L' = Inr p"
proof -
  from run obtain selection where sel: "claim_selection one many = Inr selection"
    and body: "claim_body token worker now pool selection L = Inr (Some p, L')"
    by (auto simp: claim_def transaction_def results split: sum.splits if_splits option.splits)
  from body obtain n M where rec0: "recover_expired_locked now ''coordinator'' L = Inr (n, M)"
    and rest: "armed (cstate M)" "\<not> paused (cstate M)" "active_worker_count M < max_workers (cstate M)"
    and choice: "\<exists>row. claim_choice pool (claim_candidates now selection M) = Some row
        \<and> grant_lease (cstate M) token worker now pool row M = Inr L' \<and> lease_payload_of (job_id row) L' = Inr p"
    by (auto simp: claim_body_def results split: if_splits option.splits)
  note r = recover_expired_Inr [OF rec0 ledger_invD [OF inv]]
  have st: "cstate M = cstate L" using same_policyD [OF r(3)] by simp
  have "ledger_inv M" using evolves_schema [OF r(1)] ledger_invD [OF inv] r(2) by (simp add: ledger_inv_def)
  with sel rec0 rest choice claim_choice_Some show ?thesis unfolding st by metis
qed

lemma claimable_cong:
  "jobs M = jobs N \<Longrightarrow> batches M = batches N \<Longrightarrow> cells M = cells N \<Longrightarrow> claimable now pool selection M = claimable now pool selection N"
  by (simp add: claimable_def joined_def)

lemma active_worker_count_cong:
  "jobs M = jobs N \<Longrightarrow> batches M = batches N \<Longrightarrow> active_worker_count M = active_worker_count N"
  by (simp add: active_worker_count_def)

lemma counted_grant:
  assumes ok: "schema_ok M" and row: "row \<in> set (jobs M)" "\<not> job_live row"
    and jobs': "jobs L' = map (\<lambda>j. if job_id j = job_id row then granted_job st token worker now j else j) (jobs M)"
    and same: "batches L' = batches M" and ok': "schema_ok L'"
  shows "active_worker_count L' \<le> active_worker_count M + 1"
proof -
  let ?f = "\<lambda>j. if job_id j = job_id row then granted_job st token worker now j else j"
  let ?C = "\<lambda>j. counted M (?f j)"
  have "length (filter ?C (jobs M)) \<le> length (filter (counted M) (jobs M))
      + length (filter (\<lambda>j. True \<and> job_id j = job_id row) (jobs M))"
    by (rule length_filter_cover) auto
  also have "length (filter (\<lambda>j. True \<and> job_id j = job_id row) (jobs M)) \<le> 1"
    unfolding length_filter_keyed [OF schema_jobs_distinct [OF ok]] by simp
  finally have "length (filter ?C (jobs M)) \<le> length (filter (counted M) (jobs M)) + 1" by simp
  moreover have "active_worker_count L' = int (length (filter ?C (jobs M)))"
    unfolding active_worker_count_eq [OF ok'] jobs' same by (simp add: filter_map comp_def)
  ultimately show ?thesis by (simp add: active_worker_count_eq [OF ok])
qed

lemma claim_within_cap:
  assumes run: "claim token worker now pool one many L = (Inr (Some p), L')" and inv: "ledger_inv L"
  shows "active_worker_count L' \<le> max_workers (cstate L')"
    "holds_lease (lp_job_id p) (lp_lease_token p) (lp_lease_generation p) L'" "lp_lease_token p = token"
proof -
  from claim_granted [OF assms] obtain M row b c sel where
    cap: "active_worker_count M < max_workers (cstate L)" and g: "grant_lease (cstate L) token worker now pool row M = Inr L'"
    and c: "claimable now pool sel M (row, b, c)" and M: "ledger_inv M" and p: "lease_payload_of (job_id row) L' = Inr p"
    and st: "cstate M = cstate L" 
    using recover_expired_Inr(3) [OF _ ledger_invD [OF inv]] same_policyD(1) by blast
  from claimable_row [OF c] have row: "row \<in> set (jobs M)" "job_state row = Queued" "job_active row" by auto
  note gr = grant_lease_Inr [OF g M row]
  have ok': "schema_ok L'" using evolves_schema [OF gr(1)] ledger_invD(1) [OF M] .
  have "active_worker_count L' \<le> active_worker_count M + 1"
    by (rule counted_grant [OF ledger_invD(1) [OF M] row(1) _ gr(4) _ ok'])
      (use row same_policyD [OF gr(3)] in \<open>simp_all add: job_live_def\<close>)
  then show "active_worker_count L' \<le> max_workers (cstate L')"
    using cap st same_policyD(1) [OF gr(3)] by simp
  from claim_lease_payload [OF p ok'] obtain j where j: "j \<in> set (jobs L')" "job_id j = job_id row"
    "lp_job_id p = job_id row" "lp_lease_token p = str_of (lease_token j)" "lp_lease_generation p = lease_generation j"
    by blast
  have "j = granted_job (cstate L) token worker now row"
    using same_job [OF ok' j(1), of "granted_job (cstate L) token worker now row"] j(2) row(1)
    by (force simp: gr(4))
  then have "lease_token j = Some token" "job_live j" by (simp_all add: granted_job_def job_live_def)
  then show "holds_lease (lp_job_id p) (lp_lease_token p) (lp_lease_generation p) L'" "lp_lease_token p = token"
    using j by (auto simp: holds_lease_iff)
qed

section \<open>The calls of a worker\<close>

lemma transaction_eq: "transaction body L = (Inr x, L') \<longleftrightarrow> body L = Inr (x, L')"
  by (auto simp: transaction_def split: sum.splits)

lemma then_get_job_eq:
  "then_get_job jid (transaction body L) = (Inr j, L') \<longleftrightarrow>
     body L = Inr ((), L') \<and> find (\<lambda>j. job_id j = jid) (jobs L') = Some j"
  by (auto simp: then_get_job_def transaction_def get_job_def split: sum.splits option.splits)

lemma ended_not_held:
  assumes "jobs L' = map (\<lambda>j. if job_id j = jid then f j else g j) js"
    and "\<And>j. job_id (f j) = job_id j" "\<And>j. \<not> job_live (f j)" "\<And>j. job_id (g j) = job_id j"
  shows "\<not> holds_lease jid token generation L'"
  using assms by (auto simp: holds_lease_iff split: if_splits)

lemma completion_final:
  assumes inv: "ledger_inv L" and run: "complete jid token generation result now L = (Inr j, L')"
  shows "holds_lease jid token generation L \<and> \<not> holds_lease jid token' generation' L'
    \<and> job_id j = jid \<and> job_state j = Complete
    \<and> j \<in> set (jobs L')
    \<and> (\<exists>doc. canonical_json (case result of None \<Rightarrow> JObj [] | Some v \<Rightarrow> v) = Inr doc
        \<and> jobs L' = map (\<lambda>j. if job_id j = jid then completed_job doc now j
             else if expired now j then recovered_job (cstate L) now j else j) (jobs L))
    \<and> list_ex (\<lambda>k. job_id k = jid \<and> job_state k = Complete \<and> result_json k = result_json j)
        (jobs (perform_all later L'))"
proof -
  let ?v = "case result of None \<Rightarrow> JObj [] | Some v \<Rightarrow> v"
  from run obtain doc where doc: "canonical_json ?v = Inr doc"
    and body: "complete_body jid token generation ?v doc now L = Inr ((), L')"
    and j: "find (\<lambda>j. job_id j = jid) (jobs L') = Some j"
    by (cases "canonical_json ?v") (simp_all add: complete_def Let_def then_get_job_eq)
  note c = complete_body_Inr [OF body inv]
  have jin: "j \<in> set (jobs L')" "job_id j = jid" using find_SomeD [OF j] by auto
  obtain i where i: "j = (if job_id i = jid then completed_job doc now i
      else if expired now i then recovered_job (cstate L) now i else i)"
    using jin(1) unfolding c(4) set_map by blast
  have "job_id i = jid" using i jin(2) by (simp split: if_split_asm)
  then have final: "job_state j = Complete" using i by (simp add: completed_job_def)
  have "coordinator_run L' later (perform_all later L')" by (simp add: run_iff_perform_all)
  moreover have "ledger_inv L'"
    using evolves_schema [OF c(1)] c(2) ledger_invD [OF inv] by (simp add: ledger_inv_def)
  ultimately have "evolves L' (perform_all later L')" using history_safe by blast
  then have "rows_evolve job_step (jobs L') (jobs (perform_all later L'))" by (simp add: evolves_def)
  from jobs_table.row_after [OF this jin(1)] obtain k where
    "k \<in> set (jobs (perform_all later L'))" "job_step j k" by blast
  then have "list_ex (\<lambda>k. job_id k = jid \<and> job_state k = Complete \<and> result_json k = result_json j)
        (jobs (perform_all later L'))"
    using final jin(2) by (auto simp: list_ex_iff job_step_def)
  moreover have "\<not> holds_lease jid token' generation' L'"
    by (rule ended_not_held [OF c(4)]) simp_all
  moreover have "holds_lease jid token generation L" using c(5) by (simp add: holds_lease_iff)
  ultimately show ?thesis using c(4) final jin doc by blast
qed

lemma failure_effect:
  assumes inv: "ledger_inv L"
    and run: "fail jid token generation err retryable cls pathological now L = (Inr j, L')"
  shows "holds_lease jid token generation L \<and> \<not> holds_lease jid token' generation' L'
    \<and> jobs L' = map (\<lambda>j. if job_id j = jid
        then failed_job (cstate L) err retryable cls pathological now j
        else if expired now j then recovered_job (cstate L) now j else j) (jobs L)
    \<and> (job_state j = Queued \<longleftrightarrow> \<not> pathological \<and> retryable \<and> attempt_count j < max_attempts (cstate L))
    \<and> (job_state j = Queued \<or> job_state j = Failed)"
proof -
  from run have body: "fail_body jid token generation err retryable cls pathological now L = Inr ((), L')"
    and j: "find (\<lambda>j. job_id j = jid) (jobs L') = Some j"
    by (auto simp: fail_def then_get_job_eq results split: sum.splits option.splits)
  note c = fail_body_Inr [OF body inv]
  have jin: "j \<in> set (jobs L')" "job_id j = jid" using find_SomeD [OF j] by auto
  have "\<not> holds_lease jid token' generation' L'"
    by (rule ended_not_held [OF c(5)]) (simp_all add: failed_job_def ended_job_def Let_def job_live_def)
  moreover obtain i where i: "i \<in> set (jobs L)"
    "j = (if job_id i = jid then failed_job (cstate L) err retryable cls pathological now i
          else if expired now i then recovered_job (cstate L) now i else i)"
    using jin(1) unfolding c(5) set_map by blast
  moreover have "job_id i = jid"
    using i(2) jin(2) by (auto simp: failed_job_def ended_job_def Let_def split: if_split_asm)
  then have "j = failed_job (cstate L) err retryable cls pathological now i" using i(2) by simp
  then have "job_state j = (if will_retry (cstate L) retryable pathological i then Queued else Failed)
      \<and> attempt_count j = attempt_count i"
    by (simp add: failed_job_def ended_job_def Let_def)
  then have "(job_state j = Queued \<longleftrightarrow> \<not> pathological \<and> retryable \<and> attempt_count j < max_attempts (cstate L))
      \<and> (job_state j = Queued \<or> job_state j = Failed)"
    by (simp add: will_retry_def)
  moreover have "holds_lease jid token generation L" using c(6) by (simp add: holds_lease_iff)
  ultimately show ?thesis using c(5) by blast
qed

lemma check_stage_fields:
  "check_stage parse stage state duration details now = Inr call \<Longrightarrow> sc_stage call = stage \<and> sc_status call = state"
  by (auto simp: check_stage_def Let_def results split: if_split_asm)

lemma recorded_stage_refines:
  assumes inv: "ledger_inv L"
    and run: "record_stage parse jid token generation stage state duration details now L = (Inr eid, L')"
  shows "\<exists>row M a. require_lease_locked jid token generation now L = Inr (row, M)
    \<and> live_attempt_of jid generation M = Some a
    \<and> stage_machine state stage (running_stage a M) = Some (running_stage a L')"
proof -
  from run obtain call where call: "check_stage parse stage state duration details now = Inr call"
    and body: "record_stage_body jid token generation call now L = Inr (eid, L')"
    by (auto simp: record_stage_def transaction_eq split: sum.splits)
  from record_stage_body_Inr(6) [OF body inv] obtain row A a s t B where
    r: "require_lease_locked jid token generation now L = Inr (row, A)" "live_attempt_of jid generation A = Some a"
    "stage_transition call a jid generation A = Inr ((s, t), B)" "spans L' = spans B" by blast
  from stage_transition_refines [OF r(3) ledger_invD(1) [OF require_lease_Inr(2) [OF r(1) inv]]]
  show ?thesis using r(1,2) running_stage_cong [OF r(4), of a] check_stage_fields [OF call] by metis
qed

section \<open>Retry delays\<close>

lemma retry_delay_facts:
  assumes "0 \<le> retry_backoff_seconds st" and "retry_backoff_seconds st \<le> retry_backoff_max_seconds st"
    and "1 \<le> m" and "m \<le> n"
  shows "0 \<le> retry_delay st m \<and> retry_delay st m \<le> retry_backoff_max_seconds st
    \<and> retry_delay st m \<le> retry_delay st n
    \<and> (0 < retry_backoff_seconds st \<longrightarrow> retry_backoff_seconds st \<le> retry_delay st m
         \<and> retry_delay st (m + 1) = min (retry_backoff_max_seconds st) (2 * retry_delay st m))"
proof (cases "retry_backoff_seconds st = 0")
  case False
  define b where "b = retry_backoff_seconds st"
  define x where "x = retry_backoff_max_seconds st"
  have pos: "0 < b" "b \<le> x" using False assms(1,2) by (simp_all add: b_def x_def)
  have d: "retry_delay st k = min x (b * 2 ^ nat (k - 1))" if "1 \<le> k" for k
    using pos that by (simp add: retry_delay_def b_def [symmetric] x_def [symmetric] Let_def max_def)
  define A where "A = b * 2 ^ nat (m - 1)"
  define B where "B = b * 2 ^ nat (n - 1)"
  have "b * 1 \<le> A" unfolding A_def by (rule mult_left_mono) (use pos in simp_all)
  moreover have "A \<le> B" unfolding A_def B_def
    by (intro mult_left_mono power_increasing) (use pos assms(4) in simp_all)
  moreover have "nat (m + 1 - 1) = Suc (nat (m - 1))" using assms(3) by simp
  then have "b * 2 ^ nat (m + 1 - 1) = 2 * A" by (simp add: A_def)
  ultimately show ?thesis
    using d [of m, folded A_def] d [of n, folded B_def] d [of "m + 1"] pos assms(3,4)
    by (auto simp: b_def [symmetric] x_def [symmetric])
next
  case True
  then show ?thesis using assms by (simp add: retry_delay_def)
qed

section \<open>Admission over public calls\<close>

lemma start_block_admits:
  assumes run: "start_next_block admission scheduled reentry now actor L = (Inr r, L')"
    and changed: "active_batch_id (cstate L') \<noteq> active_batch_id (cstate L)"
  shows "armed (cstate L) \<and> \<not> paused (cstate L) \<and> active_batch_id (cstate L) = None
    \<and> lookahead_batch_id (cstate L) = None
    \<and> \<not> (scheduled \<and> \<not> reentry \<and> last_schedule_admission_id (cstate L) = Some admission)
    \<and> (\<exists>b. b \<in> set (batches L) \<and> batch_active b \<and> has_pending L b
        \<and> (\<forall>c\<in>set (batches L). batch_active c \<longrightarrow> has_pending L c \<longrightarrow>
             (batch_position b, batch_id b) \<le> (batch_position c, batch_id c))
        \<and> active_batch_id (cstate L') = Some (batch_id b) \<and> active_admission_id (cstate L') = Some admission)
    \<and> jobs L' = jobs L \<and> attempts L' = attempts L"
proof -
  from run have body: "start_next_body admission scheduled reentry now actor L = Inr (r, L')"
    by (auto simp: start_next_block_def transaction_eq results split: sum.splits)
  then have once: "\<not> (scheduled \<and> \<not> reentry \<and> last_schedule_admission_id (cstate L) = Some admission)"
    using changed by (auto simp: start_next_body_def Let_def split: if_split_asm)
  from start_next_body_Inr [OF body] changed obtain b where
    b: "armed (cstate L)" "\<not> paused (cstate L)" "active_batch_id (cstate L) = None"
      "lookahead_batch_id (cstate L) = None" "first_pending_batch (\<lambda>b. True) L = Some b"
    and s: "state_step (\<lambda>s. s\<lparr>active_batch_id := Some (batch_id b), active_admission_id := Some admission,
            last_schedule_admission_id :=
              (if scheduled then Some admission else last_schedule_admission_id s)\<rparr>) L L'" by blast
  have st: "active_batch_id (cstate L') = Some (batch_id b)" "active_admission_id (cstate L') = Some admission"
    "jobs L' = jobs L" "attempts L' = attempts L"
    using s by (simp_all add: state_step_def only_state_def)
  show ?thesis using b(1-4) once st first_pending_Some [OF b(5)] by blast
qed

lemma start_block_records:
  assumes "start_next_block admission scheduled reentry now actor L = (Inr r, L')"
    and "active_batch_id (cstate L') \<noteq> active_batch_id (cstate L)"
  shows "last_schedule_admission_id (cstate L') = (if scheduled then Some admission else last_schedule_admission_id (cstate L))"
proof -
  from assms(1) have "start_next_body admission scheduled reentry now actor L = Inr (r, L')"
    by (auto simp: start_next_block_def transaction_eq results split: sum.splits)
  from start_next_body_Inr [OF this] assms(2) show ?thesis by (auto simp: state_step_def)
qed

lemma start_block_once:
  assumes "last_schedule_admission_id (cstate L) = Some admission"
  shows "active_batch_id (cstate (snd (start_next_block admission True False now actor L))) = active_batch_id (cstate L)"
proof (cases "fst (start_next_block admission True False now actor L)")
  case (Inr r)
  then have run: "start_next_block admission True False now actor L = (Inr r, snd (start_next_block admission True False now actor L))"
    by (simp add: prod_eq_iff)
  show ?thesis using start_block_admits [OF run] assms by blast
qed (auto simp: start_next_block_def transaction_def split: sum.splits)

lemma finish_block_drained:
  assumes run: "finish_active_block_if_drained now actor L = (Inr drained, L')"
  shows "if drained
    then (\<exists>b. active_batch_id (cstate L) = Some b
            \<and> list_all (\<lambda>j. job_batch j = b \<longrightarrow> job_state j \<notin> {Queued, Leased, Running}) (active_jobs L))
      \<and> active_batch_id (cstate L') = lookahead_batch_id (cstate L)
      \<and> lookahead_batch_id (cstate L') = None \<and> jobs L' = jobs L
    else L' = L"
proof -
  from run have "finish_block_body now actor L = Inr (drained, L')"
    by (simp add: finish_active_block_if_drained_def transaction_eq)
  from finish_block_body_Inr [OF this] show ?thesis
    by (cases drained)
      (auto simp: state_step_def only_state_def list_all_iff pending_def job_live_def)
qed

lemma orphan_blocks:
  assumes "armed (cstate L)" and "\<not> paused (cstate L)" and "active_batch_id (cstate L) = None"
    and "lookahead_batch_id (cstate L) \<noteq> None"
  shows "(\<exists>e. perform env (StartNextBlock admission scheduled reentry now actor) L = (Inl e, L))
    \<and> snd (perform env (AdmitLookaheadBlock admission idle actor now) L) = L
    \<and> perform env (FinishActiveBlock now actor) L = (Inr (), L)"
  using orphan_lookahead_stuck [OF assms]
  by (auto simp: outcome_def start_next_block_def admit_lookahead_block_def finish_active_block_if_drained_def
      transaction_def split: sum.split)

text \<open>Which calls leave the admission fields alone.\<close>

definition admits :: "coordinator_state \<Rightarrow> string option \<times> string option \<times> string option \<times> string option" where
  "admits s = (active_batch_id s, active_admission_id s, lookahead_batch_id s, lookahead_admission_id s)"

definition same_admission :: "ledger \<Rightarrow> 'a result \<times> ledger \<Rightarrow> bool" where
  "same_admission L p \<longleftrightarrow> admits (cstate (snd p)) = admits (cstate L)"

lemma same_admission_simps [simp]:
  "same_admission L (Inl e, L)" "same_admission L (outcome p) \<longleftrightarrow> same_admission L p"
  "same_admission L q \<Longrightarrow> same_admission L (then_get_job jid q)"
  by (auto simp: same_admission_def outcome_def then_get_job_def split: prod.splits sum.splits)

lemma same_admission_run:
  "(\<And>x L'. body L = Inr (x, L') \<Longrightarrow> admits (cstate L') = admits (cstate L)) \<Longrightarrow> same_admission L (transaction body L)"
  by (auto simp: same_admission_def transaction_def split: sum.splits)

lemma same_admission_ok: "same_admission L p \<Longrightarrow> admission_ok L \<Longrightarrow> admission_ok (snd p)"
  by (simp add: same_admission_def admits_def admission_ok_def Let_def)

lemma same_policy_admits: "same_policy L L' \<Longrightarrow> admits (cstate L') = admits (cstate L)"
  by (simp add: same_policy_def)

lemma fail_body_admits:
  assumes run: "fail_body jid token generation failure retryable classified pathological now L = Inr (u, L')"
    and inv: "ledger_inv L"
  shows "admits (cstate L') = admits (cstate L)"
proof -
  from run obtain row A where A: "require_lease_locked jid token generation now L = Inr (row, A)"
    by (auto simp: fail_body_def results)
  note r = require_lease_Inr [OF A inv]
  obtain B C D E F where
    B: "close_open_stage_attempts_locked row now failure (str_of (leased_by row)) A = Inr B"
    and C: "\<exists>P f. update_jobs P f B = Inr C" and D: "\<exists>P f. update_attempts P f C = Inr D"
    and E: "logged D E"
    and F: "(if pathological then quarantine_failed_job failure classified now row E else Inr E) = Inr F"
    and G: "L' = F \<or> (\<exists>st cls. open_circuit st cls now row F = Inr L')"
    by (insert run [unfolded fail_body_def Let_def A and_then_Inr prod.case],
        elim ledger_run, clarify, rule that, assumption, (intro exI, assumption)+, assumption+,
        auto split: option.splits if_splits)
  have "cstate B = cstate A" using same_workD [OF close_open_Inr(2) [OF B ledger_invD(1) [OF r(2)]]] by simp
  moreover have "cstate C = cstate B" using C update_jobs_frame(1) by blast
  moreover have "cstate D = cstate C"
    using D by (auto simp: update_attempts_def put_attempts_def split: if_split_asm)
  moreover have "cstate E = cstate D" using logged_frame [OF E] by simp
  moreover have "cstate F = cstate E"
    using F same_leases_quarantines logged_frame(1)
    by (auto simp: quarantine_failed_job_def Let_def results split: if_split_asm dest!: loggedI)
  moreover have "admits (cstate L') = admits (cstate F)"
    using G by (auto simp: open_circuit_def Let_def results admits_def split: if_split_asm
        dest!: state_step_update loggedI dest: state_step_logged simp: state_step_def logged_frame)
  ultimately show ?thesis using same_policyD [OF r(3)] by simp
qed

lemma touch_worker_admits: "same_admission L (touch_worker clock worker transport pools metadata now L)"
proof -
  have "cstate L' = cstate L" if "touch_body w t p m now L = Inr (u, L')" for w t p m u L'
    using that
    by (auto simp: touch_body_def Let_def results update_workers_def put_workers_def log_event_def
        event_locked_def put_events_def split: if_split_asm option.split_asm)
  then show ?thesis
    by (auto simp: touch_worker_def transaction_def same_admission_def split: sum.split prod.split option.split)
qed

lemma recovers_admits: "recovers L L' \<Longrightarrow> admits (cstate L') = admits (cstate L)"
  by (simp add: recovers_def)

lemma step_admits:
  "state_step f L L' \<Longrightarrow> admits (f (cstate L)) = admits (cstate L) \<Longrightarrow> admits (cstate L') = admits (cstate L)"
  by (simp add: state_step_def)

lemma same_execution_admits: "same_execution s s' \<Longrightarrow> admits s' = admits s"
  by (simp add: same_execution_def admits_def)

fun synchronises :: "coordinator_call \<Rightarrow> bool" where
  "synchronises (SyncQueue c now actor) = True"
| "synchronises _ = False"

fun admission_call :: "coordinator_call \<Rightarrow> bool" where
  "admission_call (StartNextBlock a s r n b) = True"
| "admission_call (AdmitLookaheadBlock a i b n) = True"
| "admission_call (FinishActiveBlock n b) = True"
| "admission_call _ = False"

lemma perform_same_admission:
  assumes inv: "ledger_inv L" and other: "\<not> synchronises c" "\<not> admission_call c"
  shows "same_admission L (perform env c L)"
proof -
  note keeps = same_admission_run
  have pol: "same_admission L (transaction (recover_expired_locked now actor) L)"
    "same_admission L (transaction (claim_body token worker now pool selection) L)"
    "same_admission L (transaction (renew_body jid token generation now seconds) L)"
    "same_admission L (transaction (record_stage_body jid token generation sc now) L)"
    "same_admission L (transaction (complete_body jid token generation v doc now) L)"
    "same_admission L (transaction (fail_body jid token generation failure retryable cls pathological now) L)"
    for now actor token worker pool selection jid generation seconds sc v doc failure retryable cls pathological
    by (rule keeps, rule same_policy_admits, erule recover_expired_Inr(3) [OF _ ledger_invD [OF inv]],
      rule keeps, rule same_policy_admits, erule claim_body_Inr(3) [OF _ inv],
      rule keeps, rule same_policy_admits, erule renew_body_Inr(3) [OF _ inv],
      rule keeps, rule same_policy_admits, erule record_stage_body_Inr(3) [OF _ inv],
      rule keeps, rule same_policy_admits, erule complete_body_Inr(3) [OF _ inv],
      rule keeps, erule fail_body_admits [OF _ inv])
  have rec: "same_admission L (transaction (quarantine_body h batch ids count reason actor now) L)"
    "same_admission L (transaction (release_body h batch count reason actor now) L)"
    "same_admission L (transaction (requeue_failed_body h batch count reason actor now) L)"
    "same_admission L (transaction (requeue_interrupted_body h batch count reason actor now) L)"
    for h batch ids count reason actor now
    by (rule keeps, rule recovers_admits, erule quarantine_body_Inr(1),
      rule keeps, rule recovers_admits, erule release_body_Inr(1) [OF _ ledger_invD(1) [OF inv]],
      rule keeps, rule recovers_admits, erule requeue_failed_body_Inr(1) [OF _ inv],
      rule keeps, rule recovers_admits, erule requeue_interrupted_body_Inr(1) [OF _ inv])
  have st: "same_admission L (transaction (pause_body reason actor now) L)"
    "same_admission L (transaction (resume_body actor now) L)"
    "same_admission L (transaction (disarm_body f c g n m reason actor now) L)"
    "same_admission L (transaction (reconfigure_body f c g n reason actor now) L)"
    for reason actor now f c g n m
    by (rule keeps, drule pause_body_Inr, erule disjE, erule step_admits, simp add: admits_def, simp,
      rule keeps, drule resume_body_Inr, erule disjE, erule step_admits, simp add: admits_def, simp,
      rule keeps, drule disarm_body_Inr(1), erule step_admits, simp add: admits_def,
      rule keeps, drule reconfigure_body_Inr(1), elim exE conjE, erule step_admits, rule same_execution_admits, blast)
  show ?thesis using other
    by (cases c)
      (simp_all add: pol rec st touch_worker_admits recover_expired_def claim_def renew_def record_stage_def
        complete_def fail_def quarantine_pathological_jobs_def release_pathological_quarantine_def
        requeue_failed_batch_def requeue_interrupted_batch_def pause_def resume_def reconfigure_runtime_def
        disarm_for_recovery_def Let_def split: sum.split option.split prod.split)
qed

lemma perform_admission:
  assumes "ledger_inv L" and adm: "admission_ok L" and "\<not> synchronises c"
  shows "admission_ok (snd (perform env c L))"
proof (cases "admission_call c")
  case True
  have run: "(\<And>x L'. body L = Inr (x, L') \<Longrightarrow> admission_ok L') \<Longrightarrow> admission_ok (snd (outcome (transaction body L)))"
    for body :: "ledger \<Rightarrow> ('x \<times> ledger) result"
    using adm by (auto simp: outcome_def transaction_def split: sum.split)
  have err: "admission_ok (snd (outcome (Inl e, L)))" for e :: error using adm by (simp add: outcome_def)
  show ?thesis using True adm start_next_admission admit_lookahead_admission [OF _ adm ledger_invD(1) [OF assms(1)]]
      finish_block_admission
    by (cases c)
      (auto simp: start_next_block_def admit_lookahead_block_def finish_active_block_if_drained_def err
        intro!: run split: sum.split)
next
  case False
  from same_admission_ok [OF perform_same_admission [OF assms(1,3) False] adm] show ?thesis .
qed

text \<open>A look-ahead without a primary outlives every call that is not a synchronisation.\<close>

definition orphaned :: "ledger \<Rightarrow> bool" where
  "orphaned L \<longleftrightarrow> active_batch_id (cstate L) = None \<and> lookahead_batch_id (cstate L) \<noteq> None"

lemma orphan_admission_calls:
  assumes "orphaned L" "admission_call c"
  shows "snd (perform env c L) = L"
  using assms
  by (cases c)
    (auto simp: orphaned_def outcome_def start_next_block_def admit_lookahead_block_def finish_active_block_if_drained_def
      transaction_def start_next_body_def admit_lookahead_body_def finish_block_body_def Let_def split: sum.splits if_splits)

lemma orphan_finishes_nothing: "orphaned L \<Longrightarrow> perform env (FinishActiveBlock now actor) L = (Inr (), L)"
  by (simp add: orphaned_def outcome_def finish_active_block_if_drained_def transaction_def finish_block_body_def Let_def)

lemma orphan_step:
  assumes "ledger_inv L" "orphaned L" "\<not> synchronises c"
  shows "ledger_inv (snd (perform env c L)) \<and> orphaned (snd (perform env c L))
    \<and> lookahead_batch_id (cstate (snd (perform env c L))) = lookahead_batch_id (cstate L)"
proof (cases "admission_call c")
  case True
  then show ?thesis using orphan_admission_calls [OF assms(2) True] assms by simp
next
  case False
  show ?thesis using perform_same_admission [OF assms(1,3) False, of env] perform_safe [OF assms(1), of env c] assms(2)
    by (auto simp: same_admission_def admits_def orphaned_def safe_outcome_def)
qed

lemma orphan_persists:
  "ledger_inv L \<Longrightarrow> orphaned L \<Longrightarrow> list_all (\<lambda>(env, c). \<not> synchronises c) calls \<Longrightarrow>
     orphaned (perform_all calls L) \<and> lookahead_batch_id (cstate (perform_all calls L)) = lookahead_batch_id (cstate L)"
proof (induction calls arbitrary: L)
  case (Cons call calls)
  obtain env c where c: "call = (env, c)" by (cases call)
  have step: "perform_all (call # calls) L = perform_all calls (snd (perform env c L))" by (simp add: perform_all_def c)
  show ?case using Cons.IH [of "snd (perform env c L)"] orphan_step [OF Cons.prems(1,2), of c env] Cons.prems(3)
    unfolding step by (simp add: c)
qed (simp add: perform_all_def)

section \<open>Quarantine over public calls\<close>

lemma identifiers_unchanged:
  "map_result (\<lambda>v. identifier_field (JStr v) what) vs = Inr ids \<Longrightarrow> ids = vs"
  by (induction vs arbitrary: ids) (auto simp: results)

lemma put_second_quarantine:
  assumes "q \<in> set (quarantines L)" "q_state q = QActive" "q_job q = q_job q'" "q_state q' = QActive"
  shows "put_quarantines (quarantines L @ [q']) L = Inl (IntegrityError ''pathological_cell_quarantines'')"
  using assms by (auto simp: put_quarantines_def quarantines_ok_def image_iff)

lemma pathological_failure_refused:
  assumes inv: "ledger_inv L" and q: "actively_quarantined jid L"
  shows "\<exists>e. fail jid token generation err retryable cls True now L = (Inl e, L)"
proof -
  have none: "\<exists>e. fail_body jid token generation failure retryable classified True now L = Inl e"
    for failure classified
  proof (cases "fail_body jid token generation failure retryable classified True now L")
    case (Inr p)
    then obtain u L' where run: "fail_body jid token generation failure retryable classified True now L = Inr (u, L')"
      by (cases p) auto
    from run obtain row A where A: "require_lease_locked jid token generation now L = Inr (row, A)"
      by (auto simp: fail_body_def results)
    note r = require_lease_Inr [OF A inv]
    obtain B C D E F where
      B: "close_open_stage_attempts_locked row now failure (str_of (leased_by row)) A = Inr B"
      and C: "\<exists>P f. update_jobs P f B = Inr C" and D: "\<exists>P f. update_attempts P f C = Inr D"
      and E: "logged D E" and F: "quarantine_failed_job failure classified now row E = Inr F"
      by (insert run [unfolded fail_body_def Let_def A and_then_Inr prod.case if_True],
          elim ledger_run, clarify, rule that, assumption, (intro exI, assumption)+, assumption+)
    have "quarantines B = quarantines A"
      using same_workD [OF close_open_Inr(2) [OF B ledger_invD(1) [OF r(2)]]] by simp
    moreover have "quarantines C = quarantines B" using C update_jobs_frame(4) by blast
    moreover have "quarantines D = quarantines C"
      using D by (auto simp: update_attempts_def put_attempts_def split: if_split_asm)
    moreover have "quarantines E = quarantines D" using logged_frame [OF E] by simp
    ultimately have same: "quarantines E = quarantines L" using same_policyD [OF r(3)] by simp
    from q obtain x where x: "x \<in> set (quarantines E)" "q_job x = jid" "q_state x = QActive"
      unfolding same by (auto simp: actively_quarantined_def list_ex_iff)
    have False using F x put_second_quarantine [OF x(1,3)] r(7)
      by (simp add: quarantine_failed_job_def Let_def)
    then show ?thesis ..
  qed blast
  have "refused L (fail jid token generation err retryable cls True now L)"
    unfolding fail_def
    by (simp add: transaction_def refused_def then_get_job_def none split: sum.split)
       (metis none sum.simps(4) Inl_Inr_False)
  then show ?thesis by (simp add: refused_def)
qed

section \<open>Synchronisation and runtime edits over public calls\<close>

lemma select_batch_batch: "select_batch resolver h batch = Inr r \<Longrightarrow> fst r = batch"
  by (auto simp: select_batch_def Let_def results split: option.splits)

lemma runtime_edit_scope:
  assumes "reconfigure_runtime resolve_path c generation count reason actor now L = (Inr u, L')
    \<or> disarm_for_recovery resolve_path c generation count live reason actor now L = (Inr u, L')"
  shows "paused (cstate L) \<and> active_job_count L = count \<and> same_execution (cstate L) (cstate L')
    \<and> jobs L' = jobs L \<and> attempts L' = attempts L \<and> spans L' = spans L \<and> plans L' = plans L
    \<and> batches L' = batches L"
proof -
  have frame: "jobs L' = jobs L \<and> attempts L' = attempts L \<and> spans L' = spans L \<and> plans L' = plans L
    \<and> batches L' = batches L \<and> cstate L' = f (cstate L)" if "state_step f L L'" for f
    using that by (simp add: state_step_def only_state_def)
  from assms show ?thesis
  proof
    assume "reconfigure_runtime resolve_path c generation count reason actor now L = (Inr u, L')"
    then have run: "reconfigure_body resolve_path c generation count reason actor now L = Inr (u, L')"
      by (auto simp: reconfigure_runtime_def transaction_eq results split: sum.splits)
    note r = reconfigure_body_Inr [OF run]
    from r(1) obtain f where f: "state_step f L L'" "\<forall>s. same_execution s (f s)" by blast
    show ?thesis using frame [OF f(1)] f(2) r(3,4) by simp
  next
    assume "disarm_for_recovery resolve_path c generation count live reason actor now L = (Inr u, L')"
    then have run: "disarm_body resolve_path c generation count live reason actor now L = Inr (u, L')"
      by (auto simp: disarm_for_recovery_def transaction_eq results split: sum.splits)
    note r = disarm_body_Inr [OF run]
    show ?thesis using frame [OF r(1)] r(3,4) by (simp add: same_execution_def)
  qed
qed

end
