(* ===== verification/Demo_System.thy ===== *)
theory Demo_System
  imports Demo_Ledgers Guarantees
begin

text \<open>
  A concrete environment and a concrete history: two batches are synchronised, the first is
  admitted and its only job leased, the second is admitted as look-ahead, and the queue is
  synchronised again without the first.
\<close>

definition plan_for :: "string \<Rightarrow> string list \<Rightarrow> resolved_plan" where
  "plan_for p cs = \<lparr>rp_schema_version = RESOLVED_SCHEMA, rp_digest = p, rp_name = p, rp_document = JObj [],
     rp_matrices = [''m''],
     rp_cells = map (\<lambda>c. \<lparr>rc_id = c, rc_matrix = ''m'', rc_status = ''planned'', rc_json = JObj [(''id'', JStr c)]\<rparr>) cs,
     rp_queue_preview = map (\<lambda>(i, c). \<lparr>rr_base_cell = c, rr_state = ''planned'', rr_position = i,
       rr_factor_variants = JArr [], rr_blockers = JArr [], rr_json = JObj [(''cell'', JStr c)]\<rparr>)
       (zip [1, 2, 3] cs)\<rparr>"

definition batch_for :: "string \<Rightarrow> batch_config" where
  "batch_for b = \<lparr>bc_id = b, bc_name = b, bc_plan_path = b @ ''.toml'', bc_matrices = None,
     bc_plan_sha256 = None, bc_queue_digest = None, bc_executions = None\<rparr>"

definition queue_of :: "string list \<Rightarrow> queue_config" where
  "queue_of bs = \<lparr>qc_name = ''q'', qc_batch_order = bs, qc_armed = True, qc_max_workers = 2, qc_performance = None,
     qc_poll_seconds = 5, qc_lease_seconds = 60, qc_max_attempts = 2, qc_retry_backoff_seconds = 0,
     qc_retry_backoff_max_seconds = 0, qc_authority_failure_threshold = 0, qc_operations = JObj [],
     qc_batches = map batch_for bs, qc_source_path = ''queue.toml''\<rparr>"

definition demo_env :: environment where
  "demo_env = \<lparr>env_resolver = (\<lambda>b. Inr (plan_for (''p-'' @ bc_id b) [''c-'' @ bc_id b])),
     env_sha256_json = (\<lambda>v. case jget v ''base_cell'' of Some (JStr c) \<Rightarrow> c | _ \<Rightarrow> ''h''),
     env_sha256_ids = (\<lambda>_. ''h''), env_resolve_path = (\<lambda>p. p), env_iso = (\<lambda>_. None), env_clock = 0\<rparr>"

definition orphaning :: "coordinator_call list" where
  "orphaning = [SyncQueue (queue_of [''b1'', ''b2'']) 1 ''sync'', StartNextBlock ''a1'' False False 2 ''op'',
     Claim ''t1'' ''w1'' 3 None None None, AdmitLookaheadBlock ''a2'' 1 ''op'' 4,
     SyncQueue (queue_of [''b2'']) 5 ''sync'']"

definition orphaned_ledger :: ledger where
  "orphaned_ledger = perform_all (map (Pair demo_env) orphaning) init_ledger"

lemma orphaned_state:
  "armed (cstate orphaned_ledger) \<and> \<not> paused (cstate orphaned_ledger)
   \<and> active_batch_id (cstate orphaned_ledger) = None
   \<and> lookahead_batch_id (cstate orphaned_ledger) = Some ''b2''"
  by code_simp

text \<open>The first stage of the demo job, transition by transition.\<close>

definition ok_of :: "'a result \<Rightarrow> 'a" where
  "ok_of r = (case r of Inr x \<Rightarrow> x | Inl _ \<Rightarrow> undefined)"

lemma ok_of_eq: "r = Inr (ok_of r) \<longleftrightarrow> \<not> isl r"
  by (cases r) (simp_all add: ok_of_def)

definition demo_call :: stage_call where
  "demo_call = ok_of (check_stage (\<lambda>_. None) ''build'' ''started'' None None 12)"

definition demo_attempt :: attempt_row where
  "demo_attempt = hd (attempts demo_claimed)"

definition demo_span :: "(span_row \<times> stamp) \<times> ledger" where
  "demo_span = ok_of (begin_span demo_call demo_attempt ''j1'' 1 demo_claimed)"

lemma demo_steps:
  "\<not> isl (check_stage (\<lambda>_. None) ''build'' ''started'' None None 12)"
  "require_lease_locked ''j1'' ''t1'' 1 12 demo_claimed = Inr (jobs demo_claimed ! 1, demo_claimed)"
  "live_attempt_of ''j1'' 1 demo_claimed = Some demo_attempt"
  "sc_status demo_call = ''started''"
  "\<not> isl (begin_span demo_call demo_attempt ''j1'' 1 demo_claimed)"
  by code_simp+

definition demo_jobs_staged :: "ledger result" where
  "demo_jobs_staged = update_jobs (\<lambda>j. job_id j = ''j1'' \<and> lease_token j = Some ''t1'' \<and> lease_generation j = 1)
     (\<lambda>j. j\<lparr>job_state := Running,
            current_stage := (if sc_status demo_call = ''started'' then Some (sc_stage demo_call) else None),
            job_updated_at := timestamp 12\<rparr>) (snd demo_span)"

definition demo_attempts_staged :: "ledger result" where
  "demo_attempts_staged = update_attempts (\<lambda>a. attempt_job a = ''j1'' \<and> attempt_generation a = 1 \<and> attempt_live a)
     (\<lambda>a. a\<lparr>attempt_state := ARunning\<rparr>) (ok_of demo_jobs_staged)"

lemma demo_stage_recorded:
  "\<exists>i. fst (record_stage (\<lambda>_. None) ''j1'' ''t1'' 1 ''build'' ''started'' None None 12 demo_claimed) = Inr i"
proof -
  obtain s t B where B: "demo_span = ((s, t), B)" by (metis prod.exhaust)
  have a: "check_stage (\<lambda>_. None) ''build'' ''started'' None None 12 = Inr demo_call"
    "begin_span demo_call demo_attempt ''j1'' 1 demo_claimed = Inr ((s, t), B)"
    using demo_steps(1,5) unfolding B [symmetric] by (simp_all add: demo_call_def demo_span_def ok_of_eq)
  have "\<not> isl demo_jobs_staged" "\<not> isl demo_attempts_staged" by code_simp+
  then obtain C D where C: "demo_jobs_staged = Inr C" and D: "demo_attempts_staged = Inr D"
    by (auto simp: isl_def) (metis sum.exhaust)
  note C' = C [unfolded demo_jobs_staged_def B snd_conv]
    and D' = D [unfolded demo_attempts_staged_def C ok_of_def sum.case]
  have t: "text_field (JStr (str_of (leased_by (jobs demo_claimed ! 1)))) ''event actor'' = Inr ''w1''"
    by code_simp
  have "events_ok (events (ok_of demo_attempts_staged))" "serializable (sc_details demo_call)" by code_simp+
  then have ok: "events_ok (events D)" "serializable (sc_details demo_call)" by (simp_all add: D ok_of_def)
  have opt: "serializable (opt_int x)" "serializable (opt_str y)" for x y
    by (simp_all add: opt_int_def opt_str_def split: option.split)
  have logs: "\<exists>i. event_locked ty 12 (str_of (leased_by (jobs demo_claimed ! 1))) b j p v D = Inr i"
    if "serializable v" for ty b j p v
    using event_locked_total [OF ok(1) t that] by blast
  have "\<exists>i. record_stage_body ''j1'' ''t1'' 1 demo_call 12 demo_claimed = Inr i"
    unfolding record_stage_body_def demo_steps(2) and_then_Inr prod.case demo_steps(3) option.case
      demo_steps(4) simp_thms if_True a(2) C' [unfolded demo_steps(4) simp_thms if_True] D'
    by (rule logs) (simp add: ok(2) opt)
  then show ?thesis by (auto simp: record_stage_def a transaction_def)
qed

text \<open>The demo queue with its job leased, paused and disarmed for recovery; the job requeued, then
  quarantined, then released or requeued again.\<close>

definition disarmed_ledger :: ledger where
  "disarmed_ledger = demo_claimed\<lparr>cstate := (cstate demo_claimed)\<lparr>armed := False, paused := True\<rparr>\<rparr>"

definition requeued_ledger :: ledger where
  "requeued_ledger = snd (requeue_interrupted_batch (\<lambda>_. ''h'') ''b1'' 1 ''stop'' ''op'' 60 disarmed_ledger)"

definition quarantined_ledger :: ledger where
  "quarantined_ledger =
     snd (quarantine_pathological_jobs (\<lambda>_. ''h'') ''b1'' [''j1''] 1 ''bad'' ''op'' 70 requeued_ledger)"

definition quarantined_claimed :: ledger where
  "quarantined_claimed =
     (let L = snd (requeue_failed_batch (\<lambda>_. ''h'') ''b1'' 1 ''again'' ''op'' 80 quarantined_ledger)
      in snd (claim ''t2'' ''w1'' 90 None None None (L\<lparr>cstate := (cstate L)\<lparr>armed := True, paused := False\<rparr>\<rparr>)))"

text \<open>A queue with a declared number of executions, and a queue document with its environment.\<close>

definition counted_queue :: queue_config where
  "counted_queue = (queue_of [''b1''])\<lparr>qc_batches := [(batch_for ''b1'')\<lparr>bc_executions := Some 1\<rparr>]\<rparr>"

definition demo_queue_env :: queue_env where
  "demo_queue_env = \<lparr>env_plan = (\<lambda>p. PlanFile p ''h''), env_profile = (\<lambda>_. Inl (ValueError ''unknown profile'')),
     env_automatic = Inr, env_operations = (\<lambda>_. Inr (JObj []))\<rparr>"

definition demo_queue_document :: json where
  "demo_queue_document = JObj [(''schema_version'', JStr ''fidb-queue/v1''), (''name'', JStr ''q''),
     (''queue'', JObj [(''batch_order'', JArr [JStr ''b1'']), (''armed'', JBool False), (''max_workers'', JInt 2),
        (''poll_seconds'', JInt 5), (''lease_seconds'', JInt 60), (''max_attempts'', JInt 3)]),
     (''batch'', JArr [JObj [(''id'', JStr ''b1''), (''name'', JStr ''B''), (''plan'', JStr ''b1.toml'')]])]"

end
