(* ===== verification/Elf_Inspector.thy ===== *)
theory Elf_Inspector
  imports Prelude "HOL-Library.Word"
begin

text \<open>
  src/fidb_poc/elf.py: the dependency-free ELF inspector that reads a target's bytes and reports
  its machine, byte order, linkage, symbols and the Ghidra language for it.  Bytes are 8-bit
  words; \<open>struct\<close> formats are lists of field widths, since the \<open><\<close> and \<open>>\<close> prefixes mean standard sizes
  without padding.  Reading the file, its SHA-256 and the resolved path are arguments.
\<close>

section \<open>Bytes and integers\<close>

type_synonym bytes = "8 word list"

datatype byte_order = Little | Big

primrec le_value :: "bytes \<Rightarrow> nat" where
  "le_value [] = 0"
| "le_value (b # bs) = unat b + 256 * le_value bs"

primrec le_bytes :: "nat \<Rightarrow> nat \<Rightarrow> bytes" where
  "le_bytes 0 n = []"
| "le_bytes (Suc w) n = of_nat (n mod 256) # le_bytes w (n div 256)"

definition read_uint :: "byte_order \<Rightarrow> bytes \<Rightarrow> nat" where
  "read_uint order bs = le_value (case order of Little \<Rightarrow> bs | Big \<Rightarrow> rev bs)"

text \<open>The encoding that \<open>struct.pack\<close> writes; the inspector only decodes.\<close>

definition write_uint :: "byte_order \<Rightarrow> nat \<Rightarrow> nat \<Rightarrow> bytes" where
  "write_uint order w n = (case order of Little \<Rightarrow> le_bytes w n | Big \<Rightarrow> rev (le_bytes w n))"

text \<open>\<open>struct.calcsize\<close>, \<open>struct.unpack\<close> and \<open>struct.pack\<close> for a list of field widths.\<close>

definition calcsize :: "nat list \<Rightarrow> nat" where
  "calcsize fmt = sum_list fmt"

fun unpack :: "byte_order \<Rightarrow> nat list \<Rightarrow> bytes \<Rightarrow> nat list" where
  "unpack order [] bs = []"
| "unpack order (w # fmt) bs = read_uint order (take w bs) # unpack order fmt (drop w bs)"

fun pack :: "byte_order \<Rightarrow> nat list \<Rightarrow> nat list \<Rightarrow> bytes" where
  "pack order (w # fmt) (n # ns) = write_uint order w n @ pack order fmt ns"
| "pack order _ _ = []"

abbreviation (input) "H \<equiv> (2 :: nat)"
abbreviation (input) "I \<equiv> (4 :: nat)"
abbreviation (input) "Q \<equiv> (8 :: nat)"

definition header_format :: "nat \<Rightarrow> nat list" where
  "header_format bits =
     (if bits = 32 then [H, H, I, I, I, I, I, H, H, H, H, H, H] else [H, H, I, Q, Q, Q, I, H, H, H, H, H, H])"

definition program_format :: "nat \<Rightarrow> nat list" where
  "program_format bits = (if bits = 32 then [I, I, I, I, I, I, I, I] else [I, I, Q, Q, Q, Q, Q, Q])"

definition section_format :: "nat \<Rightarrow> nat list" where
  "section_format bits =
     (if bits = 32 then [I, I, I, I, I, I, I, I, I, I] else [I, I, Q, Q, Q, Q, I, I, Q, Q])"

section \<open>Machines and languages\<close>

definition MACHINES :: "(nat \<times> string) list" where
  "MACHINES = [(3, ''x86''), (4, ''M68K''), (8, ''MIPS''), (20, ''PowerPC''), (21, ''PowerPC64''),
     (40, ''ARM''), (42, ''SH''), (62, ''x86-64''), (183, ''AArch64''), (243, ''RISC-V''), (258, ''LoongArch'')]"

definition PT_DYNAMIC :: nat where "PT_DYNAMIC = 2"
definition PT_INTERP :: nat where "PT_INTERP = 3"
definition SHT_SYMTAB :: nat where "SHT_SYMTAB = 2"

definition ghidra_language :: "string \<Rightarrow> byte_order \<Rightarrow> nat \<Rightarrow> string option" where
  "ghidra_language machine order bits =
     (let endian = (case order of Little \<Rightarrow> ''LE'' | Big \<Rightarrow> ''BE'')
      in if machine = ''PowerPC'' \<and> bits = 32 then Some (''PowerPC:'' @ endian @ '':32:default'')
         else if machine = ''x86'' then Some (''x86:LE:'' @ decimal bits @ '':default'')
         else if machine = ''x86-64'' then Some ''x86:LE:64:default''
         else if machine = ''MIPS'' \<and> bits = 32 then Some (''MIPS:'' @ endian @ '':32:default'')
         else if machine = ''ARM'' \<and> bits = 32 then Some (''ARM:'' @ endian @ '':32:v7'')
         else if machine = ''M68K'' \<and> bits = 32 then Some ''68000:BE:32:default''
         else if machine = ''SH'' \<and> bits = 32 then Some (''SuperH4:'' @ endian @ '':32:default'')
         else if machine = ''AArch64'' \<and> bits = 64 then Some ''AARCH64:LE:64:v8A''
         else if machine = ''RISC-V'' \<and> bits = 64 then Some ''RISCV:LE:64:RV64G''
         else None)"

definition machine_name :: "nat \<Rightarrow> string" where
  "machine_name mid =
     (case map_of MACHINES mid of Some m \<Rightarrow> m | None \<Rightarrow> ''unknown ('' @ decimal mid @ '')'')"

section \<open>Reading\<close>

text \<open>Offsets and sizes come from unsigned fields, so the negative tests of \<open>_slice\<close> never fire.\<close>

definition slice :: "bytes \<Rightarrow> nat \<Rightarrow> nat \<Rightarrow> string \<Rightarrow> bytes result" where
  "slice data offset len label =
     (if offset + len > length data then Inl (ElfInspectionError (''truncated ELF while reading '' @ label))
      else Inr (take len (drop offset data)))"

text \<open>Text decoded as ASCII with replacement: Unicode code points.\<close>

type_synonym unicode = "nat list"

definition decode_ascii :: "bytes \<Rightarrow> unicode" where
  "decode_ascii bs = map (\<lambda>b. if unat b < 128 then unat b else 65533) bs"

definition unicode_of :: "string \<Rightarrow> unicode" where
  "unicode_of s = map of_char s"

definition c_string :: "bytes \<Rightarrow> nat \<Rightarrow> unicode" where
  "c_string table offset =
     (if offset \<ge> length table then [] else decode_ascii (takeWhile (\<lambda>b. b \<noteq> 0) (drop offset table)))"

text \<open>\<open>bytes.lower\<close> and the substring test \<open>in\<close>.\<close>

definition lower_bytes :: "bytes \<Rightarrow> bytes" where
  "lower_bytes bs = map (\<lambda>b. if 65 \<le> unat b \<and> unat b \<le> 90 then b + 32 else b) bs"

fun occurs :: "bytes \<Rightarrow> bytes \<Rightarrow> bool" where
  "occurs needle [] = (needle = [])"
| "occurs needle (b # bs) = (take (length needle) (b # bs) = needle \<or> occurs needle bs)"

definition INDICATORS :: "string list" where
  "INDICATORS = [''glibc'', ''uclibc'', ''musl'', ''gcc'', ''clang'', ''zlib'', ''openwrt'', ''upx'']"

definition ascii_bytes :: "string \<Rightarrow> bytes" where
  "ascii_bytes s = map (\<lambda>c. of_nat (of_char c)) s"

text \<open>A table of fixed-size entries: \<open>count\<close> entries of which the first \<open>calcsize fmt\<close> bytes are read.\<close>

definition read_table ::
  "byte_order \<Rightarrow> nat list \<Rightarrow> bytes \<Rightarrow> nat \<Rightarrow> nat \<Rightarrow> nat \<Rightarrow> string \<Rightarrow> nat list list result" where
  "read_table order fmt data start entry_size count label =
     map_result (\<lambda>i. and_then (slice data (start + i * entry_size) (calcsize fmt) (label @ '' '' @ decimal i))
       (\<lambda>bs. Inr (unpack order fmt bs))) [0..<count]"

record elf_facts =
  ef_path :: string
  ef_sha256 :: string
  ef_size :: nat
  ef_class :: nat
  ef_endianness :: byte_order
  ef_machine :: string
  ef_machine_id :: nat
  ef_type :: nat
  ef_entry_point :: string
  ef_flags :: string
  ef_statically_linked :: bool
  ef_stripped :: bool
  ef_interpreter :: bool
  ef_dynamic_segment :: bool
  ef_section_names :: "unicode list"
  ef_string_indicators :: "string list"
  ef_ghidra_language_hint :: "string option"
  ef_cpu_specific_evidence :: "string list"

text \<open>The header fields by their place in the format.\<close>

record elf_header =
  eh_type :: nat
  eh_machine :: nat
  eh_entry :: nat
  eh_program_offset :: nat
  eh_section_offset :: nat
  eh_flags :: nat
  eh_program_entry_size :: nat
  eh_program_count :: nat
  eh_section_entry_size :: nat
  eh_section_count :: nat
  eh_section_name_index :: nat

definition header_of :: "nat list \<Rightarrow> elf_header" where
  "header_of f = \<lparr>eh_type = f ! 0, eh_machine = f ! 1, eh_entry = f ! 3, eh_program_offset = f ! 4,
     eh_section_offset = f ! 5, eh_flags = f ! 6, eh_program_entry_size = f ! 8,
     eh_program_count = f ! 9, eh_section_entry_size = f ! 10, eh_section_count = f ! 11,
     eh_section_name_index = f ! 12\<rparr>"

definition section_names :: "bytes \<Rightarrow> elf_header \<Rightarrow> nat list list \<Rightarrow> unicode list result" where
  "section_names data h sections =
     (if sections \<noteq> [] \<and> eh_section_name_index h < length sections
      then let name_header = sections ! eh_section_name_index h
           in and_then (slice data (name_header ! 4) (name_header ! 5) ''section name table'') (\<lambda>table.
              Inr (map (\<lambda>s. c_string table (s ! 0)) sections))
      else Inr [])"

definition inspect_elf :: "(bytes \<Rightarrow> string) \<Rightarrow> string \<Rightarrow> bytes \<Rightarrow> elf_facts result" where
  "inspect_elf sha256 path data =
     and_then (require (16 \<le> length data \<and> take 4 data = [0x7f, 0x45, 0x4c, 0x46])
       (ElfInspectionError ''target is not an ELF file'')) (\<lambda>_.
     and_then (require (data ! 4 = 1 \<or> data ! 4 = 2)
       (ElfInspectionError (''unsupported ELF class: '' @ decimal (unat (data ! 4))))) (\<lambda>_.
     and_then (require (data ! 5 = 1 \<or> data ! 5 = 2)
       (ElfInspectionError (''unsupported ELF byte order: '' @ decimal (unat (data ! 5))))) (\<lambda>_.
     let bits = (if data ! 4 = 1 then 32 else 64);
         order = (if data ! 5 = 1 then Little else Big)
     in and_then (slice data 16 (calcsize (header_format bits)) ''ELF header'') (\<lambda>bs.
        let h = header_of (unpack order (header_format bits) bs)
        in and_then (require (eh_program_count h = 0 \<or> calcsize (program_format bits) \<le> eh_program_entry_size h)
             (ElfInspectionError ''ELF program header entries are too small'')) (\<lambda>_.
           and_then (read_table order (program_format bits) data (eh_program_offset h)
             (eh_program_entry_size h) (eh_program_count h) ''program header'') (\<lambda>programs.
           and_then (require (eh_section_count h = 0 \<or> calcsize (section_format bits) \<le> eh_section_entry_size h)
             (ElfInspectionError ''ELF section header entries are too small'')) (\<lambda>_.
           and_then (read_table order (section_format bits) data (eh_section_offset h)
             (eh_section_entry_size h) (eh_section_count h) ''section header'') (\<lambda>sections.
           and_then (section_names data h sections) (\<lambda>names.
           let machine = machine_name (eh_machine h);
               program_types = map (\<lambda>p. p ! 0) programs;
               dynamic = (PT_DYNAMIC \<in> set program_types);
               interpreter = (PT_INTERP \<in> set program_types)
           in Inr \<lparr>ef_path = path, ef_sha256 = sha256 data, ef_size = length data, ef_class = bits,
                ef_endianness = order, ef_machine = machine, ef_machine_id = eh_machine h,
                ef_type = eh_type h, ef_entry_point = hex (eh_entry h), ef_flags = hex (eh_flags h),
                ef_statically_linked = (\<not> dynamic \<and> \<not> interpreter),
                ef_stripped = (\<not> list_ex (\<lambda>s. s ! 1 = SHT_SYMTAB) sections),
                ef_interpreter = interpreter, ef_dynamic_segment = dynamic,
                ef_section_names = filter (\<lambda>n. n \<noteq> []) names,
                ef_string_indicators = filter (\<lambda>i. occurs (ascii_bytes i) (lower_bytes data)) INDICATORS,
                ef_ghidra_language_hint = ghidra_language machine order bits,
                ef_cpu_specific_evidence =
                  (if unicode_of ''.gnu.attributes'' \<in> set names
                   then [''.gnu.attributes section present (not decoded in phase 1)''] else [])\<rparr>)))))))))"

section \<open>Integers read back what was written\<close>

lemma length_le_bytes [simp]: "length (le_bytes w n) = w"
  by (induction w arbitrary: n) auto

lemma length_write_uint [simp]: "length (write_uint order w n) = w"
  by (cases order) (simp_all add: write_uint_def)

lemma le_value_le_bytes: "le_value (le_bytes w n) = n mod 256 ^ w"
proof (induction w arbitrary: n)
  case (Suc w)
  have "unat (of_nat (n mod 256) :: 8 word) = n mod 256"
    by (simp add: unat_of_nat)
  then show ?case by (simp add: Suc mod_mult2_eq)
qed simp

lemma read_write_uint: "n < 256 ^ w \<Longrightarrow> read_uint order (write_uint order w n) = n"
  by (cases order) (simp_all add: read_uint_def write_uint_def le_value_le_bytes)

lemma le_value_less: "le_value bs < 256 ^ length bs"
proof (induction bs)
  case (Cons b bs)
  have "unat b < 256" using unsigned_less [of b, where ?'a = nat] by simp
  with Cons show ?case by simp
qed simp

lemma read_uint_less: "read_uint order bs < 256 ^ length bs"
  using le_value_less [of bs] le_value_less [of "rev bs"] by (cases order) (simp_all add: read_uint_def)

lemma length_pack: "length fmt = length ns \<Longrightarrow> length (pack order fmt ns) = calcsize fmt"
  by (induction order fmt ns rule: pack.induct) (auto simp: calcsize_def)

lemma unpack_pack:
  "list_all2 (\<lambda>w n. n < 256 ^ w) fmt ns \<Longrightarrow> unpack order fmt (pack order fmt ns @ rest) = ns"
  by (induction order fmt ns rule: pack.induct) (auto simp: read_write_uint)

lemma length_unpack [simp]: "length (unpack order fmt bs) = length fmt"
  by (induction order fmt bs rule: unpack.induct) auto

section \<open>An accepted file is read inside its bounds\<close>

lemma slice_Inr [results]:
  "slice data offset len label = Inr bs \<longleftrightarrow>
     offset + len \<le> length data \<and> bs = take len (drop offset data)"
  by (auto simp: slice_def)

lemma read_table_Inr:
  assumes "read_table order fmt data start entry_size count label = Inr rows"
  shows "length rows = count"
    "i < count \<Longrightarrow> start + i * entry_size + calcsize fmt \<le> length data
       \<and> rows ! i = unpack order fmt (take (calcsize fmt) (drop (start + i * entry_size) data))"
  using map_result_length [OF assms [unfolded read_table_def]]
    map_result_nth [OF assms [unfolded read_table_def], of i] by (auto simp: results)

definition accepted_layout :: "bytes \<Rightarrow> nat \<Rightarrow> elf_header \<Rightarrow> bool" where
  "accepted_layout data bits h \<longleftrightarrow>
     16 + calcsize (header_format bits) \<le> length data
     \<and> (\<forall>i<eh_program_count h.
          eh_program_offset h + i * eh_program_entry_size h + calcsize (program_format bits) \<le> length data)
     \<and> (\<forall>i<eh_section_count h.
          eh_section_offset h + i * eh_section_entry_size h + calcsize (section_format bits) \<le> length data)
     \<and> (0 < eh_program_count h \<longrightarrow> calcsize (program_format bits) \<le> eh_program_entry_size h)
     \<and> (0 < eh_section_count h \<longrightarrow> calcsize (section_format bits) \<le> eh_section_entry_size h)"

text \<open>The class, byte order and header that the identification bytes select.\<close>

definition elf_bits :: "bytes \<Rightarrow> nat" where
  "elf_bits data = (if data ! 4 = 1 then 32 else 64)"

definition elf_order :: "bytes \<Rightarrow> byte_order" where
  "elf_order data = (if data ! 5 = 1 then Little else Big)"

definition elf_header_of :: "bytes \<Rightarrow> elf_header" where
  "elf_header_of data =
     header_of (unpack (elf_order data) (header_format (elf_bits data))
       (take (calcsize (header_format (elf_bits data))) (drop 16 data)))"

lemma inspect_elf_Inr:
  assumes "inspect_elf sha256 path data = Inr f"
  shows "16 \<le> length data" "take 4 data = [0x7f, 0x45, 0x4c, 0x46]" "data ! 4 = 1 \<or> data ! 4 = 2" "data ! 5 = 1 \<or> data ! 5 = 2"
    "accepted_layout data (elf_bits data) (elf_header_of data)"
    "ef_class f = elf_bits data" "ef_endianness f = elf_order data"
    "ef_machine_id f = eh_machine (elf_header_of data)" "ef_size f = length data"
    "ef_machine f = machine_name (ef_machine_id f)"
    "ef_ghidra_language_hint f = ghidra_language (ef_machine f) (ef_endianness f) (ef_class f)"
    "ef_statically_linked f \<longleftrightarrow> \<not> ef_dynamic_segment f \<and> \<not> ef_interpreter f"
    "ef_stripped f \<longleftrightarrow> \<not> (\<exists>i<eh_section_count (elf_header_of data).
       read_uint (elf_order data) (take 4 (drop (eh_section_offset (elf_header_of data)
         + i * eh_section_entry_size (elf_header_of data) + 4) data)) = SHT_SYMTAB)"
proof -
  let ?h = "elf_header_of data" and ?b = "elf_bits data" and ?o = "elf_order data"
  from assms obtain programs sections names where
    ident: "16 \<le> length data" "take 4 data = [0x7f, 0x45, 0x4c, 0x46]" "data ! 4 = 1 \<or> data ! 4 = 2" "data ! 5 = 1 \<or> data ! 5 = 2"
    and hdr: "16 + calcsize (header_format ?b) \<le> length data"
    and psize: "eh_program_count ?h = 0 \<or> calcsize (program_format ?b) \<le> eh_program_entry_size ?h"
    and programs: "read_table ?o (program_format ?b) data (eh_program_offset ?h)
             (eh_program_entry_size ?h) (eh_program_count ?h) ''program header'' = Inr programs"
    and ssize: "eh_section_count ?h = 0 \<or> calcsize (section_format ?b) \<le> eh_section_entry_size ?h"
    and sections: "read_table ?o (section_format ?b) data (eh_section_offset ?h)
             (eh_section_entry_size ?h) (eh_section_count ?h) ''section header'' = Inr sections"
    and f: "ef_class f = ?b" "ef_endianness f = ?o" "ef_machine_id f = eh_machine ?h" "ef_size f = length data"
      "ef_machine f = machine_name (eh_machine ?h)"
      "ef_ghidra_language_hint f = ghidra_language (machine_name (eh_machine ?h)) ?o ?b"
      "ef_statically_linked f \<longleftrightarrow> \<not> ef_dynamic_segment f \<and> \<not> ef_interpreter f"
      "ef_stripped f \<longleftrightarrow> \<not> list_ex (\<lambda>s. s ! 1 = SHT_SYMTAB) sections"
    by (auto simp: inspect_elf_def Let_def results elf_bits_def [symmetric] elf_order_def [symmetric]
        elf_header_of_def [symmetric])
  show "16 \<le> length data" "take 4 data = [0x7f, 0x45, 0x4c, 0x46]" "data ! 4 = 1 \<or> data ! 4 = 2" "data ! 5 = 1 \<or> data ! 5 = 2"
    by (fact ident)+
  show "accepted_layout data ?b ?h"
    using hdr psize ssize read_table_Inr(2) [OF programs] read_table_Inr(2) [OF sections]
    by (auto simp: accepted_layout_def)
  show "ef_class f = ?b" "ef_endianness f = ?o" "ef_machine_id f = eh_machine ?h" "ef_size f = length data"
    "ef_machine f = machine_name (ef_machine_id f)"
    "ef_ghidra_language_hint f = ghidra_language (ef_machine f) (ef_endianness f) (ef_class f)"
    "ef_statically_linked f \<longleftrightarrow> \<not> ef_dynamic_segment f \<and> \<not> ef_interpreter f"
    using f by simp_all
  have "sections ! i ! 1 = read_uint ?o (take 4 (drop (eh_section_offset ?h + i * eh_section_entry_size ?h + 4) data))"
    if "i < eh_section_count ?h" for i
  proof -
    have "unpack ?o (section_format ?b) bs ! 1 = read_uint ?o (take 4 (drop 4 bs))" for bs
      by (simp add: section_format_def)
    then show ?thesis
      using read_table_Inr(2) [OF sections that]
      by (simp add: section_format_def calcsize_def drop_take add.commute min_def)
  qed
  then show "ef_stripped f \<longleftrightarrow> \<not> (\<exists>i<eh_section_count ?h.
       read_uint ?o (take 4 (drop (eh_section_offset ?h + i * eh_section_entry_size ?h + 4) data)) = SHT_SYMTAB)"
    using f(8) read_table_Inr(1) [OF sections] by (auto simp: list_ex_length)
qed

section \<open>Every header that can be written is read back\<close>

definition elf_image :: "nat \<Rightarrow> byte_order \<Rightarrow> nat list \<Rightarrow> bytes \<Rightarrow> bytes" where
  "elf_image bits order ns rest =
     [0x7f, 0x45, 0x4c, 0x46, if bits = 32 then 1 else 2, case order of Little \<Rightarrow> 1 | Big \<Rightarrow> 2]
     @ replicate 10 0 @ pack order (header_format bits) ns @ rest"

definition fits :: "nat \<Rightarrow> nat list \<Rightarrow> bool" where
  "fits bits ns = list_all2 (\<lambda>w n. n < 256 ^ w) (header_format bits) ns"

lemma elf_image_ident:
  assumes "bits = 32 \<or> bits = 64"
  shows "16 \<le> length (elf_image bits order ns rest)"
    "take 4 (elf_image bits order ns rest) = [0x7f, 0x45, 0x4c, 0x46]"
    "elf_image bits order ns rest ! 4 = (if bits = 32 then 1 else 2)"
    "elf_image bits order ns rest ! 5 = (case order of Little \<Rightarrow> 1 | Big \<Rightarrow> 2)"
    "elf_bits (elf_image bits order ns rest) = bits" "elf_order (elf_image bits order ns rest) = order"
  using assms by (cases order; auto simp: elf_image_def elf_bits_def elf_order_def)+

lemma elf_image_header:
  assumes "bits = 32 \<or> bits = 64" and "fits bits ns"
  shows "elf_header_of (elf_image bits order ns rest) = header_of ns"
    "16 + calcsize (header_format bits) \<le> length (elf_image bits order ns rest)"
proof -
  have len: "length (pack order (header_format bits) ns) = calcsize (header_format bits)"
    using assms(2) by (intro length_pack) (simp add: fits_def list_all2_lengthD)
  have drop: "drop 16 (elf_image bits order ns rest) = pack order (header_format bits) ns @ rest"
    by (simp add: elf_image_def)
  have "unpack order (header_format bits) (pack order (header_format bits) ns @ []) = ns"
    using assms(2) by (intro unpack_pack) (simp add: fits_def)
  then show "elf_header_of (elf_image bits order ns rest) = header_of ns"
    unfolding elf_header_of_def elf_image_ident(5,6) [OF assms(1)] drop by (simp add: len)
  show "16 + calcsize (header_format bits) \<le> length (elf_image bits order ns rest)"
    by (simp add: elf_image_def len)
qed

section \<open>Tables\<close>

text \<open>Equally long blocks laid out one after the other.\<close>

lemma drop_blocks:
  "\<forall>r\<in>set rows. length (p r) = c \<Longrightarrow> i < length rows \<Longrightarrow>
   \<exists>after. drop (i * c) (concat (map p rows) @ post) = p (rows ! i) @ after"
proof (induction rows arbitrary: i)
  case (Cons r rows)
  show ?case
  proof (cases i)
    case (Suc k)
    with Cons.prems have "length (p r) = c" and "\<exists>after. drop (k * c) (concat (map p rows) @ post) = p (rows ! k) @ after"
      using Cons.IH [of k] by simp_all
    then show ?thesis using Suc by simp
  qed simp
qed simp

definition fits_table :: "nat list \<Rightarrow> nat list list \<Rightarrow> bool" where
  "fits_table fmt rows = list_all (list_all2 (\<lambda>w n. n < 256 ^ w) fmt) rows"

definition pack_table :: "byte_order \<Rightarrow> nat list \<Rightarrow> nat list list \<Rightarrow> bytes" where
  "pack_table order fmt rows = concat (map (pack order fmt) rows)"

lemma fits_table_length:
  "fits_table fmt rows \<Longrightarrow> \<forall>r\<in>set rows. length (pack order fmt r) = calcsize fmt"
  by (auto simp: fits_table_def list_all_iff intro!: length_pack dest: list_all2_lengthD)

lemma length_pack_table:
  "fits_table fmt rows \<Longrightarrow> length (pack_table order fmt rows) = length rows * calcsize fmt"
  using fits_table_length [of fmt rows order]
  by (induction rows) (auto simp: pack_table_def fits_table_def)

lemma read_table_pack_table:
  assumes fits: "fits_table fmt rows" and start: "length pre = start"
    and data: "data = pre @ pack_table order fmt rows @ post"
  shows "read_table order fmt data start (calcsize fmt) (length rows) label = Inr rows"
proof -
  have entry: "and_then (slice data (start + i * calcsize fmt) (calcsize fmt) l) (\<lambda>bs. Inr (unpack order fmt bs))
      = Inr (rows ! i)" if i: "i < length rows" for i l
  proof -
    obtain after where after: "drop (i * calcsize fmt) (pack_table order fmt rows @ post) = pack order fmt (rows ! i) @ after"
      using drop_blocks [OF fits_table_length [OF fits] i, of order post] by (auto simp: pack_table_def)
    have len: "length (pack order fmt (rows ! i)) = calcsize fmt"
      using fits_table_length [OF fits, of order] i by auto
    have "Suc i * calcsize fmt \<le> length rows * calcsize fmt" using i by (intro mult_le_mono) auto
    then have "start + i * calcsize fmt + calcsize fmt \<le> length data"
      using length_pack_table [OF fits, of order] start data by simp
    moreover have "drop (start + i * calcsize fmt) data = pack order fmt (rows ! i) @ after"
      using after start data by (simp add: add.commute flip: drop_drop)
    moreover have "unpack order fmt (pack order fmt (rows ! i) @ []) = rows ! i"
      using fits i by (intro unpack_pack) (auto simp: fits_table_def list_all_iff)
    ultimately show ?thesis by (simp add: slice_def len)
  qed
  have "map (\<lambda>i. rows ! i) [0..<length rows] = rows" by (simp add: map_nth)
  then show ?thesis unfolding read_table_def using entry by (subst map_result_all_Inr) auto
qed

text \<open>
  An executable with its program headers right after the file header and its section headers
  after them; \<open>fields\<close> are the type, machine, version, entry point and flags.
\<close>

definition elf_fields :: "nat \<Rightarrow> nat list \<Rightarrow> nat list list \<Rightarrow> nat list list \<Rightarrow> nat \<Rightarrow> nat list" where
  "elf_fields bits fs programs sections name_index =
     (let start = 16 + calcsize (header_format bits)
      in [fs ! 0, fs ! 1, fs ! 2, fs ! 3, start, start + length programs * calcsize (program_format bits), fs ! 4, start,
          calcsize (program_format bits), length programs, calcsize (section_format bits), length sections, name_index])"

definition elf_file ::
  "nat \<Rightarrow> byte_order \<Rightarrow> nat list \<Rightarrow> nat list list \<Rightarrow> nat list list \<Rightarrow> nat \<Rightarrow> bytes \<Rightarrow> bytes" where
  "elf_file bits order fs programs sections name_index rest =
     elf_image bits order (elf_fields bits fs programs sections name_index)
       (pack_table order (program_format bits) programs @ pack_table order (section_format bits) sections @ rest)"

definition writable :: "nat \<Rightarrow> nat list \<Rightarrow> nat list list \<Rightarrow> nat list list \<Rightarrow> nat \<Rightarrow> bool" where
  "writable bits fs programs sections name_index \<longleftrightarrow>
     (bits = 32 \<or> bits = 64) \<and> length fs = 5
     \<and> fits bits (elf_fields bits fs programs sections name_index)
     \<and> fits_table (program_format bits) programs \<and> fits_table (section_format bits) sections"

text \<open>The bytes of the section name table, if the file names one, and whether they lie in the file.\<close>

definition name_table :: "bytes \<Rightarrow> nat list list \<Rightarrow> nat \<Rightarrow> bytes" where
  "name_table data sections name_index = take (sections ! name_index ! 5) (drop (sections ! name_index ! 4) data)"

definition name_table_inside :: "bytes \<Rightarrow> nat list list \<Rightarrow> nat \<Rightarrow> bool" where
  "name_table_inside data sections name_index \<longleftrightarrow>
     (name_index < length sections \<longrightarrow> sections ! name_index ! 4 + sections ! name_index ! 5 \<le> length data)"

text \<open>A name written into a string table: its ASCII characters at the offset, and a zero byte after them.\<close>

definition written_name :: "bytes \<Rightarrow> nat \<Rightarrow> string \<Rightarrow> bool" where
  "written_name table offset name \<longleftrightarrow>
     take (length name + 1) (drop offset table) = ascii_bytes name @ [0] \<and> list_all (\<lambda>c. 0 < (of_char c :: nat) \<and> (of_char c :: nat) < 128) name"

lemma c_string_written:
  assumes "written_name table offset name"
  shows "c_string table offset = unicode_of name"
proof -
  have ascii: "\<forall>c\<in>set name. unat (of_nat (of_char c) :: 8 word) = of_char c \<and> (of_nat (of_char c) :: 8 word) \<noteq> 0 \<and> (of_char c :: nat) < 128"
  proof
    fix c assume "c \<in> set name"
    then have c: "0 < (of_char c :: nat)" "(of_char c :: nat) < 128" using assms by (auto simp: written_name_def list_all_iff)
    then have "unat (of_nat (of_char c) :: 8 word) = of_char c" by (simp add: unat_of_nat)
    with c show "unat (of_nat (of_char c) :: 8 word) = of_char c \<and> (of_nat (of_char c) :: 8 word) \<noteq> 0 \<and> (of_char c :: nat) < 128"
      by (metis unat_0 less_irrefl)
  qed
  obtain after where d: "drop offset table = ascii_bytes name @ 0 # after"
    using assms append_take_drop_id [of "length name + 1" "drop offset table"] by (auto simp: written_name_def) (metis)
  then have "offset < length table" by (metis append_is_Nil_conv drop_all leI list.discI)
  moreover have "takeWhile (\<lambda>b. b \<noteq> 0) (ascii_bytes name @ 0 # after) = ascii_bytes name"
    using ascii by (induction name) (simp_all add: ascii_bytes_def)
  moreover have "decode_ascii (ascii_bytes name) = unicode_of name"
    using ascii by (simp add: decode_ascii_def ascii_bytes_def unicode_of_def)
  ultimately show ?thesis by (simp add: c_string_def d)
qed

lemma elf_file_tables:
  fixes order :: byte_order and rest :: bytes
  assumes "writable bits fs programs sections name_index"
  defines "data \<equiv> elf_file bits order fs programs sections name_index rest"
    and "h \<equiv> header_of (elf_fields bits fs programs sections name_index)"
  shows "read_table order (program_format bits) data (eh_program_offset h) (eh_program_entry_size h)
      (eh_program_count h) l = Inr programs"
    "read_table order (section_format bits) data (eh_section_offset h) (eh_section_entry_size h)
      (eh_section_count h) l = Inr sections"
proof -
  let ?ns = "elf_fields bits fs programs sections name_index"
  let ?pre = "elf_image bits order ?ns []"
  let ?pp = "pack_table order (program_format bits) programs"
  let ?ps = "pack_table order (section_format bits) sections"
  have fits: "fits bits ?ns" "fits_table (program_format bits) programs" "fits_table (section_format bits) sections"
    using assms(1) by (simp_all add: writable_def)
  have len: "length ?pre = 16 + calcsize (header_format bits)"
    using fits(1) length_pack [of "header_format bits" ?ns order]
    by (simp add: elf_image_def fits_def list_all2_lengthD)
  have split: "data = ?pre @ ?pp @ (?ps @ rest)" "data = (?pre @ ?pp) @ ?ps @ rest"
    by (simp_all add: data_def elf_file_def elf_image_def)
  have h: "eh_program_offset h = 16 + calcsize (header_format bits)"
    "eh_section_offset h = 16 + calcsize (header_format bits) + length programs * calcsize (program_format bits)"
    "eh_program_entry_size h = calcsize (program_format bits)" "eh_program_count h = length programs"
    "eh_section_entry_size h = calcsize (section_format bits)" "eh_section_count h = length sections"
    by (simp_all add: h_def header_of_def elf_fields_def Let_def)
  show "read_table order (program_format bits) data (eh_program_offset h) (eh_program_entry_size h)
      (eh_program_count h) l = Inr programs"
    unfolding h by (rule read_table_pack_table [OF fits(2) len split(1)])
  have len2: "length (?pre @ ?pp) = 16 + calcsize (header_format bits) + length programs * calcsize (program_format bits)"
    by (simp add: len length_pack_table [OF fits(2)])
  show "read_table order (section_format bits) data (eh_section_offset h) (eh_section_entry_size h)
      (eh_section_count h) l = Inr sections"
    unfolding h by (rule read_table_pack_table [OF fits(3) len2 split(2)])
qed

lemma elf_file_rest:
  assumes "writable bits fs programs sections name_index"
  shows "drop (16 + calcsize (header_format bits) + length programs * calcsize (program_format bits)
      + length sections * calcsize (section_format bits)) (elf_file bits order fs programs sections name_index rest) = rest"
    "length (elf_file bits order fs programs sections name_index rest) = 16 + calcsize (header_format bits)
      + length programs * calcsize (program_format bits) + length sections * calcsize (section_format bits) + length rest"
proof -
  let ?ns = "elf_fields bits fs programs sections name_index"
  let ?pre = "elf_image bits order ?ns [] @ pack_table order (program_format bits) programs @ pack_table order (section_format bits) sections"
  have fits: "fits bits ?ns" "fits_table (program_format bits) programs" "fits_table (section_format bits) sections"
    using assms by (simp_all add: writable_def)
  have "length (elf_image bits order ?ns []) = 16 + calcsize (header_format bits)"
    using fits(1) length_pack [of "header_format bits" ?ns order]
    by (simp add: elf_image_def fits_def list_all2_lengthD)
  then have len: "length ?pre = 16 + calcsize (header_format bits) + length programs * calcsize (program_format bits)
      + length sections * calcsize (section_format bits)"
    by (simp add: length_pack_table [OF fits(2)] length_pack_table [OF fits(3)])
  have split: "elf_file bits order fs programs sections name_index rest = ?pre @ rest"
    by (simp add: elf_file_def elf_image_def)
  show "drop (16 + calcsize (header_format bits) + length programs * calcsize (program_format bits)
      + length sections * calcsize (section_format bits)) (elf_file bits order fs programs sections name_index rest) = rest"
    unfolding split len [symmetric] by simp
  show "length (elf_file bits order fs programs sections name_index rest) = 16 + calcsize (header_format bits)
      + length programs * calcsize (program_format bits) + length sections * calcsize (section_format bits) + length rest"
    unfolding split by (simp only: length_append [of ?pre rest] len)
qed

lemma inspect_elf_file:
  fixes order :: byte_order and rest :: bytes
  assumes w: "writable bits fs programs sections name_index"
  defines "data \<equiv> elf_file bits order fs programs sections name_index rest"
  shows "if name_table_inside data sections name_index
    then \<exists>f. inspect_elf sha256 path data = Inr f
      \<and> ef_class f = bits \<and> ef_endianness f = order \<and> ef_type f = fs ! 0 \<and> ef_machine_id f = fs ! 1
      \<and> ef_entry_point f = hex (fs ! 3) \<and> ef_flags f = hex (fs ! 4)
      \<and> (ef_dynamic_segment f \<longleftrightarrow> PT_DYNAMIC \<in> set (map hd programs))
      \<and> (ef_interpreter f \<longleftrightarrow> PT_INTERP \<in> set (map hd programs))
      \<and> (ef_stripped f \<longleftrightarrow> SHT_SYMTAB \<notin> set (map (\<lambda>s. s ! 1) sections))
      \<and> ef_section_names f = filter (\<lambda>n. n \<noteq> []) (if name_index < length sections
          then map (\<lambda>s. c_string (name_table data sections name_index) (s ! 0)) sections else [])
    else inspect_elf sha256 path data = Inl (ElfInspectionError ''truncated ELF while reading section name table'')"
proof -
  let ?ns = "elf_fields bits fs programs sections name_index"
  let ?rest = "pack_table order (program_format bits) programs @ pack_table order (section_format bits) sections @ rest"
  have bits: "bits = 32 \<or> bits = 64" and fits: "fits bits ?ns" and pf: "fits_table (program_format bits) programs"
    using w by (simp_all add: writable_def)
  have image: "data = elf_image bits order ?ns ?rest" by (simp add: data_def elf_file_def)
  note id = elf_image_ident [OF bits, of order ?ns ?rest, folded image]
  note h = elf_image_header [OF bits fits, of order ?rest, folded image]
  have order: "(if data ! 5 = 1 then Little else Big) = order" and bits': "(if data ! 4 = 1 then 32 else 64) = bits"
    using id(5,6) by (simp_all add: elf_bits_def elf_order_def)
  have h0: "header_of (unpack order (header_format bits) (take (calcsize (header_format bits)) (drop 16 data)))
      = header_of ?ns"
    using h(1) by (simp add: elf_header_of_def id(5,6))
  have sl: "slice data 16 (calcsize (header_format bits)) label
      = Inr (take (calcsize (header_format bits)) (drop 16 data))" for label
    using h(2) by (simp add: slice_def)
  have ident: "(16 \<le> length data \<and> take 4 data = [0x7f, 0x45, 0x4c, 0x46]) = True"
    "(data ! 4 = 1 \<or> data ! 4 = 2) = True" "(data ! 5 = 1 \<or> data ! 5 = 2) = True"
    using id(1-4) by (cases order; simp)+
  have entry: "eh_program_entry_size (header_of ?ns) = calcsize (program_format bits)"
    "eh_section_entry_size (header_of ?ns) = calcsize (section_format bits)"
    by (simp_all add: header_of_def elf_fields_def Let_def)
  have names: "section_names data (header_of ?ns) sections =
      (if name_table_inside data sections name_index
       then Inr (if name_index < length sections then map (\<lambda>s. c_string (name_table data sections name_index) (s ! 0)) sections else [])
       else Inl (ElfInspectionError ''truncated ELF while reading section name table''))"
    by (auto simp: section_names_def header_of_def elf_fields_def Let_def name_table_inside_def name_table_def slice_def and_then_def)
  have "r \<noteq> []" if "r \<in> set programs" for r
    using pf that by (auto simp: fits_table_def list_all_iff program_format_def split: if_splits)
  then have types: "map (\<lambda>p. p ! 0) programs = map hd programs"
    by (auto simp: hd_conv_nth)
  show ?thesis
  proof (cases "name_table_inside data sections name_index")
    case True
    show ?thesis
      unfolding inspect_elf_def Let_def order bits' ident require_True and_then_Inr sl h0
        elf_file_tables [OF w, where order = order and rest = rest, folded data_def] names types if_P [OF True]
      by (simp add: entry) (auto simp: header_of_def elf_fields_def Let_def list_ex_iff image_iff; metis)
  next
    case False
    show ?thesis
      unfolding inspect_elf_def Let_def order bits' ident require_True and_then_Inr sl h0
        elf_file_tables [OF w, where order = order and rest = rest, folded data_def] names if_not_P [OF False]
      by (simp add: entry)
  qed
qed

text \<open>A small big-endian PowerPC executable with an interpreter, a symbol table and section names.\<close>

definition demo_programs :: "nat list list" where
  "demo_programs = [[1, 0, 0, 0, 0, 0, 5, 4], [3, 0, 0, 0, 0, 0, 4, 1]]"

definition demo_sections :: "nat list list" where
  "demo_sections = [[1, 2, 0, 0, 0, 0, 0, 0, 0, 0], [9, 3, 0, 0, 196, 19, 0, 0, 1, 0]]"

definition demo_name_table :: bytes where
  "demo_name_table = 0 # ascii_bytes ''.symtab'' @ 0 # ascii_bytes ''.shstrtab'' @ [0]"

definition demo_elf :: bytes where
  "demo_elf = elf_file 32 Big [2, 20, 1, 0x10000000, 0] demo_programs demo_sections 1 demo_name_table"

lemma demo_elf_writable: "writable 32 [2, 20, 1, 0x10000000, 0] demo_programs demo_sections 1"
  by (simp add: writable_def fits_def fits_table_def elf_fields_def header_format_def program_format_def
      section_format_def calcsize_def demo_programs_def demo_sections_def)

lemma demo_elf_names:
  "name_table demo_elf demo_sections 1 = demo_name_table" "name_table_inside demo_elf demo_sections 1"
  "written_name demo_name_table 1 ''.symtab''" "written_name demo_name_table 9 ''.shstrtab''"
proof -
  have len: "length demo_name_table = 19" by (simp add: demo_name_table_def ascii_bytes_def)
  have "drop 196 demo_elf = demo_name_table \<and> length demo_elf = 196 + 19"
    using elf_file_rest [OF demo_elf_writable, of Big demo_name_table]
    by (simp add: demo_elf_def header_format_def program_format_def section_format_def calcsize_def demo_programs_def
        demo_sections_def len)
  then show "name_table demo_elf demo_sections 1 = demo_name_table" "name_table_inside demo_elf demo_sections 1"
    by (simp_all add: name_table_def name_table_inside_def demo_sections_def len)
  show "written_name demo_name_table 1 ''.symtab''" "written_name demo_name_table 9 ''.shstrtab''"
    by (simp_all add: written_name_def demo_name_table_def ascii_bytes_def)
qed

end
