(* ===== verification/Floats.thy ===== *)
theory Floats
  imports Prelude
begin

text \<open>
  Binary floating point as the program computes with it: a float is the rational it denotes, and
  an operation rounds the exact result to \<open>p\<close> significant bits, ties to even (IEEE 754 binary64
  has p = 53, binary32 p = 24).  Overflow, subnormal numbers, infinities and NaN are not
  modelled: no code-unit count, memory size or load comes near either end of the range.
\<close>

section \<open>Binary logarithm\<close>

text \<open>The number of bits of a positive integer.\<close>

function bit_count :: "int \<Rightarrow> nat" where
  "bit_count n = (if n \<le> 0 then 0 else Suc (bit_count (n div 2)))"
  by auto
termination by (relation "measure nat") auto

declare bit_count.simps [simp del]

lemma bit_count_0 [simp]: "bit_count 0 = 0"
  by (simp add: bit_count.simps)

lemma bit_count_bounds: "0 < n \<Longrightarrow> 2 ^ (bit_count n - 1) \<le> n \<and> n < 2 ^ bit_count n \<and> 0 < bit_count n"
proof (induction n rule: bit_count.induct)
  case (1 n)
  show ?case
  proof (cases "n div 2 > 0")
    case True
    with 1 have IH: "2 ^ (bit_count (n div 2) - 1) \<le> n div 2" "n div 2 < 2 ^ bit_count (n div 2)" "0 < bit_count (n div 2)"
      by auto
    have b: "bit_count n = Suc (bit_count (n div 2))" using 1(2) by (subst bit_count.simps) simp
    obtain k where k: "bit_count (n div 2) = Suc k" using IH(3) gr0_implies_Suc by blast
    show ?thesis using IH unfolding b by (simp add: k) presburger
  next
    case False
    with 1(2) have "n = 1" by simp
    then show ?thesis by (simp add: bit_count.simps)
  qed
qed

text \<open>The exponent of a positive rational: \<open>2 ^ ilog x \<le> x < 2 ^ (ilog x + 1)\<close>.\<close>

definition ilog :: "rat \<Rightarrow> int" where
  "ilog x = (if 1 \<le> x then int (bit_count \<lfloor>x\<rfloor>) - 1 else - int (bit_count (\<lceil>1 / x\<rceil> - 1)))"

definition pow2 :: "int \<Rightarrow> rat" where
  "pow2 e = (if 0 \<le> e then 2 ^ nat e else 1 / 2 ^ nat (- e))"

lemma pow2_pos [simp]: "0 < pow2 e" "pow2 e \<noteq> 0"
  by (simp_all add: pow2_def)

lemma pow2_powi: "pow2 e = 2 powi e"
  by (simp add: pow2_def power_int_def inverse_eq_divide power_one_over)

lemma pow2_add: "pow2 (a + b) = pow2 a * pow2 b"
  by (simp add: pow2_powi power_int_add)

lemma pow2_Suc: "pow2 (e + 1) = 2 * pow2 e"
  by (simp add: pow2_add) (simp add: pow2_def)

lemma pow2_mono: "a \<le> b \<Longrightarrow> pow2 a \<le> pow2 b"
  by (simp add: pow2_powi power_int_increasing)

lemma pow2_less: "pow2 a < pow2 b \<Longrightarrow> a < b"
  using pow2_mono [of b a] by force

lemma ilog_bounds:
  assumes "0 < x"
  shows "pow2 (ilog x) \<le> x" "x < pow2 (ilog x + 1)"
proof -
  have "pow2 (ilog x) \<le> x \<and> x < pow2 (ilog x + 1)"
  proof (cases "1 \<le> x")
    case True
    then have "0 < \<lfloor>x\<rfloor>" by simp
    from bit_count_bounds [OF this] obtain k where k: "bit_count \<lfloor>x\<rfloor> = Suc k" "2 ^ k \<le> \<lfloor>x\<rfloor>" "\<lfloor>x\<rfloor> < 2 ^ Suc k"
      by (metis Suc_diff_1)
    from k(2) have "(2 :: rat) ^ k \<le> x" by (simp add: le_floor_iff)
    moreover from k(3) have "x < 2 ^ Suc k" by (simp add: floor_less_iff)
    ultimately show ?thesis using True k(1) by (simp add: ilog_def pow2_def nat_add_distrib)
  next
    case False
    let ?c = "\<lceil>1 / x\<rceil> - 1"
    from False assms have "1 < 1 / x" by simp
    then have "1 < \<lceil>1 / x\<rceil>" by (simp add: less_ceiling_iff)
    then have pos: "0 < ?c" by simp
    from bit_count_bounds [OF pos] obtain k where k: "bit_count ?c = Suc k" "2 ^ k \<le> ?c" "?c < 2 ^ Suc k"
      by (metis Suc_diff_1)
    from k(2) have "(2 :: int) ^ k < \<lceil>1 / x\<rceil>" by simp
    then have lo: "(2 :: rat) ^ k < 1 / x" by (simp add: less_ceiling_iff)
    from k(3) have "\<lceil>1 / x\<rceil> \<le> 2 ^ Suc k" by simp
    then have hi: "1 / x \<le> (2 :: rat) ^ Suc k" by (simp add: ceiling_le_iff)
    have "1 / 2 ^ Suc k \<le> x" using hi assms by (simp add: field_simps)
    moreover have "x < 1 / 2 ^ k" using lo assms by (simp add: field_simps)
    ultimately show ?thesis using False k(1)
      by (simp add: ilog_def pow2_def nat_add_distrib)
  qed
  then show "pow2 (ilog x) \<le> x" "x < pow2 (ilog x + 1)" by simp_all
qed

lemma ilog_le: "0 < x \<Longrightarrow> x < pow2 e \<Longrightarrow> ilog x < e"
  using ilog_bounds(1) [of x] pow2_less [of "ilog x" e] by linarith

lemma ilog_ge: "0 < x \<Longrightarrow> pow2 e \<le> x \<Longrightarrow> e \<le> ilog x"
  using ilog_bounds(2) [of x] pow2_less [of e "ilog x + 1"] by linarith

section \<open>Rounding\<close>

text \<open>To the nearest integer, ties to even.\<close>

definition round_even :: "rat \<Rightarrow> int" where
  "round_even x =
     (let n = \<lfloor>x\<rfloor>; f = x - of_int n
      in if f < 1 / 2 then n else if 1 / 2 < f then n + 1 else if even n then n else n + 1)"

definition round_bits :: "nat \<Rightarrow> rat \<Rightarrow> rat" where
  "round_bits p x =
     (if x = 0 then 0
      else let u = pow2 (ilog \<bar>x\<bar> - int p + 1) in of_int (round_even (x / u)) * u)"

definition f32 :: "rat \<Rightarrow> rat" where
  "f32 x = round_bits 24 x"

definition f64 :: "rat \<Rightarrow> rat" where
  "f64 x = round_bits 53 x"

text \<open>\<open>round\<close> of a float to so many decimals: exact, ties to even, then the nearest float.\<close>

definition round_decimals :: "nat \<Rightarrow> rat \<Rightarrow> rat" where
  "round_decimals n x = f64 (of_int (round_even (x * 10 ^ n)) / 10 ^ n)"

lemma round_even_of_int [simp]: "round_even (of_int n) = n"
  by (simp add: round_even_def)

lemma round_even_mono: "x \<le> y \<Longrightarrow> round_even x \<le> round_even y"
proof -
  assume xy: "x \<le> y"
  then have fl: "\<lfloor>x\<rfloor> \<le> \<lfloor>y\<rfloor>" by (rule floor_mono)
  have up: "round_even z \<le> \<lfloor>z\<rfloor> + 1" "\<lfloor>z\<rfloor> \<le> round_even z" for z
    by (simp_all add: round_even_def Let_def)
  show ?thesis
  proof (cases "\<lfloor>x\<rfloor> = \<lfloor>y\<rfloor>")
    case True
    then show ?thesis using xy by (simp add: round_even_def Let_def)
  next
    case False
    then have "\<lfloor>x\<rfloor> + 1 \<le> \<lfloor>y\<rfloor>" using fl by simp
    then show ?thesis using up(1) [of x] up(2) [of y] by linarith
  qed
qed

lemma round_bits_0 [simp]: "round_bits p 0 = 0"
  by (simp add: round_bits_def)

text \<open>An integer of at most \<open>p\<close> bits is exact.\<close>

lemma round_bits_of_int:
  assumes "\<bar>n\<bar> < 2 ^ p"
  shows "round_bits p (of_int n) = of_int n"
proof (cases "n = 0")
  case False
  define e where "e = ilog \<bar>of_int n\<bar> - int p + 1"
  have pos: "0 < \<bar>of_int n :: rat\<bar>" using False by simp
  have "(of_int \<bar>n\<bar> :: rat) < of_int (2 ^ p)" using assms by (subst of_int_less_iff)
  then have "\<bar>of_int n :: rat\<bar> < pow2 (int p)" by (simp add: pow2_def)
  from ilog_le [OF pos this] have "e \<le> 0" by (simp add: e_def)
  then have m: "of_int n / pow2 e = (of_int (n * 2 ^ nat (- e)) :: rat)"
    by (cases "e = 0") (simp_all add: pow2_def)
  have "of_int (n * 2 ^ nat (- e)) * pow2 e = (of_int n :: rat)"
    unfolding m [symmetric] by simp
  then show ?thesis using False
    unfolding round_bits_def Let_def e_def [symmetric] m round_even_of_int by simp
qed simp

text \<open>Rounding is monotone, so a comparison of rounded values never reverses the exact one.\<close>

lemma round_bits_between:
  assumes "0 < x" "0 < p"
  shows "pow2 (ilog x) \<le> round_bits p x" "round_bits p x \<le> pow2 (ilog x + 1)"
proof -
  define u where "u = pow2 (ilog x - int p + 1)"
  have u: "0 < u" by (simp add: u_def)
  have lo: "pow2 (ilog x) = of_int (2 ^ (p - 1)) * u"
  proof -
    have "pow2 (int (p - 1)) = of_int (2 ^ (p - 1))" by (simp add: pow2_def)
    moreover have "int (p - 1) + (ilog x - int p + 1) = ilog x" using assms(2) by simp
    ultimately show ?thesis using pow2_add [of "int (p - 1)" "ilog x - int p + 1"] by (simp only: u_def)
  qed
  have hi: "pow2 (ilog x + 1) = of_int (2 ^ p) * u"
    using pow2_add [of "int p" "ilog x - int p + 1"] by (simp add: u_def pow2_def [of "int p"])
  have r: "round_bits p x = of_int (round_even (x / u)) * u"
    using assms(1) by (simp add: round_bits_def Let_def u_def)
  have "of_int (2 ^ (p - 1)) \<le> x / u" "x / u \<le> of_int (2 ^ p)"
    using ilog_bounds [OF assms(1)] u unfolding lo hi by (simp_all add: field_simps)
  then have "2 ^ (p - 1) \<le> round_even (x / u)" "round_even (x / u) \<le> 2 ^ p"
    using round_even_mono [of "of_int (2 ^ (p - 1))" "x / u"] round_even_mono [of "x / u" "of_int (2 ^ p)"]
    by (simp_all only: round_even_of_int)
  then have "of_int (2 ^ (p - 1)) \<le> (of_int (round_even (x / u)) :: rat)" "of_int (round_even (x / u)) \<le> (of_int (2 ^ p) :: rat)"
    by (simp_all only: of_int_le_iff)
  then show "pow2 (ilog x) \<le> round_bits p x" "round_bits p x \<le> pow2 (ilog x + 1)"
    unfolding lo hi r using u by (simp_all add: mult_right_mono)
qed

lemma round_bits_nonneg: "0 \<le> x \<Longrightarrow> 0 < p \<Longrightarrow> 0 \<le> round_bits p x"
  using round_bits_between(1) [of x p] pow2_pos(1) [of "ilog x"] by (cases "x = 0") (simp, linarith)

lemma round_bits_mono:
  assumes "0 \<le> x" "x \<le> y" "0 < p"
  shows "round_bits p x \<le> round_bits p y"
proof (cases "x = 0")
  case True
  then show ?thesis using assms round_bits_nonneg [of y p] by simp
next
  case False
  then have pos: "0 < x" "0 < y" using assms by simp_all
  have "pow2 (ilog x) \<le> y" using ilog_bounds(1) [OF pos(1)] assms(2) by simp
  then have "ilog x \<le> ilog y" by (rule ilog_ge [OF pos(2)])
  then consider "ilog x = ilog y" | "ilog x + 1 \<le> ilog y" by linarith
  then show ?thesis
  proof cases
    case 1
    let ?u = "pow2 (ilog y - int p + 1)"
    have "x / ?u \<le> y / ?u" using assms(2) pow2_pos(1) [of "ilog y - int p + 1"] by (intro divide_right_mono) linarith+
    from round_even_mono [OF this] have "of_int (round_even (x / ?u)) \<le> (of_int (round_even (y / ?u)) :: rat)"
      by (simp only: of_int_le_iff)
    then show ?thesis using pos 1 pow2_pos(1) [of "ilog y - int p + 1"] by (simp add: round_bits_def Let_def)
  next
    case 2
    from pow2_mono [OF this] round_bits_between(2) [OF pos(1) assms(3)] round_bits_between(1) [OF pos(2) assms(3)]
    show ?thesis by linarith
  qed
qed

lemma f32_mono: "0 \<le> x \<Longrightarrow> x \<le> y \<Longrightarrow> f32 x \<le> f32 y"
  by (simp add: f32_def round_bits_mono)

lemma f64_mono: "0 \<le> x \<Longrightarrow> x \<le> y \<Longrightarrow> f64 x \<le> f64 y"
  by (simp add: f64_def round_bits_mono)

lemma f32_nonneg: "0 \<le> x \<Longrightarrow> 0 \<le> f32 x"
  by (simp add: f32_def round_bits_nonneg)

lemma f64_nonneg: "0 \<le> x \<Longrightarrow> 0 \<le> f64 x"
  by (simp add: f64_def round_bits_nonneg)

lemma f32_of_int: "\<bar>n\<bar> < 2 ^ 24 \<Longrightarrow> f32 (of_int n) = of_int n"
  by (simp only: f32_def round_bits_of_int)

lemma f64_of_int: "\<bar>n\<bar> < 2 ^ 53 \<Longrightarrow> f64 (of_int n) = of_int n"
  by (simp only: f64_def round_bits_of_int)

end
