(* ===== verification/Operations_Policy.thy ===== *)
theory Operations_Policy
  imports Validators Floats
begin

text \<open>
  src/fidb_poc/operations_policy.py: the validated schedule, resource and notification policy of
  the queue workers.  A date is a day number (0 is Thursday 1 January 1970), a clock the minute
  of its day, and a datetime of the policy's zone its local reading in microseconds: the code
  compares datetimes of one zone, and Python compares those by their local reading.  Rendering
  them (\<open>isoformat\<close>) and the upper end of the calendar (year 9999) are left out.
\<close>

section \<open>The policy\<close>

definition DAY_NAMES :: "string list" where
  "DAY_NAMES = [''mon'', ''tue'', ''wed'', ''thu'', ''fri'', ''sat'', ''sun'']"

definition NOTIFICATION_EVENTS :: "string list" where
  "NOTIFICATION_EVENTS =
     [''job-failed'', ''job-requeued'', ''queue-drained'', ''resource-blocked'', ''schedule-cutoff'']"

type_synonym clock = nat

record date_override =
  do_date :: int
  do_enabled :: bool
  do_start :: clock
  do_stop_claiming :: clock
  do_hard_cutoff :: "clock option"

record tail_fill_policy =
  tf_enabled :: bool
  tf_max_active_blocks :: int
  tf_minimum_idle_slots :: int
  tf_conservative_block_minutes :: int
  tf_require_fit :: bool

record schedule_policy =
  sp_enabled :: bool
  sp_timezone :: string
  sp_days :: "string list"
  sp_start :: clock
  sp_stop_claiming :: clock
  sp_hard_cutoff :: "clock option"
  sp_finish_started_batch :: bool
  sp_chain_batches :: bool
  sp_tail_fill :: tail_fill_policy
  sp_date_overrides :: "date_override list"

record resource_policy =
  rp_min_available_memory_gib :: rat
  rp_min_free_disk_gib :: rat
  rp_max_load_per_cpu :: rat
  rp_max_temperature_c :: rat

record notification_policy =
  np_events :: "string list"
  np_outbox :: "string option"
  np_webhook_url_env :: "string option"
  np_webhook_bearer_env :: "string option"
  np_timeout_seconds :: int

record operations_policy =
  op_schedule :: schedule_policy
  op_resources :: resource_policy
  op_notifications :: notification_policy

section \<open>The operating windows\<close>

definition usec_day :: int where
  "usec_day = 86400000000"

definition combine :: "int \<Rightarrow> clock \<Rightarrow> int" where
  "combine day c = day * usec_day + int c * 60000000"

definition weekday :: "int \<Rightarrow> nat" where
  "weekday day = nat ((day + 3) mod 7)"

definition boundary :: "int \<Rightarrow> clock \<Rightarrow> clock \<Rightarrow> int" where
  "boundary start_date start c = combine (if c \<le> start then start_date + 1 else start_date) c"

definition override_for :: "schedule_policy \<Rightarrow> int \<Rightarrow> date_override option" where
  "override_for p day = find (\<lambda>o'. do_date o' = day) (sp_date_overrides p)"

record window =
  w_enabled :: bool
  w_started :: int
  w_stop :: int
  w_cutoff :: "int option"

definition window_of :: "schedule_policy \<Rightarrow> int \<Rightarrow> window result" where
  "window_of p day =
     (let override = override_for p day;
          start = (case override of Some o' \<Rightarrow> do_start o' | None \<Rightarrow> sp_start p);
          stop_claiming = (case override of Some o' \<Rightarrow> do_stop_claiming o' | None \<Rightarrow> sp_stop_claiming p);
          hard_cutoff = (case override of Some o' \<Rightarrow> do_hard_cutoff o' | None \<Rightarrow> sp_hard_cutoff p);
          enabled = (case override of Some o' \<Rightarrow> do_enabled o'
            | None \<Rightarrow> DAY_NAMES ! weekday day \<in> set (sp_days p));
          stop = boundary day start stop_claiming;
          cutoff = map_option (boundary day start) hard_cutoff
      in case cutoff of
           Some c \<Rightarrow>
             if stop > c then Inl (ValueError ''schedule stop_claiming must not be after hard_cutoff'')
             else Inr \<lparr>w_enabled = enabled, w_started = combine day start, w_stop = stop, w_cutoff = cutoff\<rparr>
         | None \<Rightarrow> Inr \<lparr>w_enabled = enabled, w_started = combine day start, w_stop = stop, w_cutoff = cutoff\<rparr>)"

record schedule_state =
  ss_claims_allowed :: bool
  ss_reason :: string
  ss_window_started_at :: "int option"
  ss_stop_claiming_at :: "int option"
  ss_hard_cutoff_at :: "int option"
  ss_next_window_at :: "int option"

text \<open>A moment with or without a zone.\<close>

datatype moment = Aware int | Naive int

definition in_window :: "window \<Rightarrow> int \<Rightarrow> bool" where
  "in_window w local \<longleftrightarrow>
     w_enabled w \<and> w_started w \<le> local \<and> local < (case w_cutoff w of Some c \<Rightarrow> c | None \<Rightarrow> w_stop w)"

fun next_window :: "schedule_policy \<Rightarrow> int \<Rightarrow> int list \<Rightarrow> int option result" where
  "next_window p local [] = Inr None"
| "next_window p local (day # days) =
     and_then (window_of p day) (\<lambda>w.
       if \<not> w_enabled w then next_window p local days
       else if w_started w > local then Inr (Some (w_started w))
       else next_window p local days)"

definition evaluate :: "(string \<Rightarrow> int \<Rightarrow> int) \<Rightarrow> schedule_policy \<Rightarrow> moment \<Rightarrow> schedule_state result" where
  "evaluate to_local p now =
     (case now of
        Naive _ \<Rightarrow> Inl (ValueError ''schedule evaluation requires a timezone-aware datetime'')
      | Aware t \<Rightarrow>
          let local = to_local (sp_timezone p) t
          in if \<not> sp_enabled p
             then Inr \<lparr>ss_claims_allowed = True, ss_reason = ''schedule-disabled'', ss_window_started_at = None,
               ss_stop_claiming_at = None, ss_hard_cutoff_at = None, ss_next_window_at = None\<rparr>
             else let today = local div usec_day
             in and_then (map_result (window_of p) [today - 1, today]) (\<lambda>candidates.
                let active = (case filter (\<lambda>w. in_window w local) candidates of [] \<Rightarrow> None | ws \<Rightarrow> Some (last ws));
                    claims_allowed = (case active of None \<Rightarrow> False | Some w \<Rightarrow> local < w_stop w)
                in and_then (next_window p local (map (\<lambda>k. today + int k) [0..<9])) (\<lambda>next.
                   Inr \<lparr>ss_claims_allowed = claims_allowed,
                     ss_reason = (if claims_allowed then ''inside-claim-window''
                       else if active \<noteq> None then ''claim-window-closed'' else ''outside-schedule-window''),
                     ss_window_started_at = map_option w_started active,
                     ss_stop_claiming_at = map_option w_stop active,
                     ss_hard_cutoff_at = Option.bind active w_cutoff,
                     ss_next_window_at = next\<rparr>)))"

section \<open>Resource admission\<close>

record resource_state =
  rs_passed :: bool
  rs_reasons :: "string list"
  rs_available_memory_gib :: rat
  rs_free_disk_gib :: rat
  rs_load_1m :: rat
  rs_logical_cpus :: int
  rs_load_per_cpu :: rat
  rs_temperature_c :: "rat option"

definition gib :: rat where
  "gib = 1024 ^ 3"

text \<open>The probes that were not measured by the caller are already replaced by their readings.\<close>

definition evaluate_resources ::
  "resource_policy \<Rightarrow> int \<Rightarrow> int \<Rightarrow> rat \<Rightarrow> int \<Rightarrow> rat option \<Rightarrow> resource_state" where
  "evaluate_resources p memory disk load cpus temperature =
     (let memory_gib = f64 (of_int memory / gib);
          disk_gib = f64 (of_int disk / gib);
          per_cpu = f64 (load / of_int (max 1 cpus));
          reasons =
            (if memory_gib < rp_min_available_memory_gib p then [''available-memory-below-minimum''] else [])
            @ (if disk_gib < rp_min_free_disk_gib p then [''free-disk-below-minimum''] else [])
            @ (if rp_max_load_per_cpu p \<noteq> 0 \<and> per_cpu > rp_max_load_per_cpu p
               then [''load-per-cpu-above-maximum''] else [])
            @ (if rp_max_temperature_c p \<noteq> 0
               then (case temperature of
                       None \<Rightarrow> [''temperature-unavailable'']
                     | Some c \<Rightarrow> if c > rp_max_temperature_c p then [''temperature-above-maximum''] else [])
               else [])
      in \<lparr>rs_passed = (reasons = []), rs_reasons = reasons,
          rs_available_memory_gib = round_decimals 3 memory_gib, rs_free_disk_gib = round_decimals 3 disk_gib,
          rs_load_1m = round_decimals 3 load, rs_logical_cpus = cpus,
          rs_load_per_cpu = round_decimals 4 per_cpu, rs_temperature_c = map_option (round_decimals 2) temperature\<rparr>)"

text \<open>The preflight verdict.\<close>

definition operations_ready :: "schedule_state \<Rightarrow> resource_state \<Rightarrow> bool" where
  "operations_ready s r = (ss_claims_allowed s \<and> rs_passed r)"

section \<open>Loading the policy\<close>

text \<open>
  What the loader relies on: \<open>time.fromisoformat\<close> (hour, minute, second, microsecond),
  \<open>date.fromisoformat\<close>, the time zone database, and where a relative outbox path leads.
\<close>

datatype outbox_location = OutboxAbsolute | OutboxOutside | OutboxAt string

record policy_env =
  pe_time :: "string \<Rightarrow> (nat \<times> nat \<times> nat \<times> nat) option"
  pe_date :: "string \<Rightarrow> int option"
  pe_zone :: "string \<Rightarrow> bool"
  pe_outbox :: "string \<Rightarrow> outbox_location"

definition get_or :: "(string \<times> json) list \<Rightarrow> string \<Rightarrow> json \<Rightarrow> json" where
  "get_or row k d = (case map_of row k of None \<Rightarrow> d | Some v \<Rightarrow> v)"

definition as_bool :: "json \<Rightarrow> string \<Rightarrow> bool result" where
  "as_bool v message = (case v of JBool b \<Rightarrow> Inr b | _ \<Rightarrow> Inl (ValueError message))"

definition nonnegative_number :: "json \<Rightarrow> string \<Rightarrow> rat result" where
  "nonnegative_number v context =
     (case v of
        JInt n \<Rightarrow> if n < 0 then Inl (ValueError (context @ '' must be a non-negative number'')) else Inr (f64 (of_int n))
      | JFloat x \<Rightarrow> if x < 0 then Inl (ValueError (context @ '' must be a non-negative number'')) else Inr x
      | _ \<Rightarrow> Inl (ValueError (context @ '' must be a non-negative number'')))"

definition clock_field :: "policy_env \<Rightarrow> json \<Rightarrow> string \<Rightarrow> clock result" where
  "clock_field env v context =
     (case v of
        JStr s \<Rightarrow>
          (case pe_time env s of
             None \<Rightarrow> Inl (ValueError (context @ '' must use HH:MM''))
           | Some (hour, minute, second, microsecond) \<Rightarrow>
               if second \<noteq> 0 \<or> microsecond \<noteq> 0 \<or> length s \<noteq> 5 then Inl (ValueError (context @ '' must use HH:MM''))
               else Inr (60 * hour + minute))
      | _ \<Rightarrow> Inl (ValueError (context @ '' must use HH:MM'')))"

text \<open>\<open>strftime("%H:%M")\<close>.\<close>

definition two_digits :: "nat \<Rightarrow> string" where
  "two_digits n = [char_of (48 + n div 10 mod 10), char_of (48 + n mod 10)]"

definition clock_text :: "clock \<Rightarrow> string" where
  "clock_text c = two_digits (c div 60) @ '':'' @ two_digits (c mod 60)"

definition table_field :: "(string \<times> json) list \<Rightarrow> string \<Rightarrow> (string \<times> json) list result" where
  "table_field document name =
     (case get_or document name (JObj []) of
        JObj row \<Rightarrow> Inr row
      | _ \<Rightarrow> Inl (ValueError (''queue '' @ name @ '' must be a table'')))"

definition optional_clock :: "policy_env \<Rightarrow> json \<Rightarrow> string \<Rightarrow> clock option result" where
  "optional_clock env v context =
     (if v = JNull then Inr None else and_then (clock_field env v context) (\<lambda>c. Inr (Some c)))"

text \<open>An array of unique names of a list; the message names the list.\<close>

definition names_from :: "json \<Rightarrow> string list \<Rightarrow> string \<Rightarrow> string list result" where
  "names_from v allowed context =
     (let failure = Inl (ValueError (context @ '' must be unique values from '' @ concat allowed))
      in case v of
        JArr items \<Rightarrow>
          if list_ex (\<lambda>i. i \<notin> JStr ` set allowed) items \<or> \<not> distinct items then failure
          else Inr (map (\<lambda>i. case i of JStr s \<Rightarrow> s | _ \<Rightarrow> []) items)
      | _ \<Rightarrow> failure)"

definition load_tail_fill ::
  "(string \<times> json) list \<Rightarrow> bool \<Rightarrow> bool \<Rightarrow> tail_fill_policy result" where
  "load_tail_fill schedule_row finish_started_batch chain_batches =
     (case get_or schedule_row ''tail_fill'' (JObj []) of
        JObj row \<Rightarrow>
          and_then (only_keys row [''enabled'', ''max_active_blocks'', ''minimum_idle_slots'',
            ''conservative_block_minutes'', ''require_estimated_fit_before_cutoff''] ''schedule tail_fill table'') (\<lambda>_.
          and_then (as_bool (get_or row ''enabled'' (JBool False)) ''schedule tail_fill booleans must be boolean'') (\<lambda>enabled.
          and_then (as_bool (get_or row ''require_estimated_fit_before_cutoff'' (JBool True))
            ''schedule tail_fill booleans must be boolean'') (\<lambda>require_fit.
          and_then (positive_integer (get_or row ''max_active_blocks'' (JInt (if enabled then 2 else 1)))
            ''schedule tail_fill max_active_blocks'') (\<lambda>max_active_blocks.
          and_then (positive_integer (get_or row ''minimum_idle_slots'' (JInt 4))
            ''schedule tail_fill minimum_idle_slots'') (\<lambda>minimum_idle_slots.
          and_then (positive_integer (get_or row ''conservative_block_minutes'' (JInt 60))
            ''schedule tail_fill conservative_block_minutes'') (\<lambda>conservative_block_minutes.
          if max_active_blocks \<notin> {1, 2} then Inl (ValueError ''schedule tail_fill max_active_blocks must be 1 or 2'')
          else if enabled \<and> (max_active_blocks \<noteq> 2 \<or> \<not> chain_batches \<or> \<not> finish_started_batch)
          then Inl (ValueError ''enabled tail_fill requires two active blocks and chained finished batches'')
          else Inr \<lparr>tf_enabled = enabled, tf_max_active_blocks = max_active_blocks,
            tf_minimum_idle_slots = minimum_idle_slots, tf_conservative_block_minutes = conservative_block_minutes,
            tf_require_fit = require_fit\<rparr>))))))
      | _ \<Rightarrow> Inl (ValueError ''schedule tail_fill must be a table''))"

text \<open>One row of the overrides, after the rows \<open>before\<close> it.\<close>

definition load_override ::
  "policy_env \<Rightarrow> clock \<Rightarrow> clock \<Rightarrow> json \<Rightarrow> json \<Rightarrow> date_override list \<Rightarrow> date_override list result" where
  "load_override env start stop_claiming hard_cutoff_value v before =
     (let context = ''schedule date_overrides['' @ decimal (length before) @ '']''
      in case v of
        JObj row \<Rightarrow>
          and_then (only_keys row [''date'', ''enabled'', ''start'', ''stop_claiming'', ''hard_cutoff''] context) (\<lambda>_.
          case get_or row ''date'' JNull of
            JStr raw_date \<Rightarrow>
              (case pe_date env raw_date of
                 None \<Rightarrow> Inl (ValueError (context @ '' date must use YYYY-MM-DD''))
               | Some day \<Rightarrow>
                   if day \<in> do_date ` set before
                   then Inl (ValueError (''duplicate schedule date override: '' @ raw_date))
                   else and_then (as_bool (get_or row ''enabled'' (JBool True)) (context @ '' enabled must be a boolean'')) (\<lambda>enabled.
                     and_then (clock_field env (get_or row ''start'' (JStr (clock_text start))) (context @ '' start'')) (\<lambda>start'.
                     and_then (clock_field env (get_or row ''stop_claiming'' (JStr (clock_text stop_claiming)))
                       (context @ '' stop_claiming'')) (\<lambda>stop'.
                     and_then (optional_clock env (get_or row ''hard_cutoff'' hard_cutoff_value)
                       (context @ '' hard_cutoff'')) (\<lambda>cutoff'.
                     Inr (before @ [\<lparr>do_date = day, do_enabled = enabled, do_start = start',
                       do_stop_claiming = stop', do_hard_cutoff = cutoff'\<rparr>]))))))
          | _ \<Rightarrow> Inl (ValueError (context @ '' date must use YYYY-MM-DD'')))
      | _ \<Rightarrow> Inl (ValueError (context @ '' must be a table'')))"

definition load_overrides ::
  "policy_env \<Rightarrow> clock \<Rightarrow> clock \<Rightarrow> json \<Rightarrow> json \<Rightarrow> date_override list result" where
  "load_overrides env start stop_claiming hard_cutoff_value v =
     (case v of
        JArr rows \<Rightarrow> fold_result (load_override env start stop_claiming hard_cutoff_value) rows []
      | _ \<Rightarrow> Inl (ValueError ''schedule date_overrides must be an array of tables''))"

text \<open>Thursday 1 January 2026, the date on which the loader tries the base window.\<close>

definition TRIAL_DATE :: int where
  "TRIAL_DATE = 20454"

definition schedule_timezone :: "policy_env \<Rightarrow> (string \<times> json) list \<Rightarrow> string result" where
  "schedule_timezone env row =
     (case get_or row ''timezone'' (JStr ''UTC'') of
        JStr z \<Rightarrow>
          if z = [] then Inl (ValueError ''schedule timezone must be a non-empty IANA timezone'')
          else if \<not> pe_zone env z then Inl (ValueError (''unknown schedule timezone: '' @ z))
          else Inr z
      | _ \<Rightarrow> Inl (ValueError ''schedule timezone must be a non-empty IANA timezone''))"

definition load_schedule :: "policy_env \<Rightarrow> (string \<times> json) list \<Rightarrow> schedule_policy result" where
  "load_schedule env document =
     and_then (table_field document ''schedule'') (\<lambda>row.
     and_then (only_keys row [''enabled'', ''timezone'', ''days'', ''start'', ''stop_claiming'', ''hard_cutoff'',
       ''finish_started_batch'', ''chain_batches'', ''date_overrides'', ''tail_fill''] ''schedule table'') (\<lambda>_.
     and_then (as_bool (get_or row ''enabled'' (JBool False)) ''schedule enabled must be a boolean'') (\<lambda>enabled.
     and_then (schedule_timezone env row) (\<lambda>timezone.
     and_then (names_from (get_or row ''days'' (JArr (map JStr DAY_NAMES))) DAY_NAMES ''schedule days'') (\<lambda>days.
     and_then (require (days \<noteq> [])
       (ValueError (''schedule days must be unique values from '' @ concat DAY_NAMES))) (\<lambda>_.
     and_then (as_bool (get_or row ''finish_started_batch'' (JBool False))
       ''schedule finish_started_batch must be a boolean'') (\<lambda>finish.
     and_then (as_bool (get_or row ''chain_batches'' (JBool False)) ''schedule chain_batches must be a boolean'') (\<lambda>chain.
     and_then (require (chain \<longrightarrow> finish) (ValueError ''schedule chain_batches requires finish_started_batch'')) (\<lambda>_.
     and_then (load_tail_fill row finish chain) (\<lambda>tail_fill.
     and_then (clock_field env (get_or row ''start'' (JStr ''00:00'')) ''schedule start'') (\<lambda>start.
     and_then (clock_field env (get_or row ''stop_claiming'' (JStr ''23:58'')) ''schedule stop_claiming'') (\<lambda>stop_claiming.
     let hard_cutoff_value = get_or row ''hard_cutoff'' (if finish then JNull else JStr ''23:59'')
     in and_then (optional_clock env hard_cutoff_value ''schedule hard_cutoff'') (\<lambda>hard_cutoff.
     and_then (load_overrides env start stop_claiming hard_cutoff_value (get_or row ''date_overrides'' (JArr []))) (\<lambda>overrides.
     let p = \<lparr>sp_enabled = enabled, sp_timezone = timezone, sp_days = days, sp_start = start,
           sp_stop_claiming = stop_claiming, sp_hard_cutoff = hard_cutoff, sp_finish_started_batch = finish,
           sp_chain_batches = chain, sp_tail_fill = tail_fill, sp_date_overrides = overrides\<rparr>
     in and_then (window_of p TRIAL_DATE) (\<lambda>_.
        and_then (map_result (\<lambda>o'. window_of p (do_date o')) overrides) (\<lambda>_. Inr p))))))))))))))))"

definition load_resources :: "(string \<times> json) list \<Rightarrow> resource_policy result" where
  "load_resources document =
     and_then (table_field document ''resources'') (\<lambda>row.
     and_then (only_keys row [''min_available_memory_gib'', ''min_free_disk_gib'', ''max_load_per_cpu'',
       ''max_temperature_c''] ''resources table'') (\<lambda>_.
     and_then (nonnegative_number (get_or row ''min_available_memory_gib'' (JInt 0)) ''resources min_available_memory_gib'') (\<lambda>memory.
     and_then (nonnegative_number (get_or row ''min_free_disk_gib'' (JInt 0)) ''resources min_free_disk_gib'') (\<lambda>disk.
     and_then (nonnegative_number (get_or row ''max_load_per_cpu'' (JInt 0)) ''resources max_load_per_cpu'') (\<lambda>load.
     and_then (nonnegative_number (get_or row ''max_temperature_c'' (JInt 0)) ''resources max_temperature_c'') (\<lambda>temperature.
     Inr \<lparr>rp_min_available_memory_gib = memory, rp_min_free_disk_gib = disk, rp_max_load_per_cpu = load,
       rp_max_temperature_c = temperature\<rparr>))))))"

text \<open>The characters of an upper-case environment variable name: alphanumeric characters that
  \<open>str.upper\<close> keeps, and the underscore.\<close>

definition env_char :: "char \<Rightarrow> bool" where
  "env_char c =
     (let n = of_char c :: nat
      in n = 95 \<or> (48 \<le> n \<and> n \<le> 57) \<or> (65 \<le> n \<and> n \<le> 90) \<or> n \<in> {170, 178, 179, 185, 186, 188, 189, 190}
         \<or> (192 \<le> n \<and> n \<le> 222 \<and> n \<noteq> 215))"

definition env_name :: "(string \<times> json) list \<Rightarrow> string \<Rightarrow> string option result" where
  "env_name row k =
     (case get_or row k JNull of
        JNull \<Rightarrow> Inr None
      | JStr s \<Rightarrow>
          if s = [] \<or> \<not> list_all env_char s
          then Inl (ValueError (''notifications '' @ k @ '' must name an uppercase environment variable''))
          else Inr (Some s)
      | _ \<Rightarrow> Inl (ValueError (''notifications '' @ k @ '' must name an uppercase environment variable'')))"

definition outbox_field :: "policy_env \<Rightarrow> (string \<times> json) list \<Rightarrow> string option result" where
  "outbox_field env row =
     (case get_or row ''outbox'' JNull of
        JNull \<Rightarrow> Inr None
      | JStr s \<Rightarrow>
          if s = [] then Inl (ValueError ''notifications outbox must be a relative project path'')
          else (case pe_outbox env s of
              OutboxAbsolute \<Rightarrow> Inl (ValueError ''notifications outbox must be a relative project path'')
            | OutboxOutside \<Rightarrow> Inl (ValueError ''notifications outbox escaped the project root'')
            | OutboxAt path \<Rightarrow> Inr (Some path))
      | _ \<Rightarrow> Inl (ValueError ''notifications outbox must be a relative project path''))"

definition load_notifications ::
  "policy_env \<Rightarrow> (string \<times> json) list \<Rightarrow> notification_policy result" where
  "load_notifications env document =
     and_then (table_field document ''notifications'') (\<lambda>row.
     and_then (only_keys row [''events'', ''outbox'', ''webhook_url_env'', ''webhook_bearer_env'', ''timeout_seconds'']
       ''notifications table'') (\<lambda>_.
     and_then (names_from (get_or row ''events'' (JArr (map JStr NOTIFICATION_EVENTS))) NOTIFICATION_EVENTS
       ''notification events'') (\<lambda>events.
     and_then (outbox_field env row) (\<lambda>outbox.
     and_then (env_name row ''webhook_url_env'') (\<lambda>url.
     and_then (env_name row ''webhook_bearer_env'') (\<lambda>bearer.
     case get_or row ''timeout_seconds'' (JInt 10) of
       JInt timeout \<Rightarrow>
         if \<not> (1 \<le> timeout \<and> timeout \<le> 60) then Inl (ValueError ''notifications timeout_seconds must be 1-60'')
         else Inr \<lparr>np_events = events, np_outbox = outbox, np_webhook_url_env = url, np_webhook_bearer_env = bearer,
           np_timeout_seconds = timeout\<rparr>
     | _ \<Rightarrow> Inl (ValueError ''notifications timeout_seconds must be 1-60'')))))))"

definition load_operations_policy ::
  "policy_env \<Rightarrow> (string \<times> json) list \<Rightarrow> operations_policy result" where
  "load_operations_policy env document =
     and_then (load_schedule env document) (\<lambda>schedule.
     and_then (load_resources document) (\<lambda>resources.
     and_then (load_notifications env document) (\<lambda>notifications.
     Inr \<lparr>op_schedule = schedule, op_resources = resources, op_notifications = notifications\<rparr>)))"

section \<open>When a window is valid\<close>

definition clocks_of :: "schedule_policy \<Rightarrow> int \<Rightarrow> clock \<times> clock \<times> clock option" where
  "clocks_of p day =
     (case override_for p day of
        Some o' \<Rightarrow> (do_start o', do_stop_claiming o', do_hard_cutoff o')
      | None \<Rightarrow> (sp_start p, sp_stop_claiming p, sp_hard_cutoff p))"

definition clocks_ok :: "clock \<times> clock \<times> clock option \<Rightarrow> bool" where
  "clocks_ok = (\<lambda>(start, stop, cutoff).
     case cutoff of None \<Rightarrow> True | Some c \<Rightarrow> boundary 0 start stop \<le> boundary 0 start c)"

definition enabled_on :: "schedule_policy \<Rightarrow> int \<Rightarrow> bool" where
  "enabled_on p day =
     (case override_for p day of Some o' \<Rightarrow> do_enabled o' | None \<Rightarrow> DAY_NAMES ! weekday day \<in> set (sp_days p))"

lemma boundary_shift: "boundary day s c = boundary 0 s c + day * usec_day"
  by (simp add: boundary_def combine_def algebra_simps)

lemma window_of_eq:
  "window_of p day =
     (case clocks_of p day of (s, t, c) \<Rightarrow>
        if clocks_ok (s, t, c)
        then Inr \<lparr>w_enabled = enabled_on p day, w_started = combine day s, w_stop = boundary day s t,
               w_cutoff = map_option (boundary day s) c\<rparr>
        else Inl (ValueError ''schedule stop_claiming must not be after hard_cutoff''))"
  by (simp add: window_of_def clocks_of_def enabled_on_def clocks_ok_def Let_def boundary_shift [of day]
      split: option.splits)

lemma window_of_ok: "(\<exists>w. window_of p day = Inr w) \<longleftrightarrow> clocks_ok (clocks_of p day)"
  by (simp add: window_of_eq split: prod.split)

lemma window_of_Inr:
  assumes "window_of p day = Inr w" and "clocks_of p day = (s, t, c)"
  shows "w_enabled w = enabled_on p day" "w_started w = combine day s" "w_stop w = boundary day s t"
    "w_cutoff w = map_option (boundary day s) c" "clocks_ok (s, t, c)"
  using assms by (auto simp: window_of_eq split: if_splits)

text \<open>A window starts on its day, and is over within 24 hours.\<close>

lemma boundary_bounds:
  "s < 1440 \<Longrightarrow> c < 1440 \<Longrightarrow> combine day s < boundary day s c \<and> boundary day s c \<le> combine day s + usec_day"
  by (auto simp: boundary_def combine_def usec_day_def algebra_simps)

lemma combine_day: "s < 1440 \<Longrightarrow> combine day s div usec_day = day"
  by (simp add: combine_def usec_day_def)

definition clocks_in_day :: "schedule_policy \<Rightarrow> bool" where
  "clocks_in_day p \<longleftrightarrow>
     sp_start p < 1440 \<and> sp_stop_claiming p < 1440 \<and> pred_option (\<lambda>c. c < 1440) (sp_hard_cutoff p)
     \<and> list_all (\<lambda>o'. do_start o' < 1440 \<and> do_stop_claiming o' < 1440
          \<and> pred_option (\<lambda>c. c < 1440) (do_hard_cutoff o')) (sp_date_overrides p)"

lemma override_for_Some: "override_for p day = Some o' \<Longrightarrow> o' \<in> set (sp_date_overrides p) \<and> do_date o' = day"
  by (auto simp: override_for_def find_Some_iff in_set_conv_nth)

lemma override_for_None: "override_for p day = None \<longleftrightarrow> day \<notin> do_date ` set (sp_date_overrides p)"
  by (auto simp: override_for_def find_None_iff)

lemma clocks_of_in_day:
  assumes "clocks_in_day p" and "clocks_of p day = (s, t, c)"
  shows "s < 1440" "t < 1440" "pred_option (\<lambda>c. c < 1440) c"
  using assms by (auto simp: clocks_in_day_def clocks_of_def list_all_iff split: option.splits dest!: override_for_Some)

text \<open>What an evaluation looks at: the windows of yesterday, today and the eight days after.\<close>

definition all_windows_ok :: "schedule_policy \<Rightarrow> int \<Rightarrow> bool" where
  "all_windows_ok p today = (\<forall>k\<in>{-1..8}. clocks_ok (clocks_of p (today + k)))"

text \<open>The window that counts: today's when it is open, otherwise yesterday's.\<close>

definition active_window :: "schedule_policy \<Rightarrow> int \<Rightarrow> window option" where
  "active_window p local =
     (let today = local div usec_day
      in case (window_of p (today - 1), window_of p today) of
           (Inr y, Inr t) \<Rightarrow> if in_window t local then Some t else if in_window y local then Some y else None
         | _ \<Rightarrow> None)"

definition window_start :: "schedule_policy \<Rightarrow> int \<Rightarrow> int" where
  "window_start p day = combine day (fst (clocks_of p day))"

definition opens_after :: "schedule_policy \<Rightarrow> int \<Rightarrow> int \<Rightarrow> bool" where
  "opens_after p local day \<longleftrightarrow> enabled_on p day \<and> local < window_start p day"

lemma next_window_Inr:
  assumes "next_window p local days = Inr r"
  shows "case r of
      None \<Rightarrow> list_all (\<lambda>d. \<not> opens_after p local d) days
    | Some n \<Rightarrow> \<exists>i<length days. n = window_start p (days ! i) \<and> opens_after p local (days ! i)
        \<and> (\<forall>j<i. \<not> opens_after p local (days ! j))"
  using assms
proof (induction days)
  case (Cons d days)
  from Cons.prems obtain w where w: "window_of p d = Inr w" by (auto simp: results)
  obtain s t c where clocks: "clocks_of p d = (s, t, c)" by (cases "clocks_of p d")
  have opens: "opens_after p local d \<longleftrightarrow> w_enabled w \<and> local < w_started w" "window_start p d = w_started w"
    using window_of_Inr(1,2) [OF w clocks] by (auto simp: opens_after_def window_start_def clocks)
  show ?case
  proof (cases "opens_after p local d")
    case True
    then have "r = Some (w_started w)" using Cons.prems opens by (simp add: w)
    then show ?thesis using True opens by (auto intro!: exI [of _ 0])
  next
    case False
    then have "next_window p local days = Inr r" using Cons.prems opens by (auto simp: w split: if_splits)
    from Cons.IH [OF this] show ?thesis
    proof (cases r)
      case (Some n)
      with Cons.IH [OF \<open>next_window p local days = Inr r\<close>] obtain i where
        "i < length days" "n = window_start p (days ! i)" "opens_after p local (days ! i)"
        "\<forall>j<i. \<not> opens_after p local (days ! j)" by auto
      then show ?thesis using False Some by (auto intro!: exI [of _ "Suc i"] simp: nth_Cons split: nat.splits)
    qed (use False in simp)
  qed
qed simp

lemma active_window_facts:
  assumes "active_window p local = Some w" and "clocks_in_day p"
  shows "\<exists>day\<in>{local div usec_day - 1, local div usec_day}. enabled_on p day \<and> w_started w = window_start p day"
    "w_started w \<le> local" "w_started w < w_stop w" "w_stop w \<le> w_started w + usec_day"
    "pred_option (\<lambda>c. w_stop w \<le> c \<and> local < c) (w_cutoff w)"
proof -
  from assms(1) obtain day where day: "day \<in> {local div usec_day - 1, local div usec_day}"
    and w: "window_of p day = Inr w" and inside: "in_window w local"
    by (auto simp: active_window_def Let_def split: sum.splits if_splits)
  obtain s t c where clocks: "clocks_of p day = (s, t, c)" by (cases "clocks_of p day")
  note facts = window_of_Inr [OF w clocks] and bound = clocks_of_in_day [OF assms(2) clocks]
  show "\<exists>day\<in>{local div usec_day - 1, local div usec_day}. enabled_on p day \<and> w_started w = window_start p day"
  proof (rule bexI [OF _ day])
    show "enabled_on p day \<and> w_started w = window_start p day"
      using inside facts by (simp add: in_window_def window_start_def clocks)
  qed
  show "w_started w \<le> local" using inside by (simp add: in_window_def)
  show "w_started w < w_stop w" "w_stop w \<le> w_started w + usec_day"
    using boundary_bounds [OF bound(1,2)] by (simp_all add: facts)
  show "pred_option (\<lambda>c. w_stop w \<le> c \<and> local < c) (w_cutoff w)"
    using facts(5) inside by (cases c) (auto simp: facts clocks_ok_def in_window_def boundary_shift [of day])
qed

lemma next_window_total:
  "\<forall>d\<in>set days. clocks_ok (clocks_of p d) \<Longrightarrow> \<exists>r. next_window p local days = Inr r"
  by (induction days) (auto simp: window_of_ok [symmetric])

lemma evaluate_disabled:
  "\<not> sp_enabled p \<Longrightarrow> \<exists>s. evaluate to_local p (Aware t) = Inr s \<and> ss_claims_allowed s"
  by (simp add: evaluate_def Let_def)

lemma evaluate_Inr:
  assumes "evaluate to_local p (Aware t) = Inr s" and "sp_enabled p"
  defines "local \<equiv> to_local (sp_timezone p) t"
  shows "ss_claims_allowed s = (case active_window p local of None \<Rightarrow> False | Some w \<Rightarrow> local < w_stop w)"
    "ss_window_started_at s = map_option w_started (active_window p local)"
    "ss_stop_claiming_at s = map_option w_stop (active_window p local)"
    "ss_hard_cutoff_at s = Option.bind (active_window p local) w_cutoff"
    "next_window p local (map (\<lambda>k. local div usec_day + int k) [0..<9]) = Inr (ss_next_window_at s)"
proof -
  from assms(1,2) obtain y w where y: "window_of p (local div usec_day - 1) = Inr y"
    and w: "window_of p (local div usec_day) = Inr w"
    by (auto simp: evaluate_def Let_def results local_def)
  have act: "active_window p local = (if in_window w local then Some w else if in_window y local then Some y else None)"
    by (simp add: active_window_def Let_def y w)
  have last: "(case filter (\<lambda>w. in_window w local) [y, w] of [] \<Rightarrow> None | ws \<Rightarrow> Some (last ws))
      = (if in_window w local then Some w else if in_window y local then Some y else None)"
    by simp
  show "ss_claims_allowed s = (case active_window p local of None \<Rightarrow> False | Some w \<Rightarrow> local < w_stop w)"
    "ss_window_started_at s = map_option w_started (active_window p local)"
    "ss_stop_claiming_at s = map_option w_stop (active_window p local)"
    "ss_hard_cutoff_at s = Option.bind (active_window p local) w_cutoff"
    "next_window p local (map (\<lambda>k. local div usec_day + int k) [0..<9]) = Inr (ss_next_window_at s)"
    using assms(1,2) unfolding act evaluate_def Let_def moment.case local_def [symmetric]
    by (auto simp: y w last results simp del: filter.simps upt_rec_numeral split del: if_split)
qed

lemma evaluate_total:
  assumes "sp_enabled p \<longrightarrow> all_windows_ok p (to_local (sp_timezone p) t div usec_day)"
  shows "\<exists>s. evaluate to_local p (Aware t) = Inr s"
proof (cases "sp_enabled p")
  case True
  let ?local = "to_local (sp_timezone p) t" and ?today = "to_local (sp_timezone p) t div usec_day"
  have ok: "clocks_ok (clocks_of p (?today + k))" if "-1 \<le> k" "k \<le> 8" for k
    using assms True that by (simp add: all_windows_ok_def)
  obtain y where y: "window_of p (?today - 1) = Inr y" using ok [of "-1"] by (auto simp: window_of_ok [symmetric])
  obtain w where w: "window_of p ?today = Inr w" using ok [of 0] by (auto simp: window_of_ok [symmetric])
  have "\<forall>d\<in>set (map (\<lambda>k. ?today + int k) [0..<9]). clocks_ok (clocks_of p d)"
    using ok by auto
  from next_window_total [OF this] obtain r where
    "next_window p ?local (map (\<lambda>k. ?today + int k) [0..<9]) = Inr r" by blast
  then show ?thesis by (simp add: evaluate_def Let_def y w del: upt_rec_numeral)
next
  case False
  then show ?thesis using evaluate_disabled [of p to_local t] by blast
qed

section \<open>What an accepted policy satisfies\<close>

text \<open>\<open>time.fromisoformat\<close> returns an hour below 24 and a minute below 60.\<close>

definition times_in_day :: "policy_env \<Rightarrow> bool" where
  "times_in_day env \<longleftrightarrow> (\<forall>s h m sec us. pe_time env s = Some (h, m, sec, us) \<longrightarrow> h < 24 \<and> m < 60)"

lemma clock_field_in_day: "clock_field env v ctx = Inr c \<Longrightarrow> times_in_day env \<Longrightarrow> c < 1440"
  by (force simp: clock_field_def times_in_day_def split: json.splits option.splits if_splits)

lemma optional_clock_in_day:
  "optional_clock env v ctx = Inr c \<Longrightarrow> times_in_day env \<Longrightarrow> pred_option (\<lambda>c. c < 1440) c"
  by (auto simp: optional_clock_def results clock_field_in_day split: if_splits)

lemma load_override_Inr:
  assumes "load_override env s t h v before = Inr after"
  shows "\<exists>o'. after = before @ [o'] \<and> do_date o' \<notin> do_date ` set before
    \<and> (times_in_day env \<longrightarrow> do_start o' < 1440 \<and> do_stop_claiming o' < 1440
         \<and> pred_option (\<lambda>c. c < 1440) (do_hard_cutoff o'))"
  using assms
  by (auto simp: load_override_def Let_def results clock_field_in_day optional_clock_in_day
      split: json.splits option.splits if_splits)

lemma load_overrides_Inr:
  assumes "load_overrides env s t h v = Inr os"
  shows "distinct (map do_date os)"
    "times_in_day env \<Longrightarrow> list_all (\<lambda>o'. do_start o' < 1440 \<and> do_stop_claiming o' < 1440
       \<and> pred_option (\<lambda>c. c < 1440) (do_hard_cutoff o')) os"
proof -
  from assms obtain rows where rows: "fold_result (load_override env s t h) rows [] = Inr os"
    by (auto simp: load_overrides_def split: json.splits)
  have "distinct (map do_date os) \<and> (times_in_day env \<longrightarrow> list_all (\<lambda>o'. do_start o' < 1440 \<and> do_stop_claiming o' < 1440
       \<and> pred_option (\<lambda>c. c < 1440) (do_hard_cutoff o')) os)"
    by (rule fold_result_invariant [OF rows]) (auto dest!: load_override_Inr)
  then show "distinct (map do_date os)"
    "times_in_day env \<Longrightarrow> list_all (\<lambda>o'. do_start o' < 1440 \<and> do_stop_claiming o' < 1440
       \<and> pred_option (\<lambda>c. c < 1440) (do_hard_cutoff o')) os" by blast+
qed

lemma load_tail_fill_Inr:
  "load_tail_fill row finish chain = Inr t \<Longrightarrow>
     1 \<le> tf_minimum_idle_slots t \<and> 1 \<le> tf_conservative_block_minutes t \<and> tf_max_active_blocks t \<in> {1, 2}
     \<and> (tf_enabled t \<longrightarrow> tf_max_active_blocks t = 2 \<and> chain \<and> finish)"
  by (auto simp: load_tail_fill_def results split: json.splits if_splits)

lemma load_schedule_Inr:
  assumes "load_schedule env document = Inr p"
  shows "sp_days p \<noteq> []" "distinct (map do_date (sp_date_overrides p))"
    "clocks_ok (clocks_of p TRIAL_DATE)"
    "\<forall>o'\<in>set (sp_date_overrides p). clocks_ok (clocks_of p (do_date o'))"
    "times_in_day env \<Longrightarrow> clocks_in_day p"
    "sp_chain_batches p \<Longrightarrow> sp_finish_started_batch p"
    "tf_enabled (sp_tail_fill p) \<Longrightarrow> sp_chain_batches p"
proof -
  from assms obtain row hv rows s t h where
    facts: "sp_days p \<noteq> []" "sp_chain_batches p \<longrightarrow> sp_finish_started_batch p"
    and tail: "load_tail_fill row (sp_finish_started_batch p) (sp_chain_batches p) = Inr (sp_tail_fill p)"
    and clocks: "clock_field env s ''schedule start'' = Inr (sp_start p)"
      "clock_field env t ''schedule stop_claiming'' = Inr (sp_stop_claiming p)"
      "optional_clock env h ''schedule hard_cutoff'' = Inr (sp_hard_cutoff p)"
    and os: "load_overrides env (sp_start p) (sp_stop_claiming p) hv rows = Inr (sp_date_overrides p)"
    and trial: "\<exists>w. window_of p TRIAL_DATE = Inr w"
    and each: "\<exists>ws. map_result (\<lambda>o'. window_of p (do_date o')) (sp_date_overrides p) = Inr ws"
    by (auto simp: load_schedule_def Let_def results)
  show "sp_days p \<noteq> []" "sp_chain_batches p \<Longrightarrow> sp_finish_started_batch p" using facts by simp_all
  show "distinct (map do_date (sp_date_overrides p))" using load_overrides_Inr(1) [OF os] .
  show "clocks_ok (clocks_of p TRIAL_DATE)" using trial by (simp add: window_of_ok)
  show "\<forall>o'\<in>set (sp_date_overrides p). clocks_ok (clocks_of p (do_date o'))"
    using each map_result_nth unfolding window_of_ok [symmetric] by (metis in_set_conv_nth)
  show "clocks_in_day p" if "times_in_day env"
    using that clocks load_overrides_Inr(2) [OF os] by (simp add: clocks_in_day_def clock_field_in_day optional_clock_in_day)
  show "sp_chain_batches p" if "tf_enabled (sp_tail_fill p)"
    using load_tail_fill_Inr [OF tail] that by simp
qed

text \<open>The loader tries the base window only on one date.\<close>

lemma accepted_windows_ok:
  assumes "load_schedule env document = Inr p" and "TRIAL_DATE \<notin> do_date ` set (sp_date_overrides p)"
  shows "clocks_ok (clocks_of p day)"
proof (cases "override_for p day")
  case None
  have "override_for p TRIAL_DATE = None" using assms(2) by (simp add: override_for_None)
  then show ?thesis using load_schedule_Inr(3) [OF assms(1)] None by (simp add: clocks_of_def)
next
  case (Some o')
  from override_for_Some [OF this] load_schedule_Inr(4) [OF assms(1)] show ?thesis by blast
qed

text \<open>
  An override on the date of the trial hides an invalid base window from the loader; then
  evaluating the accepted policy raises.
\<close>

definition demo_time :: "string \<Rightarrow> (nat \<times> nat \<times> nat \<times> nat) option" where
  "demo_time s =
     (case s of
        [a, b, c, d, e] \<Rightarrow>
          if c = CHR '':'' \<and> list_all is_digit [a, b, d, e]
          then let h = 10 * (of_char a - 48) + (of_char b - 48); m = 10 * (of_char d - 48) + (of_char e - 48)
               in if h < 24 \<and> m < 60 then Some (h, m, 0, 0) else None
          else None
      | _ \<Rightarrow> None)"

definition demo_policy_env :: policy_env where
  "demo_policy_env = \<lparr>pe_time = demo_time, pe_date = (\<lambda>s. if s = ''2026-01-01'' then Some TRIAL_DATE else None),
     pe_zone = (\<lambda>z. z = ''UTC''), pe_outbox = OutboxAt\<rparr>"

definition demo_schedule :: "json list \<Rightarrow> string \<Rightarrow> (string \<times> json) list" where
  "demo_schedule overrides cutoff =
     [(''schedule'', JObj [(''enabled'', JBool True), (''start'', JStr ''22:00''), (''stop_claiming'', JStr ''06:00''),
        (''hard_cutoff'', JStr cutoff), (''date_overrides'', JArr overrides)])]"

definition hiding_override :: json where
  "hiding_override = JObj [(''date'', JStr ''2026-01-01''), (''hard_cutoff'', JStr ''07:00'')]"

lemma demo_times_in_day: "times_in_day demo_policy_env"
  by (auto simp: times_in_day_def demo_policy_env_def demo_time_def Let_def split: list.splits if_splits)

definition demo_policy :: schedule_policy where
  "demo_policy = \<lparr>sp_enabled = True, sp_timezone = ''UTC'', sp_days = DAY_NAMES, sp_start = 1320,
     sp_stop_claiming = 360, sp_hard_cutoff = Some 420, sp_finish_started_batch = False, sp_chain_batches = False,
     sp_tail_fill = \<lparr>tf_enabled = False, tf_max_active_blocks = 1, tf_minimum_idle_slots = 4,
       tf_conservative_block_minutes = 60, tf_require_fit = True\<rparr>, sp_date_overrides = []\<rparr>"

definition hiding_policy :: schedule_policy where
  "hiding_policy = demo_policy\<lparr>sp_hard_cutoff := Some 300, sp_date_overrides :=
     [\<lparr>do_date = TRIAL_DATE, do_enabled = True, do_start = 1320, do_stop_claiming = 360, do_hard_cutoff = Some 420\<rparr>]\<rparr>"

lemma demo_policy_accepted: "load_schedule demo_policy_env (demo_schedule [] ''07:00'') = Inr demo_policy"
  by code_simp

lemma hiding_policy_accepted:
  "load_schedule demo_policy_env (demo_schedule [hiding_override] ''05:00'') = Inr hiding_policy"
  by code_simp

end
