(* ===== verification/Batch_Planning.thy ===== *)
theory Batch_Planning
  imports Floats "HOL-Library.Multiset"
begin

text \<open>
  The packing of reviewed build work into bounded blocks: \<open>_number\<close>, \<open>_clock_after\<close>,
  \<open>_pack_blocks\<close> and the block rows of src/fidb_poc/batch_time_model.py, and \<open>_route_bundles\<close>,
  \<open>_pack_route_bundles\<close>, \<open>_matrix_groups\<close> and the partition checks of \<open>compile_auto_batches\<close> in
  src/fidb_poc/auto_batch_builder.py.  Hours are binary64 values and are added with rounding, in
  the order of the code.  The width authorities and recipes arrive as arguments.
\<close>

section \<open>Float arithmetic of the packers\<close>

definition fadd :: "rat \<Rightarrow> rat \<Rightarrow> rat" where
  "fadd x y = f64 (x + y)"

definition fsub :: "rat \<Rightarrow> rat \<Rightarrow> rat" where
  "fsub x y = f64 (x - y)"

text \<open>A running total of floats, from the left and from zero.\<close>

definition fsum :: "rat list \<Rightarrow> rat" where
  "fsum xs = fold (\<lambda>x t. fadd t x) xs 0"

definition is_f64 :: "rat \<Rightarrow> bool" where
  "is_f64 x \<longleftrightarrow> f64 x = x"

lemma fsum_simps [simp]: "fsum [] = 0" "fsum (xs @ [x]) = fadd (fsum xs) x"
  by (simp_all add: fsum_def)

lemma fadd_0: "is_f64 x \<Longrightarrow> fadd 0 x = x"
  by (simp add: fadd_def is_f64_def)

section \<open>First-fit decreasing blocks\<close>

record work_item =
  wi_source_id :: string
  wi_rank :: int
  wi_hours :: rat
  wi_executions :: int
  wi_android_executions :: int

definition EPS_9 :: rat where "EPS_9 = f64 (1 / 10 ^ 9)"
definition EPS_12 :: rat where "EPS_12 = f64 (1 / 10 ^ 12)"

type_synonym bin = "work_item list \<times> rat"

text \<open>The index and deviation of every open block the item still fits in.\<close>

definition fit_candidates :: "rat \<Rightarrow> rat \<Rightarrow> rat \<Rightarrow> bin list \<Rightarrow> (rat \<times> nat) list" where
  "fit_candidates target_hours max_hours hours bins =
     map (\<lambda>(index, bin). (\<bar>fsub target_hours (fadd (snd bin) hours)\<bar>, index))
       (filter (\<lambda>(index, bin). fadd (snd bin) hours \<le> fadd max_hours EPS_9) (enumerate 0 bins))"

definition place_item :: "rat \<Rightarrow> rat \<Rightarrow> work_item \<Rightarrow> bin list \<Rightarrow> bin list result" where
  "place_item target_hours max_hours item bins =
     (let hours = wi_hours item;
          candidates = fit_candidates target_hours max_hours hours bins
      in if hours > fadd max_hours EPS_9
         then Inl (ValueError (''work item '' @ wi_source_id item @ '' is above the block ceiling; split it before scheduling''))
         else if candidates \<noteq> []
         then let selected = snd (Min (set candidates)); (items, spent) = bins ! selected
              in Inr (bins[selected := (items @ [item], fadd spent hours)])
         else Inr (bins @ [([item], hours)]))"

definition pack_blocks :: "work_item list \<Rightarrow> rat \<Rightarrow> rat \<Rightarrow> work_item list list result" where
  "pack_blocks items target_hours max_hours =
     and_then (fold_result (place_item target_hours max_hours)
       (sort_key (\<lambda>row. (- wi_hours row, wi_rank row)) items) [])
       (\<lambda>bins. Inr (map fst bins))"

text \<open>\<open>HH:MM\<close> after so many hours, with the day offset.\<close>

definition two_digit :: "nat \<Rightarrow> string" where
  "two_digit n = [char_of (48 + n div 10 mod 10), char_of (48 + n mod 10)]"

definition clock_after :: "nat \<Rightarrow> nat \<Rightarrow> rat \<Rightarrow> string" where
  "clock_after hour minute hours =
     (let seconds = int (hour * 3600 + minute * 60) + round_even (f64 (hours * 3600));
          day_offset = seconds div 86400; seconds = seconds mod 86400;
          result = two_digit (nat (seconds div 3600)) @ '':'' @ two_digit (nat (seconds mod 3600 div 60))
      in if day_offset \<noteq> 0 then ''+'' @ decimal (nat day_offset) @ ''d '' @ result else result)"

text \<open>
  The numbers of one block row.  \<open>py_sum\<close> is Python's \<open>sum\<close> of floats: a plain running total up to
  version 3.11, a compensated one from 3.12 on.
\<close>

record block_row =
  bk_position :: nat
  bk_estimated_hours :: rat
  bk_lower_hours :: rat
  bk_upper_hours :: rat
  bk_nominal_end :: string
  bk_executions :: int
  bk_android_executions :: int
  bk_items :: "work_item list"

definition block_rows :: "(rat list \<Rightarrow> rat) \<Rightarrow> nat \<times> nat \<Rightarrow> rat \<Rightarrow> work_item list list \<Rightarrow> block_row list" where
  "block_rows py_sum start uncertainty packed =
     map (\<lambda>(index, items).
       let estimated = py_sum (map wi_hours items)
       in \<lparr>bk_position = index, bk_estimated_hours = round_decimals 6 estimated,
           bk_lower_hours = round_decimals 6 (f64 (estimated * fsub 1 uncertainty)),
           bk_upper_hours = round_decimals 6 (f64 (estimated * fadd 1 uncertainty)),
           bk_nominal_end = clock_after (fst start) (snd start) estimated,
           bk_executions = sum_list (map wi_executions items),
           bk_android_executions = sum_list (map wi_android_executions items), bk_items = items\<rparr>)
       (enumerate 1 packed)"

section \<open>Route bundles and chunks\<close>

record time_item =
  ti_rank :: int
  ti_source_id :: string
  ti_label :: string
  ti_version :: string
  ti_batch_authority :: string
  ti_executions :: int
  ti_estimated_hours :: rat

record width_library =
  wl_id :: string
  wl_version :: string
  wl_recipe_id :: string
  wl_applicable_routes :: "string list"

text \<open>What a batch authority projects to: ordered routes and treatments, and its libraries.\<close>

record width_axes =
  wx_routes :: "string list"
  wx_treatments :: "string list"
  wx_libraries :: "width_library list"

record route_bundle =
  rb_rank :: int
  rb_source_id :: string
  rb_label :: string
  rb_version :: string
  rb_recipe_id :: string
  rb_batch_authority :: string
  rb_route_id :: string
  rb_treatment_ids :: "string list"
  rb_executions :: nat
  rb_estimated_hours :: rat

definition library_bundles :: "width_axes \<Rightarrow> time_item \<Rightarrow> width_library \<Rightarrow> route_bundle list result" where
  "library_bundles axes item library =
     (let selected = filter (\<lambda>route. route \<in> set (wl_applicable_routes library)) (wx_routes axes);
          expected = length selected * length (wx_treatments axes)
      in if ti_executions item \<noteq> int expected
         then Inl (ValueError (ti_source_id item @ '' cannot be split into native route bundles''))
         else if selected = [] then Inl (ZeroDivisionError ''float division by zero'')
         else let route_hours = f64 (ti_estimated_hours item / of_nat (length selected))
         in Inr (map (\<lambda>route. \<lparr>rb_rank = ti_rank item, rb_source_id = ti_source_id item, rb_label = ti_label item,
              rb_version = ti_version item, rb_recipe_id = wl_recipe_id library,
              rb_batch_authority = ti_batch_authority item, rb_route_id = route,
              rb_treatment_ids = wx_treatments axes, rb_executions = length (wx_treatments axes),
              rb_estimated_hours = route_hours\<rparr>) selected))"

definition item_bundles ::
  "(string \<Rightarrow> width_axes result) \<Rightarrow> time_item \<Rightarrow> route_bundle list result" where
  "item_bundles project item =
     and_then (project (ti_batch_authority item)) (\<lambda>axes.
     let matches = filter (\<lambda>row. wl_id row = ti_source_id item \<and> wl_version row = ti_version item) (wx_libraries axes)
     in if length matches \<noteq> 1
        then Inl (ValueError (''time model source '' @ ti_source_id item @ ''@'' @ ti_version item
                @ '' no longer matches '' @ ti_batch_authority item))
        else library_bundles axes item (hd matches))"

definition route_bundles ::
  "(string \<Rightarrow> width_axes result) \<Rightarrow> time_item list list \<Rightarrow> route_bundle list result" where
  "route_bundles project blocks =
     and_then (map_result (item_bundles project)
       (sort_key (\<lambda>item. (ti_rank item, ti_source_id item)) (concat blocks))) (\<lambda>bundles. Inr (concat bundles))"

text \<open>The loop over the bundles: finished chunks, the current chunk and its total.\<close>

fun pack_loop ::
  "rat \<Rightarrow> rat \<Rightarrow> route_bundle list \<Rightarrow> route_bundle list list \<Rightarrow> route_bundle list \<Rightarrow> rat
    \<Rightarrow> route_bundle list list result" where
  "pack_loop target_hours max_hours [] chunks current spent =
     Inr (if current \<noteq> [] then chunks @ [current] else chunks)"
| "pack_loop target_hours max_hours (bundle # bundles) chunks current spent =
     (let hours = rb_estimated_hours bundle
      in if hours > fadd max_hours EPS_12
         then Inl (ValueError (''indivisible route bundle '' @ rb_source_id bundle @ ''/'' @ rb_route_id bundle
                @ '' exceeds the maximum chunk duration''))
         else let (chunks, current, spent) =
                (if current \<noteq> [] \<and> fadd spent hours > fadd max_hours EPS_12 then (chunks @ [current], [], 0)
                 else (chunks, current, spent));
              current = current @ [bundle]; spent = fadd spent hours
         in if spent \<ge> fsub target_hours EPS_12
            then pack_loop target_hours max_hours bundles (chunks @ [current]) [] 0
            else pack_loop target_hours max_hours bundles chunks current spent)"

definition pack_route_bundles :: "route_bundle list \<Rightarrow> rat \<Rightarrow> rat \<Rightarrow> route_bundle list list result" where
  "pack_route_bundles bundles target_hours max_hours = pack_loop target_hours max_hours bundles [] [] 0"

text \<open>The matrices of a chunk, by authority, recipe and treatments, in order of first use.\<close>

record matrix_group =
  mg_batch_authority :: string
  mg_recipe_id :: string
  mg_treatment_ids :: "string list"
  mg_route_ids :: "string list"

definition group_key :: "matrix_group \<Rightarrow> string \<times> string \<times> string list" where
  "group_key g = (mg_batch_authority g, mg_recipe_id g, mg_treatment_ids g)"

definition bundle_key :: "route_bundle \<Rightarrow> string \<times> string \<times> string list" where
  "bundle_key b = (rb_batch_authority b, rb_recipe_id b, rb_treatment_ids b)"

definition add_to_group :: "route_bundle \<Rightarrow> matrix_group list \<Rightarrow> matrix_group list" where
  "add_to_group b groups =
     (if bundle_key b \<in> group_key ` set groups
      then map (\<lambda>g. if group_key g = bundle_key b then g\<lparr>mg_route_ids := mg_route_ids g @ [rb_route_id b]\<rparr> else g) groups
      else groups @ [\<lparr>mg_batch_authority = rb_batch_authority b, mg_recipe_id = rb_recipe_id b,
             mg_treatment_ids = rb_treatment_ids b, mg_route_ids = [rb_route_id b]\<rparr>])"

definition matrix_groups :: "route_bundle list \<Rightarrow> matrix_group list" where
  "matrix_groups bundles = fold add_to_group bundles []"

section \<open>The chunks of a campaign\<close>

record chunk =
  ck_id :: string
  ck_position :: nat
  ck_executions :: nat
  ck_estimated_minutes :: rat
  ck_lower_minutes :: rat
  ck_upper_minutes :: rat
  ck_source_ids :: "string list"
  ck_route_ids :: "string list"
  ck_groups :: "matrix_group list"

definition first_uses :: "'a list \<Rightarrow> 'a list" where
  "first_uses xs = rev (remdups (rev xs))"

text \<open>\<open>f"{n:03d}"\<close> and \<open>f"{n:02d}"\<close>.\<close>

definition pad :: "nat \<Rightarrow> nat \<Rightarrow> string" where
  "pad width n = (let d = decimal n in replicate (width - length d) (CHR ''0'') @ d)"

definition make_chunk :: "(rat list \<Rightarrow> rat) \<Rightarrow> string \<Rightarrow> rat \<Rightarrow> nat \<times> route_bundle list \<Rightarrow> chunk" where
  "make_chunk py_sum campaign_id uncertainty = (\<lambda>(position, bundles).
     let hours = py_sum (map rb_estimated_hours bundles)
     in \<lparr>ck_id = campaign_id @ ''-chunk-'' @ pad 3 position, ck_position = position,
         ck_executions = sum_list (map rb_executions bundles),
         ck_estimated_minutes = round_decimals 3 (f64 (hours * 60)),
         ck_lower_minutes = round_decimals 3 (f64 (f64 (hours * fsub 1 uncertainty) * 60)),
         ck_upper_minutes = round_decimals 3 (f64 (f64 (hours * fadd 1 uncertainty) * 60)),
         ck_source_ids = first_uses (map rb_source_id bundles), ck_route_ids = map rb_route_id bundles,
         ck_groups = matrix_groups bundles\<rparr>)"

definition chunk_prefixes :: "chunk \<Rightarrow> string list" where
  "chunk_prefixes c =
     map (\<lambda>(index, g). ck_id c @ ''-width-'' @ pad 2 index @ '':'') (enumerate 1 (ck_groups c))"

definition chunk_rows :: "chunk \<Rightarrow> string list \<Rightarrow> string list" where
  "chunk_rows c base_cells =
     filter (\<lambda>cell. list_ex (\<lambda>p. take (length p) cell = p) (chunk_prefixes c)) base_cells"

text \<open>The base cells of the aggregate queue are claimed chunk by chunk.\<close>

definition claim_chunk :: "string list \<Rightarrow> chunk \<Rightarrow> string list \<Rightarrow> string list result" where
  "claim_chunk base_cells c claimed =
     (let selected = chunk_rows c base_cells
      in if length selected \<noteq> ck_executions c then Inl (ValueError (ck_id c @ '' resolved another number of cells''))
         else if \<not> list_all (\<lambda>cell. cell \<notin> set claimed) selected
         then Inl (ValueError ''auto chunk authority resolution produced duplicate cells'')
         else Inr (claimed @ remdups selected))"

definition check_chunks :: "string list \<Rightarrow> nat \<Rightarrow> chunk list \<Rightarrow> unit result" where
  "check_chunks base_cells expected_executions chunks =
     and_then (fold_result (claim_chunk base_cells) chunks []) (\<lambda>claimed.
     and_then (require (sum_list (map ck_executions chunks) = expected_executions)
       (ValueError ''auto chunks cover another number of cells'')) (\<lambda>_.
     require (length claimed = length base_cells)
       (ValueError ''auto chunks did not partition the aggregate resolved queue'')))"

text \<open>The core of \<open>compile_auto_batches\<close>; \<open>resolve\<close> is the resolution of the rendered plan.\<close>

definition compile_auto_batches ::
  "(rat list \<Rightarrow> rat) \<Rightarrow> (string \<Rightarrow> width_axes result) \<Rightarrow> (chunk list \<Rightarrow> string list result) \<Rightarrow> string \<Rightarrow> int \<Rightarrow> int \<Rightarrow> rat
    \<Rightarrow> time_item list list \<Rightarrow> nat \<Rightarrow> chunk list result" where
  "compile_auto_batches py_sum project resolve campaign_id target_minutes max_minutes uncertainty blocks expected_executions =
     (if target_minutes < 1 \<or> max_minutes < 1 \<or> target_minutes > max_minutes
      then Inl (ValueError ''target/max minutes must be positive and target <= maximum'')
      else and_then (route_bundles project blocks) (\<lambda>bundles.
           and_then (pack_route_bundles bundles (f64 (of_int target_minutes / 60)) (f64 (of_int max_minutes / 60))) (\<lambda>packed.
           let chunks = map (make_chunk py_sum campaign_id uncertainty) (enumerate 1 packed)
           in and_then (resolve chunks) (\<lambda>base_cells.
              and_then (check_chunks base_cells expected_executions chunks) (\<lambda>_. Inr chunks)))))"

section \<open>Chunks: in order, complete, bounded and full\<close>

definition chunk_hours :: "route_bundle list \<Rightarrow> rat" where
  "chunk_hours c = fsum (map rb_estimated_hours c)"

lemma chunk_hours_simps [simp]:
  "chunk_hours [] = 0" "chunk_hours (c @ [b]) = fadd (chunk_hours c) (rb_estimated_hours b)"
  by (simp_all add: chunk_hours_def)

text \<open>A chunk is closed only when it has reached the target or the next bundle does not fit.\<close>

definition closed_for :: "rat \<Rightarrow> rat \<Rightarrow> route_bundle list \<Rightarrow> route_bundle list \<Rightarrow> bool" where
  "closed_for target_hours max_hours c d \<longleftrightarrow>
     fsub target_hours EPS_12 \<le> chunk_hours c
     \<or> fadd max_hours EPS_12 < fadd (chunk_hours c) (rb_estimated_hours (hd d))"

definition packed_ok :: "rat \<Rightarrow> rat \<Rightarrow> route_bundle list list \<Rightarrow> bool" where
  "packed_ok target_hours max_hours chunks \<longleftrightarrow>
     (\<forall>c\<in>set chunks. c \<noteq> [] \<and> chunk_hours c \<le> fadd max_hours EPS_12)
     \<and> successively (closed_for target_hours max_hours) chunks"

lemma packed_ok_snoc:
  "packed_ok t m (chunks @ [c]) \<longleftrightarrow>
     packed_ok t m chunks \<and> c \<noteq> [] \<and> chunk_hours c \<le> fadd m EPS_12 \<and> (chunks \<noteq> [] \<longrightarrow> closed_for t m (last chunks) c)"
  by (auto simp: packed_ok_def successively_append_iff)

text \<open>The loop's state: the current chunk could still be extended.\<close>

definition pack_state :: "rat \<Rightarrow> rat \<Rightarrow> route_bundle list list \<Rightarrow> route_bundle list \<Rightarrow> rat \<Rightarrow> bool" where
  "pack_state t m chunks current spent \<longleftrightarrow>
     spent = chunk_hours current
     \<and> (if current = [] then packed_ok t m chunks \<and> (chunks \<noteq> [] \<longrightarrow> fsub t EPS_12 \<le> chunk_hours (last chunks))
        else packed_ok t m (chunks @ [current]))"

lemma packed_ok_extend:
  assumes "packed_ok t m (chunks @ [current])" "current \<noteq> []"
    and "fadd (chunk_hours current) (rb_estimated_hours b) \<le> fadd m EPS_12"
  shows "packed_ok t m (chunks @ [current @ [b]])"
  using assms by (simp add: packed_ok_snoc closed_for_def)

lemma packed_ok_single:
  assumes "packed_ok t m chunks" "is_f64 (rb_estimated_hours b)" "rb_estimated_hours b \<le> fadd m EPS_12"
    and "chunks \<noteq> [] \<longrightarrow> closed_for t m (last chunks) [b]"
  shows "packed_ok t m (chunks @ [[b]])"
  using assms fadd_0 by (simp add: packed_ok_snoc chunk_hours_def fsum_def)

lemma pack_loop_ok:
  assumes "pack_state t m chunks current spent"
    and "\<forall>b\<in>set bundles. is_f64 (rb_estimated_hours b) \<and> rb_estimated_hours b \<le> fadd m EPS_12"
  shows "\<exists>out. pack_loop t m bundles chunks current spent = Inr out \<and> packed_ok t m out
    \<and> concat out = concat chunks @ current @ bundles"
  using assms
proof (induction bundles arbitrary: chunks current spent)
  case Nil
  then show ?case by (auto simp: pack_state_def split: if_splits)
next
  case (Cons b bundles)
  let ?h = "rb_estimated_hours b"
  have b: "is_f64 ?h" "?h \<le> fadd m EPS_12" using Cons.prems(2) by simp_all
  define break where "break \<longleftrightarrow> current \<noteq> [] \<and> fadd spent ?h > fadd m EPS_12"
  define chunks' where "chunks' = (if break then chunks @ [current] else chunks)"
  define current' where "current' = (if break then [b] else current @ [b])"
  define spent' where "spent' = (if break then fadd 0 ?h else fadd spent ?h)"
  have step: "pack_loop t m (b # bundles) chunks current spent =
      (if fsub t EPS_12 \<le> spent' then pack_loop t m bundles (chunks' @ [current']) [] 0
       else pack_loop t m bundles chunks' current' spent')"
    using b(2) by (simp add: break_def chunks'_def current'_def spent'_def not_less)
  have spent': "spent' = chunk_hours current'"
    using Cons.prems(1) by (simp add: spent'_def current'_def pack_state_def chunk_hours_def fsum_def)
  have ok: "packed_ok t m (chunks' @ [current'])"
  proof (cases break)
    case True
    then have "packed_ok t m (chunks @ [current])" "closed_for t m current [b]"
      using Cons.prems(1) by (auto simp: pack_state_def break_def closed_for_def)
    then have "packed_ok t m ((chunks @ [current]) @ [[b]])" by (intro packed_ok_single b) auto
    then show ?thesis using True by (simp add: chunks'_def current'_def)
  next
    case False
    show ?thesis
    proof (cases "current = []")
      case True
      with Cons.prems(1) have "packed_ok t m chunks" "chunks \<noteq> [] \<longrightarrow> closed_for t m (last chunks) [b]"
        by (auto simp: pack_state_def closed_for_def)
      then show ?thesis using False True b by (simp add: chunks'_def current'_def packed_ok_single)
    next
      case nonempty: False
      with False Cons.prems(1) have "fadd (chunk_hours current) ?h \<le> fadd m EPS_12"
        "packed_ok t m (chunks @ [current])"
        by (auto simp: break_def pack_state_def)
      then show ?thesis using False nonempty by (simp add: chunks'_def current'_def packed_ok_extend)
    qed
  qed
  have parts: "concat chunks' @ current' = concat chunks @ current @ [b]"
    by (simp add: chunks'_def current'_def)
  show ?case
  proof (cases "fsub t EPS_12 \<le> spent'")
    case True
    then have "pack_state t m (chunks' @ [current']) [] 0" using ok spent' by (simp add: pack_state_def)
    from Cons.IH [OF this] Cons.prems(2) show ?thesis unfolding step using True parts by auto
  next
    case False
    then have "pack_state t m chunks' current' spent'"
      using ok spent' by (auto simp: pack_state_def current'_def)
    from Cons.IH [OF this] Cons.prems(2) obtain out where
      "pack_loop t m bundles chunks' current' spent' = Inr out" "packed_ok t m out"
      "concat out = concat chunks' @ current' @ bundles" by auto
    moreover have "concat chunks' @ current' @ bundles = concat chunks @ current @ b # bundles"
      using arg_cong [OF parts, of "\<lambda>xs. xs @ bundles"] by simp
    ultimately show ?thesis unfolding step using False by auto
  qed
qed

lemma pack_loop_refuses:
  "\<exists>b\<in>set bundles. fadd m EPS_12 < rb_estimated_hours b \<Longrightarrow> \<exists>e. pack_loop t m bundles chunks current spent = Inl e"
proof (induction bundles arbitrary: chunks current spent)
  case (Cons b bundles)
  show ?case
  proof (cases "fadd m EPS_12 < rb_estimated_hours b")
    case False
    with Cons show ?thesis by (simp add: Let_def split: prod.split)
  qed simp
qed simp

lemma pack_route_bundles_spec:
  assumes "\<forall>b\<in>set bundles. is_f64 (rb_estimated_hours b)"
  shows "if \<forall>b\<in>set bundles. rb_estimated_hours b \<le> fadd m EPS_12
    then \<exists>out. pack_route_bundles bundles t m = Inr out \<and> packed_ok t m out \<and> concat out = bundles
    else \<exists>e. pack_route_bundles bundles t m = Inl e"
proof (cases "\<forall>b\<in>set bundles. rb_estimated_hours b \<le> fadd m EPS_12")
  case True
  have "pack_state t m [] [] 0" by (simp add: pack_state_def packed_ok_def)
  from pack_loop_ok [OF this, of bundles] assms True show ?thesis by (simp add: pack_route_bundles_def)
next
  case False
  then have "\<exists>b\<in>set bundles. fadd m EPS_12 < rb_estimated_hours b" by (auto simp: not_le)
  from pack_loop_refuses [OF this] False show ?thesis by (auto simp: pack_route_bundles_def)
qed

section \<open>Blocks: complete and bounded\<close>

definition bin_ok :: "rat \<Rightarrow> bin \<Rightarrow> bool" where
  "bin_ok max_hours bin \<longleftrightarrow>
     fst bin \<noteq> [] \<and> snd bin = fsum (map wi_hours (fst bin)) \<and> snd bin \<le> fadd max_hours EPS_9"

definition placed :: "bin list \<Rightarrow> work_item multiset" where
  "placed bins = mset (concat (map fst bins))"

lemma placed_update:
  "i < length bins \<Longrightarrow> placed (bins[i := (fst (bins ! i) @ [item], s)]) = add_mset item (placed bins)"
  by (induction bins arbitrary: i) (auto simp: placed_def split: nat.splits)

lemma fit_candidates_set:
  "(d, i) \<in> set (fit_candidates t m h bins) \<Longrightarrow> i < length bins \<and> fadd (snd (bins ! i)) h \<le> fadd m EPS_9"
  by (auto simp: fit_candidates_def in_set_enumerate_eq)

lemma fit_candidates_Nil:
  "fit_candidates t m h bins = [] \<longleftrightarrow> (\<forall>bin\<in>set bins. fadd m EPS_9 < fadd (snd bin) h)"
proof -
  have "set bins = snd ` set (enumerate 0 bins)"
    by (metis map_snd_enumerate set_map)
  then show ?thesis by (auto simp: fit_candidates_def filter_empty_conv not_le case_prod_unfold)
qed

lemma place_item_Inr:
  assumes place: "place_item t m item bins = Inr bins'" and bins: "list_all (bin_ok m) bins" and h: "is_f64 (wi_hours item)"
  shows "list_all (bin_ok m) bins' \<and> placed bins' = add_mset item (placed bins)
    \<and> (if \<forall>bin\<in>set bins. fadd m EPS_9 < fadd (snd bin) (wi_hours item) then length bins' = Suc (length bins)
       else length bins' = length bins)"
proof -
  let ?c = "fit_candidates t m (wi_hours item) bins"
  from place have le: "wi_hours item \<le> fadd m EPS_9" by (simp add: place_item_def Let_def split: if_splits)
  show ?thesis
  proof (cases "?c = []")
    case True
    with place le have "bins' = bins @ [([item], wi_hours item)]" by (simp add: place_item_def Let_def)
    then show ?thesis
      using bins le h True fadd_0 by (auto simp: fit_candidates_Nil bin_ok_def placed_def fsum_def)
  next
    case False
    define i where "i = snd (Min (set ?c))"
    have "Min (set ?c) \<in> set ?c" using False by (intro Min_in) auto
    then have i: "i < length bins" "fadd (snd (bins ! i)) (wi_hours item) \<le> fadd m EPS_9"
      using fit_candidates_set [of "fst (Min (set ?c))" i] by (simp_all add: i_def)
    have bins': "bins' = bins[i := (fst (bins ! i) @ [item], fadd (snd (bins ! i)) (wi_hours item))]"
      using place le False by (simp add: place_item_def Let_def i_def case_prod_unfold)
    have "bin_ok m (bins ! i)" using bins i(1) by (simp add: list_all_length)
    then have "bin_ok m (fst (bins ! i) @ [item], fadd (snd (bins ! i)) (wi_hours item))"
      using i(2) by (simp add: bin_ok_def)
    then have "list_all (bin_ok m) bins'"
      using bins set_update_subset_insert [of bins i] unfolding bins' by (fastforce simp: list_all_iff)
    moreover have "\<not> (\<forall>bin\<in>set bins. fadd m EPS_9 < fadd (snd bin) (wi_hours item))"
      using False by (simp add: fit_candidates_Nil)
    ultimately show ?thesis using placed_update [OF i(1)] by (simp add: bins')
  qed
qed

lemma place_items_Inr:
  assumes "fold_result (place_item t m) items bins = Inr bins'" and "list_all (bin_ok m) bins"
    and "\<forall>item\<in>set items. is_f64 (wi_hours item)"
  shows "list_all (bin_ok m) bins' \<and> placed bins' = placed bins + mset items"
  using assms
proof (induction items arbitrary: bins)
  case (Cons item items)
  from Cons.prems(1) obtain b where b: "place_item t m item bins = Inr b" "fold_result (place_item t m) items b = Inr bins'"
    by (auto simp: results)
  have "list_all (bin_ok m) b \<and> placed b = add_mset item (placed bins)"
    using place_item_Inr [OF b(1) Cons.prems(2)] Cons.prems(3) by simp
  with Cons.IH [OF b(2)] Cons.prems(3) show ?case by simp
qed simp

lemma place_items_total:
  "\<forall>item\<in>set items. wi_hours item \<le> fadd m EPS_9 \<Longrightarrow> \<exists>bins'. fold_result (place_item t m) items bins = Inr bins'"
proof (induction items arbitrary: bins)
  case (Cons item items)
  then have "\<exists>b. place_item t m item bins = Inr b" by (auto simp: place_item_def Let_def case_prod_unfold)
  with Cons show ?case by auto
qed simp

lemma place_items_refuses:
  "\<exists>item\<in>set items. fadd m EPS_9 < wi_hours item \<Longrightarrow> \<exists>e. fold_result (place_item t m) items bins = Inl e"
proof (induction items arbitrary: bins)
  case (Cons item items)
  show ?case
  proof (cases "place_item t m item bins")
    case (Inr b)
    then have "wi_hours item \<le> fadd m EPS_9" by (simp add: place_item_def Let_def split: if_splits)
    with Cons Inr show ?thesis by auto
  qed simp
qed simp

lemma pack_blocks_spec:
  assumes "\<forall>item\<in>set items. is_f64 (wi_hours item)"
  shows "if \<forall>item\<in>set items. wi_hours item \<le> fadd m EPS_9
    then \<exists>blocks. pack_blocks items t m = Inr blocks \<and> mset (concat blocks) = mset items
      \<and> (\<forall>b\<in>set blocks. b \<noteq> [] \<and> fsum (map wi_hours b) \<le> fadd m EPS_9)
    else \<exists>e. pack_blocks items t m = Inl e"
proof -
  let ?sorted = "sort_key (\<lambda>row. (- wi_hours row, wi_rank row)) items"
  show ?thesis
  proof (cases "\<forall>item\<in>set items. wi_hours item \<le> fadd m EPS_9")
    case True
    then obtain bins where bins: "fold_result (place_item t m) ?sorted [] = Inr bins"
      using place_items_total [of ?sorted m t "[]"] by auto
    have "list_all (bin_ok m) bins \<and> placed bins = placed [] + mset ?sorted"
      by (rule place_items_Inr [OF bins]) (use assms in auto)
    then show ?thesis using True bins by (auto simp: pack_blocks_def placed_def list_all_iff bin_ok_def)
  next
    case False
    then have "\<exists>item\<in>set ?sorted. fadd m EPS_9 < wi_hours item" by (auto simp: not_le)
    from place_items_refuses [OF this] obtain e where "fold_result (place_item t m) ?sorted [] = Inl e" by blast
    then show ?thesis using False by (auto simp: pack_blocks_def)
  qed
qed

section \<open>Matrices: every bundle in exactly one group\<close>

definition group_routes :: "matrix_group \<Rightarrow> ((string \<times> string \<times> string list) \<times> string) list" where
  "group_routes g = map (\<lambda>r. (group_key g, r)) (mg_route_ids g)"

definition grouped :: "matrix_group list \<Rightarrow> ((string \<times> string \<times> string list) \<times> string) multiset" where
  "grouped groups = mset (concat (map group_routes groups))"

lemma grouped_simps [simp]: "grouped [] = {#}" "grouped (g # gs) = mset (group_routes g) + grouped gs"
  by (simp_all add: grouped_def)

definition extend_group :: "route_bundle \<Rightarrow> matrix_group \<Rightarrow> matrix_group" where
  "extend_group b g = (if group_key g = bundle_key b then g\<lparr>mg_route_ids := mg_route_ids g @ [rb_route_id b]\<rparr> else g)"

lemma extend_group_key [simp]: "group_key (extend_group b g) = group_key g"
  by (simp add: extend_group_def group_key_def)

lemma grouped_untouched:
  "bundle_key b \<notin> group_key ` set gs \<Longrightarrow> map (extend_group b) gs = gs"
  by (intro map_idI) (metis extend_group_def image_eqI)

lemma grouped_extend:
  "distinct (map group_key gs) \<Longrightarrow> bundle_key b \<in> group_key ` set gs \<Longrightarrow>
     grouped (map (extend_group b) gs) = add_mset (bundle_key b, rb_route_id b) (grouped gs)"
proof (induction gs)
  case (Cons g gs)
  show ?case
  proof (cases "group_key g = bundle_key b")
    case True
    then have "bundle_key b \<notin> group_key ` set gs" using Cons.prems(1) by auto
    moreover have "group_routes (extend_group b g) = group_routes g @ [(bundle_key b, rb_route_id b)]"
      using True by (simp add: group_routes_def extend_group_def group_key_def)
    ultimately show ?thesis by (simp add: grouped_untouched)
  next
    case False
    then show ?thesis using Cons by (auto simp: extend_group_def)
  qed
qed simp

lemma add_to_group_ok:
  assumes "distinct (map group_key gs)"
  shows "distinct (map group_key (add_to_group b gs))"
    "grouped (add_to_group b gs) = add_mset (bundle_key b, rb_route_id b) (grouped gs)"
proof -
  have ext: "(\<lambda>g. if group_key g = bundle_key b then g\<lparr>mg_route_ids := mg_route_ids g @ [rb_route_id b]\<rparr> else g) = extend_group b"
    by (rule ext) (simp add: extend_group_def)
  have keys: "map group_key (map (extend_group b) gs) = map group_key gs" by simp
  show "distinct (map group_key (add_to_group b gs))"
  proof (cases "bundle_key b \<in> group_key ` set gs")
    case True
    then show ?thesis using assms unfolding add_to_group_def ext by (simp only: if_True keys)
  next
    case False
    then show ?thesis using assms unfolding add_to_group_def by (simp add: group_key_def bundle_key_def)
  qed
  show "grouped (add_to_group b gs) = add_mset (bundle_key b, rb_route_id b) (grouped gs)"
    using grouped_extend [OF assms, of b] unfolding add_to_group_def ext
    by (auto simp: grouped_def group_routes_def group_key_def bundle_key_def)
qed

lemma matrix_groups_ok:
  "distinct (map group_key (matrix_groups bundles)) \<and>
   grouped (matrix_groups bundles) = mset (map (\<lambda>b. (bundle_key b, rb_route_id b)) bundles)"
proof -
  have "distinct (map group_key gs) \<Longrightarrow> distinct (map group_key (fold add_to_group bs gs)) \<and>
      grouped (fold add_to_group bs gs) = grouped gs + mset (map (\<lambda>b. (bundle_key b, rb_route_id b)) bs)" for bs gs
    by (induction bs arbitrary: gs) (simp_all add: add_to_group_ok)
  from this [of "[]" bundles] show ?thesis by (simp add: matrix_groups_def)
qed

text \<open>The cells the matrices describe, routes times treatments.\<close>

definition matrix_cells :: "matrix_group list \<Rightarrow> nat" where
  "matrix_cells groups = sum_list (map (\<lambda>g. length (mg_route_ids g) * length (mg_treatment_ids g)) groups)"

lemma matrix_cells_grouped:
  "matrix_cells groups = (\<Sum>p\<in>#grouped groups. length (snd (snd (fst p))))"
proof (induction groups)
  case (Cons g groups)
  have "(\<Sum>p\<in>#mset (group_routes g). length (snd (snd (fst p)))) = length (mg_route_ids g) * length (mg_treatment_ids g)"
    by (simp add: group_routes_def group_key_def o_def sum_list_triv mset_map [symmetric] sum_mset_sum_list del: mset_map)
  with Cons show ?case by (simp add: matrix_cells_def)
qed (simp add: matrix_cells_def)

lemma matrix_cells_executions:
  assumes "\<forall>b\<in>set bundles. rb_executions b = length (rb_treatment_ids b)"
  shows "matrix_cells (matrix_groups bundles) = sum_list (map rb_executions bundles)"
proof -
  have "matrix_cells (matrix_groups bundles) = sum_list (map (\<lambda>b. length (rb_treatment_ids b)) bundles)"
    unfolding matrix_cells_grouped using matrix_groups_ok [of bundles]
    by (simp add: o_def bundle_key_def flip: mset_map sum_mset_sum_list)
  also have "\<dots> = sum_list (map rb_executions bundles)"
    using assms by (intro arg_cong [where f = sum_list] map_cong) simp_all
  finally show ?thesis .
qed

section \<open>The chunks partition the resolved queue\<close>

lemma claim_chunk_Inr:
  "claim_chunk base_cells c claimed = Inr claimed' \<longleftrightarrow>
     length (chunk_rows c base_cells) = ck_executions c \<and> set (chunk_rows c base_cells) \<inter> set claimed = {}
     \<and> claimed' = claimed @ remdups (chunk_rows c base_cells)"
  by (auto simp: claim_chunk_def Let_def list_all_iff)

lemma claim_chunks_Inr:
  assumes "fold_result (claim_chunk base_cells) chunks claimed = Inr claimed'" and "distinct claimed"
  shows "distinct claimed'" "claimed' = claimed @ concat (map (\<lambda>c. remdups (chunk_rows c base_cells)) chunks)"
    "\<forall>c\<in>set chunks. length (chunk_rows c base_cells) = ck_executions c"
proof -
  have "distinct claimed' \<and> claimed' = claimed @ concat (map (\<lambda>c. remdups (chunk_rows c base_cells)) chunks)
      \<and> (\<forall>c\<in>set chunks. length (chunk_rows c base_cells) = ck_executions c)"
    using assms
  proof (induction chunks arbitrary: claimed)
    case (Cons c chunks)
    from Cons.prems(1) obtain mid where mid: "claim_chunk base_cells c claimed = Inr mid"
      "fold_result (claim_chunk base_cells) chunks mid = Inr claimed'" by (auto simp: results)
    then have "distinct mid" using Cons.prems(2) by (auto simp: claim_chunk_Inr)
    note IH = Cons.IH [OF mid(2) this]
    have c: "length (chunk_rows c base_cells) = ck_executions c" "mid = claimed @ remdups (chunk_rows c base_cells)"
      using mid(1) by (simp_all add: claim_chunk_Inr)
    show ?case
    proof (intro conjI)
      show "claimed' = claimed @ concat (map (\<lambda>c. remdups (chunk_rows c base_cells)) (c # chunks))"
        using IH unfolding c(2) by simp
      show "distinct claimed'" by (rule conjunct1 [OF IH])
      show "\<forall>c\<in>set (c # chunks). length (chunk_rows c base_cells) = ck_executions c" using IH c(1) by auto
    qed
  qed simp
  then show "distinct claimed'" "claimed' = claimed @ concat (map (\<lambda>c. remdups (chunk_rows c base_cells)) chunks)"
    "\<forall>c\<in>set chunks. length (chunk_rows c base_cells) = ck_executions c" by blast+
qed

definition owning_chunks :: "string list \<Rightarrow> chunk list \<Rightarrow> string \<Rightarrow> chunk list" where
  "owning_chunks base_cells chunks cell = filter (\<lambda>c. cell \<in> set (chunk_rows c base_cells)) chunks"

lemma count_list_remdups: "count_list (remdups xs) x = (if x \<in> set xs then 1 else 0)"
  by (induction xs) auto

lemma count_owners:
  "count_list (concat (map (\<lambda>c. remdups (chunk_rows c base_cells)) chunks)) cell = length (owning_chunks base_cells chunks cell)"
proof (induction chunks)
  case (Cons c chunks)
  have "count_list (remdups (chunk_rows c base_cells)) cell = (if cell \<in> set (chunk_rows c base_cells) then 1 else 0)"
    by (simp add: count_list_remdups)
  with Cons show ?case by (simp add: owning_chunks_def)
qed (simp add: owning_chunks_def)

lemma check_chunks_Inr:
  assumes "check_chunks base_cells expected chunks = Inr u"
  shows "sum_list (map ck_executions chunks) = expected" "distinct base_cells"
    "\<forall>cell\<in>set base_cells. length (owning_chunks base_cells chunks cell) = 1"
    "\<forall>c\<in>set chunks. length (chunk_rows c base_cells) = ck_executions c"
proof -
  from assms obtain claimed where fold: "fold_result (claim_chunk base_cells) chunks [] = Inr claimed"
    and sum: "sum_list (map ck_executions chunks) = expected" and len: "length claimed = length base_cells"
    by (auto simp: check_chunks_def results)
  note claim = claim_chunks_Inr [OF fold]
  have sub: "set claimed \<subseteq> set base_cells"
    using claim(2) by (auto simp: chunk_rows_def)
  have "card (set claimed) = length base_cells" using claim(1) len by (simp add: distinct_card)
  then have "length base_cells \<le> card (set base_cells)" using card_mono [OF _ sub] by simp
  then show dist: "distinct base_cells" using card_length [of base_cells] by (intro card_distinct) linarith
  have "set claimed = set base_cells"
    using sub \<open>card (set claimed) = length base_cells\<close> dist by (intro card_subset_eq) (simp_all add: distinct_card)
  then have "count_list claimed cell = 1" if "cell \<in> set base_cells" for cell
    using claim(1) that count_list_remdups [of claimed cell] by (simp add: distinct_remdups_id)
  then show "\<forall>cell\<in>set base_cells. length (owning_chunks base_cells chunks cell) = 1"
    using claim(2) count_owners [of base_cells chunks] by simp
  show "sum_list (map ck_executions chunks) = expected" by (fact sum)
  show "\<forall>c\<in>set chunks. length (chunk_rows c base_cells) = ck_executions c" using claim(3) by simp
qed

section \<open>What a compiled campaign covers\<close>

lemma library_bundles_Inr:
  "library_bundles axes item library = Inr bs \<Longrightarrow>
     int (sum_list (map rb_executions bs)) = ti_executions item
     \<and> (\<forall>b\<in>set bs. rb_executions b = length (rb_treatment_ids b))"
  by (auto simp: library_bundles_def Let_def o_def sum_list_triv split: if_splits)

lemma item_bundles_Inr:
  "item_bundles project item = Inr bs \<Longrightarrow>
     int (sum_list (map rb_executions bs)) = ti_executions item
     \<and> (\<forall>b\<in>set bs. rb_executions b = length (rb_treatment_ids b))"
  by (auto simp only: item_bundles_def Let_def results split: if_splits dest: library_bundles_Inr)

lemma route_bundles_Inr:
  assumes "route_bundles project blocks = Inr bundles"
  shows "int (sum_list (map rb_executions bundles)) = sum_list (map ti_executions (concat blocks))"
    "\<forall>b\<in>set bundles. rb_executions b = length (rb_treatment_ids b)"
proof -
  let ?items = "sort_key (\<lambda>item. (ti_rank item, ti_source_id item)) (concat blocks)"
  from assms obtain bss where bss: "map_result (item_bundles project) ?items = Inr bss" and b: "bundles = concat bss"
    by (auto simp: route_bundles_def results)
  have "int (sum_list (map rb_executions (concat bss))) = sum_list (map ti_executions items)
      \<and> (\<forall>b\<in>set (concat bss). rb_executions b = length (rb_treatment_ids b))"
    if "map_result (item_bundles project) items = Inr bss" for items bss
    using that
  proof (induction items arbitrary: bss)
    case (Cons item items)
    then obtain bs rest where bs: "item_bundles project item = Inr bs" "map_result (item_bundles project) items = Inr rest"
      "bss = bs # rest" by (auto simp: results)
    from item_bundles_Inr [OF bs(1)] Cons.IH [OF bs(2)] show ?case by (auto simp: bs(3))
  qed simp
  from this [OF bss] have all: "int (sum_list (map rb_executions bundles)) = sum_list (map ti_executions ?items)"
    "\<forall>b\<in>set bundles. rb_executions b = length (rb_treatment_ids b)" by (simp_all add: b)
  have "mset (map ti_executions ?items) = mset (map ti_executions (concat blocks))" by simp
  then have "sum_list (map ti_executions ?items) = sum_list (map ti_executions (concat blocks))"
    by (metis sum_mset_sum_list)
  with all(1) show "int (sum_list (map rb_executions bundles)) = sum_list (map ti_executions (concat blocks))" by simp
  show "\<forall>b\<in>set bundles. rb_executions b = length (rb_treatment_ids b)" by (fact all(2))
qed

lemma pack_loop_concat:
  "pack_loop t m bundles chunks current spent = Inr out \<Longrightarrow> concat out = concat chunks @ current @ bundles"
  by (induction bundles arbitrary: chunks current spent) (auto simp: Let_def split: if_splits)

lemma concat_chunks:
  fixes f :: "route_bundle list \<Rightarrow> 'a list" and g :: "chunk \<Rightarrow> 'a list"
  assumes "\<And>k bundles. g (make_chunk py_sum cid u (k, bundles)) = f bundles"
  shows "map g (map (make_chunk py_sum cid u) (enumerate k packed)) = map f packed"
  by (induction packed arbitrary: k) (simp_all add: assms)

lemma sum_concat: "sum_list (map f (concat xss)) = sum_list (map (\<lambda>xs. sum_list (map f xs)) xss)"
  for f :: "'a \<Rightarrow> nat"
  by (induction xss) simp_all

lemma compile_auto_batches_Inr:
  assumes "compile_auto_batches py_sum project resolve cid tm mm u blocks expected = Inr chunks"
  shows "\<exists>bundles base_cells. route_bundles project blocks = Inr bundles \<and> resolve chunks = Inr base_cells
    \<and> concat (map ck_route_ids chunks) = map rb_route_id bundles
    \<and> sum_list (map ck_executions chunks) = expected
    \<and> int expected = sum_list (map ti_executions (concat blocks))
    \<and> distinct base_cells \<and> (\<forall>cell\<in>set base_cells. length (owning_chunks base_cells chunks cell) = 1)
    \<and> (\<forall>c\<in>set chunks. matrix_cells (ck_groups c) = ck_executions c
         \<and> length (chunk_rows c base_cells) = ck_executions c)"
proof -
  from assms obtain bundles packed base_cells u' where b: "route_bundles project blocks = Inr bundles"
    and p: "pack_route_bundles bundles (f64 (of_int tm / 60)) (f64 (of_int mm / 60)) = Inr packed"
    and chunks: "chunks = map (make_chunk py_sum cid u) (enumerate 1 packed)"
    and r: "resolve chunks = Inr base_cells" and check: "check_chunks base_cells expected chunks = Inr u'"
    by (auto simp: compile_auto_batches_def Let_def results split: if_splits)
  note rb = route_bundles_Inr [OF b] and ck = check_chunks_Inr [OF check]
  have packed: "concat packed = bundles"
    using pack_loop_concat p by (fastforce simp: pack_route_bundles_def)
  have routes: "map ck_route_ids chunks = map (map rb_route_id) packed"
    unfolding chunks by (rule concat_chunks) (simp add: make_chunk_def Let_def)
  have "map (\<lambda>c. [ck_executions c]) chunks = map (\<lambda>bs. [sum_list (map rb_executions bs)]) packed"
    unfolding chunks by (rule concat_chunks) (simp add: make_chunk_def Let_def)
  then have "concat (map (\<lambda>c. [ck_executions c]) chunks) = concat (map (\<lambda>bs. [sum_list (map rb_executions bs)]) packed)"
    by simp
  then have "map ck_executions chunks = map (\<lambda>bs. sum_list (map rb_executions bs)) packed"
    by (simp add: concat_map_singleton)
  then have sum: "sum_list (map ck_executions chunks) = sum_list (map rb_executions bundles)"
    using sum_concat [of rb_executions packed] by (simp add: packed)
  have "matrix_cells (ck_groups c) = ck_executions c" if "c \<in> set chunks" for c
  proof -
    from that obtain k bs where c: "c = make_chunk py_sum cid u (k, bs)" "bs \<in> set packed"
      by (auto simp: chunks in_set_enumerate_eq)
    then have "\<forall>b\<in>set bs. rb_executions b = length (rb_treatment_ids b)" using rb(2) packed by auto
    from matrix_cells_executions [OF this] show ?thesis by (simp add: c(1) make_chunk_def Let_def)
  qed
  then show ?thesis
    using b r routes ck sum rb(1) packed by (auto simp: map_concat)
qed

section \<open>A small campaign\<close>

definition demo_axes :: width_axes where
  "demo_axes = \<lparr>wx_routes = [''linux-arm'', ''linux-x86''], wx_treatments = [''O0'', ''O2''],
     wx_libraries = [\<lparr>wl_id = ''zlib'', wl_version = ''1.3'', wl_recipe_id = ''zlib@1.3'',
       wl_applicable_routes = [''linux-x86'', ''linux-arm'']\<rparr>]\<rparr>"

definition demo_item :: time_item where
  "demo_item = \<lparr>ti_rank = 1, ti_source_id = ''zlib'', ti_label = ''zlib'', ti_version = ''1.3'',
     ti_batch_authority = ''width.toml'', ti_executions = 4, ti_estimated_hours = 2\<rparr>"

definition demo_cells :: "string list" where
  "demo_cells = [''d-chunk-001-width-01:a'', ''d-chunk-001-width-01:b'', ''d-chunk-002-width-01:a'', ''d-chunk-002-width-01:b'']"

definition demo_bundle :: "string \<Rightarrow> route_bundle" where
  "demo_bundle route = \<lparr>rb_rank = 1, rb_source_id = ''zlib'', rb_label = ''zlib'', rb_version = ''1.3'',
     rb_recipe_id = ''zlib@1.3'', rb_batch_authority = ''width.toml'', rb_route_id = route,
     rb_treatment_ids = [''O0'', ''O2''], rb_executions = 2, rb_estimated_hours = 1\<rparr>"

lemma demo_bundles:
  "route_bundles (\<lambda>a. Inr demo_axes) [[demo_item]] = Inr [demo_bundle ''linux-arm'', demo_bundle ''linux-x86'']"
  by code_simp

lemma demo_hours: "fsub 1 EPS_12 \<le> 1" "1 \<le> fadd (f64 (of_int 85 / 60)) EPS_12" "fadd 0 1 = 1" "f64 (of_int 60 / 60) = 1"
proof -
  have one: "f64 1 = 1" using f64_of_int [of 1] by simp
  have eps: "0 \<le> EPS_12" "EPS_12 \<le> 1"
    using f64_nonneg [of "1 / 10 ^ 12"] f64_mono [of "1 / 10 ^ 12" 1] one by (simp_all add: EPS_12_def)
  have "1 \<le> f64 (of_int 85 / 60)" using f64_mono [of 1 "of_int 85 / 60"] one by simp
  then show "1 \<le> fadd (f64 (of_int 85 / 60)) EPS_12"
    using f64_mono [of 1 "f64 (of_int 85 / 60) + EPS_12"] one eps by (simp add: fadd_def)
  show "fsub 1 EPS_12 \<le> 1" using f64_mono [of "1 - EPS_12" 1] one eps by (simp add: fsub_def)
  show "fadd 0 1 = 1" "f64 (of_int 60 / 60) = 1" using one by (simp_all add: fadd_def)
qed

lemma demo_packed:
  "pack_route_bundles [demo_bundle ''linux-arm'', demo_bundle ''linux-x86''] (f64 (of_int 60 / 60)) (f64 (of_int 85 / 60))
     = Inr [[demo_bundle ''linux-arm''], [demo_bundle ''linux-x86'']]"
  using demo_hours(1-3) unfolding demo_hours(4) by (simp add: pack_route_bundles_def demo_bundle_def Let_def)

definition demo_chunks :: "chunk list" where
  "demo_chunks = map (make_chunk (\<lambda>hours. 0) ''d'' 0) (enumerate 1 [[demo_bundle ''linux-arm''], [demo_bundle ''linux-x86'']])"

lemma demo_checked: "check_chunks demo_cells 4 demo_chunks = Inr ()"
  by code_simp

lemma demo_compiled:
  "compile_auto_batches (\<lambda>hours. 0) (\<lambda>a. Inr demo_axes) (\<lambda>cs. Inr demo_cells) ''d'' 60 85 0 [[demo_item]] 4 = Inr demo_chunks"
  using demo_packed demo_checked unfolding compile_auto_batches_def demo_bundles demo_chunks_def by simp

end
