(* ===== verification/Fid_Matching.thy ===== *)
theory Fid_Matching
  imports Floats
begin

unbundle bit_operations_syntax

text \<open>
  src/fidb_poc/fid_matching.py: the portable scoring decision of Ghidra's FID seeker, its
  comparison with the native oracle and the classification of its matches.  A function or
  candidate is a record of the fields the code reads, after the \<open>str\<close> and \<open>int\<close> it applies to
  them, so a missing field is excluded by the type; scores are binary32 values (Floats).  The WGPU
  scorer and the clock are not modelled.
\<close>

section \<open>Queries and candidates\<close>

record fid_candidate =
  fc_id :: string
  fc_owner :: string
  fc_name :: string
  fc_full_hash :: string
  fc_specific_hash :: string
  fc_specific_additional :: int
  fc_code_unit_size :: int
  fc_child_code_units :: int
  fc_parent_code_units :: int
  fc_auto_pass :: bool
  fc_auto_fail :: bool
  fc_force_specific :: bool
  fc_force_relation :: bool

record fid_match =
  fm_id :: string
  fm_owner :: string
  fm_name :: string
  fm_score :: rat

record fid_function =
  ff_address :: string
  ff_full_hash :: string
  ff_specific_hash :: string
  ff_candidates :: "fid_candidate list"
  ff_native :: "fid_match list"
  ff_name :: string
  ff_truth_owner :: "string option"
  ff_truth_basis :: string
  ff_truth_candidates :: "string list"
  ff_specific_additional :: int
  ff_code_unit_size :: int

text \<open>What the scoring uses of the reviewed authority.\<close>

record fid_authority =
  fa_threshold :: rat
  fa_weight :: rat
  fa_medium_limit :: int
  fa_max_ulps :: int
  fa_max_mismatch_rows :: nat

fun validate_functions :: "string list \<Rightarrow> fid_function list \<Rightarrow> unit result" where
  "validate_functions seen [] = Inr ()"
| "validate_functions seen (f # fs) =
     and_then (require (ff_address f \<notin> set seen)
       (ValueError ''portable FID function identity is duplicated or invalid'')) (\<lambda>_.
     and_then (require (distinct (map fc_id (ff_candidates f)))
       (ValueError ''portable FID candidate identity is duplicated'')) (\<lambda>_.
     validate_functions (ff_address f # seen) fs))"

definition validate_input :: "fid_function list \<Rightarrow> unit result" where
  "validate_input functions = validate_functions [] functions"

section \<open>Scoring\<close>

definition AUTO_PASS :: int where "AUTO_PASS = 1"
definition AUTO_FAIL :: int where "AUTO_FAIL = 2"
definition FORCE_SPECIFIC :: int where "FORCE_SPECIFIC = 4"
definition FORCE_RELATION :: int where "FORCE_RELATION = 8"

definition candidate_flags :: "fid_candidate \<Rightarrow> int" where
  "candidate_flags c =
     ((if fc_auto_pass c then AUTO_PASS else 0) OR (if fc_auto_fail c then AUTO_FAIL else 0)
      OR (if fc_force_specific c then FORCE_SPECIFIC else 0) OR (if fc_force_relation c then FORCE_RELATION else 0))"

record score_row =
  sr_function_units :: int
  sr_specific_units :: int
  sr_child_units :: int
  sr_parent_units :: int
  sr_flags :: int

definition score_inputs :: "fid_authority \<Rightarrow> fid_function \<Rightarrow> fid_candidate \<Rightarrow> score_row result" where
  "score_inputs a f c =
     (if fc_full_hash c \<noteq> ff_full_hash f
      then Inl (ValueError ''portable FID candidate does not share the query full hash'')
      else let flags = candidate_flags c;
               units = (if flags AND AUTO_PASS \<noteq> 0 then max (fc_code_unit_size c) (fa_medium_limit a)
                        else fc_code_unit_size c)
           in Inr \<lparr>sr_function_units = units,
                sr_specific_units =
                  (if fc_specific_hash c = ff_specific_hash f then fc_specific_additional c else 0),
                sr_child_units = fc_child_code_units c, sr_parent_units = fc_parent_code_units c,
                sr_flags = flags\<rparr>)"

text \<open>\<open>_f32\<close>: to binary64 by \<open>float\<close>, then to binary32.\<close>

definition to_f32 :: "rat \<Rightarrow> rat" where
  "to_f32 x = f32 (f64 x)"

definition score_of_row :: "fid_authority \<Rightarrow> score_row \<Rightarrow> rat" where
  "score_of_row a r =
     (let primary = to_f32 (of_int (sr_function_units r));
          primary = to_f32 (primary + f64 (fa_weight a * f64 (of_int (sr_specific_units r))))
      in to_f32 (to_f32 (primary + to_f32 (of_int (sr_child_units r))) + to_f32 (of_int (sr_parent_units r))))"

definition score_cpu_row :: "fid_authority \<Rightarrow> score_row \<Rightarrow> rat option" where
  "score_cpu_row a r =
     (if sr_flags r AND AUTO_FAIL \<noteq> 0 then None
      else if sr_flags r AND FORCE_SPECIFIC \<noteq> 0 \<and> sr_specific_units r = 0 then None
      else if sr_flags r AND FORCE_RELATION \<noteq> 0 \<and> sr_child_units r = 0 then None
      else if score_of_row a r < to_f32 (fa_threshold a) then None
      else Some (score_of_row a r))"

definition score_rows_cpu :: "fid_authority \<Rightarrow> score_row list \<Rightarrow> rat option list" where
  "score_rows_cpu a rows = map (score_cpu_row a) rows"

section \<open>Winners\<close>

record fid_decision =
  fd_address :: string
  fd_full_hash :: string
  fd_specific_hash :: string
  fd_matches :: "fid_match list"

definition winners :: "(fid_candidate \<times> rat option) list \<Rightarrow> fid_match list" where
  "winners pairs =
     (let accepted = map (\<lambda>(c, s). (c, the s)) (filter (\<lambda>(c, s). s \<noteq> None) pairs)
      in if accepted = [] then []
         else let maximum = Max (set (map snd accepted))
         in map (\<lambda>(c, s). \<lparr>fm_id = fc_id c, fm_owner = fc_owner c, fm_name = fc_name c, fm_score = s\<rparr>)
              (filter (\<lambda>(c, s). s = maximum) accepted))"

fun cull_loop ::
  "fid_function list \<Rightarrow> rat option list \<Rightarrow> nat \<Rightarrow> fid_decision list \<times> nat" where
  "cull_loop [] scores cursor = ([], cursor)"
| "cull_loop (f # fs) scores cursor =
     (let n = length (ff_candidates f);
          pairs = zip (ff_candidates f) (take n (drop cursor scores));
          (decisions, end) = cull_loop fs scores (cursor + n)
      in (\<lparr>fd_address = ff_address f, fd_full_hash = ff_full_hash f, fd_specific_hash = ff_specific_hash f,
           fd_matches = winners pairs\<rparr> # decisions, end))"

definition cull :: "fid_function list \<Rightarrow> rat option list \<Rightarrow> fid_decision list result" where
  "cull functions scores =
     (let (decisions, cursor) = cull_loop functions scores 0
      in if cursor \<noteq> length scores then Inl (ValueError ''portable FID score vector does not reconcile'')
         else Inr decisions)"

record fid_report =
  fr_functions :: "fid_decision list"
  fr_candidate_count :: nat
  fr_matched_functions :: nat

definition match_cpu :: "fid_authority \<Rightarrow> fid_function list \<Rightarrow> fid_report result" where
  "match_cpu a functions =
     and_then (validate_input functions) (\<lambda>_.
     and_then (map_result (\<lambda>(f, c). score_inputs a f c) [(f, c). f \<leftarrow> functions, c \<leftarrow> ff_candidates f]) (\<lambda>rows.
     and_then (cull functions (score_rows_cpu a rows)) (\<lambda>decisions.
     Inr \<lparr>fr_functions = decisions, fr_candidate_count = length rows,
       fr_matched_functions = length (filter (\<lambda>d. fd_matches d \<noteq> []) decisions)\<rparr>)))"

section \<open>Comparison with the oracle\<close>

text \<open>The bit pattern of a binary32 that is zero or a positive normal number.\<close>

definition f32_bits :: "rat \<Rightarrow> int" where
  "f32_bits x = (if x = 0 then 0 else (ilog x + 126) * 2 ^ 23 + \<lfloor>x / pow2 (ilog x - 23)\<rfloor>)"

definition f32_ulps :: "rat \<Rightarrow> rat \<Rightarrow> int result" where
  "f32_ulps left right =
     (if left < 0 \<or> right < 0 then Inl (ValueError ''FID scores cannot be negative'')
      else Inr \<bar>f32_bits (to_f32 left) - f32_bits (to_f32 right)\<bar>)"

record score_difference =
  sd_id :: string
  sd_native :: rat
  sd_portable :: rat
  sd_delta :: rat
  sd_ulps :: int

record mismatch =
  mm_address :: string
  mm_missing :: "string list"
  mm_unexpected :: "string list"
  mm_differences :: "score_difference list"

record comparison =
  cm_state :: string
  cm_functions :: nat
  cm_scores_compared :: nat
  cm_decision_mismatches :: nat
  cm_maximum_delta :: rat
  cm_maximum_ulps :: int
  cm_mismatches :: "mismatch list"
  cm_truncated :: nat

text \<open>A dict comprehension: a later key replaces an earlier one.\<close>

definition scores_of :: "fid_match list \<Rightarrow> (string \<times> rat) list" where
  "scores_of ms = rev (map (\<lambda>m. (fm_id m, fm_score m)) ms)"

definition keys_of :: "(string \<times> 'v) list \<Rightarrow> string list" where
  "keys_of d = sort (remdups (map fst d))"

definition compare_score :: "rat \<Rightarrow> rat \<Rightarrow> string \<Rightarrow> score_difference result" where
  "compare_score expected actual i =
     and_then (f32_ulps expected actual) (\<lambda>ulps.
     Inr \<lparr>sd_id = i, sd_native = expected, sd_portable = actual, sd_delta = f64 \<bar>expected - actual\<bar>, sd_ulps = ulps\<rparr>)"

text \<open>All compared scores of one address, and its mismatch.\<close>

definition compare_address ::
  "fid_authority \<Rightarrow> (string \<times> (string \<times> rat) list) list \<Rightarrow> (string \<times> (string \<times> rat) list) list \<Rightarrow> string
    \<Rightarrow> (score_difference list \<times> mismatch option) result" where
  "compare_address a native observed address =
     (let expected = (case map_of native address of None \<Rightarrow> [] | Some d \<Rightarrow> d);
          actual = (case map_of observed address of None \<Rightarrow> [] | Some d \<Rightarrow> d);
          missing = filter (\<lambda>i. i \<notin> set (map fst actual)) (keys_of expected);
          unexpected = filter (\<lambda>i. i \<notin> set (map fst expected)) (keys_of actual);
          both = filter (\<lambda>i. i \<in> set (map fst actual)) (keys_of expected)
      in and_then (map_result (\<lambda>i. compare_score (the (map_of expected i)) (the (map_of actual i)) i) both) (\<lambda>compared.
         let differences = filter (\<lambda>d. sd_ulps d > fa_max_ulps a) compared
         in Inr (compared,
              if missing \<noteq> [] \<or> unexpected \<noteq> [] \<or> differences \<noteq> []
              then Some \<lparr>mm_address = address, mm_missing = missing, mm_unexpected = unexpected,
                mm_differences = differences\<rparr>
              else None)))"

definition compare_with_oracle ::
  "fid_authority \<Rightarrow> fid_function list \<Rightarrow> fid_decision list \<Rightarrow> comparison result" where
  "compare_with_oracle a functions portable =
     and_then (validate_input functions) (\<lambda>_.
     let native = rev (map (\<lambda>f. (ff_address f, scores_of (ff_native f))) functions);
         observed = rev (map (\<lambda>d. (fd_address d, scores_of (fd_matches d))) portable)
     in and_then (map_result (compare_address a native observed) (keys_of (native @ observed))) (\<lambda>results.
        let compared = concat (map fst results);
            mismatches = [m. (_, Some m) \<leftarrow> results]
        in Inr \<lparr>cm_state = (if length mismatches = 0 then ''equivalent'' else ''mismatch''),
             cm_functions = length (keys_of native), cm_scores_compared = length compared,
             cm_decision_mismatches = length mismatches,
             cm_maximum_delta = Max (insert 0 (set (map sd_delta compared))),
             cm_maximum_ulps = Max (insert 0 (set (map sd_ulps compared))),
             cm_mismatches = take (fa_max_mismatch_rows a) mismatches,
             cm_truncated = length mismatches - fa_max_mismatch_rows a\<rparr>))"

section \<open>Qualification of both backends\<close>

text \<open>The WGPU scorer is an argument; its rows for an empty batch are empty.\<close>

definition match_gpu ::
  "(score_row list \<Rightarrow> rat option list result) \<Rightarrow> int \<Rightarrow> fid_authority \<Rightarrow> fid_function list \<Rightarrow> fid_report result" where
  "match_gpu gpu workgroup_size a functions =
     and_then (validate_input functions) (\<lambda>_.
     and_then (require (1 \<le> workgroup_size \<and> workgroup_size \<le> 1024)
       (ValueError ''portable FID WGPU workgroup size is invalid'')) (\<lambda>_.
     and_then (map_result (\<lambda>(f, c). score_inputs a f c) [(f, c). f \<leftarrow> functions, c \<leftarrow> ff_candidates f]) (\<lambda>rows.
     and_then (if rows = [] then Inr [] else gpu rows) (\<lambda>scores.
     and_then (cull functions scores) (\<lambda>decisions.
     Inr \<lparr>fr_functions = decisions, fr_candidate_count = length rows,
       fr_matched_functions = length (filter (\<lambda>d. fd_matches d \<noteq> []) decisions)\<rparr>)))))"

record qualification =
  qr_state :: string
  qr_executions :: "fid_report list"
  qr_comparisons :: "comparison list"

definition qualification_report ::
  "(score_row list \<Rightarrow> rat option list result) \<Rightarrow> bool \<Rightarrow> fid_authority \<Rightarrow> fid_function list \<Rightarrow> qualification result" where
  "qualification_report gpu include_gpu a functions =
     and_then (match_cpu a functions) (\<lambda>cpu.
     and_then (compare_with_oracle a functions (fr_functions cpu)) (\<lambda>cpu_comparison.
     and_then (if include_gpu
         then and_then (match_gpu gpu 256 a functions) (\<lambda>report.
              and_then (compare_with_oracle a functions (fr_functions report)) (\<lambda>comparison.
              Inr ([cpu, report], [cpu_comparison, comparison])))
         else Inr ([cpu], [cpu_comparison])) (\<lambda>(executions, comparisons).
     Inr \<lparr>qr_state =
          (if length comparisons = 2 \<and> list_all (\<lambda>c. cm_state c = ''equivalent'') comparisons
           then ''qualified'' else ''incomplete-or-mismatch''),
        qr_executions = executions, qr_comparisons = comparisons\<rparr>)))"

section \<open>Classification against frozen truth\<close>

record observation =
  ob_address :: string
  ob_function_name :: string
  ob_hash_type :: string
  ob_value :: string
  ob_outcome :: string
  ob_truth_owner :: string
  ob_candidate_owner :: string
  ob_truth_basis :: string
  ob_accepted_owner_count :: nat
  ob_category :: string

text \<open>The running totals; the two count dictionaries are kept as the lists of what is counted.\<close>

record tally =
  tl_tp :: int
  tl_fp :: int
  tl_tn :: int
  tl_fn :: int
  tl_labelled :: nat
  tl_unlabelled :: nat
  tl_ambiguous :: nat
  tl_bases :: "string list"
  tl_categories :: "string list"
  tl_observations :: "observation list"

definition empty_tally :: tally where
  "empty_tally = \<lparr>tl_tp = 0, tl_fp = 0, tl_tn = 0, tl_fn = 0, tl_labelled = 0, tl_unlabelled = 0, tl_ambiguous = 0,
     tl_bases = [], tl_categories = [], tl_observations = []\<rparr>"

definition int_text :: "int \<Rightarrow> string" where
  "int_text n = (if n < 0 then ''-'' @ decimal (nat (- n)) else decimal (nat n))"

definition hash_values :: "fid_function \<Rightarrow> (string \<times> string) list" where
  "hash_values f =
     [(''full'', ff_full_hash f), (''specific'', ff_specific_hash f),
      (''complete'', ff_full_hash f @ '':'' @ ff_specific_hash f @ '':'' @ int_text (ff_specific_additional f)
         @ '':'' @ int_text (ff_code_unit_size f))]"

definition outcome_category :: "fid_function \<Rightarrow> nat \<Rightarrow> string \<times> fid_match option \<Rightarrow> string" where
  "outcome_category f accepted = (\<lambda>(outcome, m).
     if outcome = ''tp'' then ''correct-attribution''
     else if outcome = ''fn'' then ''miss''
     else if (case m of None \<Rightarrow> False | Some m' \<Rightarrow> fm_name m' = ff_name f) then ''shared-code-evidence''
     else if accepted > 1 then ''ambiguous-attribution''
     else ''incorrect-confident-attribution'')"

definition owner_outcomes :: "string \<Rightarrow> fid_match list \<Rightarrow> (string \<times> string \<times> fid_match option) list" where
  "owner_outcomes truth matches =
     (let accepted = remdups (map fm_owner matches)
      in (truth, if truth \<in> set accepted then ''tp'' else ''fn'', None)
         # map (\<lambda>owner. (owner, ''fp'', find (\<lambda>m. fm_owner m = owner) matches))
             (sort (filter (\<lambda>owner. owner \<noteq> truth) accepted)))"

definition classify_labelled :: "nat \<Rightarrow> fid_function \<Rightarrow> string \<Rightarrow> fid_match list \<Rightarrow> tally \<Rightarrow> tally" where
  "classify_labelled owners f truth matches t =
     (let accepted = remdups (map fm_owner matches);
          recovered = (truth \<in> set accepted);
          incorrect = filter (\<lambda>owner. owner \<noteq> truth) accepted;
          outcomes = owner_outcomes truth matches
      in t\<lparr>tl_tp := tl_tp t + (if recovered then 1 else 0), tl_fn := tl_fn t + (if recovered then 0 else 1),
           tl_fp := tl_fp t + int (length incorrect),
           tl_tn := tl_tn t + (int owners - 1 - int (length incorrect)),
           tl_labelled := tl_labelled t + 1, tl_bases := tl_bases t @ [ff_truth_basis f],
           tl_categories := tl_categories t @ map (\<lambda>(_, o'). outcome_category f (length accepted) o') outcomes,
           tl_observations := tl_observations t @
             [\<lparr>ob_address = ff_address f, ob_function_name = ff_name f, ob_hash_type = kind, ob_value = v,
                ob_outcome = fst o', ob_truth_owner = truth, ob_candidate_owner = owner,
                ob_truth_basis = ff_truth_basis f, ob_accepted_owner_count = length accepted,
                ob_category = outcome_category f (length accepted) o'\<rparr>.
              (owner, o') \<leftarrow> outcomes, (kind, v) \<leftarrow> hash_values f]\<rparr>)"

definition decision_matches :: "fid_decision list option \<Rightarrow> fid_function \<Rightarrow> fid_match list result" where
  "decision_matches portable f =
     (case portable of
        None \<Rightarrow> Inr (ff_native f)
      | Some decisions \<Rightarrow>
          (case find (\<lambda>d. fd_address d = ff_address f) decisions of
             None \<Rightarrow> Inl (ValueError ''portable FID classification decision is missing'')
           | Some d \<Rightarrow> Inr (fd_matches d)))"

definition classify_function ::
  "string list \<Rightarrow> fid_decision list option \<Rightarrow> fid_function \<Rightarrow> tally \<Rightarrow> tally result" where
  "classify_function universe portable f t =
     (case ff_truth_owner f of
        Some truth \<Rightarrow>
          if truth = [] \<or> truth \<notin> set universe
          then Inr (t\<lparr>tl_unlabelled := tl_unlabelled t + 1,
                 tl_ambiguous := tl_ambiguous t + (if length (ff_truth_candidates f) > 1 then 1 else 0)\<rparr>)
          else and_then (decision_matches portable f) (\<lambda>matches.
               Inr (classify_labelled (length universe) f truth matches t))
      | None \<Rightarrow> Inr (t\<lparr>tl_unlabelled := tl_unlabelled t + 1,
                 tl_ambiguous := tl_ambiguous t + (if length (ff_truth_candidates f) > 1 then 1 else 0)\<rparr>))"

record classification =
  cl_owners :: "string list"
  cl_tally :: tally
  cl_basis_counts :: "(string \<times> nat) list"
  cl_category_counts :: "(string \<times> nat) list"
  cl_precision :: "rat option"
  cl_recall :: "rat option"
  cl_false_positive_rate :: "rat option"
  cl_specificity :: "rat option"

definition rate :: "int \<Rightarrow> int \<Rightarrow> rat option" where
  "rate numerator denominator =
     (if denominator = 0 then None else Some (f64 (of_int numerator / of_int denominator)))"

definition counts :: "string list \<Rightarrow> (string \<times> nat) list" where
  "counts xs = map (\<lambda>x. (x, count_list xs x)) (sort (remdups xs))"

definition classify_matches ::
  "fid_function list \<Rightarrow> string list \<Rightarrow> fid_decision list option \<Rightarrow> classification result" where
  "classify_matches functions owners portable =
     and_then (validate_input functions) (\<lambda>_.
     and_then (require (case portable of None \<Rightarrow> True | Some ds \<Rightarrow> distinct (map fd_address ds))
       (ValueError ''portable FID classification addresses are duplicated'')) (\<lambda>_.
     let universe = sort (remdups owners)
     in if length universe < 2 then Inl (ValueError ''portable FID classification requires multiple owners'')
        else and_then (fold_result (classify_function universe portable) functions empty_tally) (\<lambda>t.
          Inr \<lparr>cl_owners = universe, cl_tally = t, cl_basis_counts = counts (tl_bases t),
            cl_category_counts = counts (tl_categories t),
            cl_precision = rate (tl_tp t) (tl_tp t + tl_fp t), cl_recall = rate (tl_tp t) (tl_tp t + tl_fn t),
            cl_false_positive_rate = rate (tl_fp t) (tl_fp t + tl_tn t),
            cl_specificity = rate (tl_tn t) (tl_tn t + tl_fp t)\<rparr>)))"

section \<open>Accepted input\<close>

definition well_formed :: "fid_function list \<Rightarrow> bool" where
  "well_formed fs \<longleftrightarrow> distinct (map ff_address fs) \<and> (\<forall>f\<in>set fs. distinct (map fc_id (ff_candidates f)))"

lemma validate_functions_Inr:
  "validate_functions seen fs = Inr u \<longleftrightarrow> well_formed fs \<and> set seen \<inter> ff_address ` set fs = {}"
  by (induction fs arbitrary: seen) (auto simp: well_formed_def results)

lemma validate_input_Inr [results]: "validate_input fs = Inr u \<longleftrightarrow> well_formed fs"
  by (simp add: validate_input_def validate_functions_Inr)

section \<open>The score of a candidate\<close>

text \<open>The score row of a candidate that shares the full hash.\<close>

definition row_of :: "fid_authority \<Rightarrow> fid_function \<Rightarrow> fid_candidate \<Rightarrow> score_row" where
  "row_of a f c =
     \<lparr>sr_function_units = (if fc_auto_pass c then max (fc_code_unit_size c) (fa_medium_limit a) else fc_code_unit_size c),
      sr_specific_units = (if fc_specific_hash c = ff_specific_hash f then fc_specific_additional c else 0),
      sr_child_units = fc_child_code_units c, sr_parent_units = fc_parent_code_units c, sr_flags = candidate_flags c\<rparr>"

lemma candidate_flags_bits:
  "(candidate_flags c AND AUTO_PASS \<noteq> 0) = fc_auto_pass c" "(candidate_flags c AND AUTO_FAIL \<noteq> 0) = fc_auto_fail c"
  "(candidate_flags c AND FORCE_SPECIFIC \<noteq> 0) = fc_force_specific c"
  "(candidate_flags c AND FORCE_RELATION \<noteq> 0) = fc_force_relation c"
  by (simp_all add: candidate_flags_def AUTO_PASS_def AUTO_FAIL_def FORCE_SPECIFIC_def FORCE_RELATION_def)

lemma score_inputs_eq:
  "fc_full_hash c = ff_full_hash f \<Longrightarrow> score_inputs a f c = Inr (row_of a f c)"
  by (simp add: score_inputs_def Let_def row_of_def candidate_flags_bits)

definition score :: "fid_authority \<Rightarrow> fid_function \<Rightarrow> fid_candidate \<Rightarrow> rat option" where
  "score a f c = score_cpu_row a (row_of a f c)"

lemma score_eq:
  "score a f c =
     (if fc_auto_fail c \<or> fc_force_specific c \<and> sr_specific_units (row_of a f c) = 0
         \<or> fc_force_relation c \<and> fc_child_code_units c = 0 \<or> score_of_row a (row_of a f c) < to_f32 (fa_threshold a)
      then None else Some (score_of_row a (row_of a f c)))"
  by (simp add: score_def score_cpu_row_def row_of_def candidate_flags_bits)

lemma to_f32_mono: "0 \<le> x \<Longrightarrow> x \<le> y \<Longrightarrow> to_f32 x \<le> to_f32 y"
  by (simp add: to_f32_def f32_mono f64_mono f64_nonneg)

lemma to_f32_nonneg: "0 \<le> x \<Longrightarrow> 0 \<le> to_f32 x"
  by (simp add: to_f32_def f32_nonneg f64_nonneg)

lemma to_f32_of_int: "\<bar>n\<bar> < 2 ^ 24 \<Longrightarrow> to_f32 (of_int n) = of_int n"
  using f64_of_int [of n] f32_of_int [of n] by (simp add: to_f32_def)

text \<open>More of any kind of evidence never lowers the score.\<close>

definition evidence_le :: "score_row \<Rightarrow> score_row \<Rightarrow> bool" where
  "evidence_le r r' \<longleftrightarrow>
     0 \<le> sr_function_units r \<and> sr_function_units r \<le> sr_function_units r'
     \<and> 0 \<le> sr_specific_units r \<and> sr_specific_units r \<le> sr_specific_units r'
     \<and> 0 \<le> sr_child_units r \<and> sr_child_units r \<le> sr_child_units r'
     \<and> 0 \<le> sr_parent_units r \<and> sr_parent_units r \<le> sr_parent_units r' \<and> sr_flags r = sr_flags r'"

lemma score_of_row_mono:
  assumes "evidence_le r r'" and "0 \<le> fa_weight a"
  shows "score_of_row a r \<le> score_of_row a r'"
proof -
  have int: "to_f32 (of_int m) \<le> to_f32 (of_int n)" "f64 (of_int m) \<le> f64 (of_int n)" if "0 \<le> m" "m \<le> n" for m n :: int
    using that by (simp_all add: to_f32_mono f64_mono)
  have nonneg: "0 \<le> to_f32 (of_int n)" "0 \<le> f64 (of_int n)" if "0 \<le> n" for n :: int
    using that by (simp_all add: to_f32_nonneg f64_nonneg)
  note le = assms(1) [unfolded evidence_le_def]
  have specific: "f64 (fa_weight a * f64 (of_int (sr_specific_units r))) \<le> f64 (fa_weight a * f64 (of_int (sr_specific_units r')))"
    and specific0: "0 \<le> f64 (fa_weight a * f64 (of_int (sr_specific_units r)))"
    using le assms(2) by (auto intro!: f64_mono f64_nonneg mult_left_mono int mult_nonneg_nonneg nonneg)
  show ?thesis
    unfolding score_of_row_def Let_def
    by (intro to_f32_mono add_mono int specific to_f32_nonneg add_nonneg_nonneg nonneg specific0) (use le in auto)
qed

lemma score_row_mono:
  assumes "evidence_le r r'" and "0 \<le> fa_weight a" and "score_cpu_row a r = Some s"
  shows "\<exists>s'. score_cpu_row a r' = Some s' \<and> s \<le> s'"
  using score_of_row_mono [OF assms(1,2)] assms(1,3)
  by (auto simp: score_cpu_row_def evidence_le_def split: if_splits)

text \<open>Without a specific match, counts below 2 ^ 22 are added exactly.\<close>

lemma score_of_row_exact:
  assumes "sr_specific_units r = 0" and "0 \<le> sr_function_units r" "sr_function_units r < 2 ^ 22"
    and "0 \<le> sr_child_units r" "sr_child_units r < 2 ^ 22" and "0 \<le> sr_parent_units r" "sr_parent_units r < 2 ^ 22"
  shows "score_of_row a r = of_int (sr_function_units r + sr_child_units r + sr_parent_units r)"
proof -
  have "to_f32 (of_int m + of_int n) = of_int (m + n)" if "\<bar>m + n\<bar> < 2 ^ 24" for m n :: int
    using to_f32_of_int [OF that] by simp
  note add = this
  have "to_f32 (of_int (sr_function_units r) + of_int (sr_child_units r)) = of_int (sr_function_units r + sr_child_units r)"
    using assms by (intro add) simp
  moreover have "to_f32 (of_int (sr_function_units r + sr_child_units r) + of_int (sr_parent_units r))
      = of_int (sr_function_units r + sr_child_units r + sr_parent_units r)"
    using assms by (intro add) simp
  ultimately show ?thesis
    using assms by (simp add: score_of_row_def Let_def to_f32_of_int f64_def)
qed

section \<open>The winners are the accepted candidates of the highest score\<close>

definition best :: "fid_authority \<Rightarrow> fid_function \<Rightarrow> fid_candidate \<Rightarrow> bool" where
  "best a f c \<longleftrightarrow>
     (case score a f c of
        None \<Rightarrow> False
      | Some s \<Rightarrow> list_all (\<lambda>c'. case score a f c' of None \<Rightarrow> True | Some s' \<Rightarrow> s' \<le> s) (ff_candidates f))"

definition best_matches :: "fid_authority \<Rightarrow> fid_function \<Rightarrow> fid_match list" where
  "best_matches a f =
     map (\<lambda>c. \<lparr>fm_id = fc_id c, fm_owner = fc_owner c, fm_name = fc_name c, fm_score = the (score a f c)\<rparr>)
       (filter (best a f) (ff_candidates f))"

lemma winners_map:
  defines "scored g cs \<equiv> filter (\<lambda>c. g c \<noteq> None) cs"
  shows "winners (map (\<lambda>c. (c, g c)) cs) =
     map (\<lambda>c. \<lparr>fm_id = fc_id c, fm_owner = fc_owner c, fm_name = fc_name c, fm_score = the (g c)\<rparr>)
       (filter (\<lambda>c. the (g c) = Max ((\<lambda>c. the (g c)) ` set (scored g cs))) (scored g cs))"
proof -
  have acc: "map (\<lambda>(c, s). (c, the s)) (filter (\<lambda>(c, s). s \<noteq> None) (map (\<lambda>c. (c, g c)) cs))
      = map (\<lambda>c. (c, the (g c))) (scored g cs)"
    by (simp add: scored_def filter_map o_def)
  show ?thesis
    unfolding winners_def acc Let_def
    by (simp add: filter_map o_def image_image)
qed

lemma best_iff_max:
  assumes "c \<in> set cs" and "score a f c = Some s" and "cs = ff_candidates f"
  shows "best a f c \<longleftrightarrow> s = Max ((\<lambda>c. the (score a f c)) ` set (filter (\<lambda>c. score a f c \<noteq> None) cs))"
proof -
  let ?S = "(\<lambda>c. the (score a f c)) ` set (filter (\<lambda>c. score a f c \<noteq> None) cs)"
  have mem: "s \<in> ?S" using assms(1,2) by force
  then have "s = Max ?S \<longleftrightarrow> (\<forall>s'\<in>?S. s' \<le> s)"
    using Max_eq_iff [of ?S s] by (auto simp: eq_commute)
  also have "\<dots> \<longleftrightarrow> best a f c"
    using assms(2,3) by (force simp: best_def list_all_iff split: option.splits)
  finally show ?thesis ..
qed

lemma winners_eq: "winners (map (\<lambda>c. (c, score a f c)) (ff_candidates f)) = best_matches a f"
proof -
  let ?M = "Max ((\<lambda>c. the (score a f c)) ` set (filter (\<lambda>c. score a f c \<noteq> None) (ff_candidates f)))"
  have "filter (\<lambda>c. the (score a f c) = ?M) (filter (\<lambda>c. score a f c \<noteq> None) (ff_candidates f))
      = filter (best a f) (ff_candidates f)"
    unfolding filter_filter
  proof (rule filter_cong [OF refl])
    fix c assume c: "c \<in> set (ff_candidates f)"
    show "(score a f c \<noteq> None \<and> the (score a f c) = ?M) = best a f c"
    proof (cases "score a f c")
      case None
      then show ?thesis by (simp add: best_def)
    next
      case (Some s)
      from best_iff_max [OF c Some refl] show ?thesis by (simp add: Some)
    qed
  qed
  then show ?thesis by (simp only: winners_map best_matches_def)
qed

definition decision_of :: "fid_authority \<Rightarrow> fid_function \<Rightarrow> fid_decision" where
  "decision_of a f = \<lparr>fd_address = ff_address f, fd_full_hash = ff_full_hash f, fd_specific_hash = ff_specific_hash f,
     fd_matches = best_matches a f\<rparr>"

definition scores_for :: "fid_authority \<Rightarrow> fid_function list \<Rightarrow> rat option list" where
  "scores_for a fs = concat (map (\<lambda>f. map (score a f) (ff_candidates f)) fs)"

lemma scores_for_Cons [simp]:
  "scores_for a [] = []" "scores_for a (f # fs) = map (score a f) (ff_candidates f) @ scores_for a fs"
  by (simp_all add: scores_for_def)

lemma cull_loop_eq:
  assumes "scores = before @ scores_for a fs" and "cursor = length before"
  shows "cull_loop fs scores cursor = (map (decision_of a) fs, length scores)"
  using assms
proof (induction fs arbitrary: before cursor)
  case (Cons f fs)
  let ?own = "map (score a f) (ff_candidates f)"
  have "cull_loop fs scores (cursor + length (ff_candidates f)) = (map (decision_of a) fs, length scores)"
    using Cons.prems by (intro Cons.IH [of "before @ ?own"]) simp_all
  moreover have "take (length (ff_candidates f)) (drop cursor scores) = ?own"
    using Cons.prems by simp
  moreover have "zip (ff_candidates f) ?own = map (\<lambda>c. (c, score a f c)) (ff_candidates f)"
    by (simp add: zip_map2 zip_same_conv_map)
  ultimately show ?case by (simp add: winners_eq decision_of_def)
qed simp

lemma cull_eq: "cull fs (scores_for a fs) = Inr (map (decision_of a) fs)"
  using cull_loop_eq [of "scores_for a fs" "[]" a fs 0] by (simp add: cull_def)

definition same_hashes :: "fid_function list \<Rightarrow> bool" where
  "same_hashes fs \<longleftrightarrow> (\<forall>f\<in>set fs. \<forall>c\<in>set (ff_candidates f). fc_full_hash c = ff_full_hash f)"

lemma score_inputs_same:
  "(\<exists>r. score_inputs a f c = Inr r) \<longleftrightarrow> fc_full_hash c = ff_full_hash f"
  by (simp add: score_inputs_def Let_def)

definition flat :: "fid_function list \<Rightarrow> (fid_function \<times> fid_candidate) list" where
  "flat fs = [(f, c). f \<leftarrow> fs, c \<leftarrow> ff_candidates f]"

lemma set_flat: "(f, c) \<in> set (flat fs) \<longleftrightarrow> f \<in> set fs \<and> c \<in> set (ff_candidates f)"
  by (auto simp: flat_def)

lemma scores_for_flat: "scores_for a fs = map (\<lambda>(f, c). score a f c) (flat fs)"
  by (induction fs) (simp_all add: flat_def scores_for_def o_def)

lemma length_flat: "length (flat fs) = (\<Sum>f\<leftarrow>fs. length (ff_candidates f))"
  by (induction fs) (simp_all add: flat_def)

lemma rows_same:
  assumes "same_hashes fs"
  shows "map_result (\<lambda>(f, c). score_inputs a f c) (flat fs) = Inr (map (\<lambda>(f, c). row_of a f c) (flat fs))"
proof -
  have ok: "score_inputs a f c = Inr (row_of a f c)" if "(f, c) \<in> set (flat fs)" for f c
    using assms that by (auto simp: same_hashes_def set_flat score_inputs_eq)
  then show ?thesis by (intro map_result_all_Inr) auto
qed

lemma match_cpu_eq:
  assumes "well_formed fs" and "same_hashes fs"
  shows "match_cpu a fs = Inr \<lparr>fr_functions = map (decision_of a) fs,
    fr_candidate_count = (\<Sum>f\<leftarrow>fs. length (ff_candidates f)),
    fr_matched_functions = length (filter (\<lambda>f. best_matches a f \<noteq> []) fs)\<rparr>"
proof -
  obtain u where u: "validate_input fs = Inr u" using assms(1) by (auto simp: results)
  have "score_rows_cpu a (map (\<lambda>(f, c). row_of a f c) (flat fs)) = scores_for a fs"
    by (simp add: score_rows_cpu_def scores_for_flat score_def case_prod_unfold)
  then have cpu: "match_cpu a fs = Inr \<lparr>fr_functions = map (decision_of a) fs, fr_candidate_count = length (flat fs),
      fr_matched_functions = length (filter (\<lambda>d. fd_matches d \<noteq> []) (map (decision_of a) fs))\<rparr>"
    unfolding match_cpu_def u flat_def [symmetric] and_then_Inr rows_same [OF assms(2)]
    by (simp only: cull_eq and_then_Inr length_map)
  have "length (filter (\<lambda>d. fd_matches d \<noteq> []) (map (decision_of a) fs)) = length (filter (\<lambda>f. best_matches a f \<noteq> []) fs)"
    by (simp add: filter_map o_def decision_of_def)
  then show ?thesis unfolding cpu by (simp only: length_flat)
qed

lemma match_cpu_Inl:
  assumes "\<not> (well_formed fs \<and> same_hashes fs)"
  shows "\<exists>e. match_cpu a fs = Inl e"
proof (cases "match_cpu a fs")
  case (Inr r)
  from Inr [unfolded match_cpu_def flat_def [symmetric]]
  obtain rows where wf: "well_formed fs" and rows: "map_result (\<lambda>(f, c). score_inputs a f c) (flat fs) = Inr rows"
    by (auto simp only: and_then_eq_Inr validate_input_Inr)
  have "fc_full_hash c = ff_full_hash f" if "f \<in> set fs" "c \<in> set (ff_candidates f)" for f c
  proof -
    have "\<exists>y. (case (f, c) of (f, c) \<Rightarrow> score_inputs a f c) = Inr y"
      using rows that map_result_eq [of "\<lambda>(f, c). score_inputs a f c" "flat fs"] set_flat by blast
    then show ?thesis using score_inputs_same by simp
  qed
  then show ?thesis using assms wf by (auto simp: same_hashes_def)
qed blast

text \<open>A function with an accepted candidate has a winner.\<close>

lemma best_matches_empty:
  "best_matches a f = [] \<longleftrightarrow> (\<forall>c\<in>set (ff_candidates f). score a f c = None)"
proof
  assume none: "best_matches a f = []"
  show "\<forall>c\<in>set (ff_candidates f). score a f c = None"
  proof (rule ccontr)
    let ?S = "(\<lambda>c. the (score a f c)) ` set (filter (\<lambda>c. score a f c \<noteq> None) (ff_candidates f))"
    assume "\<not> (\<forall>c\<in>set (ff_candidates f). score a f c = None)"
    then have "Max ?S \<in> ?S" by (intro Max_in) auto
    then obtain c s where c: "c \<in> set (ff_candidates f)" "score a f c = Some s" "s = Max ?S" by auto
    from best_iff_max [OF c(1,2) refl] c have "best a f c" by simp
    with c(1) none show False by (auto simp: best_matches_def filter_empty_conv)
  qed
qed (auto simp: best_matches_def best_def filter_empty_conv)

section \<open>When a comparison calls the decisions equivalent\<close>

lemma set_keys_of: "set (keys_of d) = fst ` set d"
  by (simp add: keys_of_def)

definition agree :: "int \<Rightarrow> (string \<times> rat) list \<Rightarrow> (string \<times> rat) list \<Rightarrow> bool" where
  "agree ulps expected actual \<longleftrightarrow>
     fst ` set expected = fst ` set actual
     \<and> (\<forall>i\<in>fst ` set expected.
          \<bar>f32_bits (to_f32 (the (map_of expected i))) - f32_bits (to_f32 (the (map_of actual i)))\<bar> \<le> ulps)"

definition lookup :: "(string \<times> (string \<times> rat) list) list \<Rightarrow> string \<Rightarrow> (string \<times> rat) list" where
  "lookup d address = (case map_of d address of None \<Rightarrow> [] | Some e \<Rightarrow> e)"

lemma compare_score_Inr:
  "compare_score e x i = Inr d \<Longrightarrow> sd_id d = i \<and> sd_ulps d = \<bar>f32_bits (to_f32 e) - f32_bits (to_f32 x)\<bar>"
  by (auto simp: compare_score_def f32_ulps_def results split: if_splits)

lemma compare_address_Inr:
  assumes "compare_address a native observed address = Inr (compared, m)"
  shows "m = None \<longleftrightarrow> agree (fa_max_ulps a) (lookup native address) (lookup observed address)"
    "m = Some x \<Longrightarrow> mm_address x = address"
proof -
  let ?e = "lookup native address" and ?o = "lookup observed address"
  let ?both = "filter (\<lambda>i. i \<in> set (map fst ?o)) (keys_of ?e)"
  from assms have cmp: "map_result (\<lambda>i. compare_score (the (map_of ?e i)) (the (map_of ?o i)) i) ?both = Inr compared"
    and m: "m = None \<longleftrightarrow> filter (\<lambda>i. i \<notin> set (map fst ?o)) (keys_of ?e) = []
        \<and> filter (\<lambda>i. i \<notin> set (map fst ?e)) (keys_of ?o) = []
        \<and> filter (\<lambda>d. sd_ulps d > fa_max_ulps a) compared = []"
    by (auto simp: compare_address_def Let_def lookup_def results split: if_splits)
  let ?close = "\<lambda>i. \<bar>f32_bits (to_f32 (the (map_of ?e i))) - f32_bits (to_f32 (the (map_of ?o i)))\<bar> \<le> fa_max_ulps a"
  have "length (filter (\<lambda>d. sd_ulps d > fa_max_ulps a) compared) = length (filter (\<lambda>i. \<not> ?close i) ?both)"
    by (rule map_result_filter [OF cmp]) (auto dest: compare_score_Inr)
  then have differ: "filter (\<lambda>d. sd_ulps d > fa_max_ulps a) compared = [] \<longleftrightarrow> (\<forall>i\<in>set ?both. ?close i)"
    by (metis (no_types, lifting) filter_empty_conv length_0_conv)
  define A where "A = fst ` set ?e"
  define B where "B = fst ` set ?o"
  have sets: "set ?both = A \<inter> B" by (auto simp: set_keys_of A_def B_def)
  have missing: "filter (\<lambda>i. i \<notin> set (map fst ?o)) (keys_of ?e) = [] \<longleftrightarrow> A \<subseteq> B"
    "filter (\<lambda>i. i \<notin> set (map fst ?e)) (keys_of ?o) = [] \<longleftrightarrow> B \<subseteq> A"
    unfolding filter_empty_conv set_keys_of A_def B_def by auto
  show "m = None \<longleftrightarrow> agree (fa_max_ulps a) ?e ?o"
    unfolding m agree_def differ missing sets A_def [symmetric] B_def [symmetric] by blast
  show "mm_address x = address" if "m = Some x"
    using assms that by (auto simp: compare_address_def Let_def results split: if_splits)
qed

definition native_scores :: "fid_function list \<Rightarrow> (string \<times> (string \<times> rat) list) list" where
  "native_scores fs = rev (map (\<lambda>f. (ff_address f, scores_of (ff_native f))) fs)"

definition portable_scores :: "fid_decision list \<Rightarrow> (string \<times> (string \<times> rat) list) list" where
  "portable_scores ds = rev (map (\<lambda>d. (fd_address d, scores_of (fd_matches d))) ds)"

lemma lookup_outside: "address \<notin> fst ` set d \<Longrightarrow> lookup d address = []"
  by (simp add: lookup_def map_of_eq_None_iff [symmetric])

lemma compare_with_oracle_Inr:
  assumes "compare_with_oracle a fs ds = Inr r"
  shows "cm_state r = (if cm_decision_mismatches r = 0 then ''equivalent'' else ''mismatch'')"
    "cm_decision_mismatches r = card {address. \<not> agree (fa_max_ulps a) (lookup (native_scores fs) address)
       (lookup (portable_scores ds) address)}"
    "length (cm_mismatches r) + cm_truncated r = cm_decision_mismatches r"
proof -
  let ?n = "native_scores fs" and ?p = "portable_scores ds"
  let ?keys = "keys_of (?n @ ?p)"
  from assms obtain rs where rs: "map_result (compare_address a ?n ?p) ?keys = Inr rs"
    and r: "cm_decision_mismatches r = length [m. (_, Some m) \<leftarrow> rs]"
      "cm_state r = (if cm_decision_mismatches r = 0 then ''equivalent'' else ''mismatch'')"
      "length (cm_mismatches r) + cm_truncated r = cm_decision_mismatches r"
    by (auto simp: compare_with_oracle_def Let_def results native_scores_def portable_scores_def)
  show "cm_state r = (if cm_decision_mismatches r = 0 then ''equivalent'' else ''mismatch'')"
    "length (cm_mismatches r) + cm_truncated r = cm_decision_mismatches r"
    by (fact r)+
  let ?agree = "\<lambda>k. agree (fa_max_ulps a) (lookup ?n k) (lookup ?p k)"
  have "length [m. (_, Some m) \<leftarrow> rs] = length (filter (\<lambda>p. snd p \<noteq> None) rs)"
    by (induction rs) (auto split: option.splits)
  also have "\<dots> = length (filter (\<lambda>k. \<not> ?agree k) ?keys)"
    by (rule map_result_filter [OF rs]) (use compare_address_Inr(1) in force)
  also have "\<dots> = card {k \<in> set ?keys. \<not> ?agree k}"
    using distinct_card [of "filter (\<lambda>k. \<not> ?agree k) ?keys"] by (simp add: keys_of_def)
  also have "{k \<in> set ?keys. \<not> ?agree k} = {k. \<not> ?agree k}"
    using lookup_outside [of _ ?n] lookup_outside [of _ ?p] by (fastforce simp: set_keys_of agree_def)
  finally show "cm_decision_mismatches r = card {address. \<not> ?agree address}" by (simp add: r(1))
qed

text \<open>A qualified report means that both backends agree with the oracle at every address.\<close>

lemma equivalent_agree:
  assumes "compare_with_oracle a fs ds = Inr r" and "cm_state r = ''equivalent''"
  shows "agree (fa_max_ulps a) (lookup (native_scores fs) address) (lookup (portable_scores ds) address)"
proof -
  let ?differ = "{address. \<not> agree (fa_max_ulps a) (lookup (native_scores fs) address) (lookup (portable_scores ds) address)}"
  have "?differ \<subseteq> fst ` set (native_scores fs) \<union> fst ` set (portable_scores ds)"
    using lookup_outside [of _ "native_scores fs"] lookup_outside [of _ "portable_scores ds"]
    by (fastforce simp: agree_def)
  then have "finite ?differ" by (rule finite_subset) simp
  with compare_with_oracle_Inr(1,2) [OF assms(1)] assms(2) show ?thesis by (auto split: if_splits)
qed

lemma qualified_agree:
  assumes "qualification_report gpu include_gpu a fs = Inr q" and "qr_state q = ''qualified''"
  shows "\<exists>cpu report. qr_executions q = [cpu, report] \<and> match_cpu a fs = Inr cpu \<and> match_gpu gpu 256 a fs = Inr report
    \<and> (\<forall>address. \<forall>d\<in>{fr_functions cpu, fr_functions report}.
         agree (fa_max_ulps a) (lookup (native_scores fs) address) (lookup (portable_scores d) address))"
  using assms by (auto simp: qualification_report_def results equivalent_agree split: if_splits)

text \<open>A comparison of non-negative scores never raises.\<close>

definition nonneg_scores :: "(string \<times> rat) list \<Rightarrow> bool" where
  "nonneg_scores d \<longleftrightarrow> (\<forall>(i, s)\<in>set d. 0 \<le> s)"

lemma nonneg_lookup: "\<forall>(i, d)\<in>set dd. nonneg_scores d \<Longrightarrow> nonneg_scores (lookup dd address)"
  by (cases "map_of dd address") (auto simp: lookup_def nonneg_scores_def dest!: map_of_SomeD)

lemma compare_address_total:
  assumes "nonneg_scores (lookup native address)" "nonneg_scores (lookup observed address)"
  shows "\<exists>r. compare_address a native observed address = Inr r"
proof -
  let ?e = "lookup native address" and ?o = "lookup observed address"
  have nonneg: "0 \<le> the (map_of d i)" if "nonneg_scores d" "i \<in> fst ` set d" for d i
  proof -
    from that(2) obtain s where "map_of d i = Some s" by (metis map_of_eq_None_iff not_None_eq)
    then show ?thesis using that(1) by (auto simp: nonneg_scores_def dest: map_of_SomeD)
  qed
  have "\<exists>rs. map_result (\<lambda>i. compare_score (the (map_of ?e i)) (the (map_of ?o i)) i)
      (filter (\<lambda>i. i \<in> set (map fst ?o)) (keys_of ?e)) = Inr rs"
    unfolding map_result_eq using nonneg [OF assms(1)] nonneg [OF assms(2)]
    by (auto simp: compare_score_def f32_ulps_def set_keys_of not_less [symmetric])
  then show ?thesis by (auto simp: compare_address_def Let_def lookup_def [symmetric])
qed

lemma compare_with_oracle_total:
  assumes "well_formed fs" and "\<forall>f\<in>set fs. \<forall>m\<in>set (ff_native f). 0 \<le> fm_score m"
    and "\<forall>d\<in>set ds. \<forall>m\<in>set (fd_matches d). 0 \<le> fm_score m"
  shows "\<exists>r. compare_with_oracle a fs ds = Inr r"
proof -
  obtain u where u: "validate_input fs = Inr u" using assms(1) by (auto simp: results)
  have "\<forall>(i, d)\<in>set (native_scores fs). nonneg_scores d" "\<forall>(i, d)\<in>set (portable_scores ds). nonneg_scores d"
    using assms(2,3) by (auto simp: native_scores_def portable_scores_def scores_of_def nonneg_scores_def)
  then have "\<exists>rs. map_result (compare_address a (native_scores fs) (portable_scores ds))
      (keys_of (native_scores fs @ portable_scores ds)) = Inr rs"
    unfolding map_result_eq by (blast intro: compare_address_total nonneg_lookup)
  then show ?thesis
    unfolding compare_with_oracle_def u and_then_Inr Let_def native_scores_def portable_scores_def by auto
qed

section \<open>The confusion matrix\<close>

definition tally_ok :: "nat \<Rightarrow> tally \<Rightarrow> bool" where
  "tally_ok n t \<longleftrightarrow>
     tl_tp t + tl_fn t = int (tl_labelled t) \<and> tl_fp t + tl_tn t = int (tl_labelled t) * (int n - 1)
     \<and> 0 \<le> tl_tp t \<and> 0 \<le> tl_fn t \<and> 0 \<le> tl_fp t
     \<and> length (tl_bases t) = tl_labelled t
     \<and> int (length (tl_categories t)) = tl_tp t + tl_fn t + tl_fp t
     \<and> length (tl_observations t) = 3 * length (tl_categories t)"

lemma length_owner_outcomes:
  "length (owner_outcomes truth ms) = Suc (length (filter (\<lambda>owner. owner \<noteq> truth) (remdups (map fm_owner ms))))"
  by (simp add: owner_outcomes_def Let_def)

lemma length_observations:
  "length [h o' p. o' \<leftarrow> outcomes, p \<leftarrow> hash_values f] = 3 * length outcomes"
  by (induction outcomes) (simp_all add: hash_values_def)

lemma classify_labelled_ok: "tally_ok n t \<Longrightarrow> tally_ok n (classify_labelled n f truth ms t)"
  unfolding tally_ok_def classify_labelled_def Let_def case_prod_unfold
  by (simp add: length_observations length_owner_outcomes) (simp add: algebra_simps)

lemma classify_function_ok:
  "tally_ok (length universe) t \<Longrightarrow> classify_function universe portable f t = Inr t' \<Longrightarrow> tally_ok (length universe) t'"
  by (auto simp: classify_function_def results classify_labelled_ok split: option.splits if_splits)
    (auto simp: tally_ok_def)

lemma empty_tally_ok: "tally_ok n empty_tally"
  by (simp add: tally_ok_def empty_tally_def)

text \<open>Every function is labelled or not.\<close>

lemma classify_function_counts:
  "classify_function universe portable f t = Inr t' \<Longrightarrow>
     tl_labelled t' + tl_unlabelled t' = Suc (tl_labelled t + tl_unlabelled t)"
  by (auto simp: classify_function_def classify_labelled_def Let_def results split: option.splits if_splits)

lemma classify_total:
  "fold_result (classify_function universe portable) fs t = Inr t' \<Longrightarrow>
     tl_labelled t' + tl_unlabelled t' = tl_labelled t + tl_unlabelled t + length fs"
  by (induction fs arbitrary: t) (auto simp: results dest: classify_function_counts)

lemma classify_matches_Inr:
  assumes "classify_matches fs owners portable = Inr c"
  shows "cl_owners c = sort (remdups owners)" "2 \<le> length (cl_owners c)"
    "fold_result (classify_function (cl_owners c) portable) fs empty_tally = Inr (cl_tally c)"
    "tally_ok (length (cl_owners c)) (cl_tally c)"
proof -
  show own: "cl_owners c = sort (remdups owners)" "2 \<le> length (cl_owners c)"
    and fold: "fold_result (classify_function (cl_owners c) portable) fs empty_tally = Inr (cl_tally c)"
    using assms by (auto simp: classify_matches_def Let_def results split: if_splits)
  show "tally_ok (length (cl_owners c)) (cl_tally c)"
    by (rule fold_result_invariant [where P = "tally_ok (length (cl_owners c))", OF fold empty_tally_ok]) (rule classify_function_ok)
qed

section \<open>A concrete query\<close>

text \<open>The reviewed semantics: 14.6 and 0.67 as binary64 values.\<close>

definition demo_authority :: fid_authority where
  "demo_authority = \<lparr>fa_threshold = 14.6, fa_weight = 0.67, fa_medium_limit = 24, fa_max_ulps = 1, fa_max_mismatch_rows = 10\<rparr>"

definition demo_candidate :: "string \<Rightarrow> string \<Rightarrow> int \<Rightarrow> fid_candidate" where
  "demo_candidate i owner units = \<lparr>fc_id = i, fc_owner = owner, fc_name = ''memcpy'', fc_full_hash = ''f1'',
     fc_specific_hash = ''s9'', fc_specific_additional = 3, fc_code_unit_size = units, fc_child_code_units = 2,
     fc_parent_code_units = 0, fc_auto_pass = False, fc_auto_fail = False, fc_force_specific = False,
     fc_force_relation = False\<rparr>"

definition demo_match :: "string \<Rightarrow> string \<Rightarrow> rat \<Rightarrow> fid_match" where
  "demo_match i owner s = \<lparr>fm_id = i, fm_owner = owner, fm_name = ''memcpy'', fm_score = s\<rparr>"

definition demo_function :: fid_function where
  "demo_function = \<lparr>ff_address = ''0x1000'', ff_full_hash = ''f1'', ff_specific_hash = ''s1'',
     ff_candidates = [demo_candidate ''c1'' ''musl'' 20, demo_candidate ''c2'' ''zlib'' 9, demo_candidate ''c3'' ''glibc'' 20],
     ff_native = [demo_match ''c1'' ''musl'' 22, demo_match ''c3'' ''glibc'' 22], ff_name = ''copy'',
     ff_truth_owner = Some ''musl'', ff_truth_basis = ''linker-map'', ff_truth_candidates = [],
     ff_specific_additional = 3, ff_code_unit_size = 20\<rparr>"

lemma demo_threshold: "14 \<le> to_f32 (fa_threshold demo_authority)" "to_f32 (fa_threshold demo_authority) \<le> 15"
  using to_f32_mono [of 14 "fa_threshold demo_authority"] to_f32_mono [of "fa_threshold demo_authority" 15]
    to_f32_of_int [of 14] to_f32_of_int [of 15] by (simp_all add: demo_authority_def)

lemma demo_scores:
  "score demo_authority demo_function (demo_candidate i owner 20) = Some 22"
  "score demo_authority demo_function (demo_candidate i owner 9) = None"
proof -
  have "score_of_row demo_authority (row_of demo_authority demo_function (demo_candidate i owner units)) = of_int (units + 2)"
    if "0 \<le> units" "units < 100" for units
    using that by (subst score_of_row_exact) (simp_all add: row_of_def demo_candidate_def demo_function_def)
  from this [of 20] this [of 9] demo_threshold
  show "score demo_authority demo_function (demo_candidate i owner 20) = Some 22"
    "score demo_authority demo_function (demo_candidate i owner 9) = None"
    unfolding score_eq by (simp_all add: demo_candidate_def)
qed

lemma demo_winners:
  "best_matches demo_authority demo_function = [demo_match ''c1'' ''musl'' 22, demo_match ''c3'' ''glibc'' 22]"
proof -
  have "ff_candidates demo_function = [demo_candidate ''c1'' ''musl'' 20, demo_candidate ''c2'' ''zlib'' 9,
      demo_candidate ''c3'' ''glibc'' 20]"
    by (simp add: demo_function_def)
  then show ?thesis
    by (simp add: best_matches_def best_def demo_scores) (simp add: demo_candidate_def demo_match_def)
qed

lemma demo_comparison:
  "\<exists>r. compare_with_oracle demo_authority [demo_function] [decision_of demo_authority demo_function] = Inr r"
proof (rule compare_with_oracle_total)
  show "well_formed [demo_function]"
    by (simp add: well_formed_def demo_function_def demo_candidate_def)
  show "\<forall>f\<in>set [demo_function]. \<forall>m\<in>set (ff_native f). 0 \<le> fm_score m"
    by (simp add: demo_function_def demo_match_def)
  show "\<forall>d\<in>set [decision_of demo_authority demo_function]. \<forall>m\<in>set (fd_matches d). 0 \<le> fm_score m"
    by (simp add: decision_of_def demo_winners demo_match_def)
qed

text \<open>Owners outside the universe are counted as false positives, and the true negatives go below zero.\<close>

definition stray_function :: fid_function where
  "stray_function = demo_function\<lparr>ff_native := [demo_match ''c2'' ''zlib'' 22, demo_match ''c3'' ''glibc'' 22, demo_match ''c4'' ''gcc'' 22]\<rparr>"

lemma stray_tally:
  "case fold_result (classify_function [''musl'', ''zlib''] None) [stray_function] empty_tally of
     Inl e \<Rightarrow> False
   | Inr t \<Rightarrow> tl_tp t = 0 \<and> tl_fn t = 1 \<and> tl_fp t = 3 \<and> tl_tn t = - 2"
  by code_simp

lemma negative_true_negatives:
  "\<exists>c. classify_matches [stray_function] [''musl'', ''zlib''] None = Inr c
     \<and> tl_tn (cl_tally c) = - 2 \<and> cl_specificity c = Some (- 2)"
proof -
  obtain t where t: "fold_result (classify_function [''musl'', ''zlib''] None) [stray_function] empty_tally = Inr t"
    "tl_fp t = 3" "tl_tn t = - 2"
    using stray_tally by (auto split: sum.splits)
  have valid: "\<exists>u. validate_input [stray_function] = Inr u"
    unfolding validate_input_Inr by (simp add: well_formed_def stray_function_def demo_function_def demo_candidate_def)
  have universe: "sort (remdups [''musl'', ''zlib'']) = [''musl'', ''zlib'']" by code_simp
  have "rate (- 2) 1 = Some (- 2)"
    using f64_of_int [of "- 2"] by (simp add: rate_def)
  then show ?thesis
    using valid t unfolding classify_matches_def universe Let_def by auto
qed

end
