(* ===== verification/Jvm_Policy.thy ===== *)
theory Jvm_Policy
  imports Validators
begin

text \<open>
  src/fidb_poc/jvm_policy.py: the JVM options shared by width runs and benchmarks.  \<open>shlex.split\<close>,
  \<open>int\<close> of a text and the heap regular expression are modelled for code points below 256.
\<close>

section \<open>\<open>shlex.split\<close>\<close>

text \<open>The lexer between tokens, in a token, in quotes and after a backslash.\<close>

datatype lex_state = Between | In_Token | In_Quote char | Escaped "char option"

definition lex_space :: "char \<Rightarrow> bool" where
  "lex_space c \<longleftrightarrow> c \<in> {CHR '' '', CHR 0x09, CHR 0x0D, CHR 0x0A}"

definition lex_quote :: "char \<Rightarrow> bool" where
  "lex_quote c \<longleftrightarrow> c \<in> {CHR 0x27, CHR 0x22}"

definition backslash :: char where
  "backslash = CHR 0x5C"

fun lex :: "lex_state \<Rightarrow> string \<Rightarrow> string \<Rightarrow> string list result" where
  "lex Between token [] = Inr []"
| "lex In_Token token [] = Inr [token]"
| "lex (In_Quote q) token [] = Inl (ValueError ''No closing quotation'')"
| "lex (Escaped q) token [] = Inl (ValueError ''No escaped character'')"
| "lex Between token (c # cs) =
     (if lex_space c then lex Between [] cs
      else if c = backslash then lex (Escaped None) [] cs
      else if lex_quote c then lex (In_Quote c) [] cs
      else lex In_Token [c] cs)"
| "lex In_Token token (c # cs) =
     (if lex_space c then and_then (lex Between [] cs) (\<lambda>ts. Inr (token # ts))
      else if lex_quote c then lex (In_Quote c) token cs
      else if c = backslash then lex (Escaped None) token cs
      else lex In_Token (token @ [c]) cs)"
| "lex (In_Quote q) token (c # cs) =
     (if c = q then lex In_Token token cs
      else if c = backslash \<and> q = CHR 0x22 then lex (Escaped (Some q)) token cs
      else lex (In_Quote q) (token @ [c]) cs)"
| "lex (Escaped None) token (c # cs) = lex In_Token (token @ [c]) cs"
| "lex (Escaped (Some q)) token (c # cs) =
     lex (In_Quote q) (if c \<noteq> backslash \<and> c \<noteq> q then token @ [backslash, c] else token @ [c]) cs"

definition shlex_split :: "string \<Rightarrow> string list result" where
  "shlex_split s = lex Between [] s"

definition join_spaces :: "string list \<Rightarrow> string" where
  "join_spaces ts = concat (case ts of [] \<Rightarrow> [] | t # ts' \<Rightarrow> t # map (\<lambda>t'. CHR '' '' # t') ts')"

section \<open>Numbers in options\<close>

definition digits_value :: "string \<Rightarrow> int" where
  "digits_value ds = foldl (\<lambda>n d. 10 * n + int (of_char d - 48)) 0 ds"

text \<open>\<open>int(text)\<close>: surrounding white space, a sign, and digits with single underscores between them.\<close>

definition int_digits :: "string \<Rightarrow> bool" where
  "int_digits s \<longleftrightarrow>
     s \<noteq> [] \<and> list_all (\<lambda>c. is_digit c \<or> c = CHR ''_'') s \<and> is_digit (hd s) \<and> is_digit (last s)
     \<and> list_all (\<lambda>(a, b). \<not> (a = CHR ''_'' \<and> b = CHR ''_'')) (zip s (tl s))"

definition py_int :: "string \<Rightarrow> int option" where
  "py_int s =
     (let t = strip s;
          body = (case t of c # cs \<Rightarrow> if c \<in> {CHR ''+'', CHR ''-''} then cs else t | [] \<Rightarrow> [])
      in if int_digits body
         then Some ((if take 1 t = ''-'' then -1 else 1) * digits_value (filter is_digit body))
         else None)"

definition has_prefix :: "string \<Rightarrow> string \<Rightarrow> bool" where
  "has_prefix p s \<longleftrightarrow> take (length p) s = p"

text \<open>\<open>_heap_mib\<close>: \<^verbatim>\<open>-Xmx\<close>, a number without leading zero and an optional unit.\<close>

definition heap_mib :: "string \<Rightarrow> int option result" where
  "heap_mib option =
     (let body = drop 4 option; number = takeWhile is_digit body; unit = dropWhile is_digit body;
          amount = digits_value number
      in if \<not> has_prefix ''-Xmx'' option \<or> number = [] \<or> hd number = CHR ''0''
            \<or> unit \<notin> set [[], ''k'', ''K'', ''m'', ''M'', ''g'', ''G''] then Inr None
         else if unit \<in> set [''g'', ''G''] then Inr (Some (amount * 1024))
         else if unit \<in> set [[], ''k'', ''K'']
         then let divisor = (if unit = [] then 1024 * 1024 else 1024)
              in if amount mod divisor \<noteq> 0
                 then Inl (ValueError (''JVM maximum heap is not a whole MiB: '' @ option))
                 else Inr (Some (amount div divisor))
         else Inr (Some amount))"

definition MIN_GHIDRA_HEAP_MIB :: int where "MIN_GHIDRA_HEAP_MIB = 1024"
definition MAX_GHIDRA_HEAP_MIB :: int where "MAX_GHIDRA_HEAP_MIB = 32768"
definition MAX_GHIDRA_CORE_LIMIT :: int where "MAX_GHIDRA_CORE_LIMIT = 32"

section \<open>The options\<close>

definition is_heap :: "string \<Rightarrow> bool" where
  "is_heap item = has_prefix ''-Xmx'' item"

definition is_core_limit :: "string \<Rightarrow> bool" where
  "is_core_limit item \<longleftrightarrow> has_prefix ''-Dcpu.core.limit='' item \<or> has_prefix ''-Dcpu.core.override='' item"

definition bound_heap :: "int option \<Rightarrow> string list \<Rightarrow> string list result" where
  "bound_heap requested parsed =
     (let existing = filter is_heap parsed
      in if length existing > 1 then Inl (ValueError ''JAVA_TOOL_OPTIONS contains multiple -Xmx settings'')
         else case requested of
           None \<Rightarrow> Inr parsed
         | Some mib \<Rightarrow>
             if mib < MIN_GHIDRA_HEAP_MIB \<or> mib > MAX_GHIDRA_HEAP_MIB
             then Inl (ValueError ''Ghidra heap must be between 1024 and 32768 MiB'')
             else if existing \<noteq> []
             then and_then (heap_mib (hd existing)) (\<lambda>inherited.
                  case inherited of
                    None \<Rightarrow> Inl (ValueError (''unsupported inherited JVM maximum heap: '' @ hd existing))
                  | Some n \<Rightarrow>
                      if n \<noteq> mib then Inl (ValueError ''inherited JVM maximum heap conflicts with requested bound'')
                      else Inr parsed)
             else Inr (parsed @ [''-Xmx'' @ decimal (nat mib) @ ''m'']))"

text \<open>\<open>split("=", 1)[1]\<close> of an option that contains the sign.\<close>

definition after_equals :: "string \<Rightarrow> string" where
  "after_equals s = tl (dropWhile (\<lambda>c. c \<noteq> CHR ''='') s)"

definition bound_cores :: "int option \<Rightarrow> string list \<Rightarrow> string list result" where
  "bound_cores requested parsed =
     (let existing = filter is_core_limit parsed
      in if length existing > 1 then Inl (ValueError ''JAVA_TOOL_OPTIONS contains multiple Ghidra CPU limits'')
         else case requested of
           None \<Rightarrow> Inr parsed
         | Some cores \<Rightarrow>
             if cores < 1 \<or> cores > MAX_GHIDRA_CORE_LIMIT
             then Inl (ValueError ''Ghidra core limit must be between 1 and 32'')
             else if existing \<noteq> []
             then (case py_int (after_equals (hd existing)) of
                     None \<Rightarrow> Inl (ValueError (''invalid inherited Ghidra CPU limit: '' @ hd existing))
                   | Some n \<Rightarrow>
                       if n \<noteq> cores then Inl (ValueError ''inherited Ghidra CPU limit conflicts with requested bound'')
                       else Inr parsed)
             else Inr (parsed @ [''-Dcpu.core.limit='' @ decimal (nat cores)]))"

text \<open>\<open>inherited\<close> is the given text, or that of the environment.\<close>

definition java_options :: "int option \<Rightarrow> int option \<Rightarrow> string \<Rightarrow> string result" where
  "java_options heap cores inherited =
     and_then (shlex_split (strip inherited)) (\<lambda>parsed.
     and_then (bound_heap heap parsed) (\<lambda>parsed.
     and_then (bound_cores cores parsed) (\<lambda>parsed.
     Inr (join_spaces parsed))))"

section \<open>Plain options survive joining and splitting\<close>

text \<open>A character that means itself to the lexer.\<close>

definition plain_char :: "char \<Rightarrow> bool" where
  "plain_char c \<longleftrightarrow> \<not> is_space c \<and> \<not> lex_quote c \<and> c \<noteq> backslash"

definition plain :: "string \<Rightarrow> bool" where
  "plain t \<longleftrightarrow> t \<noteq> [] \<and> list_all plain_char t"

lemma lex_space_is_space: "lex_space c \<Longrightarrow> is_space c"
  by (auto simp: lex_space_def is_space_def)

lemma lex_plain_token:
  "list_all plain_char t \<Longrightarrow> lex In_Token token (t @ cs) = lex In_Token (token @ t) cs"
  by (induction t arbitrary: token) (auto simp: plain_char_def dest: lex_space_is_space)

lemma lex_plain_start:
  "plain t \<Longrightarrow> lex Between token (t @ cs) = lex In_Token t cs"
  using lex_plain_token [of "tl t" "[hd t]" cs]
  by (cases t) (auto simp: plain_def plain_char_def dest: lex_space_is_space)

lemma join_spaces_Cons:
  "join_spaces [] = []" "join_spaces [t] = t"
  "join_spaces (t # t' # ts) = t @ CHR '' '' # join_spaces (t' # ts)"
  by (simp_all add: join_spaces_def)

lemma split_join: "list_all plain ts \<Longrightarrow> lex Between token (join_spaces ts) = Inr ts"
proof (induction ts arbitrary: token rule: induct_list012)
  case (2 t)
  then show ?case using lex_plain_start [of t token "[]"] by (simp add: join_spaces_Cons)
next
  case (3 t t' ts)
  have "lex_space (CHR '' '')" by (simp add: lex_space_def)
  then show ?case using 3 lex_plain_start [of t token] by (simp add: join_spaces_Cons)
qed (simp add: join_spaces_Cons)

lemma strip_plain_ends:
  assumes "s \<noteq> []" "\<not> is_space (hd s)" "\<not> is_space (last s)"
  shows "strip s = s"
proof -
  have "dropWhile is_space s = s" using assms by (simp add: dropWhile_eq_self_iff)
  moreover have "dropWhile is_space (rev s) = rev s" using assms by (simp add: dropWhile_eq_self_iff hd_rev)
  ultimately show ?thesis by (simp add: strip_def)
qed

lemma plain_ends: "plain t \<Longrightarrow> \<not> is_space (hd t) \<and> \<not> is_space (last t)"
  by (auto simp: plain_def list_all_iff plain_char_def)

lemma join_ends:
  "list_all plain ts \<Longrightarrow> ts \<noteq> [] \<Longrightarrow>
     join_spaces ts \<noteq> [] \<and> hd (join_spaces ts) = hd (hd ts) \<and> last (join_spaces ts) = last (last ts)"
proof (induction ts rule: induct_list012)
  case (3 t t' ts)
  then have "t \<noteq> []" by (simp add: plain_def)
  with 3 show ?case by (simp add: join_spaces_Cons)
qed (auto simp: join_spaces_Cons plain_def)

lemma strip_join: "list_all plain ts \<Longrightarrow> strip (join_spaces ts) = join_spaces ts"
proof (cases "ts = []")
  case False
  assume plain: "list_all plain ts"
  note ends = join_ends [OF plain False]
  have "plain (hd ts)" "plain (last ts)" using plain False by (auto simp: list_all_iff)
  then show ?thesis using ends plain_ends by (intro strip_plain_ends) auto
qed (simp add: join_spaces_Cons strip_def)

lemma split_strip_join: "list_all plain ts \<Longrightarrow> shlex_split (strip (join_spaces ts)) = Inr ts"
  by (simp add: strip_join shlex_split_def split_join)

section \<open>Printed bounds are read back\<close>

lemma digit_char:
  fixes d :: nat
  assumes "d < 10"
  shows "of_char (char_of (48 + d) :: char) = 48 + d \<and> is_digit (char_of (48 + d))"
  using assms by (simp add: is_digit_def Let_def)

lemma digits_value_snoc: "digits_value (ds @ [d]) = 10 * digits_value ds + int (of_char d - 48)"
  by (simp add: digits_value_def)

lemma decimal_value: "digits_value (digits 10 n) = int n"
proof (induction n rule: less_induct)
  case (less n)
  show ?case
  proof (cases "n < 10")
    case True
    then show ?thesis using digit_char [of n] by (simp add: digits.simps [of 10 n] digits_value_def Let_def)
  next
    case False
    then have "digits 10 n = digits 10 (n div 10) @ [char_of (48 + n mod 10)]"
      by (simp add: digits.simps [of 10 n] Let_def)
    then show ?thesis using less.IH [of "n div 10"] False digit_char [of "n mod 10"]
      by (simp add: digits_value_snoc) presburger
  qed
qed

lemma decimal_digits: "list_all is_digit (digits 10 n) \<and> digits 10 n \<noteq> []"
proof (induction n rule: less_induct)
  case (less n)
  then show ?case using digit_char [of "n mod 10"] less.IH [of "n div 10"]
    by (cases "n < 10") (simp_all add: digits.simps [of 10 n] Let_def)
qed

lemma decimal_head: "0 < n \<Longrightarrow> hd (digits 10 n) \<noteq> CHR ''0''"
proof (induction n rule: less_induct)
  case (less n)
  show ?case
  proof (cases "n < 10")
    case True
    have "(of_char (char_of (48 + n) :: char) :: nat) \<noteq> of_char (CHR ''0'')" using True less.prems by simp
    then have "char_of (48 + n) \<noteq> CHR ''0''" by metis
    then show ?thesis using True by (simp add: digits.simps [of 10 n] Let_def)
  next
    case False
    then show ?thesis using less.IH [of "n div 10"] decimal_digits [of "n div 10"]
      by (simp add: digits.simps [of 10 n] Let_def)
  qed
qed

lemma digit_facts: "is_digit c \<Longrightarrow> c \<noteq> CHR ''m'' \<and> c \<noteq> CHR ''_'' \<and> c \<noteq> CHR ''+'' \<and> c \<noteq> CHR ''-'' \<and> plain_char c"
  by (auto simp: is_digit_def plain_char_def is_space_def lex_quote_def backslash_def Let_def)

lemma takeWhile_digits: "list_all is_digit ds \<Longrightarrow> takeWhile is_digit (ds @ ''m'') = ds \<and> dropWhile is_digit (ds @ ''m'') = ''m''"
  by (induction ds) (simp_all add: is_digit_def)

lemma heap_bound_read:
  "1 \<le> m \<Longrightarrow> heap_mib (''-Xmx'' @ decimal (nat m) @ ''m'') = Inr (Some m)"
  using takeWhile_digits [of "digits 10 (nat m)"] decimal_digits [of "nat m"] decimal_head [of "nat m"]
  by (simp add: heap_mib_def has_prefix_def decimal_def decimal_value)

lemma digits_read:
  assumes "list_all is_digit ds" "ds \<noteq> []"
  shows "py_int ds = Some (digits_value ds)"
proof -
  from assms obtain c cs where ds: "ds = c # cs" "is_digit c" by (cases ds) auto
  have under: "(a, b) \<in> set (zip ds (tl ds)) \<Longrightarrow> a \<noteq> CHR ''_''" for a b
    using assms(1) digit_facts by (auto simp: list_all_iff dest: set_zip_leftD)
  have "\<forall>x\<in>set ds. \<not> is_space x" using assms(1) digit_facts by (auto simp: list_all_iff plain_char_def)
  then have "strip ds = ds" by (rule strip_no_space)
  moreover have "int_digits ds"
    using assms under by (auto simp: int_digits_def list_all_iff)
  moreover have "filter is_digit ds = ds" using assms(1) by (simp add: list_all_iff)
  ultimately show ?thesis using digit_facts [OF ds(2)] ds(1)
    by (simp add: py_int_def)
qed

lemma core_bound_read:
  "0 \<le> c \<Longrightarrow> py_int (after_equals (''-Dcpu.core.limit='' @ decimal (nat c))) = Some c"
  using digits_read [of "digits 10 (nat c)"] decimal_digits [of "nat c"]
  by (simp add: after_equals_def decimal_def decimal_value)

lemma digits_plain: "list_all plain_char (digits 10 n)"
  using decimal_digits [of n] digit_facts by (auto simp: list_all_iff)

lemma bounds_plain:
  "plain (''-Xmx'' @ decimal n @ ''m'')" "plain (''-Dcpu.core.limit='' @ decimal n)"
  using digits_plain [of n]
  by (simp_all add: plain_def decimal_def) (simp_all add: plain_char_def is_space_def lex_quote_def backslash_def)

lemma bounds_kind:
  "is_heap (''-Xmx'' @ ds)" "\<not> is_core_limit (''-Xmx'' @ ds)"
  "is_core_limit (''-Dcpu.core.limit='' @ ds)" "\<not> is_heap (''-Dcpu.core.limit='' @ ds)"
  by (simp_all add: is_heap_def is_core_limit_def has_prefix_def)

section \<open>What the bounding steps give\<close>

lemma bound_heap_same: "filter is_heap xs = filter is_heap ys \<Longrightarrow> bound_heap h ys = Inr ys \<Longrightarrow> bound_heap h xs = Inr xs"
  by (auto simp: bound_heap_def Let_def and_then_def split: if_splits option.splits sum.splits)

lemma bound_heap_result:
  assumes "bound_heap h parsed = Inr out"
  obtains added where "out = parsed @ added" "list_all plain added" "filter is_core_limit added = []"
    "bound_heap h out = Inr out" "h = None \<longrightarrow> added = []"
    "\<forall>m. h = Some m \<longrightarrow> (\<exists>item. filter is_heap out = [item] \<and> heap_mib item = Inr (Some m))"
proof (cases h)
  case None
  then show ?thesis using assms that [of "[]"] by (simp add: bound_heap_def Let_def split: if_splits)
next
  case (Some m)
  have m: "1 \<le> m" using assms Some by (auto simp: bound_heap_def MIN_GHIDRA_HEAP_MIB_def Let_def split: if_splits)
  show ?thesis
  proof (cases "filter is_heap parsed")
    case Nil
    define item where "item = ''-Xmx'' @ decimal (nat m) @ ''m''"
    have out: "out = parsed @ [item]"
      using assms Some Nil by (auto simp: bound_heap_def item_def Let_def split: if_splits)
    have found: "filter is_heap out = [item]" "heap_mib item = Inr (Some m)"
      using Nil heap_bound_read [OF m] bounds_kind by (simp_all add: out item_def)
    have "bound_heap h out = Inr out"
      using assms found Some by (auto simp: bound_heap_def Let_def and_then_def split: if_splits)
    then show ?thesis
      using that [of "[item]"] out found bounds_plain bounds_kind Some by (simp add: item_def)
  next
    case (Cons item rest)
    then have "rest = []" "heap_mib item = Inr (Some m)" "out = parsed"
      using assms Some by (auto simp: bound_heap_def Let_def and_then_def split: if_splits option.splits sum.splits)
    then show ?thesis using that [of "[]"] assms Some Cons by simp
  qed
qed

lemma bound_cores_result:
  assumes "bound_cores h parsed = Inr out"
  obtains added where "out = parsed @ added" "list_all plain added" "filter is_heap added = []"
    "bound_cores h out = Inr out" "h = None \<longrightarrow> added = []"
    "\<forall>c. h = Some c \<longrightarrow> (\<exists>item. filter is_core_limit out = [item] \<and> py_int (after_equals item) = Some c)"
proof (cases h)
  case None
  then show ?thesis using assms that [of "[]"] by (simp add: bound_cores_def Let_def split: if_splits)
next
  case (Some m)
  have m: "0 \<le> m" using assms Some by (auto simp: bound_cores_def Let_def split: if_splits)
  show ?thesis
  proof (cases "filter is_core_limit parsed")
    case Nil
    define item where "item = ''-Dcpu.core.limit='' @ decimal (nat m)"
    have out: "out = parsed @ [item]"
      using assms Some Nil by (auto simp: bound_cores_def item_def Let_def split: if_splits)
    have found: "filter is_core_limit out = [item]" "py_int (after_equals item) = Some m"
      using Nil core_bound_read [OF m] bounds_kind by (simp_all add: out item_def)
    have "bound_cores h out = Inr out"
      using assms found Some by (auto simp: bound_cores_def Let_def split: if_splits)
    then show ?thesis
      using that [of "[item]"] out found bounds_plain bounds_kind Some by (simp add: item_def)
  next
    case (Cons item rest)
    then have "rest = []" "py_int (after_equals item) = Some m" "out = parsed"
      using assms Some by (auto simp: bound_cores_def Let_def split: if_splits option.splits)
    then show ?thesis using that [of "[]"] assms Some Cons by simp
  qed
qed

lemma java_options_tokens:
  assumes plain: "shlex_split (strip s) = Inr ts" "list_all plain ts"
    and out: "java_options heap cores s = Inr out"
  obtains added where "shlex_split (strip out) = Inr (ts @ added)" "java_options heap cores out = Inr out"
    "heap = None \<and> cores = None \<longrightarrow> added = []"
    "\<forall>m. heap = Some m \<longrightarrow> (\<exists>item. filter is_heap (ts @ added) = [item] \<and> heap_mib item = Inr (Some m))"
    "\<forall>c. cores = Some c \<longrightarrow> (\<exists>item. filter is_core_limit (ts @ added) = [item] \<and> py_int (after_equals item) = Some c)"
proof -
  from out plain(1) obtain mid tokens
    where mid: "bound_heap heap ts = Inr mid" and tokens: "bound_cores cores mid = Inr tokens"
      and join: "out = join_spaces tokens"
    by (auto simp: java_options_def and_then_def split: sum.splits)
  obtain a1 where a1: "mid = ts @ a1" "list_all plain a1" "filter is_core_limit a1 = []"
      "bound_heap heap mid = Inr mid" "heap = None \<longrightarrow> a1 = []"
      "\<forall>m. heap = Some m \<longrightarrow> (\<exists>item. filter is_heap mid = [item] \<and> heap_mib item = Inr (Some m))"
    using bound_heap_result [OF mid] by blast
  obtain a2 where a2: "tokens = mid @ a2" "list_all plain a2" "filter is_heap a2 = []"
      "bound_cores cores tokens = Inr tokens" "cores = None \<longrightarrow> a2 = []"
      "\<forall>c. cores = Some c \<longrightarrow> (\<exists>item. filter is_core_limit tokens = [item] \<and> py_int (after_equals item) = Some c)"
    using bound_cores_result [OF tokens] by blast
  have same: "filter is_heap tokens = filter is_heap mid" using a2 by simp
  have split: "shlex_split (strip out) = Inr tokens"
    unfolding join using plain(2) a1 a2 by (intro split_strip_join) simp
  have again: "bound_heap heap tokens = Inr tokens" using bound_heap_same [OF same a1(4)] .
  have "java_options heap cores out = Inr out"
    using split again a2(4) by (simp add: java_options_def join)
  then show ?thesis using that [of "a1 @ a2"] split a1 a2 same by (simp add: filter_append)
qed

text \<open>\<open>" ".join(shlex.split(...))\<close> drops the quotes: one option with a space in it becomes two.\<close>

lemma quoting_lost:
  "shlex_split ''-Da=\"b c\"'' = Inr [''-Da=b c''] \<and> java_options None None ''-Da=\"b c\"'' = Inr ''-Da=b c''
   \<and> shlex_split ''-Da=b c'' = Inr [''-Da=b'', ''c'']"
  by code_simp

end
