(* ===== verification/Timing.thy ===== *)
theory Timing
  imports Clock
begin

text \<open>
  src/fidb_poc/timing.py: the recorder of a cell's stages (\<open>TimingRecorder\<close>), and what the queue
  accepts of its document (\<open>_validate_cell_timing\<close> of src/fidb_poc/queue_cli.py).  The readings of the
  clocks and of the resource usage are arguments; the callback that forwards an event works on a
  state of its own.
\<close>

section \<open>Stages, statuses and events\<close>

datatype cell_stage =
    REQUEST_VALIDATION | AUTHORITY_RESOLUTION | SOURCE_ACQUIRE | TOOLCHAIN_ACQUIRE
  | EXECUTOR_IMAGE_ACQUIRE | INPUT_VERIFICATION | SOURCE_EXTRACT | TOOLCHAIN_EXTRACT
  | PATCH | CONFIGURE | COMPILE | ARCHIVE_OBJECT_SELECTION
  | ARTIFACT_VALIDATION | GHIDRA_STARTUP | GHIDRA_DIAGNOSTIC_POLICY | GHIDRA_IMPORT_ANALYSIS
  | FID_POPULATION | FID_VALIDATION | FIDB_EXPORT | FIDBF_EXPORT
  | PROVENANCE_SEAL | PUBLICATION

primrec stage_value :: "cell_stage \<Rightarrow> string" where
  "stage_value REQUEST_VALIDATION = ''request-validation''"
| "stage_value AUTHORITY_RESOLUTION = ''authority-resolution''"
| "stage_value SOURCE_ACQUIRE = ''source-acquire''"
| "stage_value TOOLCHAIN_ACQUIRE = ''toolchain-acquire''"
| "stage_value EXECUTOR_IMAGE_ACQUIRE = ''executor-image-acquire''"
| "stage_value INPUT_VERIFICATION = ''input-verification''"
| "stage_value SOURCE_EXTRACT = ''source-extract''"
| "stage_value TOOLCHAIN_EXTRACT = ''toolchain-extract''"
| "stage_value PATCH = ''patch''"
| "stage_value CONFIGURE = ''configure''"
| "stage_value COMPILE = ''compile''"
| "stage_value ARCHIVE_OBJECT_SELECTION = ''archive-object-selection''"
| "stage_value ARTIFACT_VALIDATION = ''artifact-validation''"
| "stage_value GHIDRA_STARTUP = ''ghidra-startup''"
| "stage_value GHIDRA_DIAGNOSTIC_POLICY = ''ghidra-diagnostic-policy''"
| "stage_value GHIDRA_IMPORT_ANALYSIS = ''ghidra-import-analysis''"
| "stage_value FID_POPULATION = ''fid-population''"
| "stage_value FID_VALIDATION = ''fid-validation''"
| "stage_value FIDB_EXPORT = ''fidb-export''"
| "stage_value FIDBF_EXPORT = ''fidbf-export''"
| "stage_value PROVENANCE_SEAL = ''provenance-seal''"
| "stage_value PUBLICATION = ''publication''"

definition CELL_STAGES :: "cell_stage list" where
  "CELL_STAGES =
    [REQUEST_VALIDATION, AUTHORITY_RESOLUTION, SOURCE_ACQUIRE, TOOLCHAIN_ACQUIRE,
     EXECUTOR_IMAGE_ACQUIRE, INPUT_VERIFICATION, SOURCE_EXTRACT, TOOLCHAIN_EXTRACT,
     PATCH, CONFIGURE, COMPILE, ARCHIVE_OBJECT_SELECTION,
     ARTIFACT_VALIDATION, GHIDRA_STARTUP, GHIDRA_DIAGNOSTIC_POLICY, GHIDRA_IMPORT_ANALYSIS,
     FID_POPULATION, FID_VALIDATION, FIDB_EXPORT, FIDBF_EXPORT,
     PROVENANCE_SEAL, PUBLICATION]"

text \<open>\<open>CellStage(value)\<close>.\<close>

definition stage_of :: "string \<Rightarrow> cell_stage option" where
  "stage_of s = find (\<lambda>c. stage_value c = s) CELL_STAGES"

datatype progress_status = STARTED | COMPLETED | FAILED | SKIPPED

primrec status_value :: "progress_status \<Rightarrow> string" where
  "status_value STARTED = ''started''"
| "status_value COMPLETED = ''completed''"
| "status_value FAILED = ''failed''"
| "status_value SKIPPED = ''skipped''"

definition PROGRESS_STATUSES :: "progress_status list" where
  "PROGRESS_STATUSES = [STARTED, COMPLETED, FAILED, SKIPPED]"

record progress_event =
  pg_stage :: cell_stage
  pg_status :: progress_status
  pg_message :: string
  pg_duration_ns :: "int option"
  pg_metrics :: "(string \<times> json) list"
  pg_started_at :: string
  pg_finished_at :: "string option"

section \<open>Resource usage\<close>

text \<open>\<open>_usage()\<close>: processor times in nanoseconds and peak sizes, absent when the call fails.\<close>

record usage =
  us_self_user :: "int option"
  us_self_system :: "int option"
  us_child_user :: "int option"
  us_child_system :: "int option"
  us_self_rss :: "int option"
  us_child_rss :: "int option"

definition usage_difference :: "int option \<Rightarrow> int option \<Rightarrow> int option" where
  "usage_difference start finish =
     (case (start, finish) of (Some s, Some f) \<Rightarrow> Some (max 0 (f - s)) | _ \<Rightarrow> None)"

definition resource_metrics :: "usage \<Rightarrow> usage \<Rightarrow> int \<Rightarrow> int \<Rightarrow> (string \<times> json) list" where
  "resource_metrics before after cpu_before cpu_after =
     [(''process_cpu_duration_ns'', JInt (max 0 (cpu_after - cpu_before))),
      (''self_max_rss_bytes_peak'', opt_int (us_self_rss after)),
      (''child_max_rss_bytes_peak'', opt_int (us_child_rss after)),
      (''self_user_cpu_duration_ns'', opt_int (usage_difference (us_self_user before) (us_self_user after))),
      (''self_system_cpu_duration_ns'', opt_int (usage_difference (us_self_system before) (us_self_system after))),
      (''child_user_cpu_duration_ns'', opt_int (usage_difference (us_child_user before) (us_child_user after))),
      (''child_system_cpu_duration_ns'', opt_int (usage_difference (us_child_system before) (us_child_system after)))]"

section \<open>The recorder\<close>

record recorder =
  tr_terminal :: "progress_event list"
  tr_started_ns :: int
  tr_started_at :: string
  tr_open_stage :: "cell_stage option"

definition new_recorder :: "int \<Rightarrow> string \<Rightarrow> recorder" where
  "new_recorder started_ns started_at =
     \<lparr>tr_terminal = [], tr_started_ns = started_ns, tr_started_at = started_at, tr_open_stage = None\<rparr>"

text \<open>What the recorder reads around one span.\<close>

record span_clock =
  sk_started_at :: string
  sk_started_ns :: int
  sk_cpu_started :: int
  sk_usage_started :: usage
  sk_finished_ns :: int
  sk_usage_finished :: usage
  sk_cpu_finished :: int
  sk_finished_at :: string

definition emit ::
  "('s \<Rightarrow> progress_event \<Rightarrow> unit result \<times> 's) \<Rightarrow> progress_event \<Rightarrow> recorder \<Rightarrow> 's \<Rightarrow> unit result \<times> recorder \<times> 's" where
  "emit callback event r s =
     (let r = (if pg_status event \<noteq> STARTED then r\<lparr>tr_terminal := tr_terminal r @ [event]\<rparr> else r)
      in case callback s event of (answer, s) \<Rightarrow> (answer, r, s))"

text \<open>A dict with the entries of another one set.\<close>

definition merge_metrics :: "(string \<times> json) list \<Rightarrow> (string \<times> json) list \<Rightarrow> (string \<times> json) list" where
  "merge_metrics d new =
     foldl (\<lambda>d (k, v). if k \<in> fst ` set d then map (\<lambda>(k', v'). (k', if k' = k then v else v')) d
                       else d @ [(k, v)]) d new"

definition error_type :: "error \<Rightarrow> string" where
  "error_type e = (case e of
       ValueError _ \<Rightarrow> ''ValueError'' | KeyError _ \<Rightarrow> ''KeyError'' | TypeError _ \<Rightarrow> ''TypeError''
     | CoordinatorError _ \<Rightarrow> ''CoordinatorError'' | LeaseConflictError _ \<Rightarrow> ''LeaseConflictError''
     | IntegrityError _ \<Rightarrow> ''IntegrityError'' | ElfInspectionError _ \<Rightarrow> ''ElfInspectionError''
     | ZeroDivisionError _ \<Rightarrow> ''ZeroDivisionError'' | RemoteApiError _ _ _ \<Rightarrow> ''RemoteApiError''
     | RemoteWorkerError _ \<Rightarrow> ''RemoteWorkerError'' | RuntimeError _ \<Rightarrow> ''RuntimeError''
     | QueueCliError _ \<Rightarrow> ''QueueCliError'' | CellRunnerError _ \<Rightarrow> ''CellRunnerError''
     | CellResolutionError _ \<Rightarrow> ''CellResolutionError''
     | PathologicalCellError _ \<Rightarrow> ''PathologicalCellError'' | OSError _ \<Rightarrow> ''OSError''
     | RetentionError _ \<Rightarrow> ''RetentionError'' | AssertionError _ \<Rightarrow> ''AssertionError''
     | AttributeError _ \<Rightarrow> ''AttributeError'')"

definition error_message :: "error \<Rightarrow> string" where
  "error_message e = (case e of
       ValueError m \<Rightarrow> m | KeyError m \<Rightarrow> [CHR 0x27] @ m @ [CHR 0x27] | TypeError m \<Rightarrow> m | CoordinatorError m \<Rightarrow> m
     | LeaseConflictError m \<Rightarrow> m | IntegrityError m \<Rightarrow> m | ElfInspectionError m \<Rightarrow> m
     | ZeroDivisionError m \<Rightarrow> m | RemoteApiError _ _ m \<Rightarrow> m | RemoteWorkerError m \<Rightarrow> m
     | RuntimeError m \<Rightarrow> m | QueueCliError m \<Rightarrow> m | CellRunnerError m \<Rightarrow> m
     | CellResolutionError m \<Rightarrow> m | PathologicalCellError m \<Rightarrow> m | OSError m \<Rightarrow> m | RetentionError m \<Rightarrow> m
     | AssertionError m \<Rightarrow> m | AttributeError m \<Rightarrow> m)"

text \<open>A span: only one may be open, and it ends with a completed or a failed event.  The body returns
  its outcome and the metrics it has added.\<close>

definition span ::
  "('s \<Rightarrow> progress_event \<Rightarrow> unit result \<times> 's) \<Rightarrow> span_clock \<Rightarrow> cell_stage \<Rightarrow> string \<Rightarrow> (string \<times> json) list
     \<Rightarrow> (recorder \<Rightarrow> 's \<Rightarrow> ('a result \<times> (string \<times> json) list) \<times> recorder \<times> 's)
     \<Rightarrow> recorder \<Rightarrow> 's \<Rightarrow> 'a result \<times> recorder \<times> 's" where
  "span callback k stage message metrics body r s =
     (case tr_open_stage r of
        Some other \<Rightarrow> (Inl (RuntimeError (''timing spans must be sequential; '' @ stage_value other @ '' is open'')), r, s)
      | None \<Rightarrow>
          (case emit callback \<lparr>pg_stage = stage, pg_status = STARTED, pg_message = message, pg_duration_ns = None,
                pg_metrics = metrics, pg_started_at = sk_started_at k, pg_finished_at = None\<rparr>
                (r\<lparr>tr_open_stage := Some stage\<rparr>) s of
             (Inl e, r, s) \<Rightarrow> (Inl e, r\<lparr>tr_open_stage := None\<rparr>, s)
           | (Inr _, r, s) \<Rightarrow>
               (case body r s of
                  ((outcome, added), r, s) \<Rightarrow>
                    let measured = merge_metrics (merge_metrics metrics added)
                          (resource_metrics (sk_usage_started k) (sk_usage_finished k) (sk_cpu_started k) (sk_cpu_finished k));
                        terminal = \<lparr>pg_stage = stage, pg_status = COMPLETED, pg_message = message,
                          pg_duration_ns = Some (max 0 (sk_finished_ns k - sk_started_ns k)),
                          pg_metrics = measured, pg_started_at = sk_started_at k, pg_finished_at = Some (sk_finished_at k)\<rparr>;
                        r = r\<lparr>tr_open_stage := None\<rparr>
                    in case outcome of
                         Inl e \<Rightarrow>
                           (case emit callback (terminal\<lparr>pg_status := FAILED,
                                 pg_message := message @ '': '' @ error_type e @ '': '' @ error_message e,
                                 pg_metrics := merge_metrics measured [(''error_type'', JStr (error_type e))]\<rparr>) r s of
                              (Inl e', r, s) \<Rightarrow> (Inl e', r, s)
                            | (Inr _, r, s) \<Rightarrow> (Inl e, r, s))
                       | Inr x \<Rightarrow>
                           (case emit callback terminal r s of
                              (Inl e', r, s) \<Rightarrow> (Inl e', r, s)
                            | (Inr _, r, s) \<Rightarrow> (Inr x, r, s)))))"

definition skip ::
  "('s \<Rightarrow> progress_event \<Rightarrow> unit result \<times> 's) \<Rightarrow> string \<Rightarrow> cell_stage \<Rightarrow> string \<Rightarrow> (string \<times> json) list
     \<Rightarrow> recorder \<Rightarrow> 's \<Rightarrow> unit result \<times> recorder \<times> 's" where
  "skip callback now stage message metrics r s =
     (case tr_open_stage r of
        Some other \<Rightarrow> (Inl (RuntimeError (''cannot record skipped stage while '' @ stage_value other @ '' is open'')), r, s)
      | None \<Rightarrow> emit callback \<lparr>pg_stage = stage, pg_status = SKIPPED, pg_message = message, pg_duration_ns = Some 0,
            pg_metrics = metrics, pg_started_at = now, pg_finished_at = Some now\<rparr> r s)"

section \<open>The document\<close>

definition TIMING_SCHEMA :: string where "TIMING_SCHEMA = ''fidb-execution-timing/v1''"

definition event_document :: "progress_event \<Rightarrow> json" where
  "event_document e = JObj [(''stage'', JStr (stage_value (pg_stage e))), (''status'', JStr (status_value (pg_status e))),
     (''message'', JStr (pg_message e)), (''started_at'', JStr (pg_started_at e)),
     (''finished_at'', opt_str (pg_finished_at e)), (''duration_ns'', opt_int (pg_duration_ns e)),
     (''metrics'', JObj (pg_metrics e))]"

text \<open>\<open>d[k] = d.get(k, 0) + n\<close>.\<close>

definition add_count :: "string \<Rightarrow> int \<Rightarrow> (string \<times> int) list \<Rightarrow> (string \<times> int) list" where
  "add_count k n d =
     (if k \<in> fst ` set d then map (\<lambda>(k', m). (k', if k' = k then m + n else m)) d else d @ [(k, n)])"

definition no_counts :: "(string \<times> int) list" where
  "no_counts = map (\<lambda>st. (status_value st, 0)) PROGRESS_STATUSES"

definition terminal_counts :: "progress_event list \<Rightarrow> (string \<times> int) list" where
  "terminal_counts events = foldl (\<lambda>d e. add_count (status_value (pg_status e)) 1 d) no_counts events"

definition duration_totals :: "progress_event list \<Rightarrow> (string \<times> int) list" where
  "duration_totals events =
     foldl (\<lambda>d e. case pg_duration_ns e of None \<Rightarrow> d | Some n \<Rightarrow> add_count (stage_value (pg_stage e)) n d) [] events"

definition counts_json :: "(string \<times> int) list \<Rightarrow> json" where
  "counts_json d = JObj (map (map_prod id JInt) d)"

definition timing_policy :: json where
  "timing_policy = JObj [(''wall_clock'', JStr ''UTC RFC3339 timestamps''), (''duration_clock'', JStr ''monotonic_ns''),
     (''resource_scope'', JStr ''worker process and waited-for child processes''),
     (''rss_semantics'', JStr ''peak reading, not a span delta''),
     (''span_order'', JStr ''strictly sequential; one open stage per attempt'')]"

definition timing_document :: "int \<Rightarrow> recorder \<Rightarrow> json" where
  "timing_document finished_ns r =
     JObj [(''schema_version'', JStr TIMING_SCHEMA), (''policy'', timing_policy),
       (''summary'', JObj [(''measurement_started_at'', JStr (tr_started_at r)),
          (''elapsed_before_snapshot_ns'', JInt (max 0 (finished_ns - tr_started_ns r))),
          (''terminal_event_counts'', counts_json (terminal_counts (tr_terminal r))),
          (''stage_duration_ns'', counts_json (duration_totals (tr_terminal r)))]),
       (''spans'', JArr (map event_document (tr_terminal r)))]"

section \<open>What the queue accepts\<close>

text \<open>\<open>==\<close> of two JSON values: dicts without regard to order, numbers by value.\<close>

primrec numbers_as_int :: "json \<Rightarrow> json" where
  "numbers_as_int JNull = JNull"
| "numbers_as_int (JBool b) = JInt (if b then 1 else 0)"
| "numbers_as_int (JInt n) = JInt n"
| "numbers_as_int (JFloat x) = (if of_int \<lfloor>x\<rfloor> = x then JInt \<lfloor>x\<rfloor> else JFloat x)"
| "numbers_as_int (JStr s) = JStr s"
| "numbers_as_int (JArr xs) = JArr (map numbers_as_int xs)"
| "numbers_as_int (JObj kvs) = JObj (map (map_prod id numbers_as_int) kvs)"
| "numbers_as_int JOpaque = JOpaque"

definition py_equal :: "json option \<Rightarrow> json option \<Rightarrow> bool" where
  "py_equal a b = (let normal = (\<lambda>v. sort_keys (numbers_as_int (opt_json v))) in normal a = normal b)"

lemma py_equal_refl [simp]: "py_equal a a"
  by (simp add: py_equal_def)

definition timing_integer :: "json option \<Rightarrow> string \<Rightarrow> int result" where
  "timing_integer v label =
     (case v of
        Some (JInt n) \<Rightarrow> if n < 0 \<or> n > MAX_DURATION_NS
          then Inl (QueueCliError (label @ '' must be an integer between 0 and 9223372036854775807'')) else Inr n
      | _ \<Rightarrow> Inl (QueueCliError (label @ '' must be an integer between 0 and 9223372036854775807'')))"

definition utc_timing_timestamp :: "iso_parser \<Rightarrow> json option \<Rightarrow> string \<Rightarrow> string result" where
  "utc_timing_timestamp parse v label =
     (let refused = Inl (QueueCliError (label @ '' must be a UTC RFC3339 timestamp''))
      in case v of
           Some (JStr s) \<Rightarrow>
             if \<not> ends_with s ''Z'' then refused
             else (case parse (butlast s @ ''+00:00'') of
                     Some (wall, Some offset) \<Rightarrow> if offset \<noteq> 0 then refused else Inr s
                   | _ \<Rightarrow> refused)
         | _ \<Rightarrow> refused)"

type_synonym tallies = "(string \<times> int) list \<times> (string \<times> int) list"

text \<open>One span of a successful cell, added to the tallies.\<close>

definition check_span :: "iso_parser \<Rightarrow> string \<Rightarrow> json \<Rightarrow> tallies \<Rightarrow> tallies result" where
  "check_span parse label v tallies =
     (case v of
        JObj entry \<Rightarrow>
          (let get = map_of entry
           in and_then (case get ''stage'' of
                Some (JStr value) \<Rightarrow> (case stage_of value of
                    Some c \<Rightarrow> Inr c | None \<Rightarrow> Inl (QueueCliError (label @ '' has an invalid stage'')))
              | _ \<Rightarrow> Inl (QueueCliError (label @ '' has an invalid stage''))) (\<lambda>stage.
              if stage = PUBLICATION then Inl (QueueCliError (label @ '' cannot contain the publication stage''))
              else and_then (case get ''status'' of
                  Some (JStr st) \<Rightarrow>
                    if st \<notin> set [''completed'', ''failed'', ''skipped'']
                    then Inl (QueueCliError (label @ '' does not have a terminal status''))
                    else if st = ''failed'' then Inl (QueueCliError ''a successful cell result cannot contain a failed span'')
                    else Inr st
                | Some (JArr _) \<Rightarrow> Inl (TypeError ''unhashable type: list'')
                | Some (JObj _) \<Rightarrow> Inl (TypeError ''unhashable type: dict'')
                | _ \<Rightarrow> Inl (QueueCliError (label @ '' does not have a terminal status''))) (\<lambda>status.
              and_then (require (case get ''message'' of Some (JStr m) \<Rightarrow> m \<noteq> [] | _ \<Rightarrow> False)
                (QueueCliError (label @ '' must contain a message''))) (\<lambda>_.
              and_then (utc_timing_timestamp parse (get ''started_at'') (label @ '' started_at'')) (\<lambda>started_at.
              and_then (utc_timing_timestamp parse (get ''finished_at'') (label @ '' finished_at'')) (\<lambda>finished_at.
              and_then (timing_integer (get ''duration_ns'') (label @ '' duration_ns'')) (\<lambda>duration.
              and_then (require (\<not> (status = ''skipped'' \<and> duration \<noteq> 0))
                (QueueCliError (label @ '' has a non-zero skipped duration''))) (\<lambda>_.
              and_then (require (\<not> (status = ''skipped'' \<and> started_at \<noteq> finished_at))
                (QueueCliError (label @ '' has unequal skipped timestamps''))) (\<lambda>_.
              and_then (require (case get ''metrics'' of Some (JObj _) \<Rightarrow> True | _ \<Rightarrow> False)
                (QueueCliError (label @ '' metrics must be an object''))) (\<lambda>_.
              Inr (add_count status 1 (fst tallies), add_count (stage_value stage) duration (snd tallies)))))))))))
            )
      | _ \<Rightarrow> Inl (QueueCliError (label @ '' must be an object'')))"

fun check_spans :: "iso_parser \<Rightarrow> nat \<Rightarrow> json list \<Rightarrow> tallies \<Rightarrow> tallies result" where
  "check_spans parse i [] tallies = Inr tallies"
| "check_spans parse i (v # vs) tallies =
     and_then (check_span parse (''cell timing span '' @ decimal i) v tallies) (check_spans parse (Suc i) vs)"

definition validate_cell_timing :: "iso_parser \<Rightarrow> json option \<Rightarrow> unit result" where
  "validate_cell_timing parse timing =
     (case timing of
        Some (JObj document) \<Rightarrow>
          and_then (require (map_of document ''schema_version'' = Some (JStr TIMING_SCHEMA))
            (QueueCliError ''cell result is missing valid execution timing provenance'')) (\<lambda>_.
          and_then (require (serializable (JObj document))
            (QueueCliError ''cell execution timing provenance is not valid JSON'')) (\<lambda>_.
          and_then (require (case map_of document ''policy'' of
                Some (JObj policy) \<Rightarrow> map_of policy ''duration_clock'' = Some (JStr ''monotonic_ns'') | _ \<Rightarrow> False)
            (QueueCliError ''cell execution timing has an invalid duration policy'')) (\<lambda>_.
          and_then (case map_of document ''summary'' of Some (JObj summary) \<Rightarrow> Inr (map_of summary)
              | _ \<Rightarrow> Inl (QueueCliError ''cell execution timing is missing its summary'')) (\<lambda>summary.
          and_then (utc_timing_timestamp parse (summary ''measurement_started_at'')
            ''cell timing measurement_started_at'') (\<lambda>_.
          and_then (timing_integer (summary ''elapsed_before_snapshot_ns'')
            ''cell timing elapsed_before_snapshot_ns'') (\<lambda>_.
          and_then (case map_of document ''spans'' of
                Some (JArr (v # vs)) \<Rightarrow> Inr (v # vs)
              | _ \<Rightarrow> Inl (QueueCliError ''cell result is missing terminal execution timing spans'')) (\<lambda>spans.
          and_then (check_spans parse 0 spans (no_counts, [])) (\<lambda>(status_counts, duration_totals).
          and_then (require (jget (last spans) ''stage'' = Some (JStr (stage_value PROVENANCE_SEAL))
                \<and> jget (last spans) ''status'' = Some (JStr ''completed''))
            (QueueCliError ''cell execution timing must end with a completed provenance-seal span'')) (\<lambda>_.
          and_then (require (py_equal (summary ''terminal_event_counts'') (Some (counts_json status_counts)))
            (QueueCliError ''cell execution timing summary counts do not match its spans'')) (\<lambda>_.
          require (py_equal (summary ''stage_duration_ns'') (Some (counts_json duration_totals)))
            (QueueCliError ''cell execution timing summary durations do not match its spans'')))))))))))
      | _ \<Rightarrow> Inl (QueueCliError ''cell result is missing valid execution timing provenance''))"

section \<open>What the recorder records\<close>

definition utc_text :: "iso_parser \<Rightarrow> string \<Rightarrow> bool" where
  "utc_text parse s \<longleftrightarrow> ends_with s ''Z'' \<and> (\<exists>wall. parse (butlast s @ ''+00:00'') = Some (wall, Some 0))"

definition metrics_ok :: "(string \<times> json) list \<Rightarrow> bool" where
  "metrics_ok m \<longleftrightarrow> serializable (JObj m)"

text \<open>A terminal event as the recorder makes it.\<close>

definition terminal_event :: "iso_parser \<Rightarrow> progress_event \<Rightarrow> bool" where
  "terminal_event parse e \<longleftrightarrow> pg_status e \<noteq> STARTED \<and> pg_message e \<noteq> [] \<and> metrics_ok (pg_metrics e)
     \<and> utc_text parse (pg_started_at e)
     \<and> (\<exists>n t. pg_duration_ns e = Some n \<and> 0 \<le> n \<and> n \<le> MAX_DURATION_NS \<and> pg_finished_at e = Some t \<and> utc_text parse t
          \<and> (pg_status e = SKIPPED \<longrightarrow> n = 0 \<and> t = pg_started_at e))"

definition clock_ok :: "iso_parser \<Rightarrow> span_clock \<Rightarrow> bool" where
  "clock_ok parse k \<longleftrightarrow> utc_text parse (sk_started_at k) \<and> utc_text parse (sk_finished_at k)
     \<and> sk_finished_ns k - sk_started_ns k \<le> MAX_DURATION_NS"

lemma stage_of_value [simp]: "stage_of (stage_value c) = Some c"
  by (cases c) (simp_all add: stage_of_def CELL_STAGES_def)

lemma merge_metrics_ok: "metrics_ok d \<Longrightarrow> metrics_ok new \<Longrightarrow> metrics_ok (merge_metrics d new)"
proof (induction new arbitrary: d)
  case (Cons kv new)
  obtain k v where kv: "kv = (k, v)" by (cases kv)
  let ?d = "if k \<in> fst ` set d then map (\<lambda>(k', v'). (k', if k' = k then v else v')) d else d @ [(k, v)]"
  have "metrics_ok ?d" using Cons.prems by (auto simp: metrics_ok_def kv)
  moreover have "merge_metrics d (kv # new) = merge_metrics ?d new" by (simp add: merge_metrics_def kv)
  ultimately show ?case using Cons.IH [of ?d] Cons.prems(2) by (simp add: metrics_ok_def)
qed (simp add: merge_metrics_def)

lemma resource_metrics_ok: "metrics_ok (resource_metrics b a c d)"
  by (simp add: metrics_ok_def resource_metrics_def opt_int_def split: option.splits)

text \<open>Everything the recorder's operations can lead to, when the clocks behave and the bodies leave the
  recorder alone.\<close>

inductive recorded ::
  "iso_parser \<Rightarrow> ('s \<Rightarrow> progress_event \<Rightarrow> unit result \<times> 's) \<Rightarrow> recorder \<Rightarrow> bool" for parse callback where
  start: "utc_text parse began \<Longrightarrow> recorded parse callback (new_recorder ns began)"
| span: "recorded parse callback r \<Longrightarrow> clock_ok parse k \<Longrightarrow> message \<noteq> [] \<Longrightarrow> metrics_ok metrics \<Longrightarrow>
    (\<And>r s. \<exists>outcome added s'. body r s = ((outcome, added), r, s') \<and> metrics_ok added) \<Longrightarrow>
    span callback k stage message metrics body r s = ((outcome :: unit result), r', s') \<Longrightarrow> recorded parse callback r'"
| skip: "recorded parse callback r \<Longrightarrow> utc_text parse now \<Longrightarrow> message \<noteq> [] \<Longrightarrow> metrics_ok metrics \<Longrightarrow>
    skip callback now stage message metrics r s = (outcome, r', s') \<Longrightarrow> recorded parse callback r'"

definition recorder_ok :: "iso_parser \<Rightarrow> recorder \<Rightarrow> bool" where
  "recorder_ok parse r \<longleftrightarrow> tr_open_stage r = None \<and> utc_text parse (tr_started_at r)
     \<and> list_all (terminal_event parse) (tr_terminal r)"

lemma emit_eq:
  "emit callback e r s = (fst (callback s e),
     if pg_status e \<noteq> STARTED then r\<lparr>tr_terminal := tr_terminal r @ [e]\<rparr> else r, snd (callback s e))"
  by (simp add: emit_def Let_def split: prod.splits)

text \<open>A span appends one terminal event, or none when its start could not be announced.\<close>

lemma span_terminal:
  assumes "tr_open_stage r = None"
    and body: "\<And>r s. \<exists>outcome added s'. body r s = ((outcome, added), r, s') \<and> metrics_ok added"
    and "span callback k stage message metrics body r s = (result, r', s')"
  shows "tr_open_stage r' = None \<and> tr_started_at r' = tr_started_at r \<and>
    (r' = r \<or> (\<exists>e added. tr_terminal r' = tr_terminal r @ [e] \<and> pg_stage e = stage \<and> metrics_ok added
       \<and> pg_status e \<in> {COMPLETED, FAILED} \<and> (message \<noteq> [] \<longrightarrow> pg_message e \<noteq> [])
       \<and> pg_duration_ns e = Some (max 0 (sk_finished_ns k - sk_started_ns k))
       \<and> pg_started_at e = sk_started_at k \<and> pg_finished_at e = Some (sk_finished_at k)
       \<and> (metrics_ok metrics \<longrightarrow> metrics_ok (pg_metrics e))))"
proof -
  let ?r = "r\<lparr>tr_open_stage := Some stage\<rparr>"
  let ?s = "snd (callback s \<lparr>pg_stage = stage, pg_status = STARTED, pg_message = message, pg_duration_ns = None,
                pg_metrics = metrics, pg_started_at = sk_started_at k, pg_finished_at = None\<rparr>)"
  obtain outcome added t where b: "body ?r ?s = ((outcome, added), ?r, t)" and added: "metrics_ok added"
    using body by blast
  have failed: "metrics_ok [(''error_type'', JStr x)]" for x by (simp add: metrics_ok_def)
  have same: "r\<lparr>tr_open_stage := None\<rparr> = r" using assms(1) by simp
  show ?thesis using assms(1,3) b added same
    by (auto simp: span_def emit_eq Let_def merge_metrics_ok resource_metrics_ok failed
        split: sum.splits prod.splits)
qed

lemma recorded_ok: "recorded parse callback r \<Longrightarrow> recorder_ok parse r"
proof (induction rule: recorded.induct)
  case (span r k message metrics body stage s result r' s')
  have "tr_open_stage r = None" using span.IH by (simp add: recorder_ok_def)
  from span_terminal [OF this span.hyps(5,6)] span.IH span.hyps(2-4)
  show ?case by (auto simp: recorder_ok_def terminal_event_def clock_ok_def)
next
  case (skip r now message metrics stage s outcome r' s')
  then show ?case
    by (auto simp: recorder_ok_def skip_def emit_eq terminal_event_def)
qed (simp add: recorder_ok_def new_recorder_def)

section \<open>The queue accepts what the recorder records\<close>

text \<open>An event a successful cell may contain.\<close>

definition accepted_event :: "iso_parser \<Rightarrow> progress_event \<Rightarrow> bool" where
  "accepted_event parse e \<longleftrightarrow> terminal_event parse e \<and> pg_status e \<noteq> FAILED \<and> pg_stage e \<noteq> PUBLICATION"

definition tally :: "progress_event \<Rightarrow> tallies \<Rightarrow> tallies" where
  "tally e t = (add_count (status_value (pg_status e)) 1 (fst t),
     case pg_duration_ns e of None \<Rightarrow> snd t | Some n \<Rightarrow> add_count (stage_value (pg_stage e)) n (snd t))"

lemma fold_tally:
  "foldl (\<lambda>t e. tally e t) (c, d) events =
     (foldl (\<lambda>d e. add_count (status_value (pg_status e)) 1 d) c events,
      foldl (\<lambda>d e. case pg_duration_ns e of None \<Rightarrow> d | Some n \<Rightarrow> add_count (stage_value (pg_stage e)) n d) d events)"
  by (induction events arbitrary: c d) (simp_all add: tally_def split: option.split)

lemma utc_timing_Inr: "utc_timing_timestamp parse v label = Inr s \<longleftrightarrow> v = Some (JStr s) \<and> utc_text parse s"
  by (auto simp: utc_timing_timestamp_def utc_text_def Let_def split: option.splits json.splits if_splits)

lemma timing_integer_Inr: "timing_integer v label = Inr n \<longleftrightarrow> v = Some (JInt n) \<and> 0 \<le> n \<and> n \<le> MAX_DURATION_NS"
  by (auto simp: timing_integer_def split: option.splits json.splits if_splits)

lemma check_event:
  assumes "accepted_event parse e"
  shows "check_span parse label (event_document e) t = Inr (tally e t)"
proof -
  from assms obtain n finished where e: "pg_duration_ns e = Some n" "0 \<le> n" "n \<le> MAX_DURATION_NS"
      "pg_finished_at e = Some finished" "utc_text parse finished" "utc_text parse (pg_started_at e)"
      "pg_status e = SKIPPED \<longrightarrow> n = 0 \<and> finished = pg_started_at e" "pg_message e \<noteq> []" "pg_stage e \<noteq> PUBLICATION"
      "pg_status e = COMPLETED \<or> pg_status e = SKIPPED"
    by (cases "pg_status e") (auto simp: accepted_event_def terminal_event_def)
  have times: "utc_timing_timestamp parse (Some (JStr finished)) l = Inr finished"
      "utc_timing_timestamp parse (Some (JStr (pg_started_at e))) l = Inr (pg_started_at e)"
      "timing_integer (Some (JInt n)) l = Inr n" for l
    using e by (simp_all add: utc_timing_Inr timing_integer_Inr)
  show ?thesis using e times
    by (auto simp: check_span_def event_document_def tally_def Let_def opt_int_def opt_str_def)
qed

lemma check_events:
  "list_all (accepted_event parse) events \<Longrightarrow>
     check_spans parse i (map event_document events) t = Inr (foldl (\<lambda>t e. tally e t) t events)"
  by (induction events arbitrary: i t) (simp_all add: check_event)

lemma serializable_opt: "serializable (opt_int v)" "serializable (opt_str w)"
  by (simp_all add: opt_int_def opt_str_def split: option.splits)

lemma timing_document_serializable:
  "list_all (\<lambda>e. metrics_ok (pg_metrics e)) (tr_terminal r) \<Longrightarrow> serializable (timing_document finished r)"
  by (auto simp: timing_document_def timing_policy_def counts_json_def event_document_def metrics_ok_def
      list_all_iff serializable_opt)

text \<open>A recorder whose last span is the completed seal and that neither failed nor published.\<close>

definition sealed :: "recorder \<Rightarrow> bool" where
  "sealed r \<longleftrightarrow> tr_terminal r \<noteq> [] \<and> pg_stage (last (tr_terminal r)) = PROVENANCE_SEAL
     \<and> pg_status (last (tr_terminal r)) = COMPLETED
     \<and> list_all (\<lambda>e. pg_status e \<noteq> FAILED \<and> pg_stage e \<noteq> PUBLICATION) (tr_terminal r)"

lemma sealed_accepted:
  assumes "recorder_ok parse r" "sealed r" "finished_ns - tr_started_ns r \<le> MAX_DURATION_NS"
  shows "validate_cell_timing parse (Some (timing_document finished_ns r)) = Inr ()"
proof -
  let ?es = "tr_terminal r"
  have accepted: "list_all (accepted_event parse) ?es"
    using assms by (auto simp: recorder_ok_def sealed_def accepted_event_def list_all_iff)
  have nonempty: "?es \<noteq> []" using assms(2) by (simp add: sealed_def)
  then obtain v vs where spans: "map event_document ?es = v # vs" by (cases ?es) auto
  have last: "last (v # vs) = event_document (last ?es)" using nonempty by (simp add: spans [symmetric] last_map)
  have ends: "jget (event_document (last ?es)) ''stage'' = Some (JStr (stage_value PROVENANCE_SEAL))"
      "jget (event_document (last ?es)) ''status'' = Some (JStr ''completed'')"
    using assms(2) by (simp_all add: sealed_def event_document_def)
  have check: "check_spans parse 0 (v # vs) (no_counts, []) = Inr (terminal_counts ?es, duration_totals ?es)"
    using check_events [OF accepted, of 0 "(no_counts, [])"]
    by (simp add: spans [symmetric] fold_tally terminal_counts_def duration_totals_def)
  have "list_all (\<lambda>e. metrics_ok (pg_metrics e)) ?es"
    using accepted by (auto simp: list_all_iff accepted_event_def terminal_event_def)
  then have dump: "serializable (timing_document finished_ns r)" by (rule timing_document_serializable)
  have began: "utc_timing_timestamp parse (Some (JStr (tr_started_at r))) l = Inr (tr_started_at r)" for l
    using assms(1) by (simp add: utc_timing_Inr recorder_ok_def)
  have elapsed: "timing_integer (Some (JInt (max 0 (finished_ns - tr_started_ns r)))) l
      = Inr (max 0 (finished_ns - tr_started_ns r))" for l
    using assms(3) by (simp add: timing_integer_Inr)
  show ?thesis
    using dump check ends last began elapsed unfolding timing_document_def spans
    by (simp add: validate_cell_timing_def timing_policy_def)
qed

end
