(* ===== verification/Remote_Uploads.thy ===== *)
theory Remote_Uploads
  imports Validators "HOL-Library.Word"
begin

text \<open>
  The artifact transfer of the remote workers: \<open>_store_upload\<close> and \<open>_store_upload_chunk\<close> of
  src/fidb_poc/remote_api.py on the side of the coordinator, and the loop \<open>_upload\<close> of
  src/fidb_poc/remote_worker.py on the side of the worker.  The state is that of one artifact in
  the staging directory of an attempt: the finished file, the partial file and its metadata file.
  A call is the sequence of durable writes it makes, and its answer; a crash cuts the sequence, and
  may tear the append it falls into.  SHA-256 is an argument, and so is the size limit.  No path of
  the staging directory is a symbolic link or a directory.
\<close>

section \<open>The files of one artifact\<close>

type_synonym bytes = "8 word list"

record upload_metadata =
  um_path :: string
  um_sha256 :: string
  um_bytes :: int

text \<open>The metadata file was created but not yet written, or holds the document.\<close>

datatype metadata_text = Torn | Document upload_metadata

record upload_files =
  uf_destination :: "bytes option"
  uf_partial :: "bytes option"
  uf_metadata :: "metadata_text option"

definition no_files :: upload_files where
  "no_files = \<lparr>uf_destination = None, uf_partial = None, uf_metadata = None\<rparr>"

datatype durable =
    Create_Metadata
  | Write_Metadata upload_metadata
  | Touch_Partial
  | Append bytes
  | Promote
  | Drop_Partial
  | Drop_Metadata
  | Place bytes

fun durable_step :: "durable \<Rightarrow> upload_files \<Rightarrow> upload_files" where
  "durable_step Create_Metadata fs = fs\<lparr>uf_metadata := Some Torn\<rparr>"
| "durable_step (Write_Metadata m) fs = fs\<lparr>uf_metadata := Some (Document m)\<rparr>"
| "durable_step Touch_Partial fs =
     fs\<lparr>uf_partial := Some (case uf_partial fs of None \<Rightarrow> [] | Some p \<Rightarrow> p)\<rparr>"
| "durable_step (Append content) fs =
     fs\<lparr>uf_partial := Some ((case uf_partial fs of None \<Rightarrow> [] | Some p \<Rightarrow> p) @ content)\<rparr>"
| "durable_step Promote fs = fs\<lparr>uf_destination := uf_partial fs, uf_partial := None\<rparr>"
| "durable_step Drop_Partial fs = fs\<lparr>uf_partial := None\<rparr>"
| "durable_step Drop_Metadata fs = fs\<lparr>uf_metadata := None\<rparr>"
| "durable_step (Place content) fs = fs\<lparr>uf_destination := Some content\<rparr>"

definition durable_steps :: "durable list \<Rightarrow> upload_files \<Rightarrow> upload_files" where
  "durable_steps writes fs = fold durable_step writes fs"

text \<open>What a crash leaves of a sequence of writes: the first \<open>k\<close>, and \<open>n\<close> bytes of an append.\<close>

definition cut_writes :: "durable list \<Rightarrow> nat \<Rightarrow> nat \<Rightarrow> durable list" where
  "cut_writes writes k n =
     take k writes @ (case drop k writes of Append content # _ \<Rightarrow> [Append (take n content)] | _ \<Rightarrow> [])"

lemma durable_steps_simps [simp]:
  "durable_steps [] fs = fs" "durable_steps (w # ws) fs = durable_steps ws (durable_step w fs)"
  "durable_steps (ws @ ws') fs = durable_steps ws' (durable_steps ws fs)"
  by (simp_all add: durable_steps_def)

lemma cut_writes_all: "length writes \<le> k \<Longrightarrow> cut_writes writes k n = writes"
  by (simp add: cut_writes_def)

section \<open>The coordinator's side\<close>

definition MAX_CHUNK_BYTES :: nat where "MAX_CHUNK_BYTES = 8 * 1024 * 1024"
definition MAX_ARTIFACT_BYTES :: nat where "MAX_ARTIFACT_BYTES = 4 * 1024 * 1024 * 1024"

text \<open>\<open>_TOKEN_DIGEST.fullmatch\<close>.\<close>

definition token_digest :: "string \<Rightarrow> bool" where
  "token_digest s \<longleftrightarrow> length s = 64 \<and> list_all (\<lambda>c. c \<in> set ''0123456789abcdef'') s"

record acknowledgement =
  ack_path :: string
  ack_sha256 :: string
  ack_bytes :: nat
  ack_next_offset :: nat
  ack_complete :: bool

abbreviation conflict :: "string \<Rightarrow> string \<Rightarrow> error" where
  "conflict code message \<equiv> RemoteApiError 409 code message"

definition store_upload ::
  "(bytes \<Rightarrow> string) \<Rightarrow> nat \<Rightarrow> upload_files \<Rightarrow> string \<Rightarrow> bytes \<Rightarrow> string
     \<Rightarrow> durable list \<times> (string \<times> string \<times> nat) result" where
  "store_upload sha256 max_artifact_bytes fs relative content expected_sha256 =
     (let digest = sha256 content; answer = (relative, digest, length content)
      in if length content > max_artifact_bytes
         then ([], Inl (RemoteApiError 413 ''artifact-too-large'' ''remote artifact exceeds the configured limit''))
         else if \<not> token_digest expected_sha256 \<or> digest \<noteq> expected_sha256
         then ([], Inl (RemoteApiError 400 ''digest-mismatch'' ''remote artifact digest mismatch''))
         else case uf_destination fs of
           Some stored \<Rightarrow>
             ([], if sha256 stored = digest then Inr answer
                  else Inl (conflict ''artifact-conflict'' ''artifact upload already exists''))
         | None \<Rightarrow> ([Place content], Inr answer))"

text \<open>The checks of \<open>_store_upload_chunk\<close> before it touches a file: size, offset and finality.\<close>

definition chunk_arguments ::
  "(bytes \<Rightarrow> string) \<Rightarrow> nat \<Rightarrow> bytes \<Rightarrow> string \<Rightarrow> json option \<Rightarrow> json option \<Rightarrow> string \<Rightarrow> json option
     \<Rightarrow> (nat \<times> nat \<times> bool) result" where
  "chunk_arguments sha256 max_artifact_bytes content artifact_sha256 artifact_bytes offset chunk_sha256 final =
     and_then (case artifact_bytes of
         Some (JInt n) \<Rightarrow> if 0 < n \<and> n \<le> int max_artifact_bytes then Inr (nat n)
           else Inl (RemoteApiError 413 ''artifact-too-large'' ''remote artifact size is invalid or exceeds the configured limit'')
       | _ \<Rightarrow> Inl (RemoteApiError 413 ''artifact-too-large'' ''remote artifact size is invalid or exceeds the configured limit''))
     (\<lambda>size. and_then (case offset of
         Some (JInt n) \<Rightarrow> if 0 \<le> n \<and> n < int size then Inr (nat n)
           else Inl (RemoteApiError 400 ''invalid-offset'' ''artifact chunk offset is invalid'')
       | _ \<Rightarrow> Inl (RemoteApiError 400 ''invalid-offset'' ''artifact chunk offset is invalid''))
     (\<lambda>start. and_then (require (content \<noteq> [] \<and> length content \<le> MAX_CHUNK_BYTES \<and> start + length content \<le> size)
         (RemoteApiError 413 ''chunk-too-large'' ''artifact chunk is empty, oversized, or exceeds the declared artifact''))
     (\<lambda>_. and_then (require (final = Some (JBool (start + length content = size)))
         (RemoteApiError 400 ''invalid-final-chunk'' ''final must identify exactly the last artifact chunk''))
     (\<lambda>_. and_then (require (token_digest chunk_sha256 \<and> sha256 content = chunk_sha256 \<and> token_digest artifact_sha256)
         (RemoteApiError 400 ''digest-mismatch'' ''artifact chunk digest mismatch''))
     (\<lambda>_. Inr (size, start, start + length content = size))))))"

text \<open>The partial file must belong to this artifact; a first chunk creates it.\<close>

definition open_partial :: "upload_files \<Rightarrow> upload_metadata \<Rightarrow> nat \<Rightarrow> durable list result" where
  "open_partial fs expected_metadata offset =
     (if uf_partial fs \<noteq> None \<or> uf_metadata fs \<noteq> None
      then if uf_partial fs = None \<or> uf_metadata fs = None
           then Inl (conflict ''artifact-conflict'' ''partial artifact upload is inconsistent'')
           else if uf_metadata fs = Some Torn
           then Inl (conflict ''artifact-conflict'' ''partial artifact metadata is invalid'')
           else if uf_metadata fs \<noteq> Some (Document expected_metadata)
           then Inl (conflict ''artifact-conflict'' ''partial artifact identity changed'')
           else Inr []
      else if offset = 0 then Inr [Create_Metadata, Write_Metadata expected_metadata, Touch_Partial]
      else Inl (conflict ''artifact-offset-conflict'' ''artifact upload must begin at offset zero''))"

text \<open>A chunk at the durable offset is appended, one before it must repeat the stored bytes.\<close>

definition append_chunk :: "bytes \<Rightarrow> nat \<Rightarrow> bytes \<Rightarrow> durable list result" where
  "append_chunk stored offset content =
     (if length stored < offset
      then Inl (conflict ''artifact-offset-conflict'' ''artifact chunk begins after the durable upload offset'')
      else if length stored > offset
      then if take (length content) (drop offset stored) \<noteq> content
           then Inl (conflict ''artifact-offset-conflict'' ''replayed artifact chunk differs from durable bytes'')
           else Inr []
      else Inr [Append content])"

definition finish_upload ::
  "(bytes \<Rightarrow> string) \<Rightarrow> bytes \<Rightarrow> nat \<Rightarrow> string \<Rightarrow> durable list \<times> unit result" where
  "finish_upload sha256 stored artifact_bytes artifact_sha256 =
     (if length stored \<noteq> artifact_bytes
      then ([], Inl (conflict ''artifact-offset-conflict'' ''final artifact is not durably complete''))
      else if sha256 stored \<noteq> artifact_sha256
      then ([Drop_Partial, Drop_Metadata],
            Inl (RemoteApiError 400 ''digest-mismatch'' ''completed remote artifact digest mismatch''))
      else ([Promote, Drop_Metadata], Inr ()))"

definition partial_bytes :: "upload_files \<Rightarrow> bytes" where
  "partial_bytes fs = (case uf_partial fs of None \<Rightarrow> [] | Some p \<Rightarrow> p)"

text \<open>The part of \<open>_store_upload_chunk\<close> under the lock, for checked arguments.\<close>

definition store_chunk ::
  "(bytes \<Rightarrow> string) \<Rightarrow> upload_files \<Rightarrow> string \<Rightarrow> bytes \<Rightarrow> string \<Rightarrow> nat \<Rightarrow> nat \<Rightarrow> bool
     \<Rightarrow> durable list \<times> acknowledgement result" where
  "store_chunk sha256 fs relative content artifact_sha256 artifact_bytes offset final =
     (case uf_destination fs of
        Some stored \<Rightarrow>
          ([], if length stored = artifact_bytes \<and> sha256 stored = artifact_sha256
               then Inr \<lparr>ack_path = relative, ack_sha256 = sha256 stored, ack_bytes = length stored,
                         ack_next_offset = length stored, ack_complete = True\<rparr>
               else Inl (conflict ''artifact-conflict'' ''completed artifact upload already exists with another identity''))
      | None \<Rightarrow>
          (case open_partial fs \<lparr>um_path = relative, um_sha256 = artifact_sha256, um_bytes = int artifact_bytes\<rparr> offset of
             Inl e \<Rightarrow> ([], Inl e)
           | Inr opened \<Rightarrow>
               let stored = partial_bytes (durable_steps opened fs)
               in case append_chunk stored offset content of
                    Inl e \<Rightarrow> (opened, Inl e)
                  | Inr appended \<Rightarrow>
                      let next_offset = max (length stored) (offset + length content);
                          stored' = partial_bytes (durable_steps (opened @ appended) fs);
                          answer = \<lparr>ack_path = relative, ack_sha256 = artifact_sha256, ack_bytes = artifact_bytes,
                                    ack_next_offset = next_offset, ack_complete = final\<rparr>
                      in if final
                         then case finish_upload sha256 stored' artifact_bytes artifact_sha256 of
                           (finished, Inl e) \<Rightarrow> (opened @ appended @ finished, Inl e)
                         | (finished, Inr _) \<Rightarrow> (opened @ appended @ finished, Inr answer)
                         else (opened @ appended, Inr answer)))"

definition store_upload_chunk ::
  "(bytes \<Rightarrow> string) \<Rightarrow> nat \<Rightarrow> upload_files \<Rightarrow> string \<Rightarrow> bytes \<Rightarrow> string \<Rightarrow> json option \<Rightarrow> json option
     \<Rightarrow> string \<Rightarrow> json option \<Rightarrow> durable list \<times> acknowledgement result" where
  "store_upload_chunk sha256 max_artifact_bytes fs relative content artifact_sha256 artifact_bytes offset
       chunk_sha256 final =
     (case chunk_arguments sha256 max_artifact_bytes content artifact_sha256 artifact_bytes offset chunk_sha256 final of
        Inl e \<Rightarrow> ([], Inl e)
      | Inr (whole, start, is_final) \<Rightarrow>
          store_chunk sha256 fs relative content artifact_sha256 whole start is_final)"

section \<open>The worker's side\<close>

record chunk_request =
  cr_sha256 :: string
  cr_bytes :: nat
  cr_offset :: nat
  cr_chunk_sha256 :: string
  cr_content :: bytes
  cr_final :: bool

definition request_of :: "(bytes \<Rightarrow> string) \<Rightarrow> bytes \<Rightarrow> nat \<Rightarrow> chunk_request" where
  "request_of sha256 artifact offset =
     (let content = take MAX_CHUNK_BYTES (drop offset artifact)
      in \<lparr>cr_sha256 = sha256 artifact, cr_bytes = length artifact, cr_offset = offset,
          cr_chunk_sha256 = sha256 content, cr_content = content,
          cr_final = (offset + length content = length artifact)\<rparr>)"

text \<open>\<open>value == n\<close> for a value of the answer, and for its text.\<close>

definition equals_int :: "json option \<Rightarrow> int \<Rightarrow> bool" where
  "equals_int v n = (case v of
       Some (JInt m) \<Rightarrow> m = n
     | Some (JBool b) \<Rightarrow> (if b then 1 else 0) = n
     | Some (JFloat x) \<Rightarrow> x = of_int n
     | _ \<Rightarrow> False)"

datatype upload_turn = Delivered | Refused | Proceed nat

text \<open>What the loop makes of the answer to the chunk at \<open>offset\<close>.\<close>

definition upload_turn :: "chunk_request \<Rightarrow> json option \<Rightarrow> upload_turn" where
  "upload_turn request artifact =
     (case artifact of
        Some (JObj answer) \<Rightarrow>
          let complete = map_of answer ''complete''; next_offset = map_of answer ''next_offset'';
              whole = int (cr_bytes request); expected_offset = int (cr_offset request + length (cr_content request))
          in if complete = Some (JBool True) \<and> equals_int next_offset whole
                \<and> map_of answer ''sha256'' = Some (JStr (cr_sha256 request)) \<and> equals_int (map_of answer ''bytes'') whole
             then Delivered
             else (case next_offset of
                Some (JInt n) \<Rightarrow>
                  if \<not> (expected_offset \<le> n \<and> n \<le> whole) \<or> complete \<noteq> Some (JBool False) then Refused
                  else if n = whole then Proceed (cr_bytes request - MAX_CHUNK_BYTES)
                  else Proceed (nat n)
              | _ \<Rightarrow> Refused)
      | _ \<Rightarrow> Refused)"

text \<open>
  The loop may ask for ever when the other side keeps answering that all bytes have arrived but the
  artifact is not complete; not returning is \<open>None\<close>.
\<close>

partial_function (option) upload_loop ::
  "(bytes \<Rightarrow> string) \<Rightarrow> ('s \<Rightarrow> chunk_request \<Rightarrow> 's \<times> json option result) \<Rightarrow> bytes \<Rightarrow> nat \<Rightarrow> 's
     \<Rightarrow> ('s \<times> unit result) option" where
  "upload_loop sha256 serve artifact offset s =
     (if length artifact \<le> offset then Some (s, Inr ())
      else let request = request_of sha256 artifact offset
           in case serve s request of
                (s', Inl e) \<Rightarrow> Some (s', Inl e)
              | (s', Inr answer) \<Rightarrow>
                  (case upload_turn request answer of
                     Delivered \<Rightarrow> Some (s', Inr ())
                   | Refused \<Rightarrow> Some (s', Inl (RemoteWorkerError ''remote coordinator returned an invalid upload acknowledgement''))
                   | Proceed n \<Rightarrow> upload_loop sha256 serve artifact n s'))"

definition upload ::
  "(bytes \<Rightarrow> string) \<Rightarrow> ('s \<Rightarrow> chunk_request \<Rightarrow> 's \<times> json option result) \<Rightarrow> bytes \<Rightarrow> 's
     \<Rightarrow> ('s \<times> unit result) option" where
  "upload sha256 serve artifact s =
     (if artifact = [] then Some (s, Inl (RemoteWorkerError ''generated artifact is empty''))
      else upload_loop sha256 serve artifact 0 s)"

text \<open>
  The answer on the wire, and a coordinator that serves the chunks of one artifact.  The client
  raises the message of an error answer as its own exception.
\<close>

definition acknowledgement_json :: "acknowledgement \<Rightarrow> json" where
  "acknowledgement_json a = JObj [(''path'', JStr (ack_path a)), (''sha256'', JStr (ack_sha256 a)),
     (''bytes'', JInt (int (ack_bytes a))), (''next_offset'', JInt (int (ack_next_offset a))),
     (''complete'', JBool (ack_complete a))]"

definition client_error :: "error \<Rightarrow> error" where
  "client_error e = (case e of RemoteApiError status code message \<Rightarrow> RemoteWorkerError message | _ \<Rightarrow> e)"

definition serve_chunk ::
  "(bytes \<Rightarrow> string) \<Rightarrow> nat \<Rightarrow> string \<Rightarrow> upload_files \<Rightarrow> chunk_request \<Rightarrow> upload_files \<times> json option result" where
  "serve_chunk sha256 max_artifact_bytes relative fs r =
     (case store_upload_chunk sha256 max_artifact_bytes fs relative (cr_content r) (cr_sha256 r)
             (Some (JInt (int (cr_bytes r)))) (Some (JInt (int (cr_offset r)))) (cr_chunk_sha256 r)
             (Some (JBool (cr_final r))) of
        (writes, Inl e) \<Rightarrow> (durable_steps writes fs, Inl (client_error e))
      | (writes, Inr a) \<Rightarrow> (durable_steps writes fs, Inr (Some (acknowledgement_json a))))"

section \<open>What is stored is what was declared\<close>

lemma cut_writes_append:
  "cut_writes (ws @ ws') k n =
     (if k < length ws then cut_writes ws k n else ws @ cut_writes ws' (k - length ws) n)"
proof (cases "k < length ws")
  case True
  then obtain w rest where "drop k ws = w # rest" by (cases "drop k ws") auto
  then show ?thesis using True by (cases w) (simp_all add: cut_writes_def)
qed (simp add: cut_writes_def)

definition keeps_destination :: "durable \<Rightarrow> bool" where
  "keeps_destination w \<longleftrightarrow> (case w of Promote \<Rightarrow> False | Place _ \<Rightarrow> False | _ \<Rightarrow> True)"

lemma keeps_destination_steps:
  "list_all keeps_destination ws \<Longrightarrow> uf_destination (durable_steps ws fs) = uf_destination fs"
proof (induction ws arbitrary: fs)
  case (Cons w ws)
  then show ?case by (cases w) (auto simp: keeps_destination_def)
qed simp

lemma keeps_destination_cut:
  "list_all keeps_destination ws \<Longrightarrow> list_all keeps_destination (cut_writes ws k n)"
  by (auto simp: cut_writes_def list_all_iff keeps_destination_def
      dest: in_set_takeD split: list.splits durable.splits)

lemma open_partial_Inr:
  "open_partial fs m offset = Inr ws \<longleftrightarrow>
     (ws = [] \<and> uf_partial fs \<noteq> None \<and> uf_metadata fs = Some (Document m)) \<or>
     (ws = [Create_Metadata, Write_Metadata m, Touch_Partial] \<and> uf_partial fs = None \<and> uf_metadata fs = None \<and> offset = 0)"
  by (auto simp: open_partial_def)

lemma append_chunk_Inr:
  "append_chunk stored offset content = Inr ws \<longleftrightarrow>
     (ws = [] \<and> offset < length stored \<and> take (length content) (drop offset stored) = content) \<or>
     (ws = [Append content] \<and> offset = length stored)"
  by (auto simp: append_chunk_def)

lemma chunk_arguments_Inr:
  "chunk_arguments sha256 m content asha whole offset csha final = Inr (n, start, f) \<longleftrightarrow>
     whole = Some (JInt (int n)) \<and> 0 < n \<and> n \<le> m \<and> offset = Some (JInt (int start)) \<and> start < n
     \<and> content \<noteq> [] \<and> length content \<le> MAX_CHUNK_BYTES \<and> start + length content \<le> n
     \<and> f = (start + length content = n) \<and> final = Some (JBool f)
     \<and> token_digest csha \<and> sha256 content = csha \<and> token_digest asha"
  by (auto simp: chunk_arguments_def results simp flip: length_greater_0_conv
      split: option.splits json.splits if_splits)

text \<open>The writes of a chunk: those before the last step keep the finished file, and the last step
  moves the partial file there only when its size and digest are the declared ones.\<close>

lemma store_chunk_writes:
  assumes "store_chunk sha256 fs relative content asha n offset final = (ws, r)"
  obtains (kept) "list_all keeps_destination ws" "\<forall>a. r = Inr a \<longrightarrow> ack_complete a \<longrightarrow>
      (\<exists>stored. ws = [] \<and> uf_destination fs = Some stored \<and> length stored = n \<and> sha256 stored = asha)"
  | (promoted) ws' stored where "ws = ws' @ [Promote, Drop_Metadata]" "list_all keeps_destination ws'"
      "uf_destination fs = None" "uf_partial (durable_steps ws' fs) = Some stored" "length stored = n" "sha256 stored = asha"
proof (cases "uf_destination fs")
  case (Some stored)
  then show ?thesis using assms kept by (auto simp: store_chunk_def split: if_splits)
next
  case None
  let ?m = "\<lparr>um_path = relative, um_sha256 = asha, um_bytes = int n\<rparr>"
  show ?thesis
  proof (cases "open_partial fs ?m offset")
    case (Inl e)
    then show ?thesis using assms None kept by (auto simp: store_chunk_def)
  next
    case (Inr opened)
    have opened: "list_all keeps_destination opened"
      using Inr by (auto simp: open_partial_Inr keeps_destination_def)
    let ?stored = "partial_bytes (durable_steps opened fs)"
    show ?thesis
    proof (cases "append_chunk ?stored offset content")
      case (Inl e)
      then show ?thesis using assms None Inr opened kept by (auto simp: store_chunk_def)
    next
      case appended: (Inr appended)
      have keep: "list_all keeps_destination (opened @ appended)"
        using opened appended by (auto simp: append_chunk_Inr keeps_destination_def)
      let ?files = "durable_steps (opened @ appended) fs"
      have partial: "uf_partial ?files = Some (partial_bytes ?files)"
        using Inr appended by (auto simp: open_partial_Inr append_chunk_Inr partial_bytes_def split: option.splits)
      show ?thesis
      proof (cases "final \<and> length (partial_bytes ?files) = n \<and> sha256 (partial_bytes ?files) = asha")
        case True
        then have "ws = (opened @ appended) @ [Promote, Drop_Metadata]"
          using assms None Inr appended by (auto simp: store_chunk_def finish_upload_def)
        then show ?thesis using promoted [OF _ keep None partial] True by blast
      next
        case False
        then have "list_all keeps_destination ws \<and> (\<forall>a. r = Inr a \<longrightarrow> \<not> ack_complete a)"
          using assms None Inr appended keep
          by (auto simp: store_chunk_def finish_upload_def Let_def keeps_destination_def split: if_splits)
        then show ?thesis using kept by blast
      qed
    qed
  qed
qed

lemma store_upload_chunk_writes:
  assumes "store_upload_chunk sha256 m fs relative content asha whole offset csha final = (ws, r)"
  obtains (refused) e where "ws = []" "r = Inl e"
  | (stored) n start f where "whole = Some (JInt (int n))" "0 < n" "n \<le> m"
      "store_chunk sha256 fs relative content asha n start f = (ws, r)"
  using assms by (auto simp: store_upload_chunk_def chunk_arguments_Inr split: sum.splits)

lemma cut_promotes:
  assumes "list_all keeps_destination ws" "uf_partial (durable_steps ws fs) = Some stored"
  shows "uf_destination (durable_steps (cut_writes (ws @ [Promote, Drop_Metadata]) k j) fs)
     \<in> {uf_destination fs, Some stored}"
proof (cases "k < length ws")
  case True
  then show ?thesis using assms by (simp add: cut_writes_append keeps_destination_steps keeps_destination_cut)
next
  case False
  have "cut_writes [Promote, Drop_Metadata] i j \<in> {[], [Promote], [Promote, Drop_Metadata]}" for i
    by (auto simp: cut_writes_def take_Cons' drop_Cons')
  from this [of "k - length ws"] show ?thesis using False assms
    by (auto simp: cut_writes_append keeps_destination_steps)
qed

text \<open>However a call is cut: a finished artifact is never rewritten, and one that appears has the
  declared digest and the declared size.\<close>

lemma chunk_cut_destination:
  assumes call: "store_upload_chunk sha256 m fs relative content asha whole offset csha final = (ws, r)"
    and cut: "fs' = durable_steps (cut_writes ws k j) fs" and appears: "uf_destination fs' \<noteq> uf_destination fs"
  shows "uf_destination fs = None \<and> (\<exists>stored. uf_destination fs' = Some stored \<and> sha256 stored = asha
     \<and> whole = Some (JInt (int (length stored))) \<and> length stored \<le> m)"
  using call
proof (cases rule: store_upload_chunk_writes)
  case refused
  then show ?thesis using cut appears by (simp add: cut_writes_def)
next
  case (stored n start f)
  from stored(4) show ?thesis
  proof (cases rule: store_chunk_writes)
    case kept
    then show ?thesis using cut appears by (simp add: keeps_destination_steps keeps_destination_cut)
  next
    case (promoted ws' p)
    then show ?thesis using cut_promotes [OF promoted(2,4), of k j] cut appears stored by auto
  qed
qed

text \<open>An answer that says complete is given only when the finished file has the declared identity.\<close>

lemma chunk_complete:
  assumes call: "store_upload_chunk sha256 m fs relative content asha whole offset csha final = (ws, Inr a)"
    and "ack_complete a"
  shows "\<exists>stored. uf_destination (durable_steps ws fs) = Some stored \<and> sha256 stored = asha
     \<and> whole = Some (JInt (int (length stored)))"
  using call
proof (cases rule: store_upload_chunk_writes)
  case (stored n start f)
  from stored(4) show ?thesis
  proof (cases rule: store_chunk_writes)
    case kept
    then show ?thesis using assms(2) stored by auto
  next
    case (promoted ws' p)
    then show ?thesis using stored by simp
  qed
qed simp

section \<open>The transfer delivers the artifact\<close>

definition identity_of :: "(bytes \<Rightarrow> string) \<Rightarrow> string \<Rightarrow> bytes \<Rightarrow> upload_metadata" where
  "identity_of sha256 relative artifact =
     \<lparr>um_path = relative, um_sha256 = sha256 artifact, um_bytes = int (length artifact)\<rparr>"

text \<open>Nothing is stored, or the first bytes of the artifact and its metadata.\<close>

definition holds_prefix :: "(bytes \<Rightarrow> string) \<Rightarrow> string \<Rightarrow> bytes \<Rightarrow> nat \<Rightarrow> upload_files \<Rightarrow> bool" where
  "holds_prefix sha256 relative artifact n fs \<longleftrightarrow>
     n \<le> length artifact \<and> uf_destination fs = None \<and>
     (n = 0 \<and> uf_partial fs = None \<and> uf_metadata fs = None \<or>
      uf_partial fs = Some (take n artifact) \<and> uf_metadata fs = Some (Document (identity_of sha256 relative artifact)))"

abbreviation chunk_length :: "bytes \<Rightarrow> nat \<Rightarrow> nat" where
  "chunk_length artifact offset \<equiv> min MAX_CHUNK_BYTES (length artifact - offset)"

lemma max_chunk_positive: "0 < MAX_CHUNK_BYTES"
  by (simp add: MAX_CHUNK_BYTES_def)

lemma request_accepted:
  assumes "\<forall>x. token_digest (sha256 x)" "offset < length artifact" "length artifact \<le> m"
    "r = request_of sha256 artifact offset"
  shows "chunk_arguments sha256 m (cr_content r) (cr_sha256 r) (Some (JInt (int (cr_bytes r))))
      (Some (JInt (int (cr_offset r)))) (cr_chunk_sha256 r) (Some (JBool (cr_final r)))
    = Inr (length artifact, offset, offset + chunk_length artifact offset = length artifact)"
  unfolding chunk_arguments_Inr using assms max_chunk_positive
  by (auto simp: request_of_def Let_def min_def split: if_splits)

text \<open>One chunk, as the store writes it.\<close>

lemma open_prefix:
  assumes "holds_prefix sha256 relative artifact n fs" "offset \<le> n"
  obtains opened where "open_partial fs (identity_of sha256 relative artifact) offset = Inr opened"
    "uf_partial (durable_steps opened fs) = Some (take n artifact)"
    "uf_metadata (durable_steps opened fs) = Some (Document (identity_of sha256 relative artifact))"
    "uf_destination (durable_steps opened fs) = None"
  using assms by (auto simp: holds_prefix_def open_partial_def)

lemma chunk_of_prefix:
  assumes "offset + k \<le> n"
  shows "take k (drop offset (take n xs)) = take k (drop offset xs)"
  using assms by (simp add: take_drop min_def)

lemma append_prefix:
  assumes "n = offset \<or> offset + chunk_length artifact offset \<le> n" "offset < length artifact" "n \<le> length artifact"
    and files: "uf_partial fs = Some (take n artifact)"
  obtains appended where
    "append_chunk (take n artifact) offset (take MAX_CHUNK_BYTES (drop offset artifact)) = Inr appended"
    "durable_steps appended fs = fs\<lparr>uf_partial := Some (take (max n (offset + chunk_length artifact offset)) artifact)\<rparr>"
proof (cases "n = offset")
  case True
  have "take n artifact @ take MAX_CHUNK_BYTES (drop n artifact) = take (n + chunk_length artifact n) artifact"
    by (auto simp: take_add min_def)
  then show ?thesis using that [of "[Append (take MAX_CHUNK_BYTES (drop offset artifact))]"] True assms
    by (simp add: append_chunk_def)
next
  case False
  let ?k = "chunk_length artifact offset"
  have k: "take ?k (drop offset artifact) = take MAX_CHUNK_BYTES (drop offset artifact)" by (simp add: min_def)
  have "offset < n" using False assms(1,2) max_chunk_positive by auto
  moreover have "take ?k (drop offset (take n artifact)) = take ?k (drop offset artifact)"
    using False assms(1) by (intro chunk_of_prefix) simp
  ultimately have "append_chunk (take n artifact) offset (take MAX_CHUNK_BYTES (drop offset artifact)) = Inr []"
    using assms(3) k by (simp add: append_chunk_def min.commute)
  then show ?thesis using that [of "[]"] False assms by (simp add: max_def)
qed

text \<open>The files once the artifact has arrived, and the answer to a chunk.\<close>

definition delivered :: "bytes \<Rightarrow> upload_files" where
  "delivered artifact = \<lparr>uf_destination = Some artifact, uf_partial = None, uf_metadata = None\<rparr>"

lemma serve_prefix:
  assumes digests: "\<forall>x. token_digest (sha256 x)" and size: "length artifact \<le> m" "offset < length artifact"
    and files: "holds_prefix sha256 relative artifact n fs"
    and place: "n = offset \<or> offset + chunk_length artifact offset \<le> n"
  obtains (finished) a where "offset + chunk_length artifact offset = length artifact"
      "serve_chunk sha256 m relative fs (request_of sha256 artifact offset) = (delivered artifact, Inr (Some (acknowledgement_json a)))"
      "a = \<lparr>ack_path = relative, ack_sha256 = sha256 artifact, ack_bytes = length artifact,
             ack_next_offset = length artifact, ack_complete = True\<rparr>"
  | (more) fs' a where "offset + chunk_length artifact offset < length artifact"
      "serve_chunk sha256 m relative fs (request_of sha256 artifact offset) = (fs', Inr (Some (acknowledgement_json a)))"
      "holds_prefix sha256 relative artifact (max n (offset + chunk_length artifact offset)) fs'"
      "a = \<lparr>ack_path = relative, ack_sha256 = sha256 artifact, ack_bytes = length artifact,
             ack_next_offset = max n (offset + chunk_length artifact offset), ack_complete = False\<rparr>"
proof -
  let ?r = "request_of sha256 artifact offset" and ?k = "chunk_length artifact offset"
  let ?n = "max n (offset + ?k)"
  have n: "n \<le> length artifact" and none: "uf_destination fs = None" using files by (auto simp: holds_prefix_def)
  have "offset \<le> n" using place by auto
  with files obtain opened where opened: "open_partial fs (identity_of sha256 relative artifact) offset = Inr opened"
      "uf_partial (durable_steps opened fs) = Some (take n artifact)"
      "uf_metadata (durable_steps opened fs) = Some (Document (identity_of sha256 relative artifact))"
      "uf_destination (durable_steps opened fs) = None"
    by (rule open_prefix)
  obtain appended where appended:
      "append_chunk (take n artifact) offset (take MAX_CHUNK_BYTES (drop offset artifact)) = Inr appended"
      "durable_steps appended (durable_steps opened fs) = (durable_steps opened fs)\<lparr>uf_partial := Some (take ?n artifact)\<rparr>"
    using append_prefix [OF place size(2) n opened(2)] by blast
  let ?files = "(durable_steps opened fs)\<lparr>uf_partial := Some (take ?n artifact)\<rparr>"
  have request: "cr_content ?r = take MAX_CHUNK_BYTES (drop offset artifact)" "cr_sha256 ?r = sha256 artifact"
      "length (take MAX_CHUNK_BYTES (drop offset artifact)) = ?k"
    by (simp_all add: request_of_def Let_def min.commute)
  have stored: "partial_bytes (durable_steps opened fs) = take n artifact" "length (take n artifact) = n"
    using opened(2) n by (simp_all add: partial_bytes_def)
  note call = request_accepted [OF digests size(2,1) refl] none opened appended request stored
  show thesis
  proof (cases "offset + ?k = length artifact")
    case True
    then have full: "?n = length artifact" using n by (simp add: max_def)
    have "serve_chunk sha256 m relative fs ?r = (delivered artifact, Inr (Some (acknowledgement_json
        \<lparr>ack_path = relative, ack_sha256 = sha256 artifact, ack_bytes = length artifact,
         ack_next_offset = length artifact, ack_complete = True\<rparr>)))"
      using call True full opened(4)
      by (simp add: serve_chunk_def store_upload_chunk_def store_chunk_def identity_of_def [symmetric]
          partial_bytes_def finish_upload_def delivered_def Let_def)
    then show thesis using finished True by blast
  next
    case False
    then have less: "offset + ?k < length artifact"
      using size(2) min.cobounded2 [of MAX_CHUNK_BYTES "length artifact - offset"] by linarith
    have "serve_chunk sha256 m relative fs ?r = (?files, Inr (Some (acknowledgement_json
        \<lparr>ack_path = relative, ack_sha256 = sha256 artifact, ack_bytes = length artifact,
         ack_next_offset = ?n, ack_complete = False\<rparr>)))"
      using call False
      by (simp add: serve_chunk_def store_upload_chunk_def store_chunk_def identity_of_def [symmetric] Let_def)
    moreover have "holds_prefix sha256 relative artifact ?n ?files"
      using opened n less by (simp add: holds_prefix_def)
    ultimately show thesis using more less by blast
  qed
qed

lemma turn_complete:
  "upload_turn (request_of sha256 artifact offset) (Some (acknowledgement_json
     \<lparr>ack_path = relative, ack_sha256 = sha256 artifact, ack_bytes = length artifact,
      ack_next_offset = length artifact, ack_complete = True\<rparr>)) = Delivered"
  by (simp add: upload_turn_def acknowledgement_json_def equals_int_def request_of_def Let_def)

lemma turn_more:
  assumes "offset + chunk_length artifact offset \<le> n" "n \<le> length artifact" "offset < length artifact"
  shows "upload_turn (request_of sha256 artifact offset) (Some (acknowledgement_json
     \<lparr>ack_path = relative, ack_sha256 = sha256 artifact, ack_bytes = length artifact,
      ack_next_offset = n, ack_complete = False\<rparr>))
    = Proceed (if n = length artifact then length artifact - MAX_CHUNK_BYTES else n)"
  using assms by (auto simp: upload_turn_def acknowledgement_json_def request_of_def Let_def min_def split: if_splits)

text \<open>From a stored prefix that is where the loop stands, or covers the chunk it sends, the loop
  returns and the artifact is delivered: every turn advances the offset to the stored length, except
  the one that repeats the last chunk.\<close>

lemma loop_delivers:
  assumes "\<forall>x. token_digest (sha256 x)" "length artifact \<le> m" "offset < length artifact"
    "holds_prefix sha256 relative artifact n fs" "n = offset \<or> offset + chunk_length artifact offset \<le> n"
  shows "upload_loop sha256 (serve_chunk sha256 m relative) artifact offset fs = Some (delivered artifact, Inr ())"
  using assms(3-5)
proof (induction "length artifact - offset" arbitrary: offset n fs rule: less_induct)
  case less
  let ?serve = "serve_chunk sha256 m relative" and ?k = "chunk_length artifact offset"
  show ?case
  proof (rule serve_prefix [OF assms(1,2) less.prems])
    fix a
    assume "?serve fs (request_of sha256 artifact offset) = (delivered artifact, Inr (Some (acknowledgement_json a)))"
      "a = \<lparr>ack_path = relative, ack_sha256 = sha256 artifact, ack_bytes = length artifact,
             ack_next_offset = length artifact, ack_complete = True\<rparr>"
    then show ?thesis using less.prems(1) by (subst upload_loop.simps) (simp add: turn_complete Let_def)
  next
    fix fs' a
    define n' where "n' = max n (offset + ?k)"
    assume short: "offset + ?k < length artifact"
      and serve: "?serve fs (request_of sha256 artifact offset) = (fs', Inr (Some (acknowledgement_json a)))"
      and files: "holds_prefix sha256 relative artifact (max n (offset + ?k)) fs'"
      and a: "a = \<lparr>ack_path = relative, ack_sha256 = sha256 artifact, ack_bytes = length artifact,
             ack_next_offset = max n (offset + ?k), ack_complete = False\<rparr>"
    note files = files [folded n'_def] and a = a [folded n'_def]
    have n': "n' \<le> length artifact" "offset + ?k \<le> n'" using files by (simp_all add: holds_prefix_def n'_def)
    define to where "to = (if n' = length artifact then length artifact - MAX_CHUNK_BYTES else n')"
    have turn: "upload_loop sha256 ?serve artifact offset fs = upload_loop sha256 ?serve artifact to fs'"
      using less.prems(1) turn_more [OF n'(2,1) less.prems(1), of sha256 relative] serve a
      by (subst upload_loop.simps) (simp add: Let_def to_def)
    have k: "?k = MAX_CHUNK_BYTES" using short by (auto simp: min_def split: if_splits)
    have step: "to < length artifact" "offset < to"
      using short n' max_chunk_positive unfolding to_def k by auto
    have place: "n' = to \<or> to + chunk_length artifact to \<le> n'"
      using short unfolding to_def k by (auto simp: min_def)
    have "length artifact - to < length artifact - offset" using step by linarith
    then show ?thesis using turn less.hyps [OF _ step(1) files place] by simp
  qed
qed

lemma upload_delivers_from:
  assumes "\<forall>x. token_digest (sha256 x)" "artifact \<noteq> []" "length artifact \<le> m"
    "holds_prefix sha256 relative artifact n fs" "n = 0 \<or> chunk_length artifact 0 \<le> n"
  shows "upload sha256 (serve_chunk sha256 m relative) artifact fs = Some (delivered artifact, Inr ())"
  using loop_delivers [OF assms(1,3) _ assms(4), of 0] assms(2,5) by (auto simp: upload_def)

text \<open>An artifact that has arrived already is acknowledged at once.\<close>

lemma upload_again:
  assumes "\<forall>x. token_digest (sha256 x)" "artifact \<noteq> []" "length artifact \<le> m"
    "uf_destination fs = Some artifact"
  shows "upload sha256 (serve_chunk sha256 m relative) artifact fs = Some (fs, Inr ())"
proof -
  have "serve_chunk sha256 m relative fs (request_of sha256 artifact 0) = (fs, Inr (Some (acknowledgement_json
      \<lparr>ack_path = relative, ack_sha256 = sha256 artifact, ack_bytes = length artifact,
       ack_next_offset = length artifact, ack_complete = True\<rparr>)))"
    using request_accepted [OF assms(1) _ assms(3) refl, of 0] assms(2,4)
    by (simp add: serve_chunk_def store_upload_chunk_def store_chunk_def)
      (simp add: request_of_def Let_def)
  then show ?thesis using assms(2)
    by (simp add: upload_def upload_loop.simps [of _ _ artifact 0] turn_complete Let_def)
qed

section \<open>Where an interrupted transfer cannot be resumed\<close>

lemma upload_refused:
  assumes "artifact \<noteq> []" "serve fs (request_of sha256 artifact 0) = (fs, Inl e)"
  shows "upload sha256 serve artifact fs = Some (fs, Inl e)"
  using assms by (simp add: upload_def upload_loop.simps [of _ _ artifact 0] Let_def)

lemma first_chunk:
  assumes "\<forall>x. token_digest (sha256 x)" "artifact \<noteq> []" "length artifact \<le> m" "uf_destination fs = None"
  shows "serve_chunk sha256 m relative fs (request_of sha256 artifact 0) =
    (case store_chunk sha256 fs relative (take MAX_CHUNK_BYTES artifact) (sha256 artifact) (length artifact) 0
        (chunk_length artifact 0 = length artifact) of
       (writes, Inl e) \<Rightarrow> (durable_steps writes fs, Inl (client_error e))
     | (writes, Inr a) \<Rightarrow> (durable_steps writes fs, Inr (Some (acknowledgement_json a))))"
  using request_accepted [OF assms(1) _ assms(3) refl, of 0] assms(2)
  by (simp add: serve_chunk_def store_upload_chunk_def) (simp add: request_of_def Let_def)

lemma only_metadata_refused:
  assumes "\<forall>x. token_digest (sha256 x)" "artifact \<noteq> []" "length artifact \<le> m"
    "uf_destination fs = None" "uf_partial fs = None" "uf_metadata fs \<noteq> None"
  shows "upload sha256 (serve_chunk sha256 m relative) artifact fs =
    Some (fs, Inl (RemoteWorkerError ''partial artifact upload is inconsistent''))"
  using assms(2) first_chunk [OF assms(1-4), of relative] assms(4-6)
  by (intro upload_refused) (simp_all add: store_chunk_def open_partial_def client_error_def)

lemma torn_chunk_refused:
  assumes "\<forall>x. token_digest (sha256 x)" "artifact \<noteq> []" "length artifact \<le> m"
    "holds_prefix sha256 relative artifact j fs" "0 < j" "j < chunk_length artifact 0"
  shows "upload sha256 (serve_chunk sha256 m relative) artifact fs =
    Some (fs, Inl (RemoteWorkerError ''replayed artifact chunk differs from durable bytes''))"
proof -
  have files: "uf_destination fs = None" "uf_partial fs = Some (take j artifact)"
      "uf_metadata fs = Some (Document (identity_of sha256 relative artifact))"
    using assms(4,5) by (auto simp: holds_prefix_def)
  have "length (take MAX_CHUNK_BYTES (take j artifact)) < length (take MAX_CHUNK_BYTES artifact)"
    using assms(6) by simp
  then have other: "take MAX_CHUNK_BYTES (take j artifact) \<noteq> take MAX_CHUNK_BYTES artifact" by (metis less_irrefl)
  have j: "j \<le> length artifact" "length (take MAX_CHUNK_BYTES artifact) = chunk_length artifact 0"
    using assms(6) by simp_all
  have "take (chunk_length artifact 0) (take j artifact) = take MAX_CHUNK_BYTES (take j artifact)"
    using assms(6) by (simp add: min_absorb2)
  with other have "append_chunk (take j artifact) 0 (take MAX_CHUNK_BYTES artifact) =
      Inl (conflict ''artifact-offset-conflict'' ''replayed artifact chunk differs from durable bytes'')"
    using assms(5) j by (simp add: append_chunk_def min.commute)
  then show ?thesis using assms(2) first_chunk [OF assms(1-3) files(1), of relative] files
    by (intro upload_refused)
      (simp_all add: store_chunk_def open_partial_def identity_of_def client_error_def partial_bytes_def)
qed

text \<open>The writes of the first chunk, and what is left when they are cut.\<close>

definition first_writes :: "(bytes \<Rightarrow> string) \<Rightarrow> nat \<Rightarrow> string \<Rightarrow> bytes \<Rightarrow> durable list" where
  "first_writes sha256 m relative artifact =
     (let r = request_of sha256 artifact 0
      in fst (store_upload_chunk sha256 m no_files relative (cr_content r) (cr_sha256 r) (Some (JInt (int (cr_bytes r))))
           (Some (JInt (int (cr_offset r)))) (cr_chunk_sha256 r) (Some (JBool (cr_final r)))))"

lemma first_writes_are:
  assumes "\<forall>x. token_digest (sha256 x)" "artifact \<noteq> []" "length artifact \<le> m"
  shows "\<exists>rest. first_writes sha256 m relative artifact =
    [Create_Metadata, Write_Metadata (identity_of sha256 relative artifact), Touch_Partial,
     Append (take MAX_CHUNK_BYTES artifact)] @ rest"
  using request_accepted [OF assms(1) _ assms(3) refl, of 0] assms(2)
  by (simp add: first_writes_def Let_def store_upload_chunk_def)
    (auto simp: request_of_def Let_def store_chunk_def no_files_def open_partial_def append_chunk_def partial_bytes_def
      identity_of_def split: prod.splits sum.splits)

lemma interrupted_files:
  assumes "\<forall>x. token_digest (sha256 x)" "artifact \<noteq> []" "length artifact \<le> m"
  shows "k \<in> {1, 2} \<Longrightarrow> \<exists>t. durable_steps (cut_writes (first_writes sha256 m relative artifact) k j) no_files =
      no_files\<lparr>uf_metadata := Some t\<rparr>"
    and "holds_prefix sha256 relative artifact (min j (chunk_length artifact 0))
      (durable_steps (cut_writes (first_writes sha256 m relative artifact) 3 j) no_files)"
proof -
  obtain rest where first: "first_writes sha256 m relative artifact =
      [Create_Metadata, Write_Metadata (identity_of sha256 relative artifact), Touch_Partial,
       Append (take MAX_CHUNK_BYTES artifact)] @ rest"
    using first_writes_are [OF assms] by blast
  show "k \<in> {1, 2} \<Longrightarrow> \<exists>t. durable_steps (cut_writes (first_writes sha256 m relative artifact) k j) no_files =
      no_files\<lparr>uf_metadata := Some t\<rparr>"
    unfolding first by (auto simp: cut_writes_def numeral_2_eq_2)
  show "holds_prefix sha256 relative artifact (min j (chunk_length artifact 0))
      (durable_steps (cut_writes (first_writes sha256 m relative artifact) 3 j) no_files)"
    unfolding first by (simp add: cut_writes_def numeral_3_eq_3 holds_prefix_def no_files_def take_take min_def)
qed

section \<open>A digest to evaluate with\<close>

definition demo_digest :: "bytes \<Rightarrow> string" where
  "demo_digest content = replicate 64 (''0123456789abcdef'' ! (unat (sum_list content) mod 16))"

lemma demo_digest_ok: "\<forall>x. token_digest (demo_digest x)"
proof
  fix x :: bytes
  have "''0123456789abcdef'' ! (unat (sum_list x) mod 16) \<in> set ''0123456789abcdef''"
    by (rule nth_mem) simp
  then show "token_digest (demo_digest x)"
    unfolding token_digest_def demo_digest_def list_all_iff by (metis in_set_replicate length_replicate)
qed

end
