(* ===== verification/Publication.thy ===== *)
theory Publication
  imports Timing Remote_Uploads
begin

text \<open>
  The publication of a finished cell: the seal \<open>run_cell\<close> of src/fidb_poc/cell_runner.py writes last,
  and \<open>_material_relatives\<close>, \<open>_validate_seal_binding\<close>, \<open>_durably_publish\<close> and \<open>_result_document\<close> of
  src/fidb_poc/queue_cli.py, which bind the three published files to it.  A directory is the map from
  the relative paths of its regular files to their bytes; it has no symbolic links.  SHA-256,
  \<open>json.dumps\<close> and \<open>json.loads\<close> are arguments.
\<close>

section \<open>Paths and results\<close>

type_synonym path = "string list"
type_synonym tree = "path \<Rightarrow> bytes option"

definition path_text :: "path \<Rightarrow> string" where
  "path_text parts = concat (case parts of [] \<Rightarrow> [] | p # ps \<Rightarrow> p # map (\<lambda>q. CHR ''/'' # q) ps)"

text \<open>\<open>text.split("/")\<close>.\<close>

fun split_slash :: "string \<Rightarrow> string list" where
  "split_slash [] = [[]]"
| "split_slash (c # cs) =
     (if c = CHR ''/'' then [] # split_slash cs
      else case split_slash cs of [] \<Rightarrow> [[c]] | p # ps \<Rightarrow> (c # p) # ps)"

definition path_part :: "string \<Rightarrow> bool" where
  "path_part p \<longleftrightarrow> p \<noteq> [] \<and> p \<noteq> ''.'' \<and> p \<noteq> ''..'' \<and> CHR ''/'' \<notin> set p \<and> CHR 0x5C \<notin> set p"

definition path_ok :: "path \<Rightarrow> bool" where
  "path_ok ps \<longleftrightarrow> ps \<noteq> [] \<and> list_all path_part ps"

record cell_result =
  rr_cell_id :: string
  rr_kind :: string
  rr_executor :: string
  rr_seal_path :: path
  rr_seal_sha256 :: string
  rr_fidb_path :: path
  rr_fidbf_path :: path
  rr_timing :: "json option"

section \<open>The seal\<close>

definition SEAL_SCHEMA :: string where "SEAL_SCHEMA = ''fidb-cell-seal/v1''"
definition RESULT_SCHEMA :: string where "RESULT_SCHEMA = ''fidb-job-result/v1''"
definition JOB_TIMING_SCHEMA :: string where "JOB_TIMING_SCHEMA = ''fidb-job-timing/v1''"

text \<open>\<open>_artifact\<close>, for a file of the attempt.\<close>

definition artifact_record :: "(bytes \<Rightarrow> string) \<Rightarrow> tree \<Rightarrow> path \<Rightarrow> string \<Rightarrow> json result" where
  "artifact_record sha256 attempt file label =
     (case attempt file of
        None \<Rightarrow> Inl (CellRunnerError (label @ '' is not a regular generated file: '' @ path_text file))
      | Some content \<Rightarrow>
          if content = [] then Inl (CellRunnerError (label @ '' is empty: '' @ path_text file))
          else Inr (JObj [(''path'', JStr (path_text file)), (''sha256'', JStr (sha256 content)),
                 (''bytes'', JInt (int (length content)))]))"

text \<open>What \<open>run_cell\<close> knows when it seals: the identity of the cell, its other provenance, its files.\<close>

record cell_outputs =
  co_cell_id :: string
  co_kind :: string
  co_executor :: string
  co_provenance :: "(string \<times> json) list"
  co_cell_provenance :: "(string \<times> json) list"
  co_fidb :: path
  co_fidbf :: path

definition SEAL_PATH :: path where "SEAL_PATH = [''artifacts'', ''cell-seal.json'']"

definition seal_document :: "cell_outputs \<Rightarrow> json \<Rightarrow> json \<Rightarrow> json \<Rightarrow> json" where
  "seal_document co fidb fidbf pre_seal_timing =
     JObj ([(''schema_version'', JStr SEAL_SCHEMA),
       (''cell'', JObj ([(''id'', JStr (co_cell_id co)), (''kind'', JStr (co_kind co)),
          (''executor'', JStr (co_executor co))] @ co_cell_provenance co)),
       (''artifacts'', JObj [(''fidb'', fidb), (''fidbf'', fidbf)]),
       (''timing'', pre_seal_timing)] @ co_provenance co)"

text \<open>The end of \<open>run_cell\<close>: the seal holds the timing before it was written; writing it is the last
  span.  The artifact records come from the validation span before it.\<close>

definition write_seal ::
  "(bytes \<Rightarrow> string) \<Rightarrow> (json \<Rightarrow> bytes) \<Rightarrow> json \<Rightarrow> recorder \<Rightarrow> tree \<times> 's
     \<Rightarrow> ((string \<times> nat) result \<times> (string \<times> json) list) \<times> recorder \<times> tree \<times> 's" where
  "write_seal sha256 dumps seal r state =
     (let attempt = fst state
      in if attempt SEAL_PATH \<noteq> None
      then ((Inl (CellRunnerError (''attempt already has a final seal: '' @ path_text SEAL_PATH)), []), r, state)
      else let payload = dumps seal
           in ((Inr (sha256 payload, length payload),
                [(''seal_bytes'', JInt (int (length payload))), (''seal_sha256'', JStr (sha256 payload))]),
               r, attempt(SEAL_PATH \<mapsto> payload), snd state))"

text \<open>The callback of the recorder does not touch the files.\<close>

definition beside_files ::
  "('s \<Rightarrow> progress_event \<Rightarrow> unit result \<times> 's) \<Rightarrow> tree \<times> 's \<Rightarrow> progress_event \<Rightarrow> unit result \<times> tree \<times> 's" where
  "beside_files callback state e = (case callback (snd state) e of (r, s) \<Rightarrow> (r, fst state, s))"

definition seal_cell ::
  "(bytes \<Rightarrow> string) \<Rightarrow> (json \<Rightarrow> bytes) \<Rightarrow> ('s \<Rightarrow> progress_event \<Rightarrow> unit result \<times> 's) \<Rightarrow> int \<Rightarrow> span_clock \<Rightarrow> int
     \<Rightarrow> cell_outputs \<Rightarrow> json \<Rightarrow> json \<Rightarrow> recorder \<Rightarrow> tree \<times> 's \<Rightarrow> cell_result result \<times> recorder \<times> tree \<times> 's" where
  "seal_cell sha256 dumps callback before_ns k after_ns co fidb fidbf r state =
     (let pre_seal_timing = timing_document before_ns r
      in case span (beside_files callback) k PROVENANCE_SEAL ''writing atomic cell provenance seal''
            [(''included_terminal_spans'', JInt (int (length (tr_terminal r)))), (''self_timing_included'', JBool False)]
            (write_seal sha256 dumps (seal_document co fidb fidbf pre_seal_timing)) r state of
         (Inl e, r, state) \<Rightarrow> (Inl e, r, state)
       | (Inr (digest, size_bytes), r, state) \<Rightarrow>
           (Inr \<lparr>rr_cell_id = co_cell_id co, rr_kind = co_kind co, rr_executor = co_executor co,
                 rr_seal_path = SEAL_PATH, rr_seal_sha256 = digest, rr_fidb_path = co_fidb co,
                 rr_fidbf_path = co_fidbf co, rr_timing = Some (timing_document after_ns r)\<rparr>, r, state))"

section \<open>Binding the files to the seal\<close>

definition require_file :: "tree \<Rightarrow> path \<Rightarrow> error \<Rightarrow> bytes result" where
  "require_file directory file e = (case directory file of None \<Rightarrow> Inl e | Some content \<Rightarrow> Inr content)"

definition missing_material :: "string \<Rightarrow> path \<Rightarrow> error" where
  "missing_material label file =
     QueueCliError (''generated '' @ label @ '' escaped or is missing from the staging root: '' @ path_text file)"

definition material_relatives :: "(bytes \<Rightarrow> string) \<Rightarrow> cell_result \<Rightarrow> tree \<Rightarrow> unit result" where
  "material_relatives sha256 result staging =
     and_then (require_file staging (rr_seal_path result) (missing_material ''seal'' (rr_seal_path result))) (\<lambda>seal.
     and_then (require_file staging (rr_fidb_path result) (missing_material ''FIDB'' (rr_fidb_path result))) (\<lambda>_.
     and_then (require_file staging (rr_fidbf_path result) (missing_material ''FIDBF'' (rr_fidbf_path result))) (\<lambda>_.
     require (sha256 seal = rr_seal_sha256 result)
       (QueueCliError ''generated cell seal digest does not match its result''))))"

text \<open>The record of one artifact in the seal: its path, digest and size are those of the file.\<close>

definition check_sealed_artifact ::
  "(bytes \<Rightarrow> string) \<Rightarrow> tree \<Rightarrow> json \<Rightarrow> string \<Rightarrow> string \<Rightarrow> path \<Rightarrow> unit result" where
  "check_sealed_artifact sha256 staging artifacts label field relative =
     (case jget artifacts field of
        Some (JObj entry) \<Rightarrow>
          and_then (case map_of entry ''path'' of
              Some (JStr p) \<Rightarrow>
                if p = [] \<or> CHR 0x5C \<in> set p \<or> (\<exists>part\<in>set (split_slash p). part \<in> {[], ''.'', ''..''})
                then Inl (QueueCliError (''generated cell seal has an invalid '' @ label @ '' path'')) else Inr p
            | _ \<Rightarrow> Inl (QueueCliError (''generated cell seal has an invalid '' @ label @ '' path''))) (\<lambda>p.
          and_then (require (split_slash p = relative)
            (QueueCliError (''generated '' @ label @ '' path does not match the authoritative seal''))) (\<lambda>_.
          and_then (require_file staging relative (OSError (path_text relative))) (\<lambda>content.
          and_then (timing_integer (map_of entry ''bytes'') (''sealed '' @ label @ '' byte count'')) (\<lambda>recorded_size.
          require (map_of entry ''sha256'' = Some (JStr (sha256 content)) \<and> recorded_size = int (length content))
            (QueueCliError (''generated '' @ label @ '' content does not match the authoritative seal''))))))
      | _ \<Rightarrow> Inl (QueueCliError (''generated cell seal is missing its '' @ label @ '' record'')))"

text \<open>The tallies of the spans before the seal.\<close>

fun prefix_tallies :: "json list \<Rightarrow> tallies \<Rightarrow> tallies result" where
  "prefix_tallies [] t = Inr t"
| "prefix_tallies (v # vs) t =
     (case (jget v ''status'', jget v ''stage'', jget v ''duration_ns'') of
        (Some (JStr st), Some (JStr stage), Some (JInt n)) \<Rightarrow>
          prefix_tallies vs (add_count st 1 (fst t), add_count stage n (snd t))
      | _ \<Rightarrow> Inl (KeyError ''status''))"

definition check_sealed_timing :: "json \<Rightarrow> json option \<Rightarrow> unit result" where
  "check_sealed_timing timing seal_timing =
     (case seal_timing of
        Some (JObj document) \<Rightarrow>
          let summary = opt_json (jget timing ''summary'');
              earlier = (case jget timing ''spans'' of Some (JArr vs) \<Rightarrow> butlast vs | _ \<Rightarrow> []);
              sealed_summary = map_of document ''summary''
          in and_then (require (map_of document ''schema_version'' = Some (JStr TIMING_SCHEMA)
                 \<and> py_equal (map_of document ''policy'') (jget timing ''policy'')
                 \<and> py_equal (map_of document ''spans'') (Some (JArr earlier))
                 \<and> (case sealed_summary of Some (JObj s) \<Rightarrow>
                       py_equal (map_of s ''measurement_started_at'') (jget summary ''measurement_started_at'') | _ \<Rightarrow> False))
               (QueueCliError ''generated cell seal timing does not match completed execution timing'')) (\<lambda>_.
             and_then (timing_integer (jget (opt_json sealed_summary) ''elapsed_before_snapshot_ns'')
               ''sealed timing elapsed_before_snapshot_ns'') (\<lambda>sealed_elapsed.
             and_then (require (case jget summary ''elapsed_before_snapshot_ns'' of Some (JInt n) \<Rightarrow> sealed_elapsed \<le> n | _ \<Rightarrow> False)
               (QueueCliError ''sealed timing elapsed duration exceeds completed execution'')) (\<lambda>_.
             and_then (prefix_tallies earlier (no_counts, [])) (\<lambda>(counts, durations).
             require (py_equal (jget (opt_json sealed_summary) ''terminal_event_counts'') (Some (counts_json counts))
                 \<and> py_equal (jget (opt_json sealed_summary) ''stage_duration_ns'') (Some (counts_json durations)))
               (QueueCliError ''generated cell seal timing summary does not match its prefix'')))))
      | _ \<Rightarrow> Inl (QueueCliError ''generated cell seal is missing its timing provenance''))"

definition validate_seal_binding ::
  "(bytes \<Rightarrow> string) \<Rightarrow> (bytes \<Rightarrow> json option) \<Rightarrow> cell_result \<Rightarrow> tree \<Rightarrow> unit result" where
  "validate_seal_binding sha256 loads result staging =
     (case map_option loads (staging (rr_seal_path result)) of
        Some (Some seal) \<Rightarrow>
          and_then (require (is_object seal \<and> jget seal ''schema_version'' = Some (JStr SEAL_SCHEMA))
            (QueueCliError ''generated cell seal has an invalid schema'')) (\<lambda>_.
          and_then (case jget seal ''cell'' of Some (JObj cell) \<Rightarrow> Inr (map_of cell)
              | _ \<Rightarrow> Inl (QueueCliError ''generated cell seal is missing its resolved cell identity'')) (\<lambda>cell.
          and_then (require (cell ''id'' = Some (JStr (rr_cell_id result)) \<and> cell ''kind'' = Some (JStr (rr_kind result))
              \<and> cell ''executor'' = Some (JStr (rr_executor result)))
            (QueueCliError ''generated cell seal does not match the completed cell identity'')) (\<lambda>_.
          and_then (case jget seal ''artifacts'' of Some (JObj a) \<Rightarrow> Inr (JObj a)
              | _ \<Rightarrow> Inl (QueueCliError ''generated cell seal is missing artifact provenance'')) (\<lambda>artifacts.
          and_then (check_sealed_artifact sha256 staging artifacts ''FIDB'' ''fidb'' (rr_fidb_path result)) (\<lambda>_.
          and_then (check_sealed_artifact sha256 staging artifacts ''FIDBF'' ''fidbf'' (rr_fidbf_path result)) (\<lambda>_.
          check_sealed_timing (opt_json (rr_timing result)) (jget seal ''timing'')))))))
      | _ \<Rightarrow> Inl (QueueCliError (''generated cell seal is not valid JSON: '' @ path_text (rr_seal_path result))))"

section \<open>Publication\<close>

text \<open>The staging directory becomes the attempt's final directory in one rename.\<close>

definition durably_publish ::
  "iso_parser \<Rightarrow> (bytes \<Rightarrow> string) \<Rightarrow> (bytes \<Rightarrow> json option) \<Rightarrow> cell_result \<Rightarrow> tree option \<Rightarrow> tree option
     \<Rightarrow> unit result \<times> tree option \<times> tree option" where
  "durably_publish parse sha256 loads result staging final =
     (let files = (case staging of None \<Rightarrow> Map.empty | Some t \<Rightarrow> t)
      in case and_then (validate_cell_timing parse (rr_timing result)) (\<lambda>_.
              and_then (require (final = None) (QueueCliError ''attempt publication already exists'')) (\<lambda>_.
              and_then (material_relatives sha256 result files) (\<lambda>_.
              validate_seal_binding sha256 loads result files))) of
           Inl e \<Rightarrow> (Inl e, staging, final)
         | Inr _ \<Rightarrow> (Inr (), None, staging))"

definition result_document ::
  "(bytes \<Rightarrow> string) \<Rightarrow> cell_result \<Rightarrow> tree \<Rightarrow> string \<Rightarrow> json result" where
  "result_document sha256 result final attempt_root =
     (let missing = (\<lambda>label file. QueueCliError (''published '' @ label @ '' is not a regular file: '' @ path_text file));
          place = (\<lambda>file. JStr (attempt_root @ ''/'' @ path_text file))
      in and_then (require_file final (rr_seal_path result) (missing ''seal'' (rr_seal_path result))) (\<lambda>seal.
         and_then (require_file final (rr_fidb_path result) (missing ''FIDB'' (rr_fidb_path result))) (\<lambda>fidb.
         and_then (require_file final (rr_fidbf_path result) (missing ''FIDBF'' (rr_fidbf_path result))) (\<lambda>fidbf.
         and_then (require (sha256 seal = rr_seal_sha256 result)
           (QueueCliError ''published cell seal digest changed during publication'')) (\<lambda>_.
         Inr (JObj [(''schema_version'', JStr RESULT_SCHEMA), (''cell_id'', JStr (rr_cell_id result)),
           (''kind'', JStr (rr_kind result)), (''executor'', JStr (rr_executor result)),
           (''attempt_root'', JStr attempt_root),
           (''seal'', JObj [(''path'', place (rr_seal_path result)), (''sha256'', JStr (rr_seal_sha256 result))]),
           (''fidb'', JObj [(''path'', place (rr_fidb_path result)), (''sha256'', JStr (sha256 fidb))]),
           (''fidbf'', JObj [(''path'', place (rr_fidbf_path result)), (''sha256'', JStr (sha256 fidbf))])]))))))"

section \<open>Reading a sealed document back\<close>

lemma sort_key_map_values:
  "sort_key fst (map (map_prod id g) kvs) = map (map_prod id g) (sort_key fst kvs)"
proof (induction kvs)
  case (Cons kv kvs)
  have insert_first: "insort_key fst (map_prod id g x) (map (map_prod id g) ys) = map (map_prod id g) (insort_key fst x ys)"
    for x ys by (induction ys) simp_all
  show ?case by (simp only: list.map sort_key_simps Cons.IH insert_first)
qed simp

lemma numbers_sort_keys: "numbers_as_int (sort_keys v) = sort_keys (numbers_as_int v)"
proof (induction v)
  case (JObj kvs)
  have same: "map (map_prod id numbers_as_int) (map (map_prod id sort_keys) kvs)
      = map (map_prod id sort_keys) (map (map_prod id numbers_as_int) kvs)"
    using JObj.IH by (auto simp: snds.simps)
  have "numbers_as_int (sort_keys (JObj kvs))
      = JObj (map (map_prod id numbers_as_int) (sort_key fst (map (map_prod id sort_keys) kvs)))" by simp
  also have "\<dots> = JObj (sort_key fst (map (map_prod id numbers_as_int) (map (map_prod id sort_keys) kvs)))"
    by (simp only: sort_key_map_values)
  also have "\<dots> = sort_keys (numbers_as_int (JObj kvs))" by (simp only: same) simp
  finally show ?case .
qed auto

lemma py_equal_sorted [simp]:
  "py_equal (Some (sort_keys v)) (Some v)" "py_equal (Some v) (Some (sort_keys v))"
  by (simp_all add: py_equal_def opt_json_def numbers_sort_keys)

lemma split_slash_nonempty: "split_slash s \<noteq> []"
  by (induction s) (auto split: list.splits)

lemma split_slash_part: "CHR ''/'' \<notin> set p \<Longrightarrow> split_slash p = [p]"
  by (induction p) auto

lemma split_slash_append: "CHR ''/'' \<notin> set p \<Longrightarrow> split_slash (p @ CHR ''/'' # s) = p # split_slash s"
  by (induction p) auto

lemma split_path_text: "ps \<noteq> [] \<Longrightarrow> list_all path_part ps \<Longrightarrow> split_slash (path_text ps) = ps"
proof (induction ps rule: induct_list012)
  case (3 p q ps)
  have "path_text (p # q # ps) = p @ CHR ''/'' # path_text (q # ps)" by (simp add: path_text_def)
  then show ?case using 3 by (simp add: split_slash_append path_part_def)
qed (simp_all add: path_text_def split_slash_part path_part_def)

lemma path_text_chars: "c \<in> set (path_text ps) \<Longrightarrow> c = CHR ''/'' \<or> (\<exists>p\<in>set ps. c \<in> set p)"
  by (auto simp: path_text_def split: list.splits)

section \<open>What was published is what the seal names\<close>

lemma durably_publish_Inr:
  assumes "durably_publish parse sha256 loads result staging final = (Inr (), staging', final')"
  obtains t where "staging = Some t" "final = None" "staging' = None" "final' = Some t"
    "validate_cell_timing parse (rr_timing result) = Inr ()" "material_relatives sha256 result t = Inr ()"
    "validate_seal_binding sha256 loads result t = Inr ()"
proof (cases staging)
  case None
  then show ?thesis using assms
    by (auto simp: durably_publish_def material_relatives_def require_file_def results split: sum.splits)
next
  case (Some t)
  then show ?thesis using assms that by (auto simp: durably_publish_def results split: sum.splits)
qed

lemma require_file_Inr [results]: "require_file d f e = Inr c \<longleftrightarrow> d f = Some c"
  by (simp add: require_file_def split: option.splits)

lemma check_sealed_artifact_Inr:
  assumes "check_sealed_artifact sha256 staging artifacts label field relative = Inr ()"
  shows "\<exists>entry content p. jget artifacts field = Some (JObj entry) \<and> staging relative = Some content
    \<and> map_of entry ''path'' = Some (JStr p) \<and> split_slash p = relative
    \<and> map_of entry ''sha256'' = Some (JStr (sha256 content)) \<and> map_of entry ''bytes'' = Some (JInt (int (length content)))"
  using assms by (auto simp: check_sealed_artifact_def results timing_integer_Inr split: option.splits json.splits if_splits)

lemma validate_seal_binding_Inr:
  assumes "validate_seal_binding sha256 loads result staging = Inr ()"
  shows "\<exists>content seal cell artifacts. staging (rr_seal_path result) = Some content \<and> loads content = Some seal
    \<and> jget seal ''cell'' = Some (JObj cell) \<and> map_of cell ''id'' = Some (JStr (rr_cell_id result))
    \<and> map_of cell ''kind'' = Some (JStr (rr_kind result)) \<and> map_of cell ''executor'' = Some (JStr (rr_executor result))
    \<and> jget seal ''artifacts'' = Some artifacts
    \<and> check_sealed_artifact sha256 staging artifacts ''FIDB'' ''fidb'' (rr_fidb_path result) = Inr ()
    \<and> check_sealed_artifact sha256 staging artifacts ''FIDBF'' ''fidbf'' (rr_fidbf_path result) = Inr ()
    \<and> check_sealed_timing (opt_json (rr_timing result)) (jget seal ''timing'') = Inr ()"
  using assms by (auto simp: validate_seal_binding_def results split: option.splits json.splits)

lemma result_document_after_publication:
  assumes "durably_publish parse sha256 loads result staging final = (Inr (), staging', final')"
  obtains t fidb fidbf doc where "staging = Some t" "final' = Some t"
    "t (rr_fidb_path result) = Some fidb" "t (rr_fidbf_path result) = Some fidbf"
    "result_document sha256 result t attempt_root = Inr doc"
    "jget (opt_json (jget doc ''seal'')) ''sha256'' = Some (JStr (rr_seal_sha256 result))"
    "jget (opt_json (jget doc ''fidb'')) ''sha256'' = Some (JStr (sha256 fidb))"
    "jget (opt_json (jget doc ''fidbf'')) ''sha256'' = Some (JStr (sha256 fidbf))"
proof -
  obtain t where t: "staging = Some t" "final' = Some t" "material_relatives sha256 result t = Inr ()"
    using durably_publish_Inr [OF assms] by metis
  from t(3) obtain seal fidb fidbf where files: "t (rr_seal_path result) = Some seal" "t (rr_fidb_path result) = Some fidb"
      "t (rr_fidbf_path result) = Some fidbf" "sha256 seal = rr_seal_sha256 result"
    by (auto simp: material_relatives_def results)
  show ?thesis
    by (rule that [OF t(1,2) files(2,3)], simp add: result_document_def require_file_def files Let_def)
      (simp_all add: opt_json_def)
qed

lemma published_files:
  assumes "durably_publish parse sha256 loads result staging final = (Inr u, s, f)"
  shows "\<exists>t payload seal cell artifacts fidb fidbf doc.
       final = None \<and> staging = Some t \<and> s = None \<and> f = Some t
       \<and> t (rr_seal_path result) = Some payload \<and> sha256 payload = rr_seal_sha256 result \<and> loads payload = Some seal
       \<and> jget seal ''cell'' = Some (JObj cell) \<and> map_of cell ''id'' = Some (JStr (rr_cell_id result))
       \<and> jget seal ''artifacts'' = Some artifacts
       \<and> t (rr_fidb_path result) = Some fidb \<and> t (rr_fidbf_path result) = Some fidbf
       \<and> jget (opt_json (jget artifacts ''fidb'')) ''sha256'' = Some (JStr (sha256 fidb))
       \<and> jget (opt_json (jget artifacts ''fidbf'')) ''sha256'' = Some (JStr (sha256 fidbf))
       \<and> result_document sha256 result t place = Inr doc
       \<and> jget (opt_json (jget doc ''seal'')) ''sha256'' = Some (JStr (sha256 payload))
       \<and> jget (opt_json (jget doc ''fidb'')) ''sha256'' = Some (JStr (sha256 fidb))
       \<and> jget (opt_json (jget doc ''fidbf'')) ''sha256'' = Some (JStr (sha256 fidbf))"
proof -
  have run: "durably_publish parse sha256 loads result staging final = (Inr (), s, f)" using assms by simp
  obtain t where t: "staging = Some t" "final = None" "s = None" "f = Some t"
      "material_relatives sha256 result t = Inr ()" "validate_seal_binding sha256 loads result t = Inr ()"
    by (rule durably_publish_Inr [OF run])
  obtain t' fidb fidbf doc where doc: "staging = Some t'" "t' (rr_fidb_path result) = Some fidb"
      "t' (rr_fidbf_path result) = Some fidbf" "result_document sha256 result t' place = Inr doc"
      "jget (opt_json (jget doc ''seal'')) ''sha256'' = Some (JStr (rr_seal_sha256 result))"
      "jget (opt_json (jget doc ''fidb'')) ''sha256'' = Some (JStr (sha256 fidb))"
      "jget (opt_json (jget doc ''fidbf'')) ''sha256'' = Some (JStr (sha256 fidbf))"
    by (rule result_document_after_publication [OF run])
  have [simp]: "t' = t" using t(1) doc(1) by simp
  from validate_seal_binding_Inr [OF t(6)] obtain payload seal cell artifacts where
    seal: "t (rr_seal_path result) = Some payload" "loads payload = Some seal"
      "jget seal ''cell'' = Some (JObj cell)" "map_of cell ''id'' = Some (JStr (rr_cell_id result))"
      "jget seal ''artifacts'' = Some artifacts"
      "check_sealed_artifact sha256 t artifacts ''FIDB'' ''fidb'' (rr_fidb_path result) = Inr ()"
      "check_sealed_artifact sha256 t artifacts ''FIDBF'' ''fidbf'' (rr_fidbf_path result) = Inr ()" by blast
  have "sha256 payload = rr_seal_sha256 result" using t(5) seal(1) by (auto simp: material_relatives_def results)
  moreover have "jget (opt_json (jget artifacts ''fidb'')) ''sha256'' = Some (JStr (sha256 fidb))"
      "jget (opt_json (jget artifacts ''fidbf'')) ''sha256'' = Some (JStr (sha256 fidbf))"
    using check_sealed_artifact_Inr [OF seal(6)] check_sealed_artifact_Inr [OF seal(7)] doc(2,3)
    by (auto simp: opt_json_def)
  ultimately show ?thesis using t seal doc
    by (intro exI [of _ t] exI [of _ payload] exI [of _ seal] exI [of _ cell] exI [of _ artifacts] exI [of _ fidb]
        exI [of _ fidbf] exI [of _ doc]) simp
qed

section \<open>What the runner seals can be published\<close>

lemma opt_json_Some: "opt_json (Some v) = v"
  by (simp add: opt_json_def)

lemma map_of_sorted:
  fixes kvs :: "(string \<times> json) list"
  shows "distinct (map fst kvs) \<Longrightarrow>
     map_of (sort_key fst (map (map_prod id sort_keys) kvs)) k = map_option sort_keys (map_of kvs k)"
  using jget_sort_keys [of kvs k] by simp

lemma prefix_events:
  "list_all (\<lambda>e. pg_duration_ns e \<noteq> None) events \<Longrightarrow>
     prefix_tallies (map event_document events) t = Inr (foldl (\<lambda>t e. tally e t) t events)"
  by (induction events arbitrary: t) (auto simp: event_document_def tally_def opt_int_def)

text \<open>The timing in the seal is that of the recorder before the last span.\<close>

lemma sealed_timing_accepted:
  assumes events: "tr_terminal r' = tr_terminal r @ [e]" "tr_started_at r' = tr_started_at r"
      "tr_started_ns r' = tr_started_ns r" "list_all (\<lambda>e. pg_duration_ns e \<noteq> None) (tr_terminal r)"
    and ns: "before_ns \<le> after_ns" "before_ns - tr_started_ns r \<le> MAX_DURATION_NS"
  shows "check_sealed_timing (timing_document after_ns r') (Some (sort_keys (timing_document before_ns r))) = Inr ()"
proof -
  let ?es = "tr_terminal r"
  let ?summary = "[(''measurement_started_at'', JStr (tr_started_at r)),
     (''elapsed_before_snapshot_ns'', JInt (max 0 (before_ns - tr_started_ns r))),
     (''terminal_event_counts'', counts_json (terminal_counts ?es)),
     (''stage_duration_ns'', counts_json (duration_totals ?es))]"
  let ?document = "[(''schema_version'', JStr TIMING_SCHEMA), (''policy'', timing_policy), (''summary'', JObj ?summary),
     (''spans'', JArr (map event_document ?es))]"
  have doc: "sort_keys (timing_document before_ns r) = JObj (sort_key fst (map (map_prod id sort_keys) ?document))"
    by (simp only: timing_document_def sort_keys.simps)
  have get: "map_of (sort_key fst (map (map_prod id sort_keys) ?document)) k = map_option sort_keys (map_of ?document k)" for k
    by (rule map_of_sorted) simp
  have sum: "map_of (sort_key fst (map (map_prod id sort_keys) ?summary)) k = map_option sort_keys (map_of ?summary k)" for k
    by (rule map_of_sorted) simp
  have tallies: "prefix_tallies (map event_document ?es) (no_counts, []) = Inr (terminal_counts ?es, duration_totals ?es)"
    using prefix_events [OF events(4), of "(no_counts, [])"]
    by (simp add: fold_tally terminal_counts_def duration_totals_def)
  have elapsed: "timing_integer (Some (JInt (max 0 (before_ns - tr_started_ns r)))) l
      = Inr (max 0 (before_ns - tr_started_ns r))" for l
    using ns(2) by (simp add: timing_integer_Inr)
  have summary: "map_of (sort_key fst (map (map_prod id sort_keys) ?document)) ''summary'' =
      Some (JObj (sort_key fst (map (map_prod id sort_keys) ?summary)))"
    by (simp only: get) simp
  have spans: "map_of (sort_key fst (map (map_prod id sort_keys) ?document)) ''spans'' =
      Some (sort_keys (JArr (map event_document ?es)))"
    by (simp only: get) simp
  have rest: "map_of (sort_key fst (map (map_prod id sort_keys) ?document)) ''schema_version'' = Some (JStr TIMING_SCHEMA)"
      "map_of (sort_key fst (map (map_prod id sort_keys) ?document)) ''policy'' = Some (sort_keys timing_policy)"
    by (simp_all only: get) simp_all
  have mine: "jget (timing_document after_ns r') ''policy'' = Some timing_policy"
      "jget (timing_document after_ns r') ''spans'' = Some (JArr (map event_document ?es @ [event_document e]))"
      "opt_json (jget (timing_document after_ns r') ''summary'') =
         JObj [(''measurement_started_at'', JStr (tr_started_at r)),
           (''elapsed_before_snapshot_ns'', JInt (max 0 (after_ns - tr_started_ns r))),
           (''terminal_event_counts'', counts_json (terminal_counts (?es @ [e]))),
           (''stage_duration_ns'', counts_json (duration_totals (?es @ [e])))]"
    by (simp_all add: timing_document_def events opt_json_def)
  have le: "before_ns - tr_started_ns r \<le> max 0 (after_ns - tr_started_ns r)" using ns(1) by simp
  show ?thesis
    unfolding doc check_sealed_timing_def
    using le by (simp add: mine rest spans summary opt_json_Some sum elapsed tallies Let_def del: sort_keys.simps(6,7)
        list.map sort_key_simps)
qed

lemma artifact_record_Inr:
  "artifact_record sha256 attempt file label = Inr v \<longleftrightarrow> (\<exists>content. attempt file = Some content \<and> content \<noteq> []
     \<and> v = JObj [(''path'', JStr (path_text file)), (''sha256'', JStr (sha256 content)), (''bytes'', JInt (int (length content)))])"
  by (auto simp: artifact_record_def split: option.splits)

lemma sealed_artifact_accepted:
  assumes recorded: "artifact_record sha256 attempt file label = Inr entry" and path: "path_ok file"
    and files: "staging file = attempt file" "\<forall>content. attempt file = Some content \<longrightarrow> int (length content) \<le> MAX_DURATION_NS"
    and entry: "jget artifacts field = Some (sort_keys entry)"
  shows "check_sealed_artifact sha256 staging artifacts label' field file = Inr ()"
proof -
  obtain content where content: "attempt file = Some content" "entry = JObj [(''path'', JStr (path_text file)),
      (''sha256'', JStr (sha256 content)), (''bytes'', JInt (int (length content)))]" (is "entry = JObj ?kvs")
    using recorded by (auto simp: artifact_record_Inr)
  have get: "map_of (sort_key fst (map (map_prod id sort_keys) ?kvs)) k = map_option sort_keys (map_of ?kvs k)" for k
    by (rule map_of_sorted) simp
  have sorted: "jget artifacts field = Some (JObj (sort_key fst (map (map_prod id sort_keys) ?kvs)))"
    using entry by (simp only: content(2) sort_keys.simps)
  have split: "split_slash (path_text file) = file" using path by (simp add: path_ok_def split_path_text)
  have parts: "\<forall>part\<in>set file. part \<notin> {[], ''.'', ''..''}"
    using path by (auto simp: path_ok_def list_all_iff path_part_def)
  have "CHR 0x5C \<notin> set (path_text file)"
    using path_text_chars [of "CHR 0x5C" "file"] path by (auto simp: path_ok_def list_all_iff path_part_def)
  moreover have "path_text file \<noteq> []" using split path by (metis path_ok_def parts insertI1 list.set_intros(1) split_slash.simps(1))
  moreover have "timing_integer (Some (JInt (int (length content)))) l = Inr (int (length content))" for l
    using files(2) content(1) by (simp add: timing_integer_Inr)
  ultimately show ?thesis
    using parts unfolding check_sealed_artifact_def sorted
    by (simp add: get split files(1) content(1) require_file_def del: list.map sort_key_simps)
qed

text \<open>All keys the seal has beside the fixed ones.\<close>

definition provenance_ok :: "cell_outputs \<Rightarrow> bool" where
  "provenance_ok co \<longleftrightarrow>
     distinct ([''schema_version'', ''cell'', ''artifacts'', ''timing''] @ map fst (co_provenance co)) \<and>
     distinct ([''id'', ''kind'', ''executor''] @ map fst (co_cell_provenance co)) \<and> path_ok (co_fidb co) \<and> path_ok (co_fidbf co)"

lemma seal_binding_accepted:
  assumes co: "provenance_ok co" and records: "artifact_record sha256 attempt (co_fidb co) ''FIDB'' = Inr fidb"
      "artifact_record sha256 attempt (co_fidbf co) ''FIDBF'' = Inr fidbf"
    and same: "staging (co_fidb co) = attempt (co_fidb co)" "staging (co_fidbf co) = attempt (co_fidbf co)"
    and sizes: "\<forall>file content. attempt file = Some content \<longrightarrow> int (length content) \<le> MAX_DURATION_NS"
    and seal: "staging SEAL_PATH = Some payload" "loads payload = Some (sort_keys (seal_document co fidb fidbf timing))"
    and result: "rr_cell_id result = co_cell_id co" "rr_kind result = co_kind co" "rr_executor result = co_executor co"
      "rr_seal_path result = SEAL_PATH" "rr_fidb_path result = co_fidb co" "rr_fidbf_path result = co_fidbf co"
    and timing: "check_sealed_timing (opt_json (rr_timing result)) (Some (sort_keys timing)) = Inr ()"
  shows "validate_seal_binding sha256 loads result staging = Inr ()"
proof -
  let ?cell = "[(''id'', JStr (co_cell_id co)), (''kind'', JStr (co_kind co)), (''executor'', JStr (co_executor co))]
      @ co_cell_provenance co"
  let ?artifacts = "[(''fidb'', fidb), (''fidbf'', fidbf)]"
  let ?seal = "[(''schema_version'', JStr SEAL_SCHEMA), (''cell'', JObj ?cell), (''artifacts'', JObj ?artifacts),
      (''timing'', timing)] @ co_provenance co"
  let ?sorted = "\<lambda>kvs. sort_key fst (map (map_prod id sort_keys) kvs)"
  have get: "map_of (?sorted ?seal) k = map_option sort_keys (map_of ?seal k)"
      "map_of (?sorted ?cell) k = map_option sort_keys (map_of ?cell k)"
      "map_of (?sorted ?artifacts) k = map_option sort_keys (map_of ?artifacts k)" for k
    using co by (intro map_of_sorted; simp add: provenance_ok_def)+
  define S C A where "S = ?sorted ?seal" and "C = ?sorted ?cell" and "A = ?sorted ?artifacts"
  have doc: "sort_keys (seal_document co fidb fidbf timing) = JObj S"
    by (simp only: seal_document_def sort_keys.simps S_def)
  have fields: "map_of S ''schema_version'' = Some (JStr SEAL_SCHEMA)" "map_of S ''cell'' = Some (JObj C)"
      "map_of S ''artifacts'' = Some (JObj A)" "map_of S ''timing'' = Some (sort_keys timing)"
    unfolding S_def C_def A_def by (simp_all only: get) simp_all
  have cell: "map_of C ''id'' = Some (JStr (co_cell_id co))" "map_of C ''kind'' = Some (JStr (co_kind co))"
      "map_of C ''executor'' = Some (JStr (co_executor co))"
    unfolding C_def by (simp_all only: get) simp_all
  have "jget (JObj A) ''fidb'' = Some (sort_keys fidb)" "jget (JObj A) ''fidbf'' = Some (sort_keys fidbf)"
    unfolding A_def by (simp_all only: get jget.simps) simp_all
  then have artifacts: "check_sealed_artifact sha256 staging (JObj A) ''FIDB'' ''fidb'' (co_fidb co) = Inr ()"
      "check_sealed_artifact sha256 staging (JObj A) ''FIDBF'' ''fidbf'' (co_fidbf co) = Inr ()"
    using co sizes same records
    by (auto simp: provenance_ok_def intro!: sealed_artifact_accepted [where attempt = attempt])
  show ?thesis
    unfolding validate_seal_binding_def result seal(1)
    using timing by (simp add: seal(2) doc fields cell artifacts is_object_def result)
qed

lemma beside_files_parts:
  "fst (beside_files callback state e) = fst (callback (snd state) e)"
  "snd (beside_files callback state e) = (fst state, snd (callback (snd state) e))"
  by (simp_all add: beside_files_def split: prod.splits)

lemma seal_cell_Inr:
  assumes "seal_cell sha256 dumps callback before_ns k after_ns co fidb fidbf r (attempt, s) = (Inr result, r', files, s')"
    and "tr_open_stage r = None"
  obtains e where "attempt SEAL_PATH = None"
    "files = attempt(SEAL_PATH \<mapsto> dumps (seal_document co fidb fidbf (timing_document before_ns r)))"
    "result = \<lparr>rr_cell_id = co_cell_id co, rr_kind = co_kind co, rr_executor = co_executor co,
       rr_seal_path = SEAL_PATH, rr_seal_sha256 = sha256 (dumps (seal_document co fidb fidbf (timing_document before_ns r))),
       rr_fidb_path = co_fidb co, rr_fidbf_path = co_fidbf co, rr_timing = Some (timing_document after_ns r')\<rparr>"
    "tr_terminal r' = tr_terminal r @ [e]" "tr_started_at r' = tr_started_at r" "tr_started_ns r' = tr_started_ns r"
    "tr_open_stage r' = None" "pg_stage e = PROVENANCE_SEAL" "pg_status e = COMPLETED" "pg_message e \<noteq> []"
    "pg_duration_ns e = Some (max 0 (sk_finished_ns k - sk_started_ns k))" "pg_started_at e = sk_started_at k"
    "pg_finished_at e = Some (sk_finished_at k)" "metrics_ok (pg_metrics e)"
proof -
  let ?payload = "dumps (seal_document co fidb fidbf (timing_document before_ns r))"
  let ?metrics = "[(''included_terminal_spans'', JInt (int (length (tr_terminal r)))), (''self_timing_included'', JBool False)]"
  let ?added = "[(''seal_bytes'', JInt (int (length ?payload))), (''seal_sha256'', JStr (sha256 ?payload))]"
  have fresh: "attempt SEAL_PATH = None"
    using assms by (auto simp: seal_cell_def span_def emit_eq beside_files_parts write_seal_def Let_def
        split: sum.splits prod.splits if_splits)
  have ok: "metrics_ok ?metrics" "metrics_ok ?added" by (simp_all add: metrics_ok_def)
  show ?thesis
    using assms fresh
    by (auto simp: seal_cell_def span_def emit_eq write_seal_def beside_files_parts Let_def merge_metrics_ok resource_metrics_ok ok
        split: sum.splits prod.splits intro!: that)
qed

lemma sealed_cell_publishes:
  assumes recorder: "recorder_ok parse r"
      "list_all (\<lambda>e. pg_status e \<noteq> FAILED \<and> pg_stage e \<noteq> PUBLICATION) (tr_terminal r)"
    and clock: "clock_ok parse k" "before_ns \<le> after_ns" "after_ns - tr_started_ns r \<le> MAX_DURATION_NS"
    and co: "provenance_ok co"
    and sizes: "\<forall>file content. attempt file = Some content \<longrightarrow> int (length content) \<le> MAX_DURATION_NS"
    and records: "artifact_record sha256 attempt (co_fidb co) ''FIDB'' = Inr fidb"
      "artifact_record sha256 attempt (co_fidbf co) ''FIDBF'' = Inr fidbf"
    and run: "seal_cell sha256 dumps callback before_ns k after_ns co fidb fidbf r (attempt, s) = (Inr result, r', files, s')"
    and json: "loads (dumps (seal_document co fidb fidbf (timing_document before_ns r)))
          = Some (sort_keys (seal_document co fidb fidbf (timing_document before_ns r)))"
  shows "durably_publish parse sha256 loads result (Some files) None = (Inr (), None, Some files)"
proof -
  have "tr_open_stage r = None" using recorder(1) by (simp add: recorder_ok_def)
  from seal_cell_Inr [OF run this] obtain e where
        fresh: "attempt SEAL_PATH = None"
    and files: "files = attempt(SEAL_PATH \<mapsto> dumps (seal_document co fidb fidbf (timing_document before_ns r)))"
    and result: "result = \<lparr>rr_cell_id = co_cell_id co, rr_kind = co_kind co, rr_executor = co_executor co,
       rr_seal_path = SEAL_PATH, rr_seal_sha256 = sha256 (dumps (seal_document co fidb fidbf (timing_document before_ns r))),
       rr_fidb_path = co_fidb co, rr_fidbf_path = co_fidbf co, rr_timing = Some (timing_document after_ns r')\<rparr>"
    and r': "tr_terminal r' = tr_terminal r @ [e]" "tr_started_at r' = tr_started_at r" "tr_started_ns r' = tr_started_ns r"
      "tr_open_stage r' = None"
    and e: "pg_stage e = PROVENANCE_SEAL" "pg_status e = COMPLETED" "pg_message e \<noteq> []"
      "pg_duration_ns e = Some (max 0 (sk_finished_ns k - sk_started_ns k))" "pg_started_at e = sk_started_at k"
      "pg_finished_at e = Some (sk_finished_at k)" "metrics_ok (pg_metrics e)"
    by metis
  have ok: "recorder_ok parse r'" "sealed r'"
    using recorder r' e clock(1) by (auto simp: recorder_ok_def sealed_def terminal_event_def clock_ok_def)
  have timing: "validate_cell_timing parse (Some (timing_document after_ns r')) = Inr ()"
    using sealed_accepted [OF ok] clock(3) r'(3) by simp
  have durations: "list_all (\<lambda>e. pg_duration_ns e \<noteq> None) (tr_terminal r)"
    using recorder(1) by (auto simp: recorder_ok_def list_all_iff terminal_event_def)
  have other: "co_fidb co \<noteq> SEAL_PATH" "co_fidbf co \<noteq> SEAL_PATH"
    using records fresh by (auto simp: artifact_record_Inr)
  have check: "check_sealed_timing (timing_document after_ns r') (Some (sort_keys (timing_document before_ns r))) = Inr ()"
    by (rule sealed_timing_accepted [OF r'(1-3) durations clock(2)]) (use clock(2,3) in simp)
  have "validate_seal_binding sha256 loads result files = Inr ()"
    by (rule seal_binding_accepted [OF co records _ _ sizes, where payload = "dumps (seal_document co fidb fidbf (timing_document before_ns r))" and timing = "timing_document before_ns r"])
      (use other json records check in \<open>auto simp: files result opt_json_Some\<close>)
  moreover have "material_relatives sha256 result files = Inr ()"
    using records other by (auto simp: material_relatives_def require_file_def files result artifact_record_Inr)
  moreover have "validate_cell_timing parse (rr_timing result) = Inr ()" using timing by (simp add: result)
  ultimately show ?thesis by (simp add: durably_publish_def)
qed

end
