(* ===== verification/External_Workers.thy ===== *)
theory External_Workers
  imports Operations_Policy Timing
begin

text \<open>
  src/fidb_poc/external_workers.py: the definition of an external toolchain and the validation of the
  preflight a worker registers with.  The parsed definition file, the routes of the toolchain catalog
  and those of the worker configuration are arguments; the probes of a host are not modelled.
\<close>

definition EXTERNAL_TOOLCHAIN_SCHEMA :: string where "EXTERNAL_TOOLCHAIN_SCHEMA = ''fidb-external-toolchain/v1''"
definition EXTERNAL_PREFLIGHT_SCHEMA :: string where "EXTERNAL_PREFLIGHT_SCHEMA = ''fidb-external-worker-preflight/v1''"

definition DEFINITION_FIELDS :: "string list" where
  "DEFINITION_FIELDS = [''schema_version'', ''id'', ''label'', ''route_id'', ''worker_pool'', ''worker_class'', ''host_system'',
     ''host_architecture'', ''target_id'', ''compiler_family'', ''probe_kind'', ''languages'', ''deployment_target'',
     ''worker_configuration'', ''license_authority'', ''source_policy'', ''required_tools'', ''required_metadata'', ''resources'']"

definition RESOURCE_FIELDS :: "string list" where
  "RESOURCE_FIELDS = [''min_available_memory_gib'', ''min_free_disk_gib'', ''max_load_per_cpu'', ''max_temperature_c'']"

section \<open>Fields\<close>

definition external_text :: "json option \<Rightarrow> string \<Rightarrow> string result" where
  "external_text v context =
     (case v of
        Some (JStr s) \<Rightarrow> if s = [] \<or> s \<noteq> strip s then Inl (ValueError (context @ '' must be a non-empty string'')) else Inr s
      | _ \<Rightarrow> Inl (ValueError (context @ '' must be a non-empty string'')))"

text \<open>The regular expression \<^verbatim>\<open>[a-z0-9][a-z0-9._-]*\Z\<close>.\<close>

definition lower_alnum :: "char \<Rightarrow> bool" where
  "lower_alnum c \<longleftrightarrow> (let n = of_char c :: nat in (48 \<le> n \<and> n \<le> 57) \<or> (97 \<le> n \<and> n \<le> 122))"

definition external_id_match :: "string \<Rightarrow> bool" where
  "external_id_match s = (case s of [] \<Rightarrow> False
     | c # cs \<Rightarrow> lower_alnum c \<and> list_all (\<lambda>d. lower_alnum d \<or> d \<in> set ''._-'') cs)"

definition external_identifier :: "json option \<Rightarrow> string \<Rightarrow> string result" where
  "external_identifier v context =
     and_then (external_text v context) (\<lambda>s.
       if external_id_match s then Inr s else Inl (ValueError (context @ '' must be a stable lowercase identifier'')))"

definition string_item :: "json \<Rightarrow> string option" where
  "string_item v = (case v of JStr s \<Rightarrow> if s = [] then None else Some s | _ \<Rightarrow> None)"

definition external_strings :: "json option \<Rightarrow> string \<Rightarrow> string list result" where
  "external_strings v context =
     (case v of
        Some (JArr items) \<Rightarrow>
          let texts = List.map_filter string_item items
          in if items = [] \<or> length texts \<noteq> length items \<or> \<not> distinct texts
             then Inl (ValueError (context @ '' must be a non-empty unique string list'')) else Inr texts
      | _ \<Rightarrow> Inl (ValueError (context @ '' must be a non-empty unique string list'')))"

definition external_number :: "(string \<times> json) list \<Rightarrow> string \<Rightarrow> rat result" where
  "external_number row field =
     (let refused = Inl (ValueError (''external toolchain resources '' @ field @ '' must be non-negative''))
      in case map_of row field of
           Some (JInt n) \<Rightarrow> if n < 0 then refused else Inr (f64 (of_int n))
         | Some (JFloat x) \<Rightarrow> if x < 0 then refused else Inr x
         | _ \<Rightarrow> refused)"

section \<open>Definitions\<close>

record external_definition =
  ed_id :: string
  ed_label :: string
  ed_route_id :: string
  ed_worker_pool :: string
  ed_worker_class :: string
  ed_host_system :: string
  ed_host_architecture :: string
  ed_target_id :: string
  ed_compiler_family :: string
  ed_probe_kind :: string
  ed_languages :: "string list"
  ed_deployment_target :: string
  ed_worker_configuration :: string
  ed_license_authority :: string
  ed_source_policy :: string
  ed_required_tools :: "string list"
  ed_required_metadata :: "string list"
  ed_resources :: resource_policy
  ed_sha256 :: string

definition registration_identity :: "external_definition \<Rightarrow> json" where
  "registration_identity d =
     JObj [(''id'', JStr (ed_id d)), (''sha256'', JStr (ed_sha256 d)), (''route_id'', JStr (ed_route_id d)),
       (''worker_pool'', JStr (ed_worker_pool d)), (''worker_class'', JStr (ed_worker_class d)),
       (''probe_kind'', JStr (ed_probe_kind d)), (''languages'', JArr (map JStr (ed_languages d)))]"

text \<open>A route of the catalog of toolchain packs, and one of a worker configuration.\<close>

record pack_route =
  pr_id :: string
  pr_provisioning :: string
  pr_target_id :: string
  pr_compiler_family :: string
  pr_worker_class :: string

record worker_route =
  wr_id :: string
  wr_target_os :: string
  wr_architecture :: string
  wr_binary_format :: string

text \<open>What the loader takes from outside: the definition file with its stem and digest, the catalog, and
  the routes of a configuration inside the project.\<close>

record external_env =
  ex_document :: "string \<Rightarrow> ((string \<times> json) list \<times> string \<times> string) result"
  ex_catalog :: "pack_route list result"
  ex_configuration :: "string \<Rightarrow> worker_route list result"

definition external_resources :: "(string \<times> json) list \<Rightarrow> resource_policy result" where
  "external_resources doc =
     (case map_of doc ''resources'' of
        Some (JObj row) \<Rightarrow>
          if set (map fst row) \<noteq> set RESOURCE_FIELDS
          then Inl (ValueError ''external toolchain resources have unsupported fields'')
          else
          and_then (external_number row ''min_available_memory_gib'') (\<lambda>memory.
          and_then (external_number row ''min_free_disk_gib'') (\<lambda>disk.
          and_then (external_number row ''max_load_per_cpu'') (\<lambda>load.
          and_then (external_number row ''max_temperature_c'') (\<lambda>temperature.
          Inr \<lparr>rp_min_available_memory_gib = memory, rp_min_free_disk_gib = disk, rp_max_load_per_cpu = load,
            rp_max_temperature_c = temperature\<rparr>))))
      | _ \<Rightarrow> Inl (ValueError ''external toolchain resources have unsupported fields''))"

definition external_definition_of ::
  "(string \<times> json) list \<Rightarrow> resource_policy \<Rightarrow> string \<Rightarrow> external_definition result" where
  "external_definition_of doc resources sha256 =
     and_then (external_identifier (map_of doc ''id'') ''external toolchain id'') (\<lambda>ident.
     and_then (external_text (map_of doc ''label'') ''external toolchain label'') (\<lambda>label.
     and_then (external_identifier (map_of doc ''route_id'') ''external route id'') (\<lambda>route.
     and_then (external_identifier (map_of doc ''worker_pool'') ''external worker pool'') (\<lambda>pool.
     and_then (external_identifier (map_of doc ''worker_class'') ''external worker class'') (\<lambda>worker_class.
     and_then (external_identifier (map_of doc ''host_system'') ''external host system'') (\<lambda>system.
     and_then (external_identifier (map_of doc ''host_architecture'') ''external host architecture'') (\<lambda>architecture.
     and_then (external_identifier (map_of doc ''target_id'') ''external target id'') (\<lambda>target.
     and_then (external_identifier (map_of doc ''compiler_family'') ''external compiler family'') (\<lambda>family.
     and_then (external_identifier (map_of doc ''probe_kind'') ''external probe kind'') (\<lambda>probe.
     and_then (external_strings (map_of doc ''languages'') ''external languages'') (\<lambda>texts.
     and_then (map_result (\<lambda>t. external_identifier (Some (JStr t)) ''external language'') texts) (\<lambda>languages.
     and_then (external_text (map_of doc ''deployment_target'') ''external deployment target'') (\<lambda>deployment.
     and_then (external_text (map_of doc ''worker_configuration'') ''external worker configuration'') (\<lambda>configuration.
     and_then (external_text (map_of doc ''license_authority'') ''external license authority'') (\<lambda>license.
     and_then (external_text (map_of doc ''source_policy'') ''external source policy'') (\<lambda>source.
     and_then (external_strings (map_of doc ''required_tools'') ''external required tools'') (\<lambda>tools.
     and_then (external_strings (map_of doc ''required_metadata'') ''external required metadata'') (\<lambda>metadata.
     Inr \<lparr>ed_id = ident, ed_label = label, ed_route_id = route, ed_worker_pool = pool, ed_worker_class = worker_class,
       ed_host_system = system, ed_host_architecture = architecture, ed_target_id = target, ed_compiler_family = family,
       ed_probe_kind = probe, ed_languages = languages, ed_deployment_target = deployment,
       ed_worker_configuration = configuration, ed_license_authority = license, ed_source_policy = source,
       ed_required_tools = tools, ed_required_metadata = metadata, ed_resources = resources,
       ed_sha256 = sha256\<rparr>))))))))))))))))))"

definition check_pack_route :: "external_definition \<Rightarrow> pack_route list \<Rightarrow> unit result" where
  "check_pack_route d routes =
     (case find (\<lambda>r. pr_id r = ed_route_id d) routes of
        None \<Rightarrow> Inl (ValueError ''external definition does not name an external-worker route'')
      | Some r \<Rightarrow>
          and_then (require (pr_provisioning r = ''external-worker'')
            (ValueError ''external definition does not name an external-worker route'')) (\<lambda>_.
          and_then (require (pr_target_id r = ed_target_id d)
            (ValueError ''external definition disagrees with route target_id'')) (\<lambda>_.
          and_then (require (pr_compiler_family r = ed_compiler_family d)
            (ValueError ''external definition disagrees with route compiler_family'')) (\<lambda>_.
          require (pr_worker_class r = ed_worker_class d)
            (ValueError ''external definition disagrees with route worker_class'')))))"

definition check_worker_route :: "external_definition \<Rightarrow> worker_route list \<Rightarrow> unit result" where
  "check_worker_route d routes =
     (case find (\<lambda>r. wr_id r = ed_route_id d) routes of
        None \<Rightarrow> Inl (ValueError ''external route is absent from worker configuration'')
      | Some r \<Rightarrow> require (wr_target_os r = ''macos'' \<and> wr_architecture r = ed_host_architecture d \<and> wr_binary_format r = ''Mach-O'')
          (ValueError ''external definition disagrees with worker route target''))"

definition load_external_toolchain :: "external_env \<Rightarrow> string \<Rightarrow> external_definition result" where
  "load_external_toolchain env reference =
     and_then (ex_document env reference) (\<lambda>(doc, stem, sha256).
     and_then (require (set (map fst doc) = set DEFINITION_FIELDS
         \<and> map_of doc ''schema_version'' = Some (JStr EXTERNAL_TOOLCHAIN_SCHEMA))
       (ValueError ''external toolchain definition has unsupported fields or schema'')) (\<lambda>_.
     and_then (external_resources doc) (\<lambda>resources.
     and_then (external_definition_of doc resources sha256) (\<lambda>d.
     and_then (require (ed_id d = stem \<and> ed_id d = ed_route_id d)
       (ValueError ''external definition id, filename and route_id must match'')) (\<lambda>_.
     and_then (require (ed_probe_kind d = ''apple-xcode'')
       (ValueError (''unsupported external probe kind: '' @ ed_probe_kind d))) (\<lambda>_.
     and_then (ex_catalog env) (\<lambda>routes.
     and_then (check_pack_route d routes) (\<lambda>_.
     and_then (ex_configuration env (ed_worker_configuration d)) (\<lambda>configured.
     and_then (check_worker_route d configured) (\<lambda>_.
     Inr d))))))))))"

section \<open>Registrations\<close>

text \<open>Python's truth value of a JSON value.\<close>

definition truthy :: "json option \<Rightarrow> bool" where
  "truthy v = (case v of
       None \<Rightarrow> False | Some JNull \<Rightarrow> False | Some (JBool b) \<Rightarrow> b | Some (JInt n) \<Rightarrow> n \<noteq> 0 | Some (JFloat x) \<Rightarrow> x \<noteq> 0
     | Some (JStr s) \<Rightarrow> s \<noteq> [] | Some (JArr vs) \<Rightarrow> vs \<noteq> [] | Some (JObj kvs) \<Rightarrow> kvs \<noteq> [] | Some JOpaque \<Rightarrow> True)"

definition PREFLIGHT_FIELDS :: "string list" where
  "PREFLIGHT_FIELDS = [''schema_version'', ''checked_at'', ''ready'', ''definition'', ''host'', ''toolchain'', ''analysis'', ''smoke'',
     ''resources'', ''metadata'', ''blockers'']"

text \<open>\<open>text_length\<close> is the length of the text \<open>json.dumps\<close> writes.\<close>

definition validate_registration ::
  "(json \<Rightarrow> nat) \<Rightarrow> (string \<times> json) list \<Rightarrow> external_definition \<Rightarrow> (string \<times> json) list result" where
  "validate_registration text_length doc d =
     and_then (require (set (map fst doc) = set PREFLIGHT_FIELDS
         \<and> map_of doc ''schema_version'' = Some (JStr EXTERNAL_PREFLIGHT_SCHEMA))
       (ValueError ''external worker preflight has unsupported fields or schema'')) (\<lambda>_.
     and_then (require (map_of doc ''ready'' = Some (JBool True) \<and> map_of doc ''blockers'' = Some (JArr []))
       (ValueError ''external worker preflight is not ready'')) (\<lambda>_.
     and_then (require (py_equal (map_of doc ''definition'') (Some (registration_identity d)))
       (ValueError ''external worker preflight definition identity changed'')) (\<lambda>_.
     and_then (require (serializable (JObj doc)) (ValueError ''Out of range float values are not JSON compliant'')) (\<lambda>_.
     and_then (require (text_length (JObj doc) \<le> 256 * 1024) (ValueError ''external worker preflight exceeds 256 KiB'')) (\<lambda>_.
     and_then (require (case map_of doc ''metadata'' of
           Some (JObj metadata) \<Rightarrow> list_all (\<lambda>name. truthy (map_of metadata name)) (ed_required_metadata d) | _ \<Rightarrow> False)
       (ValueError ''external worker preflight lacks required metadata'')) (\<lambda>_.
     Inr doc))))))"

section \<open>What an accepted registration says\<close>

lemma validate_registration_Inr [results]:
  "validate_registration text_length doc d = Inr accepted \<longleftrightarrow>
     accepted = doc \<and> set (map fst doc) = set PREFLIGHT_FIELDS \<and> map_of doc ''schema_version'' = Some (JStr EXTERNAL_PREFLIGHT_SCHEMA)
     \<and> map_of doc ''ready'' = Some (JBool True) \<and> map_of doc ''blockers'' = Some (JArr [])
     \<and> py_equal (map_of doc ''definition'') (Some (registration_identity d)) \<and> serializable (JObj doc)
     \<and> text_length (JObj doc) \<le> 256 * 1024
     \<and> (\<exists>metadata. map_of doc ''metadata'' = Some (JObj metadata)
          \<and> list_all (\<lambda>name. truthy (map_of metadata name)) (ed_required_metadata d))"
  unfolding validate_registration_def
  by (auto simp: results split: option.splits json.splits)

end
