(* ===== verification/Remote_Api.thy ===== *)
theory Remote_Api
  imports Coordinator_System Publication Operations_Policy External_Workers
begin

text \<open>
  src/fidb_poc/remote_api.py: the authenticated endpoint of the remote workers.  A request is the
  operation, the JSON document and the token of the Authorization header; a handler runs on the world
  of the host: the ledger, the staged files and the published attempts.  Every coordinator call of a
  handler is a transaction of its own, so what it has written stays when a later step raises.  The
  configuration files, the clocks, the digests, the texts of JSON values and \<open>base64\<close> are arguments.
  The sockets and the notifications are not modelled.
\<close>

section \<open>Requests\<close>

type_synonym document = "(string \<times> json) list"

abbreviation bad_request :: "string \<Rightarrow> string \<Rightarrow> error" where
  "bad_request code message \<equiv> RemoteApiError 400 code message"

definition only_fields :: "document \<Rightarrow> string list \<Rightarrow> unit result" where
  "only_fields doc allowed =
     require (list_all (\<lambda>k. k \<in> set allowed) (map fst doc)) (bad_request ''unsupported-fields'' ''unsupported request fields'')"

definition control_char :: "char \<Rightarrow> bool" where
  "control_char c \<longleftrightarrow> (of_char c :: nat) < 32 \<or> (of_char c :: nat) = 127"

definition remote_text :: "document \<Rightarrow> string \<Rightarrow> nat \<Rightarrow> string result" where
  "remote_text doc name maximum =
     (case map_of doc name of
        Some (JStr s) \<Rightarrow>
          if s = [] \<or> s \<noteq> strip s \<or> length s > maximum \<or> list_ex control_char s
          then Inl (bad_request ''invalid-field'' (name @ '' is invalid'')) else Inr s
      | _ \<Rightarrow> Inl (bad_request ''invalid-field'' (name @ '' is invalid'')))"

text \<open>\<open>_JOB_ID.fullmatch\<close> and \<open>_WORKER_ID.fullmatch\<close>.\<close>

definition job_id_match :: "string \<Rightarrow> bool" where
  "job_id_match s \<longleftrightarrow> take 4 s = ''job-'' \<and> token_digest (drop 4 s)"

definition worker_id_match :: "string \<Rightarrow> bool" where
  "worker_id_match s \<longleftrightarrow> identifier_match s \<and> length s \<le> 128"

definition lease_fields :: "document \<Rightarrow> (string \<times> string \<times> int) result" where
  "lease_fields doc =
     and_then (remote_text doc ''job_id'' 68) (\<lambda>jid.
     and_then (remote_text doc ''lease_token'' 256) (\<lambda>token.
     and_then (require (job_id_match jid) (bad_request ''invalid-job'' ''job_id is invalid'')) (\<lambda>_.
     case map_of doc ''lease_generation'' of
       Some (JInt n) \<Rightarrow> if n < 1 then Inl (bad_request ''invalid-generation'' ''lease_generation is invalid'')
         else Inr (jid, token, n)
     | _ \<Rightarrow> Inl (bad_request ''invalid-generation'' ''lease_generation is invalid''))))"

text \<open>\<open>_relative\<close>: \<open>Path\<close> drops empty and \<open>.\<close> components; the result may be empty.\<close>

definition relative_path :: "json option \<Rightarrow> string \<Rightarrow> path result" where
  "relative_path v label =
     (case v of
        Some (JStr s) \<Rightarrow>
          let parts = filter (\<lambda>p. p \<noteq> [] \<and> p \<noteq> ''.'') (split_slash s)
          in if s = [] \<or> CHR 0x5C \<in> set s \<or> hd s = CHR ''/'' \<or> ''..'' \<in> set parts
             then Inl (bad_request ''invalid-path'' (label @ '' is invalid'')) else Inr parts
      | _ \<Rightarrow> Inl (bad_request ''invalid-path'' (label @ '' is invalid'')))"

section \<open>Credentials\<close>

record worker_credential =
  wc_worker_id :: string
  wc_token_sha256 :: string
  wc_pools :: "string list"

definition CREDENTIALS_SCHEMA :: string where "CREDENTIALS_SCHEMA = ''fidb-remote-worker-credentials/v1''"

definition exact_fields :: "document \<Rightarrow> string list \<Rightarrow> bool" where
  "exact_fields row allowed \<longleftrightarrow> set (map fst row) = set allowed"

definition refused_pools :: "string \<Rightarrow> error" where
  "refused_pools worker = ValueError (''worker credential '' @ worker @ '' pools must be unique values'')"

definition credential_pool :: "string \<Rightarrow> json \<Rightarrow> string result" where
  "credential_pool worker v =
     (case v of JStr p \<Rightarrow> if p \<in> set WORKER_POOLS then Inr p else Inl (refused_pools worker)
      | _ \<Rightarrow> Inl (refused_pools worker))"

definition credential_pools :: "json option \<Rightarrow> string \<Rightarrow> string list result" where
  "credential_pools v worker =
     (case v of
        Some (JArr items) \<Rightarrow>
          and_then (map_result (credential_pool worker) items) (\<lambda>pools.
            if pools = [] \<or> \<not> distinct pools then Inl (refused_pools worker) else Inr pools)
      | _ \<Rightarrow> Inl (refused_pools worker))"

definition credential_row :: "json \<Rightarrow> worker_credential list \<Rightarrow> worker_credential result" where
  "credential_row v known =
     (case v of
        JObj row \<Rightarrow>
          if \<not> exact_fields row [''worker_id'', ''token_sha256'', ''pools'']
          then Inl (ValueError ''worker credential has unsupported fields'')
          else (case map_of row ''worker_id'' of
              Some (JStr worker) \<Rightarrow>
                if \<not> worker_id_match worker then Inl (ValueError ''worker credential has an invalid worker_id'')
                else if worker \<in> set (map wc_worker_id known) then Inl (ValueError (''duplicate worker credential: '' @ worker))
                else (case map_of row ''token_sha256'' of
                    Some (JStr digest) \<Rightarrow>
                      if \<not> token_digest digest
                      then Inl (ValueError (''worker credential '' @ worker @ '' has an invalid token digest''))
                      else and_then (credential_pools (map_of row ''pools'') worker) (\<lambda>pools.
                        Inr \<lparr>wc_worker_id = worker, wc_token_sha256 = digest, wc_pools = pools\<rparr>)
                  | _ \<Rightarrow> Inl (ValueError (''worker credential '' @ worker @ '' has an invalid token digest'')))
            | _ \<Rightarrow> Inl (ValueError ''worker credential has an invalid worker_id''))
      | _ \<Rightarrow> Inl (ValueError ''worker credential has unsupported fields''))"

fun credential_rows :: "json list \<Rightarrow> worker_credential list \<Rightarrow> worker_credential list result" where
  "credential_rows [] known = Inr known"
| "credential_rows (v # vs) known =
     and_then (credential_row v known) (\<lambda>c. credential_rows vs (known @ [c]))"

text \<open>\<open>load_credentials\<close>, for the parsed document of a private regular file.\<close>

definition load_credentials :: "json \<Rightarrow> worker_credential list result" where
  "load_credentials v =
     (case v of
        JObj doc \<Rightarrow>
          if \<not> exact_fields doc [''schema_version'', ''workers'']
          then Inl (ValueError ''worker credentials have unsupported fields'')
          else if map_of doc ''schema_version'' \<noteq> Some (JStr CREDENTIALS_SCHEMA)
          then Inl (ValueError ''worker credentials have an unsupported schema'')
          else (case map_of doc ''workers'' of
              Some (JArr (row # rows)) \<Rightarrow> credential_rows (row # rows) []
            | _ \<Rightarrow> Inl (ValueError ''worker credentials must contain at least one worker''))
      | _ \<Rightarrow> Inl (ValueError ''worker credentials have unsupported fields''))"

text \<open>\<open>header\<close> is the value of the Authorization header, empty when it is missing; \<open>token_sha256\<close> digests
  a token.\<close>

definition authenticate ::
  "(string \<Rightarrow> string) \<Rightarrow> worker_credential list \<Rightarrow> string \<Rightarrow> document \<Rightarrow> worker_credential result" where
  "authenticate token_sha256 credentials header doc =
     and_then (remote_text doc ''worker_id'' 128) (\<lambda>worker.
       let bearer = take 7 header = ''Bearer '' \<and> length header \<le> 1024;
           credential = (if bearer then find (\<lambda>c. wc_worker_id c = worker) credentials else None);
           token = (if bearer then drop 7 header else []);
           refused = Inl (RemoteApiError 401 ''authentication-failed'' ''worker authentication failed'')
       in case credential of
            None \<Rightarrow> refused
          | Some c \<Rightarrow> if token_sha256 token \<noteq> wc_token_sha256 c then refused else Inr c)"

section \<open>The world of a handler\<close>

type_synonym attempt_key = "string \<times> int"

record world =
  wd_ledger :: ledger
  wd_staging :: "attempt_key \<Rightarrow> path \<Rightarrow> upload_files"
  wd_published :: "attempt_key \<Rightarrow> tree option"

type_synonym 'a handler = "world \<Rightarrow> 'a result \<times> world"

definition followed_by :: "'a handler \<Rightarrow> ('a \<Rightarrow> 'b handler) \<Rightarrow> 'b handler" where
  "followed_by m f w = (case m w of (Inl e, w) \<Rightarrow> (Inl e, w) | (Inr x, w) \<Rightarrow> f x w)"

lemma followed_by_case [code_unfold]:
  "followed_by m f = (\<lambda>w. case m w of (r, v) \<Rightarrow> (case r of Inl e \<Rightarrow> (Inl e, v) | Inr x \<Rightarrow> f x v))"
  by (simp add: fun_eq_iff followed_by_def split: prod.split sum.split)

definition returns :: "'a result \<Rightarrow> 'a handler" where
  "returns r w = (r, w)"

definition on_ledger :: "(ledger \<Rightarrow> 'a result \<times> ledger) \<Rightarrow> 'a handler" where
  "on_ledger f w = (case f (wd_ledger w) of (r, L) \<Rightarrow> (r, w\<lparr>wd_ledger := L\<rparr>))"

definition read_ledger :: "(ledger \<Rightarrow> 'a result) \<Rightarrow> 'a handler" where
  "read_ledger f w = (f (wd_ledger w), w)"

text \<open>
  What a request takes from outside: the configuration, \<open>QueueConfig.load\<close> of the queue file at that
  time, the readings of the clocks (\<open>re_now i\<close> for the \<open>i\<close>th coordinator call), the time zone and the
  text of a local time, the seconds until one, the lease token, what \<open>_staging\<close> raises, the files an
  external toolchain is loaded from, the length of the text of a JSON value and the content of the
  metadata file of an upload.
\<close>

record remote_env =
  re_credentials :: "worker_credential list"
  re_token_sha256 :: "string \<Rightarrow> string"
  re_sha256 :: "bytes \<Rightarrow> string"
  re_base64 :: "string \<Rightarrow> bytes option"
  re_loads :: "bytes \<Rightarrow> json option"
  re_max_artifact_bytes :: nat
  re_max_json_bytes :: nat
  re_queue :: "(queue_config \<times> operations_policy) result"
  re_to_local :: "string \<Rightarrow> int \<Rightarrow> int"
  re_moment :: int
  re_text_of_local :: "int \<Rightarrow> string"
  re_seconds_until :: "int \<Rightarrow> rat"
  re_now :: "nat \<Rightarrow> rat"
  re_clock :: stamp
  re_lease_token :: string
  re_staging_error :: "attempt_key \<Rightarrow> error option"
  re_iso :: iso_parser
  re_span_clock :: span_clock
  re_recorder_started :: "int \<times> string"
  re_recorder_finished :: int
  re_external :: external_env
  re_json_length :: "json \<Rightarrow> nat"
  re_metadata_bytes :: "metadata_text \<Rightarrow> bytes"

definition staging_of :: "remote_env \<Rightarrow> attempt_key \<Rightarrow> unit handler" where
  "staging_of env key = returns (case re_staging_error env key of Some e \<Rightarrow> Inl e | None \<Rightarrow> Inr ())"

datatype remote_response =
    Gated schedule_state "execution_block option" pool_document
  | NoLease pool_document
  | Granted lease_payload pool_document
  | Renewed lease_payload
  | Staged int
  | FailedJob job_row
  | Stored string string nat
  | StoredChunk acknowledgement
  | CompletedJob job_row
  | Registered worker_payload

section \<open>Registration\<close>

text \<open>The preflight of a registration and the external toolchain it says it is for.\<close>

definition preflight_of :: "document \<Rightarrow> (document \<times> string) result" where
  "preflight_of doc =
     (let no_identity = Inl (bad_request ''invalid-preflight'' ''worker preflight has no definition identity'')
      in case map_of doc ''preflight'' of
           Some (JObj preflight) \<Rightarrow>
             (case map_of preflight ''definition'' of
                Some (JObj identity) \<Rightarrow> (case map_of identity ''id'' of Some (JStr i) \<Rightarrow> Inr (preflight, i) | _ \<Rightarrow> no_identity)
              | _ \<Rightarrow> no_identity)
         | _ \<Rightarrow> Inl (bad_request ''invalid-preflight'' ''worker registration requires a structured preflight''))"

definition remote_register :: "remote_env \<Rightarrow> worker_credential \<Rightarrow> document \<Rightarrow> remote_response handler" where
  "remote_register env credential doc =
     followed_by (returns (and_then (only_fields doc [''worker_id'', ''preflight'']) (\<lambda>_. preflight_of doc)))
       (\<lambda>(preflight, reference).
     followed_by (returns (load_external_toolchain (re_external env) reference)) (\<lambda>d.
     if ed_worker_pool d \<notin> set (wc_pools credential)
     then returns (Inl (RemoteApiError 403 ''pool-denied'' ''worker is not authorized for the external toolchain pool''))
     else
     followed_by (returns (validate_registration (re_json_length env) preflight d)) (\<lambda>accepted.
     followed_by (on_ledger (touch_worker (re_clock env) (wc_worker_id credential) ''remote-http'' (wc_pools credential)
         (Some [(''last_operation'', JStr ''register''), (''external_toolchain'', JObj accepted)]) (re_now env 1)))
       (\<lambda>worker. returns (Inr (Registered worker))))))"

section \<open>Claiming\<close>

definition block_active :: "execution_block \<Rightarrow> bool" where
  "block_active b \<longleftrightarrow> eb_primary b \<noteq> NoBlock"

definition lookahead_active :: "execution_block \<Rightarrow> bool" where
  "lookahead_active b \<longleftrightarrow> eb_lookahead b \<noteq> NoBlock"

definition batch_of :: "block_document \<Rightarrow> string" where
  "batch_of b = (case b of NoBlock \<Rightarrow> [] | Block batch _ _ _ \<Rightarrow> batch)"

definition admission_of :: "block_document \<Rightarrow> string" where
  "admission_of b = (case b of NoBlock \<Rightarrow> [] | Block _ admission _ _ \<Rightarrow> admission)"

text \<open>An open window admits the next block, when blocks are finished once started.\<close>

definition admit_block ::
  "remote_env \<Rightarrow> schedule_policy \<Rightarrow> schedule_state \<Rightarrow> string \<Rightarrow> execution_block option \<Rightarrow> execution_block option handler" where
  "admit_block env policy schedule worker block =
     (case block of
        None \<Rightarrow> returns (Inr None)
      | Some b \<Rightarrow>
          if sp_enabled policy \<and> \<not> block_active b \<and> ss_claims_allowed schedule
          then (case ss_window_started_at schedule of
              None \<Rightarrow> returns (Inl (ValueError ''open schedule did not provide a durable window identity''))
            | Some started \<Rightarrow>
                on_ledger (start_next_block (re_text_of_local env started) True (sp_chain_batches policy) (re_now env 1) worker))
          else returns (Inr (Some b)))"

text \<open>The tail of an active block may be filled from the next batch.\<close>

definition fits_before_cutoff :: "remote_env \<Rightarrow> tail_fill_policy \<Rightarrow> schedule_state \<Rightarrow> bool" where
  "fits_before_cutoff env tail schedule =
     (case ss_stop_claiming_at schedule of
        None \<Rightarrow> \<not> tf_require_fit tail
      | Some stop \<Rightarrow> re_seconds_until env stop \<ge> of_int (tf_conservative_block_minutes tail * 60))"

definition fill_tail ::
  "remote_env \<Rightarrow> tail_fill_policy \<Rightarrow> schedule_state \<Rightarrow> string \<Rightarrow> execution_block option \<Rightarrow> execution_block option handler" where
  "fill_tail env tail schedule worker block =
     (case block of
        None \<Rightarrow> returns (Inr None)
      | Some b \<Rightarrow>
          if block_active b \<and> tf_enabled tail \<and> \<not> lookahead_active b \<and> ss_claims_allowed schedule
             \<and> fits_before_cutoff env tail schedule
          then followed_by
              (on_ledger (admit_lookahead_block (admission_of (eb_primary b) @ '':lookahead'') (tf_minimum_idle_slots tail)
                 worker (re_now env 2)))
              (\<lambda>admitted. returns (Inr (Some (case admitted of Some b' \<Rightarrow> b' | None \<Rightarrow> b))))
          else returns (Inr (Some b)))"

definition claim_batches :: "execution_block option \<Rightarrow> string list option" where
  "claim_batches block =
     (case block of
        None \<Rightarrow> None
      | Some b \<Rightarrow>
          if block_active b
          then Some (batch_of (eb_primary b) # (if lookahead_active b then [batch_of (eb_lookahead b)] else []))
          else None)"

text \<open>A lease is handed out with its staging directory, or given back.\<close>

definition hand_out :: "remote_env \<Rightarrow> lease_payload \<Rightarrow> pool_document \<Rightarrow> remote_response handler" where
  "hand_out env l report w =
     (case staging_of env (lp_job_id l, lp_lease_generation l) w of
        (Inr _, w) \<Rightarrow> (Inr (Granted l report), w)
      | (Inl e, w) \<Rightarrow>
          followed_by (on_ledger (fail (lp_job_id l) (lp_lease_token l) (lp_lease_generation l)
            (''remote staging failed: '' @ error_type e @ '': '' @ error_message e) True None False (re_now env 6)))
            (\<lambda>_. returns (Inl e)) w)"

definition grant ::
  "remote_env \<Rightarrow> string \<Rightarrow> string \<Rightarrow> execution_block option \<Rightarrow> remote_response handler" where
  "grant env worker pool block =
     followed_by (on_ledger (claim (re_lease_token env) worker (re_now env 3) (Some pool) None (claim_batches block))) (\<lambda>lease.
     followed_by (if block \<noteq> None \<and> lease = None
         then on_ledger (finish_active_block_if_drained (re_now env 4) worker) else returns (Inr False)) (\<lambda>_.
     followed_by (read_ledger (pool_status pool (re_now env 5))) (\<lambda>status.
     case lease of
       None \<Rightarrow> returns (Inr (NoLease status))
     | Some l \<Rightarrow> hand_out env l status)))"

definition remote_claim :: "remote_env \<Rightarrow> worker_credential \<Rightarrow> document \<Rightarrow> remote_response handler" where
  "remote_claim env credential doc =
     followed_by (returns (and_then (only_fields doc [''worker_id'', ''pool'']) (\<lambda>_. remote_text doc ''pool'' 64))) (\<lambda>pool.
     if pool \<notin> set (wc_pools credential)
     then returns (Inl (RemoteApiError 403 ''pool-denied'' ''worker is not authorized for this pool''))
     else
     followed_by (returns (re_queue env)) (\<lambda>(queue, operations).
     let policy = op_schedule operations; worker = wc_worker_id credential in
     followed_by (returns (evaluate (re_to_local env) policy (Aware (re_moment env)))) (\<lambda>schedule.
     if \<not> qc_armed queue
     then followed_by (read_ledger (pool_status pool (re_now env 5))) (\<lambda>status. returns (Inr (Gated schedule None status)))
     else
     followed_by (read_ledger (\<lambda>L. Inr (if sp_finish_started_batch policy then Some (execution_block L) else None))) (\<lambda>block.
     followed_by (admit_block env policy schedule worker block) (\<lambda>block.
     let claims_allowed = (if sp_finish_started_batch policy
           then (case block of None \<Rightarrow> False | Some b \<Rightarrow> block_active b) else ss_claims_allowed schedule)
     in if \<not> claims_allowed
        then followed_by (read_ledger (pool_status pool (re_now env 5))) (\<lambda>status. returns (Inr (Gated schedule block status)))
        else followed_by (fill_tail env (sp_tail_fill policy) schedule worker block) (grant env worker pool))))))"

section \<open>Calls under a lease\<close>

definition lease_common :: "string list" where
  "lease_common = [''worker_id'', ''job_id'', ''lease_token'', ''lease_generation'']"

text \<open>\<open>document.get(field)\<close>, where a JSON null is Python's \<open>None\<close>.\<close>

definition nullable :: "document \<Rightarrow> string \<Rightarrow> json option" where
  "nullable doc name = (case map_of doc name of Some JNull \<Rightarrow> None | v \<Rightarrow> v)"

definition optional_flag :: "document \<Rightarrow> string \<Rightarrow> bool result" where
  "optional_flag doc name =
     (case map_of doc name of
        Some (JBool b) \<Rightarrow> Inr b
      | None \<Rightarrow> Inr False
      | _ \<Rightarrow> Inl (bad_request ''invalid-field'' (name @ '' must be a boolean'')))"

definition remote_renew :: "remote_env \<Rightarrow> string \<Rightarrow> string \<Rightarrow> int \<Rightarrow> document \<Rightarrow> remote_response handler" where
  "remote_renew env jid token generation doc =
     followed_by (returns (only_fields doc lease_common)) (\<lambda>_.
     followed_by (on_ledger (renew jid token generation (re_now env 1) None)) (\<lambda>job. returns (Inr (Renewed job))))"

definition remote_stage :: "remote_env \<Rightarrow> string \<Rightarrow> string \<Rightarrow> int \<Rightarrow> document \<Rightarrow> remote_response handler" where
  "remote_stage env jid token generation doc =
     followed_by (returns (and_then (only_fields doc (lease_common @ [''stage'', ''status'', ''duration_ns'', ''details'']))
       (\<lambda>_. and_then (remote_text doc ''stage'' 128) (\<lambda>stage. and_then (remote_text doc ''status'' 32) (\<lambda>status.
          Inr (stage, status)))))) (\<lambda>(stage, status).
     followed_by (on_ledger (record_stage (re_iso env) jid token generation stage status (nullable doc ''duration_ns'')
         (nullable doc ''details'') (re_now env 1))) (\<lambda>event. returns (Inr (Staged event))))"

definition remote_fail :: "remote_env \<Rightarrow> string \<Rightarrow> string \<Rightarrow> int \<Rightarrow> document \<Rightarrow> remote_response handler" where
  "remote_fail env jid token generation doc =
     followed_by (returns (and_then (only_fields doc (lease_common @ [''error'', ''retryable'', ''pathological''])) (\<lambda>_.
        and_then (case map_of doc ''retryable'' of Some (JBool b) \<Rightarrow> Inr b
            | _ \<Rightarrow> Inl (bad_request ''invalid-field'' ''retryable must be a boolean'')) (\<lambda>retryable.
        and_then (optional_flag doc ''pathological'') (\<lambda>pathological.
        and_then (remote_text doc ''error'' 4096) (\<lambda>message. Inr (message, retryable, pathological)))))))
       (\<lambda>(message, retryable, pathological).
     followed_by (on_ledger (fail jid token generation message retryable None pathological (re_now env 1)))
       (\<lambda>job. returns (Inr (FailedJob job))))"

section \<open>Uploads\<close>

definition set_files :: "attempt_key \<Rightarrow> path \<Rightarrow> upload_files \<Rightarrow> world \<Rightarrow> world" where
  "set_files key relative fs w =
     w\<lparr>wd_staging := (wd_staging w)(key := (wd_staging w key)(relative := fs))\<rparr>"

text \<open>A chunk or a whole artifact for a file of the attempt; the empty path is the directory itself.\<close>

definition upload_chunk_to ::
  "remote_env \<Rightarrow> attempt_key \<Rightarrow> path \<Rightarrow> bytes \<Rightarrow> string \<Rightarrow> string \<Rightarrow> document \<Rightarrow> remote_response handler" where
  "upload_chunk_to env key relative content artifact_sha256 chunk_sha256 doc w =
     (if relative = []
      then (case chunk_arguments (re_sha256 env) (re_max_artifact_bytes env) content artifact_sha256
                   (map_of doc ''artifact_bytes'') (map_of doc ''offset'') chunk_sha256 (map_of doc ''final'') of
              Inl e \<Rightarrow> (Inl e, w)
            | Inr _ \<Rightarrow> (Inl (conflict ''artifact-conflict'' ''artifact destination is invalid''), w))
      else let fs = wd_staging w key relative
           in (case store_upload_chunk (re_sha256 env) (re_max_artifact_bytes env) fs (path_text relative) content
                   artifact_sha256 (map_of doc ''artifact_bytes'') (map_of doc ''offset'') chunk_sha256 (map_of doc ''final'') of
                 (writes, r) \<Rightarrow> (map_sum id StoredChunk r, set_files key relative (durable_steps writes fs) w)))"

definition upload_whole_to ::
  "remote_env \<Rightarrow> attempt_key \<Rightarrow> path \<Rightarrow> bytes \<Rightarrow> string \<Rightarrow> remote_response handler" where
  "upload_whole_to env key relative content expected w =
     (let fs = wd_staging w key relative
      in case store_upload (re_sha256 env) (re_max_artifact_bytes env) fs (path_text relative) content expected of
           (writes, Inl e) \<Rightarrow> (Inl e, w)
         | (writes, Inr (place, digest, n)) \<Rightarrow>
             if relative = [] then (Inl (conflict ''artifact-conflict'' ''artifact upload already exists''), w)
             else (Inr (Stored place digest n), set_files key relative (durable_steps writes fs) w))"

definition decoded_content :: "remote_env \<Rightarrow> document \<Rightarrow> bytes result" where
  "decoded_content env doc =
     and_then (remote_text doc ''content_base64'' (re_max_json_bytes env)) (\<lambda>encoded.
       case re_base64 env encoded of
         None \<Rightarrow> Inl (bad_request ''invalid-base64'' ''artifact content is not valid base64'')
       | Some content \<Rightarrow> Inr content)"

definition remote_upload :: "remote_env \<Rightarrow> string \<Rightarrow> string \<Rightarrow> int \<Rightarrow> document \<Rightarrow> remote_response handler" where
  "remote_upload env jid token generation doc =
     (let chunked = map_of doc ''offset'' \<noteq> None;
          names = (if chunked then [''relative_path'', ''artifact_sha256'', ''artifact_bytes'', ''offset'', ''chunk_sha256'',
                     ''content_base64'', ''final'']
                   else [''relative_path'', ''sha256'', ''content_base64''])
      in followed_by (returns (only_fields doc (lease_common @ names))) (\<lambda>_.
         followed_by (on_ledger (renew jid token generation (re_now env 1) None)) (\<lambda>_.
         followed_by (returns (and_then (relative_path (map_of doc ''relative_path'') ''relative_path'') (\<lambda>relative.
            and_then (decoded_content env doc) (\<lambda>content. Inr (relative, content))))) (\<lambda>(relative, content).
         followed_by (staging_of env (jid, generation)) (\<lambda>_.
         if chunked
         then followed_by (returns (and_then (remote_text doc ''artifact_sha256'' 64) (\<lambda>artifact_sha256.
                and_then (remote_text doc ''chunk_sha256'' 64) (\<lambda>chunk_sha256. Inr (artifact_sha256, chunk_sha256)))))
              (\<lambda>(artifact_sha256, chunk_sha256).
                upload_chunk_to env (jid, generation) relative content artifact_sha256 chunk_sha256 doc)
         else followed_by (returns (remote_text doc ''sha256'' 64))
              (\<lambda>expected. upload_whole_to env (jid, generation) relative content expected))))))"

section \<open>Completion\<close>

text \<open>The cell of the job in the resolved plan.\<close>

definition resolved_cell_of :: "string \<Rightarrow> ledger \<Rightarrow> json option" where
  "resolved_cell_of jid L =
     (case find (\<lambda>j. job_id j = jid) (jobs L) of
        None \<Rightarrow> None
      | Some j \<Rightarrow> map_option cell_json (find (\<lambda>c. cell_plan c = job_plan j \<and> cell_id c = job_cell j) (cells L)))"

definition completed_identity :: "document \<Rightarrow> json \<Rightarrow> bool" where
  "completed_identity doc cell \<longleftrightarrow>
     py_equal (map_of doc ''cell_id'') (jget cell ''id'') \<and> py_equal (map_of doc ''kind'') (jget cell ''kind'')
     \<and> py_equal (map_of doc ''executor'') (jget (opt_json (jget cell ''routing'')) ''executor'')"

definition remote_result :: "document \<Rightarrow> cell_result result" where
  "remote_result doc =
     and_then (remote_text doc ''cell_id'' 512) (\<lambda>cell. and_then (remote_text doc ''kind'' 64) (\<lambda>kind.
     and_then (remote_text doc ''executor'' 64) (\<lambda>executor.
     and_then (relative_path (map_of doc ''seal_path'') ''seal_path'') (\<lambda>seal.
     and_then (remote_text doc ''seal_sha256'' 64) (\<lambda>digest.
     and_then (relative_path (map_of doc ''fidb_path'') ''fidb_path'') (\<lambda>fidb.
     and_then (relative_path (map_of doc ''fidbf_path'') ''fidbf_path'') (\<lambda>fidbf.
     Inr \<lparr>rr_cell_id = cell, rr_kind = kind, rr_executor = executor, rr_seal_path = seal, rr_seal_sha256 = digest,
          rr_fidb_path = fidb, rr_fidbf_path = fidbf, rr_timing = nullable doc ''timing''\<rparr>)))))))"

text \<open>The recorder's callback of the handler: each event is a stage record.\<close>

definition record_progress ::
  "remote_env \<Rightarrow> string \<Rightarrow> string \<Rightarrow> int \<Rightarrow> world \<Rightarrow> progress_event \<Rightarrow> unit result \<times> world" where
  "record_progress env jid token generation w e =
     followed_by (on_ledger (record_stage (re_iso env) jid token generation (stage_value (pg_stage e))
         (status_value (pg_status e)) (map_option JInt (pg_duration_ns e))
         (Some (JObj [(''message'', JStr (pg_message e)), (''metrics'', JObj (pg_metrics e)),
            (''started_at'', JStr (pg_started_at e)), (''finished_at'', opt_str (pg_finished_at e))]))
         (re_now env (if pg_status e = STARTED then 2 else 3))))
       (\<lambda>_. returns (Inr ())) w"

text \<open>The files of the staging directory: the artifacts, and of an unfinished upload of \<open>name\<close> the partial file
  \<open>.name.upload\<close> and its metadata \<open>.name.upload.json\<close>.\<close>

definition upload_owner :: "string \<Rightarrow> path \<Rightarrow> path option" where
  "upload_owner ending p =
     (if p \<noteq> [] \<and> take 1 (last p) = ''.'' \<and> ends_with (last p) ending \<and> length (last p) > Suc (length ending)
      then Some (butlast p @ [take (length (last p) - Suc (length ending)) (tl (last p))]) else None)"

definition staged_tree :: "(metadata_text \<Rightarrow> bytes) \<Rightarrow> (path \<Rightarrow> upload_files) \<Rightarrow> tree" where
  "staged_tree metadata_bytes files = (\<lambda>p.
     case uf_destination (files p) of
       Some content \<Rightarrow> Some content
     | None \<Rightarrow>
         (case upload_owner ''.upload'' p of
            Some owner \<Rightarrow> uf_partial (files owner)
          | None \<Rightarrow>
              (case upload_owner ''.upload.json'' p of
                 Some owner \<Rightarrow> map_option metadata_bytes (uf_metadata (files owner))
               | None \<Rightarrow> None)))"

definition attempt_root :: "attempt_key \<Rightarrow> string" where
  "attempt_root key = ''artifacts/runs/'' @ fst key @ ''/attempt-'' @ decimal (nat (snd key))"

text \<open>The body of the publication span: the staged files become the published attempt.\<close>

definition publish_body ::
  "remote_env \<Rightarrow> attempt_key \<Rightarrow> cell_result \<Rightarrow> recorder \<Rightarrow> world
     \<Rightarrow> (json result \<times> (string \<times> json) list) \<times> recorder \<times> world" where
  "publish_body env key result r w =
     (case durably_publish (re_iso env) (re_sha256 env) (re_loads env) result (Some (staged_tree (re_metadata_bytes env) (wd_staging w key)))
            (wd_published w key) of
        (Inl e, _, _) \<Rightarrow> ((Inl e, []), r, w)
      | (Inr _, _, final) \<Rightarrow>
          ((result_document (re_sha256 env) result (case final of Some t \<Rightarrow> t | None \<Rightarrow> Map.empty) (attempt_root key), []), r,
           w\<lparr>wd_staging := (wd_staging w)(key := \<lambda>_. no_files), wd_published := (wd_published w)(key := final)\<rparr>))"

definition with_timing :: "json \<Rightarrow> json \<Rightarrow> json" where
  "with_timing doc timing = (case doc of JObj kvs \<Rightarrow> JObj (kvs @ [(''timing'', timing)]) | _ \<Rightarrow> doc)"

definition publish_and_complete ::
  "remote_env \<Rightarrow> string \<Rightarrow> string \<Rightarrow> string \<Rightarrow> int \<Rightarrow> cell_result \<Rightarrow> remote_response handler" where
  "publish_and_complete env worker jid token generation result w =
     (case span (record_progress env jid token generation) (re_span_clock env) PUBLICATION
          ''publishing authenticated remote worker artifacts'' [(''worker_id'', JStr worker)]
          (publish_body env (jid, generation) result)
          (new_recorder (fst (re_recorder_started env)) (snd (re_recorder_started env))) w of
        (Inl e, r, w) \<Rightarrow> (Inl e, w)
      | (Inr doc, r, w) \<Rightarrow>
          followed_by (on_ledger (complete jid token generation
              (Some (with_timing doc (JObj [(''schema_version'', JStr JOB_TIMING_SCHEMA),
                 (''cell'', opt_json (rr_timing result)),
                 (''publication'', timing_document (re_recorder_finished env) r)]))) (re_now env 4)))
            (\<lambda>job. returns (Inr (CompletedJob job))) w)"

definition remote_complete ::
  "remote_env \<Rightarrow> string \<Rightarrow> string \<Rightarrow> string \<Rightarrow> int \<Rightarrow> document \<Rightarrow> remote_response handler" where
  "remote_complete env worker jid token generation doc =
     followed_by (returns (only_fields doc (lease_common @ [''cell_id'', ''kind'', ''executor'', ''seal_path'',
        ''seal_sha256'', ''fidb_path'', ''fidbf_path'', ''timing'']))) (\<lambda>_.
     followed_by (on_ledger (renew jid token generation (re_now env 1) None)) (\<lambda>_.
     followed_by (staging_of env (jid, generation)) (\<lambda>_.
     followed_by (read_ledger (\<lambda>L. case resolved_cell_of jid L of
         None \<Rightarrow> Inl (conflict ''missing-authority'' ''leased cell authority is unavailable'') | Some c \<Rightarrow> Inr c)) (\<lambda>cell.
     followed_by (returns (and_then (require (completed_identity doc cell)
          (conflict ''cell-identity-mismatch'' ''completed result does not match the leased resolved cell'')) (\<lambda>_.
        and_then (remote_result doc) (\<lambda>result.
        and_then (validate_cell_timing (re_iso env) (rr_timing result)) (\<lambda>_. Inr result))))) (\<lambda>result.
     publish_and_complete env worker jid token generation result)))))"

section \<open>The endpoint\<close>

definition LEASE_OPERATIONS :: "string list" where
  "LEASE_OPERATIONS = [''renew'', ''stage'', ''fail'', ''upload'', ''complete'']"

definition remote_operation ::
  "remote_env \<Rightarrow> string \<Rightarrow> document \<Rightarrow> worker_credential \<Rightarrow> remote_response handler" where
  "remote_operation env operation doc credential =
     (if operation = ''register'' then remote_register env credential doc
      else if operation = ''claim'' then remote_claim env credential doc
      else
      followed_by (returns (lease_fields doc)) (\<lambda>(jid, token, generation).
      followed_by (read_ledger (get_job jid)) (\<lambda>durable_job.
      if leased_by durable_job \<noteq> Some (wc_worker_id credential)
      then returns (Inl (RemoteApiError 403 ''lease-owner-mismatch'' ''lease is not owned by the authenticated worker''))
      else if operation = ''renew'' then remote_renew env jid token generation doc
      else if operation = ''stage'' then remote_stage env jid token generation doc
      else if operation = ''fail'' then remote_fail env jid token generation doc
      else if operation = ''upload'' then remote_upload env jid token generation doc
      else if operation = ''complete'' then remote_complete env (wc_worker_id credential) jid token generation doc
      else returns (Inl (RemoteApiError 404 ''not-found'' ''worker endpoint not found'')))))"

text \<open>How \<open>do_POST\<close> answers an exception.\<close>

definition http_error :: "error \<Rightarrow> error" where
  "http_error e = (case e of
       RemoteApiError st code message \<Rightarrow> e
     | CoordinatorError m \<Rightarrow> conflict ''lease-conflict'' m
     | LeaseConflictError m \<Rightarrow> conflict ''lease-conflict'' m
     | OSError m \<Rightarrow> conflict ''operation-failed'' m
     | ValueError m \<Rightarrow> conflict ''operation-failed'' m
     | CellResolutionError m \<Rightarrow> conflict ''operation-failed'' m
     | _ \<Rightarrow> RemoteApiError 500 ''internal-error'' ''worker operation could not be completed'')"

text \<open>\<open>do_POST\<close> of a well-formed request: authenticate, note that the worker is alive (a registration does
  that itself), serve; an exception becomes an error answer.\<close>

definition remote_serve :: "remote_env \<Rightarrow> string \<Rightarrow> string \<Rightarrow> document \<Rightarrow> remote_response handler" where
  "remote_serve env operation header doc =
     followed_by (returns (and_then
         (require (operation \<in> set (''register'' # ''claim'' # LEASE_OPERATIONS)) (RemoteApiError 404 ''not-found'' ''worker endpoint not found''))
         (\<lambda>_. authenticate (re_token_sha256 env) (re_credentials env) header doc))) (\<lambda>credential.
       if operation = ''register'' then remote_operation env operation doc credential
       else
       followed_by (on_ledger (touch_worker (re_clock env) (wc_worker_id credential) ''remote-http'' (wc_pools credential)
           (Some [(''last_operation'', JStr operation)]) (re_now env 0))) (\<lambda>_.
       remote_operation env operation doc credential))"

definition remote_post :: "remote_env \<Rightarrow> string \<Rightarrow> string \<Rightarrow> document \<Rightarrow> remote_response handler" where
  "remote_post env operation header doc w =
     (case remote_serve env operation header doc w of
        (Inl e, w) \<Rightarrow> (Inl (http_error e), w)
      | (Inr r, w) \<Rightarrow> (Inr r, w))"

section \<open>Every request keeps the ledger\<close>

lemma followed_by_simps [simp]:
  "followed_by (returns (Inl e)) f w = (Inl e, w)" "followed_by (returns (Inr x)) f w = f x w"
  by (simp_all add: followed_by_def returns_def)

lemma followed_by_Inr:
  "followed_by m f w = (Inr y, w') \<longleftrightarrow> (\<exists>x v. m w = (Inr x, v) \<and> f x v = (Inr y, w'))"
  by (auto simp: followed_by_def split: sum.splits prod.splits)

lemma returns_Inr: "returns r w = (Inr x, w') \<longleftrightarrow> r = Inr x \<and> w' = w"
  by (auto simp: returns_def)

lemma read_ledger_Inr: "read_ledger f w = (Inr x, w') \<longleftrightarrow> f (wd_ledger w) = Inr x \<and> w' = w"
  by (auto simp: read_ledger_def)

lemma on_ledger_eq: "on_ledger f w = (r, w') \<longleftrightarrow> (\<exists>L. f (wd_ledger w) = (r, L) \<and> w' = w\<lparr>wd_ledger := L\<rparr>)"
  by (auto simp: on_ledger_def split: prod.splits)

text \<open>A step of a handler after which the ledger has only moved as the coordinator moves it.\<close>

definition keeps_ledger :: "world \<Rightarrow> world \<Rightarrow> bool" where
  "keeps_ledger w w' \<longleftrightarrow> (ledger_inv (wd_ledger w) \<longrightarrow> evolves (wd_ledger w) (wd_ledger w') \<and> ledger_inv (wd_ledger w'))"

definition safe_handler :: "'a handler \<Rightarrow> bool" where
  "safe_handler m \<longleftrightarrow> (\<forall>w. keeps_ledger w (snd (m w)))"

named_theorems handlers \<open>handlers that keep the ledger\<close>

lemma keeps_refl [simp]: "keeps_ledger w w"
  by (simp add: keeps_ledger_def evolves_refl)

lemma keeps_trans: "keeps_ledger u v \<Longrightarrow> keeps_ledger v w \<Longrightarrow> keeps_ledger u w"
  by (auto simp: keeps_ledger_def intro: evolves_trans)

lemma keeps_same_ledger: "wd_ledger w' = wd_ledger w \<Longrightarrow> keeps_ledger w w'"
  by (simp add: keeps_ledger_def evolves_refl)

lemma safe_returns [handlers]: "safe_handler (returns r)"
  by (simp add: safe_handler_def returns_def)

lemma safe_read [handlers]: "safe_handler (read_ledger f)"
  by (simp add: safe_handler_def read_ledger_def)

lemma safe_staging [handlers]: "safe_handler (staging_of env key)"
  by (simp add: staging_of_def safe_returns)

lemma safe_followed_by [handlers]:
  "safe_handler m \<Longrightarrow> (\<And>x. safe_handler (f x)) \<Longrightarrow> safe_handler (followed_by m f)"
  by (fastforce simp: safe_handler_def followed_by_def split: sum.splits prod.splits intro: keeps_trans
      dest: spec [where x = "_ :: world"])

lemma safe_branches [handlers]:
  "(b \<Longrightarrow> safe_handler m) \<Longrightarrow> (\<not> b \<Longrightarrow> safe_handler n) \<Longrightarrow> safe_handler (if b then m else n)"
  "(v = None \<Longrightarrow> safe_handler m) \<Longrightarrow> (\<And>x. v = Some x \<Longrightarrow> safe_handler (f x)) \<Longrightarrow> safe_handler (case_option m f v)"
  "(\<And>x y. p = (x, y) \<Longrightarrow> safe_handler (g x y)) \<Longrightarrow> safe_handler (case_prod g p)"
  by (simp_all split: option.split prod.split)

lemma safe_on_ledger: "(\<And>L. ledger_inv L \<Longrightarrow> safe_outcome L (f L)) \<Longrightarrow> safe_handler (on_ledger f)"
  by (simp add: safe_handler_def on_ledger_def keeps_ledger_def safe_outcome_def split_beta)

lemma coordinator_handlers [handlers]:
  "safe_handler (on_ledger (start_next_block admission scheduled reentry now actor))"
  "safe_handler (on_ledger (admit_lookahead_block admission idle actor now))"
  "safe_handler (on_ledger (finish_active_block_if_drained now actor))"
  "safe_handler (on_ledger (claim token worker now pool one many))"
  "safe_handler (on_ledger (renew jid token generation now seconds))"
  "safe_handler (on_ledger (record_stage parse jid token generation stage st duration details now))"
  "safe_handler (on_ledger (complete jid token generation value now))"
  "safe_handler (on_ledger (fail jid token generation message retryable cls pathological now))"
  "safe_handler (on_ledger (touch_worker clock worker transport pools metadata now))"
  by (rule safe_on_ledger, simp add: start_next_block_def admit_lookahead_block_def finish_active_block_if_drained_def
      claim_def renew_def record_stage_def touch_worker_safe complete_safe fail_safe operations_safe split: sum.split)+

lemma keeps_set_files [simp]: "keeps_ledger w (set_files key relative fs w)"
  by (simp add: keeps_same_ledger set_files_def)

lemma safe_uploads [handlers]:
  "safe_handler (upload_chunk_to env key relative content a c doc)"
  "safe_handler (upload_whole_to env key relative content expected)"
  by (auto simp: safe_handler_def upload_chunk_to_def upload_whole_to_def Let_def split: sum.splits prod.splits)

text \<open>A span whose callback and body keep the ledger keeps it.\<close>

lemma keeps_span:
  assumes callback: "\<And>w e. keeps_ledger w (snd (callback w e))" and body: "\<And>r w. keeps_ledger w (snd (snd (body r w)))"
  shows "keeps_ledger w (snd (snd (span callback k stage message metrics body r w)))"
proof (cases "tr_open_stage r")
  case None
  let ?start = "\<lparr>pg_stage = stage, pg_status = STARTED, pg_message = message, pg_duration_ns = None,
                pg_metrics = metrics, pg_started_at = sk_started_at k, pg_finished_at = None\<rparr>"
  let ?r = "r\<lparr>tr_open_stage := Some stage\<rparr>" and ?w = "snd (callback w ?start)"
  let ?b = "body ?r ?w"
  have chain: "keeps_ledger w ?w" "keeps_ledger ?w (snd (snd ?b))"
      "keeps_ledger (snd (snd ?b)) (snd (callback (snd (snd ?b)) e))" for e
    using callback body by blast+
  have all: "keeps_ledger w (snd (snd ?b))" "keeps_ledger w (snd (callback (snd (snd ?b)) e))" for e
    using chain keeps_trans by blast+
  obtain outcome added r2 w2 where b: "?b = ((outcome, added), r2, w2)" by (metis prod.exhaust_sel)
  show ?thesis using None chain(1) all b
    by (simp add: span_def emit_eq Let_def split: sum.split)
qed (simp add: span_def)

lemma keeps_progress: "keeps_ledger w (snd (record_progress env jid token generation w e))"
  using safe_followed_by [OF coordinator_handlers(6), of "\<lambda>_. returns (Inr ())", OF safe_returns]
  by (simp add: record_progress_def safe_handler_def)

lemma keeps_publish: "keeps_ledger w (snd (snd (publish_body env key result r w)))"
  by (auto simp: publish_body_def intro: keeps_same_ledger split: sum.splits prod.splits)

lemma safe_publish_and_complete [handlers]: "safe_handler (publish_and_complete env worker jid token generation result)"
  unfolding safe_handler_def
proof
  fix w
  let ?s = "span (record_progress env jid token generation) (re_span_clock env) PUBLICATION
          ''publishing authenticated remote worker artifacts'' [(''worker_id'', JStr worker)]
          (publish_body env (jid, generation) result)
          (new_recorder (fst (re_recorder_started env)) (snd (re_recorder_started env))) w"
  obtain outcome r w' where s: "?s = (outcome, r, w')" by (metis prod.exhaust_sel)
  have "keeps_ledger w (snd (snd ?s))" by (rule keeps_span [OF keeps_progress keeps_publish])
  then have kept: "keeps_ledger w w'" by (simp add: s)
  show "keeps_ledger w (snd (publish_and_complete env worker jid token generation result w))"
  proof (cases outcome)
    case (Inr doc)
    let ?rest = "followed_by (on_ledger (complete jid token generation
              (Some (with_timing doc (JObj [(''schema_version'', JStr JOB_TIMING_SCHEMA),
                 (''cell'', opt_json (rr_timing result)),
                 (''publication'', timing_document (re_recorder_finished env) r)]))) (re_now env 4)))
            (\<lambda>job. returns (Inr (CompletedJob job)))"
    have "safe_handler ?rest" by (intro handlers)
    then have "keeps_ledger w (snd (?rest w'))" using kept by (auto simp: safe_handler_def intro: keeps_trans)
    moreover have "publish_and_complete env worker jid token generation result w = ?rest w'"
      unfolding publish_and_complete_def s Inr by simp
    ultimately show ?thesis by (simp only:)
  qed (use kept s in \<open>simp add: publish_and_complete_def\<close>)
qed

lemma safe_fill_tail [handlers]: "safe_handler (fill_tail env tail schedule worker block)"
  unfolding fill_tail_def by (intro handlers)

lemma safe_admit_block [handlers]: "safe_handler (admit_block env policy schedule worker block)"
  unfolding admit_block_def by (intro handlers)

lemma safe_hand_out [handlers]: "safe_handler (hand_out env l report)"
  unfolding safe_handler_def
proof
  fix w
  let ?fail = "\<lambda>e. followed_by (on_ledger (fail (lp_job_id l) (lp_lease_token l) (lp_lease_generation l)
      (''remote staging failed: '' @ error_type e @ '': '' @ error_message e) True None False (re_now env 6)))
      (\<lambda>_. returns (Inl e :: remote_response result))"
  have "safe_handler (?fail e)" for e by (intro handlers)
  then show "keeps_ledger w (snd (hand_out env l report w))"
    by (simp add: hand_out_def staging_of_def returns_def safe_handler_def split: option.split)
qed

lemma safe_grant [handlers]: "safe_handler (grant env worker pool block)"
  unfolding grant_def by (intro handlers)

lemma safe_remote_claim [handlers]: "safe_handler (remote_claim env credential doc)"
  unfolding remote_claim_def Let_def
  by (intro handlers)+

lemma safe_lease_calls [handlers]:
  "safe_handler (remote_renew env jid token generation doc)"
  "safe_handler (remote_stage env jid token generation doc)"
  "safe_handler (remote_fail env jid token generation doc)"
  "safe_handler (remote_upload env jid token generation doc)"
  "safe_handler (remote_complete env worker jid token generation doc)"
  unfolding remote_renew_def remote_stage_def remote_fail_def remote_upload_def remote_complete_def Let_def
  by (intro handlers)+

lemma safe_remote_register [handlers]: "safe_handler (remote_register env credential doc)"
  unfolding remote_register_def by (intro handlers)+

lemma safe_remote_operation [handlers]: "safe_handler (remote_operation env operation doc credential)"
  unfolding remote_operation_def
  by (intro handlers)+

lemma safe_remote_serve [handlers]: "safe_handler (remote_serve env operation header doc)"
  unfolding remote_serve_def by (intro handlers)+

lemma safe_remote_post: "keeps_ledger w (snd (remote_post env operation header doc w))"
  using safe_remote_serve [of env operation header doc]
  by (auto simp: remote_post_def safe_handler_def dest: spec [of _ w] split: prod.splits sum.splits)

end
