(* ===== verification/Remote_Guarantees.thy ===== *)
theory Remote_Guarantees
  imports Remote_Api Demo_System
begin

text \<open>
  Guarantees of the remote endpoint: a call under a lease succeeds only for the authenticated holder of
  that lease, a claim is granted only inside its gates, and what a completion publishes is bound to its
  seal.
\<close>

section \<open>Calls under a lease\<close>

lemma safe_handlerD: "safe_handler m \<Longrightarrow> m w = (r, w') \<Longrightarrow> keeps_ledger w w'"
  by (metis safe_handler_def snd_conv)

lemma outcome_Inr: "p = (Inr x, L') \<Longrightarrow> outcome p = (Inr (), L')"
  by (simp add: outcome_def)

lemma call_holder:
  assumes "ledger_inv L" "perform env c L = (Inr x, L')" "acts_under c = Some (jid, token, generation)"
  shows "holds_lease jid token generation L"
  using stale_call_refused [OF assms(1,3), of env] assms(2) by auto

lemma lease_call_holder:
  assumes "ledger_inv L"
  shows "renew jid token generation now seconds L = (Inr job, L') \<Longrightarrow> holds_lease jid token generation L"
    "record_stage parse jid token generation stage st duration details now L = (Inr event, L') \<Longrightarrow>
       holds_lease jid token generation L"
    "fail jid token generation message retryable cls pathological now L = (Inr row, L') \<Longrightarrow>
       holds_lease jid token generation L"
proof -
  note perform_holder = call_holder [OF assms, of "demo_env\<lparr>env_iso := parse\<rparr>" for parse]
  show "renew jid token generation now seconds L = (Inr job, L') \<Longrightarrow> holds_lease jid token generation L"
    using perform_holder [of parse "Renew jid token generation now seconds"] by (simp add: outcome_Inr)
  show "record_stage parse jid token generation stage st duration details now L = (Inr event, L') \<Longrightarrow>
       holds_lease jid token generation L"
    using perform_holder [of parse "RecordStage jid token generation stage st duration details now"] by (simp add: outcome_Inr)
  show "fail jid token generation message retryable cls pathological now L = (Inr row, L') \<Longrightarrow>
       holds_lease jid token generation L"
    using perform_holder [of parse "Fail jid token generation message retryable cls pathological now"] by (simp add: outcome_Inr)
qed

lemma remote_lease_holder:
  assumes "ledger_inv (wd_ledger w)"
  shows "remote_renew env jid token generation doc w = (Inr r, w') \<Longrightarrow> holds_lease jid token generation (wd_ledger w)"
    "remote_stage env jid token generation doc w = (Inr r, w') \<Longrightarrow> holds_lease jid token generation (wd_ledger w)"
    "remote_fail env jid token generation doc w = (Inr r, w') \<Longrightarrow> holds_lease jid token generation (wd_ledger w)"
    "remote_upload env jid token generation doc w = (Inr r, w') \<Longrightarrow> holds_lease jid token generation (wd_ledger w)"
    "remote_complete env worker jid token generation doc w = (Inr r, w') \<Longrightarrow> holds_lease jid token generation (wd_ledger w)"
  using lease_call_holder [OF assms]
  unfolding remote_renew_def remote_stage_def remote_fail_def remote_upload_def remote_complete_def Let_def
  by (auto simp: followed_by_Inr returns_Inr on_ledger_eq)

text \<open>A heartbeat touches the workers and the journal only.\<close>

lemma touch_worker_frame:
  assumes "touch_worker clock worker transport pools metadata now L = (r, L')"
  shows "L' = L\<lparr>workers := workers L', events := events L'\<rparr>"
proof -
  have "M' = M\<lparr>workers := workers M', events := events M'\<rparr>" if "touch_body w t p m now M = Inr (u, M')" for w t p m u M M'
    using that
    by (auto simp: touch_body_def Let_def results update_workers_def put_workers_def log_event_def
        event_locked_def put_events_def split: if_split_asm option.split_asm)
  then show ?thesis using assms
    by (fastforce simp: touch_worker_def transaction_def split: sum.split_asm prod.split_asm option.split_asm)
qed

lemma touch_worker_jobs: "jobs (snd (touch_worker clock worker transport pools metadata now L)) = jobs L"
proof -
  obtain r L' where run: "touch_worker clock worker transport pools metadata now L = (r, L')" by fastforce
  from arg_cong [OF touch_worker_frame [OF run], of jobs] show ?thesis by (simp add: run)
qed

lemma touch_worker_payload:
  "touch_worker clock worker transport pools metadata now L = (Inr p, L') \<Longrightarrow> wp_worker_id p = worker"
  by (auto simp: touch_worker_def text_field_def worker_payload_def results dest!: find_SomeD
      split: sum.splits prod.splits option.splits if_splits)

lemma remote_text_Inr: "remote_text doc name maximum = Inr s \<Longrightarrow> map_of doc name = Some (JStr s)"
  by (auto simp: remote_text_def split: option.splits json.splits if_splits)

lemma authenticate_Inr:
  assumes "authenticate token_sha256 credentials header doc = Inr c"
  shows "c \<in> set credentials" "map_of doc ''worker_id'' = Some (JStr (wc_worker_id c))"
    "token_sha256 (drop 7 header) = wc_token_sha256 c" "take 7 header = ''Bearer ''"
  using assms
  by (auto simp: authenticate_def Let_def results dest!: remote_text_Inr find_SomeD split: option.splits if_splits)

lemma lease_fields_Inr:
  assumes "lease_fields doc = Inr (jid, token, generation)"
  shows "map_of doc ''job_id'' = Some (JStr jid)" "map_of doc ''lease_token'' = Some (JStr token)"
    "map_of doc ''lease_generation'' = Some (JInt generation)"
proof -
  let ?generation = "case map_of doc ''lease_generation'' of
       Some (JInt n) \<Rightarrow> if n < 1 then Inl (bad_request ''invalid-generation'' ''lease_generation is invalid'')
         else Inr (jid, token, n)
     | _ \<Rightarrow> Inl (bad_request ''invalid-generation'' ''lease_generation is invalid'')"
  have "remote_text doc ''job_id'' 68 = Inr jid \<and> remote_text doc ''lease_token'' 256 = Inr token
      \<and> ?generation = Inr (jid, token, generation)"
  proof -
    from assms obtain j t where "remote_text doc ''job_id'' 68 = Inr j" "remote_text doc ''lease_token'' 256 = Inr t"
      "(case map_of doc ''lease_generation'' of
         Some (JInt n) \<Rightarrow> if n < 1 then Inl (bad_request ''invalid-generation'' ''lease_generation is invalid'') else Inr (j, t, n)
       | _ \<Rightarrow> Inl (bad_request ''invalid-generation'' ''lease_generation is invalid'')) = Inr (jid, token, generation)"
      unfolding lease_fields_def and_then_eq_Inr by blast
    then show ?thesis by (auto split: option.splits json.splits if_splits)
  qed
  then show "map_of doc ''job_id'' = Some (JStr jid)" "map_of doc ''lease_token'' = Some (JStr token)"
    "map_of doc ''lease_generation'' = Some (JInt generation)"
    using remote_text_Inr by (blast, blast, auto split: option.splits json.splits if_splits)
qed

lemma remote_post_Inr:
  assumes "remote_post env operation header doc w = (Inr r, w')"
  obtains c u where "c \<in> set (re_credentials env)" "map_of doc ''worker_id'' = Some (JStr (wc_worker_id c))"
    "re_token_sha256 env (drop 7 header) = wc_token_sha256 c" "take 7 header = ''Bearer ''" "keeps_ledger w u"
    "jobs (wd_ledger u) = jobs (wd_ledger w)" "operation = ''register'' \<longrightarrow> u = w"
    "remote_operation env operation doc c u = (Inr r, w')"
proof -
  let ?touch = "\<lambda>c. touch_worker (re_clock env) (wc_worker_id c) ''remote-http'' (wc_pools c)
           (Some [(''last_operation'', JStr operation)]) (re_now env 0)"
  from assms have "remote_serve env operation header doc w = (Inr r, w')"
    by (simp add: remote_post_def split: sum.splits prod.splits)
  then obtain c where c: "authenticate (re_token_sha256 env) (re_credentials env) header doc = Inr c"
    and served: "(if operation = ''register'' then remote_operation env operation doc c
       else followed_by (on_ledger (?touch c)) (\<lambda>_. remote_operation env operation doc c)) w = (Inr r, w')"
    unfolding remote_serve_def followed_by_Inr returns_Inr and_then_eq_Inr by blast
  note credential = authenticate_Inr [OF c]
  show ?thesis
  proof (cases "operation = ''register''")
    case True
    then show ?thesis using served that [OF credential, of w] by simp
  next
    case False
    then obtain x L where touch: "?touch c (wd_ledger w) = (Inr x, L)"
      and run: "remote_operation env operation doc c (w\<lparr>wd_ledger := L\<rparr>) = (Inr r, w')"
      using served by (auto simp: followed_by_Inr on_ledger_eq)
    have "jobs L = jobs (wd_ledger w)" using arg_cong [OF touch_worker_frame [OF touch], of jobs] by simp
    moreover have "keeps_ledger w (snd (on_ledger (?touch c) w))"
      by (rule coordinator_handlers(9) [unfolded safe_handler_def, THEN spec])
    then have "keeps_ledger w (w\<lparr>wd_ledger := L\<rparr>)" by (simp only: on_ledger_def touch prod.case snd_conv)
    ultimately show ?thesis using False by (intro that [OF credential, of "w\<lparr>wd_ledger := L\<rparr>"]) (simp_all add: run)
  qed
qed

text \<open>A registration that is accepted: a ready preflight of a toolchain whose pool the credential lists.  It is
  noted in the row of the worker and in the journal, nowhere else.\<close>

definition registered_by :: "remote_env \<Rightarrow> worker_credential \<Rightarrow> document \<Rightarrow> world \<Rightarrow> world \<Rightarrow> bool" where
  "registered_by env c doc w w' \<longleftrightarrow>
     w' = w\<lparr>wd_ledger := (wd_ledger w)\<lparr>workers := workers (wd_ledger w'), events := events (wd_ledger w')\<rparr>\<rparr>
     \<and> (\<exists>preflight reference d. preflight_of doc = Inr (preflight, reference)
          \<and> load_external_toolchain (re_external env) reference = Inr d \<and> ed_worker_pool d \<in> set (wc_pools c)
          \<and> map_of preflight ''ready'' = Some (JBool True) \<and> map_of preflight ''blockers'' = Some (JArr [])
          \<and> py_equal (map_of preflight ''definition'') (Some (registration_identity d)))"

lemma remote_register_Inr:
  assumes "remote_register env c doc w = (Inr r, w')"
  shows "registered_by env c doc w w' \<and> (\<exists>p. r = Registered p \<and> wp_worker_id p = wc_worker_id c)"
proof -
  from assms obtain preflight reference d p L where pre: "preflight_of doc = Inr (preflight, reference)"
      "load_external_toolchain (re_external env) reference = Inr d" "ed_worker_pool d \<in> set (wc_pools c)"
      "validate_registration (re_json_length env) preflight d = Inr preflight"
    and touch: "touch_worker (re_clock env) (wc_worker_id c) ''remote-http'' (wc_pools c)
         (Some [(''last_operation'', JStr ''register''), (''external_toolchain'', JObj preflight)]) (re_now env 1) (wd_ledger w)
       = (Inr p, L)"
    and w': "w' = w\<lparr>wd_ledger := L\<rparr>" "r = Registered p"
    unfolding remote_register_def
    by (auto simp: followed_by_Inr returns_Inr on_ledger_eq and_then_eq_Inr validate_registration_Inr split: if_split_asm)
  have "w' = w\<lparr>wd_ledger := (wd_ledger w)\<lparr>workers := workers (wd_ledger w'), events := events (wd_ledger w')\<rparr>\<rparr>"
    using touch_worker_frame [OF touch] by (simp add: w'(1))
  then show ?thesis using pre w'(2) touch_worker_payload [OF touch]
    unfolding registered_by_def validate_registration_Inr by blast
qed

lemma remote_operation_Inr:
  assumes "remote_operation env operation doc c w = (Inr r, w')" "operation \<noteq> ''claim''" "operation \<noteq> ''register''"
    "ledger_inv (wd_ledger w)"
  shows "\<exists>jid token generation. map_of doc ''job_id'' = Some (JStr jid) \<and> map_of doc ''lease_token'' = Some (JStr token)
    \<and> map_of doc ''lease_generation'' = Some (JInt generation) \<and> holds_lease jid token generation (wd_ledger w)
    \<and> (\<exists>j\<in>set (jobs (wd_ledger w)). job_id j = jid \<and> leased_by j = Some (wc_worker_id c))"
proof -
  from assms(1-3) obtain jid token generation j where fields: "lease_fields doc = Inr (jid, token, generation)"
    and job: "get_job jid (wd_ledger w) = Inr j" "leased_by j = Some (wc_worker_id c)"
    and call: "remote_renew env jid token generation doc w = (Inr r, w') \<or> remote_stage env jid token generation doc w = (Inr r, w')
      \<or> remote_fail env jid token generation doc w = (Inr r, w') \<or> remote_upload env jid token generation doc w = (Inr r, w')
      \<or> remote_complete env (wc_worker_id c) jid token generation doc w = (Inr r, w')"
    by (auto simp: remote_operation_def followed_by_Inr returns_Inr read_ledger_Inr split: if_splits)
  have "holds_lease jid token generation (wd_ledger w)" 
    using call by (metis remote_lease_holder [OF assms(4)])
  moreover have "\<exists>j\<in>set (jobs (wd_ledger w)). job_id j = jid \<and> leased_by j = Some (wc_worker_id c)"
    using job by (auto simp: get_job_def dest!: find_SomeD split: option.splits)
  ultimately show ?thesis using lease_fields_Inr [OF fields] by blast
qed

lemma same_jobs_holds: "jobs L' = jobs L \<Longrightarrow> holds_lease jid token generation L' \<longleftrightarrow> holds_lease jid token generation L"
  by (simp add: holds_lease_def)

text \<open>A request under a lease: the lease is the live one of a job, and the credential's worker holds it.\<close>

definition called_by_holder :: "worker_credential \<Rightarrow> document \<Rightarrow> ledger \<Rightarrow> bool" where
  "called_by_holder c doc L \<longleftrightarrow>
     (\<exists>jid token generation. map_of doc ''job_id'' = Some (JStr jid)
        \<and> map_of doc ''lease_token'' = Some (JStr token) \<and> map_of doc ''lease_generation'' = Some (JInt generation)
        \<and> holds_lease jid token generation L
        \<and> (\<exists>j\<in>set (jobs L). job_id j = jid \<and> leased_by j = Some (wc_worker_id c)))"

lemma remote_call_owned:
  assumes inv: "ledger_inv (wd_ledger w)" and run: "remote_post env operation header doc w = (Inr r, w')"
    and "operation \<noteq> ''claim''"
  shows "\<exists>c. c \<in> set (re_credentials env) \<and> take 7 header = ''Bearer ''
    \<and> re_token_sha256 env (drop 7 header) = wc_token_sha256 c
    \<and> map_of doc ''worker_id'' = Some (JStr (wc_worker_id c))
    \<and> (if operation = ''register'' then registered_by env c doc w w' else called_by_holder c doc (wd_ledger w))"
proof -
  from remote_post_Inr [OF run] obtain c u where c: "c \<in> set (re_credentials env)"
      "map_of doc ''worker_id'' = Some (JStr (wc_worker_id c))" "re_token_sha256 env (drop 7 header) = wc_token_sha256 c"
      "take 7 header = ''Bearer ''" and u: "keeps_ledger w u" "jobs (wd_ledger u) = jobs (wd_ledger w)"
      "operation = ''register'' \<longrightarrow> u = w"
    and op: "remote_operation env operation doc c u = (Inr r, w')" by metis
  have "ledger_inv (wd_ledger u)" using u(1) inv by (simp add: keeps_ledger_def)
  show ?thesis
  proof (cases "operation = ''register''")
    case True
    then have "remote_register env c doc w = (Inr r, w')" using op u(3) by (simp add: remote_operation_def)
    from remote_register_Inr [OF this] show ?thesis using c True by auto
  next
    case False
    have "called_by_holder c doc (wd_ledger w)"
      using remote_operation_Inr [OF op assms(3) False \<open>ledger_inv (wd_ledger u)\<close>]
      unfolding called_by_holder_def u(2) same_jobs_holds [OF u(2)] .
    then show ?thesis using c False by auto
  qed
qed

section \<open>Claims\<close>

lemma claim_lease:
  assumes run: "claim token worker now (Some pool) one many L = (Inr (Some l), L')" and inv: "ledger_inv L"
  shows "cstate L' = cstate L \<and> (\<exists>selection row b c. claim_selection one many = Inr selection \<and> (row, b, c) \<in> set (joined L')
    \<and> job_id row = lp_job_id l \<and> leased_by row = Some worker \<and> batch_active b
    \<and> holds_lease (lp_job_id l) token (lp_lease_generation l) L' \<and> lp_lease_token l = token
    \<and> (case selection of None \<Rightarrow> True | Some bs \<Rightarrow> job_batch row \<in> set bs) \<and> worker_pool_accepts_cell pool (cell_json c))"
proof -
  from claim_granted [OF run inv] obtain selection n M row b c where
    sel: "claim_selection one many = Inr selection" and rec: "recover_expired_locked now ''coordinator'' L = Inr (n, M)"
    and c: "claimable now (Some pool) selection M (row, b, c)"
    and g: "grant_lease (cstate L) token worker now (Some pool) row M = Inr L'" and M: "ledger_inv M"
    and p: "lease_payload_of (job_id row) L' = Inr l" by blast
  have st: "cstate M = cstate L" using same_policyD(1) [OF recover_expired_Inr(3) [OF rec ledger_invD [OF inv]]] .
  from claimable_row [OF c] have row: "row \<in> set (jobs M)" "job_state row = Queued" "job_active row" by auto
  note gr = grant_lease_Inr [OF g M row]
  let ?row = "granted_job (cstate L) token worker now row"
  have "(row, b, c) \<in> set (joined M)" using c by (simp add: claimable_def)
  then have "(?row, b, c) \<in> set (joined L')"
    unfolding joined_iff gr(4) same_policyD(2,3) [OF gr(3)] by (auto simp: granted_job_def)
  moreover have "job_id ?row = lp_job_id l"
    using claim_lease_payload [OF p] evolves_schema [OF gr(1)] ledger_invD(1) [OF M] by (auto simp: granted_job_def)
  moreover have "holds_lease (lp_job_id l) token (lp_lease_generation l) L'" "lp_lease_token l = token"
    using claim_within_cap(2,3) [OF run inv] by simp_all
  moreover have "cstate L' = cstate L" using same_policyD(1) [OF gr(3)] st by simp
  moreover have "leased_by ?row = Some worker" by (simp add: granted_job_def)
  moreover have "case selection of None \<Rightarrow> True | Some bs \<Rightarrow> job_batch ?row \<in> set bs"
    using c by (cases selection) (simp_all add: claimable_def granted_job_def)
  ultimately show ?thesis using sel c
    by (intro conjI exI [of _ selection] exI [of _ ?row] exI [of _ b] exI [of _ c]) (simp_all add: claimable_def)
qed

text \<open>The block a handler knows is the block of the ledger.\<close>

lemma admitted_block:
  "start_next_block admission scheduled reentry now actor L = (Inr (Some b), L') \<Longrightarrow> b = execution_block L'"
  "admit_lookahead_block admission idle actor now L = (Inr (Some b), L') \<Longrightarrow> b = execution_block L'"
  "admit_lookahead_block admission idle actor now L = (Inr None, L') \<Longrightarrow> L' = L"
  by (auto simp: start_next_block_def start_next_body_def admit_lookahead_block_def admit_lookahead_body_def Let_def
      transaction_eq results split: sum.splits prod.splits if_splits option.splits)

lemma admit_block_Inr:
  assumes "admit_block env policy schedule worker block w = (Inr (Some b), w')"
    "block = Some (execution_block (wd_ledger w))"
  shows "b = execution_block (wd_ledger w')"
  using assms admitted_block(1)
  by (auto simp: admit_block_def returns_Inr on_ledger_eq split: if_splits option.splits)

lemma lookahead_active_block:
  assumes "admit_lookahead_block admission idle actor now L = (Inr r, L')"
  shows "active_batch_id (cstate L') = active_batch_id (cstate L)"
proof -
  from assms obtain a i where "admit_lookahead_body a i actor now L = Inr (r, L')"
    by (auto simp: admit_lookahead_block_def transaction_eq split: sum.splits prod.splits)
  from admit_lookahead_body_Inr [OF this] show ?thesis by (auto simp: state_step_def)
qed

lemma active_block_iff: "block_active (execution_block L) \<longleftrightarrow> active_batch_id (cstate L) \<noteq> None"
  by (simp add: block_active_def execution_block_def block_document_def Let_def split: option.split)

lemma fill_tail_Inr:
  assumes "fill_tail env tail schedule worker (Some (execution_block (wd_ledger w))) w = (Inr block, w')"
  shows "block = Some (execution_block (wd_ledger w')) \<and> active_batch_id (cstate (wd_ledger w')) = active_batch_id (cstate (wd_ledger w))"
proof -
  let ?admit = "admit_lookahead_block (admission_of (eb_primary (execution_block (wd_ledger w))) @ '':lookahead'')
      (tf_minimum_idle_slots tail) worker (re_now env 2) (wd_ledger w)"
  from assms consider "block = Some (execution_block (wd_ledger w))" "w' = w"
    | r L where "?admit = (Inr r, L)" "w' = w\<lparr>wd_ledger := L\<rparr>"
        "block = Some (case r of Some b \<Rightarrow> b | None \<Rightarrow> execution_block (wd_ledger w))"
    by (auto simp: fill_tail_def returns_Inr on_ledger_eq followed_by_Inr split: if_split_asm)
  then show ?thesis
  proof cases
    case (2 r L)
    with admitted_block(2,3) lookahead_active_block show ?thesis by (cases r) fastforce+
  qed simp
qed

lemma claim_batches_block:
  "block_active (execution_block L) \<Longrightarrow> \<exists>bs. claim_batches (Some (execution_block L)) = Some bs
     \<and> (\<forall>b\<in>set bs. Some b \<in> {active_batch_id (cstate L), lookahead_batch_id (cstate L)})"
  by (auto simp: claim_batches_def block_active_def lookahead_active_def execution_block_def block_document_def batch_of_def
      Let_def split: option.splits if_splits)

text \<open>What must hold for a remote worker to be given a lease.\<close>

lemma grant_Inr:
  assumes "grant env worker pool block w = (Inr (Granted l p), w')"
  shows "claim (re_lease_token env) worker (re_now env 3) (Some pool) None (claim_batches block) (wd_ledger w)
     = (Inr (Some l), wd_ledger w')"
  using assms
  by (auto simp: grant_def hand_out_def staging_of_def followed_by_Inr on_ledger_eq returns_Inr read_ledger_Inr returns_def
      split: option.splits if_splits sum.splits)

text \<open>The part of a claim before a lease is taken: the policy that admits it and the block it finds.\<close>

lemma remote_claim_Inr:
  assumes run: "remote_claim env c doc w = (Inr (Granted l p), w')"
  obtains pool queue operations schedule block v block' u where
    "map_of doc ''pool'' = Some (JStr pool)" "pool \<in> set (wc_pools c)" "re_queue env = Inr (queue, operations)" "qc_armed queue"
    "evaluate (re_to_local env) (op_schedule operations) (Aware (re_moment env)) = Inr schedule"
    "admit_block env (op_schedule operations) schedule (wc_worker_id c)
       (if sp_finish_started_batch (op_schedule operations) then Some (execution_block (wd_ledger w)) else None) w = (Inr block, v)"
    "if sp_finish_started_batch (op_schedule operations) then (case block of None \<Rightarrow> False | Some b \<Rightarrow> block_active b)
     else ss_claims_allowed schedule"
    "fill_tail env (sp_tail_fill (op_schedule operations)) schedule (wc_worker_id c) block v = (Inr block', u)"
    "grant env (wc_worker_id c) pool block' u = (Inr (Granted l p), w')"
  using run unfolding remote_claim_def Let_def
  by (auto simp: followed_by_Inr returns_Inr read_ledger_Inr and_then_eq_Inr dest!: remote_text_Inr
      split: if_split_asm intro!: that)

lemma claim_selection_many:
  assumes "claim_selection None (Some bs) = Inr selection"
  shows "selection = Some bs"
proof -
  from assms obtain cs where cs: "map_result (\<lambda>b. identifier_field (JStr b) ''claim batch id'') bs = Inr cs" "selection = Some cs"
    by (auto simp: claim_selection_def results split: if_splits)
  from cs(1) have "cs = bs"
    by (induction bs arbitrary: cs) (auto simp: results)
  with cs(2) show ?thesis by simp
qed

text \<open>A lease handed out for a job of an admitted batch, or in an open window.\<close>

definition granted_within ::
  "ledger \<Rightarrow> string \<Rightarrow> string \<Rightarrow> schedule_policy \<Rightarrow> schedule_state \<Rightarrow> lease_payload \<Rightarrow> bool" where
  "granted_within L worker pool policy schedule l \<longleftrightarrow>
     holds_lease (lp_job_id l) (lp_lease_token l) (lp_lease_generation l) L \<and>
     list_ex (\<lambda>(row, b, c). job_id row = lp_job_id l \<and> leased_by row = Some worker \<and> batch_active b
       \<and> worker_pool_accepts_cell pool (cell_json c)
       \<and> (if sp_finish_started_batch policy
          then Some (job_batch row) \<in> {active_batch_id (cstate L), lookahead_batch_id (cstate L)}
          else ss_claims_allowed schedule)) (joined L)"

lemma remote_claim_gated:
  assumes run: "remote_claim env c doc w = (Inr (Granted l p), w')" and inv: "ledger_inv (wd_ledger w)"
  shows "\<exists>pool queue operations schedule. map_of doc ''pool'' = Some (JStr pool) \<and> pool \<in> set (wc_pools c)
    \<and> re_queue env = Inr (queue, operations) \<and> qc_armed queue
    \<and> evaluate (re_to_local env) (op_schedule operations) (Aware (re_moment env)) = Inr schedule
    \<and> granted_within (wd_ledger w') (wc_worker_id c) pool (op_schedule operations) schedule l"
proof -
  obtain pool queue operations schedule block v block' u where
    q: "map_of doc ''pool'' = Some (JStr pool)" "pool \<in> set (wc_pools c)" "re_queue env = Inr (queue, operations)"
      "qc_armed queue" "evaluate (re_to_local env) (op_schedule operations) (Aware (re_moment env)) = Inr schedule"
    and admit: "admit_block env (op_schedule operations) schedule (wc_worker_id c)
       (if sp_finish_started_batch (op_schedule operations) then Some (execution_block (wd_ledger w)) else None) w = (Inr block, v)"
    and gate: "if sp_finish_started_batch (op_schedule operations) then (case block of None \<Rightarrow> False | Some b \<Rightarrow> block_active b)
     else ss_claims_allowed schedule"
    and fill: "fill_tail env (sp_tail_fill (op_schedule operations)) schedule (wc_worker_id c) block v = (Inr block', u)"
    and grant: "grant env (wc_worker_id c) pool block' u = (Inr (Granted l p), w')"
    by (rule remote_claim_Inr [OF run])
  note safe_handlerD [OF safe_admit_block admit] safe_handlerD [OF safe_fill_tail fill]
  then have inv_u: "ledger_inv (wd_ledger u)" using inv by (simp add: keeps_ledger_def)
  from claim_lease [OF grant_Inr [OF grant] inv_u] obtain selection row b k where
    st: "cstate (wd_ledger w') = cstate (wd_ledger u)" and sel: "claim_selection None (claim_batches block') = Inr selection"
    and row: "(row, b, k) \<in> set (joined (wd_ledger w'))" "job_id row = lp_job_id l" "leased_by row = Some (wc_worker_id c)"
      "batch_active b" "holds_lease (lp_job_id l) (re_lease_token env) (lp_lease_generation l) (wd_ledger w')"
      "lp_lease_token l = re_lease_token env" "case selection of None \<Rightarrow> True | Some bs \<Rightarrow> job_batch row \<in> set bs"
      "worker_pool_accepts_cell pool (cell_json k)" by blast
  have "if sp_finish_started_batch (op_schedule operations)
      then Some (job_batch row) \<in> {active_batch_id (cstate (wd_ledger w')), lookahead_batch_id (cstate (wd_ledger w'))}
      else ss_claims_allowed schedule"
  proof (cases "sp_finish_started_batch (op_schedule operations)")
    case True
    then obtain b0 where b0: "block = Some b0" "block_active b0" using gate by (auto split: option.splits)
    note admit [unfolded b0(1) if_P [OF True]]
    from admit_block_Inr [OF this refl] have "b0 = execution_block (wd_ledger v)" .
    with fill b0 have "fill_tail env (sp_tail_fill (op_schedule operations)) schedule (wc_worker_id c)
        (Some (execution_block (wd_ledger v))) v = (Inr block', u)" "block_active (execution_block (wd_ledger v))" by simp_all
    with fill_tail_Inr [OF this(1)]
    have block': "block' = Some (execution_block (wd_ledger u))" "block_active (execution_block (wd_ledger u))"
      by (simp_all add: active_block_iff)
    from claim_batches_block [OF block'(2)] obtain bs where "claim_batches block' = Some bs"
      and bs: "\<forall>b\<in>set bs. Some b \<in> {active_batch_id (cstate (wd_ledger u)), lookahead_batch_id (cstate (wd_ledger u))}"
      using block'(1) by auto
    from this(1) have "selection = Some bs" using sel claim_selection_many [of bs selection] by simp
    then have "job_batch row \<in> set bs" using row(7) by simp
    then show ?thesis using True bs st by simp
  qed (use gate in simp)
  with row have "granted_within (wd_ledger w') (wc_worker_id c) pool (op_schedule operations) schedule l"
    unfolding granted_within_def list_ex_iff by (intro conjI bexI [of _ "(row, b, k)"]) simp_all
  with q show ?thesis by blast
qed

section \<open>Completion\<close>

text \<open>A span that succeeds ran its body between two callbacks.\<close>

lemma span_Inr:
  assumes "span callback k stage message metrics body r s = (Inr x, r', s')"
  obtains e0 r1 added r2 s2 e where "body r1 (snd (callback s e0)) = ((Inr x, added), r2, s2)" "s' = snd (callback s2 e)"
  using assms by (auto simp: span_def emit_eq Let_def split: option.splits prod.splits sum.splits)

definition same_files :: "world \<Rightarrow> world \<Rightarrow> bool" where
  "same_files w w' \<longleftrightarrow> wd_staging w' = wd_staging w \<and> wd_published w' = wd_published w"

lemma same_files_on_ledger: "on_ledger f w = (r, w') \<Longrightarrow> same_files w w'"
  by (auto simp: on_ledger_eq same_files_def)

lemma same_files_progress: "same_files w (snd (record_progress env jid token generation w e))"
  by (auto simp: record_progress_def followed_by_def on_ledger_def returns_def same_files_def split: prod.split sum.split)

lemma same_files_trans: "same_files u v \<Longrightarrow> same_files v w \<Longrightarrow> same_files u w"
  by (simp add: same_files_def)

lemma publish_body_Inr:
  assumes "publish_body env key result r w = ((Inr doc, added), r', w')"
  obtains t where "t = staged_tree (re_metadata_bytes env) (wd_staging w key)" "wd_published w key = None"
    "wd_published w' key = Some t" "wd_staging w' key = (\<lambda>_. no_files)"
    "durably_publish (re_iso env) (re_sha256 env) (re_loads env) result (Some t) None = (Inr (), None, Some t)"
    "result_document (re_sha256 env) result t (attempt_root key) = Inr doc"
proof -
  let ?t = "staged_tree (re_metadata_bytes env) (wd_staging w key)"
  obtain s f where p: "durably_publish (re_iso env) (re_sha256 env) (re_loads env) result (Some ?t) (wd_published w key) = (Inr (), s, f)"
    and w': "wd_published w' key = f" "wd_staging w' key = (\<lambda>_. no_files)"
    and doc: "result_document (re_sha256 env) result (case f of Some t \<Rightarrow> t | None \<Rightarrow> Map.empty) (attempt_root key) = Inr doc"
    using assms by (auto simp: publish_body_def split: prod.splits sum.splits)
  from durably_publish_Inr [OF p] have "wd_published w key = None" "s = None" "f = Some ?t" by auto
  with p w' doc that [of ?t] show ?thesis by simp
qed

lemma completed_identity_id:
  assumes "completed_identity doc cell" "map_of doc ''cell_id'' = Some (JStr s)"
  shows "jget cell ''id'' = Some (JStr s)"
proof -
  have "py_equal (Some (JStr s)) (jget cell ''id'')" using assms by (simp add: completed_identity_def)
  then show ?thesis by (cases "jget cell ''id''"; cases "the (jget cell ''id'')")
      (auto simp: py_equal_def opt_json_def split: if_splits)
qed

lemma remote_result_id: "remote_result doc = Inr result \<Longrightarrow> map_of doc ''cell_id'' = Some (JStr (rr_cell_id result))"
  unfolding remote_result_def and_then_eq_Inr by (auto dest!: remote_text_Inr)

text \<open>The timing a completion records beside the result.\<close>

definition recorded_timing :: "remote_env \<Rightarrow> cell_result \<Rightarrow> recorder \<Rightarrow> json" where
  "recorded_timing env result recorder =
     JObj [(''schema_version'', JStr JOB_TIMING_SCHEMA), (''cell'', opt_json (rr_timing result)),
       (''publication'', timing_document (re_recorder_finished env) recorder)]"

lemma publish_and_complete_Inr:
  assumes "publish_and_complete env worker jid token generation result u = (Inr r, w')"
  obtains published recorder v job where "span (record_progress env jid token generation) (re_span_clock env) PUBLICATION
          ''publishing authenticated remote worker artifacts'' [(''worker_id'', JStr worker)]
          (publish_body env (jid, generation) result)
          (new_recorder (fst (re_recorder_started env)) (snd (re_recorder_started env))) u = (Inr published, recorder, v)"
    "complete jid token generation (Some (with_timing published (recorded_timing env result recorder))) (re_now env 4) (wd_ledger v)
       = (Inr job, wd_ledger w')"
    "r = CompletedJob job" "wd_published w' = wd_published v" "wd_staging w' = wd_staging v"
proof -
  let ?s = "span (record_progress env jid token generation) (re_span_clock env) PUBLICATION
          ''publishing authenticated remote worker artifacts'' [(''worker_id'', JStr worker)]
          (publish_body env (jid, generation) result)
          (new_recorder (fst (re_recorder_started env)) (snd (re_recorder_started env))) u"
  obtain outcome recorder v where s: "?s = (outcome, recorder, v)" by (metis prod.exhaust_sel)
  show ?thesis
  proof (cases outcome)
    case (Inl e)
    then show ?thesis using assms s by (simp add: publish_and_complete_def)
  next
    case (Inr published)
    have "\<exists>job. complete jid token generation (Some (with_timing published (recorded_timing env result recorder))) (re_now env 4) (wd_ledger v)
       = (Inr job, wd_ledger w') \<and> r = CompletedJob job \<and> wd_published w' = wd_published v \<and> wd_staging w' = wd_staging v"
      using assms unfolding publish_and_complete_def s Inr recorded_timing_def
      by (auto simp: followed_by_Inr on_ledger_eq returns_Inr)
    with s Inr that show ?thesis by blast
  qed
qed

text \<open>The row of a job that has just been completed.\<close>

lemma completed_row:
  assumes "complete jid token generation (Some what) now L = (Inr job, L')" "ledger_inv L"
  shows "job \<in> set (jobs L') \<and> job_id job = jid \<and> job_state job = Complete
    \<and> canonical_json what = Inr (sort_keys what) \<and> result_json job = Some (sort_keys what)"
proof -
  obtain u where what: "canonical_json what = Inr (sort_keys what)"
    and body: "complete_body jid token generation what (sort_keys what) now L = Inr (u, L')"
    and job: "get_job jid L' = Inr job"
    using assms(1)
    by (auto simp: complete_def then_get_job_def transaction_def canonical_json_Inr split: sum.splits prod.splits)
  have "job \<in> set (jobs L')" "job_id job = jid"
    using job by (auto simp: get_job_def dest!: find_SomeD split: option.splits)
  moreover have "\<exists>j. job = completed_job (sort_keys what) now j"
    using calculation unfolding complete_body_Inr(4) [OF body assms(2)]
    by (auto simp: recovered_job_def split: if_split_asm)
  ultimately show ?thesis using what by (auto simp: completed_job_def)
qed

lemma keeps_publication:
  assumes "span (record_progress env jid token generation) k stage message metrics (publish_body env key result) r u = (x, r', v)"
  shows "keeps_ledger u v"
proof -
  have "keeps_ledger u (snd (snd (span (record_progress env jid token generation) k stage message metrics
      (publish_body env key result) r u)))"
    by (rule keeps_span [OF keeps_progress keeps_publish])
  then show ?thesis by (simp only: assms snd_conv)
qed

lemma some_or_Inr: "(case v of None \<Rightarrow> Inl e | Some c \<Rightarrow> Inr c) = Inr x \<longleftrightarrow> v = Some x"
  by (simp split: option.split)

text \<open>A completion that succeeds has published the staged files of the attempt, bound to their seal and to
  the cell that was leased.\<close>

lemma remote_complete_Inr:
  assumes run: "remote_complete env worker jid token generation doc w = (Inr r, w')" and inv: "ledger_inv (wd_ledger w)"
  shows "\<exists>result cell L t document recorder job. L = snd (renew jid token generation (re_now env 1) None (wd_ledger w))
    \<and> remote_result doc = Inr result \<and> resolved_cell_of jid L = Some cell
    \<and> completed_identity doc cell \<and> jget cell ''id'' = Some (JStr (rr_cell_id result))
    \<and> t = staged_tree (re_metadata_bytes env) (wd_staging w (jid, generation))
    \<and> wd_published w (jid, generation) = None \<and> wd_published w' (jid, generation) = Some t
    \<and> wd_staging w' (jid, generation) = (\<lambda>_. no_files)
    \<and> durably_publish (re_iso env) (re_sha256 env) (re_loads env) result (Some t) None = (Inr (), None, Some t)
    \<and> result_document (re_sha256 env) result t (attempt_root (jid, generation)) = Inr document
    \<and> r = CompletedJob job \<and> job \<in> set (jobs (wd_ledger w')) \<and> job_id job = jid \<and> job_state job = Complete
    \<and> result_json job = Some (sort_keys (with_timing document (recorded_timing env result recorder)))"
proof -
  have "\<exists>job0 u cell result. on_ledger (renew jid token generation (re_now env 1) None) w = (Inr job0, u)
      \<and> resolved_cell_of jid (wd_ledger u) = Some cell \<and> completed_identity doc cell \<and> remote_result doc = Inr result
      \<and> publish_and_complete env worker jid token generation result u = (Inr r, w')"
    using run unfolding remote_complete_def followed_by_Inr returns_Inr read_ledger_Inr staging_of_def and_then_eq_Inr
      require_eq_Inr some_or_Inr sum.inject
    by (elim exE conjE) (hypsubst, intro exI conjI, assumption+)
  then obtain job0 u cell result where
    renewed: "on_ledger (renew jid token generation (re_now env 1) None) w = (Inr job0, u)"
    and cell: "resolved_cell_of jid (wd_ledger u) = Some cell" and identity: "completed_identity doc cell"
    and result: "remote_result doc = Inr result"
    and publish: "publish_and_complete env worker jid token generation result u = (Inr r, w')"
    by (elim exE conjE) (rule that; assumption)
  have L: "wd_ledger u = snd (renew jid token generation (re_now env 1) None (wd_ledger w))"
    using renewed by (auto simp: on_ledger_eq)
  from remote_result_id [OF result] have id: "jget cell ''id'' = Some (JStr (rr_cell_id result))" by (rule completed_identity_id [OF identity])
  obtain published recorder v job where span: "span (record_progress env jid token generation) (re_span_clock env) PUBLICATION
          ''publishing authenticated remote worker artifacts'' [(''worker_id'', JStr worker)]
          (publish_body env (jid, generation) result)
          (new_recorder (fst (re_recorder_started env)) (snd (re_recorder_started env))) u = (Inr published, recorder, v)"
    and completed: "complete jid token generation (Some (with_timing published (recorded_timing env result recorder))) (re_now env 4) (wd_ledger v)
       = (Inr job, wd_ledger w')"
    and r: "r = CompletedJob job" and after: "wd_published w' = wd_published v" "wd_staging w' = wd_staging v"
    by (rule publish_and_complete_Inr [OF publish])
  obtain e0 r1 added r2 s2 e where
    body: "publish_body env (jid, generation) result r1 (snd (record_progress env jid token generation u e0)) = ((Inr published, added), r2, s2)"
    and v: "v = snd (record_progress env jid token generation s2 e)" by (rule span_Inr [OF span])
  have "keeps_ledger w u" by (rule safe_handlerD [OF coordinator_handlers(5) renewed])
  moreover have "keeps_ledger u v" by (rule keeps_publication [OF span])
  ultimately have "ledger_inv (wd_ledger v)" using inv by (simp add: keeps_ledger_def)
  note row = completed_row [OF completed this]
  note files = same_files_on_ledger [OF renewed] same_files_progress [of u env jid token generation e0]
    same_files_progress [of s2 env jid token generation e]
  obtain t where t: "t = staged_tree (re_metadata_bytes env) (wd_staging (snd (record_progress env jid token generation u e0)) (jid, generation))"
      "wd_published (snd (record_progress env jid token generation u e0)) (jid, generation) = None"
      "wd_published s2 (jid, generation) = Some t" "wd_staging s2 (jid, generation) = (\<lambda>_. no_files)"
      "durably_publish (re_iso env) (re_sha256 env) (re_loads env) result (Some t) None = (Inr (), None, Some t)"
      "result_document (re_sha256 env) result t (attempt_root (jid, generation)) = Inr published"
    by (rule publish_body_Inr [OF body])
  have kept: "wd_staging (snd (record_progress env jid token generation u e0)) = wd_staging w"
      "wd_published (snd (record_progress env jid token generation u e0)) = wd_published w"
      "wd_staging w' = wd_staging s2" "wd_published w' = wd_published s2"
    using files after by (simp_all add: same_files_def v)
  have published: "wd_published w (jid, generation) = None" "wd_published w' (jid, generation) = Some t"
      "wd_staging w' (jid, generation) = (\<lambda>_. no_files)"
    using t(2-4) unfolding kept by simp_all
  show ?thesis
    by (rule exI [of _ result], rule exI [of _ cell], rule exI [of _ "wd_ledger u"], rule exI [of _ t], rule exI [of _ published],
        rule exI [of _ recorder], rule exI [of _ job], intro conjI)
      (fact L result cell identity id t(1) [unfolded kept] published t(5,6) r row [THEN conjunct1]
        row [THEN conjunct2, THEN conjunct1] row [THEN conjunct2, THEN conjunct2, THEN conjunct1]
        row [THEN conjunct2, THEN conjunct2, THEN conjunct2, THEN conjunct2])+
qed

section \<open>Reporting a failure\<close>

text \<open>The end of \<open>execute_remote_lease\<close> of src/fidb_poc/remote_worker.py for an exception of the cell: the
  report, whose refusal is ignored, and the answer that the lease did not complete.\<close>

definition retryable_error :: "error \<Rightarrow> bool" where
  "retryable_error e = (case e of
       CellResolutionError _ \<Rightarrow> False | PathologicalCellError _ \<Rightarrow> False | ValueError _ \<Rightarrow> False
     | ElfInspectionError _ \<Rightarrow> False | _ \<Rightarrow> True)"

definition pathological_error :: "error \<Rightarrow> bool" where
  "pathological_error e = (case e of PathologicalCellError _ \<Rightarrow> True | _ \<Rightarrow> False)"

definition lease_document :: "string \<Rightarrow> lease_payload \<Rightarrow> document" where
  "lease_document worker l = [(''worker_id'', JStr worker), (''job_id'', JStr (lp_job_id l)),
     (''lease_token'', JStr (lp_lease_token l)), (''lease_generation'', JInt (lp_lease_generation l))]"

definition failure_report :: "string \<Rightarrow> lease_payload \<Rightarrow> error \<Rightarrow> document" where
  "failure_report worker l e = lease_document worker l @
     [(''error'', JStr (error_type e @ '': '' @ error_message e)), (''retryable'', JBool (retryable_error e)),
      (''pathological'', JBool (pathological_error e))]"

definition report_failure :: "remote_env \<Rightarrow> string \<Rightarrow> string \<Rightarrow> lease_payload \<Rightarrow> error \<Rightarrow> world \<Rightarrow> bool \<times> world" where
  "report_failure env header worker l e w =
     (case remote_post env ''fail'' header (failure_report worker l e) w of (_, w) \<Rightarrow> (False, w))"

text \<open>A text that is not one line of at most 4096 characters is refused.\<close>

lemma unprintable_text:
  assumes "map_of doc name = Some (JStr s)" "list_ex control_char s \<or> length s > maximum"
  shows "remote_text doc name maximum = Inl (bad_request ''invalid-field'' (name @ '' is invalid''))"
  using assms by (auto simp: remote_text_def)

text \<open>A handler that raises and leaves the jobs alone.\<close>

definition refusing :: "'a handler \<Rightarrow> bool" where
  "refusing m \<longleftrightarrow> (\<forall>w. isl (fst (m w)) \<and> jobs (wd_ledger (snd (m w))) = jobs (wd_ledger w))"

lemma refusing_returns: "refusing (returns r) \<longleftrightarrow> isl r"
  by (simp add: refusing_def returns_def)

lemma refusing_followed_by:
  assumes "\<And>w. jobs (wd_ledger (snd (m w))) = jobs (wd_ledger w)" "\<And>x. refusing (f x)"
  shows "refusing (followed_by m f)"
  unfolding refusing_def
proof
  fix w
  obtain r v where m: "m w = (r, v)" by (cases "m w")
  have "jobs (wd_ledger v) = jobs (wd_ledger w)" using assms(1) [of w] by (simp add: m)
  then show "isl (fst (followed_by m f w)) \<and> jobs (wd_ledger (snd (followed_by m f w))) = jobs (wd_ledger w)"
    using assms(2) by (cases r) (simp_all add: followed_by_def m refusing_def)
qed

lemma jobs_kept:
  "jobs (wd_ledger (snd (returns r w))) = jobs (wd_ledger w)"
  "jobs (wd_ledger (snd (read_ledger f w))) = jobs (wd_ledger w)"
  "jobs (wd_ledger (snd (on_ledger (touch_worker clock worker transport pools metadata now) w))) = jobs (wd_ledger w)"
  using touch_worker_jobs [of clock worker transport pools metadata now "wd_ledger w"]
  by (simp_all add: returns_def read_ledger_def on_ledger_def split_beta)

lemma unprintable_failure:
  assumes "map_of doc ''error'' = Some (JStr s)" "list_ex control_char s \<or> length s > 4096"
  shows "refusing (remote_fail env jid token generation doc)"
proof -
  let ?arguments = "and_then (only_fields doc (lease_common @ [''error'', ''retryable'', ''pathological''])) (\<lambda>_.
        and_then (case map_of doc ''retryable'' of Some (JBool b) \<Rightarrow> Inr b
            | _ \<Rightarrow> Inl (bad_request ''invalid-field'' ''retryable must be a boolean'')) (\<lambda>retryable.
        and_then (optional_flag doc ''pathological'') (\<lambda>pathological.
        and_then (remote_text doc ''error'' 4096) (\<lambda>message. Inr (message, retryable, pathological)))))"
  have "isl ?arguments"
    unfolding unprintable_text [OF assms] by (simp add: and_then_def split: sum.split)
  then obtain e where "?arguments = Inl e" unfolding isl_def by (rule exE)
  then show ?thesis unfolding remote_fail_def refusing_def by simp
qed

lemma unprintable_failure_ignored:
  assumes "map_of doc ''error'' = Some (JStr s)" "list_ex control_char s \<or> length s > 4096"
  shows "refusing (remote_serve env ''fail'' header doc)"
proof -
  have "refusing (remote_operation env ''fail'' doc c)" for c
    unfolding remote_operation_def
    by (auto simp: refusing_returns unprintable_failure [OF assms] jobs_kept intro!: refusing_followed_by split: prod.split)
  then show ?thesis
    unfolding remote_serve_def by (intro refusing_followed_by) (simp_all add: jobs_kept refusing_followed_by)
qed

lemma failure_report_lost:
  assumes "list_ex control_char (error_message e) \<or> length (error_message e) > 4096"
    and "report_failure env header worker l e w = (answer, w')"
  shows "answer = False \<and> jobs (wd_ledger w') = jobs (wd_ledger w)"
proof -
  let ?s = "error_type e @ '': '' @ error_message e" and ?doc = "failure_report worker l e"
  have "map_of ?doc ''error'' = Some (JStr ?s)" by (simp add: failure_report_def lease_document_def)
  moreover have "list_ex control_char ?s \<or> length ?s > 4096" using assms(1) by auto
  ultimately have "refusing (remote_serve env ''fail'' header ?doc)" by (rule unprintable_failure_ignored)
  then have "jobs (wd_ledger (snd (remote_serve env ''fail'' header ?doc w))) = jobs (wd_ledger w)"
    by (simp add: refusing_def)
  then show ?thesis using assms(2)
    by (auto simp: report_failure_def remote_post_def split: prod.splits sum.splits)
qed

end
