(* ===== verification/Demo_Remote.thy ===== *)
theory Demo_Remote
  imports Remote_Guarantees
begin

text \<open>
  A concrete host of remote workers: one that serves a claim, and one whose leased cell has been built,
  sealed and staged.
\<close>

section \<open>A host that claims\<close>

definition demo_operations :: operations_policy where
  "demo_operations = \<lparr>op_schedule = demo_policy\<lparr>sp_enabled := False, sp_finish_started_batch := True, sp_chain_batches := True\<rparr>,
     op_resources = \<lparr>rp_min_available_memory_gib = 1, rp_min_free_disk_gib = 1, rp_max_load_per_cpu = 1,
       rp_max_temperature_c = 90\<rparr>,
     op_notifications = \<lparr>np_events = [], np_outbox = None, np_webhook_url_env = None, np_webhook_bearer_env = None,
       np_timeout_seconds = 5\<rparr>\<rparr>"

definition demo_usage :: usage where
  "demo_usage = \<lparr>us_self_user = None, us_self_system = None, us_child_user = None, us_child_system = None,
     us_self_rss = None, us_child_rss = None\<rparr>"

definition demo_clock :: span_clock where
  "demo_clock = \<lparr>sk_started_at = ''2026-01-01T00:00:00Z'', sk_started_ns = 10, sk_cpu_started = 0, sk_usage_started = demo_usage,
     sk_finished_ns = 20, sk_usage_finished = demo_usage, sk_cpu_finished = 5, sk_finished_at = ''2026-01-01T00:00:01Z''\<rparr>"

definition demo_token_digest :: "string \<Rightarrow> string" where
  "demo_token_digest token = replicate 64 (if token = ''secret'' then CHR ''a'' else CHR ''0'')"

text \<open>The definition of an external toolchain whose pool is \<open>library-local\<close>.\<close>

definition demo_definition :: "(string \<times> json) list" where
  "demo_definition = [(''schema_version'', JStr ''fidb-external-toolchain/v1''), (''id'', JStr ''mac''), (''label'', JStr ''Mac''),
     (''route_id'', JStr ''mac''), (''worker_pool'', JStr ''library-local''), (''worker_class'', JStr ''apple''),
     (''host_system'', JStr ''darwin''), (''host_architecture'', JStr ''arm64''), (''target_id'', JStr ''t''),
     (''compiler_family'', JStr ''clang''), (''probe_kind'', JStr ''apple-xcode''), (''languages'', JArr [JStr ''c'']),
     (''deployment_target'', JStr ''14''), (''worker_configuration'', JStr ''w.toml''), (''license_authority'', JStr ''l''),
     (''source_policy'', JStr ''s''), (''required_tools'', JArr [JStr ''ld'']), (''required_metadata'', JArr [JStr ''m'']),
     (''resources'', JObj [(''min_available_memory_gib'', JInt 1), (''min_free_disk_gib'', JInt 1), (''max_load_per_cpu'', JInt 1),
        (''max_temperature_c'', JInt 90)])]"

definition demo_external :: external_env where
  "demo_external = \<lparr>ex_document = (\<lambda>reference. if reference = ''mac'' then Inr (demo_definition, ''mac'', ''h'')
       else Inl (ValueError ''external toolchain definition is not a regular file'')),
     ex_catalog = Inr [\<lparr>pr_id = ''mac'', pr_provisioning = ''external-worker'', pr_target_id = ''t'', pr_compiler_family = ''clang'',
       pr_worker_class = ''apple''\<rparr>],
     ex_configuration = (\<lambda>_. Inr [\<lparr>wr_id = ''mac'', wr_target_os = ''macos'', wr_architecture = ''arm64'',
       wr_binary_format = ''Mach-O''\<rparr>])\<rparr>"

definition demo_preflight :: document where
  "demo_preflight = [(''schema_version'', JStr ''fidb-external-worker-preflight/v1''), (''checked_at'', JStr ''now''),
     (''ready'', JBool True),
     (''definition'', JObj [(''id'', JStr ''mac''), (''sha256'', JStr ''h''), (''route_id'', JStr ''mac''),
        (''worker_pool'', JStr ''library-local''), (''worker_class'', JStr ''apple''), (''probe_kind'', JStr ''apple-xcode''),
        (''languages'', JArr [JStr ''c''])]),
     (''host'', JObj []), (''toolchain'', JObj []), (''analysis'', JObj []), (''smoke'', JObj []), (''resources'', JObj []),
     (''metadata'', JObj [(''m'', JStr ''x'')]), (''blockers'', JArr [])]"

definition demo_registration :: document where
  "demo_registration = [(''worker_id'', JStr ''w1''), (''preflight'', JObj demo_preflight)]"

definition demo_remote_env :: remote_env where
  "demo_remote_env = \<lparr>re_credentials = [\<lparr>wc_worker_id = ''w1'', wc_token_sha256 = demo_token_digest ''secret'', wc_pools = [''library-local'']\<rparr>],
     re_token_sha256 = demo_token_digest, re_sha256 = demo_digest, re_base64 = (\<lambda>_. Some [1, 2, 3]), re_loads = (\<lambda>_. None),
     re_max_artifact_bytes = 4096, re_max_json_bytes = 4096, re_queue = Inr (queue_of [''b1''], demo_operations),
     re_to_local = (\<lambda>_ t. t), re_moment = 0, re_text_of_local = (\<lambda>_. ''now''), re_seconds_until = (\<lambda>_. 0),
     re_now = (\<lambda>i. 10), re_clock = 10, re_lease_token = ''t1'', re_staging_error = (\<lambda>_. None), re_iso = (\<lambda>_. None),
     re_span_clock = demo_clock,
     re_recorder_started = (0, ''now''), re_recorder_finished = 1, re_external = demo_external, re_json_length = (\<lambda>_. 100),
     re_metadata_bytes = (\<lambda>_. [])\<rparr>"

definition demo_host :: world where
  "demo_host = \<lparr>wd_ledger = snd (start_next_block ''a1'' False False 5 ''op'' demo_ledger),
     wd_staging = (\<lambda>_ _. no_files), wd_published = (\<lambda>_. None)\<rparr>"

definition demo_claim :: document where
  "demo_claim = [(''worker_id'', JStr ''w1''), (''pool'', JStr ''library-local'')]"

lemma demo_host_inv: "ledger_inv (wd_ledger demo_host)"
  by code_simp

lemma demo_host_claim:
  "case fst (remote_post demo_remote_env ''claim'' ''Bearer secret'' demo_claim demo_host) of
     Inr (Granted l p) \<Rightarrow> lp_job_id l = ''j1'' | _ \<Rightarrow> False"
  by code_simp

definition demo_credential :: worker_credential where
  "demo_credential = hd (re_credentials demo_remote_env)"

definition demo_toolchain :: external_definition where
  "demo_toolchain = ok_of (load_external_toolchain demo_external ''mac'')"

lemma demo_toolchain_loaded: "load_external_toolchain demo_external ''mac'' = Inr demo_toolchain"
proof -
  have "\<not> isl (load_external_toolchain demo_external ''mac'')" by code_simp
  then show ?thesis by (simp add: demo_toolchain_def ok_of_eq)
qed

lemma demo_preflight_accepted: "validate_registration (\<lambda>_. 100) demo_preflight demo_toolchain = Inr demo_preflight"
proof -
  have "set (map fst demo_preflight) = set PREFLIGHT_FIELDS"
      "map_of demo_preflight ''schema_version'' = Some (JStr EXTERNAL_PREFLIGHT_SCHEMA)"
      "map_of demo_preflight ''ready'' = Some (JBool True)" "map_of demo_preflight ''blockers'' = Some (JArr [])"
      "map_of demo_preflight ''metadata'' = Some (JObj [(''m'', JStr ''x'')])"
      "serializable (JObj demo_preflight)"
    by code_simp+
  moreover have "py_equal (map_of demo_preflight ''definition'') (Some (registration_identity demo_toolchain))" by code_simp
  moreover have "list_all (\<lambda>name. truthy (map_of [(''m'', JStr ''x'')] name)) (ed_required_metadata demo_toolchain)" by code_simp
  moreover have "(100::nat) \<le> 256 * 1024" by simp
  ultimately show ?thesis unfolding validate_registration_Inr by blast
qed

lemma demo_register_steps:
  "authenticate (re_token_sha256 demo_remote_env) (re_credentials demo_remote_env) ''Bearer secret'' demo_registration = Inr demo_credential"
  "and_then (only_fields demo_registration [''worker_id'', ''preflight'']) (\<lambda>_. preflight_of demo_registration)
     = Inr (demo_preflight, ''mac'')"
  "ed_worker_pool demo_toolchain \<in> set (wc_pools demo_credential)"
  "\<not> isl (fst (touch_worker (re_clock demo_remote_env) (wc_worker_id demo_credential) ''remote-http'' (wc_pools demo_credential)
     (Some [(''last_operation'', JStr ''register''), (''external_toolchain'', JObj demo_preflight)]) (re_now demo_remote_env 1)
     (wd_ledger demo_host)))"
  by code_simp+

lemma demo_host_registers:
  "\<not> isl (fst (remote_post demo_remote_env ''register'' ''Bearer secret'' demo_registration demo_host))"
proof -
  obtain p L where touch: "touch_worker (re_clock demo_remote_env) (wc_worker_id demo_credential) ''remote-http''
     (wc_pools demo_credential) (Some [(''last_operation'', JStr ''register''), (''external_toolchain'', JObj demo_preflight)])
     (re_now demo_remote_env 1) (wd_ledger demo_host) = (Inr p, L)"
    using demo_register_steps(4) by (metis isl_def old.sum.exhaust prod.collapse)
  have env: "re_external demo_remote_env = demo_external" "re_json_length demo_remote_env = (\<lambda>_. 100)"
    by (simp_all add: demo_remote_env_def)
  have "remote_register demo_remote_env demo_credential demo_registration demo_host
      = (Inr (Registered p), demo_host\<lparr>wd_ledger := L\<rparr>)"
    by (simp add: remote_register_def demo_register_steps(2,3) env demo_toolchain_loaded demo_preflight_accepted
        followed_by_def on_ledger_def touch [unfolded One_nat_def] returns_def)
  then show ?thesis
    by (simp add: remote_post_def remote_serve_def remote_operation_def demo_register_steps(1) require_def)
qed

section \<open>A sealed cell\<close>

definition demo_outputs :: cell_outputs where
  "demo_outputs = \<lparr>co_cell_id = ''c1'', co_kind = ''native'', co_executor = ''native-local'', co_provenance = [],
     co_cell_provenance = [], co_fidb = [''a.fidb''], co_fidbf = [''a.fidbf'']\<rparr>"

definition demo_files :: tree where
  "demo_files = [[''a.fidb''] \<mapsto> [1, 2, 3], [''a.fidbf''] \<mapsto> [4]]"

definition demo_records :: "json \<times> json" where
  "demo_records = (ok_of (artifact_record demo_digest demo_files [''a.fidb''] ''FIDB''),
     ok_of (artifact_record demo_digest demo_files [''a.fidbf''] ''FIDBF''))"

definition demo_parse :: iso_parser where
  "demo_parse s = Some (0, Some 0)"

definition demo_recorder :: recorder where
  "demo_recorder = new_recorder 0 ''2026-01-01T00:00:00Z''"

definition demo_seal :: json where
  "demo_seal = seal_document demo_outputs (fst demo_records) (snd demo_records) (timing_document 5 demo_recorder)"

definition demo_sealed :: "cell_result result \<times> recorder \<times> tree \<times> unit" where
  "demo_sealed = seal_cell demo_digest (\<lambda>_. [7]) (\<lambda>s e. (Inr (), s)) 5 demo_clock 30 demo_outputs
     (fst demo_records) (snd demo_records) demo_recorder (demo_files, ())"

definition demo_loads :: "bytes \<Rightarrow> json option" where
  "demo_loads content = Some (sort_keys demo_seal)"

lemma demo_sealed_ok: "\<not> isl (fst demo_sealed)"
  by code_simp

section \<open>A host with a finished cell\<close>

definition remote_job :: string where
  "remote_job = ''job-'' @ replicate 64 (CHR ''a'')"

definition remote_ledger :: ledger where
  "remote_ledger = demo_ledger\<lparr>cells := [(demo_cell ''c1'')\<lparr>cell_json := JObj [(''id'', JStr ''c1''), (''kind'', JStr ''native''),
       (''routing'', JObj [(''executor'', JStr ''native-local'')])]\<rparr>],
     jobs := [demo_job remote_job ''b1'' ''c1'' 1]\<rparr>"

definition demo_leased_host :: world where
  "demo_leased_host = \<lparr>wd_ledger = snd (claim ''t1'' ''w1'' 10 None None None remote_ledger),
     wd_staging = (\<lambda>key p. if key = (remote_job, 1) then no_files\<lparr>uf_destination := fst (snd (snd demo_sealed)) p\<rparr> else no_files),
     wd_published = (\<lambda>_. None)\<rparr>"

definition demo_lease_fields :: document where
  "demo_lease_fields = [(''worker_id'', JStr ''w1''), (''job_id'', JStr remote_job), (''lease_token'', JStr ''t1''),
     (''lease_generation'', JInt 1)]"

lemma demo_leased_inv: "ledger_inv (wd_ledger demo_leased_host)"
  by code_simp

lemma demo_host_renews:
  "\<not> isl (fst (remote_post demo_remote_env ''renew'' ''Bearer secret'' demo_lease_fields demo_leased_host))"
  by code_simp

text \<open>Its worker reports the sealed cell, and the completion goes through.\<close>

definition demo_result :: cell_result where
  "demo_result = ok_of (fst demo_sealed)"

definition demo_publishing_env :: remote_env where
  "demo_publishing_env = demo_remote_env\<lparr>re_iso := demo_parse, re_loads := demo_loads\<rparr>"

definition demo_completion :: document where
  "demo_completion = demo_lease_fields @ [(''cell_id'', JStr (rr_cell_id demo_result)), (''kind'', JStr (rr_kind demo_result)),
     (''executor'', JStr (rr_executor demo_result)), (''seal_path'', JStr (path_text (rr_seal_path demo_result))),
     (''seal_sha256'', JStr (rr_seal_sha256 demo_result)), (''fidb_path'', JStr (path_text (rr_fidb_path demo_result))),
     (''fidbf_path'', JStr (path_text (rr_fidbf_path demo_result))), (''timing'', opt_json (rr_timing demo_result))]"

lemma demo_host_completes:
  "\<not> isl (fst (remote_complete demo_publishing_env ''w1'' remote_job ''t1'' 1 demo_completion demo_leased_host))"
  by code_simp

definition demo_lease :: lease_payload where
  "demo_lease = ok_of (lease_payload_of remote_job (wd_ledger demo_leased_host))"

text \<open>A pathological cell whose message has two lines.\<close>

definition demo_failure :: error where
  "demo_failure = PathologicalCellError (''java exited'' @ [CHR 0x0A] @ ''code 137'')"

end
