(* ===== verification/Retention_Policy.thy ===== *)
theory Retention_Policy
  imports Remote_Uploads Publication
begin

text \<open>
  src/fidb_poc/retention.py: the paths and files of a project, the retention policy and the holds.  A
  path is the list of its parts below the project root; the files are listed in the order a walk finds
  them, without symbolic links, and a directory exists when it holds a file.
\<close>

section \<open>Files of the project\<close>

type_synonym file_list = "(path \<times> bytes) list"

definition below :: "path \<Rightarrow> path \<Rightarrow> bool" where
  "below p q \<longleftrightarrow> take (length p) q = p"

definition inside_dir :: "path \<Rightarrow> path \<Rightarrow> bool" where
  "inside_dir p q \<longleftrightarrow> below p q \<and> length p < length q"

definition files_under :: "file_list \<Rightarrow> path \<Rightarrow> file_list" where
  "files_under fs p = filter (\<lambda>f. inside_dir p (fst f)) fs"

definition is_dir :: "file_list \<Rightarrow> path \<Rightarrow> bool" where
  "is_dir fs p \<longleftrightarrow> files_under fs p \<noteq> []"

definition path_exists :: "file_list \<Rightarrow> path \<Rightarrow> bool" where
  "path_exists fs p \<longleftrightarrow> map_of fs p \<noteq> None \<or> is_dir fs p"

text \<open>The names in a directory.\<close>

definition children :: "file_list \<Rightarrow> path \<Rightarrow> string list" where
  "children fs p = remdups (map (\<lambda>f. fst f ! length p) (files_under fs p))"

definition directories_under :: "file_list \<Rightarrow> path \<Rightarrow> path list" where
  "directories_under fs p =
     remdups (concat (map (\<lambda>f. map (\<lambda>n. take n (fst f)) [length p..<length (fst f)]) (files_under fs p)))"

section \<open>Paths\<close>

definition relative_text :: "path \<Rightarrow> string" where
  "relative_text p = (if p = [] then ''.'' else path_text p)"

definition path_parts :: "string \<Rightarrow> string list" where
  "path_parts s = filter (\<lambda>p. p \<noteq> [] \<and> p \<noteq> ''.'') (split_slash s)"

definition is_absolute :: "string \<Rightarrow> bool" where
  "is_absolute s \<longleftrightarrow> s \<noteq> [] \<and> hd s = CHR ''/''"

fun resolve_parts :: "path \<Rightarrow> path \<Rightarrow> path" where
  "resolve_parts acc [] = acc"
| "resolve_parts acc (p # ps) = resolve_parts (if p = ''..'' then butlast acc else acc @ [p]) ps"

text \<open>\<open>_inside(root, base / value)\<close>: the path below the project root.\<close>

definition project_path :: "path \<Rightarrow> path \<Rightarrow> string \<Rightarrow> string \<Rightarrow> path result" where
  "project_path project base value label =
     (let resolved = resolve_parts (if is_absolute value then [] else project @ base) (path_parts value)
      in if below project resolved then Inr (drop (length project) resolved)
         else Inl (ValueError (label @ '' must remain inside the project root'')))"

definition safe_regular :: "path \<Rightarrow> file_list \<Rightarrow> path \<Rightarrow> string \<Rightarrow> string \<Rightarrow> (path \<times> bytes) result" where
  "safe_regular project fs base value label =
     and_then (project_path project base value label) (\<lambda>p.
       case map_of fs p of
         None \<Rightarrow> Inl (RetentionError (label @ '' is not a regular file: '' @ path_text (project @ p)))
       | Some content \<Rightarrow> Inr (p, content))"

definition load_object :: "(bytes \<Rightarrow> json option) \<Rightarrow> path \<times> bytes \<Rightarrow> string \<Rightarrow> json result" where
  "load_object loads file label =
     (case loads (snd file) of
        None \<Rightarrow> Inl (RetentionError (label @ '' is not valid JSON: '' @ path_text (fst file)))
      | Some v \<Rightarrow> if is_object v then Inr v
          else Inl (RetentionError (label @ '' must be a JSON object: '' @ path_text (fst file))))"

definition verify_digest :: "(bytes \<Rightarrow> string) \<Rightarrow> path \<times> bytes \<Rightarrow> json option \<Rightarrow> string \<Rightarrow> unit result" where
  "verify_digest sha256 file expected label =
     (case expected of
        Some (JStr digest) \<Rightarrow>
          if \<not> token_digest digest then Inl (RetentionError (label @ '' has no valid SHA-256''))
          else require (sha256 (snd file) = digest) (RetentionError (label @ '' SHA-256 mismatch: '' @ path_text (fst file)))
      | _ \<Rightarrow> Inl (RetentionError (label @ '' has no valid SHA-256'')))"

section \<open>The policy\<close>

text \<open>The project root is an argument, and \<open>dry_run_first\<close>, which is always true, is left out.\<close>

record retention_policy =
  rt_source_path :: path
  rt_name :: string
  rt_runs :: path
  rt_validation_runs :: path
  rt_failure_bundles :: path
  rt_plans :: path
  rt_state :: path
  rt_memory_audits :: path
  rt_lane_import_receipts :: path
  rt_holds_path :: path
  rt_preserve_until_lane_imported :: bool
  rt_prune_after_receipt :: "string list"
  rt_required_result_artifacts :: "string list"
  rt_retain_latest_evidence_bundle :: bool
  rt_collapse_identical_retries :: bool
  rt_evidence_globs :: "string list"
  rt_max_evidence_file_bytes :: int
  rt_validation_enabled :: bool
  rt_validation_automatic :: bool
  rt_validation_scratch_globs :: "string list"
  rt_validation_fold_artifacts :: "string list"
  rt_validation_prune_composites :: bool
  rt_validation_signature_schema :: string
  rt_automation_enabled :: bool
  rt_automation_triggers :: "string list"
  rt_automation_mode :: string
  rt_maximum_estimated_seconds :: int
  rt_worker_action :: string
  rt_memory_cleanup_enabled :: bool
  rt_audit_after_recycle :: bool
  rt_rss_warning_mib :: int
  rt_park_terminal_workers :: bool
  rt_park_poll_seconds :: int
  rt_maximum_actions :: int
  rt_maximum_scan_files :: int
  rt_authority_sha256 :: string

definition RETENTION_POLICY_SCHEMA :: string where "RETENTION_POLICY_SCHEMA = ''fidb-retention-policy/v1''"
definition RETENTION_HOLDS_SCHEMA :: string where "RETENTION_HOLDS_SCHEMA = ''fidb-retention-holds/v1''"

definition supported_fields :: "(string \<times> json) list \<Rightarrow> string list \<Rightarrow> string \<Rightarrow> unit result" where
  "supported_fields row allowed label =
     (let unknown = filter (\<lambda>k. k \<notin> set allowed) (map fst row)
      in require (unknown = []) (ValueError (label @ '' has unsupported fields: '' @ concat (sort unknown))))"

definition toml_table :: "json option \<Rightarrow> string \<Rightarrow> (string \<times> json) list result" where
  "toml_table v label = (case v of Some (JObj row) \<Rightarrow> Inr row | _ \<Rightarrow> Inl (ValueError (label @ '' must be a TOML table'')))"

definition toml_text :: "(string \<times> json) list \<Rightarrow> string \<Rightarrow> string \<Rightarrow> string result" where
  "toml_text row k label = text_field (opt_json (map_of row k)) label"

definition toml_bool :: "(string \<times> json) list \<Rightarrow> string \<Rightarrow> string \<Rightarrow> bool result" where
  "toml_bool row k label = (case map_of row k of Some (JBool b) \<Rightarrow> Inr b | _ \<Rightarrow> Inl (ValueError (label @ '' must be true or false'')))"

definition toml_positive :: "(string \<times> json) list \<Rightarrow> string \<Rightarrow> string \<Rightarrow> int result" where
  "toml_positive row k label = positive_integer (opt_json (map_of row k)) label"

definition toml_strings :: "(string \<times> json) list \<Rightarrow> string \<Rightarrow> string \<Rightarrow> string list result" where
  "toml_strings row k label =
     (case map_of row k of
        Some (JArr (v # vs)) \<Rightarrow>
          and_then (map_result (\<lambda>v. text_field v label) (v # vs)) (\<lambda>texts.
            if distinct texts then Inr texts else Inl (ValueError (label @ '' contains duplicates'')))
      | _ \<Rightarrow> Inl (ValueError (label @ '' must be a non-empty array'')))"

definition unsafe_relative :: "string \<Rightarrow> bool" where
  "unsafe_relative s \<longleftrightarrow> is_absolute s \<or> ''..'' \<in> set (path_parts s)"

text \<open>An absolute path has its root among its parts.\<close>

definition one_part :: "string \<Rightarrow> bool" where
  "one_part s \<longleftrightarrow> \<not> unsafe_relative s \<and> length (path_parts s) = 1"

definition policy_path :: "path \<Rightarrow> (string \<times> json) list \<Rightarrow> string \<Rightarrow> string \<Rightarrow> path result" where
  "policy_path project row k label = and_then (toml_text row k label) (\<lambda>s. project_path project [] s label)"

text \<open>The seven tables, with their fields checked.\<close>

record policy_tables =
  tb_paths :: "(string \<times> json) list"
  tb_success :: "(string \<times> json) list"
  tb_failure :: "(string \<times> json) list"
  tb_validation :: "(string \<times> json) list"
  tb_automation :: "(string \<times> json) list"
  tb_memory :: "(string \<times> json) list"
  tb_limits :: "(string \<times> json) list"

definition load_tables :: "(string \<times> json) list \<Rightarrow> policy_tables result" where
  "load_tables document =
     and_then (supported_fields document [''schema_version'', ''name'', ''paths'', ''success'', ''failure'', ''validation'',
       ''automation'', ''memory_cleanup'', ''limits''] ''retention policy'') (\<lambda>_.
     and_then (require (map_of document ''schema_version'' = Some (JStr RETENTION_POLICY_SCHEMA))
       (ValueError ''retention policy has unsupported schema_version'')) (\<lambda>_.
     and_then (toml_table (map_of document ''paths'') ''retention paths'') (\<lambda>paths.
     and_then (toml_table (map_of document ''success'') ''retention success'') (\<lambda>success.
     and_then (toml_table (map_of document ''failure'') ''retention failure'') (\<lambda>failure.
     and_then (toml_table (map_of document ''validation'') ''retention validation'') (\<lambda>validation.
     and_then (toml_table (map_of document ''automation'') ''retention automation'') (\<lambda>automation.
     and_then (toml_table (map_of document ''memory_cleanup'') ''retention memory_cleanup'') (\<lambda>memory.
     and_then (toml_table (map_of document ''limits'') ''retention limits'') (\<lambda>limits.
     and_then (supported_fields paths [''runs'', ''validation_runs'', ''failure_bundles'', ''plans'', ''state'', ''memory_audits'',
       ''lane_import_receipts'', ''holds''] ''retention paths'') (\<lambda>_.
     and_then (supported_fields success [''preserve_until_lane_imported'', ''prune_after_receipt'', ''required_result_artifacts'']
       ''retention success'') (\<lambda>_.
     and_then (supported_fields failure [''retain_latest_evidence_bundle'', ''collapse_identical_retries'', ''evidence_globs'',
       ''max_evidence_file_bytes''] ''retention failure'') (\<lambda>_.
     and_then (supported_fields validation [''enabled'', ''automatic_after_terminal_run'', ''scratch_globs'',
       ''required_fold_artifacts'', ''prune_composite_binaries'', ''required_signature_evidence_schema''] ''retention validation'') (\<lambda>_.
     and_then (supported_fields automation [''enabled'', ''triggers'', ''mode'', ''dry_run_first'', ''maximum_estimated_seconds'',
       ''worker_action''] ''retention automation'') (\<lambda>_.
     and_then (supported_fields memory [''enabled'', ''audit_after_recycle'', ''post_recycle_rss_warning_mib'',
       ''park_terminal_workers'', ''park_poll_seconds''] ''retention memory_cleanup'') (\<lambda>_.
     and_then (supported_fields limits [''maximum_actions'', ''maximum_scan_files''] ''retention limits'') (\<lambda>_.
     Inr \<lparr>tb_paths = paths, tb_success = success, tb_failure = failure, tb_validation = validation, tb_automation = automation,
          tb_memory = memory, tb_limits = limits\<rparr>))))))))))))))))"

text \<open>The checks before the policy is put together; they give the lists that are checked.\<close>

definition check_tables ::
  "policy_tables \<Rightarrow> (string list \<times> string \<times> string \<times> string list \<times> string list \<times> string list \<times> string list) result" where
  "check_tables t =
     and_then (toml_strings (tb_automation t) ''triggers'' ''retention automation triggers'') (\<lambda>triggers.
     and_then (toml_text (tb_automation t) ''mode'' ''retention automation mode'') (\<lambda>mode.
     and_then (toml_text (tb_automation t) ''worker_action'' ''retention worker action'') (\<lambda>action.
     and_then (require (set triggers = {''queue-drained'', ''machine-validation-complete''})
       (ValueError ''retention automation triggers must cover queue drain and machine validation'')) (\<lambda>_.
     and_then (require (mode \<in> {''plan'', ''apply''}) (ValueError ''retention automation mode must be plan or apply'')) (\<lambda>_.
     and_then (require (action \<in> {''none'', ''recycle''}) (ValueError ''retention worker_action must be none or recycle'')) (\<lambda>_.
     and_then (toml_bool (tb_automation t) ''dry_run_first'' ''automation dry_run_first'') (\<lambda>dry_run_first.
     and_then (require dry_run_first (ValueError ''retention automation must remain dry-run-first'')) (\<lambda>_.
     and_then (toml_strings (tb_success t) ''prune_after_receipt'' ''success prune_after_receipt'') (\<lambda>prune.
     and_then (require (list_all (\<lambda>s. \<not> unsafe_relative s) prune)
       (ValueError ''success prune paths must be safe attempt-relative paths'')) (\<lambda>_.
     and_then (toml_strings (tb_failure t) ''evidence_globs'' ''failure evidence_globs'') (\<lambda>globs.
     and_then (toml_strings (tb_validation t) ''scratch_globs'' ''validation scratch_globs'') (\<lambda>scratch.
     and_then (require (list_all one_part scratch)
       (ValueError ''validation scratch_globs must select direct children of a run'')) (\<lambda>_.
     and_then (toml_strings (tb_validation t) ''required_fold_artifacts'' ''validation required_fold_artifacts'') (\<lambda>fold.
     and_then (require (list_all one_part fold)
       (ValueError ''validation required_fold_artifacts must be fold-local filenames'')) (\<lambda>_.
     Inr (triggers, mode, action, prune, globs, scratch, fold))))))))))))))))"

definition load_retention_policy ::
  "path \<Rightarrow> path \<Rightarrow> string \<Rightarrow> (string \<times> json) list \<Rightarrow> retention_policy result" where
  "load_retention_policy project source authority_sha256 document =
     and_then (load_tables document) (\<lambda>t.
     and_then (check_tables t) (\<lambda>(triggers, mode, action, prune, globs, scratch, fold).
     and_then (toml_text document ''name'' ''retention policy name'') (\<lambda>name.
     and_then (policy_path project (tb_paths t) ''runs'' ''runs path'') (\<lambda>runs.
     and_then (policy_path project (tb_paths t) ''validation_runs'' ''validation runs path'') (\<lambda>validation_runs.
     and_then (policy_path project (tb_paths t) ''failure_bundles'' ''failure bundles path'') (\<lambda>bundles.
     and_then (policy_path project (tb_paths t) ''plans'' ''plans path'') (\<lambda>plans_path.
     and_then (policy_path project (tb_paths t) ''state'' ''state path'') (\<lambda>state_path.
     and_then (policy_path project (tb_paths t) ''memory_audits'' ''memory audits path'') (\<lambda>audits.
     and_then (policy_path project (tb_paths t) ''lane_import_receipts'' ''lane receipts path'') (\<lambda>receipts.
     and_then (policy_path project (tb_paths t) ''holds'' ''holds path'') (\<lambda>holds_path.
     and_then (toml_bool (tb_success t) ''preserve_until_lane_imported'' ''success preserve_until_lane_imported'') (\<lambda>preserve.
     and_then (toml_strings (tb_success t) ''required_result_artifacts'' ''success required_result_artifacts'') (\<lambda>required.
     and_then (toml_bool (tb_failure t) ''retain_latest_evidence_bundle'' ''failure retain_latest_evidence_bundle'') (\<lambda>retain.
     and_then (toml_bool (tb_failure t) ''collapse_identical_retries'' ''failure collapse_identical_retries'') (\<lambda>collapse.
     and_then (toml_positive (tb_failure t) ''max_evidence_file_bytes'' ''failure max_evidence_file_bytes'') (\<lambda>max_bytes.
     and_then (toml_bool (tb_validation t) ''enabled'' ''validation retention enabled'') (\<lambda>validation_enabled.
     and_then (toml_bool (tb_validation t) ''automatic_after_terminal_run'' ''validation automatic_after_terminal_run'') (\<lambda>automatic.
     and_then (toml_bool (tb_validation t) ''prune_composite_binaries'' ''validation prune_composite_binaries'') (\<lambda>composites.
     and_then (toml_text (tb_validation t) ''required_signature_evidence_schema''
       ''validation required_signature_evidence_schema'') (\<lambda>signature.
     and_then (toml_bool (tb_automation t) ''enabled'' ''automation enabled'') (\<lambda>automation_enabled.
     and_then (toml_positive (tb_automation t) ''maximum_estimated_seconds'' ''automation maximum_estimated_seconds'') (\<lambda>seconds.
     and_then (toml_bool (tb_memory t) ''enabled'' ''memory_cleanup enabled'') (\<lambda>memory_enabled.
     and_then (toml_bool (tb_memory t) ''audit_after_recycle'' ''memory_cleanup audit_after_recycle'') (\<lambda>audit.
     and_then (toml_positive (tb_memory t) ''post_recycle_rss_warning_mib'' ''memory_cleanup post_recycle_rss_warning_mib'') (\<lambda>rss.
     and_then (toml_bool (tb_memory t) ''park_terminal_workers'' ''memory_cleanup park_terminal_workers'') (\<lambda>park.
     and_then (toml_positive (tb_memory t) ''park_poll_seconds'' ''memory_cleanup park_poll_seconds'') (\<lambda>poll.
     and_then (toml_positive (tb_limits t) ''maximum_actions'' ''limits maximum_actions'') (\<lambda>max_actions.
     and_then (toml_positive (tb_limits t) ''maximum_scan_files'' ''limits maximum_scan_files'') (\<lambda>max_files.
     Inr \<lparr>rt_source_path = source, rt_name = name, rt_runs = runs, rt_validation_runs = validation_runs,
       rt_failure_bundles = bundles, rt_plans = plans_path, rt_state = state_path, rt_memory_audits = audits,
       rt_lane_import_receipts = receipts, rt_holds_path = holds_path, rt_preserve_until_lane_imported = preserve,
       rt_prune_after_receipt = prune, rt_required_result_artifacts = required, rt_retain_latest_evidence_bundle = retain,
       rt_collapse_identical_retries = collapse, rt_evidence_globs = globs, rt_max_evidence_file_bytes = max_bytes,
       rt_validation_enabled = validation_enabled, rt_validation_automatic = automatic, rt_validation_scratch_globs = scratch,
       rt_validation_fold_artifacts = fold, rt_validation_prune_composites = composites,
       rt_validation_signature_schema = signature, rt_automation_enabled = automation_enabled,
       rt_automation_triggers = triggers, rt_automation_mode = mode, rt_maximum_estimated_seconds = seconds,
       rt_worker_action = action, rt_memory_cleanup_enabled = memory_enabled, rt_audit_after_recycle = audit,
       rt_rss_warning_mib = rss, rt_park_terminal_workers = park, rt_park_poll_seconds = poll,
       rt_maximum_actions = max_actions, rt_maximum_scan_files = max_files,
       rt_authority_sha256 = authority_sha256\<rparr>)))))))))))))))))))))))))))))"

section \<open>Holds\<close>

record retention_hold =
  rh_id :: string
  rh_job :: string
  rh_attempts :: "int list"
  rh_reason :: string

definition hold_matches :: "string \<Rightarrow> int option \<Rightarrow> retention_hold \<Rightarrow> bool" where
  "hold_matches job attempt h \<longleftrightarrow> rh_job h = job
     \<and> (rh_attempts h = [] \<or> (case attempt of None \<Rightarrow> True | Some n \<Rightarrow> n \<in> set (rh_attempts h)))"

definition hold_for :: "retention_hold list \<Rightarrow> string \<Rightarrow> int option \<Rightarrow> retention_hold option" where
  "hold_for holds job attempt = find (hold_matches job attempt) holds"

definition retention_job_id :: "string \<Rightarrow> bool" where
  "retention_job_id s \<longleftrightarrow> take 4 s = ''job-'' \<and> token_digest (drop 4 s)"

definition attempt_numbers_of :: "(string \<times> json) list \<Rightarrow> int list option" where
  "attempt_numbers_of row =
     (case map_of row ''attempt_numbers'' of
        None \<Rightarrow> Some []
      | Some (JArr vs) \<Rightarrow>
          if list_all (\<lambda>v. case v of JInt n \<Rightarrow> n \<ge> 1 | _ \<Rightarrow> False) vs
          then Some (map (\<lambda>v. case v of JInt n \<Rightarrow> n | _ \<Rightarrow> 0) vs) else None
      | _ \<Rightarrow> None)"

definition load_hold :: "string \<Rightarrow> json \<Rightarrow> retention_hold list \<Rightarrow> retention_hold result" where
  "load_hold label v before =
     and_then (toml_table (Some v) label) (\<lambda>row.
     and_then (supported_fields row [''id'', ''job_id'', ''attempt_numbers'', ''reason''] label) (\<lambda>_.
     and_then (toml_text row ''id'' (label @ '' id'')) (\<lambda>hold_id.
     and_then (toml_text row ''job_id'' (label @ '' job_id'')) (\<lambda>job.
     and_then (toml_text row ''reason'' (label @ '' reason'')) (\<lambda>reason.
     if hold_id \<in> rh_id ` set before \<or> \<not> retention_job_id job
     then Inl (ValueError (label @ '' has duplicate id or invalid job_id''))
     else case attempt_numbers_of row of
       None \<Rightarrow> Inl (ValueError (label @ '' attempt_numbers must contain positive integers''))
     | Some numbers \<Rightarrow>
         if \<not> distinct numbers then Inl (ValueError (label @ '' attempt_numbers contains duplicates''))
         else Inr \<lparr>rh_id = hold_id, rh_job = job, rh_attempts = numbers, rh_reason = reason\<rparr>)))))"

fun load_hold_rows :: "nat \<Rightarrow> json list \<Rightarrow> retention_hold list \<Rightarrow> retention_hold list result" where
  "load_hold_rows i [] before = Inr before"
| "load_hold_rows i (v # vs) before =
     and_then (load_hold (''hold '' @ decimal i) v before) (\<lambda>h. load_hold_rows (Suc i) vs (before @ [h]))"

definition load_retention_holds :: "(string \<times> json) list \<Rightarrow> retention_hold list result" where
  "load_retention_holds document =
     and_then (supported_fields document [''schema_version'', ''hold''] ''retention holds'') (\<lambda>_.
     and_then (require (map_of document ''schema_version'' = Some (JStr RETENTION_HOLDS_SCHEMA))
       (ValueError ''retention holds has unsupported schema_version'')) (\<lambda>_.
     case map_of document ''hold'' of
       None \<Rightarrow> Inr []
     | Some (JArr rows) \<Rightarrow> load_hold_rows 1 rows []
     | _ \<Rightarrow> Inl (ValueError ''retention hold must be an array of tables'')))"

end
