(* ===== verification/Retention.thy ===== *)
theory Retention
  imports Retention_Policy Coordinator_System
begin

text \<open>
  src/fidb_poc/retention.py: the collection of production attempts.  \<open>compile_retention_plan\<close> reads the
  ledger, the holds and the files and decides what may be removed; \<open>apply_retention_plan\<close> compiles it
  again, copies the evidence of failures, removes, and writes what it did to the state file, holding
  the file \<open>collector.lock\<close>.  Modelled for the scope \<open>production\<close>: the machine-validation runs are left
  out, the clocks are arguments, and nobody else holds the lock.
\<close>

section \<open>What the collector takes from outside\<close>

text \<open>\<open>fnmatch\<close>, the blocks of a file on disk, the digest of a JSON document, the text of a timestamp, the
  clocks and the free space an application measures, and which removals \<open>unlink\<close> and \<open>rmtree\<close> give up, with
  the files they leave.\<close>

record retention_env =
  rv_root :: path
  rv_sha256 :: "bytes \<Rightarrow> string"
  rv_digest :: "json \<Rightarrow> string"
  rv_loads :: "bytes \<Rightarrow> json option"
  rv_dumps :: "json \<Rightarrow> bytes"
  rv_fnmatch :: "string \<Rightarrow> string \<Rightarrow> bool"
  rv_blocks :: "path \<Rightarrow> bytes \<Rightarrow> int"
  rv_stamp_text :: "stamp \<Rightarrow> string"
  rv_started_at :: string
  rv_completed_at :: string
  rv_duration_ns :: int
  rv_free_bytes_delta :: int
  rv_removal_fails :: "path \<Rightarrow> (path list \<times> string) option"

record tree_stats =
  ts_files :: int
  ts_directories :: int
  ts_apparent_bytes :: int
  ts_allocated_bytes :: int

definition no_stats :: tree_stats where
  "no_stats = \<lparr>ts_files = 0, ts_directories = 0, ts_apparent_bytes = 0, ts_allocated_bytes = 0\<rparr>"

definition add_stats :: "tree_stats \<Rightarrow> tree_stats \<Rightarrow> tree_stats" where
  "add_stats a b = \<lparr>ts_files = ts_files a + ts_files b, ts_directories = ts_directories a + ts_directories b,
     ts_apparent_bytes = ts_apparent_bytes a + ts_apparent_bytes b,
     ts_allocated_bytes = ts_allocated_bytes a + ts_allocated_bytes b\<rparr>"

definition size_of_files :: "file_list \<Rightarrow> int" where
  "size_of_files fs = sum_list (map (\<lambda>f. int (length (snd f))) fs)"

definition attempt_stats :: "retention_env \<Rightarrow> retention_policy \<Rightarrow> file_list \<Rightarrow> path \<Rightarrow> tree_stats result" where
  "attempt_stats env policy fs p =
     (let members = files_under fs p
      in if int (length members) > rt_maximum_scan_files policy
         then Inl (RetentionError ''retention scan exceeded maximum_scan_files'')
         else Inr \<lparr>ts_files = int (length members), ts_directories = int (length (directories_under fs p)),
           ts_apparent_bytes = size_of_files members,
           ts_allocated_bytes = sum_list (map (\<lambda>f. rv_blocks env (fst f) (snd f) * 512) members)\<rparr>)"

section \<open>Completed jobs\<close>

text \<open>A required artifact of a result: its file lies in the attempt and has the recorded digest.\<close>

record kept_artifact =
  ka_name :: string
  ka_path :: path
  ka_sha256 :: string
  ka_content :: bytes

definition verify_artifact ::
  "retention_env \<Rightarrow> file_list \<Rightarrow> path \<Rightarrow> json \<Rightarrow> string \<Rightarrow> kept_artifact result" where
  "verify_artifact env fs attempt result name =
     (case jget result name of
        Some (JObj kvs) \<Rightarrow>
          (case map_of kvs ''path'' of
             Some (JStr raw) \<Rightarrow>
               and_then (safe_regular (rv_root env) fs [] raw (''completed '' @ name)) (\<lambda>file.
               and_then (require (below attempt (fst file)) (RetentionError (''completed '' @ name @ '' escapes its attempt root''))) (\<lambda>_.
               and_then (verify_digest (rv_sha256 env) file (map_of kvs ''sha256'') (''completed '' @ name)) (\<lambda>_.
               Inr \<lparr>ka_name = name, ka_path = fst file, ka_sha256 = rv_sha256 env (snd file), ka_content = snd file\<rparr>)))
           | _ \<Rightarrow> Inl (RetentionError (''completed '' @ name @ '' artifact has no path'')))
      | _ \<Rightarrow> Inl (RetentionError (''completed result has no '' @ name @ '' artifact'')))"

definition artifact_named :: "kept_artifact list \<Rightarrow> string \<Rightarrow> kept_artifact option" where
  "artifact_named kept name = find (\<lambda>a. ka_name a = name) kept"

definition check_sealed :: "json \<Rightarrow> kept_artifact list \<Rightarrow> string \<Rightarrow> unit result" where
  "check_sealed sealed_artifacts kept name =
     (case (jget sealed_artifacts name, artifact_named kept name) of
        (Some (JObj kvs), Some a) \<Rightarrow>
          require (map_of kvs ''sha256'' = Some (JStr (ka_sha256 a))
              \<and> py_equal (map_of kvs ''bytes'') (Some (JInt (int (length (ka_content a))))))
            (RetentionError (''cell seal '' @ name @ '' does not match retained result''))
      | _ \<Rightarrow> Inl (RetentionError (''cell seal does not describe '' @ name)))"

definition check_seal :: "json \<Rightarrow> json \<Rightarrow> kept_artifact list \<Rightarrow> unit result" where
  "check_seal seal result kept =
     and_then (require (jget seal ''schema_version'' = Some (JStr SEAL_SCHEMA))
       (RetentionError ''completed cell seal has unsupported schema'')) (\<lambda>_.
     and_then (case jget seal ''cell'' of None \<Rightarrow> Inr (JObj [])
         | Some v \<Rightarrow> if is_object v then Inr v else Inl (AttributeError ''get'')) (\<lambda>cell.
     and_then (require (py_equal (jget cell ''id'') (jget result ''cell_id''))
       (RetentionError ''completed cell seal does not bind the ledger result'')) (\<lambda>_.
     and_then (case jget seal ''artifacts'' of Some (JObj kvs) \<Rightarrow> Inr (JObj kvs)
         | _ \<Rightarrow> Inl (RetentionError ''completed cell seal has no artifacts table'')) (\<lambda>artifacts.
     and_then (check_sealed artifacts kept ''fidb'') (\<lambda>_. check_sealed artifacts kept ''fidbf'')))))"

definition result_of :: "job_row \<Rightarrow> json result" where
  "result_of job =
     (case result_json job of
        None \<Rightarrow> Inl (RetentionError ''completed job has invalid result JSON'')
      | Some v \<Rightarrow> if is_object v then Inr v else Inl (RetentionError ''completed job result must be an object''))"

definition attempt_of_result :: "retention_env \<Rightarrow> file_list \<Rightarrow> job_row \<Rightarrow> json \<Rightarrow> path result" where
  "attempt_of_result env fs job result =
     (case jget result ''attempt_root'' of
        Some (JStr value) \<Rightarrow>
          and_then (project_path (rv_root env) [] value ''completed attempt root'') (\<lambda>attempt.
          and_then (require (is_dir fs attempt)
            (RetentionError (''completed attempt root is unavailable: '' @ path_text (rv_root env @ attempt)))) (\<lambda>_.
          and_then (require (butlast (rv_root env @ attempt) \<noteq> [] \<and> last (butlast (rv_root env @ attempt)) = job_id job)
            (RetentionError ''completed attempt root does not match its ledger job'')) (\<lambda>_.
          Inr attempt)))
      | _ \<Rightarrow> Inl (RetentionError ''completed job has no attempt_root''))"

text \<open>\<open>_verify_success\<close>: the attempt and the digest of its seal.\<close>

definition verify_success ::
  "retention_env \<Rightarrow> retention_policy \<Rightarrow> file_list \<Rightarrow> job_row \<Rightarrow> (path \<times> string \<times> kept_artifact list) result" where
  "verify_success env policy fs job =
     and_then (result_of job) (\<lambda>result.
     and_then (attempt_of_result env fs job result) (\<lambda>attempt.
     and_then (map_result (verify_artifact env fs attempt result) (rt_required_result_artifacts policy)) (\<lambda>kept.
     case artifact_named kept ''seal'' of
       None \<Rightarrow> Inl (AssertionError '''')
     | Some seal_file \<Rightarrow>
         and_then (load_object (rv_loads env) (ka_path seal_file, ka_content seal_file) ''cell seal'') (\<lambda>seal.
         and_then (check_seal seal result kept) (\<lambda>_.
         Inr (attempt, ka_sha256 seal_file, kept))))))"

definition RECEIPT_SCHEMA :: string where "RECEIPT_SCHEMA = ''fidb-lane-import-receipt/v1''"

definition receipt_binds :: "json \<Rightarrow> string \<Rightarrow> path \<Rightarrow> string \<Rightarrow> bool" where
  "receipt_binds receipt job attempt seal_sha256 \<longleftrightarrow>
     jget receipt ''schema_version'' = Some (JStr RECEIPT_SCHEMA) \<and> jget receipt ''job_id'' = Some (JStr job)
     \<and> jget receipt ''attempt_root'' = Some (JStr (relative_text attempt))
     \<and> jget receipt ''seal_sha256'' = Some (JStr seal_sha256)
     \<and> jget receipt ''relationship_complete'' = Some (JBool True)
     \<and> (case jget receipt ''lane_generation'' of Some (JStr g) \<Rightarrow> g \<noteq> [] | _ \<Rightarrow> False)"

definition valid_lane_receipt ::
  "retention_env \<Rightarrow> retention_policy \<Rightarrow> file_list \<Rightarrow> string \<Rightarrow> path \<Rightarrow> string \<Rightarrow> bool \<times> string option" where
  "valid_lane_receipt env policy fs job attempt seal_sha256 =
     (let p = rt_lane_import_receipts policy @ [job @ ''.json'']
      in if \<not> path_exists fs p then (False, None)
         else case map_of fs p of
           None \<Rightarrow> (False, Some (''lane import receipt is not a regular file: '' @ path_text (rv_root env @ p)))
         | Some content \<Rightarrow>
             (case load_object (rv_loads env) (p, content) ''lane import receipt'' of
                Inl e \<Rightarrow> (False, Some (error_message e))
              | Inr receipt \<Rightarrow>
                  if receipt_binds receipt job attempt seal_sha256 then (True, None)
                  else (False, Some ''lane import receipt does not bind relationship-complete evidence'')))"

section \<open>Actions and records\<close>

record failure_bundle =
  fb_job :: string
  fb_job_state :: string
  fb_batch :: string
  fb_cell :: string
  fb_attempt_id :: int
  fb_attempt_number :: int
  fb_fingerprint :: string
  fb_evidence :: json
  fb_sources :: "path list"
  fb_collapsed :: "int list"
  fb_path :: path
  fb_files :: "(string \<times> int \<times> string) list"
  fb_stages :: json
  fb_stats :: tree_stats

datatype retention_action =
    PruneSuccess string path bool tree_stats
  | BundleFailed failure_bundle

definition action_paths :: "retention_action \<Rightarrow> path list" where
  "action_paths a = (case a of PruneSuccess _ p _ _ \<Rightarrow> [p] | BundleFailed b \<Rightarrow> fb_sources b)"

definition stats_json :: "tree_stats \<Rightarrow> (string \<times> json) list" where
  "stats_json s = [(''files'', JInt (ts_files s)), (''directories'', JInt (ts_directories s)),
     (''apparent_bytes'', JInt (ts_apparent_bytes s)), (''allocated_bytes'', JInt (ts_allocated_bytes s))]"

definition evidence_record :: "string \<times> int \<times> string \<Rightarrow> json" where
  "evidence_record = (\<lambda>(p, n, digest). JObj [(''relative_path'', JStr p), (''bytes'', JInt n), (''sha256'', JStr digest)])"

definition paths_json :: "path list \<Rightarrow> json" where
  "paths_json ps = JArr (map (\<lambda>p. JStr (relative_text p)) ps)"

definition action_json :: "retention_action \<Rightarrow> json" where
  "action_json a = (case a of
       PruneSuccess job p receipt stats \<Rightarrow>
         JObj ([(''kind'', JStr ''prune-success-scratch''), (''job_id'', JStr job), (''paths'', paths_json [p]),
           (''receipt_verified'', JBool receipt)] @ stats_json stats)
     | BundleFailed b \<Rightarrow>
         JObj ([(''kind'', JStr ''bundle-failed-attempts''), (''job_id'', JStr (fb_job b)), (''job_state'', JStr (fb_job_state b)),
           (''batch_id'', JStr (fb_batch b)), (''base_cell_id'', JStr (fb_cell b)),
           (''representative_attempt_id'', JInt (fb_attempt_id b)),
           (''representative_attempt_number'', JInt (fb_attempt_number b)),
           (''failure_fingerprint'', JStr (fb_fingerprint b)), (''failure_evidence'', fb_evidence b),
           (''source_paths'', paths_json (fb_sources b)), (''collapsed_attempts'', JArr (map JInt (fb_collapsed b))),
           (''bundle_path'', JStr (relative_text (fb_path b))), (''evidence_files'', JArr (map evidence_record (fb_files b))),
           (''stage_evidence'', fb_stages b)] @ stats_json (fb_stats b)))"

text \<open>A preserved or quarantined thing, as the plan reports it; absent fields are left out.\<close>

definition report_row :: "string \<Rightarrow> (string \<times> json) list \<Rightarrow> string \<Rightarrow> json" where
  "report_row kind entries reason = JObj ((''kind'', JStr kind) # entries @ [(''reason'', JStr reason)])"

record outcome_lists =
  ol_actions :: "retention_action list"
  ol_preserved :: "json list"
  ol_quarantined :: "json list"

definition no_outcome :: outcome_lists where
  "no_outcome = \<lparr>ol_actions = [], ol_preserved = [], ol_quarantined = []\<rparr>"

definition only_action :: "retention_action \<Rightarrow> outcome_lists" where
  "only_action a = no_outcome\<lparr>ol_actions := [a]\<rparr>"

definition only_preserved :: "json \<Rightarrow> outcome_lists" where
  "only_preserved v = no_outcome\<lparr>ol_preserved := [v]\<rparr>"

definition only_quarantined :: "json \<Rightarrow> outcome_lists" where
  "only_quarantined v = no_outcome\<lparr>ol_quarantined := [v]\<rparr>"

definition joined_lists :: "outcome_lists \<Rightarrow> outcome_lists \<Rightarrow> outcome_lists" where
  "joined_lists a b = \<lparr>ol_actions = ol_actions a @ ol_actions b, ol_preserved = ol_preserved a @ ol_preserved b,
     ol_quarantined = ol_quarantined a @ ol_quarantined b\<rparr>"

definition all_lists :: "outcome_lists list \<Rightarrow> outcome_lists" where
  "all_lists os = foldr joined_lists os no_outcome"

section \<open>Scratch of successful attempts\<close>

definition prune_target ::
  "retention_env \<Rightarrow> retention_policy \<Rightarrow> file_list \<Rightarrow> string \<Rightarrow> path \<Rightarrow> bool \<Rightarrow> string \<Rightarrow> outcome_lists result" where
  "prune_target env policy fs job attempt receipt relative =
     and_then (project_path (rv_root env) attempt relative ''successful scratch target'') (\<lambda>target.
       if \<not> path_exists fs target then Inr no_outcome
       else case attempt_stats env policy fs target of
         Inl e \<Rightarrow> Inr (only_quarantined (report_row ''completed-scratch''
             [(''job_id'', JStr job), (''path'', JStr (relative_text target))] (error_message e)))
       | Inr stats \<Rightarrow> Inr (only_action (PruneSuccess job target receipt stats)))"

definition receipt_row :: "string \<Rightarrow> string option \<Rightarrow> outcome_lists" where
  "receipt_row job message =
     (case message of None \<Rightarrow> no_outcome | Some m \<Rightarrow> only_quarantined (report_row ''lane-import-receipt'' [(''job_id'', JStr job)] m))"

definition success_outcome ::
  "retention_env \<Rightarrow> retention_policy \<Rightarrow> retention_hold list \<Rightarrow> file_list \<Rightarrow> job_row \<Rightarrow> outcome_lists result" where
  "success_outcome env policy holds fs job =
     (if job_state job \<noteq> Complete then Inr no_outcome
      else case verify_success env policy fs job of
        Inl (RetentionError m) \<Rightarrow> Inr (only_quarantined (report_row ''completed-attempt'' [(''job_id'', JStr (job_id job))] m))
      | Inl e \<Rightarrow> Inl e
      | Inr (attempt, seal_sha256, kept) \<Rightarrow>
          let row = (\<lambda>reason detail. only_preserved (JObj ([(''kind'', JStr ''completed-attempt''), (''job_id'', JStr (job_id job)),
                (''path'', JStr (relative_text attempt)), (''reason'', JStr reason)] @ detail)))
          in (case hold_for holds (job_id job) None of
                Some h \<Rightarrow> Inr (row (''hold:'' @ rh_id h) [(''detail'', JStr (rh_reason h))])
              | None \<Rightarrow>
                  (case valid_lane_receipt env policy fs (job_id job) attempt seal_sha256 of
                     (receipt, message) \<Rightarrow>
                       if rt_preserve_until_lane_imported policy \<and> \<not> receipt
                       then Inr (joined_lists (receipt_row (job_id job) message) (row ''awaiting-relationship-complete-lane-import'' []))
                       else and_then (map_result (prune_target env policy fs (job_id job) attempt receipt) (rt_prune_after_receipt policy))
                         (\<lambda>outcomes. Inr (joined_lists (receipt_row (job_id job) message) (all_lists outcomes))))))"

text \<open>Whether a completed job counts as verified.\<close>

definition verified_success :: "retention_env \<Rightarrow> retention_policy \<Rightarrow> file_list \<Rightarrow> job_row \<Rightarrow> bool" where
  "verified_success env policy fs job \<longleftrightarrow> job_state job = Complete \<and> \<not> isl (verify_success env policy fs job)"

section \<open>Fingerprints of failures\<close>

text \<open>\<open>str.replace\<close> of a text that is not empty.\<close>

function replace_text :: "string \<Rightarrow> string \<Rightarrow> string \<Rightarrow> string" where
  "replace_text old new s =
     (case s of
        [] \<Rightarrow> []
      | c # cs \<Rightarrow>
          if old \<noteq> [] \<and> take (length old) s = old then new @ replace_text old new (drop (length old) s)
          else c # replace_text old new cs)"
  by pat_completeness auto
termination
  by (relation "measure (\<lambda>(old, new, s). length s)") (auto simp: Suc_le_eq)

definition attempt_name_char :: "char \<Rightarrow> bool" where
  "attempt_name_char c \<longleftrightarrow> is_alnum c \<or> c = CHR ''_'' \<or> c = CHR ''-''"

text \<open>The regular expression \<^verbatim>\<open>job-[0-9a-f]{64}-g[1-9][0-9]*-[A-Za-z0-9_-]+\<close> at the front of a text: what
  follows the match.\<close>

definition after_attempt_name :: "string \<Rightarrow> string option" where
  "after_attempt_name s =
     (if take 4 s \<noteq> ''job-'' \<or> \<not> token_digest (take 64 (drop 4 s)) \<or> take 2 (drop 68 s) \<noteq> ''-g'' then None
      else case drop 70 s of
        [] \<Rightarrow> None
      | d # rest \<Rightarrow>
          if d \<notin> set ''123456789'' then None
          else (case dropWhile (\<lambda>c. c \<in> set ''0123456789'') rest of
              [] \<Rightarrow> None
            | c # name \<Rightarrow>
                if c \<noteq> CHR ''-'' \<or> takeWhile attempt_name_char name = [] then None
                else Some (dropWhile attempt_name_char name)))"

lemma after_attempt_name_shorter: "after_attempt_name s = Some rest \<Longrightarrow> length rest < length s"
proof -
  assume "after_attempt_name s = Some rest"
  then obtain d cs c name where s: "drop 70 s = d # cs" "dropWhile (\<lambda>c. c \<in> set ''0123456789'') cs = c # name"
      "rest = dropWhile attempt_name_char name"
    unfolding after_attempt_name_def by (auto split: if_splits list.splits)
  have "length rest \<le> length name" unfolding s(3) by (rule length_dropWhile_le)
  also have "length name < length (c # name)" by simp
  also have "\<dots> \<le> length cs" unfolding s(2) [symmetric] by (rule length_dropWhile_le)
  also have "\<dots> < length (drop 70 s)" unfolding s(1) by simp
  also have "\<dots> \<le> length s" by simp
  finally show ?thesis .
qed

function hide_attempt_names :: "string \<Rightarrow> string" where
  "hide_attempt_names s =
     (case after_attempt_name s of
        Some rest \<Rightarrow> ''<attempt>'' @ hide_attempt_names rest
      | None \<Rightarrow> (case s of [] \<Rightarrow> [] | c # cs \<Rightarrow> c # hide_attempt_names cs))"
  by pat_completeness auto
termination
  by (relation "measure length") (auto dest: after_attempt_name_shorter)

definition normalise_failure :: "retention_env \<Rightarrow> string option \<Rightarrow> path \<Rightarrow> string" where
  "normalise_failure env message attempt =
     hide_attempt_names (replace_text (CHR ''/'' # path_text (rv_root env @ attempt)) ''<attempt-root>''
       (case message of None \<Rightarrow> [] | Some m \<Rightarrow> m))"

definition failed_span :: "span_row \<Rightarrow> bool" where
  "failed_span s \<longleftrightarrow> span_state s \<in> {SFailed, Interrupted}"

definition attempt_state_name :: "attempt_state \<Rightarrow> string" where
  "attempt_state_name st = (case st of ALeased \<Rightarrow> ''leased'' | ARunning \<Rightarrow> ''running'' | AComplete \<Rightarrow> ''complete''
     | AFailed \<Rightarrow> ''failed'' | AExpired \<Rightarrow> ''expired'')"

definition span_state_name :: "span_state \<Rightarrow> string" where
  "span_state_name st = (case st of Started \<Rightarrow> ''started'' | Completed \<Rightarrow> ''completed'' | SFailed \<Rightarrow> ''failed''
     | Skipped \<Rightarrow> ''skipped'' | Interrupted \<Rightarrow> ''interrupted'')"

definition failure_evidence :: "retention_env \<Rightarrow> attempt_row \<Rightarrow> span_row list \<Rightarrow> path \<Rightarrow> json" where
  "failure_evidence env a stages attempt =
     JObj [(''attempt_state'', JStr (attempt_state_name (attempt_state a))),
       (''attempt_error'', JStr (normalise_failure env (attempt_error a) attempt)),
       (''failed_stages'', JArr (map (\<lambda>s. JObj [(''stage'', JStr (span_stage s)), (''state'', JStr (span_state_name (span_state s))),
          (''error'', JStr (normalise_failure env (span_error s) attempt))]) (filter failed_span stages)))]"

definition stages_of :: "ledger \<Rightarrow> attempt_row \<Rightarrow> span_row list" where
  "stages_of L a = order_by (\<lambda>s. (span_sequence s, span_id s)) (filter (\<lambda>s. span_attempt s = attempt_id a) (spans L))"

section \<open>Failed attempts of a job\<close>

record failed_candidate =
  fc_attempt :: attempt_row
  fc_root :: path
  fc_stages :: "span_row list"
  fc_fingerprint :: string
  fc_evidence :: json

text \<open>The entries of the staging directory that belong to the attempt.\<close>

definition staging_names :: "retention_policy \<Rightarrow> file_list \<Rightarrow> string \<Rightarrow> int \<Rightarrow> string list" where
  "staging_names policy fs job generation =
     (let start = job @ ''-g'' @ decimal (nat generation) @ ''-''
      in sort (filter (\<lambda>n. take (length start) n = start) (children fs (rt_runs policy @ [''staging'']))))"

definition failed_row :: "attempt_row \<Rightarrow> path option \<Rightarrow> string \<Rightarrow> (string \<times> json) list \<Rightarrow> json" where
  "failed_row a p reason detail =
     JObj ([(''kind'', JStr ''failed-attempt''), (''job_id'', JStr (attempt_job a)), (''attempt_number'', JInt (attempt_number a))]
       @ (case p of None \<Rightarrow> [] | Some p \<Rightarrow> [(''path'', JStr (relative_text p))]) @ [(''reason'', JStr reason)] @ detail)"

text \<open>One failed attempt: its staging directory, if it is a known one, what the plan says of it, and whether
  it is a candidate.\<close>

definition examine_failure ::
  "retention_env \<Rightarrow> retention_policy \<Rightarrow> retention_hold list \<Rightarrow> file_list \<Rightarrow> ledger \<Rightarrow> attempt_row
     \<Rightarrow> path option \<times> outcome_lists \<times> failed_candidate option" where
  "examine_failure env policy holds fs L a =
     (case staging_names policy fs (attempt_job a) (attempt_generation a) of
        [name] \<Rightarrow>
          let p = rt_runs policy @ [''staging'', name]
          in (case hold_for holds (attempt_job a) (Some (attempt_number a)) of
                Some h \<Rightarrow> (Some p, only_preserved (failed_row a (Some p) (''hold:'' @ rh_id h) [(''detail'', JStr (rh_reason h))]), None)
              | None \<Rightarrow>
                  let stages = stages_of L a; evidence = failure_evidence env a stages p
                  in (Some p, no_outcome, Some \<lparr>fc_attempt = a, fc_root = p, fc_stages = stages,
                        fc_fingerprint = rv_digest env evidence, fc_evidence = evidence\<rparr>))
      | names \<Rightarrow> (None, only_quarantined (failed_row a None
            (''expected one staging directory, found '' @ decimal (length names)) []), None))"

text \<open>The latest candidate, by number and id.\<close>

definition candidate_key :: "failed_candidate \<Rightarrow> int \<times> int" where
  "candidate_key c = (attempt_number (fc_attempt c), attempt_id (fc_attempt c))"

definition representative_of :: "failed_candidate \<Rightarrow> failed_candidate list \<Rightarrow> failed_candidate" where
  "representative_of c cs = foldl (\<lambda>best c. if candidate_key best < candidate_key c then c else best) c cs"

text \<open>The evidence files of an attempt, by relative path; a file that is too large spoils them.\<close>

definition evidence_matches :: "retention_env \<Rightarrow> retention_policy \<Rightarrow> path \<Rightarrow> path \<Rightarrow> bool" where
  "evidence_matches env policy attempt p \<longleftrightarrow>
     list_ex (rv_fnmatch env (path_text (drop (length attempt) p))) (rt_evidence_globs policy)"

definition evidence_files ::
  "retention_env \<Rightarrow> retention_policy \<Rightarrow> file_list \<Rightarrow> path \<Rightarrow> string + (string \<times> int \<times> string) list" where
  "evidence_files env policy fs attempt =
     (let selected = filter (\<lambda>f. evidence_matches env policy attempt (fst f)) (files_under fs attempt);
          relative = (\<lambda>f. path_text (drop (length attempt) (fst f)))
      in case find (\<lambda>f. int (length (snd f)) > rt_max_evidence_file_bytes policy) selected of
           Some f \<Rightarrow> Inl (''evidence file exceeds '' @ decimal (nat (rt_max_evidence_file_bytes policy)) @ '' bytes: '' @ relative f)
         | None \<Rightarrow> Inr (sort_key fst (map (\<lambda>f. (relative f, int (length (snd f)), rv_sha256 env (snd f))) selected)))"

definition stage_evidence :: "retention_env \<Rightarrow> failed_candidate \<Rightarrow> json" where
  "stage_evidence env c =
     (let a = fc_attempt c; text = (\<lambda>t. JStr (rv_stamp_text env t))
      in JObj [(''attempt_number'', JInt (attempt_number a)), (''attempt_id'', JInt (attempt_id a)),
        (''state'', JStr (attempt_state_name (attempt_state a))), (''started_at'', text (attempt_started_at a)),
        (''ended_at'', case attempt_ended_at a of None \<Rightarrow> JNull | Some t \<Rightarrow> text t),
        (''error'', JStr (normalise_failure env (attempt_error a) (fc_root c))),
        (''failed_stages'', JArr (map (\<lambda>s. JObj [(''stage'', JStr (span_stage s)), (''state'', JStr (span_state_name (span_state s))),
           (''error'', JStr (normalise_failure env (span_error s) (fc_root c))), (''details'', span_details s),
           (''metrics'', span_metrics s)]) (filter failed_span (fc_stages c))))])"

text \<open>The sizes of the attempts that are collapsed, or the first that cannot be scanned.\<close>

fun collapsed_stats ::
  "retention_env \<Rightarrow> retention_policy \<Rightarrow> file_list \<Rightarrow> failed_candidate list \<Rightarrow> tree_stats \<Rightarrow> (failed_candidate \<times> error) + tree_stats" where
  "collapsed_stats env policy fs [] so_far = Inr so_far"
| "collapsed_stats env policy fs (c # cs) so_far =
     (case attempt_stats env policy fs (fc_root c) of
        Inl e \<Rightarrow> Inl (c, e)
      | Inr s \<Rightarrow> collapsed_stats env policy fs cs (add_stats so_far s))"

definition bundle_for ::
  "retention_env \<Rightarrow> retention_policy \<Rightarrow> job_row \<Rightarrow> failed_candidate list \<Rightarrow> (string \<times> int \<times> string) list \<Rightarrow> tree_stats
     \<Rightarrow> failure_bundle" where
  "bundle_for env policy job collapsible files stats =
     (let best = hd collapsible; a = fc_attempt best
      in \<lparr>fb_job = job_id job, fb_job_state = job_state_name (job_state job), fb_batch = job_batch job, fb_cell = job_cell job,
          fb_attempt_id = attempt_id a, fb_attempt_number = attempt_number a, fb_fingerprint = fc_fingerprint best,
          fb_evidence = fc_evidence best, fb_sources = map fc_root collapsible,
          fb_collapsed = map (\<lambda>c. attempt_number (fc_attempt c)) collapsible,
          fb_path = rt_failure_bundles policy
            @ [job_id job, take 16 (fc_fingerprint best), ''attempt-'' @ decimal (nat (attempt_id a))],
          fb_files = files, fb_stages = JArr (map (stage_evidence env) collapsible), fb_stats = stats\<rparr>)"

text \<open>What is so_far with the candidates of a job: the latest and those that failed like it go into one bundle.\<close>

definition collapsible_of :: "retention_policy \<Rightarrow> failed_candidate \<Rightarrow> failed_candidate list \<Rightarrow> failed_candidate list" where
  "collapsible_of policy best cs =
     best # filter (\<lambda>c. attempt_id (fc_attempt c) \<noteq> attempt_id (fc_attempt best)
       \<and> rt_collapse_identical_retries policy \<and> fc_fingerprint c = fc_fingerprint best) cs"

definition different_of :: "retention_policy \<Rightarrow> failed_candidate \<Rightarrow> failed_candidate list \<Rightarrow> failed_candidate list" where
  "different_of policy best cs =
     filter (\<lambda>c. attempt_id (fc_attempt c) \<noteq> attempt_id (fc_attempt best)
       \<and> \<not> (rt_collapse_identical_retries policy \<and> fc_fingerprint c = fc_fingerprint best)) cs"

definition bundle_outcome ::
  "retention_env \<Rightarrow> retention_policy \<Rightarrow> file_list \<Rightarrow> job_row \<Rightarrow> failed_candidate list \<Rightarrow> outcome_lists" where
  "bundle_outcome env policy fs job collapsible =
     (let best = hd collapsible
      in if \<not> rt_retain_latest_evidence_bundle policy
         then no_outcome\<lparr>ol_preserved := map (\<lambda>c. failed_row (fc_attempt c) (Some (fc_root c)) ''failure bundling disabled'' []) collapsible\<rparr>
         else case evidence_files env policy fs (fc_root best) of
           Inl m \<Rightarrow> only_quarantined (failed_row (fc_attempt best) (Some (fc_root best)) m [])
         | Inr files \<Rightarrow>
             (case collapsed_stats env policy fs collapsible no_stats of
                Inl (c, e) \<Rightarrow> only_quarantined (failed_row (fc_attempt c) (Some (fc_root c)) (error_message e) [])
              | Inr stats \<Rightarrow> only_action (BundleFailed (bundle_for env policy job collapsible files stats))))"

definition candidates_outcome ::
  "retention_env \<Rightarrow> retention_policy \<Rightarrow> file_list \<Rightarrow> job_row \<Rightarrow> failed_candidate list \<Rightarrow> outcome_lists" where
  "candidates_outcome env policy fs job cs =
     (case cs of
        [] \<Rightarrow> no_outcome
      | c # rest \<Rightarrow>
          let best = representative_of c rest
          in joined_lists
              (no_outcome\<lparr>ol_quarantined := map (\<lambda>c. failed_row (fc_attempt c) (Some (fc_root c))
                 ''failure fingerprint differs from retained representative''
                 [(''failure_fingerprint'', JStr (fc_fingerprint c))]) (different_of policy best cs)\<rparr>)
              (bundle_outcome env policy fs job (collapsible_of policy best cs)))"

definition failed_attempts :: "ledger \<Rightarrow> job_row \<Rightarrow> attempt_row list" where
  "failed_attempts L job =
     filter (\<lambda>a. attempt_state a \<in> {AFailed, AExpired})
       (order_by (\<lambda>a. (attempt_number a, attempt_id a)) (filter (\<lambda>a. attempt_job a = job_id job) (attempts L)))"

definition failure_outcome_of ::
  "retention_env \<Rightarrow> retention_policy \<Rightarrow> retention_hold list \<Rightarrow> file_list \<Rightarrow> ledger \<Rightarrow> job_row \<Rightarrow> path list \<times> outcome_lists" where
  "failure_outcome_of env policy holds fs L job =
     (let examined = map (examine_failure env policy holds fs L) (failed_attempts L job)
      in (List.map_filter fst examined,
          joined_lists (all_lists (map (\<lambda>x. fst (snd x)) examined))
            (candidates_outcome env policy fs job (List.map_filter (\<lambda>x. snd (snd x)) examined))))"

text \<open>What else lies in the staging directory.\<close>

definition unknown_staging :: "retention_policy \<Rightarrow> file_list \<Rightarrow> path list \<Rightarrow> outcome_lists" where
  "unknown_staging policy fs known =
     (let staging = rt_runs policy @ [''staging''];
          row = (\<lambda>p reason. report_row ''unknown-staging'' [(''path'', JStr (relative_text p))] reason)
      in no_outcome\<lparr>ol_quarantined := List.map_filter (\<lambda>name.
           let p = staging @ [name]
           in if \<not> is_dir fs p then Some (row p ''non-directory or symlink in staging root'')
              else if p \<in> set known then None
              else Some (row p (if after_attempt_name name = Some [] then ''no unique failed ledger attempt owns staging directory''
                                else ''unrecognised staging directory name''))) (children fs staging)\<rparr>)"

section \<open>The plan\<close>

record ledger_fingerprint =
  lf_sync_generation :: int
  lf_synced_at :: "stamp option"
  lf_job_counts :: "(string \<times> int) list"
  lf_attempt_count :: int
  lf_maximum_attempt_id :: int

definition maximum_attempt_id :: "ledger \<Rightarrow> int" where
  "maximum_attempt_id L = foldl (\<lambda>m a. max m (attempt_id a)) 0 (attempts L)"

definition ledger_fingerprint_of :: "ledger \<Rightarrow> ledger_fingerprint" where
  "ledger_fingerprint_of L =
     \<lparr>lf_sync_generation = sync_generation (cstate L), lf_synced_at = synced_at (cstate L),
      lf_job_counts = map (\<lambda>st. (job_state_name st, int (length (filter (\<lambda>j. job_state j = st) (jobs L)))))
        (filter (\<lambda>st. list_ex (\<lambda>j. job_state j = st) (jobs L)) (sort JOB_STATES)),
      lf_attempt_count = int (length (attempts L)), lf_maximum_attempt_id = maximum_attempt_id L\<rparr>"

definition latest_session :: "ledger \<Rightarrow> string" where
  "latest_session L =
     (case rev (order_by event_id (filter (\<lambda>e. event_type e = ''batch.drained'') (events L))) of
        e # _ \<Rightarrow> ''batch-drained-'' @ decimal (nat (event_id e))
      | [] \<Rightarrow> ''attempt-'' @ decimal (nat (maximum_attempt_id L)))"

record retention_plan =
  pl_policy :: retention_policy
  pl_ledger :: ledger_fingerprint
  pl_trigger :: string
  pl_session :: string
  pl_actions :: "retention_action list"
  pl_preserved :: "json list"
  pl_quarantined :: "json list"
  pl_verified :: int
  pl_batch :: "string option"

definition is_bundle :: "retention_action \<Rightarrow> bool" where
  "is_bundle a = (case a of BundleFailed _ \<Rightarrow> True | PruneSuccess _ _ _ _ \<Rightarrow> False)"

definition stats_of_action :: "retention_action \<Rightarrow> tree_stats" where
  "stats_of_action a = (case a of PruneSuccess _ _ _ s \<Rightarrow> s | BundleFailed b \<Rightarrow> fb_stats b)"

text \<open>The summary, without the entries of machine validation, which are zero in this scope.\<close>

definition plan_summary :: "retention_plan \<Rightarrow> (string \<times> int) list" where
  "plan_summary p =
     (let acts = pl_actions p
      in [(''verified_successes'', pl_verified p), (''actions'', int (length acts)),
        (''failure_bundles'', int (length (filter is_bundle acts))),
        (''success_scratch_prunes'', int (length (filter (\<lambda>a. \<not> is_bundle a) acts))),
        (''source_directories'', int (length (concat (map action_paths acts)))),
        (''recoverable_apparent_bytes'', sum_list (map (\<lambda>a. ts_apparent_bytes (stats_of_action a)) acts)),
        (''recoverable_allocated_bytes'', sum_list (map (\<lambda>a. ts_allocated_bytes (stats_of_action a)) acts)),
        (''preserved'', int (length (pl_preserved p))), (''quarantined'', int (length (pl_quarantined p)))])"

definition TRIGGERS :: "string list" where
  "TRIGGERS = [''manual'', ''queue-drained'', ''machine-validation-complete'']"

definition selected_jobs :: "string option \<Rightarrow> ledger \<Rightarrow> job_row list result" where
  "selected_jobs batch L =
     (let rows = order_by job_id (filter (\<lambda>j. case batch of None \<Rightarrow> True | Some b \<Rightarrow> job_batch j = b) (jobs L))
      in case batch of
           Some b \<Rightarrow> if rows = [] then Inl (RetentionError (''retention batch is absent from the ledger: '' @ b)) else Inr rows
         | None \<Rightarrow> Inr rows)"

definition compile_retention_plan ::
  "retention_env \<Rightarrow> retention_policy \<Rightarrow> retention_hold list \<Rightarrow> file_list \<Rightarrow> ledger \<Rightarrow> string \<Rightarrow> string option \<Rightarrow> string option
     \<Rightarrow> retention_plan result" where
  "compile_retention_plan env policy holds fs L trigger session batch_arg =
     and_then (require (trigger \<in> set TRIGGERS) (ValueError ''retention trigger is unsupported'')) (\<lambda>_.
     and_then (case batch_arg of None \<Rightarrow> Inr None
         | Some b \<Rightarrow> and_then (text_field (JStr b) ''retention batch id'') (\<lambda>b. Inr (Some b))) (\<lambda>batch.
     and_then (selected_jobs batch L) (\<lambda>rows.
     and_then (map_result (success_outcome env policy holds fs) rows) (\<lambda>successes.
       let failures = map (failure_outcome_of env policy holds fs L) rows;
           unknown = (if batch = None then unknown_staging policy fs (concat (map fst failures)) else no_outcome);
           lists = joined_lists (all_lists successes) (joined_lists (all_lists (map snd failures)) unknown)
       in if int (length (ol_actions lists)) > rt_maximum_actions policy
          then Inl (RetentionError (''retention plan exceeds maximum_actions='' @ decimal (nat (rt_maximum_actions policy))))
          else Inr \<lparr>pl_policy = policy, pl_ledger = ledger_fingerprint_of L, pl_trigger = trigger,
            pl_session = (case session of Some s \<Rightarrow> if s = [] then latest_session L else s | None \<Rightarrow> latest_session L),
            pl_actions = ol_actions lists, pl_preserved = ol_preserved lists, pl_quarantined = ol_quarantined lists,
            pl_verified = int (length (filter (verified_success env policy fs) rows)), pl_batch = batch\<rparr>))))"

section \<open>Applying a plan\<close>

definition assert_apply_idle :: "ledger \<Rightarrow> unit result" where
  "assert_apply_idle L =
     (if list_ex job_live (jobs L) \<or> list_ex attempt_live (attempts L)
      then Inl (RetentionError ''retention apply requires zero leased or running work'')
      else if list_ex (\<lambda>j. job_active j \<and> job_state j = Queued) (jobs L) \<and> armed (cstate L) \<and> \<not> paused (cstate L)
      then Inl (RetentionError ''retention apply requires a terminal queue, or an explicitly paused/disarmed queue'')
      else Inr ())"

definition BUNDLE_SCHEMA :: string where "BUNDLE_SCHEMA = ''fidb-failure-evidence/v1''"

definition bundle_document :: "string \<Rightarrow> failure_bundle \<Rightarrow> json" where
  "bundle_document plan b =
     JObj [(''schema_version'', JStr BUNDLE_SCHEMA), (''plan_digest'', JStr plan), (''job_id'', JStr (fb_job b)),
       (''job_state'', JStr (fb_job_state b)), (''batch_id'', JStr (fb_batch b)), (''base_cell_id'', JStr (fb_cell b)),
       (''representative_attempt_id'', JInt (fb_attempt_id b)), (''representative_attempt_number'', JInt (fb_attempt_number b)),
       (''failure_fingerprint'', JStr (fb_fingerprint b)), (''failure_evidence'', fb_evidence b),
       (''collapsed_attempts'', JArr (map JInt (fb_collapsed b))), (''source_paths'', paths_json (fb_sources b)),
       (''files'', JArr (map evidence_record (fb_files b))), (''stage_evidence'', fb_stages b)]"

text \<open>The copy of one evidence file, checked against its digest.\<close>

definition copy_evidence ::
  "retention_env \<Rightarrow> file_list \<Rightarrow> failure_bundle \<Rightarrow> path \<Rightarrow> string \<times> int \<times> string \<Rightarrow> (path \<times> bytes) result" where
  "copy_evidence env fs b representative = (\<lambda>(relative, n, digest).
     and_then (safe_regular (rv_root env) fs representative relative ''failed evidence file'') (\<lambda>file.
     and_then (verify_digest (rv_sha256 env) file (Some (JStr digest)) ''failed evidence file'') (\<lambda>_.
     Inr (fb_path b @ [''files''] @ path_parts relative, snd file))))"

text \<open>\<open>_copy_bundle\<close>: the bundle appears in one rename; one that is already there must be of this plan.\<close>

definition copy_bundle ::
  "retention_env \<Rightarrow> string \<Rightarrow> failure_bundle \<Rightarrow> file_list \<Rightarrow> (int \<times> file_list) result" where
  "copy_bundle env plan b fs =
     (if path_exists fs (fb_path b)
      then case map_of fs (fb_path b @ [''evidence.json'']) of
          None \<Rightarrow> Inl (OSError (path_text (fb_path b @ [''evidence.json''])))
        | Some content \<Rightarrow>
            and_then (load_object (rv_loads env) (fb_path b @ [''evidence.json''], content) ''failure evidence bundle'') (\<lambda>evidence.
            and_then (require (jget evidence ''plan_digest'' = Some (JStr plan)
                \<and> jget evidence ''failure_fingerprint'' = Some (JStr (fb_fingerprint b)))
              (RetentionError (''existing failure bundle does not match plan: '' @ path_text (rv_root env @ fb_path b)))) (\<lambda>_.
            Inr (size_of_files (files_under fs (fb_path b)), fs)))
      else case fb_sources b of
          [] \<Rightarrow> Inl (RetentionError ''failure bundle action has no source paths'')
        | representative # _ \<Rightarrow>
            and_then (map_result (copy_evidence env fs b representative) (fb_files b)) (\<lambda>copies.
              let fs' = fs @ copies @ [(fb_path b @ [''evidence.json''], rv_dumps env (bundle_document plan b))]
              in Inr (size_of_files (files_under fs' (fb_path b)), fs')))"

definition target_stats :: "retention_env \<Rightarrow> retention_policy \<Rightarrow> file_list \<Rightarrow> path \<Rightarrow> tree_stats result" where
  "target_stats env policy fs p =
     (case map_of fs p of
        Some content \<Rightarrow> Inr \<lparr>ts_files = 1, ts_directories = 0, ts_apparent_bytes = int (length content),
          ts_allocated_bytes = rv_blocks env p content * 512\<rparr>
      | None \<Rightarrow> attempt_stats env policy fs p)"

text \<open>\<open>_remove_retention_target\<close>: a removal that fails half way leaves some of the files.\<close>

definition remove_target ::
  "retention_env \<Rightarrow> retention_policy \<Rightarrow> file_list \<Rightarrow> path \<Rightarrow> tree_stats result \<times> file_list" where
  "remove_target env policy fs p =
     (if \<not> path_exists fs p then (Inr no_stats, fs)
      else case target_stats env policy fs p of
        Inl e \<Rightarrow> (Inl e, fs)
      | Inr stats \<Rightarrow>
          (case rv_removal_fails env p of
             None \<Rightarrow> (Inr stats, filter (\<lambda>f. \<not> below p (fst f)) fs)
           | Some (kept, message) \<Rightarrow> (Inl (OSError message), filter (\<lambda>f. fst f \<in> set kept \<or> \<not> below p (fst f)) fs)))"

text \<open>What is removed stays removed when a later step raises.\<close>

fun remove_targets ::
  "retention_env \<Rightarrow> retention_policy \<Rightarrow> path list \<Rightarrow> tree_stats \<times> file_list \<Rightarrow> tree_stats result \<times> file_list" where
  "remove_targets env policy [] (so_far, fs) = (Inr so_far, fs)"
| "remove_targets env policy (p # ps) (so_far, fs) =
     (case remove_target env policy fs p of
        (Inl e, fs) \<Rightarrow> (Inl e, fs)
      | (Inr stats, fs) \<Rightarrow> remove_targets env policy ps (add_stats so_far stats, fs))"

record applied =
  ap_removed :: tree_stats
  ap_bundle_bytes :: int
  ap_completed :: "retention_action list"

definition prepare_action :: "retention_env \<Rightarrow> string \<Rightarrow> retention_action \<Rightarrow> file_list \<Rightarrow> (int \<times> file_list) result" where
  "prepare_action env plan a fs =
     (case a of
        BundleFailed b \<Rightarrow> copy_bundle env plan b fs
      | PruneSuccess _ _ receipt _ \<Rightarrow>
          if receipt then Inr (0, fs)
          else Inl (RetentionError ''success scratch action lacks a verified lane receipt''))"

fun apply_actions ::
  "retention_env \<Rightarrow> retention_policy \<Rightarrow> string \<Rightarrow> retention_action list \<Rightarrow> applied \<Rightarrow> file_list \<Rightarrow> applied result \<times> file_list" where
  "apply_actions env policy plan [] so_far fs = (Inr so_far, fs)"
| "apply_actions env policy plan (a # rest) so_far fs =
     (case prepare_action env plan a fs of
        Inl e \<Rightarrow> (Inl e, fs)
      | Inr (n, fs) \<Rightarrow>
          (case remove_targets env policy (action_paths a) (ap_removed so_far, fs) of
             (Inl e, fs) \<Rightarrow> (Inl e, fs)
           | (Inr removed, fs) \<Rightarrow>
               apply_actions env policy plan rest \<lparr>ap_removed = removed, ap_bundle_bytes = ap_bundle_bytes so_far + n,
                 ap_completed = ap_completed so_far @ [a]\<rparr> fs))"

text \<open>\<open>collector_lock\<close> opens its file for appending, so it appears, empty, when it is not there.\<close>

definition lock_path :: "retention_policy \<Rightarrow> path" where
  "lock_path policy = butlast (rt_state policy) @ [''collector.lock'']"

definition take_lock :: "retention_policy \<Rightarrow> file_list \<Rightarrow> unit result \<times> file_list" where
  "take_lock policy fs =
     (if is_dir fs (lock_path policy) \<or> list_ex (\<lambda>f. inside_dir (fst f) (lock_path policy)) fs
      then (Inl (OSError (path_text (lock_path policy))), fs)
      else if path_exists fs (lock_path policy) then (Inr (), fs)
      else (Inr (), fs @ [(lock_path policy, [])]))"

text \<open>What an application did, as its state file records it.\<close>

definition STATE_SCHEMA :: string where "STATE_SCHEMA = ''fidb-retention-state/v1''"

definition completed_action :: "retention_action \<Rightarrow> json" where
  "completed_action a =
     (case a of
        PruneSuccess job p _ _ \<Rightarrow>
          JObj [(''kind'', JStr ''prune-success-scratch''), (''job_id'', JStr job), (''paths'', paths_json [p])]
      | BundleFailed b \<Rightarrow>
          JObj [(''kind'', JStr ''bundle-failed-attempts''), (''job_id'', JStr (fb_job b)), (''paths'', paths_json (fb_sources b))])"

definition applied_document :: "retention_env \<Rightarrow> string \<Rightarrow> retention_plan \<Rightarrow> applied \<Rightarrow> json" where
  "applied_document env digest p done =
     JObj ([(''schema_version'', JStr STATE_SCHEMA), (''state'', JStr ''complete''), (''mode'', JStr ''apply''),
       (''plan_digest'', JStr digest), (''session_id'', JStr (pl_session p)), (''scope'', JStr ''production''),
       (''trigger'', JStr (pl_trigger p))]
       @ (case pl_batch p of None \<Rightarrow> [] | Some b \<Rightarrow> [(''batch_id'', JStr b)])
       @ [(''started_at'', JStr (rv_started_at env)), (''completed_at'', JStr (rv_completed_at env)),
          (''duration_ns'', JInt (rv_duration_ns env)), (''actions_completed'', JInt (int (length (ap_completed done)))),
          (''removed'', JObj (stats_json (ap_removed done))),
          (''bundle_bytes'', JInt (ap_bundle_bytes done)), (''filesystem_free_bytes_delta'', JInt (rv_free_bytes_delta env)),
          (''completed_actions'', JArr (map completed_action (ap_completed done)))])"

text \<open>\<open>_atomic_json\<close> of the state file.\<close>

definition write_state :: "retention_env \<Rightarrow> retention_policy \<Rightarrow> json \<Rightarrow> file_list \<Rightarrow> unit result \<times> file_list" where
  "write_state env policy document fs =
     (if is_dir fs (rt_state policy) then (Inl (OSError (path_text (rt_state policy))), fs)
      else (Inr (), filter (\<lambda>f. fst f \<noteq> rt_state policy) fs @ [(rt_state policy, rv_dumps env document)]))"

text \<open>\<open>apply_retention_plan\<close>: \<open>saved\<close> is the plan in the file named by the digest, \<open>digest_of\<close> the digest of a
  plan's content.\<close>

definition saved_plan :: "(retention_plan \<Rightarrow> string) \<Rightarrow> string \<Rightarrow> retention_plan option \<Rightarrow> retention_plan result" where
  "saved_plan digest_of digest saved =
     and_then (require (token_digest digest) (RetentionError ''apply requires an exact retention plan digest'')) (\<lambda>_.
     and_then (case saved of None \<Rightarrow> Inl (RetentionError (''retention plan is unavailable: '' @ digest)) | Some p \<Rightarrow> Inr p) (\<lambda>p.
     and_then (require (digest_of p = digest)
       (RetentionError ''saved retention plan content does not match its digest'')) (\<lambda>_.
     Inr p)))"

definition check_current ::
  "retention_env \<Rightarrow> (retention_plan \<Rightarrow> string) \<Rightarrow> retention_policy \<Rightarrow> retention_hold list \<Rightarrow> ledger \<Rightarrow> string
     \<Rightarrow> retention_plan \<Rightarrow> file_list \<Rightarrow> unit result" where
  "check_current env digest_of policy holds L digest p fs =
     and_then (assert_apply_idle L) (\<lambda>_.
     and_then (compile_retention_plan env policy holds fs L (pl_trigger p) (Some (pl_session p)) (pl_batch p)) (\<lambda>current.
     require (digest_of current = digest)
       (RetentionError (''retention plan is stale; current digest is '' @ digest_of current))))"

definition apply_retention_plan ::
  "retention_env \<Rightarrow> (retention_plan \<Rightarrow> string) \<Rightarrow> retention_policy \<Rightarrow> retention_hold list \<Rightarrow> ledger \<Rightarrow> string
     \<Rightarrow> retention_plan option \<Rightarrow> file_list \<Rightarrow> json result \<times> file_list" where
  "apply_retention_plan env digest_of policy holds L digest saved fs =
     (case saved_plan digest_of digest saved of
        Inl e \<Rightarrow> (Inl e, fs)
      | Inr p \<Rightarrow>
          (case take_lock policy fs of
             (Inl e, fs) \<Rightarrow> (Inl e, fs)
           | (Inr _, fs) \<Rightarrow>
               (case check_current env digest_of policy holds L digest p fs of
                  Inl e \<Rightarrow> (Inl e, fs)
                | Inr _ \<Rightarrow>
                    (case apply_actions env policy digest (pl_actions p)
                            \<lparr>ap_removed = no_stats, ap_bundle_bytes = 0, ap_completed = []\<rparr> fs of
                       (Inl e, fs) \<Rightarrow> (Inl e, fs)
                     | (Inr done, fs) \<Rightarrow>
                         (case write_state env policy (applied_document env digest p done) fs of
                            (Inl e, fs) \<Rightarrow> (Inl e, fs)
                          | (Inr _, fs) \<Rightarrow> (Inr (applied_document env digest p done), fs))))))"

end
