(* ===== verification/Retention_Laws.thy ===== *)
theory Retention_Laws
  imports Retention Demo_System
begin

text \<open>
  What a plan of the collector may name and what applying it may change.
\<close>

section \<open>Paths\<close>

lemma below_refl [simp]: "below p p"
  by (simp add: below_def)

lemma below_append [simp]: "below p (p @ q)"
  by (simp add: below_def)

lemma below_iff: "below p q \<longleftrightarrow> (\<exists>r. q = p @ r)"
  by (metis append_take_drop_id below_append below_def)

lemma below_trans: "below p q \<Longrightarrow> below q r \<Longrightarrow> below p r"
  by (auto simp: below_iff)

lemma inside_dir_below: "inside_dir p q \<Longrightarrow> below p q"
  by (simp add: inside_dir_def)

lemma resolve_parts_plain: "''..'' \<notin> set ps \<Longrightarrow> resolve_parts acc ps = acc @ ps"
  by (induction ps arbitrary: acc) auto

lemma project_path_below:
  assumes "project_path project base relative label = Inr target" "\<not> unsafe_relative relative"
  shows "target = base @ path_parts relative"
  using assms by (auto simp: project_path_def unsafe_relative_def resolve_parts_plain Let_def split: if_splits)

lemma file_makes_directory:
  assumes "map_of fs (p @ [name]) = Some content"
  shows "path_exists fs p"
proof -
  have "(p @ [name], content) \<in> set fs" using map_of_SomeD [OF assms] .
  then show ?thesis by (force simp: path_exists_def is_dir_def files_under_def inside_dir_def filter_empty_conv)
qed

lemma loaded_prunes_safe:
  assumes "load_retention_policy project source sha document = Inr policy"
  shows "list_all (\<lambda>s. \<not> unsafe_relative s) (rt_prune_after_receipt policy)"
proof -
  obtain t triggers mode action prune globs scratch fold where t: "check_tables t = Inr (triggers, mode, action, prune, globs, scratch, fold)"
    and policy: "rt_prune_after_receipt policy = prune"
    using assms unfolding load_retention_policy_def
    by (simp only: results split_paired_Ex prod.case) auto
  have "list_all (\<lambda>s. \<not> unsafe_relative s) prune"
    using t unfolding check_tables_def
    by (simp only: results prod.inject sum.inject) blast
  then show ?thesis by (simp add: policy)
qed

section \<open>Outcomes\<close>

lemma no_outcome_simps [simp]:
  "ol_actions no_outcome = []" "ol_preserved no_outcome = []" "ol_quarantined no_outcome = []"
  by (simp_all add: no_outcome_def)

lemma only_simps [simp]:
  "ol_actions (only_action a) = [a]" "ol_actions (only_preserved v) = []" "ol_actions (only_quarantined v) = []"
  by (simp_all add: only_action_def only_preserved_def only_quarantined_def)

lemma joined_actions [simp]: "ol_actions (joined_lists a b) = ol_actions a @ ol_actions b"
  by (simp add: joined_lists_def)

lemma all_lists_actions [simp]: "ol_actions (all_lists os) = concat (map ol_actions os)"
  by (induction os) (simp_all add: all_lists_def)

lemma receipt_row_actions [simp]: "ol_actions (receipt_row job m) = []"
  by (simp add: receipt_row_def split: option.split)

section \<open>Successful attempts\<close>

text \<open>What a verified success is: its artifacts lie in the attempt and have the digests the result records.\<close>

definition kept_ok :: "retention_env \<Rightarrow> file_list \<Rightarrow> path \<Rightarrow> json \<Rightarrow> kept_artifact \<Rightarrow> bool" where
  "kept_ok env fs attempt result k \<longleftrightarrow>
     map_of fs (ka_path k) = Some (ka_content k) \<and> below attempt (ka_path k) \<and> ka_sha256 k = rv_sha256 env (ka_content k)
     \<and> jget (opt_json (jget result (ka_name k))) ''sha256'' = Some (JStr (ka_sha256 k))"

lemma safe_regular_Inr: "safe_regular project fs base raw label = Inr (p, content) \<Longrightarrow> map_of fs p = Some content"
  by (auto simp: safe_regular_def results split: option.splits)

lemma verify_digest_Inr [results]:
  "verify_digest sha256 file expected label = Inr u \<longleftrightarrow> expected = Some (JStr (sha256 (snd file))) \<and> token_digest (sha256 (snd file))"
  by (auto simp: verify_digest_def results split: option.splits json.splits if_splits)

lemma verify_artifact_Inr:
  "verify_artifact env fs attempt result name = Inr k \<Longrightarrow> ka_name k = name \<and> kept_ok env fs attempt result k"
  by (auto simp: verify_artifact_def kept_ok_def results opt_json_def dest: safe_regular_Inr
      split: option.splits json.splits)

lemma verify_artifacts_Inr:
  "map_result (verify_artifact env fs attempt result) names = Inr kept \<Longrightarrow>
     map ka_name kept = names \<and> (\<forall>k\<in>set kept. kept_ok env fs attempt result k)"
  by (induction names arbitrary: kept) (auto simp: results dest!: verify_artifact_Inr)

lemma verify_success_Inr:
  assumes "verify_success env policy fs job = Inr (attempt, seal_sha256, kept)"
  shows "\<exists>result. result_json job = Some result \<and> is_dir fs attempt
    \<and> map ka_name kept = rt_required_result_artifacts policy \<and> (\<forall>k\<in>set kept. kept_ok env fs attempt result k)
    \<and> (\<exists>k\<in>set kept. ka_name k = ''seal'' \<and> ka_sha256 k = seal_sha256)"
proof -
  from assms obtain result seal_file seal where result: "result_of job = Inr result"
    and attempt: "attempt_of_result env fs job result = Inr attempt"
    and kept: "map_result (verify_artifact env fs attempt result) (rt_required_result_artifacts policy) = Inr kept"
    and seal: "artifact_named kept ''seal'' = Some seal_file" "ka_sha256 seal_file = seal_sha256"
    by (auto simp: verify_success_def results split: option.splits)
  have "result_json job = Some result" using result by (auto simp: result_of_def split: option.splits if_splits)
  moreover have "is_dir fs attempt" using attempt by (auto simp: attempt_of_result_def results split: option.splits json.splits)
  moreover have "map ka_name kept = rt_required_result_artifacts policy \<and> (\<forall>k\<in>set kept. kept_ok env fs attempt result k)"
    by (rule verify_artifacts_Inr [OF kept])
  moreover have "\<exists>k\<in>set kept. ka_name k = ''seal'' \<and> ka_sha256 k = seal_sha256"
    using seal by (auto simp: artifact_named_def dest!: find_SomeD)
  ultimately show ?thesis by blast
qed

text \<open>When scratch of a completed attempt may go.\<close>

definition prune_justified ::
  "retention_env \<Rightarrow> retention_policy \<Rightarrow> retention_hold list \<Rightarrow> file_list \<Rightarrow> job_row \<Rightarrow> path \<Rightarrow> bool \<Rightarrow> bool" where
  "prune_justified env policy holds fs job target receipt \<longleftrightarrow>
     job_state job = Complete \<and> hold_for holds (job_id job) None = None \<and>
     (\<exists>attempt seal_sha256 kept. verify_success env policy fs job = Inr (attempt, seal_sha256, kept)
        \<and> receipt = fst (valid_lane_receipt env policy fs (job_id job) attempt seal_sha256)
        \<and> (rt_preserve_until_lane_imported policy \<longrightarrow> receipt)
        \<and> (\<exists>relative\<in>set (rt_prune_after_receipt policy).
             project_path (rv_root env) attempt relative ''successful scratch target'' = Inr target))"

lemma prune_target_actions:
  "prune_target env policy fs job attempt receipt relative = Inr out \<Longrightarrow> a \<in> set (ol_actions out) \<Longrightarrow>
     \<exists>target stats. a = PruneSuccess job target receipt stats
       \<and> project_path (rv_root env) attempt relative ''successful scratch target'' = Inr target"
  by (auto simp: prune_target_def results split: if_splits sum.splits)

lemma success_outcome_actions:
  assumes "success_outcome env policy holds fs job = Inr out" "a \<in> set (ol_actions out)"
  shows "\<exists>target receipt stats. a = PruneSuccess (job_id job) target receipt stats
    \<and> prune_justified env policy holds fs job target receipt"
proof -
  obtain receipt message attempt seal_sha256 kept outs where
    job: "job_state job = Complete" "verify_success env policy fs job = Inr (attempt, seal_sha256, kept)"
      "hold_for holds (job_id job) None = None"
    and r: "valid_lane_receipt env policy fs (job_id job) attempt seal_sha256 = (receipt, message)"
      "rt_preserve_until_lane_imported policy \<longrightarrow> receipt"
    and outs: "map_result (prune_target env policy fs (job_id job) attempt receipt) (rt_prune_after_receipt policy) = Inr outs"
      "a \<in> set (concat (map ol_actions outs))"
    using assms unfolding success_outcome_def Let_def
    by (auto simp: results split: if_splits sum.splits error.splits prod.splits option.splits)
  from outs(2) obtain o' where "o' \<in> set outs" "a \<in> set (ol_actions o')" by auto
  moreover from this(1) obtain relative where "relative \<in> set (rt_prune_after_receipt policy)"
      "prune_target env policy fs (job_id job) attempt receipt relative = Inr o'"
    using map_result_set [OF outs(1)] by auto
  ultimately show ?thesis using job r prune_target_actions [of env policy fs "job_id job" attempt receipt relative o' a]
    by (auto simp: prune_justified_def)
qed

section \<open>Failed attempts\<close>

text \<open>An attempt the collector may bundle: it failed or expired, no hold names it, and it owns the one staging
  directory of its generation.\<close>

definition candidate_ok ::
  "retention_env \<Rightarrow> retention_policy \<Rightarrow> retention_hold list \<Rightarrow> file_list \<Rightarrow> ledger \<Rightarrow> job_row \<Rightarrow> failed_candidate \<Rightarrow> bool" where
  "candidate_ok env policy holds fs L job c \<longleftrightarrow>
     (let a = fc_attempt c
      in a \<in> set (attempts L) \<and> attempt_job a = job_id job \<and> attempt_state a \<in> {AFailed, AExpired}
         \<and> hold_for holds (job_id job) (Some (attempt_number a)) = None
         \<and> (\<exists>name. staging_names policy fs (job_id job) (attempt_generation a) = [name]
              \<and> fc_root c = rt_runs policy @ [''staging'', name])
         \<and> fc_fingerprint c = rv_digest env (failure_evidence env a (stages_of L a) (fc_root c)))"

lemma failed_attempts_set:
  "a \<in> set (failed_attempts L job) \<longleftrightarrow>
     a \<in> set (attempts L) \<and> attempt_job a = job_id job \<and> attempt_state a \<in> {AFailed, AExpired}"
  by (auto simp: failed_attempts_def order_by_def)

lemma examine_failure_candidate:
  assumes "snd (snd (examine_failure env policy holds fs L a)) = Some c" "a \<in> set (failed_attempts L job)"
  shows "candidate_ok env policy holds fs L job c"
  using assms unfolding failed_attempts_set
  by (auto simp: examine_failure_def candidate_ok_def Let_def split: list.splits option.splits)

text \<open>An attempt that may be bundled: it failed or expired, no hold names it, it owns its staging directory.\<close>

definition may_be_bundled ::
  "retention_policy \<Rightarrow> retention_hold list \<Rightarrow> file_list \<Rightarrow> ledger \<Rightarrow> job_row \<Rightarrow> attempt_row \<Rightarrow> bool" where
  "may_be_bundled policy holds fs L job a \<longleftrightarrow>
     a \<in> set (attempts L) \<and> attempt_job a = job_id job \<and> attempt_state a \<in> {AFailed, AExpired}
     \<and> hold_for holds (job_id job) (Some (attempt_number a)) = None
     \<and> length (staging_names policy fs (job_id job) (attempt_generation a)) = 1"

lemma may_be_bundled_examined:
  assumes "may_be_bundled policy holds fs L job a"
  shows "a \<in> set (failed_attempts L job) \<and> (\<exists>c. snd (snd (examine_failure env policy holds fs L a)) = Some c \<and> fc_attempt c = a)"
  using assms
  by (auto simp: may_be_bundled_def failed_attempts_set examine_failure_def Let_def length_Suc_conv)

lemma examine_failure_actions [simp]: "ol_actions (fst (snd (examine_failure env policy holds fs L a))) = []"
  by (simp add: examine_failure_def Let_def split: list.split option.split)

lemma representative_is_latest:
  "representative_of c cs \<in> set (c # cs) \<and> (\<forall>d\<in>set (c # cs). candidate_key d \<le> candidate_key (representative_of c cs))"
proof (induction cs arbitrary: c)
  case (Cons d ds)
  let ?b = "if candidate_key c < candidate_key d then d else c"
  have "representative_of c (d # ds) = representative_of ?b ds" by (simp add: representative_of_def)
  then show ?case using Cons.IH [of ?b] by (auto split: if_splits)
qed (simp add: representative_of_def)

text \<open>When failed attempts may be bundled: all failed like the first, which is the latest of all attempts of the
  job that may be bundled.\<close>

definition bundle_justified ::
  "retention_env \<Rightarrow> retention_policy \<Rightarrow> retention_hold list \<Rightarrow> file_list \<Rightarrow> ledger \<Rightarrow> failure_bundle \<Rightarrow> bool" where
  "bundle_justified env policy holds fs L b \<longleftrightarrow>
     (\<exists>job best rest. job \<in> set (jobs L) \<and> fb_job b = job_id job
        \<and> (\<forall>c\<in>set (best # rest). candidate_ok env policy holds fs L job c)
        \<and> (\<forall>a. may_be_bundled policy holds fs L job a \<longrightarrow> (attempt_number a, attempt_id a) \<le> candidate_key best)
        \<and> fb_sources b = map fc_root (best # rest) \<and> fb_fingerprint b = fc_fingerprint best
        \<and> (\<forall>c\<in>set rest. fc_fingerprint c = fc_fingerprint best \<and> rt_collapse_identical_retries policy)
        \<and> evidence_files env policy fs (fc_root best) = Inr (fb_files b) \<and> rt_retain_latest_evidence_bundle policy)"

lemma map_filter_snd_set:
  "c \<in> set (List.map_filter (\<lambda>x. snd (snd x)) (map f as)) \<longleftrightarrow> (\<exists>a\<in>set as. snd (snd (f a)) = Some c)"
  by (induction as) (auto simp: List.map_filter_simps split: option.splits)

lemma bundle_outcome_actions:
  assumes "a \<in> set (ol_actions (bundle_outcome env policy fs job (best # rest)))"
  shows "\<exists>files stats. rt_retain_latest_evidence_bundle policy \<and> evidence_files env policy fs (fc_root best) = Inr files
    \<and> a = BundleFailed (bundle_for env policy job (best # rest) files stats)"
proof (cases "rt_retain_latest_evidence_bundle policy")
  case True
  show ?thesis
  proof (cases "evidence_files env policy fs (fc_root best)")
    case (Inr files)
    show ?thesis
      using assms True Inr by (cases "collapsed_stats env policy fs (best # rest) no_stats")
        (auto simp: bundle_outcome_def Let_def simp del: collapsed_stats.simps)
  qed (use assms True in \<open>simp add: bundle_outcome_def Let_def\<close>)
qed (use assms in \<open>simp add: bundle_outcome_def Let_def\<close>)

lemma failure_outcome_actions:
  assumes "a \<in> set (ol_actions (snd (failure_outcome_of env policy holds fs L job)))" "job \<in> set (jobs L)"
  shows "\<exists>b. a = BundleFailed b \<and> bundle_justified env policy holds fs L b"
proof -
  let ?cs = "List.map_filter (\<lambda>x. snd (snd x)) (map (examine_failure env policy holds fs L) (failed_attempts L job))"
  have ok: "\<forall>c\<in>set ?cs. candidate_ok env policy holds fs L job c"
    by (rule ballI) (auto simp: map_filter_snd_set intro: examine_failure_candidate)
  have a: "a \<in> set (ol_actions (candidates_outcome env policy fs job ?cs))"
    using assms(1) by (simp add: failure_outcome_of_def Let_def comp_def)
  then obtain c cs where cs: "?cs = c # cs" by (cases ?cs) (simp_all add: candidates_outcome_def)
  let ?best = "representative_of c cs"
  note latest = representative_is_latest [of c cs]
  define rest where "rest = filter (\<lambda>c. attempt_id (fc_attempt c) \<noteq> attempt_id (fc_attempt ?best)
    \<and> rt_collapse_identical_retries policy \<and> fc_fingerprint c = fc_fingerprint ?best) (c # cs)"
  have rest: "collapsible_of policy ?best (c # cs) = ?best # rest" "set rest \<subseteq> set (c # cs)"
      "\<forall>d\<in>set rest. fc_fingerprint d = fc_fingerprint ?best \<and> rt_collapse_identical_retries policy"
    unfolding collapsible_of_def rest_def by (rule refl, rule filter_is_subset, unfold set_filter, blast)
  have "a \<in> set (ol_actions (bundle_outcome env policy fs job (?best # rest)))"
    using a unfolding cs rest(1) [symmetric] by (simp add: candidates_outcome_def Let_def)
  from bundle_outcome_actions [OF this] obtain files stats where files: "rt_retain_latest_evidence_bundle policy"
      "evidence_files env policy fs (fc_root ?best) = Inr files"
    and a': "a = BundleFailed (bundle_for env policy job (?best # rest) files stats)"
    by blast
  have all: "(attempt_number a, attempt_id a) \<le> candidate_key ?best" if "may_be_bundled policy holds fs L job a" for a
  proof -
    from may_be_bundled_examined [OF that] obtain d where "a \<in> set (failed_attempts L job)"
        "snd (snd (examine_failure env policy holds fs L a)) = Some d" "fc_attempt d = a" by blast
    then have "d \<in> set (c # cs)" unfolding cs [symmetric] map_filter_snd_set by blast
    then show ?thesis using latest \<open>fc_attempt d = a\<close> by (auto simp: candidate_key_def)
  qed
  have these: "\<forall>d\<in>set (?best # rest). candidate_ok env policy holds fs L job d"
    using ok latest rest(2) unfolding cs by (simp only: list.set) blast
  have "bundle_justified env policy holds fs L (bundle_for env policy job (?best # rest) files stats)"
    unfolding bundle_justified_def
    using these all rest(3) files assms(2)
    by (intro exI [of _ job] exI [of _ ?best] exI [of _ rest]) (simp add: bundle_for_def Let_def)
  then show ?thesis using a' by simp
qed

lemma unknown_staging_actions [simp]: "ol_actions (unknown_staging policy fs known) = []"
  by (simp add: unknown_staging_def Let_def)

section \<open>Plans\<close>

definition action_justified ::
  "retention_env \<Rightarrow> retention_policy \<Rightarrow> retention_hold list \<Rightarrow> file_list \<Rightarrow> ledger \<Rightarrow> retention_action \<Rightarrow> bool" where
  "action_justified env policy holds fs L a = (case a of
       PruneSuccess jid target receipt stats \<Rightarrow>
         \<exists>job\<in>set (jobs L). job_id job = jid \<and> prune_justified env policy holds fs job target receipt
     | BundleFailed b \<Rightarrow> bundle_justified env policy holds fs L b)"

lemma selected_jobs_Inr:
  "selected_jobs batch L = Inr rows \<Longrightarrow> set rows = {j \<in> set (jobs L). case batch of None \<Rightarrow> True | Some b \<Rightarrow> job_batch j = b}"
  by (auto simp: selected_jobs_def Let_def order_by_def split: option.splits if_splits)

lemma compile_justified:
  assumes "compile_retention_plan env policy holds fs L trigger session batch = Inr plan" "a \<in> set (pl_actions plan)"
  shows "action_justified env policy holds fs L a"
proof -
  from assms obtain chosen rows successes where rows: "selected_jobs chosen L = Inr rows"
    and successes: "map_result (success_outcome env policy holds fs) rows = Inr successes"
    and a: "a \<in> set (concat (map ol_actions successes))
       \<or> a \<in> set (concat (map (\<lambda>j. ol_actions (snd (failure_outcome_of env policy holds fs L j))) rows))"
    unfolding compile_retention_plan_def
    by (auto simp: results Let_def comp_def split: if_splits option.splits)
  have sub: "set rows \<subseteq> set (jobs L)" using selected_jobs_Inr [OF rows] by auto
  from a show ?thesis
  proof
    assume "a \<in> set (concat (map ol_actions successes))"
    then obtain out where out: "out \<in> set successes" "a \<in> set (ol_actions out)" by auto
    then obtain job where "job \<in> set rows" "success_outcome env policy holds fs job = Inr out"
      using map_result_set [OF successes] by auto
    from success_outcome_actions [OF this(2) out(2)] this(1) sub show ?thesis
      by (auto simp: action_justified_def intro!: bexI [of _ job])
  next
    assume "a \<in> set (concat (map (\<lambda>j. ol_actions (snd (failure_outcome_of env policy holds fs L j))) rows))"
    then obtain job where job: "job \<in> set rows" "a \<in> set (ol_actions (snd (failure_outcome_of env policy holds fs L job)))" by auto
    have "job \<in> set (jobs L)" using job(1) sub by blast
    from failure_outcome_actions [OF job(2) this] show ?thesis by (auto simp: action_justified_def)
  qed
qed

section \<open>Applying\<close>

text \<open>What a part of an application may change: files below \<open>ps\<close> may go, files below \<open>qs\<close> may come.\<close>

definition changes_only :: "path list \<Rightarrow> path list \<Rightarrow> file_list \<Rightarrow> file_list \<Rightarrow> bool" where
  "changes_only ps qs fs fs' \<longleftrightarrow>
     (\<forall>f\<in>set fs. f \<in> set fs' \<or> list_ex (\<lambda>p. below p (fst f)) ps)
     \<and> (\<forall>f\<in>set fs'. f \<in> set fs \<or> list_ex (\<lambda>q. below q (fst f)) qs)"

lemma changes_only_refl [simp]: "changes_only ps qs fs fs"
  by (simp add: changes_only_def)

lemma changes_only_trans:
  "changes_only ps qs fs fs' \<Longrightarrow> changes_only ps' qs' fs' fs'' \<Longrightarrow> changes_only (ps @ ps') (qs @ qs') fs fs''"
  unfolding changes_only_def by (simp only: list_ex_append) blast

lemma changes_only_mono:
  "changes_only ps qs fs fs' \<Longrightarrow> set ps \<subseteq> set ps' \<Longrightarrow> set qs \<subseteq> set qs' \<Longrightarrow> changes_only ps' qs' fs fs'"
  unfolding changes_only_def list_ex_iff by blast

lemma remove_target_changes:
  "remove_target env policy fs p = (r, fs') \<Longrightarrow> changes_only [p] [] fs fs'"
  by (auto simp: remove_target_def changes_only_def split: if_splits sum.splits option.splits)

lemma remove_targets_changes:
  "remove_targets env policy ps (stats, fs) = (r, fs') \<Longrightarrow> changes_only ps [] fs fs'"
proof (induction ps arbitrary: stats fs)
  case (Cons p ps)
  obtain x fs1 where x: "remove_target env policy fs p = (x, fs1)" by fastforce
  note here = remove_target_changes [OF x]
  show ?case
  proof (cases x)
    case (Inl e)
    then show ?thesis using Cons.prems x changes_only_mono [OF here, of "p # ps" "[]"] by simp
  next
    case (Inr s)
    then have "changes_only ps [] fs1 fs'" using Cons.prems x by (auto intro: Cons.IH)
    then show ?thesis using changes_only_trans [OF here] by fastforce
  qed
qed auto

definition bundle_paths :: "retention_action list \<Rightarrow> path list" where
  "bundle_paths acts = List.map_filter (\<lambda>a. case a of BundleFailed b \<Rightarrow> Some (fb_path b) | _ \<Rightarrow> None) acts"

lemma bundle_paths_simps [simp]:
  "bundle_paths [] = []"
  "bundle_paths (BundleFailed b # acts) = fb_path b # bundle_paths acts"
  "bundle_paths (PruneSuccess j p r s # acts) = bundle_paths acts"
  by (simp_all add: bundle_paths_def List.map_filter_def)

lemma bundle_paths_ex: "list_ex P (bundle_paths acts) \<longleftrightarrow> (\<exists>b. BundleFailed b \<in> set acts \<and> P (fb_path b))"
proof (induction acts)
  case (Cons a acts)
  then show ?case by (cases a) auto
qed simp

lemma copy_evidence_path:
  "copy_evidence env fs b p x = Inr f \<Longrightarrow> below (fb_path b) (fst f)"
  by (auto simp: copy_evidence_def results split: prod.splits)

lemma copy_bundle_changes:
  assumes "copy_bundle env plan b fs = Inr (n, fs')"
  shows "changes_only [] [fb_path b] fs fs'"
proof -
  have "below (fb_path b) (fst f)" if "map_result (copy_evidence env fs b p) xs = Inr copies" "f \<in> set copies" for p xs copies f
    using that map_result_set [OF that(1)] copy_evidence_path by blast
  then show ?thesis using assms
    by (auto simp: copy_bundle_def changes_only_def results Let_def split: if_splits list.splits option.splits)
qed

lemma prepare_action_changes:
  assumes "prepare_action env plan a fs = Inr (n, fs')"
  shows "changes_only [] (bundle_paths [a]) fs fs'"
  using assms by (cases a) (auto simp: prepare_action_def copy_bundle_changes split: if_splits)

lemma bundle_paths_Cons: "bundle_paths (a # acts) = bundle_paths [a] @ bundle_paths acts"
  by (cases a) simp_all

lemma action_changes:
  assumes "prepare_action env plan a fs = Inr (n, fs1)" "remove_targets env policy (action_paths a) (so_far, fs1) = (r, fs2)"
  shows "changes_only (action_paths a) (bundle_paths [a]) fs fs2"
  using changes_only_trans [OF prepare_action_changes [OF assms(1)] remove_targets_changes [OF assms(2)]] by simp

lemma apply_actions_changes:
  "apply_actions env policy plan acts so_far fs = (r, fs') \<Longrightarrow>
     changes_only (concat (map action_paths acts)) (bundle_paths acts) fs fs'"
proof (induction acts arbitrary: so_far fs)
  case (Cons a acts)
  show ?case
  proof (cases "prepare_action env plan a fs")
    case (Inr x)
    obtain n fs1 where x: "x = (n, fs1)" by (cases x)
    obtain removed fs2 where rem: "remove_targets env policy (action_paths a) (ap_removed so_far, fs1) = (removed, fs2)" by fastforce
    have here: "changes_only (action_paths a) (bundle_paths [a]) fs fs2"
      using Inr x rem by (auto intro: action_changes)
    show ?thesis
    proof (cases removed)
      case (Inl e)
      then have fs': "fs' = fs2" using Cons.prems Inr x rem by simp
      show ?thesis unfolding bundle_paths_Cons [of a acts] fs' by (rule changes_only_mono [OF here]) simp_all
    next
      case (Inr total')
      then have "changes_only (concat (map action_paths acts)) (bundle_paths acts) fs2 fs'"
        using Cons.prems \<open>prepare_action env plan a fs = Inr x\<close> x rem by (auto intro: Cons.IH)
      from changes_only_trans [OF here this] show ?thesis unfolding bundle_paths_Cons [of a acts] by simp
    qed
  qed (use Cons.prems in auto)
qed auto

text \<open>An application that ends well has done every action, and nothing is left where it removed but what is
  below a bundle.\<close>

lemma not_exists_below: "\<not> path_exists fs p \<Longrightarrow> f \<in> set fs \<Longrightarrow> \<not> below p (fst f)"
proof
  assume "\<not> path_exists fs p" "f \<in> set fs" "below p (fst f)"
  then have none: "map_of fs p = None" "\<not> is_dir fs p" by (simp_all add: path_exists_def)
  obtain r where r: "fst f = p @ r" using \<open>below p (fst f)\<close> by (auto simp: below_iff)
  have "r \<noteq> []" using none(1) r \<open>f \<in> set fs\<close> by (force simp: map_of_eq_None_iff)
  then have "inside_dir p (fst f)" using r by (simp add: inside_dir_def)
  then show False using none(2) \<open>f \<in> set fs\<close> by (auto simp: is_dir_def files_under_def filter_empty_conv)
qed

lemma remove_target_clears:
  "remove_target env policy fs p = (Inr s, fs') \<Longrightarrow> set fs' \<subseteq> set fs \<and> (\<forall>f\<in>set fs'. \<not> below p (fst f))"
  by (auto simp: remove_target_def dest: not_exists_below split: if_splits sum.splits option.splits)

lemma remove_targets_clear:
  "remove_targets env policy ps (stats, fs) = (Inr s, fs') \<Longrightarrow>
     set fs' \<subseteq> set fs \<and> (\<forall>f\<in>set fs'. \<forall>p\<in>set ps. \<not> below p (fst f))"
proof (induction ps arbitrary: stats fs)
  case (Cons p ps)
  obtain x fs1 where x: "remove_target env policy fs p = (x, fs1)" by fastforce
  with Cons.prems obtain s1 where s1: "x = Inr s1" "remove_targets env policy ps (add_stats stats s1, fs1) = (Inr s, fs')"
    by (auto split: sum.splits)
  from remove_target_clears [OF x [unfolded s1(1)]] Cons.IH [OF s1(2)] show ?case by auto
qed auto

lemma apply_actions_Inr:
  "apply_actions env policy plan acts so_far fs = (Inr done, fs') \<Longrightarrow>
     ap_completed done = ap_completed so_far @ acts
     \<and> (\<forall>f\<in>set fs'. \<forall>a\<in>set acts. \<forall>p\<in>set (action_paths a). below p (fst f) \<longrightarrow> list_ex (\<lambda>q. below q (fst f)) (bundle_paths acts))"
proof (induction acts arbitrary: so_far fs)
  case (Cons a acts)
  then obtain n fs1 removed fs2 where a: "prepare_action env plan a fs = Inr (n, fs1)"
      "remove_targets env policy (action_paths a) (ap_removed so_far, fs1) = (Inr removed, fs2)"
    and rest: "apply_actions env policy plan acts \<lparr>ap_removed = removed, ap_bundle_bytes = ap_bundle_bytes so_far + n,
                 ap_completed = ap_completed so_far @ [a]\<rparr> fs2 = (Inr done, fs')"
    by (auto split: sum.splits prod.splits)
  have here: "list_ex (\<lambda>q. below q (fst f)) (bundle_paths acts)"
    if "f \<in> set fs'" "p \<in> set (action_paths a)" "below p (fst f)" for f p
  proof -
    have "f \<notin> set fs2" using remove_targets_clear [OF a(2)] that by blast
    then show ?thesis using apply_actions_changes [OF rest] that(1) by (auto simp: changes_only_def)
  qed
  show ?case using Cons.IH [OF rest] here unfolding bundle_paths_Cons [of a acts] by (auto simp: list_ex_append)
qed simp

text \<open>Taking the lock adds at most its file, writing the state changes at most the state file.\<close>

lemma take_lock_changes:
  "take_lock policy fs = (r, fs') \<Longrightarrow> fs' = fs \<or> fs' = fs @ [(lock_path policy, [])]"
  by (auto simp: take_lock_def split: if_splits)

lemma write_state_files:
  assumes "write_state env policy document fs = (r, fs')"
  shows "isl r \<and> fs' = fs
    \<or> r = Inr () \<and> fs' = filter (\<lambda>f. fst f \<noteq> rt_state policy) fs @ [(rt_state policy, rv_dumps env document)]"
  using assms by (auto simp: write_state_def split: if_splits)

lemma map_of_state: "map_of (filter (\<lambda>f. fst f \<noteq> p) fs @ [(p, content)]) p = Some content"
  by (induction fs) auto

text \<open>An application that got past its checks applied the plan that is current, on an idle queue.\<close>

lemma apply_cases:
  assumes "apply_retention_plan env digest_of policy holds L digest saved fs = (r, fs')"
  obtains (refused) e where "r = Inl e" "fs' = fs \<or> fs' = fs @ [(lock_path policy, [])]"
  | (ran) p current locked applied fs2 where "saved = Some p" "digest_of p = digest" "take_lock policy fs = (Inr (), locked)"
      "assert_apply_idle L = Inr ()"
      "compile_retention_plan env policy holds locked L (pl_trigger p) (Some (pl_session p)) (pl_batch p) = Inr current"
      "digest_of current = digest"
      "apply_actions env policy digest (pl_actions p) \<lparr>ap_removed = no_stats, ap_bundle_bytes = 0, ap_completed = []\<rparr> locked
         = (applied, fs2)"
      "isl r \<and> fs' = fs2 \<or> (\<exists>done. applied = Inr done \<and> r = Inr (applied_document env digest p done)
         \<and> fs' = filter (\<lambda>f. fst f \<noteq> rt_state policy) fs2
              @ [(rt_state policy, rv_dumps env (applied_document env digest p done))])"
      "isl applied \<longrightarrow> isl r"
proof (cases "saved_plan digest_of digest saved")
  case (Inl e)
  then show ?thesis using assms refused [of e] by (simp add: apply_retention_plan_def eq_commute [of "Inl e"])
next
  case (Inr p)
  then have p: "saved = Some p" "digest_of p = digest" by (auto simp: saved_plan_def results split: option.splits)
  obtain lock locked where lock: "take_lock policy fs = (lock, locked)" by fastforce
  note kept = take_lock_changes [OF lock]
  show ?thesis
  proof (cases lock)
    case (Inl e)
    then show ?thesis using assms lock kept \<open>saved_plan digest_of digest saved = Inr p\<close> refused [of e]
      by (simp add: apply_retention_plan_def eq_commute [of "Inl e"])
  next
    case (Inr u)
    show ?thesis
    proof (cases "check_current env digest_of policy holds L digest p locked")
      case (Inl e)
      then show ?thesis using assms lock kept \<open>lock = Inr u\<close> \<open>saved_plan digest_of digest saved = Inr p\<close> refused [of e]
        by (simp add: apply_retention_plan_def eq_commute [of "Inl e"])
    next
      case (Inr v)
      then obtain current where current: "assert_apply_idle L = Inr ()"
          "compile_retention_plan env policy holds locked L (pl_trigger p) (Some (pl_session p)) (pl_batch p) = Inr current"
          "digest_of current = digest" by (auto simp: check_current_def results)
      obtain applied fs2 where applied: "apply_actions env policy digest (pl_actions p)
          \<lparr>ap_removed = no_stats, ap_bundle_bytes = 0, ap_completed = []\<rparr> locked = (applied, fs2)" by fastforce
      have rest: "(case applied of Inl e \<Rightarrow> (Inl e, fs2) | Inr done \<Rightarrow>
            (case write_state env policy (applied_document env digest p done) fs2 of
               (Inl e, fs) \<Rightarrow> (Inl e, fs) | (Inr _, fs) \<Rightarrow> (Inr (applied_document env digest p done), fs))) = (r, fs')"
        using assms lock \<open>lock = Inr u\<close> \<open>saved_plan digest_of digest saved = Inr p\<close> Inr applied
        by (simp add: apply_retention_plan_def split: sum.splits)
      show ?thesis
      proof (rule ran [OF p _ current applied])
        show "take_lock policy fs = (Inr (), locked)" using lock \<open>lock = Inr u\<close> by simp
        show "isl r \<and> fs' = fs2 \<or> (\<exists>done. applied = Inr done \<and> r = Inr (applied_document env digest p done)
           \<and> fs' = filter (\<lambda>f. fst f \<noteq> rt_state policy) fs2
                @ [(rt_state policy, rv_dumps env (applied_document env digest p done))])"
          using rest by (auto dest!: write_state_files split: sum.splits prod.splits)
        show "isl applied \<longrightarrow> isl r" using rest by (auto split: sum.splits)
      qed
    qed
  qed
qed

text \<open>A bundle of another plan at the place of a bundle stops the application.\<close>

definition foreign_bundle :: "retention_env \<Rightarrow> string \<Rightarrow> failure_bundle \<Rightarrow> file_list \<Rightarrow> bool" where
  "foreign_bundle env plan b fs \<longleftrightarrow>
     (case map_of fs (fb_path b @ [''evidence.json'']) of
        None \<Rightarrow> False
      | Some content \<Rightarrow> (case rv_loads env content of
            None \<Rightarrow> True | Some v \<Rightarrow> jget v ''plan_digest'' \<noteq> Some (JStr plan)))"

lemma foreign_bundle_refused:
  assumes "foreign_bundle env plan b fs"
  shows "\<exists>e. copy_bundle env plan b fs = Inl e"
proof -
  obtain content where content: "map_of fs (fb_path b @ [''evidence.json'']) = Some content"
    using assms by (auto simp: foreign_bundle_def split: option.splits)
  have "path_exists fs (fb_path b)" by (rule file_makes_directory [OF content])
  then show ?thesis using assms content
    by (auto simp: copy_bundle_def foreign_bundle_def load_object_def and_then_def require_def split: option.splits)
qed

section \<open>Interrupted collections\<close>

lemma map_of_append_kept: "map_of fs q = Some c \<Longrightarrow> map_of (fs @ xs) q = Some c"
  by (simp add: map_add_def)

lemma map_of_filter_kept: "\<not> below p q \<Longrightarrow> map_of (filter (\<lambda>f. \<not> below p (fst f)) fs) q = map_of fs q"
  by (induction fs) auto

lemma map_of_filter_some_kept:
  "\<not> below p q \<Longrightarrow> map_of (filter (\<lambda>f. fst f \<in> set kept \<or> \<not> below p (fst f)) fs) q = map_of fs q"
  by (induction fs) auto

text \<open>A file that is below no action path stays as it is.\<close>

lemma remove_targets_keep:
  "remove_targets env policy ps (stats, fs) = (r, fs') \<Longrightarrow> list_all (\<lambda>p. \<not> below p q) ps \<Longrightarrow> map_of fs' q = map_of fs q"
proof (induction ps arbitrary: stats fs)
  case (Cons p ps)
  obtain x fs1 where x: "remove_target env policy fs p = (x, fs1)" by fastforce
  have kept: "map_of fs1 q = map_of fs q"
    using x Cons.prems(2)
    by (auto simp: remove_target_def map_of_filter_kept map_of_filter_some_kept split: if_splits sum.splits option.splits)
  show ?case
  proof (cases x)
    case (Inr s)
    then show ?thesis using kept Cons.IH [of "add_stats stats s" fs1] Cons.prems x by simp
  qed (use Cons.prems x kept in simp)
qed auto

lemma copy_bundle_keeps: "copy_bundle env plan b fs = Inr (n, fs') \<Longrightarrow> \<exists>new. fs' = fs @ new"
  by (auto simp: copy_bundle_def results Let_def split: if_splits list.splits option.splits)

lemma prepare_action_keeps: "prepare_action env plan a fs = Inr (n, fs') \<Longrightarrow> \<exists>new. fs' = fs @ new"
  by (cases a) (auto simp: prepare_action_def copy_bundle_keeps split: if_splits)

lemma foreign_bundle_cong:
  "map_of fs' (fb_path b @ [''evidence.json'']) = map_of fs (fb_path b @ [''evidence.json''])
     \<Longrightarrow> foreign_bundle env plan b fs' = foreign_bundle env plan b fs"
  by (simp add: foreign_bundle_def)

lemma foreign_bundle_kept:
  assumes "prepare_action env plan a fs = Inr (n, fs1)" "remove_targets env policy (action_paths a) (so_far, fs1) = (r, fs2)"
    and "foreign_bundle env plan b fs" "list_all (\<lambda>p. \<not> below p (fb_path b @ [''evidence.json''])) (action_paths a)"
  shows "foreign_bundle env plan b fs2"
proof -
  obtain new where new: "fs1 = fs @ new" using prepare_action_keeps [OF assms(1)] by blast
  obtain c where c: "map_of fs (fb_path b @ [''evidence.json'']) = Some c"
    using assms(3) by (auto simp: foreign_bundle_def split: option.splits)
  have "map_of fs2 (fb_path b @ [''evidence.json'']) = map_of fs (fb_path b @ [''evidence.json''])"
    using remove_targets_keep [OF assms(2,4)] map_of_append_kept [OF c] c new by simp
  then show ?thesis using foreign_bundle_cong assms(3) by blast
qed

lemma foreign_bundle_stops:
  assumes "BundleFailed b \<in> set acts" "foreign_bundle env plan b fs"
    and "list_all (\<lambda>p. \<not> below p (fb_path b @ [''evidence.json''])) (concat (map action_paths acts))"
  shows "\<exists>e. fst (apply_actions env policy plan acts so_far fs) = Inl e"
  using assms
proof (induction acts arbitrary: so_far fs)
  case (Cons a acts)
  show ?case
  proof (cases "prepare_action env plan a fs")
    case (Inr x)
    obtain n fs1 where x: "x = (n, fs1)" by (cases x)
    obtain removed fs2 where rem: "remove_targets env policy (action_paths a) (ap_removed so_far, fs1) = (removed, fs2)" by fastforce
    have "a \<noteq> BundleFailed b" using foreign_bundle_refused [OF Cons.prems(2)] Inr x by (auto simp: prepare_action_def)
    then have rest: "BundleFailed b \<in> set acts" using Cons.prems(1) by auto
    have "foreign_bundle env plan b fs2"
      using foreign_bundle_kept [OF Inr [unfolded x] rem Cons.prems(2)] Cons.prems(3) by simp
    from Cons.IH [OF rest this] Cons.prems(3) show ?thesis using Inr x rem by (cases removed) auto
  qed simp
qed simp

lemma foreign_bundle_blocks_apply:
  assumes "compile_retention_plan env policy holds fs L trigger session batch = Inr current"
    and "BundleFailed b \<in> set (pl_actions current)" "foreign_bundle env (digest_of current) b fs"
    and "list_all (\<lambda>p. \<not> below p (fb_path b @ [''evidence.json''])) (concat (map action_paths (pl_actions current)))"
  shows "\<exists>e. fst (apply_retention_plan env digest_of policy holds L (digest_of current) (Some current) fs) = Inl e"
proof -
  obtain r fs' where run: "apply_retention_plan env digest_of policy holds L (digest_of current) (Some current) fs = (r, fs')" by fastforce
  from run show ?thesis
  proof (cases rule: apply_cases)
    case (ran p now locked applied fs2)
    obtain content where "map_of fs (fb_path b @ [''evidence.json'']) = Some content"
      using assms(3) by (auto simp: foreign_bundle_def split: option.splits)
    then have "map_of locked (fb_path b @ [''evidence.json'']) = map_of fs (fb_path b @ [''evidence.json''])"
      using take_lock_changes [OF ran(3)] map_of_append_kept by (metis (no_types))
    then have "foreign_bundle env (digest_of current) b locked"
      using assms(3) foreign_bundle_cong by (metis (no_types))
    from foreign_bundle_stops [OF assms(2) this assms(4), of policy] have "\<exists>e. applied = Inl e"
      using ran(1,7) by (metis fst_conv option.inject)
    then have "isl r" using ran(9) by auto
    then show ?thesis using run by (metis fst_conv isl_def)
  qed (simp add: run)
qed

text \<open>A collection that was interrupted after a bundle had been written: the bundle is of another plan.\<close>

lemma copy_evidence_key:
  "copy_evidence env fs b p x = Inr f \<Longrightarrow> \<exists>r. fst f = fb_path b @ ''files'' # r"
  by (auto simp: copy_evidence_def results split: prod.splits)

lemma copied_evidence:
  assumes "copy_bundle env plan b fs = Inr (n, fs')" "\<not> path_exists fs (fb_path b)"
  shows "map_of fs' (fb_path b @ [''evidence.json'']) = Some (rv_dumps env (bundle_document plan b))"
proof -
  let ?ev = "fb_path b @ [''evidence.json'']"
  obtain p copies where copies: "map_result (copy_evidence env fs b p) (fb_files b) = Inr copies"
    and fs': "fs' = fs @ copies @ [(?ev, rv_dumps env (bundle_document plan b))]"
    using assms by (auto simp: copy_bundle_def results Let_def split: list.splits)
  have "map_of fs ?ev = None"
    using assms(2) file_makes_directory [of fs "fb_path b" "''evidence.json''"] by (cases "map_of fs ?ev") auto
  moreover have "map_of copies ?ev = None"
  proof -
    have "fst f \<noteq> ?ev" if f: "f \<in> set copies" for f
    proof -
      obtain x where "copy_evidence env fs b p x = Inr f" using f unfolding map_result_set [OF copies] by blast
      from copy_evidence_key [OF this] show ?thesis by auto
    qed
    then show ?thesis by (force simp: map_of_eq_None_iff)
  qed
  ultimately show ?thesis by (simp add: fs' map_add_def)
qed

text \<open>A crash between the rename that makes a bundle appear and the end of the removal of its sources.\<close>

definition interrupted_collection ::
  "retention_env \<Rightarrow> string \<Rightarrow> failure_bundle \<Rightarrow> path list \<Rightarrow> file_list \<Rightarrow> file_list result" where
  "interrupted_collection env plan b gone fs =
     and_then (copy_bundle env plan b fs) (\<lambda>(_, fs).
     Inr (filter (\<lambda>f. \<not> (list_ex (\<lambda>p. below p (fst f)) (fb_sources b) \<and> fst f \<in> set gone)) fs))"

lemma interrupted_evidence:
  assumes "interrupted_collection env plan b gone fs = Inr left" "\<not> path_exists fs (fb_path b)"
    and "list_all (\<lambda>p. \<not> below p (fb_path b @ [''evidence.json''])) (fb_sources b)"
  shows "map_of left (fb_path b @ [''evidence.json'']) = Some (rv_dumps env (bundle_document plan b))"
proof -
  obtain n fs1 where copied: "copy_bundle env plan b fs = Inr (n, fs1)"
    and left: "left = filter (\<lambda>f. \<not> (list_ex (\<lambda>p. below p (fst f)) (fb_sources b) \<and> fst f \<in> set gone)) fs1"
    using assms(1) by (auto simp: interrupted_collection_def results)
  have "map_of left (fb_path b @ [''evidence.json'']) = map_of fs1 (fb_path b @ [''evidence.json''])"
    unfolding left using assms(3) by (induction fs1) (auto simp: list_ex_iff list_all_iff)
  then show ?thesis using copied_evidence [OF copied assms(2)] by simp
qed

end
