(* ===== verification/Demo_Retention.thy ===== *)
theory Demo_Retention
  imports Retention_Laws Demo_Remote
begin

text \<open>
  A concrete project with one failed attempt, whose collection is planned, applied, and cut short.
\<close>

definition failed_ledger :: ledger where
  "failed_ledger = init_ledger\<lparr>
     jobs := [(demo_job ''j1'' ''b1'' ''c1'' 1)\<lparr>job_state := Failed, attempt_count := 1, lease_generation := 1\<rparr>],
     attempts := [\<lparr>attempt_id = 1, attempt_job = ''j1'', attempt_number = 1, attempt_token = ''t1'', attempt_generation = 1,
       attempt_worker = ''w1'', attempt_state = AFailed, attempt_started_at = 10, attempt_expires_at = 70,
       attempt_ended_at = Some 12, attempt_error = Some ''no memory''\<rparr>]\<rparr>"

definition attempt_dir :: path where
  "attempt_dir = [''runs'', ''staging'', ''j1-g1-x'']"

definition bundle_dir :: path where
  "bundle_dir = [''bundles'', ''j1'', replicate 16 (CHR ''f''), ''attempt-1'']"

definition failed_files :: file_list where
  "failed_files = [(attempt_dir @ [''error.log''], [1]), (attempt_dir @ [''scratch.bin''], [2, 3])]"

definition demo_document_bytes :: bytes where
  "demo_document_bytes = [9]"

definition retention_rules :: retention_policy where
  "retention_rules = \<lparr>rt_source_path = [''retention.toml''], rt_name = ''demo'', rt_runs = [''runs''], rt_validation_runs = [''validation''],
     rt_failure_bundles = [''bundles''], rt_plans = [''plans''], rt_state = [''state.json''], rt_memory_audits = [''audits''],
     rt_lane_import_receipts = [''receipts''], rt_holds_path = [''holds.toml''], rt_preserve_until_lane_imported = True,
     rt_prune_after_receipt = [''scratch''], rt_required_result_artifacts = [''seal'', ''fidb'', ''fidbf''],
     rt_retain_latest_evidence_bundle = True, rt_collapse_identical_retries = True, rt_evidence_globs = [''error.log''],
     rt_max_evidence_file_bytes = 100, rt_validation_enabled = True, rt_validation_automatic = True,
     rt_validation_scratch_globs = [''tmp''], rt_validation_fold_artifacts = [''fold.json''],
     rt_validation_prune_composites = True, rt_validation_signature_schema = ''v1'', rt_automation_enabled = True,
     rt_automation_triggers = [''queue-drained'', ''machine-validation-complete''], rt_automation_mode = ''plan'',
     rt_maximum_estimated_seconds = 10, rt_worker_action = ''none'', rt_memory_cleanup_enabled = True,
     rt_audit_after_recycle = True, rt_rss_warning_mib = 1, rt_park_terminal_workers = True, rt_park_poll_seconds = 1,
     rt_maximum_actions = 10, rt_maximum_scan_files = 100, rt_authority_sha256 = ''h''\<rparr>"

definition demo_policy_document :: "(string \<times> json) list" where
  "demo_policy_document = [(''schema_version'', JStr ''fidb-retention-policy/v1''), (''name'', JStr ''demo''),
     (''paths'', JObj [(''runs'', JStr ''runs''), (''validation_runs'', JStr ''validation''), (''failure_bundles'', JStr ''bundles''),
        (''plans'', JStr ''plans''), (''state'', JStr ''state.json''), (''memory_audits'', JStr ''audits''),
        (''lane_import_receipts'', JStr ''receipts''), (''holds'', JStr ''holds.toml'')]),
     (''success'', JObj [(''preserve_until_lane_imported'', JBool True), (''prune_after_receipt'', JArr [JStr ''scratch'']),
        (''required_result_artifacts'', JArr [JStr ''seal'', JStr ''fidb'', JStr ''fidbf''])]),
     (''failure'', JObj [(''retain_latest_evidence_bundle'', JBool True), (''collapse_identical_retries'', JBool True),
        (''evidence_globs'', JArr [JStr ''error.log'']), (''max_evidence_file_bytes'', JInt 100)]),
     (''validation'', JObj [(''enabled'', JBool True), (''automatic_after_terminal_run'', JBool True),
        (''scratch_globs'', JArr [JStr ''tmp'']), (''required_fold_artifacts'', JArr [JStr ''fold.json'']),
        (''prune_composite_binaries'', JBool True), (''required_signature_evidence_schema'', JStr ''v1'')]),
     (''automation'', JObj [(''enabled'', JBool True), (''triggers'', JArr [JStr ''queue-drained'', JStr ''machine-validation-complete'']),
        (''mode'', JStr ''plan''), (''dry_run_first'', JBool True), (''maximum_estimated_seconds'', JInt 10),
        (''worker_action'', JStr ''none'')]),
     (''memory_cleanup'', JObj [(''enabled'', JBool True), (''audit_after_recycle'', JBool True),
        (''post_recycle_rss_warning_mib'', JInt 1), (''park_terminal_workers'', JBool True), (''park_poll_seconds'', JInt 1)]),
     (''limits'', JObj [(''maximum_actions'', JInt 10), (''maximum_scan_files'', JInt 100)])]"

text \<open>The digest of a plan counts the files it would remove.\<close>

definition files_digest :: "retention_plan \<Rightarrow> string" where
  "files_digest p = replicate 64
     (if sum_list (map (\<lambda>a. ts_files (stats_of_action a)) (pl_actions p)) = 2 then CHR ''a'' else CHR ''b'')"

definition retention_world :: retention_env where
  "retention_world = \<lparr>rv_root = [''srv''], rv_sha256 = demo_digest, rv_digest = (\<lambda>_. replicate 64 (CHR ''f'')),
     rv_loads = (\<lambda>content. if content = demo_document_bytes
       then Some (JObj [(''plan_digest'', JStr (replicate 64 (CHR ''a''))), (''failure_fingerprint'', JStr (replicate 64 (CHR ''f'')))])
       else None),
     rv_dumps = (\<lambda>_. demo_document_bytes), rv_fnmatch = (\<lambda>name pattern. name = pattern), rv_blocks = (\<lambda>_ _. 1),
     rv_stamp_text = (\<lambda>_. ''now''), rv_started_at = ''now'', rv_completed_at = ''now'', rv_duration_ns = 7,
     rv_free_bytes_delta = 4096, rv_removal_fails = (\<lambda>_. None)\<rparr>"

lemma failed_plan_facts:
  "case compile_retention_plan retention_world retention_rules [] failed_files failed_ledger ''manual'' (Some ''s'') None of
     Inl _ \<Rightarrow> False
   | Inr p \<Rightarrow> pl_trigger p = ''manual'' \<and> pl_session p = ''s'' \<and> pl_batch p = None \<and> files_digest p = replicate 64 (CHR ''a'')
       \<and> length (pl_actions p) = 1
       \<and> (case hd (pl_actions p) of
            BundleFailed b \<Rightarrow> fb_sources b = [attempt_dir] \<and> fb_path b = bundle_dir
              \<and> fb_files b = [(''error.log'', 1, demo_digest [1])]
          | _ \<Rightarrow> False)"
  by code_simp

definition failed_plan :: retention_plan where
  "failed_plan = ok_of (compile_retention_plan retention_world retention_rules [] failed_files failed_ledger ''manual'' (Some ''s'') None)"

lemma failed_plan_compiled:
  "compile_retention_plan retention_world retention_rules [] failed_files failed_ledger ''manual'' (Some ''s'') None = Inr failed_plan"
  using failed_plan_facts by (simp add: failed_plan_def ok_of_def split: sum.splits)

definition failed_bundle :: failure_bundle where
  "failed_bundle = (case hd (pl_actions failed_plan) of BundleFailed b \<Rightarrow> b | PruneSuccess _ _ _ _ \<Rightarrow> undefined)"

lemma failed_plan_simps:
  "pl_trigger failed_plan = ''manual''" "pl_session failed_plan = ''s''" "pl_batch failed_plan = None"
  "files_digest failed_plan = replicate 64 (CHR ''a'')" "pl_actions failed_plan = [BundleFailed failed_bundle]"
  "fb_sources failed_bundle = [attempt_dir]" "fb_path failed_bundle = bundle_dir"
  "fb_files failed_bundle = [(''error.log'', 1, demo_digest [1])]"
  using failed_plan_facts unfolding failed_plan_compiled
  by (auto simp: failed_bundle_def length_Suc_conv split: retention_action.splits)

text \<open>The files once the lock is taken, and those left by a collection that stopped after it had removed the
  scratch file.\<close>

definition locked_files :: file_list where
  "locked_files = failed_files @ [([''collector.lock''], [])]"

definition left_files :: file_list where
  "left_files = [(attempt_dir @ [''error.log''], [1]), ([''collector.lock''], []), (bundle_dir @ [''files'', ''error.log''], [1]),
     (bundle_dir @ [''evidence.json''], demo_document_bytes)]"

lemma failed_evidence_copied:
  "\<not> path_exists locked_files bundle_dir"
  "safe_regular (rv_root retention_world) locked_files attempt_dir ''error.log'' ''failed evidence file''
     = Inr (attempt_dir @ [''error.log''], [1])"
  "verify_digest (rv_sha256 retention_world) (attempt_dir @ [''error.log''], [1]) (Some (JStr (demo_digest [1])))
     ''failed evidence file'' = Inr ()"
  "path_parts ''error.log'' = [''error.log'']"
  by code_simp+

lemma failed_bundle_copied:
  "copy_bundle retention_world plan failed_bundle locked_files
     = Inr (2, locked_files @ [(bundle_dir @ [''files'', ''error.log''], [1]), (bundle_dir @ [''evidence.json''], demo_document_bytes)])"
proof -
  have size: "size_of_files (files_under (locked_files @ [(bundle_dir @ [''files'', ''error.log''], [1]),
      (bundle_dir @ [''evidence.json''], demo_document_bytes)]) bundle_dir) = 2" by code_simp
  have dumps: "rv_dumps retention_world v = demo_document_bytes" for v by (simp add: retention_world_def)
  show ?thesis
    by (simp add: copy_bundle_def failed_plan_simps failed_evidence_copied copy_evidence_def dumps size [simplified] Let_def)
qed

lemma failed_collection_interrupted:
  "interrupted_collection retention_world plan failed_bundle [attempt_dir @ [''scratch.bin'']] locked_files = Inr left_files"
proof -
  have "filter (\<lambda>f. \<not> (list_ex (\<lambda>p. below p (fst f)) [attempt_dir] \<and> fst f \<in> set [attempt_dir @ [''scratch.bin'']]))
    (locked_files @ [(bundle_dir @ [''files'', ''error.log''], [1]), (bundle_dir @ [''evidence.json''], demo_document_bytes)])
    = left_files" by code_simp
  then show ?thesis by (simp only: interrupted_collection_def failed_bundle_copied failed_plan_simps and_then_Inr prod.case)
qed

lemma left_plan_facts:
  "case compile_retention_plan retention_world retention_rules [] left_files failed_ledger ''manual'' (Some ''s'') None of
     Inl _ \<Rightarrow> False
   | Inr p \<Rightarrow> files_digest p = replicate 64 (CHR ''b'') \<and> length (pl_actions p) = 1
       \<and> (case hd (pl_actions p) of BundleFailed b \<Rightarrow> fb_sources b = [attempt_dir] \<and> fb_path b = bundle_dir | _ \<Rightarrow> False)"
  by code_simp

definition left_plan :: retention_plan where
  "left_plan = ok_of (compile_retention_plan retention_world retention_rules [] left_files failed_ledger ''manual'' (Some ''s'') None)"

lemma left_plan_compiled:
  "compile_retention_plan retention_world retention_rules [] left_files failed_ledger ''manual'' (Some ''s'') None = Inr left_plan"
  using left_plan_facts by (simp add: left_plan_def ok_of_def split: sum.splits)

lemma left_plan_simps:
  "files_digest left_plan = replicate 64 (CHR ''b'')"
  "\<exists>b. pl_actions left_plan = [BundleFailed b] \<and> fb_sources b = [attempt_dir] \<and> fb_path b = bundle_dir"
  using left_plan_facts unfolding left_plan_compiled
  by (auto simp: length_Suc_conv split: retention_action.splits)

text \<open>The collection that was not cut short.\<close>

lemma failed_plan_removes:
  "remove_targets retention_world retention_rules [attempt_dir] (no_stats, locked_files
      @ [(bundle_dir @ [''files'', ''error.log''], [1]), (bundle_dir @ [''evidence.json''], demo_document_bytes)])
    = (Inr \<lparr>ts_files = 2, ts_directories = 1, ts_apparent_bytes = 3, ts_allocated_bytes = 1024\<rparr>,
       [([''collector.lock''], []), (bundle_dir @ [''files'', ''error.log''], [1]),
        (bundle_dir @ [''evidence.json''], demo_document_bytes)])"
  by code_simp

lemma locked_plan_facts:
  "take_lock retention_rules failed_files = (Inr (), locked_files)"
  "case compile_retention_plan retention_world retention_rules [] locked_files failed_ledger ''manual'' (Some ''s'') None of
     Inl _ \<Rightarrow> False | Inr p \<Rightarrow> files_digest p = replicate 64 (CHR ''a'')"
  by code_simp+

definition collected_files :: file_list where
  "collected_files = [([''collector.lock''], []), (bundle_dir @ [''files'', ''error.log''], [1]),
     (bundle_dir @ [''evidence.json''], demo_document_bytes), ([''state.json''], demo_document_bytes)]"

lemma collected_state:
  "write_state retention_world retention_rules document [([''collector.lock''], []), (bundle_dir @ [''files'', ''error.log''], [1]),
     (bundle_dir @ [''evidence.json''], demo_document_bytes)] = (Inr (), collected_files)"
proof -
  let ?fs = "[([''collector.lock''], []), (bundle_dir @ [''files'', ''error.log''], [1]),
     (bundle_dir @ [''evidence.json''], demo_document_bytes)]"
  have "\<not> is_dir ?fs (rt_state retention_rules)"
      "filter (\<lambda>f. fst f \<noteq> rt_state retention_rules) ?fs @ [(rt_state retention_rules, demo_document_bytes)] = collected_files"
    by code_simp+
  then show ?thesis by (simp add: write_state_def retention_world_def)
qed

lemma failed_plan_applied:
  "\<exists>done. apply_retention_plan retention_world files_digest retention_rules [] failed_ledger (replicate 64 (CHR ''a''))
     (Some failed_plan) failed_files = (Inr done, collected_files)"
proof -
  have ok: "token_digest (replicate 64 (CHR ''a''))" "assert_apply_idle failed_ledger = Inr ()" by code_simp+
  have saved: "saved_plan files_digest (replicate 64 (CHR ''a'')) (Some failed_plan) = Inr failed_plan"
    using ok(1) by (simp add: saved_plan_def require_def failed_plan_simps)
  have current: "check_current retention_world files_digest retention_rules [] failed_ledger (replicate 64 (CHR ''a'')) failed_plan
      locked_files = Inr ()"
    using ok(2) locked_plan_facts(2) by (auto simp: check_current_def require_def failed_plan_simps split: sum.splits)
  show ?thesis
    by (simp add: apply_retention_plan_def saved current locked_plan_facts(1) failed_plan_simps prepare_action_def
        failed_bundle_copied action_paths_def failed_plan_removes collected_state del: remove_targets.simps)
qed

lemma rules_loaded:
  "load_retention_policy [''srv''] [''retention.toml''] ''h'' demo_policy_document = Inr retention_rules"
  by code_simp
text \<open>The loader's test of prune paths lets the attempt itself through.\<close>

lemma attempt_itself_accepted:
  "\<not> unsafe_relative ''.''"
  "project_path [''srv''] attempt_dir ''.'' label = Inr attempt_dir"
  by code_simp+

end
