(* ===== verification/Spec2Isabelle.thy ===== *)
theory Spec2Isabelle
  imports Demo_System Elf_Inspector Operations_Policy Batch_Planning Fid_Matching Jvm_Policy Demo_Remote Demo_Retention
begin

text \<open>
  A verification library for the repository's build-queue machinery under src/src/fidb_poc.  The
  program turns reviewed plans into a durable queue of build cells, lets workers lease, build and
  report them, and matches the resulting function-identification hashes.  Modelled are the parts
  that decide something: what is built, by whom, when and how often, what a binary is, and which
  match wins.

  The parts and how they interact.  \<open>QueueConfig.load\<close> (coordinator_config.py) validates a queue
  document whose batches name plans that the batch builders (batch_time_model.py,
  auto_batch_builder.py) packed into bounded chunks.  \<open>Coordinator\<close> (coordinator.py) synchronises
  that configuration into one SQLite ledger; every later operation is one \<open>BEGIN IMMEDIATE\<close>
  transaction on it: admission of a block, claim of a job by a worker of a pool, stage records,
  renewal, completion or failure under a lease, recovery of expired leases, and the operator's
  quarantine, requeue, pause and runtime edits.  The operations policy (operations_policy.py) says
  when workers may claim.  The ELF inspector (elf.py) identifies targets, and the portable scorer
  (fid_matching.py) decides and classifies the matches of their functions.  Remote workers reach the
  ledger through the HTTP endpoint (remote_api.py), which authenticates them, gates their claims by the
  policy, receives their artifacts chunk by chunk and publishes a finished attempt after checking it
  against the seal its runner (cell_runner.py, timing.py) wrote.  The collector (retention.py) reads the same ledger and
  removes the files of attempts that are no longer needed.

  Theories, bottom up:
    \<^item> Prelude: errors as a sum (\<open>result\<close>), fallible loops, text of numbers, keyed rows, \<open>ORDER BY\<close>;
      Json_Values: JSON and TOML values, canonical JSON; Validators: the field validators;
      Floats: binary32 and binary64 as rounding of rationals.
    \<^item> Clock, Routing: the module functions of coordinator.py on durations and percentiles, and the
      worker pools.
    \<^item> Ledger_Schema: one record per table with its CHECK, UNIQUE, foreign key and partial index
      constraints; \<open>ledger\<close>; \<open>transaction\<close>; the event journal.  Ledger_Evolution: the locale of a
      keyed table, interpreted for each table, and \<open>evolves\<close>, what no write may undo.
    \<^item> Leases, Lease_Laws, Lease_Operations: recovery, claim, fence, renewal, completion and failure;
      the coherence of leases across tables and that each operation keeps it.
    \<^item> Stages: \<open>record_stage\<close>, and the abstract stage machine it refines.  Admission, Recovery,
      Queue_Config, Sync, Runtime, Queries: the other methods, each with its invariant and effect.
    \<^item> Claim_Progress: a claim that finds an eligible job succeeds.  Coordinator_System: all nineteen
      state-changing calls as one datatype, \<open>perform\<close>, the step relation and its reachable ledgers.
      Guarantees: what follows for histories.  Demo_Ledgers, Demo_System: concrete ledgers.
    \<^item> Elf_Inspector: bytes, \<open>struct\<close> formats, the header and its tables, the facts.
    \<^item> Operations_Policy: the policy loader, the daily windows, the resource verdict.
    \<^item> Batch_Planning: first-fit blocks, sequential chunks, matrices, the partition of the queue.
    \<^item> Fid_Matching: scoring, winners, oracle comparison, qualification, classification.
    \<^item> Jvm_Policy: the JVM options of the Ghidra processes.
    \<^item> Remote_Uploads: the artifact upload of remote_api.py as a list of durable writes that a crash may
      cut, and the worker's loop of remote_worker.py against it.  Timing: the recorder of cell_runner.py
      and timing.py and the check queue_cli.py makes of what it recorded.  Publication: the seal of a
      cell, the checks that bind the staged files to it, and the rename that publishes them.
    \<^item> External_Workers: the definitions of external toolchains and the preflights workers register with.
      Remote_Api: the requests of remote workers as handlers over the ledger, the staged and the
      published files; Remote_Guarantees: who can claim, call and complete; Demo_Remote: concrete hosts.
    \<^item> Retention_Policy: the files and paths of a project, the retention policy and the holds; Retention: what
      retention.py plans to remove and how a plan is applied; Retention_Laws: what justifies an action, what an
      application may change, and what an interruption leaves; Demo_Retention: a concrete collection.

  Correspondence of state.  A table is a list of row records in rowid order, a column that may be
  NULL an option, a timestamp and a duration in seconds a rational, an ISO text of the database the
  rational it denotes.  A method is a function from its arguments and the ledger to its result or
  exception and the new ledger; what it takes from outside (clock, uuid4 tokens, SHA-256, the
  resolver of plans, the file system, time zones, the WGPU scorer) is an argument, about which
  a statement assumes only what it names.  Loops are folds that stop at the first exception or
  structural recursions; there is no fuel anywhere.  The recursions that are not structural (digits of
  a number, bits of an integer, replacements in a text) have measures; the upload loop, which a server could keep busy for ever,
  is a \<open>partial_function\<close>, and that it returns is proved against the modelled server.

  What the lemmas show.  Every operation keeps the schema and the coherence of leases, appends to
  the journal, and never rewrites ended work (\<open>evolves\<close>), so these hold of every reachable ledger;
  the functional lemmas (named after the operation, with suffix \<open>_Inr\<close>) say what a successful call
  did; the properties below combine them.  Several properties record that the code does not do
  what it means to do: a synchronisation can orphan a look-ahead admission, a requeued job under an
  active quarantine cannot report its next pathological failure, an override on one date hides an
  invalid schedule from its loader, an upload whose first chunk was interrupted cannot be resumed, nor can
  an interrupted collection, a failure with a long or two-line message is never recorded, and a tail-fill switch has no effect.

  Not modelled: opening and migrating the SQLite file and its pragmas; threads (each transaction is
  atomic, as \<open>BEGIN IMMEDIATE\<close> makes it); the resolver \<open>resolve_plan\<close> and the other readers of
  catalogs and registries; rendering to TOML, the sockets and JSON text of HTTP and command lines, which
  only wrap the modelled operations; symbolic links and empty directories in a
  staging directory or below a project; errors of \<open>fsync\<close> after a rename, which raise when the files have moved already; the collector's machine-validation records, memory audits and automation, and a second holder of its lock; notification delivery and host probes; processes, emulators and Ghidra runs; hash databases and campaigns over files.  Strings are of code points below 256.
  Infinite and NaN floats, overflow and subnormal numbers do not occur in the model, and calendar
  arithmetic has no upper end.
\<close>

section \<open>The coordinator: every history of calls\<close>

text \<open>
  C1. Whatever sequence of calls the coordinator has served, the ledger satisfies every
  constraint of the database schema, and leases agree across the tables: the live jobs are
  exactly the jobs of a live attempt, with the same token and generation, and open stages belong
  to them.
\<close>

theorem reachable_ledger_inv: "ledger_inv (perform_all calls init_ledger)"
  by (rule reachable_inv) (rule reachable_perform_all)

text \<open>
  C2. The past is never rewritten: later calls only append to the event journal, to the resolved
  plans and to the resolved cells; every job, attempt and stage span is still there, an ended
  attempt or span is exactly as it was, and lease generations and attempt counts only grow.
\<close>

theorem history_append_only:
  "let L = perform_all calls init_ledger; L' = perform_all (calls @ later) init_ledger
   in prefix (events L) (events L') \<and> prefix (plans L) (plans L') \<and> prefix (cells L) (cells L')
    \<and> list_all (\<lambda>j. list_ex (\<lambda>j'. job_step j j') (jobs L')) (jobs L)
    \<and> list_all (\<lambda>a. list_ex (\<lambda>a'. attempt_step a a') (attempts L')) (attempts L)
    \<and> list_all (\<lambda>s. list_ex (\<lambda>s'. span_step s s') (spans L')) (spans L)"
proof -
  let ?L = "perform_all calls init_ledger" and ?L' = "perform_all (calls @ later) init_ledger"
  have "coordinator_run ?L later ?L'" by (simp add: run_iff_perform_all perform_all_def)
  then have "evolves ?L ?L'" using history_safe reachable_inv [OF reachable_perform_all] by blast
  then show ?thesis
    unfolding Let_def by (auto simp: evolves_def list_all_iff list_ex_iff rows_evolve_eq_prefix
      dest: jobs_table.row_after attempts_table.row_after spans_table.row_after)
qed

text \<open>
  C3. A call that raises has no effect: every statement it issued is rolled back.
\<close>

theorem failed_call_changes_nothing:
  assumes "ledger_inv L" and "perform env c L = (Inl e, L')"
  shows "L' = L"
  by (rule step_safe(3) [OF call [OF assms(2)] assms(1) refl])

theorem failed_call_changes_nothing_witness:
  "snd (perform demo_env (CompleteJob ''j1'' ''t9'' 1 None 20) demo_claimed) = demo_claimed"
proof (rule failed_call_changes_nothing)
  show "ledger_inv demo_claimed" by code_simp
  show "perform demo_env (CompleteJob ''j1'' ''t9'' 1 None 20) demo_claimed =
      (Inl (LeaseConflictError ''stale or inactive lease for job j1''),
       snd (perform demo_env (CompleteJob ''j1'' ''t9'' 1 None 20) demo_claimed))" by code_simp
qed

section \<open>Leases\<close>

text \<open>
  C4. Fencing: renewing, recording a stage, completing or failing under a lease that the
  caller does not hold raises and leaves the ledger exactly as it was.
\<close>

theorem stale_call_refused_always:
  assumes "ledger_inv L" and "acts_under c = Some (jid, token, generation)"
    and "\<not> holds_lease jid token generation L"
  shows "\<exists>e. perform env c L = (Inl e, L)"
  by (rule stale_call_refused [OF assms])

theorem stale_call_refused_always_witness:
  "\<exists>e. perform demo_env (Fail ''j1'' ''t9'' 1 ''boom'' True None False 20) demo_claimed = (Inl e, demo_claimed)"
  by (rule stale_call_refused_always [of _ _ "''j1''" "''t9''" 1]) code_simp+

text \<open>
  C5. A lease that was issued and is no longer held stays lost: whatever calls follow, by
  whatever workers, the old token is refused for ever.
\<close>

theorem lost_lease_never_returns:
  assumes "ledger_inv L" and "list_ex (\<lambda>j. job_id j = jid \<and> generation \<le> lease_generation j) (jobs L)"
    and "\<not> holds_lease jid token generation L" and "acts_under c = Some (jid, token, generation)"
  shows "\<exists>e. perform env c (perform_all later L) = (Inl e, perform_all later L)"
proof (rule stale_call_refused [OF _ assms(4)])
  have "coordinator_run L later (perform_all later L)" by (simp add: run_iff_perform_all)
  from history_safe [OF this assms(1)] have ev: "evolves L (perform_all later L)"
    and inv: "ledger_inv (perform_all later L)" by auto
  show "ledger_inv (perform_all later L)" by (rule inv)
  from assms(2) obtain j where "j \<in> set (jobs L)" "job_id j = jid" "generation \<le> lease_generation j"
    by (auto simp: list_ex_iff)
  from lost_lease_stays_lost [OF ev ledger_invD(1) [OF assms(1)] this assms(3)]
  show "\<not> holds_lease jid token generation (perform_all later L)" .
qed

theorem lost_lease_never_returns_witness:
  "\<exists>e. perform demo_env (Renew ''j1'' ''t0'' 1 30 None) (perform_all [(demo_env, RecoverExpired 9999 ''op'')] demo_claimed)
     = (Inl e, perform_all [(demo_env, RecoverExpired 9999 ''op'')] demo_claimed)"
  by (rule lost_lease_never_returns [of _ "''j1''" 1 "''t0''"]) code_simp+



text \<open>
  C7. A successful claim first fences off the expired leases, and then, only on an armed,
  unpaused queue with a free worker slot, takes the eligible job that is first in batch and job
  order among those its pool and batch selection admit in the ledger as it then is; the caller holds the
  lease of that job afterwards and the live jobs stay within the worker limit.
\<close>

theorem claim_takes_first_eligible:
  assumes "ledger_inv L" and "claim token worker now pool one many L = (Inr (Some p), L')"
  shows "\<exists>selection M row b c. claim_selection one many = Inr selection
    \<and> M = L\<lparr>jobs := map (\<lambda>j. if expired now j then recovered_job (cstate L) now j else j) (jobs L)\<rparr>
    \<and> armed (cstate L) \<and> \<not> paused (cstate L) \<and> active_worker_count M < max_workers (cstate L)
    \<and> claimable now pool selection M (row, b, c)
    \<and> (\<forall>j b' c'. claimable now pool selection M (j, b', c') \<longrightarrow>
         (batch_position b, job_position row, job_id row) \<le> (batch_position b', job_position j, job_id j))
    \<and> jobs L' = map (\<lambda>j. if job_id j = job_id row then granted_job (cstate L) token worker now j else j) (jobs M)
    \<and> lp_job_id p = job_id row \<and> holds_lease (job_id row) token (lp_lease_generation p) L'
    \<and> active_worker_count L' \<le> max_workers (cstate L')"
proof -
  from claim_granted [OF assms(2,1)] obtain selection n N row b c where
    g: "claim_selection one many = Inr selection" "recover_expired_locked now ''coordinator'' L = Inr (n, N)"
    "armed (cstate L)" "\<not> paused (cstate L)" "active_worker_count N < max_workers (cstate L)"
    "claimable now pool selection N (row, b, c)"
    "\<forall>j b' c'. claimable now pool selection N (j, b', c') \<longrightarrow>
         (batch_position b, job_position row, job_id row) \<le> (batch_position b', job_position j, job_id j)"
    "grant_lease (cstate L) token worker now pool row N = Inr L'" "ledger_inv N" "lease_payload_of (job_id row) L' = Inr p" by blast
  note r = recover_expired_Inr [OF g(2) ledger_invD [OF assms(1)]]
  define M where "M = L\<lparr>jobs := map (\<lambda>j. if expired now j then recovered_job (cstate L) now j else j) (jobs L)\<rparr>"
  have same: "claimable now pool selection N = claimable now pool selection M" "active_worker_count N = active_worker_count M"
      "jobs N = jobs M"
    by (rule claimable_cong active_worker_count_cong; simp add: M_def r(4) same_policyD [OF r(3)])+ (simp add: M_def r(4))
  from claimable_row [OF g(6)] have row: "row \<in> set (jobs N)" "job_state row = Queued" "job_active row" by auto
  note grant = grant_lease_Inr [OF g(8,9) row]
  have p: "lp_job_id p = job_id row"
    using claim_lease_payload [OF g(10) evolves_schema [OF grant(1) ledger_invD(1) [OF g(9)]]] by blast
  note cap = claim_within_cap [OF assms(2,1)]
  show ?thesis
    using g(1,3-7) grant(4) cap(1) cap(2) [unfolded cap(3)] p unfolding same M_def [symmetric]
    by (intro exI [of _ selection] exI [of _ M] exI [of _ row] exI [of _ b] exI [of _ c]) (simp add: M_def)
qed

theorem claim_takes_first_eligible_witness:
  "\<exists>b c. claimable 10 None None demo_ledger (demo_job ''j1'' ''b1'' ''c1'' 1, b, c)
    \<and> jobs demo_claimed = map (\<lambda>j. if job_id j = ''j1''
        then granted_job (cstate demo_ledger) ''t1'' ''w1'' 10 j else j) (jobs demo_ledger)
    \<and> holds_lease ''j1'' ''t1'' 1 demo_claimed"
proof -
  let ?c = "claim ''t1'' ''w1'' 10 None None None demo_ledger"
  have "case fst ?c of Inr (Some p) \<Rightarrow> lp_job_id p = ''j1'' \<and> lp_lease_generation p = 1 | _ \<Rightarrow> False" by code_simp
  then obtain p where p: "fst ?c = Inr (Some p)" "lp_job_id p = ''j1''" "lp_lease_generation p = 1"
    by (auto split: sum.splits option.splits)
  then have run: "?c = (Inr (Some p), demo_claimed)" by (simp add: demo_claimed_def prod_eq_iff)
  have none: "claim_selection None None = Inr None"
    "demo_ledger\<lparr>jobs := map (\<lambda>j. if expired 10 j then recovered_job (cstate demo_ledger) 10 j else j) (jobs demo_ledger)\<rparr> = demo_ledger"
    by code_simp+
  from claim_takes_first_eligible [OF ledger_inv_demo run] obtain row b c where
    r: "claimable 10 None None demo_ledger (row, b, c)" "job_id row = ''j1''" "holds_lease ''j1'' ''t1'' 1 demo_claimed"
     "jobs demo_claimed = map (\<lambda>j. if job_id j = job_id row then granted_job (cstate demo_ledger) ''t1'' ''w1'' 10 j else j) (jobs demo_ledger)"
    unfolding none p(2,3) by (metis (no_types, lifting) none(1) p(2,3) sum.inject(2))
  have "row \<in> set (jobs demo_ledger)" using claimable_row [OF r(1)] by simp
  then have "row = demo_job ''j1'' ''b1'' ''c1'' 1" using r(2) by (auto simp: demo_ledger_def demo_job_def)
  with r show ?thesis by auto
qed

text \<open>
  C8. Progress: on an armed, unpaused queue with a free worker slot, nothing expired and an
  eligible job, a claim without pool or batch filter, with a fresh token and a valid worker name, returns
  a lease on the first eligible job; no error, retry or empty answer is possible.
\<close>

theorem claim_succeeds:
  assumes "ledger_inv L" and "list_all (\<lambda>j. \<not> expired now j) (jobs L)"
    and "armed (cstate L)" "\<not> paused (cstate L)" "active_worker_count L < max_workers (cstate L)"
    and "claimable now None None L x" and "token \<notin> attempt_token ` set (attempts L)"
    and "text_field (JStr worker) ''worker id'' = Inr worker"
  shows "\<exists>row b c p L'. claimable now None None L (row, b, c)
    \<and> (\<forall>j b' c'. claimable now None None L (j, b', c') \<longrightarrow>
           (batch_position b, job_position row, job_id row) \<le> (batch_position b', job_position j, job_id j))
    \<and> claim token worker now None None None L = (Inr (Some p), L')
    \<and> lp_job_id p = job_id row \<and> holds_lease (job_id row) token (lease_generation row + 1) L'"
proof -
  have "\<forall>j\<in>set (jobs L). \<not> expired now j" using assms(2) by (simp only: list_all_iff)
  from claim_body_total [OF assms(1) this assms(3-8)] obtain row b c p L' where
    r: "claimable now None None L (row, b, c)"
    "\<forall>j b' c'. claimable now None None L (j, b', c') \<longrightarrow>
           (batch_position b, job_position row, job_id row) \<le> (batch_position b', job_position j, job_id j)"
    "claim_body token worker now None None L = Inr (Some p, L')" "lp_job_id p = job_id row"
    "holds_lease (job_id row) token (lease_generation row + 1) L'" by blast
  have "claim token worker now None None None L = (Inr (Some p), L')"
    using r(3) assms(8) by (simp add: claim_def claim_selection_def transaction_def)
  with r show ?thesis by blast
qed

theorem claim_succeeds_witness:
  "\<exists>row b c p L'. claimable 10 None None demo_ledger (row, b, c)
    \<and> (\<forall>j b' c'. claimable 10 None None demo_ledger (j, b', c') \<longrightarrow>
           (batch_position b, job_position row, job_id row) \<le> (batch_position b', job_position j, job_id j))
    \<and> claim ''t7'' ''w1'' 10 None None None demo_ledger = (Inr (Some p), L')
    \<and> lp_job_id p = job_id row \<and> holds_lease (job_id row) ''t7'' (lease_generation row + 1) L'"
  by (rule claim_succeeds [where x = "(demo_job ''j1'' ''b1'' ''c1'' 1, demo_batch ''b1'' 1, demo_cell ''c1'')"]) code_simp+

text \<open>
  C9. Recovery rewrites exactly the jobs whose lease has run out, each to the queue with its
  back-off while attempts remain and to failure after the last one; it returns their number, no
  expired lease is left, and policy, batches, cells and quarantines are untouched.
\<close>

theorem recovery_rewrites_expired_jobs:
  assumes "ledger_inv L" and "recover_expired now actor L = (Inr n, L')"
  shows "jobs L' = map (\<lambda>j. if expired now j then recovered_job (cstate L) now j else j) (jobs L)
    \<and> n = int (length (filter (expired now) (jobs L)))
    \<and> filter (expired now) (jobs L') = []
    \<and> cstate L' = cstate L \<and> batches L' = batches L \<and> cells L' = cells L \<and> quarantines L' = quarantines L"
proof -
  have run: "recover_expired_locked now actor L = Inr (n, L')"
    using assms(2) by (simp add: recover_expired_def transaction_eq)
  note ok = ledger_invD [OF assms(1)]
  have "filter (expired now) (jobs L') = []"
    unfolding filter_empty_conv using recovered_none_expired [OF run ok] by blast
  then show ?thesis
    using recover_expired_Inr(4,5) [OF run ok] same_policyD [OF recover_expired_Inr(3) [OF run ok]] by blast
qed

theorem recovery_rewrites_expired_jobs_witness:
  "let L' = snd (recover_expired 9999 ''op'' demo_claimed)
   in filter (expired 9999) (jobs L') = [] \<and> batches L' = batches demo_claimed"
proof -
  let ?p = "recover_expired 9999 ''op'' demo_claimed"
  have inv: "ledger_inv demo_claimed" and "fst ?p = Inr 1" by code_simp+
  then have "?p = (Inr 1, snd ?p)" by (metis prod.collapse)
  from recovery_rewrites_expired_jobs [OF inv this] show ?thesis unfolding Let_def by blast
qed

text \<open>
  The retry delay never exceeds the configured maximum, is at least the base delay when
  retries are delayed at all, doubles from one attempt to the next until the maximum is reached, and
  never decreases with the number of attempts.
\<close>

theorem retry_delay_bounds:
  assumes "0 \<le> retry_backoff_seconds st" and "retry_backoff_seconds st \<le> retry_backoff_max_seconds st"
    and "1 \<le> m" and "m \<le> n"
  shows "0 \<le> retry_delay st m \<and> retry_delay st m \<le> retry_backoff_max_seconds st
    \<and> retry_delay st m \<le> retry_delay st n
    \<and> (0 < retry_backoff_seconds st \<longrightarrow> retry_backoff_seconds st \<le> retry_delay st m
         \<and> retry_delay st (m + 1) = min (retry_backoff_max_seconds st) (2 * retry_delay st m))"
  by (rule retry_delay_facts [OF assms])

theorem retry_delay_bounds_witness:
  "retry_delay (init_state\<lparr>retry_backoff_seconds := 10, retry_backoff_max_seconds := 60\<rparr>) 2 \<le> 60"
  using retry_delay_bounds [of "init_state\<lparr>retry_backoff_seconds := 10, retry_backoff_max_seconds := 60\<rparr>" 2 3]
  by simp

text \<open>
  A completion that succeeds was made by the holder of the lease; it stores the result on
  exactly that job, releases the lease, and returns the completed job.  Whatever calls follow, the
  job stays complete with the same result.
\<close>

theorem completion_is_final:
  assumes "ledger_inv L" and "complete jid token generation result now L = (Inr j, L')"
  shows "holds_lease jid token generation L \<and> \<not> holds_lease jid token' generation' L'
    \<and> job_id j = jid \<and> job_state j = Complete
    \<and> j \<in> set (jobs L')
    \<and> (\<exists>doc. canonical_json (case result of None \<Rightarrow> JObj [] | Some v \<Rightarrow> v) = Inr doc
        \<and> jobs L' = map (\<lambda>j. if job_id j = jid then completed_job doc now j
             else if expired now j then recovered_job (cstate L) now j else j) (jobs L))
    \<and> list_ex (\<lambda>k. job_id k = jid \<and> job_state k = Complete \<and> result_json k = result_json j)
        (jobs (perform_all later L'))"
  by (rule completion_final [OF assms])

theorem completion_is_final_witness:
  "let p = complete ''j1'' ''t1'' 1 (Some (JInt 3)) 20 demo_claimed
   in list_ex (\<lambda>k. job_id k = ''j1'' \<and> job_state k = Complete) (jobs (perform_all [(demo_env, Pause ''stop'' ''op'' 30)] (snd p)))"
proof -
  let ?p = "complete ''j1'' ''t1'' 1 (Some (JInt 3)) 20 demo_claimed"
  have "ledger_inv demo_claimed" "case fst ?p of Inl e \<Rightarrow> False | Inr j \<Rightarrow> True" by code_simp+
  then obtain j where "fst ?p = Inr j" by (cases "fst ?p") simp_all
  then have "?p = (Inr j, snd ?p)" by (metis prod.collapse)
  from completion_is_final [OF \<open>ledger_inv demo_claimed\<close> this, of _ _ "[(demo_env, Pause ''stop'' ''op'' 30)]"]
  show ?thesis unfolding Let_def list_ex_iff by blast
qed

text \<open>
  C10. A failure report that succeeds puts the job back in the queue with its back-off when the
  failure is retryable, not pathological and attempts remain, and to failure otherwise; other jobs
  change only if their lease had run out.
\<close>

theorem failure_outcome:
  assumes "ledger_inv L"
    and "fail jid token generation err retryable cls pathological now L = (Inr j, L')"
  shows "holds_lease jid token generation L \<and> \<not> holds_lease jid token' generation' L'
    \<and> jobs L' = map (\<lambda>j. if job_id j = jid
        then failed_job (cstate L) err retryable cls pathological now j
        else if expired now j then recovered_job (cstate L) now j else j) (jobs L)
    \<and> (job_state j = Queued \<longleftrightarrow> \<not> pathological \<and> retryable \<and> attempt_count j < max_attempts (cstate L))
    \<and> (job_state j = Queued \<or> job_state j = Failed)"
  by (rule failure_effect [OF assms])

theorem failure_outcome_witness:
  "let p = fail ''j1'' ''t1'' 1 ''boom'' True None False 20 demo_claimed
   in \<not> holds_lease ''j1'' ''t1'' 1 (snd p)"
proof -
  let ?p = "fail ''j1'' ''t1'' 1 ''boom'' True None False 20 demo_claimed"
  have "ledger_inv demo_claimed" "case fst ?p of Inl e \<Rightarrow> False | Inr j \<Rightarrow> True" by code_simp+
  then obtain j where "fst ?p = Inr j" by (cases "fst ?p") simp_all
  then have "?p = (Inr j, snd ?p)" by (metis prod.collapse)
  from failure_outcome [OF \<open>ledger_inv demo_claimed\<close> this, of "''t1''" 1]
  show ?thesis unfolding Let_def by blast
qed

text \<open>
  C11. The stage records of an attempt implement a two-state machine: nothing running, or one
  running stage.  A recorded transition is a move of that machine: a stage starts or is skipped only
  when none runs, and only the running stage can be completed or failed.
\<close>

theorem stages_refine_machine:
  assumes "ledger_inv L"
    and "record_stage parse jid token generation stage state duration details now L = (Inr eid, L')"
  shows "\<exists>row M a. require_lease_locked jid token generation now L = Inr (row, M)
    \<and> live_attempt_of jid generation M = Some a
    \<and> stage_machine state stage (running_stage a M) = Some (running_stage a L')"
  by (rule recorded_stage_refines [OF assms])

theorem stages_refine_machine_witness:
  "let L' = snd (record_stage (\<lambda>_. None) ''j1'' ''t1'' 1 ''build'' ''started'' None None 12 demo_claimed)
   in \<exists>row M a. require_lease_locked ''j1'' ''t1'' 1 12 demo_claimed = Inr (row, M)
    \<and> live_attempt_of ''j1'' 1 M = Some a
    \<and> stage_machine ''started'' ''build'' (running_stage a M) = Some (running_stage a L')"
proof -
  let ?p = "record_stage (\<lambda>_. None) ''j1'' ''t1'' 1 ''build'' ''started'' None None 12 demo_claimed"
  have inv: "ledger_inv demo_claimed" by code_simp
  from demo_stage_recorded obtain i where "fst ?p = Inr i" by blast
  then have "?p = (Inr i, snd ?p)" by (metis prod.collapse)
  from stages_refine_machine [OF inv this] show ?thesis unfolding Let_def .
qed

section \<open>Admission\<close>

text \<open>
  C12. Starting a block admits the first active batch, by position and id, that has work
  left, and only on an armed, unpaused queue with nothing admitted.  A scheduled admission is recorded
  under its id, and as long as that record stands an automatic schedule that may not re-enter admits
  nothing under the same id.  No job is touched.
\<close>

theorem admission_takes_first_pending:
  assumes "start_next_block admission scheduled reentry now actor L = (Inr r, L')"
    and "active_batch_id (cstate L') \<noteq> active_batch_id (cstate L)"
  shows "armed (cstate L) \<and> \<not> paused (cstate L) \<and> active_batch_id (cstate L) = None
    \<and> lookahead_batch_id (cstate L) = None
    \<and> \<not> (scheduled \<and> \<not> reentry \<and> last_schedule_admission_id (cstate L) = Some admission)
    \<and> last_schedule_admission_id (cstate L') = (if scheduled then Some admission else last_schedule_admission_id (cstate L))
    \<and> (scheduled \<longrightarrow> (\<forall>N now' actor'. last_schedule_admission_id (cstate N) = last_schedule_admission_id (cstate L') \<longrightarrow>
         active_batch_id (cstate (snd (start_next_block admission True False now' actor' N))) = active_batch_id (cstate N)))
    \<and> (\<exists>b. b \<in> set (batches L) \<and> batch_active b \<and> has_pending L b
        \<and> (\<forall>c\<in>set (batches L). batch_active c \<longrightarrow> has_pending L c \<longrightarrow>
             (batch_position b, batch_id b) \<le> (batch_position c, batch_id c))
        \<and> active_batch_id (cstate L') = Some (batch_id b) \<and> active_admission_id (cstate L') = Some admission)
    \<and> jobs L' = jobs L \<and> attempts L' = attempts L"
  using start_block_admits [OF assms] start_block_records [OF assms] start_block_once by simp

theorem admission_takes_first_pending_witness:
  "let L' = snd (start_next_block ''a1'' True False 5 ''op'' demo_ledger)
   in \<exists>b. b \<in> set (batches demo_ledger) \<and> has_pending demo_ledger b
        \<and> active_batch_id (cstate L') = Some (batch_id b) \<and> last_schedule_admission_id (cstate L') = Some ''a1''"
proof -
  let ?p = "start_next_block ''a1'' True False 5 ''op'' demo_ledger"
  have "case fst ?p of Inl e \<Rightarrow> False | Inr j \<Rightarrow> True"
    and changed: "active_batch_id (cstate (snd ?p)) \<noteq> active_batch_id (cstate demo_ledger)" by code_simp+
  then obtain r where "fst ?p = Inr r" by (cases "fst ?p") simp_all
  then have "?p = (Inr r, snd ?p)" by (metis prod.collapse)
  from admission_takes_first_pending [OF this changed] show ?thesis unfolding Let_def by auto
qed

text \<open>
  The admission fields of the state stay consistent: a batch is admitted exactly together
  with its admission id, and a look-ahead exists only beside a different primary.  Every call keeps
  this except a synchronisation, which can drop the primary alone.
\<close>

theorem admission_consistent:
  assumes "ledger_inv L" and "admission_ok L" and "\<not> synchronises c"
  shows "admission_ok (snd (perform env c L))"
  by (rule perform_admission [OF assms])

theorem admission_consistent_witness:
  "admission_ok (snd (perform demo_env (StartNextBlock ''a1'' True False 5 ''op'') demo_ledger))"
  by (rule admission_consistent) code_simp+

text \<open>
  C13. A look-ahead without a primary stops the queue for good: whatever calls other than a
  synchronisation follow, it stays, and then starting a block raises whenever the queue is armed and not
  paused and never changes anything, nor does look-ahead admission or finishing a block.
\<close>

theorem orphaned_lookahead_blocks:
  assumes "ledger_inv L" and "active_batch_id (cstate L) = None" and "lookahead_batch_id (cstate L) \<noteq> None"
    and "list_all (\<lambda>(env, c). \<not> synchronises c) calls" and "M = perform_all calls L"
  shows "active_batch_id (cstate M) = None \<and> lookahead_batch_id (cstate M) = lookahead_batch_id (cstate L)
    \<and> (armed (cstate M) \<and> \<not> paused (cstate M) \<longrightarrow>
         (\<exists>e. perform env (StartNextBlock admission scheduled reentry now actor) M = (Inl e, M)))
    \<and> snd (perform env (StartNextBlock admission scheduled reentry now actor) M) = M
    \<and> snd (perform env (AdmitLookaheadBlock admission idle actor now) M) = M
    \<and> perform env (FinishActiveBlock now actor) M = (Inr (), M)"
proof -
  have M: "orphaned M" "lookahead_batch_id (cstate M) = lookahead_batch_id (cstate L)"
    using orphan_persists [OF assms(1) _ assms(4)] assms(2,3,5) by (simp_all add: orphaned_def)
  show ?thesis
    using M orphan_blocks [of M env] orphan_admission_calls [OF M(1), of "StartNextBlock admission scheduled reentry now actor" env]
      orphan_admission_calls [OF M(1), of "AdmitLookaheadBlock admission idle actor now" env] orphan_finishes_nothing [OF M(1)]
    by (simp add: orphaned_def)
qed

theorem orphaned_lookahead_blocks_witness:
  "let M = perform_all [(demo_env, Pause ''r'' ''op'' 6), (demo_env, Resume ''op'' 7)] orphaned_ledger
   in armed (cstate M) \<and> \<not> paused (cstate M)
     \<and> (\<exists>e. perform demo_env (StartNextBlock ''a9'' False False 9 ''op'') M = (Inl e, M))"
proof -
  let ?calls = "[(demo_env, Pause ''r'' ''op'' 6), (demo_env, Resume ''op'' 7)]"
  have "ledger_inv orphaned_ledger" unfolding orphaned_ledger_def by (rule reachable_inv [OF reachable_perform_all])
  moreover have "active_batch_id (cstate orphaned_ledger) = None" "lookahead_batch_id (cstate orphaned_ledger) \<noteq> None"
    using orphaned_state by simp_all
  moreover have "list_all (\<lambda>(env, c). \<not> synchronises c) ?calls" by simp
  moreover have "armed (cstate (perform_all ?calls orphaned_ledger)) \<and> \<not> paused (cstate (perform_all ?calls orphaned_ledger))"
    by code_simp
  ultimately show ?thesis using orphaned_lookahead_blocks [OF _ _ _ _ refl, of orphaned_ledger ?calls] unfolding Let_def by blast
qed

text \<open>
  A block is closed only when no active job of it is queued, leased or running; the
  look-ahead, if any, becomes the primary.
\<close>

theorem finish_needs_drained_block:
  assumes "finish_active_block_if_drained now actor L = (Inr drained, L')"
  shows "if drained
    then (\<exists>b. active_batch_id (cstate L) = Some b
            \<and> list_all (\<lambda>j. job_batch j = b \<longrightarrow> job_state j \<notin> {Queued, Leased, Running}) (active_jobs L))
      \<and> active_batch_id (cstate L') = lookahead_batch_id (cstate L)
      \<and> lookahead_batch_id (cstate L') = None \<and> jobs L' = jobs L
    else L' = L"
  by (rule finish_block_drained [OF assms])

theorem finish_needs_drained_block_witness:
  "let L' = snd (finish_active_block_if_drained 9 ''op'' demo_ledger) in L' = demo_ledger"
proof -
  let ?p = "finish_active_block_if_drained 9 ''op'' demo_ledger"
  have "fst ?p = Inr False" by code_simp
  then have "?p = (Inr False, snd ?p)" by (metis prod.collapse)
  from finish_needs_drained_block [OF this] show ?thesis by (simp only: Let_def if_False)
qed

section \<open>Operator recovery\<close>

text \<open>
  C14. Requeueing an interrupted batch needs a paused, disarmed queue and the exact number
  of live jobs, all of that batch; afterwards every live job is back in the queue, no lease is held
  by anybody, and no other job changed.
\<close>

theorem interrupted_requeue_fences:
  assumes "ledger_inv L"
    and "requeue_interrupted_batch ids_sha256 batch expected reason actor now L = (Inr r, L')"
  shows "\<not> armed (cstate L) \<and> paused (cstate L) \<and> expected = int (length (live_jobs L))
    \<and> list_all (\<lambda>j. job_batch j = batch) (live_jobs L)
    \<and> jobs L' = map (\<lambda>j. if job_live j then fenced_job now j else j) (jobs L)
    \<and> \<not> holds_lease jid token generation L'"
proof -
  from assms(2) have run: "requeue_interrupted_body ids_sha256 batch expected reason actor now L = Inr (r, L')"
    by (auto simp: requeue_interrupted_batch_def transaction_eq results split: sum.splits)
  note b = requeue_interrupted_body_Inr [OF run assms(1)]
  have "list_all (\<lambda>j. job_batch j = batch) (live_jobs L)" using b(3) by (auto simp: live_jobs_def list_all_iff)
  then show ?thesis using b(2,4-6) requeue_interrupted_fences(2) [OF run assms(1)] by blast
qed

theorem interrupted_requeue_fences_witness: "\<not> holds_lease ''j1'' ''t1'' 1 requeued_ledger"
proof -
  let ?p = "requeue_interrupted_batch (\<lambda>_. ''h'') ''b1'' 1 ''stop'' ''op'' 60 disarmed_ledger"
  have inv: "ledger_inv disarmed_ledger" and "case fst ?p of Inl e \<Rightarrow> False | Inr j \<Rightarrow> True" by code_simp+
  then obtain r where "fst ?p = Inr r" by (cases "fst ?p") simp_all
  then have "?p = (Inr r, snd ?p)" by (metis prod.collapse)
  from interrupted_requeue_fences [OF inv this, of "''j1''" "''t1''" 1] show ?thesis
    unfolding requeued_ledger_def by blast
qed

text \<open>
  Requeueing the failed jobs of a batch needs a paused, disarmed queue and their exact
  number; it changes exactly the active failed jobs of that batch and no attempt, stage or
  quarantine record.
\<close>

theorem failed_requeue_exact:
  assumes "ledger_inv L" and "requeue_failed_batch ids_sha256 batch expected reason actor now L = (Inr r, L')"
  shows "\<not> armed (cstate L) \<and> paused (cstate L)
    \<and> jobs L' = map (\<lambda>j. if job_batch j = batch \<and> job_active j \<and> job_state j = Failed
                         then requeued_job now j else j) (jobs L)
    \<and> expected = int (length (filter (\<lambda>j. job_batch j = batch \<and> job_active j \<and> job_state j = Failed) (jobs L)))
    \<and> attempts L' = attempts L \<and> spans L' = spans L \<and> quarantines L' = quarantines L"
proof -
  from assms(2) have run: "requeue_failed_body ids_sha256 batch expected reason actor now L = Inr (r, L')"
    by (auto simp: requeue_failed_batch_def transaction_eq results split: sum.splits)
  show ?thesis using requeue_failed_body_Inr(2-8) [OF run assms(1)] by blast
qed

theorem failed_requeue_exact_witness:
  "let L' = snd (requeue_failed_batch (\<lambda>_. ''h'') ''b1'' 1 ''again'' ''op'' 80 quarantined_ledger)
   in attempts L' = attempts quarantined_ledger \<and> quarantines L' = quarantines quarantined_ledger"
proof -
  let ?p = "requeue_failed_batch (\<lambda>_. ''h'') ''b1'' 1 ''again'' ''op'' 80 quarantined_ledger"
  have inv: "ledger_inv quarantined_ledger" and "case fst ?p of Inl e \<Rightarrow> False | Inr j \<Rightarrow> True" by code_simp+
  then obtain r where "fst ?p = Inr r" by (cases "fst ?p") simp_all
  then have "?p = (Inr r, snd ?p)" by (metis prod.collapse)
  from failed_requeue_exact [OF inv this] show ?thesis unfolding Let_def by blast
qed

text \<open>
  Quarantining jobs needs a paused, disarmed queue with no live lease and the exact
  number of selected jobs; each of them then has an active quarantine, every attempt is kept, and
  releasing the batch leaves no active quarantine of it.
\<close>

theorem quarantine_holds_selection:
  assumes "ledger_inv L"
    and "quarantine_pathological_jobs ids_sha256 batch ids expected reason actor now L = (Inr r, L')"
    and "release_pathological_quarantine ids_sha256 batch expected' reason' actor' now' L' = (Inr r', L'')"
  shows "\<not> armed (cstate L) \<and> paused (cstate L) \<and> live_jobs L = []
    \<and> expected = int (length (quarantine_selection batch ids L))
    \<and> list_all (\<lambda>j. actively_quarantined (job_id j) L') (quarantine_selection batch ids L)
    \<and> map attempt_id (attempts L'') = map attempt_id (attempts L)
    \<and> list_all (\<lambda>q. q_batch q = batch \<longrightarrow> q_state q = QReleased) (quarantines L'')"
proof -
  from assms(2) have run: "quarantine_body ids_sha256 batch ids expected reason actor now L = Inr (r, L')"
    by (auto simp: quarantine_pathological_jobs_def transaction_eq results split: sum.splits
        dest!: identifiers_unchanged)
  from assms(3) have run': "release_body ids_sha256 batch expected' reason' actor' now' L' = Inr (r', L'')"
    by (auto simp: release_pathological_quarantine_def transaction_eq results split: sum.splits)
  note q = quarantine_body_Inr [OF run]
  have ok: "schema_ok L'" using recovers_inv [OF q(1) assms(1)] by (rule ledger_invD)
  note rel = release_body_Inr [OF run' ok]
  have "map attempt_id (attempts L'') = map attempt_id (attempts L)"
    using q(1) rel(1) by (simp add: recovers_def)
  then show ?thesis using q(2-6) rel(4) unfolding list_all_iff by blast
qed

theorem quarantine_holds_selection_witness:
  "let L'' = snd (release_pathological_quarantine (\<lambda>_. ''h'') ''b1'' 1 ''fixed'' ''op'' 75 quarantined_ledger)
   in list_all (\<lambda>j. actively_quarantined (job_id j) quarantined_ledger) (quarantine_selection ''b1'' [''j1''] requeued_ledger)
    \<and> list_all (\<lambda>q. q_batch q = ''b1'' \<longrightarrow> q_state q = QReleased) (quarantines L'')"
proof -
  let ?p = "quarantine_pathological_jobs (\<lambda>_. ''h'') ''b1'' [''j1''] 1 ''bad'' ''op'' 70 requeued_ledger"
  let ?q = "release_pathological_quarantine (\<lambda>_. ''h'') ''b1'' 1 ''fixed'' ''op'' 75 quarantined_ledger"
  have inv: "ledger_inv requeued_ledger" and "case fst ?p of Inl e \<Rightarrow> False | Inr j \<Rightarrow> True"
    and "case fst ?q of Inl e \<Rightarrow> False | Inr j \<Rightarrow> True" by code_simp+
  then obtain r s where "fst ?p = Inr r" "fst ?q = Inr s" by (cases "fst ?p"; cases "fst ?q") simp_all
  then have p: "?p = (Inr r, quarantined_ledger)" and q: "?q = (Inr s, snd ?q)"
    unfolding quarantined_ledger_def by (metis prod.collapse)+
  from quarantine_holds_selection [OF inv p q] show ?thesis unfolding Let_def by blast
qed

text \<open>
  C15. Once a job with an active quarantine has been requeued and leased again, its
  worker cannot report a pathological failure: the second quarantine violates the unique index, the
  call raises and is rolled back, and the job stays leased until the lease runs out.
\<close>

theorem quarantined_failure_unreportable:
  assumes "ledger_inv L" and "actively_quarantined jid L"
  shows "\<exists>e. fail jid token generation err retryable cls True now L = (Inl e, L)"
  by (rule pathological_failure_refused [OF assms])

theorem quarantined_failure_unreportable_witness:
  "holds_lease ''j1'' ''t2'' 2 quarantined_claimed \<and> lease_expires_at (jobs quarantined_claimed ! 1) = Some 3690
   \<and> (\<exists>e. fail ''j1'' ''t2'' 2 ''timeout'' True None True 100 quarantined_claimed = (Inl e, quarantined_claimed))"
proof -
  have "ledger_inv quarantined_claimed" "actively_quarantined ''j1'' quarantined_claimed"
    "holds_lease ''j1'' ''t2'' 2 quarantined_claimed" "lease_expires_at (jobs quarantined_claimed ! 1) = Some 3690"
    by code_simp+
  with quarantined_failure_unreportable [of quarantined_claimed "''j1''"] show ?thesis by blast
qed

section \<open>Synchronising the queue\<close>

text \<open>
  C16. Synchronising a new queue document loses nothing: every job is still there with its state,
  lease and result, only its place in the queue can change; new jobs have never run; attempts,
  stages, quarantines and workers are untouched and every lease is still held.
\<close>

theorem sync_keeps_work:
  assumes "ledger_inv L" and "sync_queue resolver sha256_json c now actor L = (Inr n, L')"
  shows "list_all2 synced (jobs L) (take (length (jobs L)) (jobs L'))
    \<and> list_all never_run (drop (length (jobs L)) (jobs L'))
    \<and> attempts L' = attempts L \<and> spans L' = spans L \<and> quarantines L' = quarantines L
    \<and> workers L' = workers L
    \<and> (holds_lease jid token generation L' \<longleftrightarrow> holds_lease jid token generation L)"
proof -
  from assms(2) obtain resolved where run: "sync_body sha256_json c resolved now actor L = Inr (n, L')"
    by (auto simp: sync_queue_def transaction_eq split: sum.splits)
  note s = sync_body_syncs [OF run]
  then obtain us vs where "jobs L' = us @ vs" "list_all2 synced (jobs L) us" "\<forall>v\<in>set vs. never_run v"
    by (auto simp: syncs_def)
  moreover have "length us = length (jobs L)" using calculation(2) by (simp add: list_all2_lengthD)
  moreover have "ledger_inv L'" using sync_op.run_inv [OF assms(1), of sha256_json c resolved now actor] run
    by (simp add: transaction_def)
  ultimately show ?thesis
    using s holds_lease_attempt [OF assms(1)] holds_lease_attempt by (simp add: syncs_def list_all_iff)
qed

theorem sync_keeps_work_witness:
  "attempts (snd (sync_queue (env_resolver demo_env) (env_sha256_json demo_env) (queue_of [''b1'']) 40 ''op'' demo_claimed))
     = attempts demo_claimed"
proof -
  let ?p = "sync_queue (env_resolver demo_env) (env_sha256_json demo_env) (queue_of [''b1'']) 40 ''op'' demo_claimed"
  have inv: "ledger_inv demo_claimed" and "case fst ?p of Inl e \<Rightarrow> False | Inr j \<Rightarrow> True" by code_simp+
  then obtain r where "fst ?p = Inr r" by (cases "fst ?p") simp_all
  then have "?p = (Inr r, snd ?p)" by (metis prod.collapse)
  from sync_keeps_work [OF inv this] show ?thesis by blast
qed

text \<open>
  C17. After a successful synchronisation every selected queue row of every configured batch is
  served by an active job of that batch with the same cell, factor variants and queue row.
\<close>

theorem sync_serves_rows:
  assumes "sync_queue resolver sha256_json c now actor L = (Inr n, L')" and "batch \<in> set (qc_batches c)"
  shows "\<exists>plan cs rows. select_batch resolver sha256_json batch = Inr (batch, plan, cs, rows)
    \<and> (\<forall>row\<in>set rows. row_served sha256_json batch plan row L')"
proof -
  from assms(1) obtain resolved where res: "map_result (select_batch resolver sha256_json) (qc_batches c) = Inr resolved"
    and run: "sync_body sha256_json c resolved now actor L = Inr (n, L')"
    by (auto simp: sync_queue_def transaction_eq split: sum.splits)
  from assms(2) obtain i where i: "i < length (qc_batches c)" "qc_batches c ! i = batch"
    by (metis in_set_conv_nth)
  note sel = map_result_nth [OF res i(1), unfolded i(2)]
  then obtain plan cs rows where r: "resolved ! i = (batch, plan, cs, rows)" by (cases "resolved ! i") (auto dest: select_batch_batch)
  have "(batch, plan, cs, rows) \<in> set resolved"
    using nth_mem [of i resolved] i(1) map_result_length [OF res] r by simp
  from sync_body_serves [OF run this] show ?thesis using sel r by auto
qed

theorem sync_serves_rows_witness:
  "\<exists>plan cs rows. select_batch (env_resolver demo_env) (env_sha256_json demo_env) (batch_for ''b1'')
      = Inr (batch_for ''b1'', plan, cs, rows)
    \<and> (\<forall>row\<in>set rows. row_served (env_sha256_json demo_env) (batch_for ''b1'') plan row
         (snd (sync_queue (env_resolver demo_env) (env_sha256_json demo_env) (queue_of [''b1'']) 40 ''op'' demo_claimed)))"
proof -
  let ?p = "sync_queue (env_resolver demo_env) (env_sha256_json demo_env) (queue_of [''b1'']) 40 ''op'' demo_claimed"
  have "case fst ?p of Inl e \<Rightarrow> False | Inr j \<Rightarrow> True" by code_simp
  then obtain r where "fst ?p = Inr r" by (cases "fst ?p") simp_all
  then have "?p = (Inr r, snd ?p)" by (metis prod.collapse)
  from sync_serves_rows [OF this, of "batch_for ''b1''"] show ?thesis by (simp only: queue_of_def) simp
qed

text \<open>
  Reconfiguring the runtime or disarming for recovery needs a paused queue and exact
  counts, and edits policy only: jobs, attempts, stages, plans and batches, the admission and the
  sync generation stay as they are.
\<close>

theorem runtime_edits_keep_execution:
  assumes "reconfigure_runtime resolve_path c generation expected reason actor now L = (Inr u, L')
    \<or> disarm_for_recovery resolve_path c generation expected live reason actor now L = (Inr u, L')"
  shows "paused (cstate L) \<and> active_job_count L = expected \<and> same_execution (cstate L) (cstate L')
    \<and> jobs L' = jobs L \<and> attempts L' = attempts L \<and> spans L' = spans L \<and> plans L' = plans L
    \<and> batches L' = batches L"
  using assms by (rule runtime_edit_scope)

theorem runtime_edits_keep_execution_witness:
  "let L = snd (perform demo_env (Pause ''stop'' ''op'' 6) (perform_all [(demo_env, SyncQueue (counted_queue) 1 ''sync'')] init_ledger));
       L' = snd (reconfigure_runtime (\<lambda>p. p) counted_queue 1 1 ''edit'' ''op'' 7 L)
   in jobs L' = jobs L"
proof -
  let ?L = "snd (perform demo_env (Pause ''stop'' ''op'' 6) (perform_all [(demo_env, SyncQueue (counted_queue) 1 ''sync'')] init_ledger))"
  let ?p = "reconfigure_runtime (\<lambda>p. p) counted_queue 1 1 ''edit'' ''op'' 7 ?L"
  have "case fst ?p of Inl e \<Rightarrow> False | Inr j \<Rightarrow> True" by code_simp
  then obtain r where "fst ?p = Inr r" by (cases "fst ?p") simp_all
  then have "?p = (Inr r, snd ?p)" by (metis prod.collapse)
  from runtime_edits_keep_execution [OF disjI1 [OF this]] show ?thesis unfolding Let_def by blast
qed

text \<open>
  C18. Whatever document is accepted as a queue configuration has positive worker, poll, lease
  and attempt limits, ordered retry delays, its batches in the declared order with distinct valid
  ids, and a fixed performance profile for exactly the configured number of workers.
\<close>

theorem accepted_queue_config:
  assumes "load_queue env source_path v = Inr c"
  shows "config_ok c"
  using assms by (rule load_queue_ok)

theorem accepted_queue_config_witness:
  "case load_queue demo_queue_env ''queue.toml'' demo_queue_document of Inl e \<Rightarrow> False | Inr c \<Rightarrow> config_ok c"
proof -
  have "case load_queue demo_queue_env ''queue.toml'' demo_queue_document of Inl e \<Rightarrow> False | Inr c \<Rightarrow> True"
    by code_simp
  then obtain c where c: "load_queue demo_queue_env ''queue.toml'' demo_queue_document = Inr c"
    by (cases "load_queue demo_queue_env ''queue.toml'' demo_queue_document") simp_all
  from accepted_queue_config [OF c] show ?thesis by (simp add: c)
qed

section \<open>Reports\<close>

text \<open>
  The status document is truthful: it reports claimable work exactly when the queue is
  armed, unpaused and some job satisfies the conditions of a claim; its counts add up to the
  active jobs, and the free slots never exceed the worker limit.
\<close>

theorem status_reports_claimable:
  assumes "ledger_inv L"
  shows "(0 < sd_claimable (status now L) \<longleftrightarrow>
       armed (cstate L) \<and> \<not> paused (cstate L) \<and> (\<exists>x. claimable now None None L x))
    \<and> sum_list (map snd (sd_counts (status now L))) = int (length (active_jobs L))
    \<and> sd_retry_wait (status now L) \<ge> 0
    \<and> 0 \<le> sd_available_worker_slots (status now L)"
  using claimable_active [OF ledger_invD(1) [OF assms], of now] eligible_count_pos [of now "active_jobs L"]
    counts_of_total [of "active_jobs L"] eligible_le_queued [of now "active_jobs L"]
  by (auto simp: status_def Let_def)

theorem status_reports_claimable_witness:
  "(0 < sd_claimable (status 10 demo_ledger) \<longleftrightarrow>
       armed (cstate demo_ledger) \<and> \<not> paused (cstate demo_ledger) \<and> (\<exists>x. claimable 10 None None demo_ledger x))"
  using status_reports_claimable [OF ledger_inv_demo, of 10] by blast

text \<open>
  Stage statistics use completed worker-measured spans only: two ledgers that differ in
  skipped, failed, open or interrupted spans report the same sample and the same percentiles for
  every stage.
\<close>

theorem timings_use_measured_spans:
  assumes "filter measured_span (spans L') = filter measured_span (spans L)"
  shows "stage_durations L' stage = stage_durations L stage
    \<and> percentiles (stage_durations L' stage) = percentiles (stage_durations L stage)"
  using stage_durations_measured [OF assms] by simp

theorem timings_use_measured_spans_witness:
  "stage_durations demo_claimed ''build'' = stage_durations demo_ledger ''build''"
proof -
  have "filter measured_span (spans demo_claimed) = filter measured_span (spans demo_ledger)" by code_simp
  from timings_use_measured_spans [OF this] show ?thesis by blast
qed

text \<open>
  A duration summary is ordered, minimum to maximum, and stays within the sample: the
  interpolated percentiles and the rounded mean lie between the least and the greatest duration.
\<close>

theorem percentiles_ordered:
  assumes "percentiles xs = Some s"
  shows "p_min s = Min (set xs) \<and> p_min s \<le> p_50 s \<and> p_50 s \<le> p_90 s \<and> p_90 s \<le> p_95 s \<and> p_95 s \<le> p_max s
    \<and> p_max s = Max (set xs) \<and> p_min s \<le> p_mean s \<and> p_mean s \<le> p_max s"
  using assms by (rule percentiles_facts)

theorem percentiles_ordered_witness:
  "case percentiles [30, 10, 20] of None \<Rightarrow> False | Some s \<Rightarrow> p_50 s \<le> p_90 s"
proof -
  have "case percentiles [30, 10, 20] of None \<Rightarrow> False | Some s \<Rightarrow> True" by code_simp
  then obtain s where s: "percentiles [30, 10, 20] = Some s" by (cases "percentiles [30, 10, 20]") simp_all
  from percentiles_ordered [OF s] show ?thesis by (simp add: s)
qed

text \<open>
  A cell that one worker pool accepts has a routing table and is accepted by no other pool;
  only the two known pools accept anything.
\<close>

theorem pools_never_compete:
  assumes "worker_pool_accepts_cell pool cell"
  shows "pool \<in> set WORKER_POOLS \<and> (\<exists>routing. jget cell ''routing'' = Some (JObj routing))
    \<and> (\<forall>other. worker_pool_accepts_cell other cell \<longrightarrow> other = pool)"
proof (intro conjI allI impI)
  have known: "p = ''library-local'' \<or> p = ''macos-native''" if "worker_pool_accepts_cell p cell" for p
    using accepts_only_known_pools [OF that] by (simp add: WORKER_POOLS_def)
  fix other assume "worker_pool_accepts_cell other cell"
  with assms known [OF this] known [OF assms] pools_exclusive [of cell] show "other = pool" by blast
qed (rule accepts_only_known_pools [OF assms], rule accepts_needs_routing [OF assms])

theorem pools_never_compete_witness:
  "\<not> worker_pool_accepts_cell ''macos-native'' (cell_json (demo_cell ''c1''))"
proof -
  have "worker_pool_accepts_cell ''library-local'' (cell_json (demo_cell ''c1''))" by code_simp
  from pools_never_compete [OF this] show ?thesis by blast
qed

text \<open>
  Canonical JSON is a normal form: canonicalising again changes nothing, and a key of an
  object with distinct keys keeps its value up to canonical form.
\<close>

theorem canonical_json_stable:
  assumes "canonical_json v = Inr w"
  shows "canonical_json w = Inr w
    \<and> (\<forall>kvs k. v = JObj kvs \<longrightarrow> distinct (map fst kvs) \<longrightarrow> jget w k = map_option sort_keys (jget v k))"
  using assms canonical_json_idem [OF assms] jget_sort_keys by (auto simp: canonical_json_Inr)

theorem canonical_json_stable_witness:
  "canonical_json (JObj [(''a'', JInt 1), (''b'', JNull)]) = Inr (JObj [(''a'', JInt 1), (''b'', JNull)])"
proof -
  have "canonical_json (JObj [(''b'', JNull), (''a'', JInt 1)]) = Inr (JObj [(''a'', JInt 1), (''b'', JNull)])"
    by code_simp
  from canonical_json_stable [OF this] show ?thesis by blast
qed

section \<open>Batch planning\<close>

text \<open>
  C19. Packing route bundles succeeds exactly when no single bundle exceeds the ceiling.  Then the
  chunks are the bundles in their order, none is empty, each stays within the ceiling as the
  floats add up, and each but the last was closed because it reached the target or because the
  next bundle would not have fitted.
\<close>

theorem chunks_full_and_bounded:
  assumes "\<forall>b\<in>set bundles. is_f64 (rb_estimated_hours b)"
  shows "if \<forall>b\<in>set bundles. rb_estimated_hours b \<le> fadd max_hours EPS_12
    then \<exists>chunks. pack_route_bundles bundles target_hours max_hours = Inr chunks \<and> concat chunks = bundles
      \<and> (\<forall>c\<in>set chunks. c \<noteq> [] \<and> chunk_hours c \<le> fadd max_hours EPS_12)
      \<and> (\<forall>i. Suc i < length chunks \<longrightarrow> closed_for target_hours max_hours (chunks ! i) (chunks ! Suc i))
    else \<exists>e. pack_route_bundles bundles target_hours max_hours = Inl e"
  using pack_route_bundles_spec [OF assms, of max_hours target_hours]
  by (auto simp: packed_ok_def successively_conv_nth)

theorem chunks_full_and_bounded_witness:
  "\<exists>chunks. pack_route_bundles [demo_bundle ''linux-arm'', demo_bundle ''linux-x86''] 1 (f64 (of_int 85 / 60)) = Inr chunks
     \<and> (\<forall>c\<in>set chunks. chunk_hours c \<le> fadd (f64 (of_int 85 / 60)) EPS_12)"
proof -
  let ?bs = "[demo_bundle ''linux-arm'', demo_bundle ''linux-x86'']"
  have "\<forall>b\<in>set ?bs. is_f64 (rb_estimated_hours b)"
    using f64_of_int [of 1] by (simp add: demo_bundle_def is_f64_def)
  moreover have "\<forall>b\<in>set ?bs. rb_estimated_hours b \<le> fadd (f64 (of_int 85 / 60)) EPS_12"
    using demo_hours(2) by (simp add: demo_bundle_def)
  ultimately show ?thesis using chunks_full_and_bounded [of ?bs "f64 (of_int 85 / 60)" 1] by auto
qed

text \<open>
  First-fit decreasing packing succeeds exactly when no item exceeds the block ceiling, and
  then loses and duplicates nothing: the blocks together are the items, none is empty, and every
  block stays within the ceiling as the floats add up.
\<close>

theorem blocks_complete_and_bounded:
  assumes "\<forall>item\<in>set items. is_f64 (wi_hours item)"
  shows "if \<forall>item\<in>set items. wi_hours item \<le> fadd max_hours EPS_9
    then \<exists>blocks. pack_blocks items target_hours max_hours = Inr blocks \<and> mset (concat blocks) = mset items
      \<and> (\<forall>b\<in>set blocks. b \<noteq> [] \<and> fsum (map wi_hours b) \<le> fadd max_hours EPS_9)
    else \<exists>e. pack_blocks items target_hours max_hours = Inl e"
  by (rule pack_blocks_spec [OF assms])

theorem blocks_complete_and_bounded_witness:
  "\<exists>e. pack_blocks [\<lparr>wi_source_id = ''qt'', wi_rank = 1, wi_hours = 30, wi_executions = 9, wi_android_executions = 0\<rparr>] 8 10 = Inl e"
proof -
  let ?items = "[\<lparr>wi_source_id = ''qt'', wi_rank = 1, wi_hours = 30, wi_executions = 9, wi_android_executions = 0\<rparr>]"
  have "fadd 10 EPS_9 < 30" by code_simp
  moreover have "\<forall>item\<in>set ?items. is_f64 (wi_hours item)"
    using f64_of_int [of 30] by (simp add: is_f64_def)
  ultimately show ?thesis using blocks_complete_and_bounded [of ?items 10 8] by simp
qed

text \<open>
  C20. A compiled campaign covers the reviewed work exactly: its chunks carry the route bundles in
  order, their executions sum to those of the time plan, the matrices of a chunk describe exactly
  its executions, and every cell of the resolved queue is distinct and belongs to exactly one
  chunk.
\<close>

theorem campaign_partitions_queue:
  assumes "compile_auto_batches py_sum project resolve cid tm mm u blocks expected = Inr chunks"
  shows "\<exists>bundles base_cells. route_bundles project blocks = Inr bundles \<and> resolve chunks = Inr base_cells
    \<and> concat (map ck_route_ids chunks) = map rb_route_id bundles
    \<and> sum_list (map ck_executions chunks) = expected
    \<and> int expected = sum_list (map ti_executions (concat blocks))
    \<and> distinct base_cells \<and> (\<forall>cell\<in>set base_cells. length (owning_chunks base_cells chunks cell) = 1)
    \<and> (\<forall>c\<in>set chunks. matrix_cells (ck_groups c) = ck_executions c
         \<and> length (chunk_rows c base_cells) = ck_executions c)"
  by (rule compile_auto_batches_Inr [OF assms])

theorem campaign_partitions_queue_witness:
  "distinct demo_cells \<and> sum_list (map ck_executions demo_chunks) = 4"
  using campaign_partitions_queue [OF demo_compiled] by auto

section \<open>The operating schedule\<close>

text \<open>
  C21. Under an accepted, enabled policy a worker may claim exactly while the window that counts is
  before its stop: today's window when it is open, otherwise yesterday's.  That window belongs to
  an enabled day, has started, closes within 24 hours of its start and no later than its cutoff,
  and is the one the state reports.
\<close>

theorem claims_only_in_window:
  assumes load: "load_schedule env document = Inr p" and times: "times_in_day env"
    and eval: "evaluate to_local p (Aware t) = Inr s" and enabled: "sp_enabled p"
    and local: "local = to_local (sp_timezone p) t"
  shows "(ss_claims_allowed s \<longleftrightarrow> (\<exists>w. active_window p local = Some w \<and> local < w_stop w))
    \<and> (\<forall>w. active_window p local = Some w \<longrightarrow>
        ss_window_started_at s = Some (w_started w) \<and> ss_stop_claiming_at s = Some (w_stop w)
        \<and> ss_hard_cutoff_at s = w_cutoff w
        \<and> (\<exists>day\<in>{local div usec_day - 1, local div usec_day}. enabled_on p day \<and> w_started w = window_start p day)
        \<and> w_started w \<le> local \<and> w_started w < w_stop w \<and> w_stop w \<le> w_started w + usec_day
        \<and> pred_option (\<lambda>c. w_stop w \<le> c \<and> local < c) (w_cutoff w))"
proof (intro conjI allI impI)
  note state = evaluate_Inr [OF eval enabled, folded local]
  show "ss_claims_allowed s \<longleftrightarrow> (\<exists>w. active_window p local = Some w \<and> local < w_stop w)"
    by (simp add: state(1) split: option.splits)
  fix w assume w: "active_window p local = Some w"
  show "ss_window_started_at s = Some (w_started w)" "ss_stop_claiming_at s = Some (w_stop w)"
    "ss_hard_cutoff_at s = w_cutoff w"
    by (simp_all add: state w)
qed (use active_window_facts load_schedule_Inr(5) [OF load times] in blast)+

theorem claims_only_in_window_witness:
  "case evaluate (\<lambda>z t. t) demo_policy (Aware (combine 20500 60)) of
     Inl e \<Rightarrow> False | Inr s \<Rightarrow> ss_claims_allowed s"
proof -
  have "case evaluate (\<lambda>z t. t) demo_policy (Aware (combine 20500 60)) of Inl e \<Rightarrow> False | Inr s \<Rightarrow> True"
    by code_simp
  then obtain s where s: "evaluate (\<lambda>z t. t) demo_policy (Aware (combine 20500 60)) = Inr s"
    by (simp split: sum.splits)
  have on: "sp_enabled demo_policy" by code_simp
  have "case active_window demo_policy (combine 20500 60) of None \<Rightarrow> False | Some w \<Rightarrow> combine 20500 60 < w_stop w"
    by code_simp
  then show ?thesis
    using claims_only_in_window [OF demo_policy_accepted demo_times_in_day s on refl]
    by (auto simp: s split: option.splits)
qed

text \<open>
  The next window a state reports is the first one, within today and the eight days after it,
  that belongs to an enabled day and starts later than now; it reports none exactly when there is
  no such day.
\<close>

theorem next_window_is_first:
  assumes "evaluate to_local p (Aware t) = Inr s" and "sp_enabled p"
    and "local = to_local (sp_timezone p) t" and "today = local div usec_day"
  shows "case ss_next_window_at s of
      None \<Rightarrow> \<forall>k\<in>{0..8}. \<not> opens_after p local (today + k)
    | Some n \<Rightarrow> \<exists>k\<in>{0..8}. n = window_start p (today + k) \<and> opens_after p local (today + k)
        \<and> (\<forall>j\<in>{0..<k}. \<not> opens_after p local (today + j))"
proof -
  define days where "days = map (\<lambda>k. today + int k) [0..<9]"
  have "next_window p local days = Inr (ss_next_window_at s)"
    using evaluate_Inr(5) [OF assms(1,2)] unfolding days_def assms(3,4) .
  note first = next_window_Inr [OF this]
  have len: "length days = 9" by (simp only: days_def length_map length_upt)
  have nth: "days ! i = today + int i" if "i < 9" for i
    using that by (simp add: days_def nth_upt del: upt_rec_numeral)
  have pos: "\<exists>i<9. k = int i" if "k \<in> {0..8}" for k
    using that by (intro exI [of _ "nat k"]) auto
  show ?thesis
  proof (cases "ss_next_window_at s")
    case None
    with first have "\<forall>i<9. \<not> opens_after p local (today + int i)" by (simp add: list_all_length len nth)
    then show ?thesis using pos by (force simp: None)
  next
    case (Some n)
    with first obtain i where i: "i < 9" "n = window_start p (today + int i)" "opens_after p local (today + int i)"
      and before: "\<forall>j<i. \<not> opens_after p local (days ! j)" by (auto simp: len nth)
    have "\<not> opens_after p local (today + j)" if "j \<in> {0..<int i}" for j
    proof -
      from that have j: "nat j < i" "int (nat j) = j" by auto
      then show ?thesis using before [rule_format, OF j(1)] nth [of "nat j"] i(1) by simp
    qed
    moreover have "int i \<in> {0..8}" using i(1) by simp
    ultimately show ?thesis using i(2,3) by (simp only: Some option.case) blast
  qed
qed

theorem next_window_is_first_witness:
  "case evaluate (\<lambda>z t. t) demo_policy (Aware (combine 20500 60)) of
     Inl e \<Rightarrow> False | Inr s \<Rightarrow> (case ss_next_window_at s of None \<Rightarrow> False | Some n \<Rightarrow> combine 20500 60 < n)"
proof -
  have "case evaluate (\<lambda>z t. t) demo_policy (Aware (combine 20500 60)) of Inl e \<Rightarrow> False
      | Inr s \<Rightarrow> ss_next_window_at s \<noteq> None"
    by code_simp
  then obtain s n where s: "evaluate (\<lambda>z t. t) demo_policy (Aware (combine 20500 60)) = Inr s" "ss_next_window_at s = Some n"
    by (auto split: sum.splits)
  have on: "sp_enabled demo_policy" by code_simp
  show ?thesis
    using next_window_is_first [OF s(1) on refl refl] s by (auto simp: opens_after_def)
qed

text \<open>
  An accepted policy can be evaluated at every moment with a time zone, provided no
  override falls on 1 January 2026, the one date on which the loader tries the base window.
\<close>

theorem accepted_policy_evaluates:
  assumes "load_operations_policy env document = Inr p"
    and "TRIAL_DATE \<notin> do_date ` set (sp_date_overrides (op_schedule p))"
  shows "\<exists>s. evaluate to_local (op_schedule p) (Aware t) = Inr s"
proof -
  from assms(1) have "load_schedule env document = Inr (op_schedule p)"
    by (auto simp: load_operations_policy_def results)
  then show ?thesis
    by (intro evaluate_total) (simp add: all_windows_ok_def accepted_windows_ok [OF _ assms(2)])
qed

theorem accepted_policy_evaluates_witness:
  "case load_operations_policy demo_policy_env (demo_schedule [] ''07:00'') of
     Inl e \<Rightarrow> False | Inr p \<Rightarrow> \<exists>s. evaluate (\<lambda>z t. t + 3600000000) (op_schedule p) (Aware 7) = Inr s"
proof -
  have "case load_operations_policy demo_policy_env (demo_schedule [] ''07:00'') of
      Inl e \<Rightarrow> False | Inr p \<Rightarrow> sp_date_overrides (op_schedule p) = []"
    by code_simp
  then obtain p where p: "load_operations_policy demo_policy_env (demo_schedule [] ''07:00'') = Inr p"
    "sp_date_overrides (op_schedule p) = []" by (auto split: sum.splits)
  from accepted_policy_evaluates [OF p(1)] p show ?thesis by simp
qed

text \<open>
  C22. An accepted policy need not evaluate: the loader accepts a base window whose cutoff
  is before its stop when an override on 1 January 2026 hides it, and evaluating that policy raises
  at every moment, in every time zone, on the day of the override too.
\<close>

theorem hidden_base_window:
  "load_schedule demo_policy_env (demo_schedule [hiding_override] ''05:00'') = Inr hiding_policy
   \<and> evaluate to_local hiding_policy (Aware t) = Inl (ValueError ''schedule stop_claiming must not be after hard_cutoff'')"
proof
  show "load_schedule demo_policy_env (demo_schedule [hiding_override] ''05:00'') = Inr hiding_policy"
    by (rule hiding_policy_accepted)
  let ?today = "to_local ''UTC'' t div usec_day" and ?e = "ValueError ''schedule stop_claiming must not be after hard_cutoff''"
  have base: "window_of hiding_policy day = Inl ?e" if "day \<noteq> TRIAL_DATE" for day
  proof -
    have "override_for hiding_policy day = None" using that by (simp add: override_for_def hiding_policy_def)
    then show ?thesis by (simp add: window_of_eq clocks_of_def clocks_ok_def hiding_policy_def demo_policy_def boundary_def
          combine_def usec_day_def)
  qed
  have "map_result (window_of hiding_policy) [?today - 1, ?today] = Inl ?e"
  proof (cases "?today - 1 = TRIAL_DATE")
    case True
    then have "window_of hiding_policy ?today = Inl ?e" by (intro base) simp
    then show ?thesis using base by (cases "window_of hiding_policy (?today - 1)") (auto simp: window_of_eq split: if_splits prod.splits)
  qed (simp add: base)
  then show "evaluate to_local hiding_policy (Aware t) = Inl ?e"
    by (simp add: evaluate_def Let_def hiding_policy_def demo_policy_def)
qed

section \<open>Binary inspection\<close>

text \<open>
  C23. The inspector only accepts a file whose header and every program and section header lie
  inside it, at the offsets the header declares, with entries large enough for their fields.  The
  Ghidra language follows from the machine, byte order and class of the header, and the file is
  stripped exactly when no section header is a symbol table.
\<close>

theorem elf_read_in_bounds:
  assumes "inspect_elf sha256 path data = Inr f"
  shows "take 4 data = [0x7f, 0x45, 0x4c, 0x46] \<and> ef_class f \<in> {32, 64} \<and> ef_size f = length data
    \<and> accepted_layout data (ef_class f) (elf_header_of data)
    \<and> ef_ghidra_language_hint f =
        ghidra_language (machine_name (eh_machine (elf_header_of data))) (ef_endianness f) (ef_class f)
    \<and> (ef_stripped f \<longleftrightarrow> \<not> (\<exists>i<eh_section_count (elf_header_of data).
         read_uint (ef_endianness f) (take 4 (drop (eh_section_offset (elf_header_of data)
           + i * eh_section_entry_size (elf_header_of data) + 4) data)) = SHT_SYMTAB))"
  using inspect_elf_Inr [OF assms] by (simp add: elf_bits_def)

theorem elf_read_in_bounds_witness:
  "accepted_layout demo_elf 32 (elf_header_of demo_elf)"
proof -
  obtain f where f: "inspect_elf (\<lambda>_. ''d0'') ''target.elf'' demo_elf = Inr f" "ef_class f = 32"
    using inspect_elf_file [OF demo_elf_writable, of Big demo_name_table "\<lambda>_. ''d0''" "''target.elf''"] demo_elf_names(2)
    by (auto simp: demo_elf_def)
  from elf_read_in_bounds [OF f(1)] show ?thesis by (simp add: f(2))
qed

text \<open>
  C24. Whatever program and section headers are written after the file header, for either class and
  either byte order, the inspector accepts the file exactly when the section name table that it names, if
  it names one, lies inside it.  It then reports the written type, machine, entry point and flags, a
  dynamic segment and an interpreter exactly when a program header has that type, symbols exactly
  when a section header is a symbol table, and the section names, in order and without the empty ones:
  a name written into the table at a section's offset is the one that is read.
\<close>

theorem elf_round_trip:
  assumes "writable bits fs programs sections name_index"
    and "data = elf_file bits order fs programs sections name_index rest"
  shows "if name_table_inside data sections name_index
    then \<exists>f names. inspect_elf sha256 path data = Inr f
      \<and> ef_class f = bits \<and> ef_endianness f = order \<and> ef_type f = fs ! 0 \<and> ef_machine_id f = fs ! 1
      \<and> ef_entry_point f = hex (fs ! 3) \<and> ef_flags f = hex (fs ! 4)
      \<and> (ef_dynamic_segment f \<longleftrightarrow> PT_DYNAMIC \<in> set (map hd programs))
      \<and> (ef_interpreter f \<longleftrightarrow> PT_INTERP \<in> set (map hd programs))
      \<and> (ef_stripped f \<longleftrightarrow> SHT_SYMTAB \<notin> set (map (\<lambda>s. s ! 1) sections))
      \<and> ef_section_names f = filter (\<lambda>n. n \<noteq> []) names
      \<and> (if name_index < length sections
          then names = map (\<lambda>s. c_string (name_table data sections name_index) (s ! 0)) sections
            \<and> (\<forall>i<length sections. \<forall>name.
                 written_name (name_table data sections name_index) (sections ! i ! 0) name \<longrightarrow> names ! i = unicode_of name)
          else names = [])
    else inspect_elf sha256 path data = Inl (ElfInspectionError ''truncated ELF while reading section name table'')"
proof -
  have "\<forall>i<length sections. \<forall>name. written_name table (sections ! i ! 0) name \<longrightarrow>
      map (\<lambda>s. c_string table (s ! 0)) sections ! i = unicode_of name" for table
    by (simp add: c_string_written)
  then show ?thesis
    using inspect_elf_file [OF assms(1), of order rest sha256 path] unfolding assms(2)
    by (simp split: if_splits)
qed

theorem elf_round_trip_witness:
  "\<exists>f. inspect_elf (\<lambda>_. ''d0'') ''target.elf'' demo_elf = Inr f \<and> ef_machine_id f = 20
    \<and> ef_interpreter f \<and> \<not> ef_dynamic_segment f \<and> \<not> ef_stripped f
    \<and> ef_section_names f = [unicode_of ''.symtab'', unicode_of ''.shstrtab'']"
proof -
  obtain f names where f: "inspect_elf (\<lambda>_. ''d0'') ''target.elf'' demo_elf = Inr f" "ef_machine_id f = 20"
      "ef_interpreter f" "\<not> ef_dynamic_segment f" "\<not> ef_stripped f" "ef_section_names f = filter (\<lambda>n. n \<noteq> []) names"
    and names: "names = map (\<lambda>s. c_string (name_table demo_elf demo_sections 1) (s ! 0)) demo_sections"
    using elf_round_trip [OF demo_elf_writable demo_elf_def, of "\<lambda>_. ''d0''" "''target.elf''"] demo_elf_names(2)
    by (auto simp: demo_programs_def demo_sections_def PT_INTERP_def PT_DYNAMIC_def SHT_SYMTAB_def)
  have "names = [unicode_of ''.symtab'', unicode_of ''.shstrtab'']"
    unfolding names demo_elf_names(1)
    by (simp add: demo_sections_def c_string_written [OF demo_elf_names(3) [unfolded One_nat_def]] c_string_written [OF demo_elf_names(4)])
  then show ?thesis using f by (simp add: unicode_of_def)
qed

section \<open>Portable FID matching\<close>

text \<open>
  C25. Matching succeeds exactly when addresses and candidate identities are unique and every
  candidate shares its function's full hash; then every function is decided in order, and its
  matches are, in order, exactly the accepted candidates of the highest score, with none only if
  no candidate was accepted.  The score vector always reconciles.
\<close>

theorem fid_winners_are_best:
  "if well_formed fs \<and> same_hashes fs
   then \<exists>r. match_cpu a fs = Inr r \<and> map fd_address (fr_functions r) = map ff_address fs
      \<and> map fd_matches (fr_functions r) = map (\<lambda>f.
          map (\<lambda>c. \<lparr>fm_id = fc_id c, fm_owner = fc_owner c, fm_name = fc_name c, fm_score = the (score a f c)\<rparr>)
            (filter (best a f) (ff_candidates f))) fs
      \<and> fr_matched_functions r = length (filter (\<lambda>f. \<exists>c\<in>set (ff_candidates f). score a f c \<noteq> None) fs)
   else \<exists>e. match_cpu a fs = Inl e"
proof -
  have "best_matches a f \<noteq> [] \<longleftrightarrow> (\<exists>c\<in>set (ff_candidates f). score a f c \<noteq> None)" for f
    by (simp add: best_matches_empty)
  then show ?thesis
    using match_cpu_eq [of fs a] match_cpu_Inl [of fs a]
    by (simp add: decision_of_def o_def best_matches_def [symmetric])
qed

text \<open>
  Evidence never counts against a candidate: more function, specific, child or parent code
  units under the same flags never reject an accepted candidate and never lower its binary32
  score, whatever the rounding.
\<close>

theorem fid_evidence_monotone:
  assumes "evidence_le r r'" and "0 \<le> fa_weight a" and "score_cpu_row a r = Some s"
  shows "\<exists>s'. score_cpu_row a r' = Some s' \<and> s \<le> s'"
  by (rule score_row_mono [OF assms])

theorem fid_evidence_monotone_witness:
  "\<exists>s'. score demo_authority demo_function (demo_candidate ''c9'' ''musl'' 31) = Some s' \<and> 22 \<le> s'"
proof -
  let ?row = "\<lambda>n. row_of demo_authority demo_function (demo_candidate ''c9'' ''musl'' n)"
  have "evidence_le (?row 20) (?row 31)"
    by (simp add: evidence_le_def row_of_def demo_candidate_def demo_function_def candidate_flags_def)
  moreover have "0 \<le> fa_weight demo_authority" by (simp add: demo_authority_def)
  moreover have "score_cpu_row demo_authority (?row 20) = Some 22"
    using demo_scores(1) by (simp only: score_def)
  ultimately show ?thesis unfolding score_def by (rule fid_evidence_monotone)
qed

text \<open>
  C26. A comparison calls a backend equivalent exactly when, for every address, native and
  portable decisions name the same candidates and their scores differ by at most the permitted
  binary32 steps; otherwise it counts every address where they do not, and the reported and the
  truncated mismatches together are that count.
\<close>

theorem fid_oracle_equivalence:
  assumes "compare_with_oracle a fs ds = Inr r"
  defines "differ \<equiv> {address. \<not> agree (fa_max_ulps a) (lookup (native_scores fs) address)
      (lookup (portable_scores ds) address)}"
  shows "(cm_state r = ''equivalent'' \<longleftrightarrow> differ = {}) \<and> cm_decision_mismatches r = card differ
    \<and> length (cm_mismatches r) + cm_truncated r = card differ"
proof -
  note cmp = compare_with_oracle_Inr [OF assms(1), folded differ_def]
  have "differ \<subseteq> fst ` set (native_scores fs) \<union> fst ` set (portable_scores ds)"
    using lookup_outside [of _ "native_scores fs"] lookup_outside [of _ "portable_scores ds"]
    by (fastforce simp: differ_def agree_def)
  then have "finite differ" by (rule finite_subset) simp
  then show ?thesis using cmp by simp
qed

theorem fid_oracle_equivalence_witness:
  "\<exists>r. compare_with_oracle demo_authority [demo_function] [decision_of demo_authority demo_function] = Inr r
     \<and> (cm_state r = ''equivalent'' \<longleftrightarrow> (\<forall>address. agree 1 (lookup (native_scores [demo_function]) address)
          (lookup (portable_scores [decision_of demo_authority demo_function]) address)))"
proof -
  obtain r where r: "compare_with_oracle demo_authority [demo_function] [decision_of demo_authority demo_function] = Inr r"
    using demo_comparison by blast
  from fid_oracle_equivalence [OF r] show ?thesis using r by (auto simp: demo_authority_def)
qed

text \<open>
  The confusion matrix reconciles: every function is labelled or unlabelled, a labelled one
  contributes one true positive or false negative, false positives and true negatives together
  make one decision per other owner, and three observations are kept for every counted outcome.
\<close>

theorem fid_confusion_reconciles:
  assumes "classify_matches fs owners portable = Inr c"
  shows "let t = cl_tally c; n = card (set owners)
    in tl_labelled t + tl_unlabelled t = length fs \<and> tl_tp t + tl_fn t = int (tl_labelled t)
     \<and> tl_fp t + tl_tn t = int (tl_labelled t) * (int n - 1)
     \<and> int (length (tl_observations t)) = 3 * (tl_tp t + tl_fn t + tl_fp t)"
proof -
  note cls = classify_matches_Inr [OF assms]
  have "length (cl_owners c) = card (set owners)" by (simp add: cls(1) length_remdups_card_conv)
  moreover have "tl_labelled (cl_tally c) + tl_unlabelled (cl_tally c) = length fs"
    using classify_total [OF cls(3)] by (simp add: empty_tally_def)
  ultimately show ?thesis using cls(4) by (simp add: tally_ok_def Let_def)
qed

theorem fid_confusion_reconciles_witness:
  "\<exists>c. classify_matches [stray_function] [''musl'', ''zlib''] None = Inr c
     \<and> tl_fp (cl_tally c) + tl_tn (cl_tally c) = int (tl_labelled (cl_tally c))"
proof -
  obtain c where c: "classify_matches [stray_function] [''musl'', ''zlib''] None = Inr c"
    using negative_true_negatives by blast
  from fid_confusion_reconciles [OF c] show ?thesis using c by (simp add: Let_def)
qed

section \<open>Remote workers: the artifact transfer\<close>

text \<open>
  C27. The transfer of an artifact that is not empty and within the coordinator's size limit
  ends and delivers it: against a coordinator that holds nothing, or any prefix that covers at least the first chunk, the worker's loop returns, the finished
  file holds exactly the bytes of the artifact and no partial or metadata file is left.
\<close>

theorem upload_delivers:
  assumes "\<forall>x. token_digest (sha256 x)" "artifact \<noteq> []" "length artifact \<le> m"
    and "holds_prefix sha256 relative artifact n fs" "n = 0 \<or> min MAX_CHUNK_BYTES (length artifact) \<le> n"
  shows "upload sha256 (serve_chunk sha256 m relative) artifact fs = Some
    (\<lparr>uf_destination = Some artifact, uf_partial = None, uf_metadata = None\<rparr>, Inr ())"
  using upload_delivers_from [OF assms(1-4)] assms(5) by (simp add: delivered_def)

theorem upload_delivers_witness:
  "upload demo_digest (serve_chunk demo_digest 4096 ''result.fidb'') [1, 2, 3] no_files = Some
    (\<lparr>uf_destination = Some [1, 2, 3], uf_partial = None, uf_metadata = None\<rparr>, Inr ())"
  by (rule upload_delivers [OF demo_digest_ok, where n = 0]) (simp_all add: holds_prefix_def no_files_def)

text \<open>
  C28. Whatever chunk is sent and wherever the call is cut by a crash, a finished artifact is never
  rewritten, and one that appears has the declared SHA-256, the declared size and at most the permitted
  one; a call that answers complete has left it in place.
\<close>

theorem upload_integrity:
  assumes "store_upload_chunk sha256 m fs relative content asha whole offset csha final = (writes, r)"
  shows "(case uf_destination fs of
       Some old \<Rightarrow> uf_destination (durable_steps (cut_writes writes k j) fs) = Some old
     | None \<Rightarrow> (case uf_destination (durable_steps (cut_writes writes k j) fs) of
           None \<Rightarrow> True
         | Some stored \<Rightarrow> sha256 stored = asha \<and> whole = Some (JInt (int (length stored))) \<and> length stored \<le> m))
   \<and> (case r of Inl e \<Rightarrow> True
      | Inr a \<Rightarrow> if ack_complete a
          then (\<exists>stored. uf_destination (durable_steps writes fs) = Some stored \<and> sha256 stored = asha
             \<and> whole = Some (JInt (int (length stored))))
          else True)"
proof -
  let ?d = "uf_destination fs" and ?d' = "uf_destination (durable_steps (cut_writes writes k j) fs)"
  have "?d' = ?d \<or> ?d = None \<and> (\<exists>stored. ?d' = Some stored \<and> sha256 stored = asha
      \<and> whole = Some (JInt (int (length stored))) \<and> length stored \<le> m)"
    using chunk_cut_destination [OF assms refl, of k j] by blast
  moreover have "r = Inr a \<Longrightarrow> ack_complete a \<Longrightarrow> \<exists>stored. uf_destination (durable_steps writes fs) = Some stored
      \<and> sha256 stored = asha \<and> whole = Some (JInt (int (length stored)))" for a
    using chunk_complete assms by simp
  ultimately show ?thesis by (auto split: option.splits sum.splits)
qed

theorem upload_integrity_witness:
  "store_upload_chunk demo_digest 4096 no_files ''result.fidb'' [1, 2, 3] (demo_digest [1, 2, 3])
       (Some (JInt 3)) (Some (JInt 0)) (demo_digest [1, 2, 3]) (Some (JBool True)) =
     ([Create_Metadata, Write_Metadata (identity_of demo_digest ''result.fidb'' [1, 2, 3]), Touch_Partial,
       Append [1, 2, 3], Promote, Drop_Metadata],
      Inr \<lparr>ack_path = ''result.fidb'', ack_sha256 = demo_digest [1, 2, 3], ack_bytes = 3, ack_next_offset = 3,
           ack_complete = True\<rparr>) \<and> (\<exists>stored. uf_destination (durable_steps [Create_Metadata,
       Write_Metadata (identity_of demo_digest ''result.fidb'' [1, 2, 3]), Touch_Partial, Append [1, 2, 3], Promote,
       Drop_Metadata] no_files) = Some stored \<and> demo_digest stored = demo_digest [1, 2, 3])"
  (is "?call \<and> _")
proof -
  have call: ?call
    using demo_digest_ok
    by (simp add: store_upload_chunk_def chunk_arguments_def store_chunk_def no_files_def open_partial_def
        append_chunk_def finish_upload_def partial_bytes_def identity_of_def MAX_CHUNK_BYTES_def Let_def)
  show ?thesis using call upload_integrity [OF call, of 0 0] by (simp split: option.splits)
qed

text \<open>
  C29. A transfer whose first chunk was interrupted cannot be resumed, though the
  coordinator keeps the partial file to resume from: when the crash fell between the metadata file and
  the partial file, or tore the first append, every rerun of the transfer is refused and changes nothing.
\<close>

theorem interrupted_upload_stuck:
  fixes relative :: string
  assumes "\<forall>x. token_digest (sha256 x)" "artifact \<noteq> []" "length artifact \<le> m"
    and "k \<in> {1, 2} \<or> k = 3 \<and> 0 < j \<and> j < min MAX_CHUNK_BYTES (length artifact)"
  defines "fs \<equiv> durable_steps (cut_writes (first_writes sha256 m relative artifact) k j) no_files"
  shows "\<exists>message. upload sha256 (serve_chunk sha256 m relative) artifact fs = Some (fs, Inl (RemoteWorkerError message))"
proof (cases "k = 3")
  case True
  then have "holds_prefix sha256 relative artifact j fs"
    using interrupted_files(2) [OF assms(1-3), of relative j] assms(4) by (simp add: fs_def min_def split: if_splits)
  then show ?thesis using torn_chunk_refused [OF assms(1-3)] assms(4) True by auto
next
  case False
  then obtain t where "fs = no_files\<lparr>uf_metadata := Some t\<rparr>"
    using interrupted_files(1) [OF assms(1-3), of k relative j] assms(4) by (auto simp: fs_def)
  then show ?thesis using only_metadata_refused [OF assms(1-3), of fs relative] by (simp add: no_files_def)
qed

theorem interrupted_upload_stuck_witness:
  "\<exists>fs message. fs = durable_steps (cut_writes (first_writes demo_digest 4096 ''result.fidb'' [1, 2, 3]) 3 1) no_files
     \<and> uf_partial fs = Some [1]
     \<and> upload demo_digest (serve_chunk demo_digest 4096 ''result.fidb'') [1, 2, 3] fs
       = Some (fs, Inl (RemoteWorkerError message))"
proof -
  have "uf_partial (durable_steps (cut_writes (first_writes demo_digest 4096 ''result.fidb'' [1, 2, 3]) 3 1) no_files) = Some [1]"
    using interrupted_files(2) [OF demo_digest_ok, of "[1, 2, 3]" 4096 "''result.fidb''" 1]
    by (simp add: holds_prefix_def MAX_CHUNK_BYTES_def)
  then show ?thesis using interrupted_upload_stuck [OF demo_digest_ok, of "[1, 2, 3]" 4096 3 1 "''result.fidb''"]
    by (simp add: MAX_CHUNK_BYTES_def)
qed

section \<open>Remote workers: the endpoint\<close>

text \<open>
  C30. Whatever is sent to the worker endpoint, by whom and however it ends, the ledger
  moves only as the coordinator moves it: nothing recorded is rewritten or lost and every invariant of
  the ledger still holds.
\<close>

theorem remote_request_keeps_ledger:
  assumes "ledger_inv (wd_ledger w)" and "remote_post env operation header doc w = (r, w')"
  shows "evolves (wd_ledger w) (wd_ledger w') \<and> ledger_inv (wd_ledger w')"
  using safe_remote_post [of w env operation header doc] assms by (simp add: keeps_ledger_def)

theorem remote_request_keeps_ledger_witness:
  "ledger_inv (wd_ledger (snd (remote_post demo_remote_env ''claim'' ''Bearer secret'' demo_claim demo_host)))"
  using remote_request_keeps_ledger [OF demo_host_inv surjective_pairing] by blast

text \<open>
  C31. A remote worker is handed a lease only when its token is that of its credential, its
  credential lists the pool it asks for and the queue is armed; the leased job suits that pool, belongs
  to an active batch and is now held by that worker, and either blocks are finished once started and
  the job's batch is the admitted primary or look-ahead, or the schedule allows claims at that moment.
\<close>

theorem remote_claim_gated_by:
  assumes "ledger_inv (wd_ledger w)" and "remote_post env ''claim'' header doc w = (Inr (Granted l p), w')"
  shows "\<exists>c pool queue operations schedule. c \<in> set (re_credentials env)
    \<and> re_token_sha256 env (drop 7 header) = wc_token_sha256 c
    \<and> map_of doc ''worker_id'' = Some (JStr (wc_worker_id c))
    \<and> map_of doc ''pool'' = Some (JStr pool) \<and> pool \<in> set (wc_pools c)
    \<and> re_queue env = Inr (queue, operations) \<and> qc_armed queue
    \<and> evaluate (re_to_local env) (op_schedule operations) (Aware (re_moment env)) = Inr schedule
    \<and> granted_within (wd_ledger w') (wc_worker_id c) pool (op_schedule operations) schedule l"
proof -
  obtain c u where c: "c \<in> set (re_credentials env)" "map_of doc ''worker_id'' = Some (JStr (wc_worker_id c))"
      "re_token_sha256 env (drop 7 header) = wc_token_sha256 c"
    and u: "keeps_ledger w u" and run: "remote_operation env ''claim'' doc c u = (Inr (Granted l p), w')"
    by (rule remote_post_Inr [OF assms(2)])
  from run have claim: "remote_claim env c doc u = (Inr (Granted l p), w')" by (simp add: remote_operation_def)
  have "ledger_inv (wd_ledger u)" using u assms(1) by (simp add: keeps_ledger_def)
  from remote_claim_gated [OF claim this] c show ?thesis by blast
qed

theorem remote_claim_gated_by_witness:
  "\<exists>l p w'. remote_post demo_remote_env ''claim'' ''Bearer secret'' demo_claim demo_host = (Inr (Granted l p), w')
    \<and> lp_job_id l = ''j1'' \<and> (\<exists>c pool queue operations schedule. c \<in> set (re_credentials demo_remote_env)
      \<and> map_of demo_claim ''pool'' = Some (JStr pool) \<and> pool \<in> set (wc_pools c)
      \<and> re_queue demo_remote_env = Inr (queue, operations) \<and> qc_armed queue
      \<and> granted_within (wd_ledger w') (wc_worker_id c) pool (op_schedule operations) schedule l)"
proof -
  let ?p = "remote_post demo_remote_env ''claim'' ''Bearer secret'' demo_claim demo_host"
  obtain l p where l: "fst ?p = Inr (Granted l p)" "lp_job_id l = ''j1''"
    using demo_host_claim by (auto split: sum.splits remote_response.splits)
  then have run: "?p = (Inr (Granted l p), snd ?p)" by (simp add: prod_eq_iff)
  from remote_claim_gated_by [OF demo_host_inv run] l run show ?thesis by blast
qed



text \<open>
  C33. A failure whose message has a second line, another control character or more than 4096
  characters never reaches the queue: the endpoint refuses the worker's report, the worker ignores the
  refusal, and every job, the leased one too, is as it was, whatever the failure was.
\<close>

theorem unprintable_failure_lost:
  assumes "list_ex control_char (error_message e) \<or> length (error_message e) > 4096"
  shows "fst (report_failure env header worker l e w) = False
    \<and> jobs (wd_ledger (snd (report_failure env header worker l e w))) = jobs (wd_ledger w)"
  using failure_report_lost [OF assms surjective_pairing] .

theorem unprintable_failure_lost_witness:
  "list_ex (\<lambda>j. job_id j = remote_job \<and> job_state j = Leased \<and> leased_by j = Some ''w1'')
     (jobs (wd_ledger (snd (report_failure demo_remote_env ''Bearer secret'' ''w1'' demo_lease demo_failure demo_leased_host))))"
proof -
  have "list_ex control_char (error_message demo_failure)" by code_simp
  then have "jobs (wd_ledger (snd (report_failure demo_remote_env ''Bearer secret'' ''w1'' demo_lease demo_failure demo_leased_host)))
      = jobs (wd_ledger demo_leased_host)" using unprintable_failure_lost by blast
  moreover have "list_ex (\<lambda>j. job_id j = remote_job \<and> job_state j = Leased \<and> leased_by j = Some ''w1'')
     (jobs (wd_ledger demo_leased_host))" by code_simp
  ultimately show ?thesis by (simp only:)
qed

text \<open>
  C34. Inside an operating window the switch \<open>require_estimated_fit_before_cutoff\<close> has no effect:
  whether the tail of a block is filled is decided by the time that is left in the window, switched on
  or off.
\<close>

theorem tail_fit_flag_ignored:
  assumes "evaluate (re_to_local env) policy (Aware t) = Inr schedule" and "sp_enabled policy"
  shows "fill_tail env (tail\<lparr>tf_require_fit := b\<rparr>) schedule worker block = fill_tail env tail schedule worker block"
proof -
  have "ss_claims_allowed schedule \<Longrightarrow> ss_stop_claiming_at schedule \<noteq> None"
    using evaluate_Inr(1,3) [OF assms] by (auto split: option.splits)
  then show ?thesis
    by (auto simp: fill_tail_def fits_before_cutoff_def fun_eq_iff split: option.split)
qed

theorem tail_fit_flag_ignored_witness:
  "\<exists>schedule. evaluate (re_to_local demo_remote_env) demo_policy (Aware 0) = Inr schedule \<and> ss_claims_allowed schedule
    \<and> fill_tail demo_remote_env (sp_tail_fill demo_policy\<lparr>tf_require_fit := False\<rparr>) schedule ''w1''
        (Some (execution_block (wd_ledger demo_host))) demo_host
      = fill_tail demo_remote_env (sp_tail_fill demo_policy) schedule ''w1''
        (Some (execution_block (wd_ledger demo_host))) demo_host"
proof -
  have "case evaluate (re_to_local demo_remote_env) demo_policy (Aware 0) of Inl _ \<Rightarrow> False | Inr s \<Rightarrow> ss_claims_allowed s"
    by code_simp
  then obtain schedule where schedule: "evaluate (re_to_local demo_remote_env) demo_policy (Aware 0) = Inr schedule"
    "ss_claims_allowed schedule" by (auto split: sum.splits)
  have "sp_enabled demo_policy" by (simp add: demo_policy_def)
  with schedule show ?thesis
    by (intro exI [of _ schedule] conjI) (simp_all only: tail_fit_flag_ignored [OF schedule(1)])
qed

section \<open>Publication\<close>

text \<open>
  C35. Publishing is all or nothing and binds what it publishes: a refusal leaves the staged and
  the published files alone; otherwise the attempt had not been published, the staged files became the
  published ones in one step, and the seal among them has the digest of the result, names its cell and
  the digests of both databases as they are, which are also the digests the result records.
\<close>

theorem publication_binds_seal:
  "case durably_publish parse sha256 loads result staging final of
     (Inl e, staging', final') \<Rightarrow> staging' = staging \<and> final' = final
   | (Inr _, staging', final') \<Rightarrow> \<exists>t payload seal cell artifacts fidb fidbf doc.
       final = None \<and> staging = Some t \<and> staging' = None \<and> final' = Some t
       \<and> t (rr_seal_path result) = Some payload \<and> sha256 payload = rr_seal_sha256 result \<and> loads payload = Some seal
       \<and> jget seal ''cell'' = Some (JObj cell) \<and> map_of cell ''id'' = Some (JStr (rr_cell_id result))
       \<and> jget seal ''artifacts'' = Some artifacts
       \<and> t (rr_fidb_path result) = Some fidb \<and> t (rr_fidbf_path result) = Some fidbf
       \<and> jget (opt_json (jget artifacts ''fidb'')) ''sha256'' = Some (JStr (sha256 fidb))
       \<and> jget (opt_json (jget artifacts ''fidbf'')) ''sha256'' = Some (JStr (sha256 fidbf))
       \<and> result_document sha256 result t place = Inr doc
       \<and> jget (opt_json (jget doc ''seal'')) ''sha256'' = Some (JStr (sha256 payload))
       \<and> jget (opt_json (jget doc ''fidb'')) ''sha256'' = Some (JStr (sha256 fidb))
       \<and> jget (opt_json (jget doc ''fidbf'')) ''sha256'' = Some (JStr (sha256 fidbf))"
proof (cases "fst (durably_publish parse sha256 loads result staging final)")
  case (Inl e)
  then show ?thesis by (auto simp: durably_publish_def Let_def split: sum.splits)
next
  case (Inr u)
  then obtain s f where run: "durably_publish parse sha256 loads result staging final = (Inr (), s, f)"
    by (metis old.unit.exhaust prod.exhaust_sel)
  show ?thesis using published_files [OF run, of place] unfolding run by simp
qed

text \<open>
  C36. When a remote completion succeeds, the result in the request names the leased cell,
  its kind and its executor.  The attempt had not been published before; exactly what lay in its staging
  directory, unfinished uploads included, is published now, having passed the checks against the seal
  of that result, and the staging directory is gone.  The job is complete, and the result recorded with it
  is the result of the request with the digests of the published files and the timing of the publication.
\<close>

theorem remote_completion_publishes:
  assumes "ledger_inv (wd_ledger w)" and "remote_complete env worker jid token generation doc w = (Inr r, w')"
  shows "\<exists>result cell L t document recorder job. L = snd (renew jid token generation (re_now env 1) None (wd_ledger w))
    \<and> remote_result doc = Inr result \<and> resolved_cell_of jid L = Some cell
    \<and> completed_identity doc cell \<and> jget cell ''id'' = Some (JStr (rr_cell_id result))
    \<and> t = staged_tree (re_metadata_bytes env) (wd_staging w (jid, generation))
    \<and> wd_published w (jid, generation) = None \<and> wd_published w' (jid, generation) = Some t
    \<and> wd_staging w' (jid, generation) = (\<lambda>_. no_files)
    \<and> durably_publish (re_iso env) (re_sha256 env) (re_loads env) result (Some t) None = (Inr (), None, Some t)
    \<and> result_document (re_sha256 env) result t (attempt_root (jid, generation)) = Inr document
    \<and> r = CompletedJob job \<and> job \<in> set (jobs (wd_ledger w')) \<and> job_id job = jid \<and> job_state job = Complete
    \<and> result_json job = Some (sort_keys (with_timing document (recorded_timing env result recorder)))"
  by (rule remote_complete_Inr [OF assms(2,1)])

theorem remote_completion_publishes_witness:
  "\<exists>job w'. remote_complete demo_publishing_env ''w1'' remote_job ''t1'' 1 demo_completion demo_leased_host = (Inr (CompletedJob job), w')
    \<and> job \<in> set (jobs (wd_ledger w')) \<and> job_id job = remote_job \<and> job_state job = Complete
    \<and> wd_published w' (remote_job, 1) = Some (staged_tree (re_metadata_bytes demo_publishing_env) (wd_staging demo_leased_host (remote_job, 1)))"
proof -
  let ?p = "remote_complete demo_publishing_env ''w1'' remote_job ''t1'' 1 demo_completion demo_leased_host"
  obtain r where "fst ?p = Inr r" using demo_host_completes by (metis sum.collapse(2))
  then have run: "?p = (Inr r, snd ?p)" by (simp add: prod_eq_iff)
  from remote_completion_publishes [OF demo_leased_inv run] show ?thesis using run by metis
qed

text \<open>
  C37. Whatever a cell's recorder went through, as long as no span failed, its clocks behave and
  the databases are regular non-empty files: once the runner has written the seal, publication accepts
  the result, provided the seal reads back as it was written.  Runner and publisher agree on every check.
\<close>

theorem sealed_output_publishable:
  assumes "recorded parse cb r"
      "list_all (\<lambda>e. pg_status e \<noteq> FAILED \<and> pg_stage e \<noteq> PUBLICATION) (tr_terminal r)"
    and "clock_ok parse k" "before_ns \<le> after_ns" "after_ns - tr_started_ns r \<le> MAX_DURATION_NS"
    and "provenance_ok co" "\<forall>file content. attempt file = Some content \<longrightarrow> int (length content) \<le> MAX_DURATION_NS"
    and "artifact_record sha256 attempt (co_fidb co) ''FIDB'' = Inr fidb"
      "artifact_record sha256 attempt (co_fidbf co) ''FIDBF'' = Inr fidbf"
    and "seal_cell sha256 dumps callback before_ns k after_ns co fidb fidbf r (attempt, s) = (Inr result, r', files, s')"
    and "loads (dumps (seal_document co fidb fidbf (timing_document before_ns r)))
          = Some (sort_keys (seal_document co fidb fidbf (timing_document before_ns r)))"
  shows "durably_publish parse sha256 loads result (Some files) None = (Inr (), None, Some files)"
  by (rule sealed_cell_publishes [where r = r and k = k and before_ns = before_ns and after_ns = after_ns and co = co
      and attempt = attempt and fidb = fidb and fidbf = fidbf and dumps = dumps and callback = callback and s = s
      and r' = r' and s' = s' and parse = parse and ?sha256.0 = sha256 and result = result and files = files and loads = loads, OF recorded_ok [OF assms(1)] assms(2-)])

theorem sealed_output_publishable_witness:
  "\<exists>result r' files. demo_sealed = (Inr result, r', files, ())
    \<and> durably_publish demo_parse demo_digest demo_loads result (Some files) None = (Inr (), None, Some files)"
proof -
  obtain result r' files where run: "demo_sealed = (Inr result, r', files, ())"
    using demo_sealed_ok by (metis old.unit.exhaust prod.collapse sum.collapse(2))
  have "recorded demo_parse (\<lambda>s e. (Inr (), s)) demo_recorder"
    unfolding demo_recorder_def by (rule recorded.start) (simp add: utc_text_def demo_parse_def ends_with_def)
  moreover have "clock_ok demo_parse demo_clock" "provenance_ok demo_outputs"
    by (simp add: clock_ok_def demo_clock_def utc_text_def demo_parse_def ends_with_def, code_simp)
  moreover have "\<forall>file content. demo_files file = Some content \<longrightarrow> int (length content) \<le> MAX_DURATION_NS"
    by (simp add: demo_files_def)
  moreover have "artifact_record demo_digest demo_files (co_fidb demo_outputs) ''FIDB'' = Inr (fst demo_records)"
      "artifact_record demo_digest demo_files (co_fidbf demo_outputs) ''FIDBF'' = Inr (snd demo_records)"
    by (simp_all add: demo_records_def demo_outputs_def artifact_record_def demo_files_def ok_of_def)
  ultimately have "durably_publish demo_parse demo_digest demo_loads result (Some files) None = (Inr (), None, Some files)"
    by (intro sealed_output_publishable [OF _ _ _ _ _ _ _ _ _ run [unfolded demo_sealed_def]])
      (simp_all add: demo_recorder_def new_recorder_def demo_loads_def demo_seal_def)
  with run show ?thesis by blast
qed

section \<open>Collection of attempts\<close>

text \<open>
  C38. Under a policy the loader accepts, every action of a compiled collection plan is justified by
  the ledger and the files.  Scratch is pruned only inside the attempt of a completed job that no hold
  names, whose required artifacts lie in it with the digests the result records, and that a lane receipt
  covers when the policy asks for one.  Bundled are only failed or expired attempts that no hold names and
  that own the one staging directory of their generation: first the latest, by number and id, of all such
  attempts of the job, and the others only when they failed with its fingerprint.
\<close>

theorem retention_plan_justified:
  assumes "load_retention_policy project source authority document = Inr policy"
    and "compile_retention_plan env policy holds fs L trigger session batch = Inr plan" "a \<in> set (pl_actions plan)"
  shows "case a of
      PruneSuccess jid target receipt stats \<Rightarrow> \<exists>job\<in>set (jobs L). \<exists>attempt seal_sha256 kept result.
        job_id job = jid \<and> job_state job = Complete \<and> hold_for holds jid None = None
        \<and> verify_success env policy fs job = Inr (attempt, seal_sha256, kept) \<and> below attempt target
        \<and> result_json job = Some result \<and> map ka_name kept = rt_required_result_artifacts policy
        \<and> (\<forall>k\<in>set kept. kept_ok env fs attempt result k)
        \<and> receipt = fst (valid_lane_receipt env policy fs jid attempt seal_sha256)
        \<and> (rt_preserve_until_lane_imported policy \<longrightarrow> receipt)
    | BundleFailed b \<Rightarrow> bundle_justified env policy holds fs L b"
proof (cases a)
  case (PruneSuccess jid target receipt stats)
  then obtain job attempt seal_sha256 kept relative where job: "job \<in> set (jobs L)" "job_id job = jid" "job_state job = Complete"
      "hold_for holds jid None = None" "verify_success env policy fs job = Inr (attempt, seal_sha256, kept)"
      "receipt = fst (valid_lane_receipt env policy fs jid attempt seal_sha256)" "rt_preserve_until_lane_imported policy \<longrightarrow> receipt"
    and target: "relative \<in> set (rt_prune_after_receipt policy)"
      "project_path (rv_root env) attempt relative ''successful scratch target'' = Inr target"
    using compile_justified [OF assms(2,3)] by (auto simp: action_justified_def prune_justified_def)
  have "\<not> unsafe_relative relative" using loaded_prunes_safe [OF assms(1)] target(1) by (simp add: list_all_iff)
  from project_path_below [OF target(2) this] have "below attempt target" by simp
  with job verify_success_Inr [OF job(5)] show ?thesis unfolding PruneSuccess retention_action.case by blast
next
  case (BundleFailed b)
  then show ?thesis using compile_justified [OF assms(2,3)] by (simp add: action_justified_def)
qed

theorem retention_plan_justified_witness:
  "BundleFailed failed_bundle \<in> set (pl_actions failed_plan)
   \<and> bundle_justified retention_world retention_rules [] failed_files failed_ledger failed_bundle"
  using retention_plan_justified [OF rules_loaded failed_plan_compiled, of "BundleFailed failed_bundle"]
  by (simp add: failed_plan_simps)

text \<open>
  C39. Applying a plan either refuses, and then it has at most created the collector's lock file, or
  the queue was idle and compiling again gave the digest of the saved plan.  Then, however the application
  ends, the failed removals of the file system included, a file may go or change only below a path of one
  of its actions and a file may come only below the place of one of its bundles, the lock file and the
  state file apart.  When it ends well the state file holds the result, which lists every action of the
  plan, and nothing is left below a path of an action but files of bundles and the state file.
\<close>

theorem retention_apply_scoped:
  "case apply_retention_plan env digest_of policy holds L digest saved fs of (r, fs') \<Rightarrow>
     isl r \<and> (fs' = fs \<or> fs' = fs @ [(lock_path policy, [])])
     \<or> (\<exists>p current locked. saved = Some p \<and> digest_of p = digest \<and> digest_of current = digest
        \<and> take_lock policy fs = (Inr (), locked) \<and> assert_apply_idle L = Inr ()
        \<and> compile_retention_plan env policy holds locked L (pl_trigger p) (Some (pl_session p)) (pl_batch p) = Inr current
        \<and> (\<forall>f\<in>set fs. f \<in> set fs' \<or> (\<exists>a\<in>set (pl_actions p). \<exists>q\<in>set (action_paths a). below q (fst f))
             \<or> \<not> isl r \<and> fst f = rt_state policy)
        \<and> (\<forall>f\<in>set fs'. f \<in> set fs \<or> f = (lock_path policy, [])
             \<or> (\<exists>b. BundleFailed b \<in> set (pl_actions p) \<and> below (fb_path b) (fst f))
             \<or> (\<exists>document. r = Inr document \<and> f = (rt_state policy, rv_dumps env document)))
        \<and> (case r of Inl e \<Rightarrow> True | Inr document \<Rightarrow>
             map_of fs' (rt_state policy) = Some (rv_dumps env document)
             \<and> jget document ''completed_actions'' = Some (JArr (map completed_action (pl_actions p)))
             \<and> (\<forall>f\<in>set fs'. \<forall>a\<in>set (pl_actions p). \<forall>q\<in>set (action_paths a). below q (fst f) \<longrightarrow>
                  fst f = rt_state policy \<or> (\<exists>b. BundleFailed b \<in> set (pl_actions p) \<and> below (fb_path b) (fst f)))))"
proof -
  obtain r fs' where run: "apply_retention_plan env digest_of policy holds L digest saved fs = (r, fs')" by fastforce
  from run show ?thesis
  proof (cases rule: apply_cases)
    case (refused e)
    then show ?thesis by (auto simp: run)
  next
    case (ran p current locked applied fs2)
    note locked = take_lock_changes [OF ran(3)]
    have "changes_only (concat (map action_paths (pl_actions p))) (bundle_paths (pl_actions p)) locked fs2"
      by (rule apply_actions_changes [OF ran(7)])
    then have scoped: "\<forall>f\<in>set fs. f \<in> set fs2 \<or> (\<exists>a\<in>set (pl_actions p). \<exists>q\<in>set (action_paths a). below q (fst f))"
        "\<forall>f\<in>set fs2. f \<in> set fs \<or> f = (lock_path policy, [])
           \<or> (\<exists>b. BundleFailed b \<in> set (pl_actions p) \<and> below (fb_path b) (fst f))"
      using locked unfolding changes_only_def bundle_paths_ex unfolding list_ex_iff by auto
    show ?thesis
    proof (cases r)
      case (Inl e)
      then have "fs' = fs2" using ran(8) by simp
      then show ?thesis unfolding run using ran(1-6) scoped Inl by auto
    next
      case (Inr document)
      then obtain total where total: "applied = Inr total" "document = applied_document env digest p total"
          "fs' = filter (\<lambda>f. fst f \<noteq> rt_state policy) fs2 @ [(rt_state policy, rv_dumps env document)]"
        using ran(8) by auto
      note whole = apply_actions_Inr [OF ran(7) [unfolded total(1)]]
      have "jget document ''completed_actions'' = Some (JArr (map completed_action (pl_actions p)))"
        using whole by (simp add: total(2) applied_document_def split: option.split)
      moreover have "map_of fs' (rt_state policy) = Some (rv_dumps env document)"
        unfolding total(3) by (rule map_of_state)
      moreover have "\<forall>f\<in>set fs'. \<forall>a\<in>set (pl_actions p). \<forall>q\<in>set (action_paths a). below q (fst f) \<longrightarrow>
          fst f = rt_state policy \<or> (\<exists>b. BundleFailed b \<in> set (pl_actions p) \<and> below (fb_path b) (fst f))"
        using whole unfolding total(3) bundle_paths_ex by auto
      ultimately show ?thesis unfolding run using ran(1-6) scoped Inr total(3) by auto
    qed
  qed
qed

theorem retention_apply_scoped_witness:
  "fst ` set failed_files \<subseteq> {q. below attempt_dir q}
   \<and> snd (apply_retention_plan retention_world files_digest retention_rules [] failed_ledger (replicate 64 (CHR ''a''))
        (Some failed_plan) failed_files) = collected_files"
proof -
  obtain document where run: "apply_retention_plan retention_world files_digest retention_rules [] failed_ledger
    (replicate 64 (CHR ''a'')) (Some failed_plan) failed_files = (Inr document, collected_files)" using failed_plan_applied by blast
  have gone: "\<forall>f\<in>set failed_files. f \<notin> set collected_files \<and> fst f \<noteq> rt_state retention_rules" by code_simp
  have "\<forall>f\<in>set failed_files. f \<in> set collected_files \<or> below attempt_dir (fst f) \<or> fst f = rt_state retention_rules"
    using retention_apply_scoped [where env = retention_world and digest_of = files_digest and policy = retention_rules
        and holds = "[]" and L = failed_ledger and digest = "replicate 64 (CHR ''a'')" and saved = "Some failed_plan" and fs = failed_files]
    unfolding run by (auto simp: failed_plan_simps action_paths_def)
  with gone show ?thesis unfolding run by auto
qed

text \<open>
  C40. A collection that stopped after its evidence bundle had appeared and before its sources
  were gone cannot be taken up again.  When the plan of what is left still bundles at the same place, under
  another digest because it counts fewer files, applying it fails: the bundle that is there names the old plan.
\<close>

theorem interrupted_collection_stuck:
  assumes "\<not> path_exists fs (fb_path b)" "interrupted_collection env digest b gone fs = Inr left"
    and "rv_loads env (rv_dumps env (bundle_document digest b)) = Some v" "jget v ''plan_digest'' = Some (JStr digest)"
    and "compile_retention_plan env policy holds left L trigger session batch = Inr current"
      "BundleFailed again \<in> set (pl_actions current)" "fb_path again = fb_path b" "digest_of current \<noteq> digest"
    and "list_all (\<lambda>p. \<not> below p (fb_path b @ [''evidence.json'']))
      (fb_sources b @ concat (map action_paths (pl_actions current)))"
  shows "\<exists>e. fst (apply_retention_plan env digest_of policy holds L (digest_of current) (Some current) left) = Inl e"
proof (rule foreign_bundle_blocks_apply [OF assms(5,6)])
  have "map_of left (fb_path b @ [''evidence.json'']) = Some (rv_dumps env (bundle_document digest b))"
    using interrupted_evidence [OF assms(2,1)] assms(9) by simp
  then show "foreign_bundle env (digest_of current) again left"
    using assms(3,4,7,8) by (simp add: foreign_bundle_def)
qed (use assms(7,9) in simp)

theorem interrupted_collection_stuck_witness:
  "interrupted_collection retention_world (replicate 64 (CHR ''a'')) failed_bundle [attempt_dir @ [''scratch.bin'']] locked_files
     = Inr left_files
   \<and> compile_retention_plan retention_world retention_rules [] left_files failed_ledger ''manual'' (Some ''s'') None = Inr left_plan
   \<and> (\<exists>e. fst (apply_retention_plan retention_world files_digest retention_rules [] failed_ledger (files_digest left_plan)
        (Some left_plan) left_files) = Inl e)"
proof -
  obtain again where again: "pl_actions left_plan = [BundleFailed again]" "fb_sources again = [attempt_dir]" "fb_path again = bundle_dir"
    using left_plan_simps(2) by blast
  let ?a = "replicate 64 (CHR ''a'')"
  let ?doc = "JObj [(''plan_digest'', JStr ?a), (''failure_fingerprint'', JStr (replicate 64 (CHR ''f'')))]"
  have places: "\<not> path_exists locked_files (fb_path failed_bundle)"
      "list_all (\<lambda>p. \<not> below p (fb_path failed_bundle @ [''evidence.json'']))
        (fb_sources failed_bundle @ concat (map action_paths (pl_actions left_plan)))"
    unfolding again failed_plan_simps by (rule failed_evidence_copied(1), simp add: action_paths_def again(2), code_simp)
  have document: "rv_loads retention_world (rv_dumps retention_world v) = Some ?doc" for v by (simp add: retention_world_def)
  have foreign: "jget ?doc ''plan_digest'' = Some (JStr ?a)" by code_simp
  have here: "BundleFailed again \<in> set (pl_actions left_plan)" "fb_path again = fb_path failed_bundle"
      "files_digest left_plan \<noteq> ?a"
    by (simp_all add: again failed_plan_simps left_plan_simps(1))
  have "\<exists>e. fst (apply_retention_plan retention_world files_digest retention_rules [] failed_ledger (files_digest left_plan)
        (Some left_plan) left_files) = Inl e"
    by (rule interrupted_collection_stuck [where digest_of = files_digest, OF places(1) failed_collection_interrupted document foreign left_plan_compiled here places(2)])
  then show ?thesis using failed_collection_interrupted left_plan_compiled by blast
qed

section \<open>The JVM options of a Ghidra process\<close>

text \<open>
  When the inherited options are plain words, the composed text splits into them followed by
  at most the two bounds, it holds exactly one maximum heap and exactly one core limit that read back as
  the requested numbers, and composing again changes nothing.
\<close>

theorem java_options_pinned:
  assumes "shlex_split (strip inherited) = Inr words" "list_all plain words"
    and "java_options heap cores inherited = Inr out"
  shows "\<exists>added. shlex_split (strip out) = Inr (words @ added) \<and> java_options heap cores out = Inr out
    \<and> (case heap of None \<Rightarrow> True | Some m \<Rightarrow>
         \<exists>item. filter is_heap (words @ added) = [item] \<and> heap_mib item = Inr (Some m))
    \<and> (case cores of None \<Rightarrow> True | Some c \<Rightarrow>
         \<exists>item. filter is_core_limit (words @ added) = [item] \<and> py_int (after_equals item) = Some c)
    \<and> (heap = None \<and> cores = None \<longrightarrow> added = [])"
  by (rule java_options_tokens [OF assms]) (auto split: option.splits)

theorem java_options_pinned_witness:
  "java_options (Some 4096) (Some 4) ''-Xmx4g -Da=b'' = Inr ''-Xmx4g -Da=b -Dcpu.core.limit=4''
   \<and> java_options (Some 4096) (Some 4) ''-Xmx4g -Da=b -Dcpu.core.limit=4'' = Inr ''-Xmx4g -Da=b -Dcpu.core.limit=4''"
proof -
  have "shlex_split (strip ''-Xmx4g -Da=b'') = Inr [''-Xmx4g'', ''-Da=b'']" "list_all plain [''-Xmx4g'', ''-Da=b'']"
      "java_options (Some 4096) (Some 4) ''-Xmx4g -Da=b'' = Inr ''-Xmx4g -Da=b -Dcpu.core.limit=4''"
    by code_simp+
  from java_options_pinned [OF this] this(3) show ?thesis by auto
qed

end
